(* ===== verification/Prelude.thy ===== *)
theory Prelude
  imports Main "HOL-Library.Word" "HOL-Library.Char_ord" "HOL-Library.List_Lexorder"
begin

text \<open>
  Shared vocabulary of the development: machine integers, Rust results and clocks, the checked and
  saturating arithmetic the code calls, byte encodings of integers, the UTF-8 facts about
  byte strings, and the locales of step machines that the components interpret.

  A Rust \<open>Result<T, E>\<close> is a sum with the error on the left. A Rust \<open>String\<close> is its UTF-8
  byte sequence, one \<open>char\<close> per byte, so \<open>length\<close> is Rust's \<open>len()\<close>. An \<open>Instant\<close> and
  a \<open>Duration\<close> are counts of nanoseconds; \<open>Instant\<close> subtraction saturates at zero.
\<close>

unbundle bit_operations_syntax

section \<open>Types\<close>

type_synonym u8 = "8 word"
type_synonym u16 = "16 word"
type_synonym u32 = "32 word"
type_synonym u64 = "64 word"
type_synonym i32 = "32 word"

text \<open>Floating point values travel through the modelled code unchanged: they are their bit patterns.\<close>

type_synonym f32 = "32 word"
type_synonym f64 = "64 word"

type_synonym bytes = "u8 list"
type_synonym ('e, 'a) result = "'e + 'a"
type_synonym instant = nat
type_synonym duration = nat

named_theorems code_defs \<open>definitions of the modelled operations that proofs unfold\<close>

section \<open>Results and options\<close>

abbreviation Err :: "'e \<Rightarrow> ('e, 'a) result" where
  "Err \<equiv> Inl"

abbreviation Ok :: "'a \<Rightarrow> ('e, 'a) result" where
  "Ok \<equiv> Inr"

definition is_ok :: "('e, 'a) result \<Rightarrow> bool" where
  "is_ok r = (case r of Inl _ \<Rightarrow> False | Inr _ \<Rightarrow> True)"

lemma is_ok_simps [simp]: "is_ok (Inr x)" "\<not> is_ok (Inl e)"
  by (simp_all add: is_ok_def)

lemma is_ok_iff: "is_ok r \<longleftrightarrow> (\<exists>x. r = Inr x)"
  by (cases r) (simp_all add: is_ok_def)

section \<open>Clocks\<close>

definition from_secs :: "nat \<Rightarrow> duration" where
  "from_secs n = n * 1000000000"

definition from_millis :: "nat \<Rightarrow> duration" where
  "from_millis n = n * 1000000"

definition duration_since :: "instant \<Rightarrow> instant \<Rightarrow> duration" where
  "duration_since now earlier = now - earlier"

section \<open>Checked and saturating arithmetic\<close>

definition checked_add :: "'a::len word \<Rightarrow> 'a word \<Rightarrow> 'a word option" where
  "checked_add a b = (if unat a + unat b < 2 ^ LENGTH('a) then Some (a + b) else None)"

definition saturating_add :: "'a::len word \<Rightarrow> 'a word \<Rightarrow> 'a word" where
  "saturating_add a b = (if unat a + unat b < 2 ^ LENGTH('a) then a + b else - 1)"

lemma checked_add_Some:
  assumes "checked_add a b = Some c"
  shows "unat c = unat a + unat b" "c = a + b"
  using assms by (auto simp: checked_add_def unat_word_ariths split: if_splits)

lemma unat_lt_pow: "unat (a :: 'a::len word) < 2 ^ LENGTH('a)"
  by (rule unsigned_less)

lemma uint_minus_one_max: "uint (- 1 :: 'a::len word) = 2 ^ LENGTH('a) - 1"
  by (simp add: uint_word_ariths zmod_minus1)

lemma unat_minus_one_max: "unat (- 1 :: 'a::len word) = 2 ^ LENGTH('a) - 1"
  by (simp add: unat_eq_nat_uint uint_minus_one_max nat_diff_distrib nat_power_eq)

lemma unat_saturating_add:
  "unat (saturating_add a (b :: 'a::len word)) = min (unat a + unat b) (2 ^ LENGTH('a) - 1)"
proof -
  have "(2 :: nat) ^ LENGTH('a) > 0" by simp
  then show ?thesis
    by (auto simp: saturating_add_def unat_word_ariths unat_minus_one_max min_def)
qed

lemma saturating_add_mono: "a \<le> saturating_add a b"
proof -
  have "unat a \<le> 2 ^ LENGTH('a) - 1"
    using unat_lt_pow [of a] by linarith
  then show ?thesis
    by (simp add: word_le_nat_alt unat_saturating_add)
qed

lemma saturating_add_0 [simp]: "saturating_add a 0 = a"
  using unat_lt_pow [of a] by (simp add: saturating_add_def)

section \<open>Byte encodings of integers\<close>

text \<open>\<open>to_be_bytes\<close> with the width in bytes, and its inverse \<open>from_be_bytes\<close>.\<close>

fun be_bytes :: "nat \<Rightarrow> nat \<Rightarrow> bytes" where
  "be_bytes 0 n = []"
| "be_bytes (Suc k) n = be_bytes k (n div 256) @ [of_nat (n mod 256)]"

definition from_be_bytes :: "bytes \<Rightarrow> nat" where
  "from_be_bytes bs = foldl (\<lambda>acc b. acc * 256 + unat b) 0 bs"

lemma length_be_bytes [simp]: "length (be_bytes k n) = k"
  by (induction k arbitrary: n) simp_all

lemma from_be_bytes_snoc [simp]: "from_be_bytes (bs @ [b]) = from_be_bytes bs * 256 + unat b"
  by (simp add: from_be_bytes_def)

lemma from_be_bytes_Nil [simp]: "from_be_bytes [] = 0"
  by (simp add: from_be_bytes_def)

lemma unat_of_nat_byte [simp]: "unat (of_nat (n mod 256) :: u8) = n mod 256"
  by (simp add: unat_of_nat)

lemma from_be_bytes_be_bytes [simp]: "n < 256 ^ k \<Longrightarrow> from_be_bytes (be_bytes k n) = n"
proof (induction k arbitrary: n)
  case 0
  then show ?case by simp
next
  case (Suc k)
  have "n div 256 < 256 ^ k"
    using Suc.prems by (simp add: less_mult_imp_div_less mult.commute)
  then show ?case
    by (simp add: Suc.IH)
qed

lemma from_be_bytes_lt: "from_be_bytes bs < 256 ^ length bs"
proof (induction bs rule: rev_induct)
  case Nil
  then show ?case by simp
next
  case (snoc b bs)
  have "unat b < 256"
    using unat_lt_pow [of b] by simp
  with snoc show ?case by simp
qed

lemma be_bytes_from_be_bytes [simp]: "be_bytes (length bs) (from_be_bytes bs) = bs"
proof (induction bs rule: rev_induct)
  case Nil
  then show ?case by simp
next
  case (snoc b bs)
  have "unat b < 256"
    using unat_lt_pow [of b] by simp
  with snoc show ?case by simp
qed

lemma be_bytes_inject:
  "m < 256 ^ k \<Longrightarrow> n < 256 ^ k \<Longrightarrow> be_bytes k m = be_bytes k n \<longleftrightarrow> m = n"
  by (metis from_be_bytes_be_bytes)

section \<open>Strings as UTF-8 bytes\<close>

text \<open>
  A byte starts a character unless it has the form \<open>10xxxxxx\<close>. On a valid UTF-8 string the
  number of such bytes is Rust's \<open>chars().count()\<close>.
\<close>

definition utf8_start :: "char \<Rightarrow> bool" where
  "utf8_start c = (of_char c AND (192 :: u8) \<noteq> 128)"

definition char_count :: "string \<Rightarrow> nat" where
  "char_count s = length (filter utf8_start s)"

lemma char_count_le_length: "char_count s \<le> length s"
  by (simp add: char_count_def)

text \<open>\<open>as_bytes\<close> and the string of a byte sequence.\<close>

definition as_bytes :: "string \<Rightarrow> bytes" where
  "as_bytes s = map of_char s"

definition bytes_str :: "bytes \<Rightarrow> string" where
  "bytes_str bs = map (\<lambda>b. char_of (unat b)) bs"

lemma unat_of_char_byte: "unat (of_char c :: u8) = of_char c"
proof -
  have "(of_char c :: u8) = of_nat (of_char c)"
    by (simp add: of_nat_of_char)
  also have "unat \<dots> = of_char c mod 2 ^ 8"
    by (simp only: unat_of_nat) simp
  also have "\<dots> = of_char c"
    using nat_of_char_less_256 [of c] by simp
  finally show ?thesis .
qed

lemma bytes_str_as_bytes [simp]: "bytes_str (as_bytes s) = s"
  by (induction s) (simp_all add: bytes_str_def as_bytes_def unat_of_char_byte)

lemma length_as_bytes [simp]: "length (as_bytes s) = length s"
  by (simp add: as_bytes_def)

lemma as_bytes_inject [simp]: "as_bytes s = as_bytes t \<longleftrightarrow> s = t"
  by (metis bytes_str_as_bytes)

lemma as_bytes_bytes_str [simp]: "as_bytes (bytes_str bs) = bs"
proof (induction bs)
  case Nil
  then show ?case by (simp add: as_bytes_def bytes_str_def)
next
  case (Cons b bs)
  have "unat b < 256"
    using unat_lt_pow [of b] by simp
  then have "(of_char (char_of (unat b)) :: nat) = unat b"
    by simp
  then have "unat (of_char (char_of (unat b)) :: u8) = unat b"
    by (simp only: unat_of_char_byte)
  then have "(of_char (char_of (unat b)) :: u8) = b"
    by (simp only: word_unat_eq_iff)
  with Cons show ?case by (simp add: as_bytes_def bytes_str_def)
qed

text \<open>\<open>String::from_utf8\<close>: the well-formed byte sequences of the Unicode standard (table 3-7).\<close>

definition utf8_cont :: "u8 \<Rightarrow> bool" where
  "utf8_cont b \<longleftrightarrow> 0x80 \<le> b \<and> b \<le> 0xBF"

fun valid_utf8 :: "bytes \<Rightarrow> bool" where
  "valid_utf8 [] = True"
| "valid_utf8 (a # bs) =
     (if a \<le> 0x7F then valid_utf8 bs
      else if 0xC2 \<le> a \<and> a \<le> 0xDF then
        (case bs of b # r \<Rightarrow> utf8_cont b \<and> valid_utf8 r | _ \<Rightarrow> False)
      else if 0xE0 \<le> a \<and> a \<le> 0xEF then
        (case bs of b # c # r \<Rightarrow>
           (if a = 0xE0 then 0xA0 \<le> b \<and> b \<le> 0xBF
            else if a = 0xED then 0x80 \<le> b \<and> b \<le> 0x9F else utf8_cont b)
           \<and> utf8_cont c \<and> valid_utf8 r
         | _ \<Rightarrow> False)
      else if 0xF0 \<le> a \<and> a \<le> 0xF4 then
        (case bs of b # c # d # r \<Rightarrow>
           (if a = 0xF0 then 0x90 \<le> b \<and> b \<le> 0xBF
            else if a = 0xF4 then 0x80 \<le> b \<and> b \<le> 0x8F else utf8_cont b)
           \<and> utf8_cont c \<and> utf8_cont d \<and> valid_utf8 r
         | _ \<Rightarrow> False)
      else False)"

definition from_utf8 :: "bytes \<Rightarrow> string option" where
  "from_utf8 bs = (if valid_utf8 bs then Some (bytes_str bs) else None)"

definition valid_str :: "string \<Rightarrow> bool" where
  "valid_str s = valid_utf8 (as_bytes s)"

lemma from_utf8_as_bytes: "valid_str s \<Longrightarrow> from_utf8 (as_bytes s) = Some s"
  by (simp add: from_utf8_def valid_str_def)

lemma from_utf8_Some: "from_utf8 bs = Some s \<longleftrightarrow> valid_utf8 bs \<and> bs = as_bytes s"
  by (auto simp: from_utf8_def)

text \<open>\<open>str::strip_prefix\<close>, \<open>split_once\<close> and \<open>rsplit_once\<close> at a character.\<close>

fun split_once :: "char \<Rightarrow> string \<Rightarrow> (string \<times> string) option" where
  "split_once c [] = None"
| "split_once c (x # xs) =
     (if x = c then Some ([], xs)
      else map_option (\<lambda>(a, b). (x # a, b)) (split_once c xs))"

definition rsplit_once :: "char \<Rightarrow> string \<Rightarrow> (string \<times> string) option" where
  "rsplit_once c s = map_option (\<lambda>(a, b). (rev b, rev a)) (split_once c (rev s))"

fun split_on :: "char \<Rightarrow> string \<Rightarrow> string list" where
  "split_on c [] = [[]]"
| "split_on c (x # xs) =
     (if x = c then [] # split_on c xs
      else (case split_on c xs of [] \<Rightarrow> [[x]] | p # ps \<Rightarrow> (x # p) # ps))"

lemma split_once_None_iff [simp]: "split_once c s = None \<longleftrightarrow> c \<notin> set s"
  by (induction s) auto

lemma split_once_Some: "split_once c s = Some (a, b) \<longleftrightarrow> s = a @ c # b \<and> c \<notin> set a"
proof (induction s arbitrary: a b)
  case Nil
  then show ?case by simp
next
  case (Cons x xs)
  show ?case
    by (cases a) (auto simp: Cons.IH)
qed

lemma rsplit_once_Some: "rsplit_once c s = Some (a, b) \<longleftrightarrow> s = a @ c # b \<and> c \<notin> set b"
proof -
  have "rsplit_once c s = Some (a, b) \<longleftrightarrow> split_once c (rev s) = Some (rev b, rev a)"
    by (auto simp: rsplit_once_def)
  also have "\<dots> \<longleftrightarrow> rev s = rev b @ c # rev a \<and> c \<notin> set b"
    by (simp add: split_once_Some)
  also have "rev s = rev b @ c # rev a \<longleftrightarrow> s = a @ c # b"
    by (metis append.assoc append_Cons append_Nil rev.simps(2) rev_append rev_rev_ident)
  finally show ?thesis .
qed

lemma rsplit_once_None_iff [simp]: "rsplit_once c s = None \<longleftrightarrow> c \<notin> set s"
  by (simp add: rsplit_once_def)

lemma split_on_not_Nil [simp]: "split_on c s \<noteq> []"
  by (induction s) (auto split: list.splits)

end
