(* ===== verification/Machines.thy ===== *)
theory Machines
  imports Prelude
begin

text \<open>
  The interfaces between the components and the arguments about them. A component offers a step
  function over its operations; a run is a fold of steps. Each locale states what the component
  promises of one step and proves once what then holds of every run:

  \<^item> \<open>guarded_machine\<close>: an invariant every step keeps;
  \<^item> \<open>progressing_machine\<close>: in addition a preorder along which the state only moves forward;
  \<^item> \<open>simulated_machine\<close>: in addition an abstraction that commutes with the steps;
  \<^item> \<open>keyed_table\<close>: insertion and lookup of a keyed store;
  \<^item> \<open>length_framing\<close>: a writer and a reader of delimited packets.
\<close>

section \<open>Step machines\<close>

locale guarded_machine =
  fixes step :: "'s \<Rightarrow> 'e \<Rightarrow> 's"
    and inv :: "'s \<Rightarrow> bool"
  assumes step_inv: "inv s \<Longrightarrow> inv (step s e)"
begin

lemma run_inv: "inv s \<Longrightarrow> inv (foldl step s es)"
  by (induction es arbitrary: s) (simp_all add: step_inv)

lemma run_prefix_inv: "inv s \<Longrightarrow> inv (foldl step s (take n es))"
  by (rule run_inv)

end

locale progressing_machine = guarded_machine step inv
  for step :: "'s \<Rightarrow> 'e \<Rightarrow> 's" and inv :: "'s \<Rightarrow> bool" +
  fixes le :: "'s \<Rightarrow> 's \<Rightarrow> bool"
  assumes le_refl: "le s s"
    and le_trans: "le s t \<Longrightarrow> le t u \<Longrightarrow> le s u"
    and step_le: "inv s \<Longrightarrow> le s (step s e)"
begin

lemma run_le: "inv s \<Longrightarrow> le s (foldl step s es)"
proof (induction es arbitrary: s)
  case Nil
  then show ?case by (simp add: le_refl)
next
  case (Cons e es)
  have "le s (step s e)"
    using Cons.prems by (rule step_le)
  moreover have "le (step s e) (foldl step (step s e) es)"
    using Cons.IH [OF step_inv [OF Cons.prems]] .
  ultimately show ?case
    by (simp add: le_trans)
qed

lemma run_le_append: "inv s \<Longrightarrow> le (foldl step s es) (foldl step s (es @ fs))"
  by (simp add: run_le run_inv)

end

locale simulated_machine = guarded_machine step inv
  for step :: "'s \<Rightarrow> 'e \<Rightarrow> 's" and inv :: "'s \<Rightarrow> bool" +
  fixes abs :: "'s \<Rightarrow> 'a"
    and astep :: "'a \<Rightarrow> 'e \<Rightarrow> 'a"
  assumes step_abs: "inv s \<Longrightarrow> abs (step s e) = astep (abs s) e"
begin

lemma run_abs: "inv s \<Longrightarrow> abs (foldl step s es) = foldl astep (abs s) es"
  by (induction es arbitrary: s) (simp_all add: step_abs step_inv)

end

section \<open>Keyed tables\<close>

text \<open>
  A table the code keeps by key: \<open>insert_entry\<close> overwrites one key, \<open>remove_entry\<close> drops one,
  \<open>find_entry\<close> reads one.
\<close>

locale keyed_table =
  fixes find_entry :: "'t \<Rightarrow> 'k \<Rightarrow> 'v option"
    and insert_entry :: "'k \<Rightarrow> 'v \<Rightarrow> 't \<Rightarrow> 't"
    and remove_entry :: "'k \<Rightarrow> 't \<Rightarrow> 't"
  assumes find_insert: "find_entry (insert_entry k v t) l = (if l = k then Some v else find_entry t l)"
    and find_remove: "find_entry (remove_entry k t) l = (if l = k then None else find_entry t l)"
begin

lemma find_insert_same: "find_entry (insert_entry k v t) k = Some v"
  by (simp add: find_insert)

lemma find_insert_other: "l \<noteq> k \<Longrightarrow> find_entry (insert_entry k v t) l = find_entry t l"
  by (simp add: find_insert)

lemma remove_after_insert:
  "find_entry (remove_entry k (insert_entry k v t)) l = find_entry (remove_entry k t) l"
  by (simp add: find_insert find_remove)

lemma insert_twice:
  "find_entry (insert_entry k w (insert_entry k v t)) l = find_entry (insert_entry k w t) l"
  by (simp add: find_insert)

end

section \<open>Delimited packets\<close>

text \<open>
  \<open>put x\<close> is the bytes a writer emits for one message, \<open>get bs\<close> what a reader takes off the front
  of a byte stream together with the rest of the stream.
\<close>

locale length_framing =
  fixes put :: "'m \<Rightarrow> ('e, bytes) result"
    and get :: "bytes \<Rightarrow> ('f, 'm \<times> bytes) result"
  assumes get_put: "put x = Ok bs \<Longrightarrow> get (bs @ rest) = Ok (x, rest)"
begin

lemma put_inject:
  assumes "put x = Ok bs" "put y = Ok bs"
  shows "x = y"
  using get_put [OF assms(1), of "[]"] get_put [OF assms(2), of "[]"] by simp

lemma put_prefix_free:
  assumes "put x = Ok bs" "put y = Ok cs" "cs = bs @ ds"
  shows "x = y \<and> ds = []"
  using get_put [OF assms(1), of ds] get_put [OF assms(2), of "[]"] assms(3) by simp

end

text \<open>Writing a list of messages, and reading a given number of them.\<close>

fun put_all :: "('m \<Rightarrow> ('e, bytes) result) \<Rightarrow> 'm list \<Rightarrow> ('e, bytes) result" where
  "put_all put [] = Ok []"
| "put_all put (x # xs) =
     (case put x of
        Inl e \<Rightarrow> Err e
      | Inr bs \<Rightarrow> (case put_all put xs of Inl e \<Rightarrow> Err e | Inr cs \<Rightarrow> Ok (bs @ cs)))"

fun get_n :: "(bytes \<Rightarrow> ('f, 'm \<times> bytes) result) \<Rightarrow> nat \<Rightarrow> bytes \<Rightarrow> ('f, 'm list \<times> bytes) result" where
  "get_n get 0 bs = Ok ([], bs)"
| "get_n get (Suc n) bs =
     (case get bs of
        Inl e \<Rightarrow> Err e
      | Inr (x, rest) \<Rightarrow>
          (case get_n get n rest of Inl e \<Rightarrow> Err e | Inr (xs, rest') \<Rightarrow> Ok (x # xs, rest')))"

context length_framing
begin

lemma stream_roundtrip:
  "put_all put xs = Ok bs \<Longrightarrow> get_n get (length xs) (bs @ rest) = Ok (xs, rest)"
proof (induction xs arbitrary: bs)
  case Nil
  then show ?case by simp
next
  case (Cons x xs)
  from Cons.prems obtain b cs where b: "put x = Ok b" and cs: "put_all put xs = Ok cs"
    and bs: "bs = b @ cs"
    by (auto split: sum.splits)
  show ?case
    using get_put [OF b, of "cs @ rest"] Cons.IH [OF cs] by (simp add: bs)
qed

end

end
