(* ===== verification/Protocol.thy ===== *)
theory Protocol
  imports Machines
begin

text \<open>
  The wire vocabulary of \<open>crates/edge-protocol/src/lib.rs\<close>: every message type the peers
  exchange, the accessors on them, the length-prefixed framing of \<open>write_frame\<close> and
  \<open>read_frame\<close>, and the round-trip meter \<open>HeartbeatPing\<close>. The MessagePack codec
  (\<open>rmp_serde\<close>) is not part of the repository: it is a pair of parameters \<open>enc\<close>, \<open>dec\<close>.
\<close>

section \<open>Constants\<close>

definition PROTOCOL_VERSION :: u16 where
  "PROTOCOL_VERSION = 2"

definition INITIAL_ROLE_EPOCH :: u64 where
  "INITIAL_ROLE_EPOCH = 1"

definition MAX_FRAME_BYTES :: nat where
  "MAX_FRAME_BYTES = 4 * 1024 * 1024"

definition CLIPBOARD_IMAGE_EXTENSION :: string where
  "CLIPBOARD_IMAGE_EXTENSION = ''clipboard-image-v1''"

definition INPUT_TOGGLE_EXTENSION :: string where
  "INPUT_TOGGLE_EXTENSION = ''input-toggle-v1''"

definition PAIRING_CONFIRMATION_EXTENSION :: string where
  "PAIRING_CONFIRMATION_EXTENSION = ''pairing-confirmation-v1''"

definition AUDIO_ROUTE_EXTENSION :: string where
  "AUDIO_ROUTE_EXTENSION = ''audio-route-v1''"

definition CLIPBOARD_TEXT_CHUNKS_EXTENSION :: string where
  "CLIPBOARD_TEXT_CHUNKS_EXTENSION = ''clipboard-text-chunks-v1''"

definition MAX_SECURE_FRAME_BYTES :: nat where
  "MAX_SECURE_FRAME_BYTES = 65535 - 16"

definition HYPR_PHONE_EXTENSION :: string where
  "HYPR_PHONE_EXTENSION = ''hypr-phone-v1''"

definition NOTIFICATIONS_EXTENSION :: string where
  "NOTIFICATIONS_EXTENSION = ''notifications-v1''"

definition NOTIFICATION_SYNC_EXTENSION :: string where
  "NOTIFICATION_SYNC_EXTENSION = ''notification-sync-v2''"

definition PHONE_AUDIO_INVITE_EXTENSION :: string where
  "PHONE_AUDIO_INVITE_EXTENSION = ''phone-audio-invite-v1''"

section \<open>Message types\<close>

datatype role = Controller | Receiver

datatype edge = EdgeLeft | EdgeRight | EdgeTop | EdgeBottom

datatype notification_key = NotificationKey (origin: string) (instance_of: string)

record shared_notification =
  sn_app_name :: string
  sn_title :: string
  sn_body :: string
  sn_icon :: string
  sn_icon_png :: "bytes option"
  sn_posted_ms :: u64
  sn_urgency :: u8

record notification_operation =
  op_sequence :: u64
  op_key :: notification_key
  op_content :: "shared_notification option"

record notification_record =
  rec_key :: notification_key
  rec_source_sequence :: u64
  rec_content :: "shared_notification option"

datatype notification_sync =
    Submit notification_operation
  | Ack u64
  | SnapshotStart string
  | SyncRecord notification_record
  | SnapshotEnd
  | Settings string

datatype pairing_event =
    PairingStatusEvent (ps_trusted: bool) (ps_armed: bool)
  | PairingDecision bool

datatype audio_direction = ToPhone | FromPhone

datatype phone_event =
    PairRequest string
  | PairAccepted
  | Unpair
  | AudioRequest "audio_direction option" u16
  | AudioStart audio_direction bytes bytes bytes u16
  | AudioStopped string
  | AudioInvite audio_direction

record phone_notification =
  pn_id :: u64
  pn_app_name :: string
  pn_title :: string
  pn_body :: string
  pn_icon_png :: "bytes option"
  pn_posted_ms :: u64

definition MAX_APP_NAME_CHARS :: nat where
  "MAX_APP_NAME_CHARS = 64"

definition MAX_TITLE_CHARS :: nat where
  "MAX_TITLE_CHARS = 256"

definition MAX_BODY_BYTES :: nat where
  "MAX_BODY_BYTES = 4096"

definition MAX_ICON_BYTES :: nat where
  "MAX_ICON_BYTES = 24 * 1024"

datatype notification_event =
    Posted phone_notification
  | Removed u64
  | PhoneSnapshotStart
  | PhoneSnapshotEnd

datatype capability = AudioV1

datatype node_capability =
    InputCaptureV1 | InputInjectV1 | RoleSwitchV1
  | ScreenInfoBothSidesV1 | AudioCaptureV1 | AudioPlaybackV1

record hello =
  hello_protocol_version :: u16
  hello_device_name :: string
  hello_role :: role
  hello_public_key_fingerprint :: string
  hello_capabilities :: "capability list"
  hello_extensions :: "string list"
  hello_node_capabilities :: "node_capability list"

datatype audio_codec = PcmS16Stereo48Khz

datatype audio_stream_state =
    AudioDisabled | AudioWaitingForUdp | AudioStarting | AudioStreaming | AudioError

datatype audio_stop_reason =
    StopUserRequest | StopPeerDisconnected | StopTransportFailure
  | StopCaptureFailure | StopPlaybackFailure | StopShutdown

datatype audio_control =
    RequestRoute "string option"
  | SetRoute "string option"
  | Offer u16 "audio_codec list"
  | Start u16 bytes bytes bytes audio_codec u16 u16
  | SetEnabled bool
  | AudioState audio_stream_state "string option"
  | Stop audio_stop_reason

record output_info =
  out_name :: string
  out_width :: u32
  out_height :: u32
  out_scale :: f32
  out_x :: i32
  out_y :: i32

record screen_info =
  si_outputs :: "output_info list"
  si_primary_output :: string

datatype mouse_button = ButtonLeft | ButtonRight | ButtonMiddle | ButtonBack | ButtonForward

datatype input_event =
    PointerMotion f64 f64
  | PointerButton mouse_button bool
  | PointerWheel f64 f64
  | Key u16 bool
  | AllKeysUp

record input_frame =
  if_role_epoch :: u64
  if_event :: input_event

datatype clipboard_cancel_reason = Replaced | Rejected | TimedOut | Invalid

datatype clipboard_event =
    TextOffer (co_sequence: u64) (co_text: string)
  | TextRequest
  | ContentRequest
  | ImageStart u64 u64 u32 u32 u32 bytes
      \<comment> \<open>\<open>transfer_id, sequence, width, height, total_bytes, content_sha256\<close>\<close>
  | ImageChunk u64 u32 bytes \<comment> \<open>\<open>transfer_id, offset, bytes\<close>\<close>
  | ImageEnd u64
  | ImageCancel u64 clipboard_cancel_reason
  | TextStart u64 u64 u32 bytes \<comment> \<open>\<open>transfer_id, sequence, total_bytes, content_sha256\<close>\<close>
  | TextChunk u64 u32 bytes
  | TextEnd u64

datatype release_reason =
    Hotkey | PeerDisconnected | HeartbeatTimeout | BackendFailure | UserRequest | Shutdown

datatype control_event =
    EnterRemote edge f32
  | LeaveRemote edge f32
  | ReleaseToLocal release_reason
  | SetInputForwarding bool

record control_frame =
  cf_role_epoch :: u64
  cf_event :: control_event

datatype role_transition = Stable | Preparing string | Failed

record role_state =
  rs_controller_fingerprint :: "string option"
  rs_role_epoch :: u64
  rs_transition :: role_transition
  rs_listener_position :: edge
  rs_paused :: bool
  rs_failure_detail :: "string option"

datatype role_event =
    SessionState role_state
  | RoleRequest string
  | Prepare role_state
  | Ready u64 bool bool "string option" \<comment> \<open>\<open>role_epoch, capture_ready, inject_ready, failure_detail\<close>\<close>
  | Commit role_state
  | Applied u64
  | Abort role_state
  | SetPaused bool

record remote_error =
  re_code :: string
  re_message :: string

datatype heartbeat = Heartbeat (hb_sequence: u64)

datatype frame =
    FHello hello
  | FScreenInfo screen_info
  | FInput input_frame
  | FClipboard clipboard_event
  | FControl control_frame
  | FHeartbeat heartbeat
  | FError remote_error
  | FAudio audio_control
  | FPairing pairing_event
  | FRole role_event
  | FPhone phone_event
  | FNotification notification_event
  | FNotificationSync notification_sync

section \<open>Frame constructors and accessors\<close>

definition frame_input :: "u64 \<Rightarrow> input_event \<Rightarrow> frame" where
  "frame_input epoch e = FInput \<lparr>if_role_epoch = epoch, if_event = e\<rparr>"

definition frame_control :: "u64 \<Rightarrow> control_event \<Rightarrow> frame" where
  "frame_control epoch e = FControl \<lparr>cf_role_epoch = epoch, cf_event = e\<rparr>"

fun input_event_of :: "frame \<Rightarrow> input_event option" where
  "input_event_of (FInput i) = Some (if_event i)"
| "input_event_of _ = None"

fun control_event_of :: "frame \<Rightarrow> control_event option" where
  "control_event_of (FControl c) = Some (cf_event c)"
| "control_event_of _ = None"

fun image_transfer_id :: "clipboard_event \<Rightarrow> u64 option" where
  "image_transfer_id (ImageStart t _ _ _ _ _) = Some t"
| "image_transfer_id (ImageChunk t _ _) = Some t"
| "image_transfer_id (ImageEnd t) = Some t"
| "image_transfer_id (ImageCancel t _) = Some t"
| "image_transfer_id _ = None"

fun transfer_id_of :: "clipboard_event \<Rightarrow> u64 option" where
  "transfer_id_of (TextStart t _ _ _) = Some t"
| "transfer_id_of (TextChunk t _ _) = Some t"
| "transfer_id_of (TextEnd t) = Some t"
| "transfer_id_of e = image_transfer_id e"

fun is_text_transfer :: "clipboard_event \<Rightarrow> bool" where
  "is_text_transfer (TextStart _ _ _ _) = True"
| "is_text_transfer (TextChunk _ _ _) = True"
| "is_text_transfer (TextEnd _) = True"
| "is_text_transfer _ = False"

end
