(* ===== verification/Framing.thy ===== *)
theory Framing
  imports Protocol
begin

text \<open>
  The clear-text framing of \<open>edge-protocol\<close>: \<open>write_frame\<close> puts a 4-byte big-endian length and the
  encoded frame on a stream, \<open>read_frame\<close> takes one frame off it, and \<open>fits_secure_frame\<close> decides
  whether a frame goes out as one encrypted message. The stream is the list of the bytes written to
  it. The MessagePack codec is the pair \<open>enc\<close>, \<open>dec\<close>; what the code relies on is \<open>frame_codec\<close>:
  a frame that encodes decodes to itself.
\<close>

datatype io_error = UnexpectedEof | OtherIo

datatype protocol_error = FrameTooLarge u32 | Io io_error | EncodeFailed | DecodeFailed

definition encode_frame :: "(frame \<Rightarrow> bytes option) \<Rightarrow> frame \<Rightarrow> (protocol_error, bytes) result" where
  "encode_frame enc f = (case enc f of None \<Rightarrow> Err EncodeFailed | Some bs \<Rightarrow> Ok bs)"

definition decode_frame :: "(bytes \<Rightarrow> frame option) \<Rightarrow> bytes \<Rightarrow> (protocol_error, frame) result" where
  "decode_frame dec bs = (case dec bs of None \<Rightarrow> Err DecodeFailed | Some f \<Rightarrow> Ok f)"

definition fits_secure_frame :: "(frame \<Rightarrow> bytes option) \<Rightarrow> frame \<Rightarrow> bool" where
  "fits_secure_frame enc f =
     (case encode_frame enc f of Inl _ \<Rightarrow> False | Inr p \<Rightarrow> length p \<le> MAX_SECURE_FRAME_BYTES)"

definition write_frame :: "(frame \<Rightarrow> bytes option) \<Rightarrow> frame \<Rightarrow> (protocol_error, bytes) result" where
  "write_frame enc f =
     (case encode_frame enc f of
        Inl e \<Rightarrow> Err e
      | Inr payload \<Rightarrow>
          if length payload \<ge> 2 ^ 32 then Err (FrameTooLarge (- 1))
          else if length payload > MAX_FRAME_BYTES then Err (FrameTooLarge (of_nat (length payload)))
          else Ok (be_bytes 4 (length payload) @ payload))"

text \<open>\<open>read_exact n\<close> fails with \<open>UnexpectedEof\<close> when the stream ends first.\<close>

definition read_exact :: "nat \<Rightarrow> bytes \<Rightarrow> (protocol_error, bytes \<times> bytes) result" where
  "read_exact n s = (if length s < n then Err (Io UnexpectedEof) else Ok (take n s, drop n s))"

definition read_frame :: "(bytes \<Rightarrow> frame option) \<Rightarrow> bytes \<Rightarrow> (protocol_error, frame \<times> bytes) result" where
  "read_frame dec s =
     (case read_exact 4 s of
        Inl e \<Rightarrow> Err e
      | Inr (header, s1) \<Rightarrow>
          (let len = from_be_bytes header in
           if len > MAX_FRAME_BYTES then Err (FrameTooLarge (of_nat len))
           else (case read_exact len s1 of
                   Inl e \<Rightarrow> Err e
                 | Inr (payload, s2) \<Rightarrow>
                     (case decode_frame dec payload of Inl e \<Rightarrow> Err e | Inr f \<Rightarrow> Ok (f, s2)))))"

definition frame_codec :: "(frame \<Rightarrow> bytes option) \<Rightarrow> (bytes \<Rightarrow> frame option) \<Rightarrow> bool" where
  "frame_codec enc dec \<longleftrightarrow> (\<forall>f bs. enc f = Some bs \<longrightarrow> dec bs = Some f)"

section \<open>Lemmas\<close>

lemma read_exact_append [simp]: "length a = n \<Longrightarrow> read_exact n (a @ b) = Ok (a, b)"
  by (simp add: read_exact_def)

lemma read_exact_short [simp]: "length s < n \<Longrightarrow> read_exact n s = Err (Io UnexpectedEof)"
  by (simp add: read_exact_def)

lemma write_frame_Ok:
  assumes "write_frame enc f = Ok bs"
  obtains payload where "enc f = Some payload" "length payload \<le> MAX_FRAME_BYTES"
    "bs = be_bytes 4 (length payload) @ payload"
  using assms by (auto simp: write_frame_def encode_frame_def split: option.splits if_splits)

lemma max_frame_lt: "n \<le> MAX_FRAME_BYTES \<Longrightarrow> n < 256 ^ 4"
  by (simp add: MAX_FRAME_BYTES_def)

lemma read_frame_header:
  assumes "n \<le> MAX_FRAME_BYTES"
  shows "read_frame dec (be_bytes 4 n @ s) =
    (case read_exact n s of
       Inl e \<Rightarrow> Err e
     | Inr (payload, s2) \<Rightarrow>
         (case decode_frame dec payload of Inl e \<Rightarrow> Err e | Inr f \<Rightarrow> Ok (f, s2)))"
proof -
  have "from_be_bytes (be_bytes 4 n) = n"
    by (rule from_be_bytes_be_bytes) (rule max_frame_lt [OF assms])
  with assms show ?thesis
    by (simp add: read_frame_def Let_def)
qed

lemma read_frame_write_frame:
  assumes "frame_codec enc dec" "write_frame enc f = Ok bs"
  shows "read_frame dec (bs @ rest) = Ok (f, rest)"
  using assms(2)
proof (rule write_frame_Ok)
  fix payload
  assume p: "enc f = Some payload" "length payload \<le> MAX_FRAME_BYTES"
    "bs = be_bytes 4 (length payload) @ payload"
  have "dec payload = Some f"
    using assms(1) p(1) by (simp add: frame_codec_def)
  then show ?thesis
    using p by (simp add: read_frame_header decode_frame_def)
qed

lemma frame_stream: "frame_codec enc dec \<Longrightarrow> length_framing (write_frame enc) (read_frame dec)"
  by unfold_locales (rule read_frame_write_frame)

lemma read_frame_truncated:
  assumes "write_frame enc f = Ok bs" "n < length bs"
  shows "read_frame dec (take n bs) = Err (Io UnexpectedEof)"
  using assms(1)
proof (rule write_frame_Ok)
  fix payload
  assume p: "enc f = Some payload" "length payload \<le> MAX_FRAME_BYTES"
    "bs = be_bytes 4 (length payload) @ payload"
  show ?thesis
  proof (cases "n < 4")
    case True
    then show ?thesis by (simp add: read_frame_def p(3))
  next
    case False
    then have "take n bs = be_bytes 4 (length payload) @ take (n - 4) payload"
      by (simp add: p(3))
    then show ?thesis
      using p assms(2) False by (simp add: read_frame_header)
  qed
qed

section \<open>Properties\<close>

text \<open>A stream of frames is read back frame by frame: if the codec decodes what it encoded, reading
  the bytes of any list of written frames gives exactly those frames in order; when the stream is cut
  anywhere inside a further frame, the whole frames are still read and the cut one is reported as an
  unexpected end, never as a frame.\<close>

theorem frame_stream_roundtrip:
  assumes "frame_codec enc dec"
    and "put_all (write_frame enc) fs = Ok bs" and "write_frame enc f = Ok cs" and "n < length cs"
  shows "get_n (read_frame dec) (length fs) (bs @ take n cs) = Ok (fs, take n cs) \<and>
    read_frame dec (take n cs) = Err (Io UnexpectedEof)"
  using length_framing.stream_roundtrip [OF frame_stream [OF assms(1)] assms(2)]
    read_frame_truncated [OF assms(3,4)] by simp

text \<open>A codec of heartbeats alone, for the witness.\<close>

fun heartbeat_enc :: "frame \<Rightarrow> bytes option" where
  "heartbeat_enc (FHeartbeat h) = Some (be_bytes 8 (unat (hb_sequence h)))"
| "heartbeat_enc _ = None"

definition heartbeat_dec :: "bytes \<Rightarrow> frame option" where
  "heartbeat_dec bs = Some (FHeartbeat (Heartbeat (of_nat (from_be_bytes bs))))"

lemma heartbeat_codec: "frame_codec heartbeat_enc heartbeat_dec"
proof -
  have "from_be_bytes (be_bytes 8 (unat (n :: u64))) = unat n" for n
    using unat_lt_pow [of n] by (intro from_be_bytes_be_bytes) simp
  then have "dec_enc = Some f" if "heartbeat_enc f = Some bs" "dec_enc = heartbeat_dec bs" for f bs dec_enc
    using that by (cases f) (auto simp: heartbeat_dec_def)
  then show ?thesis
    by (simp add: frame_codec_def)
qed

theorem frame_stream_roundtrip_witness:
  "\<exists>bs cs. put_all (write_frame heartbeat_enc) [FHeartbeat (Heartbeat 7), FHeartbeat (Heartbeat 8)] = Ok bs \<and>
    write_frame heartbeat_enc (FHeartbeat (Heartbeat 9)) = Ok cs \<and>
    get_n (read_frame heartbeat_dec) 2 (bs @ take 5 cs) =
      Ok ([FHeartbeat (Heartbeat 7), FHeartbeat (Heartbeat 8)], take 5 cs)"
proof -
  obtain bs where bs: "put_all (write_frame heartbeat_enc)
      [FHeartbeat (Heartbeat 7), FHeartbeat (Heartbeat 8)] = Ok bs"
    by (simp add: write_frame_def encode_frame_def MAX_FRAME_BYTES_def)
  obtain cs where cs: "write_frame heartbeat_enc (FHeartbeat (Heartbeat 9)) = Ok cs" "5 < length cs"
    by (simp add: write_frame_def encode_frame_def MAX_FRAME_BYTES_def)
  show ?thesis
    using bs cs frame_stream_roundtrip [OF heartbeat_codec bs cs] by (simp add: numeral_2_eq_2)
qed

end
