(* ===== verification/Ping.thy ===== *)
theory Ping
  imports Protocol
begin

text \<open>
  \<open>HeartbeatPing\<close> of \<open>edge-protocol\<close>: the round trip measured over the regular heartbeats. Bit 62
  of a sequence number asks for an echo, bit 61 marks one. \<open>outgoing\<close> and \<open>incoming\<close> return the
  heartbeat to send and the new meter.
\<close>

definition ECHO_REQUEST :: u64 where
  "ECHO_REQUEST = push_bit 62 1"

definition ECHO_REPLY :: u64 where
  "ECHO_REPLY = push_bit 61 1"

definition SEQUENCE :: u64 where
  "SEQUENCE = NOT (ECHO_REQUEST OR ECHO_REPLY)"

definition PING_INTERVAL :: duration where
  "PING_INTERVAL = from_secs 2"

definition PING_SAMPLES :: nat where
  "PING_SAMPLES = 5"

definition ECHO_TIMEOUT :: duration where
  "ECHO_TIMEOUT = from_secs 5"

record heartbeat_ping =
  hp_pending :: "(u64 \<times> instant) option"
  hp_last_asked :: "instant option"
  hp_samples :: "duration list"

definition ping_default :: heartbeat_ping where
  "ping_default = \<lparr>hp_pending = None, hp_last_asked = None, hp_samples = []\<rparr>"

definition outgoing :: "heartbeat_ping \<Rightarrow> u64 \<Rightarrow> instant \<Rightarrow> heartbeat \<times> heartbeat_ping" where
  "outgoing p sequence0 now =
     (let sequence = sequence0 AND SEQUENCE;
          waiting = (case hp_pending p of None \<Rightarrow> False
                     | Some (_, sent) \<Rightarrow> duration_since now sent < ECHO_TIMEOUT);
          too_soon = (case hp_last_asked p of None \<Rightarrow> False
                      | Some asked \<Rightarrow> duration_since now asked < PING_INTERVAL)
      in if waiting \<or> too_soon then (Heartbeat sequence, p)
         else (Heartbeat (sequence OR ECHO_REQUEST),
               p\<lparr>hp_pending := Some (sequence, now), hp_last_asked := Some now\<rparr>))"

definition push_sample :: "duration list \<Rightarrow> duration \<Rightarrow> duration list" where
  "push_sample samples d = (if length samples = PING_SAMPLES then tl samples else samples) @ [d]"

definition incoming :: "heartbeat_ping \<Rightarrow> heartbeat \<Rightarrow> instant \<Rightarrow> heartbeat option \<times> heartbeat_ping" where
  "incoming p hb now =
     (let sequence = hb_sequence hb AND SEQUENCE in
      if hb_sequence hb AND ECHO_REPLY \<noteq> 0 then
        (case hp_pending p of
           None \<Rightarrow> (None, p)
         | Some (pending, sent) \<Rightarrow>
             if pending = sequence then
               (None, p\<lparr>hp_samples := push_sample (hp_samples p) (duration_since now sent),
                        hp_pending := None\<rparr>)
             else (None, p))
      else if hb_sequence hb AND ECHO_REQUEST \<noteq> 0 then (Some (Heartbeat (sequence OR ECHO_REPLY)), p)
      else (None, p))"

definition round_trip :: "heartbeat_ping \<Rightarrow> duration option" where
  "round_trip p =
     (let count = length (hp_samples p) in
      if count < 2 ^ 32 \<and> count > 0 then Some (sum_list (hp_samples p) div count) else None)"

text \<open>The meter under any schedule of its two operations, and the times at which it asks.\<close>

datatype ping_op = PingOut u64 instant | PingIn heartbeat instant

fun ping_step :: "heartbeat_ping \<Rightarrow> ping_op \<Rightarrow> heartbeat_ping" where
  "ping_step p (PingOut s now) = snd (outgoing p s now)"
| "ping_step p (PingIn hb now) = snd (incoming p hb now)"

fun asks :: "heartbeat_ping \<Rightarrow> ping_op list \<Rightarrow> instant list" where
  "asks p [] = []"
| "asks p (PingOut s now # ops) =
     (if hb_sequence (fst (outgoing p s now)) AND ECHO_REQUEST \<noteq> 0 then [now] else [])
       @ asks (snd (outgoing p s now)) ops"
| "asks p (PingIn hb now # ops) = asks (snd (incoming p hb now)) ops"

section \<open>The flag bits\<close>

lemma bit_request: "bit ECHO_REQUEST n \<longleftrightarrow> n = 62"
  unfolding ECHO_REQUEST_def bit_push_bit_iff bit_1_iff by auto

lemma bit_reply: "bit ECHO_REPLY n \<longleftrightarrow> n = 61"
  unfolding ECHO_REPLY_def bit_push_bit_iff bit_1_iff by auto

lemma bit_sequence: "bit SEQUENCE n \<longleftrightarrow> n < 64 \<and> n \<noteq> 61 \<and> n \<noteq> 62"
  by (auto simp: SEQUENCE_def bit_simps bit_request bit_reply)

lemma bit_u64_lt: "bit (s :: u64) n \<Longrightarrow> n < 64"
  using bit_imp_le_length [of s n] by simp

lemma flag_bits [simp]:
  "(s AND SEQUENCE) AND ECHO_REQUEST = 0"
  "(s AND SEQUENCE) AND ECHO_REPLY = 0"
  "((s AND SEQUENCE) OR ECHO_REQUEST) AND ECHO_REPLY = 0"
  "((s AND SEQUENCE) OR ECHO_REPLY) AND ECHO_REQUEST = 0"
  "((s AND SEQUENCE) OR ECHO_REQUEST) AND ECHO_REQUEST = ECHO_REQUEST"
  "((s AND SEQUENCE) OR ECHO_REPLY) AND ECHO_REPLY = ECHO_REPLY"
  "((s AND SEQUENCE) OR ECHO_REQUEST) AND SEQUENCE = s AND SEQUENCE"
  "((s AND SEQUENCE) OR ECHO_REPLY) AND SEQUENCE = s AND SEQUENCE"
  "(s AND SEQUENCE) AND SEQUENCE = s AND SEQUENCE"
  by (rule bit_eqI; auto simp: bit_simps bit_request bit_reply bit_sequence dest: bit_u64_lt)+

lemma request_nonzero [simp]: "ECHO_REQUEST \<noteq> 0"
proof
  assume "ECHO_REQUEST = 0"
  then have "\<not> bit ECHO_REQUEST 62" by simp
  then show False by (simp add: bit_request)
qed

lemma reply_nonzero [simp]: "ECHO_REPLY \<noteq> 0"
proof
  assume "ECHO_REPLY = 0"
  then have "\<not> bit ECHO_REPLY 61" by simp
  then show False by (simp add: bit_reply)
qed

section \<open>Reachable meters\<close>

definition ping_wf :: "heartbeat_ping \<Rightarrow> bool" where
  "ping_wf p \<longleftrightarrow> length (hp_samples p) \<le> PING_SAMPLES \<and>
     (\<forall>s t. hp_pending p = Some (s, t) \<longrightarrow> s = s AND SEQUENCE \<and> hp_last_asked p = Some t)"

lemma ping_wf_default [simp]: "ping_wf ping_default"
  by (simp add: ping_wf_def ping_default_def)

lemma length_push_sample: "length xs \<le> PING_SAMPLES \<Longrightarrow> length (push_sample xs d) \<le> PING_SAMPLES"
  by (auto simp: push_sample_def PING_SAMPLES_def)

lemma outgoing_wf: "ping_wf p \<Longrightarrow> ping_wf (snd (outgoing p s now))"
  by (auto simp: outgoing_def ping_wf_def Let_def and.assoc)

lemma incoming_wf: "ping_wf p \<Longrightarrow> ping_wf (snd (incoming p hb now))"
  by (auto simp: incoming_def ping_wf_def Let_def length_push_sample split: option.splits)

interpretation ping: guarded_machine ping_step ping_wf
proof
  fix p e
  assume "ping_wf p"
  then show "ping_wf (ping_step p e)"
    by (cases e) (simp_all add: outgoing_wf incoming_wf)
qed

lemma incoming_last_asked [simp]: "hp_last_asked (snd (incoming p hb now)) = hp_last_asked p"
  by (auto simp: incoming_def Let_def split: option.splits)

lemma outgoing_asks:
  "hb_sequence (fst (outgoing p s now)) AND ECHO_REQUEST \<noteq> 0 \<Longrightarrow>
     hp_last_asked (snd (outgoing p s now)) = Some now \<and>
     (\<forall>a. hp_last_asked p = Some a \<longrightarrow> a + PING_INTERVAL \<le> now)"
  by (auto simp: outgoing_def Let_def duration_since_def PING_INTERVAL_def from_secs_def
      split: if_splits option.splits)

lemma outgoing_no_ask:
  "hb_sequence (fst (outgoing p s now)) AND ECHO_REQUEST = 0 \<Longrightarrow> snd (outgoing p s now) = p"
  by (auto simp: outgoing_def Let_def split: if_splits)

lemma asks_after:
  "t \<in> set (asks p ops) \<Longrightarrow> hp_last_asked p = Some a \<Longrightarrow> a + PING_INTERVAL \<le> t"
proof (induction p ops arbitrary: a rule: asks.induct)
  case (2 p s now ops)
  show ?case
  proof (cases "hb_sequence (fst (outgoing p s now)) AND ECHO_REQUEST = 0")
    case True
    then show ?thesis
      using 2 by (simp add: outgoing_no_ask)
  next
    case False
    have "a + PING_INTERVAL \<le> now" "hp_last_asked (snd (outgoing p s now)) = Some now"
      using outgoing_asks [OF False] 2(3) by auto
    then show ?thesis
      using 2 False by fastforce
  qed
qed simp_all

lemma asks_spaced: "sorted_wrt (\<lambda>a b. a + PING_INTERVAL \<le> b) (asks p ops)"
proof (induction p ops rule: asks.induct)
  case (2 p s now ops)
  show ?case
  proof (cases "hb_sequence (fst (outgoing p s now)) AND ECHO_REQUEST = 0")
    case True
    then show ?thesis
      using 2 by simp
  next
    case False
    then show ?thesis
      using 2 outgoing_asks [OF False] by (auto intro: asks_after)
  qed
qed simp_all

section \<open>Properties\<close>

text \<open>A heartbeat that asks for an echo measures the round trip: the peer answers it with exactly one
  echo and keeps its own meter as it was; when the echo comes back the sender records the time since
  it asked, stops waiting, and sends nothing in return, and no meter answers an echo, so echoes never
  bounce.\<close>

theorem echo_measures_round_trip:
  assumes "outgoing a s t0 = (h, a')" and "hb_sequence h AND ECHO_REQUEST \<noteq> 0"
  shows "\<exists>e. incoming b h t1 = (Some e, b) \<and>
    incoming a' e t2 =
      (None, a'\<lparr>hp_samples := push_sample (hp_samples a) (t2 - t0), hp_pending := None\<rparr>) \<and>
    fst (incoming c e t3) = None"
proof -
  let ?q = "s AND SEQUENCE"
  have h: "h = Heartbeat (?q OR ECHO_REQUEST)" "a' = a\<lparr>hp_pending := Some (?q, t0), hp_last_asked := Some t0\<rparr>"
    using assms by (auto simp: outgoing_def Let_def split: if_splits)
  have "incoming b h t1 = (Some (Heartbeat (?q OR ECHO_REPLY)), b)"
    by (simp add: h(1) incoming_def Let_def)
  moreover have "fst (incoming c (Heartbeat (?q OR ECHO_REPLY)) t3) = None"
    by (simp add: incoming_def Let_def split: option.split)
  moreover have "incoming a' (Heartbeat (?q OR ECHO_REPLY)) t2 =
      (None, a'\<lparr>hp_samples := push_sample (hp_samples a) (t2 - t0), hp_pending := None\<rparr>)"
    by (simp add: h(2) incoming_def Let_def duration_since_def)
  ultimately show ?thesis
    by blast
qed

theorem echo_measures_round_trip_witness:
  "\<exists>h a'. outgoing ping_default 5 100 = (h, a') \<and> (\<exists>e. incoming ping_default h 130 = (Some e, ping_default) \<and>
    round_trip (snd (incoming a' e 160)) = Some 60)"
proof -
  obtain h a' where h: "outgoing ping_default 5 100 = (h, a')"
    by (cases "outgoing ping_default 5 100")
  then have "hb_sequence h AND ECHO_REQUEST \<noteq> 0"
    by (auto simp: outgoing_def Let_def ping_default_def)
  from echo_measures_round_trip [OF h this, of ping_default 130 160 ping_default 0]
  show ?thesis
    using h by (auto simp: round_trip_def push_sample_def ping_default_def PING_SAMPLES_def)
qed

text \<open>Measuring stays cheap under every schedule of heartbeats sent and received, honest or not: at
  most five samples are kept, so the round trip is the average of one to five samples or unknown, and
  two requests for an echo are at least the interval of two seconds apart.\<close>

theorem echo_requests_spaced:
  fixes ops
  defines "p \<equiv> foldl ping_step ping_default ops"
  shows "sorted_wrt (\<lambda>earlier later. earlier + PING_INTERVAL \<le> later) (asks ping_default ops) \<and>
    length (hp_samples p) \<le> 5 \<and>
    round_trip p = (if hp_samples p = [] then None
                    else Some (sum_list (hp_samples p) div length (hp_samples p)))"
proof -
  have "ping_wf p"
    unfolding p_def by (rule ping.run_inv) simp
  then have "length (hp_samples p) \<le> 5"
    by (simp add: ping_wf_def PING_SAMPLES_def)
  then show ?thesis
    using asks_spaced by (auto simp: round_trip_def Let_def)
qed

end
