(* ===== verification/StateFile.thy ===== *)
theory StateFile
  imports Machines
begin

text \<open>
  The state files of the program: one file replaced atomically through a temporary sibling. The
  stored role, audio route and notification state all use this procedure.

  Each of the two files is absent or has a content. The codec is the pair \<open>to_toml\<close>, \<open>from_toml\<close>.
  A call of the operating system may fail: \<open>save_fault\<close> says at which step, and how much of the
  temporary file a failed write left; a crash at that point leaves the same files.
\<close>

datatype store_error = StoreIo | InvalidData

record state_files =
  main_file :: "bytes option"
  temporary_file :: "bytes option"

datatype save_fault =
  FailDirectory | FailCreate | FailWrite nat | FailSync | FailRename | NoFault

definition load_state :: "(bytes \<Rightarrow> 'a option) \<Rightarrow> state_files \<Rightarrow> (store_error, 'a option) result" where
  "load_state from_toml fs =
     (case main_file fs of
        None \<Rightarrow> Ok None
      | Some bs \<Rightarrow> (case from_toml bs of None \<Rightarrow> Err InvalidData | Some r \<Rightarrow> Ok (Some r)))"

definition save_state ::
  "('a \<Rightarrow> bytes option) \<Rightarrow> save_fault \<Rightarrow> 'a \<Rightarrow> state_files \<Rightarrow> (store_error, unit) result \<times> state_files"
  where
  "save_state to_toml fault x fs =
     (if fault = FailDirectory then (Err StoreIo, fs)
      else (case to_toml x of
              None \<Rightarrow> (Err InvalidData, fs)
            | Some payload \<Rightarrow>
                (case fault of
                   FailCreate \<Rightarrow> (Err StoreIo, fs)
                 | FailWrite n \<Rightarrow> (Err StoreIo, fs\<lparr>temporary_file := Some (take n payload)\<rparr>)
                 | FailSync \<Rightarrow> (Err StoreIo, fs\<lparr>temporary_file := Some payload\<rparr>)
                 | FailRename \<Rightarrow> (Err StoreIo, fs\<lparr>temporary_file := Some payload\<rparr>)
                 | _ \<Rightarrow> (Ok (), \<lparr>main_file = Some payload, temporary_file = None\<rparr>))))"

definition clear_state :: "bool \<Rightarrow> state_files \<Rightarrow> (store_error, unit) result \<times> state_files" where
  "clear_state remove_fails fs =
     (if main_file fs = None then (Ok (), fs)
      else if remove_fails then (Err StoreIo, fs)
      else (Ok (), fs\<lparr>main_file := None\<rparr>))"

section \<open>What a load sees after a sequence of calls\<close>

datatype 'a store_op = SaveOp save_fault 'a | ClearOp bool

fun store_step :: "('a \<Rightarrow> bytes option) \<Rightarrow> state_files \<Rightarrow> 'a store_op \<Rightarrow> state_files" where
  "store_step to_toml fs (SaveOp fault x) = snd (save_state to_toml fault x fs)"
| "store_step to_toml fs (ClearOp fails) = snd (clear_state fails fs)"

text \<open>The value of the last operation that reported success.\<close>

fun last_success ::
  "('a \<Rightarrow> bytes option) \<Rightarrow> state_files \<Rightarrow> 'a option \<Rightarrow> 'a store_op list \<Rightarrow> 'a option" where
  "last_success to_toml fs r [] = r"
| "last_success to_toml fs r (SaveOp fault x # ops) =
     last_success to_toml (snd (save_state to_toml fault x fs))
       (if is_ok (fst (save_state to_toml fault x fs)) then Some x else r) ops"
| "last_success to_toml fs r (ClearOp fails # ops) =
     last_success to_toml (snd (clear_state fails fs))
       (if is_ok (fst (clear_state fails fs)) then None else r) ops"

lemma main_after_save:
  "main_file (snd (save_state to_toml fault x fs)) =
     (if is_ok (fst (save_state to_toml fault x fs)) then to_toml x else main_file fs)"
  "is_ok (fst (save_state to_toml fault x fs)) \<Longrightarrow> \<exists>bs. to_toml x = Some bs"
  by (cases fault; cases "to_toml x"; simp add: save_state_def)+

lemma load_after_save:
  assumes codec: "\<And>x bs. to_toml x = Some bs \<Longrightarrow> from_toml bs = Some x"
    and load: "load_state from_toml fs = Ok r"
  shows "load_state from_toml (snd (save_state to_toml fault x fs)) =
    Ok (if is_ok (fst (save_state to_toml fault x fs)) then Some x else r)"
proof (cases "is_ok (fst (save_state to_toml fault x fs))")
  case True
  obtain bs where bs: "to_toml x = Some bs"
    using main_after_save(2) [OF True] by (rule exE)
  from True bs show ?thesis
    by (simp add: load_state_def main_after_save(1) codec [OF bs])
next
  case False
  with load show ?thesis
    by (simp add: load_state_def main_after_save(1))
qed

lemma load_after_clear:
  assumes "load_state from_toml fs = Ok r"
  shows "load_state from_toml (snd (clear_state fails fs)) =
    Ok (if is_ok (fst (clear_state fails fs)) then None else r)"
  using assms by (auto simp: clear_state_def load_state_def)

lemma load_after_ops:
  assumes "\<And>x bs. to_toml x = Some bs \<Longrightarrow> from_toml bs = Some x"
    and "load_state from_toml fs = Ok r"
  shows "load_state from_toml (foldl (store_step to_toml) fs ops) = Ok (last_success to_toml fs r ops)"
  using assms(2)
proof (induction ops arbitrary: fs r)
  case Nil
  then show ?case by simp
next
  case (Cons op ops)
  then show ?case
    using load_after_save [OF assms(1) Cons.prems] load_after_clear [OF Cons.prems]
    by (cases op) simp_all
qed

end
