(* ===== verification/Role.thy ===== *)
theory Role
  imports Protocol StateFile
begin

text \<open>
  \<open>crates/edge-runtime/src/role.rs\<close>: who controls whom. The connector of a pair owns a
  \<open>RoleCoordinator\<close> that serialises role changes in two phases (prepare, then commit or abort);
  the listener checks what it is told with \<open>validate_prepare\<close> and \<open>validate_commit\<close>; the last
  committed role is kept in a file written by atomic replacement.

  Operations on the coordinator return the Rust result together with the coordinator after the call.
\<close>

section \<open>Who controls first\<close>

record input_direction_capabilities =
  controller_can_capture :: bool
  receiver_can_inject :: bool

definition complete :: "input_direction_capabilities \<Rightarrow> bool" where
  "complete c \<longleftrightarrow> controller_can_capture c \<and> receiver_can_inject c"

definition select_initial_controller ::
  "string \<Rightarrow> string \<Rightarrow> bool \<Rightarrow> input_direction_capabilities \<Rightarrow> input_direction_capabilities
     \<Rightarrow> string option" where
  "select_initial_controller connector listener prefer_connector connector_controls listener_controls =
     (let preferred = (if prefer_connector then (connector, connector_controls)
                       else (listener, listener_controls));
          fallback = (if prefer_connector then (listener, listener_controls)
                      else (connector, connector_controls))
      in if complete (snd preferred) then Some (fst preferred)
         else if complete (snd fallback) then Some (fst fallback) else None)"

section \<open>The coordinator\<close>

datatype role_state_error =
    UnknownController
  | TransitionInProgress
  | EpochOverflow
  | UnexpectedEpoch (ue_expected: u64) (ue_actual: u64)
  | ControllerMismatch
  | InvalidTransition
  | NoTransition

datatype role_decision = CommitDecision role_state | AbortDecision role_state

record pending_role =
  pr_previous :: role_state
  pr_proposed_controller_fingerprint :: string
  pr_proposed_epoch :: u64

record role_coordinator =
  rc_connector_fingerprint :: string
  rc_listener_fingerprint :: string
  rc_stable :: role_state
  rc_pending :: "pending_role option"

definition coordinator_new ::
  "string \<Rightarrow> string \<Rightarrow> string option \<Rightarrow> u64 \<Rightarrow> edge \<Rightarrow> bool \<Rightarrow> (role_state_error, role_coordinator) result"
  where
  "coordinator_new connector listener controller epoch position paused =
     (if (case controller of None \<Rightarrow> False | Some c \<Rightarrow> c \<noteq> connector \<and> c \<noteq> listener)
      then Err UnknownController
      else Ok \<lparr>rc_connector_fingerprint = connector,
               rc_listener_fingerprint = listener,
               rc_stable = \<lparr>rs_controller_fingerprint = controller, rs_role_epoch = epoch,
                            rs_transition = Stable, rs_listener_position = position,
                            rs_paused = paused, rs_failure_detail = None\<rparr>,
               rc_pending = None\<rparr>)"

definition coordinator_state :: "role_coordinator \<Rightarrow> role_state" where
  "coordinator_state c = rc_stable c"

definition is_transitioning :: "role_coordinator \<Rightarrow> bool" where
  "is_transitioning c = (rc_pending c \<noteq> None)"

definition set_paused ::
  "role_coordinator \<Rightarrow> bool \<Rightarrow> (role_state_error, role_state) result \<times> role_coordinator" where
  "set_paused c paused =
     (if rc_pending c \<noteq> None then (Err TransitionInProgress, c)
      else (let stable = (rc_stable c)\<lparr>rs_paused := paused\<rparr> in (Ok stable, c\<lparr>rc_stable := stable\<rparr>)))"

definition prepare ::
  "role_coordinator \<Rightarrow> string \<Rightarrow> (role_state_error, role_state) result \<times> role_coordinator" where
  "prepare c fp =
     (if rc_pending c \<noteq> None then (Err TransitionInProgress, c)
      else if fp \<noteq> rc_connector_fingerprint c \<and> fp \<noteq> rc_listener_fingerprint c
      then (Err UnknownController, c)
      else (case checked_add (rs_role_epoch (rc_stable c)) 1 of
              None \<Rightarrow> (Err EpochOverflow, c)
            | Some proposed_epoch \<Rightarrow>
                (Ok \<lparr>rs_controller_fingerprint = Some fp, rs_role_epoch = proposed_epoch,
                     rs_transition = Preparing fp,
                     rs_listener_position = rs_listener_position (rc_stable c),
                     rs_paused = rs_paused (rc_stable c), rs_failure_detail = None\<rparr>,
                 c\<lparr>rc_pending := Some \<lparr>pr_previous = rc_stable c,
                                        pr_proposed_controller_fingerprint = fp,
                                        pr_proposed_epoch = proposed_epoch\<rparr>\<rparr>)))"

definition BACKENDS_NOT_READY :: string where
  "BACKENDS_NOT_READY = ''one or more input backends were not ready''"

definition finish_ready ::
  "role_coordinator \<Rightarrow> u64 \<Rightarrow> bool \<Rightarrow> bool \<Rightarrow> bool \<Rightarrow> bool \<Rightarrow> string option
     \<Rightarrow> (role_state_error, role_decision) result \<times> role_coordinator" where
  "finish_ready c epoch local_capture local_inject remote_capture remote_inject failure_detail =
     (case rc_pending c of
        None \<Rightarrow> (Err NoTransition, c)
      | Some pending \<Rightarrow>
          if epoch \<noteq> pr_proposed_epoch pending
          then (Err (UnexpectedEpoch (pr_proposed_epoch pending) epoch), c)
          else if local_capture \<and> local_inject \<and> remote_capture \<and> remote_inject
          then (let stable = \<lparr>rs_controller_fingerprint = Some (pr_proposed_controller_fingerprint pending),
                              rs_role_epoch = pr_proposed_epoch pending,
                              rs_transition = Stable,
                              rs_listener_position = rs_listener_position (pr_previous pending),
                              rs_paused = rs_paused (pr_previous pending),
                              rs_failure_detail = None\<rparr>
                in (Ok (CommitDecision stable), c\<lparr>rc_stable := stable, rc_pending := None\<rparr>))
          else (let stable = pr_previous pending;
                    abort = stable\<lparr>rs_transition := Failed,
                                   rs_failure_detail :=
                                     (case failure_detail of Some d \<Rightarrow> Some d
                                      | None \<Rightarrow> Some BACKENDS_NOT_READY)\<rparr>
                in (Ok (AbortDecision abort), c\<lparr>rc_stable := stable, rc_pending := None\<rparr>)))"

definition abort ::
  "role_coordinator \<Rightarrow> string \<Rightarrow> (role_state_error, role_state) result \<times> role_coordinator" where
  "abort c detail =
     (case rc_pending c of
        None \<Rightarrow> (Err NoTransition, c)
      | Some pending \<Rightarrow>
          (let stable = pr_previous pending
           in (Ok (stable\<lparr>rs_transition := Failed, rs_failure_detail := Some detail\<rparr>),
               c\<lparr>rc_stable := stable, rc_pending := None\<rparr>)))"

section \<open>The other node's checks\<close>

definition validate_prepare ::
  "role_state \<Rightarrow> role_state \<Rightarrow> string \<Rightarrow> string \<Rightarrow> (role_state_error, unit) result" where
  "validate_prepare current p connector listener =
     (case rs_transition p of
        Preparing proposed \<Rightarrow>
          if proposed \<noteq> connector \<and> proposed \<noteq> listener then Err UnknownController
          else if rs_controller_fingerprint p \<noteq> Some proposed then Err ControllerMismatch
          else (case checked_add (rs_role_epoch current) 1 of
                  None \<Rightarrow> Err EpochOverflow
                | Some expected \<Rightarrow>
                    if rs_role_epoch p \<noteq> expected then Err (UnexpectedEpoch expected (rs_role_epoch p))
                    else Ok ())
      | _ \<Rightarrow> Err InvalidTransition)"

definition is_preparing :: "role_transition \<Rightarrow> bool" where
  "is_preparing t = (case t of Preparing _ \<Rightarrow> True | _ \<Rightarrow> False)"

definition validate_commit :: "role_state \<Rightarrow> role_state \<Rightarrow> (role_state_error, unit) result" where
  "validate_commit prepared c =
     (if \<not> is_preparing (rs_transition prepared) \<or> rs_transition c \<noteq> Stable then Err InvalidTransition
      else if rs_role_epoch prepared \<noteq> rs_role_epoch c
      then Err (UnexpectedEpoch (rs_role_epoch prepared) (rs_role_epoch c))
      else if rs_controller_fingerprint prepared \<noteq> rs_controller_fingerprint c
      then Err ControllerMismatch
      else Ok ())"

section \<open>The stored role\<close>

record committed_role =
  cr_version :: u16
  cr_controller_fingerprint :: string

definition ROLE_STATE_VERSION :: u16 where
  "ROLE_STATE_VERSION = 1"

definition committed_role_new :: "string \<Rightarrow> committed_role" where
  "committed_role_new fp = \<lparr>cr_version = ROLE_STATE_VERSION, cr_controller_fingerprint = fp\<rparr>"

definition belongs_to :: "committed_role \<Rightarrow> string \<Rightarrow> string \<Rightarrow> bool" where
  "belongs_to r first second \<longleftrightarrow>
     cr_version r = ROLE_STATE_VERSION \<and>
       (cr_controller_fingerprint r = first \<or> cr_controller_fingerprint r = second)"

text \<open>\<open>RoleStore\<close>: the file \<open>role.toml\<close>, replaced atomically.\<close>

definition store_load ::
  "(bytes \<Rightarrow> committed_role option) \<Rightarrow> state_files \<Rightarrow> (store_error, committed_role option) result" where
  "store_load from_toml fs = load_state from_toml fs"

definition store_save ::
  "(committed_role \<Rightarrow> bytes option) \<Rightarrow> save_fault \<Rightarrow> committed_role \<Rightarrow> state_files
     \<Rightarrow> (store_error, unit) result \<times> state_files" where
  "store_save to_toml fault role fs = save_state to_toml fault role fs"

definition store_clear :: "bool \<Rightarrow> state_files \<Rightarrow> (store_error, unit) result \<times> state_files" where
  "store_clear remove_fails fs = clear_state remove_fails fs"

text \<open>The role store under a sequence of calls.\<close>

fun role_store_step ::
  "(committed_role \<Rightarrow> bytes option) \<Rightarrow> state_files \<Rightarrow> committed_role store_op \<Rightarrow> state_files" where
  "role_store_step to_toml fs (SaveOp fault r) = snd (store_save to_toml fault r fs)"
| "role_store_step to_toml fs (ClearOp fails) = snd (store_clear fails fs)"

section \<open>The audio route\<close>

text \<open>\<open>audio_route.rs\<close>: whose system audio is captured, kept the same way.\<close>

record committed_audio_route =
  car_version :: u16
  car_source_fingerprint :: "string option"

definition AUDIO_ROUTE_STATE_VERSION :: u16 where
  "AUDIO_ROUTE_STATE_VERSION = 1"

definition audio_route_disabled :: committed_audio_route where
  "audio_route_disabled = \<lparr>car_version = AUDIO_ROUTE_STATE_VERSION, car_source_fingerprint = None\<rparr>"

definition audio_route_from_source :: "string \<Rightarrow> committed_audio_route" where
  "audio_route_from_source fp =
     \<lparr>car_version = AUDIO_ROUTE_STATE_VERSION, car_source_fingerprint = Some fp\<rparr>"

definition audio_route_belongs_to :: "committed_audio_route \<Rightarrow> string \<Rightarrow> string \<Rightarrow> bool" where
  "audio_route_belongs_to r first second \<longleftrightarrow>
     car_version r = AUDIO_ROUTE_STATE_VERSION \<and>
     (case car_source_fingerprint r of None \<Rightarrow> True | Some s \<Rightarrow> s = first \<or> s = second)"

definition audio_store_load ::
  "(bytes \<Rightarrow> committed_audio_route option) \<Rightarrow> state_files
     \<Rightarrow> (store_error, committed_audio_route option) result" where
  "audio_store_load from_toml fs = load_state from_toml fs"

definition audio_store_save ::
  "(committed_audio_route \<Rightarrow> bytes option) \<Rightarrow> save_fault \<Rightarrow> committed_audio_route \<Rightarrow> state_files
     \<Rightarrow> (store_error, unit) result \<times> state_files" where
  "audio_store_save to_toml fault route fs = save_state to_toml fault route fs"

section \<open>The coordinator as a machine\<close>

datatype coordinator_op =
    SetPausedOp bool
  | PrepareOp string
  | FinishOp u64 bool bool bool bool "string option"
  | AbortOp string

fun coordinator_step :: "role_coordinator \<Rightarrow> coordinator_op \<Rightarrow> role_coordinator" where
  "coordinator_step c (SetPausedOp b) = snd (set_paused c b)"
| "coordinator_step c (PrepareOp fp) = snd (prepare c fp)"
| "coordinator_step c (FinishOp e lc li rc ri d) = snd (finish_ready c e lc li rc ri d)"
| "coordinator_step c (AbortOp d) = snd (abort c d)"

definition in_pair :: "role_coordinator \<Rightarrow> string \<Rightarrow> bool" where
  "in_pair c fp \<longleftrightarrow> fp = rc_connector_fingerprint c \<or> fp = rc_listener_fingerprint c"

text \<open>
  What holds between calls: the stable state is stable and names a member of the pair, and a pending
  change remembers exactly that stable state and proposes the next epoch.
\<close>

definition coordinator_wf :: "role_coordinator \<Rightarrow> bool" where
  "coordinator_wf c \<longleftrightarrow>
     rs_transition (rc_stable c) = Stable \<and>
     rs_failure_detail (rc_stable c) = None \<and>
     (\<forall>fp. rs_controller_fingerprint (rc_stable c) = Some fp \<longrightarrow> in_pair c fp) \<and>
     (\<forall>p. rc_pending c = Some p \<longrightarrow>
        pr_previous p = rc_stable c \<and>
        in_pair c (pr_proposed_controller_fingerprint p) \<and>
        checked_add (rs_role_epoch (rc_stable c)) 1 = Some (pr_proposed_epoch p))"

text \<open>The order along which a coordinator moves.\<close>

definition coordinator_le :: "role_coordinator \<Rightarrow> role_coordinator \<Rightarrow> bool" where
  "coordinator_le c d \<longleftrightarrow>
     rc_connector_fingerprint d = rc_connector_fingerprint c \<and>
     rc_listener_fingerprint d = rc_listener_fingerprint c \<and>
     rs_listener_position (rc_stable d) = rs_listener_position (rc_stable c) \<and>
     (rs_role_epoch (rc_stable c) < rs_role_epoch (rc_stable d) \<or>
      rs_role_epoch (rc_stable c) = rs_role_epoch (rc_stable d) \<and>
      rs_controller_fingerprint (rc_stable c) = rs_controller_fingerprint (rc_stable d))"

text \<open>
  What a coordinator promises: a committed controller and epoch, the pause switch, and at most one
  proposed controller. Only a commit of the proposal moves the assignment.
\<close>

record assignment =
  as_controller :: "string option"
  as_epoch :: nat
  as_paused :: bool
  as_proposal :: "string option"

definition assignment_of :: "role_coordinator \<Rightarrow> assignment" where
  "assignment_of c =
     \<lparr>as_controller = rs_controller_fingerprint (rc_stable c),
      as_epoch = unat (rs_role_epoch (rc_stable c)),
      as_paused = rs_paused (rc_stable c),
      as_proposal = map_option pr_proposed_controller_fingerprint (rc_pending c)\<rparr>"

fun assignment_step :: "string set \<Rightarrow> assignment \<Rightarrow> coordinator_op \<Rightarrow> assignment" where
  "assignment_step pair a (SetPausedOp b) =
     (if as_proposal a = None then a\<lparr>as_paused := b\<rparr> else a)"
| "assignment_step pair a (PrepareOp fp) =
     (if as_proposal a = None \<and> fp \<in> pair \<and> as_epoch a + 1 < 2 ^ 64
      then a\<lparr>as_proposal := Some fp\<rparr> else a)"
| "assignment_step pair a (FinishOp e lc li rc ri d) =
     (if as_proposal a \<noteq> None \<and> unat e = as_epoch a + 1
      then (if lc \<and> li \<and> rc \<and> ri
            then a\<lparr>as_controller := as_proposal a, as_epoch := unat e, as_proposal := None\<rparr>
            else a\<lparr>as_proposal := None\<rparr>)
      else a)"
| "assignment_step pair a (AbortOp d) = a\<lparr>as_proposal := None\<rparr>"

section \<open>Lemmas\<close>

lemma checked_add_one_less: "checked_add a 1 = Some b \<Longrightarrow> a < (b :: u64)"
  by (simp add: checked_add_Some word_less_nat_alt)

lemma coordinator_new_wf: "coordinator_new a b ctl e pos pa = Ok c \<Longrightarrow> coordinator_wf c"
  by (auto simp: coordinator_new_def coordinator_wf_def in_pair_def split: if_splits option.splits)

lemmas coordinator_ops = set_paused_def prepare_def finish_ready_def abort_def

lemma in_pair_simps [simp]:
  "in_pair (c\<lparr>rc_stable := st\<rparr>) = in_pair c" "in_pair (c\<lparr>rc_pending := p\<rparr>) = in_pair c"
  by (auto simp: in_pair_def)

lemma coordinator_wf_pending:
  assumes "coordinator_wf c" "rc_pending c = Some p"
  shows "pr_previous p = rc_stable c" "in_pair c (pr_proposed_controller_fingerprint p)"
    "checked_add (rs_role_epoch (rc_stable c)) 1 = Some (pr_proposed_epoch p)"
  using assms by (simp_all add: coordinator_wf_def)

lemma set_paused_wf: "coordinator_wf c \<Longrightarrow> coordinator_wf (snd (set_paused c b))"
  by (cases "rc_pending c") (simp_all add: set_paused_def Let_def coordinator_wf_def)

lemma prepare_wf: "coordinator_wf c \<Longrightarrow> coordinator_wf (snd (prepare c fp))"
  by (cases "rc_pending c")
     (simp_all add: prepare_def Let_def coordinator_wf_def in_pair_def split: option.split)

lemma finish_ready_wf:
  assumes wf: "coordinator_wf c"
  shows "coordinator_wf (snd (finish_ready c e lc li rc ri d))"
proof (cases "rc_pending c")
  case None
  then show ?thesis using wf by (simp add: finish_ready_def)
next
  case (Some p)
  note p = coordinator_wf_pending [OF wf Some]
  show ?thesis
    using wf p(2) by (simp add: finish_ready_def Some Let_def p(1) coordinator_wf_def)
qed

lemma abort_wf:
  assumes wf: "coordinator_wf c"
  shows "coordinator_wf (snd (abort c d))"
proof (cases "rc_pending c")
  case None
  then show ?thesis using wf by (simp add: abort_def)
next
  case (Some p)
  show ?thesis
    using wf by (simp add: abort_def Some Let_def coordinator_wf_pending [OF wf Some] coordinator_wf_def)
qed

lemma coordinator_step_wf: "coordinator_wf c \<Longrightarrow> coordinator_wf (coordinator_step c op)"
  by (cases op) (simp_all add: set_paused_wf prepare_wf finish_ready_wf abort_wf)

lemma coordinator_le_trans: "coordinator_le c d \<Longrightarrow> coordinator_le d e \<Longrightarrow> coordinator_le c e"
  by (auto simp: coordinator_le_def)

lemma coordinator_step_le:
  assumes wf: "coordinator_wf c"
  shows "coordinator_le c (coordinator_step c op)"
proof (cases "rc_pending c")
  case None
  then show ?thesis
    by (cases op) (auto simp: coordinator_ops coordinator_le_def Let_def split: option.split)
next
  case (Some p)
  note p = coordinator_wf_pending [OF wf Some]
  show ?thesis
    using checked_add_one_less [OF p(3)]
    by (cases op) (auto simp: coordinator_ops coordinator_le_def Let_def Some p(1))
qed

interpretation role: progressing_machine coordinator_step coordinator_wf coordinator_le
proof
  show "coordinator_wf (coordinator_step s e)" if "coordinator_wf s" for s e
    using that by (rule coordinator_step_wf)
  show "coordinator_le s s" for s
    by (simp add: coordinator_le_def)
  show "coordinator_le s u" if "coordinator_le s t" "coordinator_le t u" for s t u
    using that by (rule coordinator_le_trans)
  show "coordinator_le s (coordinator_step s e)" if "coordinator_wf s" for s e
    using that by (rule coordinator_step_le)
qed

lemma checked_add_one_iff:
  "checked_add a (1 :: u64) = Some b \<longleftrightarrow> unat a + 1 < 2 ^ 64 \<and> b = a + 1"
  by (auto simp: checked_add_def)

lemma coordinator_step_pair:
  "rc_connector_fingerprint (coordinator_step c op) = rc_connector_fingerprint c \<and>
   rc_listener_fingerprint (coordinator_step c op) = rc_listener_fingerprint c"
  by (cases op; simp add: coordinator_ops Let_def split: option.split)

definition pair_of :: "role_coordinator \<Rightarrow> string set" where
  "pair_of c = {rc_connector_fingerprint c, rc_listener_fingerprint c}"

lemma in_pair_iff: "in_pair c fp \<longleftrightarrow> fp \<in> pair_of c"
  by (simp add: in_pair_def pair_of_def)

lemma assignment_prepare:
  "assignment_of (snd (prepare c fp)) = assignment_step (pair_of c) (assignment_of c) (PrepareOp fp)"
proof (cases "checked_add (rs_role_epoch (rc_stable c)) 1")
  case None
  then have "\<not> unat (rs_role_epoch (rc_stable c)) + 1 < 2 ^ 64"
    by (auto simp: checked_add_def)
  then show ?thesis
    using None by (simp add: prepare_def assignment_of_def)
next
  case (Some e)
  then have "unat (rs_role_epoch (rc_stable c)) + 1 < 2 ^ 64"
    by (simp add: checked_add_one_iff)
  then show ?thesis
    using Some by (simp add: prepare_def assignment_of_def pair_of_def)
qed

lemma unat_eq_iff: "unat a = unat b \<longleftrightarrow> a = (b :: 'a::len word)"
  by (rule word_unat_eq_iff [symmetric])

lemma assignment_finish:
  assumes wf: "coordinator_wf c"
  shows "assignment_of (snd (finish_ready c e lc li rc ri d)) =
    assignment_step pair (assignment_of c) (FinishOp e lc li rc ri d)"
proof (cases "rc_pending c")
  case None
  then show ?thesis by (simp add: finish_ready_def assignment_of_def)
next
  case (Some p)
  note p = coordinator_wf_pending [OF wf Some]
  have e: "unat (rs_role_epoch (rc_stable c)) + 1 = unat (pr_proposed_epoch p)"
    using checked_add_Some(1) [OF p(3)] by simp
  have "unat e = unat (pr_proposed_epoch p) \<longleftrightarrow> e = pr_proposed_epoch p"
    by (rule unat_eq_iff)
  with e show ?thesis
    by (simp add: finish_ready_def Some Let_def p(1) assignment_of_def)
qed

lemma assignment_abort:
  assumes wf: "coordinator_wf c"
  shows "assignment_of (snd (abort c d)) = assignment_step pair (assignment_of c) (AbortOp d)"
proof (cases "rc_pending c")
  case None
  then show ?thesis by (simp add: abort_def assignment_of_def)
next
  case (Some p)
  then show ?thesis
    by (simp add: abort_def Let_def coordinator_wf_pending [OF wf Some] assignment_of_def)
qed

lemma assignment_set_paused:
  "assignment_of (snd (set_paused c b)) = assignment_step pair (assignment_of c) (SetPausedOp b)"
  by (simp add: set_paused_def Let_def assignment_of_def)

interpretation role_assignment: simulated_machine coordinator_step
  "\<lambda>c. coordinator_wf c \<and> pair_of c = pair" assignment_of "assignment_step pair" for pair
proof
  show "coordinator_wf (coordinator_step s e) \<and> pair_of (coordinator_step s e) = pair"
    if "coordinator_wf s \<and> pair_of s = pair" for s e
    using that by (simp add: coordinator_step_wf pair_of_def coordinator_step_pair)
  show "assignment_of (coordinator_step s e) = assignment_step pair (assignment_of s) e"
    if "coordinator_wf s \<and> pair_of s = pair" for s e
    using that assignment_prepare [of s] assignment_finish [of s] assignment_abort [of s]
      assignment_set_paused [of s]
    by (cases e) (simp_all del: assignment_step.simps)
qed

lemma run_keeps_pair: "pair_of (foldl coordinator_step c ops) = pair_of c"
  by (induction ops arbitrary: c) (simp_all add: pair_of_def coordinator_step_pair)

lemma coordinator_new_Ok:
  assumes "coordinator_new connector listener controller epoch position paused = Ok c"
  shows "coordinator_wf c" "pair_of c = {connector, listener}"
    "assignment_of c = \<lparr>as_controller = controller, as_epoch = unat epoch, as_paused = paused,
                        as_proposal = None\<rparr>"
  using assms coordinator_new_wf [OF assms]
  by (auto simp: coordinator_new_def pair_of_def assignment_of_def split: if_splits)

lemma validate_prepare_Ok:
  "validate_prepare cur p a b = Ok () \<longleftrightarrow>
     (\<exists>fp. rs_transition p = Preparing fp \<and> rs_controller_fingerprint p = Some fp \<and>
        (fp = a \<or> fp = b) \<and> checked_add (rs_role_epoch cur) 1 = Some (rs_role_epoch p))"
  by (auto simp: validate_prepare_def split: role_transition.splits option.splits if_splits)

lemma validate_commit_Ok:
  "validate_commit p c = Ok () \<longleftrightarrow>
     is_preparing (rs_transition p) \<and> rs_transition c = Stable \<and> rs_role_epoch p = rs_role_epoch c \<and>
     rs_controller_fingerprint p = rs_controller_fingerprint c"
  by (auto simp: validate_commit_def)

lemma prepare_Ok:
  assumes "prepare c fp = (Ok p, c')"
  shows "rc_pending c = None" "in_pair c fp" "rs_transition p = Preparing fp"
    "rs_controller_fingerprint p = Some fp"
    "checked_add (rs_role_epoch (rc_stable c)) 1 = Some (rs_role_epoch p)"
    "c' = c\<lparr>rc_pending := Some \<lparr>pr_previous = rc_stable c, pr_proposed_controller_fingerprint = fp,
                                 pr_proposed_epoch = rs_role_epoch p\<rparr>\<rparr>"
  using assms by (auto simp: prepare_def in_pair_def split: if_splits option.splits)

lemma prepared_state:
  assumes "prepare c fp = (Ok p, c1)"
  shows "rs_listener_position p = rs_listener_position (rc_stable c)"
    "rs_paused p = rs_paused (rc_stable c)" "rs_failure_detail p = None"
  using assms by (auto simp: prepare_def split: if_splits option.splits)

lemma finish_ready_all:
  assumes "prepare c fp = (Ok p, c1)"
  shows "finish_ready c1 (rs_role_epoch p) True True True True detail =
    (Ok (CommitDecision (p\<lparr>rs_transition := Stable\<rparr>)),
     c\<lparr>rc_stable := p\<lparr>rs_transition := Stable\<rparr>, rc_pending := None\<rparr>)"
  using prepare_Ok [OF assms] prepared_state [OF assms]
  by (simp add: finish_ready_def Let_def)

lemma finish_ready_not_all:
  assumes "prepare c fp = (Ok p, c1)" "\<not> (lc \<and> li \<and> rc \<and> ri)"
  shows "finish_ready c1 (rs_role_epoch p) lc li rc ri detail =
    (Ok (AbortDecision ((rc_stable c)\<lparr>rs_transition := Failed,
       rs_failure_detail := (case detail of Some d \<Rightarrow> Some d | None \<Rightarrow> Some BACKENDS_NOT_READY)\<rparr>)), c)"
proof -
  note p = prepare_Ok [OF assms(1)]
  have "c\<lparr>rc_stable := rc_stable c, rc_pending := None\<rparr> = c"
    using p(1) by simp
  then show ?thesis
    using assms(2) by (auto simp: p(6) finish_ready_def Let_def)
qed

lemma role_store_step_state: "role_store_step to_toml = store_step to_toml"
proof (intro ext)
  show "role_store_step to_toml fs op = store_step to_toml fs op" for fs op
    by (cases op) (simp_all add: store_save_def store_clear_def)
qed

section \<open>Role properties\<close>

text \<open>C22: Whatever calls reach a coordinator, in any order, its epoch never goes back and names the
  controller: between two moments of a run the epoch either grew, or it is the same epoch with the
  same controller. The controller is always a member of the authenticated pair, and outside a
  transition the coordinator's state is stable.\<close>

theorem role_epoch_identifies_controller:
  assumes "coordinator_new connector listener controller epoch position paused = Ok c0"
    and "s = foldl coordinator_step c0 ops" and "t = foldl coordinator_step c0 (ops @ later)"
  shows "rs_role_epoch (rc_stable s) \<le> rs_role_epoch (rc_stable t) \<and>
    (rs_role_epoch (rc_stable s) = rs_role_epoch (rc_stable t)
       \<longrightarrow> rs_controller_fingerprint (rc_stable s) = rs_controller_fingerprint (rc_stable t)) \<and>
    (\<forall>fp. rs_controller_fingerprint (rc_stable t) = Some fp \<longrightarrow> fp = connector \<or> fp = listener) \<and>
    rs_transition (rc_stable t) = Stable"
proof -
  note c0 = coordinator_new_Ok [OF assms(1)]
  have pair: "pair_of t = {connector, listener}"
    by (simp only: assms(3) run_keeps_pair c0(2))
  have "coordinator_le s t"
    unfolding assms(2,3) using c0(1) by (rule role.run_le_append)
  moreover have "coordinator_wf t"
    unfolding assms(3) using c0(1) by (rule role.run_inv)
  ultimately show ?thesis
    using pair by (auto simp: coordinator_le_def coordinator_wf_def in_pair_iff)
qed

theorem role_epoch_identifies_controller_witness:
  "\<exists>c0 s t. coordinator_new ''c'' ''l'' (Some ''c'') 1 EdgeRight False = Ok c0 \<and>
    s = foldl coordinator_step c0 [PrepareOp ''l''] \<and>
    t = foldl coordinator_step c0 [PrepareOp ''l'', FinishOp 2 True True True True None] \<and>
    rs_role_epoch (rc_stable s) \<le> rs_role_epoch (rc_stable t) \<and>
    rs_controller_fingerprint (rc_stable t) = Some ''l''"
proof -
  obtain c0 where c0: "coordinator_new ''c'' ''l'' (Some ''c'') 1 EdgeRight False = Ok c0"
    by (simp add: coordinator_new_def)
  have "rs_controller_fingerprint
    (rc_stable (foldl coordinator_step c0 [PrepareOp ''l'', FinishOp 2 True True True True None])) = Some ''l''"
    using c0 by (auto simp: coordinator_new_def prepare_def finish_ready_def checked_add_def Let_def)
  then show ?thesis
    using c0 role_epoch_identifies_controller
      [OF c0 refl refl, of "[PrepareOp ''l'']" "[FinishOp 2 True True True True None]"]
    by auto
qed

text \<open>C1: The coordinator implements its abstract specification: over any sequence of calls it
  behaves as a committed assignment with a pause switch and at most one proposal, where only a
  completed commit of the current proposal changes the controller or the epoch and every other
  outcome (failure, abort, stale answer, rejected call) leaves the assignment as it was.\<close>

theorem role_refines_assignment:
  assumes "coordinator_new connector listener controller epoch position paused = Ok c0"
  shows "assignment_of (foldl coordinator_step c0 ops) =
    foldl (assignment_step {connector, listener})
      \<lparr>as_controller = controller, as_epoch = unat epoch, as_paused = paused, as_proposal = None\<rparr> ops"
proof -
  note c0 = coordinator_new_Ok [OF assms]
  have "coordinator_wf c0 \<and> pair_of c0 = {connector, listener}"
    using c0 by simp
  from role_assignment.run_abs [OF this, of ops] show ?thesis
    by (simp only: c0(3))
qed

theorem role_refines_assignment_witness:
  "\<exists>c0. coordinator_new ''c'' ''l'' None 7 EdgeLeft True = Ok c0 \<and>
    assignment_of (foldl coordinator_step c0 [PrepareOp ''l'', AbortOp ''x'']) =
      \<lparr>as_controller = None, as_epoch = 7, as_paused = True, as_proposal = None\<rparr>"
proof -
  obtain c0 where c0: "coordinator_new ''c'' ''l'' None 7 EdgeLeft True = Ok c0"
    by (simp add: coordinator_new_def)
  show ?thesis
    using c0 role_refines_assignment [OF c0, of "[PrepareOp ''l'', AbortOp ''x'']"] by auto
qed

text \<open>A role change that starts on a coordinator goes through on a listener that is on the same
  epoch: the listener accepts the prepare and, when both sides report ready, the commit, which hands
  control to the proposed node under exactly the next epoch and keeps the pause switch and the
  position. If any backend is not ready the coordinator is exactly as it was before the prepare.\<close>

theorem role_handover:
  assumes "coordinator_new connector listener controller epoch position paused = Ok c0"
    and "c = foldl coordinator_step c0 ops" and "prepare c fp = (Ok p, c1)"
    and "rs_role_epoch current = rs_role_epoch (rc_stable c)"
  shows "validate_prepare current p connector listener = Ok () \<and>
    (\<exists>d c2. finish_ready c1 (rs_role_epoch p) True True True True detail = (Ok (CommitDecision d), c2) \<and>
       validate_commit p d = Ok () \<and> rc_stable c2 = d \<and> rc_pending c2 = None \<and>
       rs_controller_fingerprint d = Some fp \<and>
       unat (rs_role_epoch d) = unat (rs_role_epoch (rc_stable c)) + 1 \<and>
       rs_paused d = rs_paused (rc_stable c) \<and>
       rs_listener_position d = rs_listener_position (rc_stable c)) \<and>
    (\<forall>lc li rc ri. \<not> (lc \<and> li \<and> rc \<and> ri) \<longrightarrow>
       snd (finish_ready c1 (rs_role_epoch p) lc li rc ri detail) = c)"
proof -
  note p = prepare_Ok [OF assms(3)]
  have pair: "pair_of c = {connector, listener}"
    by (simp only: assms(2) run_keeps_pair coordinator_new_Ok(2) [OF assms(1)])
  have "validate_prepare current p connector listener = Ok ()"
    using p pair by (auto simp: validate_prepare_Ok assms(4) in_pair_iff)
  moreover have "validate_commit p (p\<lparr>rs_transition := Stable\<rparr>) = Ok ()"
    using p(3) by (simp add: validate_commit_Ok is_preparing_def)
  ultimately show ?thesis
    using p(4) checked_add_Some(1) [OF p(5)] prepared_state [OF assms(3)] finish_ready_all [OF assms(3), of detail]
      finish_ready_not_all [OF assms(3)] by simp
qed

theorem role_handover_witness:
  "\<exists>c0 p c1. coordinator_new ''c'' ''l'' (Some ''c'') 4 EdgeRight True = Ok c0 \<and>
    prepare c0 ''l'' = (Ok p, c1) \<and> validate_prepare (rc_stable c0) p ''c'' ''l'' = Ok () \<and>
    snd (finish_ready c1 (rs_role_epoch p) True False True True None) = c0"
proof -
  obtain c0 where c0: "coordinator_new ''c'' ''l'' (Some ''c'') 4 EdgeRight True = Ok c0"
    by (simp add: coordinator_new_def)
  obtain p c1 where p: "prepare c0 ''l'' = (Ok p, c1)"
    using c0 by (auto simp: coordinator_new_def prepare_def checked_add_def)
  show ?thesis
    using c0 p role_handover [OF c0 _ p, of "[]" "rc_stable c0" None] by auto
qed

text \<open>A listener applies each proposed epoch once: after a prepare it accepted and the matching
  commit, the new role has a member of the pair as controller and the next epoch, and every prepare
  that was acceptable before the commit (the same one, replayed, or a competing one) is refused.\<close>

theorem role_listener_no_replay:
  assumes "validate_prepare current p connector listener = Ok ()"
    and "validate_commit p c = Ok ()"
  shows "(\<exists>fp. rs_controller_fingerprint c = Some fp \<and> (fp = connector \<or> fp = listener)) \<and>
    unat (rs_role_epoch c) = unat (rs_role_epoch current) + 1 \<and>
    validate_prepare c p connector listener \<noteq> Ok () \<and>
    (\<forall>q. validate_prepare current q connector listener = Ok () \<longrightarrow>
       validate_prepare c q connector listener \<noteq> Ok ())"
proof -
  from assms(1) obtain fp where fp: "rs_controller_fingerprint p = Some fp"
      "fp = connector \<or> fp = listener" "checked_add (rs_role_epoch current) 1 = Some (rs_role_epoch p)"
    by (auto simp: validate_prepare_Ok)
  have c: "rs_role_epoch c = rs_role_epoch p" "rs_controller_fingerprint c = Some fp"
    using assms(2) fp(1) by (simp_all add: validate_commit_Ok)
  have "validate_prepare c q connector listener \<noteq> Ok ()"
    if "validate_prepare current q connector listener = Ok ()" for q
  proof
    assume "validate_prepare c q connector listener = Ok ()"
    then have "checked_add (rs_role_epoch p) 1 = Some (rs_role_epoch q)"
      by (auto simp: validate_prepare_Ok c(1))
    moreover have "rs_role_epoch q = rs_role_epoch p"
      using that fp(3) by (auto simp: validate_prepare_Ok)
    ultimately show False
      using checked_add_one_less by fastforce
  qed
  then show ?thesis
    using assms(1) fp c checked_add_Some(1) [OF fp(3)] by auto
qed

theorem role_listener_no_replay_witness:
  "\<exists>current p c. validate_prepare current p ''c'' ''l'' = Ok () \<and> validate_commit p c = Ok () \<and>
    validate_prepare c p ''c'' ''l'' \<noteq> Ok ()"
proof -
  define current where "current = \<lparr>rs_controller_fingerprint = Some ''c'', rs_role_epoch = 1,
    rs_transition = Stable, rs_listener_position = EdgeLeft, rs_paused = False, rs_failure_detail = None\<rparr>"
  define p where "p = current\<lparr>rs_controller_fingerprint := Some ''l'', rs_role_epoch := 2,
    rs_transition := Preparing ''l''\<rparr>"
  have "validate_prepare current p ''c'' ''l'' = Ok ()" "validate_commit p (p\<lparr>rs_transition := Stable\<rparr>) = Ok ()"
    by (simp_all add: validate_prepare_def validate_commit_def current_def p_def checked_add_def
        is_preparing_def)
  with role_listener_no_replay [OF this] show ?thesis
    by blast
qed

text \<open>The stored role is never torn: if the TOML reader reads back what the writer wrote, then
  after any sequence of saves and clears, each failing or crashing at any of its steps, loading gives
  exactly the role of the last operation that reported success.\<close>

theorem role_store_atomic:
  assumes "\<And>role bs. to_toml role = Some bs \<Longrightarrow> from_toml bs = Some role"
    and "store_load from_toml fs = Ok r"
  shows "store_load from_toml (foldl (role_store_step to_toml) fs ops) =
    Ok (last_success to_toml fs r ops)"
  using assms load_after_ops [of to_toml from_toml fs r ops]
  by (simp add: store_load_def role_store_step_state)

definition role_to_bytes :: "committed_role \<Rightarrow> bytes option" where
  "role_to_bytes r = Some (be_bytes 2 (unat (cr_version r)) @ as_bytes (cr_controller_fingerprint r))"

definition role_of_bytes :: "bytes \<Rightarrow> committed_role option" where
  "role_of_bytes bs =
     Some \<lparr>cr_version = of_nat (from_be_bytes (take 2 bs)),
           cr_controller_fingerprint = bytes_str (drop 2 bs)\<rparr>"

lemma role_of_bytes_inverse: "role_to_bytes r = Some bs \<Longrightarrow> role_of_bytes bs = Some r"
proof -
  assume bs: "role_to_bytes r = Some bs"
  have "unat (cr_version r) < 256 ^ 2"
    using unat_lt_pow [of "cr_version r"] by simp
  then have "from_be_bytes (be_bytes 2 (unat (cr_version r))) = unat (cr_version r)"
    by (rule from_be_bytes_be_bytes)
  with bs show ?thesis
    by (auto simp: role_to_bytes_def role_of_bytes_def)
qed

theorem role_store_atomic_witness:
  "store_load role_of_bytes
     (foldl (role_store_step role_to_bytes) \<lparr>main_file = None, temporary_file = None\<rparr>
        [SaveOp NoFault (committed_role_new ''a''), SaveOp (FailWrite 1) (committed_role_new ''b'')]) =
     Ok (Some (committed_role_new ''a''))"
proof -
  have "store_load role_of_bytes \<lparr>main_file = None, temporary_file = None\<rparr> = Ok None"
    by (simp add: store_load_def load_state_def)
  from role_store_atomic [of role_to_bytes role_of_bytes, OF role_of_bytes_inverse this,
      of "[SaveOp NoFault (committed_role_new ''a''), SaveOp (FailWrite 1) (committed_role_new ''b'')]"]
  show ?thesis
    by (simp only: last_success.simps) (simp add: save_state_def role_to_bytes_def)
qed

end
