(* ===== verification/Liveness.thy ===== *)
theory Liveness
  imports Protocol
begin

text \<open>
  The session watchdog, the input gate and the pairing decision of \<open>crates/edge-runtime/src/lib.rs\<close>.
  A clock reading is the argument \<open>now\<close>. \<open>liveness_new\<close> returns None where the assertion of
  \<open>LivenessTracker::new\<close> panics.
\<close>

section \<open>Liveness\<close>

record liveness_config =
  lc_active_heartbeat_interval :: duration
  lc_idle_heartbeat_interval :: duration
  lc_soft_input_timeout :: duration
  lc_hard_session_timeout :: duration

definition liveness_config_default :: liveness_config where
  "liveness_config_default =
     \<lparr>lc_active_heartbeat_interval = from_millis 250, lc_idle_heartbeat_interval = from_secs 1,
      lc_soft_input_timeout = from_secs 2, lc_hard_session_timeout = from_secs 5\<rparr>"

definition heartbeat_interval :: "liveness_config \<Rightarrow> bool \<Rightarrow> duration" where
  "heartbeat_interval c input_armed_or_transitioning =
     (if input_armed_or_transitioning then lc_active_heartbeat_interval c
      else lc_idle_heartbeat_interval c)"

datatype liveness_event = SoftInputTimeout | HardSessionTimeout

record liveness_tracker =
  lt_config :: liveness_config
  lt_last_activity :: instant
  lt_input_active_since :: "instant option"
  lt_soft_reported :: bool
  lt_hard_reported :: bool

definition liveness_new :: "liveness_config \<Rightarrow> instant \<Rightarrow> liveness_tracker option" where
  "liveness_new c now =
     (if lc_soft_input_timeout c < lc_hard_session_timeout c
      then Some \<lparr>lt_config = c, lt_last_activity = now, lt_input_active_since = None,
                 lt_soft_reported = False, lt_hard_reported = False\<rparr>
      else None)"

definition observe_authenticated_frame :: "liveness_tracker \<Rightarrow> instant \<Rightarrow> liveness_tracker" where
  "observe_authenticated_frame t now =
     t\<lparr>lt_last_activity := now, lt_soft_reported := False, lt_hard_reported := False\<rparr>"

definition elapsed :: "liveness_tracker \<Rightarrow> instant \<Rightarrow> duration" where
  "elapsed t now = duration_since now (lt_last_activity t)"

definition poll :: "liveness_tracker \<Rightarrow> instant \<Rightarrow> bool \<Rightarrow> liveness_event option \<times> liveness_tracker" where
  "poll t now input_active =
     (if elapsed t now \<ge> lc_hard_session_timeout (lt_config t) \<and> \<not> lt_hard_reported t
      then (Some HardSessionTimeout, t\<lparr>lt_hard_reported := True\<rparr>)
      else if \<not> input_active
      then (None, t\<lparr>lt_input_active_since := None, lt_soft_reported := False\<rparr>)
      else (let since = (case lt_input_active_since t of Some s \<Rightarrow> s | None \<Rightarrow> now);
                t' = t\<lparr>lt_input_active_since := Some since\<rparr>;
                baseline = max (lt_last_activity t) since
            in if duration_since now baseline \<ge> lc_soft_input_timeout (lt_config t)
                  \<and> \<not> lt_soft_reported t
               then (Some SoftInputTimeout, t'\<lparr>lt_soft_reported := True\<rparr>)
               else (None, t')))"

text \<open>The events of a list of polls.\<close>

fun polls :: "liveness_tracker \<Rightarrow> (instant \<times> bool) list \<Rightarrow> liveness_event option list" where
  "polls t [] = []"
| "polls t ((now, active) # ps) = fst (poll t now active) # polls (snd (poll t now active)) ps"

section \<open>The input gate\<close>

record input_epoch_gate =
  ig_suspended :: bool

definition gate_default :: input_epoch_gate where
  "gate_default = \<lparr>ig_suspended = True\<rparr>"

definition gate_suspend :: "input_epoch_gate \<Rightarrow> input_epoch_gate" where
  "gate_suspend g = g\<lparr>ig_suspended := True\<rparr>"

definition gate_is_suspended :: "input_epoch_gate \<Rightarrow> bool" where
  "gate_is_suspended g = ig_suspended g"

fun is_enter_remote :: "control_event \<Rightarrow> bool" where
  "is_enter_remote (EnterRemote _ _) = True"
| "is_enter_remote _ = False"

definition gate_observe_control :: "input_epoch_gate \<Rightarrow> control_event \<Rightarrow> input_epoch_gate" where
  "gate_observe_control g c = (if is_enter_remote c then g\<lparr>ig_suspended := False\<rparr> else g)"

definition gate_accepts_input :: "input_epoch_gate \<Rightarrow> bool" where
  "gate_accepts_input g = (\<not> ig_suspended g)"

section \<open>Pairing\<close>

record pairing_status =
  pst_trusted :: bool
  pst_armed :: bool

datatype pairing_resolution = AlreadyTrusted | ApprovalRequired | NotArmed | Declined | Accepted

definition resolve_pairing ::
  "pairing_status \<Rightarrow> pairing_status \<Rightarrow> (bool \<times> bool) option \<Rightarrow> pairing_resolution" where
  "resolve_pairing local peer decisions =
     (if pst_trusted local \<and> pst_trusted peer then AlreadyTrusted
      else if \<not> pst_armed local \<or> \<not> pst_armed peer then NotArmed
      else (case decisions of
              None \<Rightarrow> ApprovalRequired
            | Some (True, True) \<Rightarrow> Accepted
            | Some _ \<Rightarrow> Declined))"

section \<open>Lemmas\<close>

lemma poll_config [simp]:
  "lt_config (snd (poll t now a)) = lt_config t"
  "lt_last_activity (snd (poll t now a)) = lt_last_activity t"
  by (simp_all add: poll_def Let_def)

lemma poll_hard_reported:
  "lt_hard_reported (snd (poll t now a)) \<longleftrightarrow>
     lt_hard_reported t \<or> lt_last_activity t + lc_hard_session_timeout (lt_config t) \<le> now \<or>
     lc_hard_session_timeout (lt_config t) = 0"
  by (auto simp: poll_def Let_def elapsed_def duration_since_def)

lemma poll_hard_iff:
  "fst (poll t now a) = Some HardSessionTimeout \<longleftrightarrow>
     elapsed t now \<ge> lc_hard_session_timeout (lt_config t) \<and> \<not> lt_hard_reported t"
  by (auto simp: poll_def Let_def)

lemma no_hard_after_report:
  "lt_hard_reported t \<Longrightarrow> Some HardSessionTimeout \<notin> set (polls t ps)"
proof (induction t ps rule: polls.induct)
  case (2 t now a ps)
  have "Some HardSessionTimeout \<noteq> fst (poll t now a)"
    using 2(2) poll_hard_iff [of t now a] by auto
  then show ?case
    using 2 by (simp add: poll_hard_reported)
qed simp

lemma hard_count:
  assumes "0 < lc_hard_session_timeout (lt_config t)" "\<not> lt_hard_reported t"
  shows "count_list (polls t ps) (Some HardSessionTimeout) =
    (if \<exists>(now, a)\<in>set ps. lt_last_activity t + lc_hard_session_timeout (lt_config t) \<le> now then 1 else 0)"
  using assms
proof (induction t ps rule: polls.induct)
  case (2 t now a ps)
  show ?case
  proof (cases "lt_last_activity t + lc_hard_session_timeout (lt_config t) \<le> now")
    case True
    then have "fst (poll t now a) = Some HardSessionTimeout" "lt_hard_reported (snd (poll t now a))"
      using 2(3) by (simp_all add: poll_hard_iff poll_hard_reported elapsed_def duration_since_def)
    then show ?thesis
      using True no_hard_after_report by (simp add: count_list_0_iff)
  next
    case False
    then have "fst (poll t now a) \<noteq> Some HardSessionTimeout" "\<not> lt_hard_reported (snd (poll t now a))"
      using 2(2,3) by (simp_all add: poll_hard_iff poll_hard_reported elapsed_def duration_since_def)
    then show ?thesis
      using False 2 by simp
  qed
qed simp

lemma poll_soft:
  assumes "fst (poll t now a) = Some SoftInputTimeout" "0 < lc_soft_input_timeout (lt_config t)"
  shows "a \<and> lt_last_activity t + lc_soft_input_timeout (lt_config t) \<le> now \<and>
    (\<exists>s. lt_input_active_since t = Some s \<and> s + lc_soft_input_timeout (lt_config t) \<le> now)"
  using assms by (auto simp: poll_def Let_def duration_since_def split: if_splits option.splits)

text \<open>The tracker under any schedule of its operations.\<close>

datatype liveness_op = ObserveOp instant | PollOp instant bool

fun liveness_step :: "liveness_tracker \<Rightarrow> liveness_op \<Rightarrow> liveness_tracker" where
  "liveness_step t (ObserveOp now) = observe_authenticated_frame t now"
| "liveness_step t (PollOp now a) = snd (poll t now a)"

lemma liveness_step_config: "lt_config (liveness_step t op) = lt_config t"
  by (cases op) (simp_all add: observe_authenticated_frame_def)

interpretation liveness: guarded_machine liveness_step "\<lambda>t. lt_config t = c" for c
  by unfold_locales (simp add: liveness_step_config)

lemma liveness_new_config:
  "liveness_new c now = Some t \<Longrightarrow>
     lt_config t = c \<and> lc_soft_input_timeout c < lc_hard_session_timeout c"
  by (auto simp: liveness_new_def split: if_splits)

lemma poll_since:
  assumes "\<forall>s. lt_input_active_since t = Some s \<longrightarrow> n0 \<le> s" "n0 \<le> now"
  shows "\<forall>s. lt_input_active_since (snd (poll t now True)) = Some s \<longrightarrow> n0 \<le> s"
  using assms by (auto simp: poll_def Let_def split: option.splits)

lemma soft_after_activation:
  assumes "\<forall>s. lt_input_active_since t = Some s \<longrightarrow> n0 \<le> s" "\<forall>n\<in>set ns. n0 \<le> n"
    and "0 < lc_soft_input_timeout (lt_config t)"
    and "i < length ns" "polls t (map (\<lambda>n. (n, True)) ns) ! i = Some SoftInputTimeout"
  shows "n0 + lc_soft_input_timeout (lt_config t) \<le> ns ! i \<and>
    lt_last_activity t + lc_soft_input_timeout (lt_config t) \<le> ns ! i"
  using assms
proof (induction ns arbitrary: t i)
  case (Cons n ns)
  show ?case
  proof (cases i)
    case 0
    then have "fst (poll t n True) = Some SoftInputTimeout"
      using Cons.prems(5) by simp
    from poll_soft [OF this Cons.prems(3)] show ?thesis
      using Cons.prems(1) 0 by fastforce
  next
    case (Suc j)
    have "n0 \<le> n" using Cons.prems(2) by simp
    then have "\<forall>s. lt_input_active_since (snd (poll t n True)) = Some s \<longrightarrow> n0 \<le> s"
      using Cons.prems(1) poll_since by blast
    from Cons.IH [OF this, of j] show ?thesis
      using Cons.prems Suc by simp
  qed
qed simp

section \<open>Properties\<close>

text \<open>The watchdog reports a dead session exactly once per silence: whatever happened before, after
  a frame at time \<open>t1\<close> and any list of polls with no further frame, the hard timeout is reported once
  if some poll is at least the hard timeout after \<open>t1\<close>, and never otherwise.\<close>

theorem hard_timeout_exactly_once:
  assumes "liveness_new c start = Some t0"
    and "t = observe_authenticated_frame (foldl liveness_step t0 ops) t1"
  shows "count_list (polls t ps) (Some HardSessionTimeout) =
    (if \<exists>(now, active)\<in>set ps. t1 + lc_hard_session_timeout c \<le> now then 1 else 0)"
proof -
  have c: "lt_config t0 = c" "0 < lc_hard_session_timeout c"
    using liveness_new_config [OF assms(1)] by auto
  then have "lt_config t = c" "lt_last_activity t = t1" "\<not> lt_hard_reported t"
    using liveness.run_inv [OF c(1), of ops] by (simp_all add: assms(2) observe_authenticated_frame_def)
  with hard_count [of t ps] c(2) show ?thesis
    by simp
qed

theorem hard_timeout_exactly_once_witness:
  "\<exists>t0. liveness_new liveness_config_default 0 = Some t0 \<and>
    count_list (polls (observe_authenticated_frame (foldl liveness_step t0 []) 7)
      [(from_secs 4, True), (from_secs 6, False), (from_secs 9, True)]) (Some HardSessionTimeout) = 1"
proof -
  obtain t0 where t0: "liveness_new liveness_config_default 0 = Some t0"
    by (simp add: liveness_new_def liveness_config_default_def from_secs_def)
  show ?thesis
    using t0 hard_timeout_exactly_once [OF t0 refl, of "[]" 7
      "[(from_secs 4, True), (from_secs 6, False), (from_secs 9, True)]"]
    by (simp add: liveness_config_default_def from_secs_def)
qed

text \<open>Turning input on never trips the soft timeout at once: after a poll that found input
  inactive, while input stays active from time \<open>n0\<close> on, the soft timeout is reported only at a time
  that is at least the soft timeout after \<open>n0\<close> and after the last authenticated frame, however long the
  session had been silent before.\<close>

theorem soft_timeout_needs_active_silence:
  assumes "liveness_new c start = Some t0" "0 < lc_soft_input_timeout c"
    and "poll (foldl liveness_step t0 ops) now0 False = (None, t)"
    and "sorted (n0 # ns)" "i < length (n0 # ns)"
    and "polls t (map (\<lambda>n. (n, True)) (n0 # ns)) ! i = Some SoftInputTimeout"
  shows "n0 + lc_soft_input_timeout c \<le> (n0 # ns) ! i \<and>
    lt_last_activity t + lc_soft_input_timeout c \<le> (n0 # ns) ! i"
proof -
  have "lt_config t0 = c"
    using liveness_new_config [OF assms(1)] by auto
  from liveness.run_inv [OF this, of ops] have c: "lt_config t = c"
    using poll_config(1) [of "foldl liveness_step t0 ops" now0 False] assms(3) by simp
  have "lt_input_active_since t = None"
    using assms(3) by (auto simp: poll_def split: if_splits)
  then have "\<forall>s. lt_input_active_since t = Some s \<longrightarrow> n0 \<le> s"
    by simp
  from soft_after_activation [OF this, of "n0 # ns" i] show ?thesis
    using assms(2,4-6) c by auto
qed

theorem soft_timeout_needs_active_silence_witness:
  "\<exists>t0 t. liveness_new (liveness_config_default\<lparr>lc_hard_session_timeout := from_secs 50\<rparr>) 0 = Some t0 \<and>
    poll t0 (from_secs 10) False = (None, t) \<and>
    polls t (map (\<lambda>n. (n, True)) [from_secs 11, from_secs 13]) ! 1 = Some SoftInputTimeout \<and>
    from_secs 11 + from_secs 2 \<le> ([from_secs 11, from_secs 13] ! 1)"
proof -
  obtain t0 where t0: "liveness_new (liveness_config_default\<lparr>lc_hard_session_timeout := from_secs 50\<rparr>) 0 = Some t0"
    by (simp add: liveness_new_def liveness_config_default_def from_secs_def)
  obtain t where t: "poll t0 (from_secs 10) False = (None, t)"
    using t0 by (auto simp: poll_def elapsed_def duration_since_def liveness_new_def
        liveness_config_default_def from_secs_def)
  have s: "polls t (map (\<lambda>n. (n, True)) [from_secs 11, from_secs 13]) ! 1 = Some SoftInputTimeout"
    using t0 t by (auto simp: poll_def Let_def elapsed_def duration_since_def liveness_new_def
        liveness_config_default_def from_secs_def)
  have "poll (foldl liveness_step t0 []) (from_secs 10) False = (None, t)"
    using t by simp
  from soft_timeout_needs_active_silence [OF t0 _ this _ _ s]
  have "from_secs 11 + from_secs 2 \<le> [from_secs 11, from_secs 13] ! 1"
    by (simp add: liveness_config_default_def from_secs_def)
  with t0 t s show ?thesis
    by blast
qed

text \<open>Pairing is decided the same way on both computers: swapping the two sides, and the two
  decisions with them, gives the same resolution, and it is a fresh acceptance exactly when both are
  armed, both users accepted, and the pair was not trusted on both sides already.\<close>

theorem pairing_resolution_symmetric:
  "resolve_pairing a b decisions = resolve_pairing b a (map_option prod.swap decisions) \<and>
   (resolve_pairing a b decisions = Accepted \<longleftrightarrow>
      pst_armed a \<and> pst_armed b \<and> decisions = Some (True, True) \<and>
      (pst_trusted a \<longrightarrow> \<not> pst_trusted b))"
  by (auto simp: resolve_pairing_def split: option.splits bool.splits)

theorem pairing_resolution_symmetric_witness:
  "resolve_pairing \<lparr>pst_trusted = True, pst_armed = True\<rparr> \<lparr>pst_trusted = False, pst_armed = True\<rparr>
     (Some (True, True)) = Accepted"
  using pairing_resolution_symmetric [THEN conjunct2,
      of "\<lparr>pst_trusted = True, pst_armed = True\<rparr>" "\<lparr>pst_trusted = False, pst_armed = True\<rparr>"
      "Some (True, True)"]
  by simp

end
