(* ===== verification/Clipboard.thy ===== *)
theory Clipboard
  imports Protocol
begin

text \<open>
  \<open>crates/edge-clipboard/src/lib.rs\<close>: the budget that keeps bulk transfers moving, the canonical form
  of an image, change detection, and the chunked transfer of one clipboard item in both directions.

  Parameters stand for the crates the code calls: \<open>sha\<close> is SHA-256 of a byte sequence;
  \<open>image_codec\<close> holds the \<open>image\<close> crate's PNG writer, its header reader and its decoder to RGBA, each
  failing with None. A stateful call returns its Rust result and the new state. \<open>Instant::now()\<close> is the
  argument \<open>now\<close>. \<open>usize\<close> is 64 bits wide.
\<close>

definition MAX_IMAGE_PIXELS :: nat where
  "MAX_IMAGE_PIXELS = 16777216"

definition TRANSFER_CHUNK_BYTES :: nat where
  "TRANSFER_CHUNK_BYTES = 16 * 1024"

definition IMAGE_TRANSFER_TIMEOUT :: duration where
  "IMAGE_TRANSFER_TIMEOUT = from_secs 10"

definition MAX_HIGH_PRIORITY_FRAMES_BEFORE_IMAGE_CHUNK :: u8 where
  "MAX_HIGH_PRIORITY_FRAMES_BEFORE_IMAGE_CHUNK = 64"

section \<open>The bulk budget\<close>

record image_transfer_schedule =
  high_priority_frames_since_chunk :: u8

definition schedule_default :: image_transfer_schedule where
  "schedule_default = \<lparr>high_priority_frames_since_chunk = 0\<rparr>"

definition record_high_priority_frame :: "image_transfer_schedule \<Rightarrow> image_transfer_schedule" where
  "record_high_priority_frame s =
     s\<lparr>high_priority_frames_since_chunk := saturating_add (high_priority_frames_since_chunk s) 1\<rparr>"

definition record_image_chunk :: "image_transfer_schedule \<Rightarrow> image_transfer_schedule" where
  "record_image_chunk s = s\<lparr>high_priority_frames_since_chunk := 0\<rparr>"

definition image_chunk_is_due :: "image_transfer_schedule \<Rightarrow> bool" where
  "image_chunk_is_due s =
     (high_priority_frames_since_chunk s \<ge> MAX_HIGH_PRIORITY_FRAMES_BEFORE_IMAGE_CHUNK)"

fun is_chunk_frame :: "frame \<Rightarrow> bool" where
  "is_chunk_frame (FClipboard (ImageChunk _ _ _)) = True"
| "is_chunk_frame (FClipboard (TextChunk _ _ _)) = True"
| "is_chunk_frame _ = False"

fun is_clipboard_frame :: "frame \<Rightarrow> bool" where
  "is_clipboard_frame (FClipboard _) = True"
| "is_clipboard_frame _ = False"

definition record_sent_frame :: "image_transfer_schedule \<Rightarrow> frame \<Rightarrow> image_transfer_schedule" where
  "record_sent_frame s f =
     (if is_chunk_frame f then record_image_chunk s else record_high_priority_frame s)"

definition record_received_frame :: "image_transfer_schedule \<Rightarrow> frame \<Rightarrow> image_transfer_schedule" where
  "record_received_frame s f = (if \<not> is_clipboard_frame f then record_high_priority_frame s else s)"

section \<open>Features, errors and items\<close>

record clipboard_peer_features =
  cpf_images :: bool
  cpf_text_chunks :: bool

definition features_from_extensions :: "string list \<Rightarrow> clipboard_peer_features" where
  "features_from_extensions extensions =
     \<lparr>cpf_images = CLIPBOARD_IMAGE_EXTENSION \<in> set extensions,
      cpf_text_chunks = CLIPBOARD_TEXT_CHUNKS_EXTENSION \<in> set extensions\<rparr>"

datatype clipboard_error =
    InvalidDimensions
  | TooManyPixels u64
  | InvalidRgbaLength u32 u32
  | EncodedTooLarge nat nat
  | UnsupportedMime string
  | ImageError
  | InvalidTransfer
  | OffsetMismatch u32 u32
  | HashMismatch
  | TransferExpired
  | InvalidText

record canonical_image =
  ci_width :: u32
  ci_height :: u32
  ci_rgba :: bytes
  ci_png :: bytes
  ci_content_sha256 :: bytes

datatype clipboard_item = ItemText string | ItemImage canonical_image

datatype clipboard_content_id = ContentText bytes | ContentImage bytes

definition hash_bytes :: "(bytes \<Rightarrow> bytes) \<Rightarrow> bytes \<Rightarrow> bytes" where
  "hash_bytes sha bs = sha bs"

definition hash_image :: "(bytes \<Rightarrow> bytes) \<Rightarrow> u32 \<Rightarrow> u32 \<Rightarrow> bytes \<Rightarrow> bytes" where
  "hash_image sha width height rgba =
     sha (be_bytes 4 (unat width) @ be_bytes 4 (unat height) @ rgba)"

fun item_id :: "(bytes \<Rightarrow> bytes) \<Rightarrow> clipboard_item \<Rightarrow> clipboard_content_id" where
  "item_id sha (ItemText text) = ContentText (hash_bytes sha (as_bytes text))"
| "item_id sha (ItemImage img) = ContentImage (ci_content_sha256 img)"

section \<open>Canonical images\<close>

datatype image_format = Png | Jpeg | Bmp

record image_codec =
  write_png :: "u32 \<Rightarrow> u32 \<Rightarrow> bytes \<Rightarrow> bytes option"
  read_dimensions :: "image_format \<Rightarrow> bytes \<Rightarrow> (u32 \<times> u32) option"
  decode_rgba8 :: "image_format \<Rightarrow> u32 \<Rightarrow> u32 \<Rightarrow> bytes \<Rightarrow> bytes option"

definition validate_dimensions :: "u32 \<Rightarrow> u32 \<Rightarrow> nat \<Rightarrow> (clipboard_error, unit) result" where
  "validate_dimensions width height rgba_len =
     (if width = 0 \<or> height = 0 then Err InvalidDimensions
      else (let pixels = unat width * unat height in
            if pixels > MAX_IMAGE_PIXELS then Err (TooManyPixels (of_nat pixels))
            else if pixels * 4 \<ge> 2 ^ 64 then Err InvalidDimensions
            else if rgba_len \<noteq> pixels * 4 then Err (InvalidRgbaLength width height)
            else Ok ()))"

text \<open>\<open>RgbaImage::from_raw\<close> accepts a buffer that is long enough.\<close>

definition from_rgba ::
  "(bytes \<Rightarrow> bytes) \<Rightarrow> image_codec \<Rightarrow> u32 \<Rightarrow> u32 \<Rightarrow> bytes \<Rightarrow> nat
     \<Rightarrow> (clipboard_error, canonical_image) result" where
  "from_rgba sha codec width height rgba max_bytes =
     (case validate_dimensions width height (length rgba) of
        Inl e \<Rightarrow> Err e
      | Inr _ \<Rightarrow>
          if length rgba < unat width * unat height * 4 then Err (InvalidRgbaLength width height)
          else (case write_png codec width height rgba of
                  None \<Rightarrow> Err ImageError
                | Some png \<Rightarrow>
                    if length png > max_bytes then Err (EncodedTooLarge (length png) max_bytes)
                    else Ok \<lparr>ci_width = width, ci_height = height, ci_rgba = rgba, ci_png = png,
                             ci_content_sha256 = hash_image sha width height rgba\<rparr>))"

definition mime_format :: "string \<Rightarrow> image_format option" where
  "mime_format mime =
     (if mime = ''image/png'' then Some Png
      else if mime = ''image/jpeg'' \<or> mime = ''image/jpg'' then Some Jpeg
      else if mime = ''image/bmp'' \<or> mime = ''image/x-bmp'' then Some Bmp else None)"

definition from_encoded ::
  "(bytes \<Rightarrow> bytes) \<Rightarrow> image_codec \<Rightarrow> bytes \<Rightarrow> string \<Rightarrow> nat \<Rightarrow> (clipboard_error, canonical_image) result"
  where
  "from_encoded sha codec bs mime max_bytes =
     (if length bs > max_bytes then Err (EncodedTooLarge (length bs) max_bytes)
      else (case mime_format mime of
              None \<Rightarrow> Err (UnsupportedMime mime)
            | Some format \<Rightarrow>
                (case read_dimensions codec format bs of
                   None \<Rightarrow> Err ImageError
                 | Some (width, height) \<Rightarrow>
                     if width = 0 \<or> height = 0 then Err InvalidDimensions
                     else if unat width * unat height > MAX_IMAGE_PIXELS
                     then Err (TooManyPixels (of_nat (unat width * unat height)))
                     else (case decode_rgba8 codec format width height bs of
                             None \<Rightarrow> Err ImageError
                           | Some rgba \<Rightarrow> from_rgba sha codec width height rgba max_bytes))))"

section \<open>Change tracking\<close>

record clipboard_change_tracker =
  cct_sequence :: u64
  cct_last_observed :: "clipboard_content_id option"

definition tracker_new :: "clipboard_content_id option \<Rightarrow> clipboard_change_tracker" where
  "tracker_new observed = \<lparr>cct_sequence = 0, cct_last_observed = observed\<rparr>"

definition is_observed :: "clipboard_change_tracker \<Rightarrow> clipboard_content_id option \<Rightarrow> bool" where
  "is_observed t current = (cct_last_observed t = current)"

definition mark_observed ::
  "clipboard_change_tracker \<Rightarrow> clipboard_content_id option \<Rightarrow> clipboard_change_tracker" where
  "mark_observed t current = t\<lparr>cct_last_observed := current\<rparr>"

definition offer_current ::
  "clipboard_change_tracker \<Rightarrow> clipboard_content_id option \<Rightarrow> u64 option \<times> clipboard_change_tracker" where
  "offer_current t current =
     (let t1 = t\<lparr>cct_last_observed := current\<rparr> in
      case current of
        None \<Rightarrow> (None, t1)
      | Some _ \<Rightarrow>
          (let sequence = saturating_add (cct_sequence t1) 1
           in (Some sequence, t1\<lparr>cct_sequence := sequence\<rparr>)))"

definition offer_if_changed ::
  "clipboard_change_tracker \<Rightarrow> clipboard_content_id option \<Rightarrow> u64 option \<times> clipboard_change_tracker" where
  "offer_if_changed t current = (if is_observed t current then (None, t) else offer_current t current)"

section \<open>Sending a transfer\<close>

datatype outgoing_payload = OutImage canonical_image | OutText bytes bytes \<comment> \<open>\<open>bytes, content_sha256\<close>\<close>

fun payload_bytes :: "outgoing_payload \<Rightarrow> bytes" where
  "payload_bytes (OutImage img) = ci_png img"
| "payload_bytes (OutText bs _) = bs"

datatype outgoing_stage = StageStart | StageChunks | StageEnd | StageDone

record outgoing_transfer =
  ot_transfer_id :: u64
  ot_sequence :: u64
  ot_payload :: outgoing_payload
  ot_offset :: nat
  ot_stage :: outgoing_stage

definition with_payload :: "u64 \<Rightarrow> u64 \<Rightarrow> outgoing_payload \<Rightarrow> outgoing_transfer" where
  "with_payload transfer_id sequence payload =
     \<lparr>ot_transfer_id = transfer_id, ot_sequence = sequence, ot_payload = payload,
      ot_offset = 0, ot_stage = StageStart\<rparr>"

definition outgoing_image :: "u64 \<Rightarrow> u64 \<Rightarrow> canonical_image \<Rightarrow> outgoing_transfer" where
  "outgoing_image transfer_id sequence img = with_payload transfer_id sequence (OutImage img)"

definition outgoing_text :: "(bytes \<Rightarrow> bytes) \<Rightarrow> u64 \<Rightarrow> u64 \<Rightarrow> string \<Rightarrow> outgoing_transfer" where
  "outgoing_text sha transfer_id sequence text =
     (let bs = as_bytes text
      in with_payload transfer_id sequence (OutText bs (hash_bytes sha bs)))"

definition outgoing_is_text :: "outgoing_transfer \<Rightarrow> bool" where
  "outgoing_is_text t = (case ot_payload t of OutText _ _ \<Rightarrow> True | _ \<Rightarrow> False)"

definition outgoing_is_done :: "outgoing_transfer \<Rightarrow> bool" where
  "outgoing_is_done t = (ot_stage t = StageDone)"

definition cancel_event :: "outgoing_transfer \<Rightarrow> clipboard_cancel_reason \<Rightarrow> clipboard_event" where
  "cancel_event t reason = ImageCancel (ot_transfer_id t) reason"

definition start_event :: "outgoing_transfer \<Rightarrow> clipboard_event" where
  "start_event t =
     (let total_bytes = of_nat (length (payload_bytes (ot_payload t))) in
      case ot_payload t of
        OutImage img \<Rightarrow> ImageStart (ot_transfer_id t) (ot_sequence t) (ci_width img) (ci_height img)
                           total_bytes (ci_content_sha256 img)
      | OutText _ hash \<Rightarrow> TextStart (ot_transfer_id t) (ot_sequence t) total_bytes hash)"

definition chunk_event :: "outgoing_transfer \<Rightarrow> u32 \<Rightarrow> bytes \<Rightarrow> clipboard_event" where
  "chunk_event t offset bs =
     (case ot_payload t of
        OutImage _ \<Rightarrow> ImageChunk (ot_transfer_id t) offset bs
      | OutText _ _ \<Rightarrow> TextChunk (ot_transfer_id t) offset bs)"

definition end_event :: "outgoing_transfer \<Rightarrow> clipboard_event" where
  "end_event t =
     (case ot_payload t of
        OutImage _ \<Rightarrow> ImageEnd (ot_transfer_id t)
      | OutText _ _ \<Rightarrow> TextEnd (ot_transfer_id t))"

definition next_event :: "outgoing_transfer \<Rightarrow> clipboard_event option \<times> outgoing_transfer" where
  "next_event t =
     (case ot_stage t of
        StageStart \<Rightarrow> (Some (start_event t), t\<lparr>ot_stage := StageChunks\<rparr>)
      | StageChunks \<Rightarrow>
          (let payload = payload_bytes (ot_payload t) in
           if ot_offset t \<ge> length payload
           then (Some (end_event t), t\<lparr>ot_stage := StageDone\<rparr>)
           else (let fin = min (ot_offset t + TRANSFER_CHUNK_BYTES) (length payload);
                     bs = take (fin - ot_offset t) (drop (ot_offset t) payload)
                 in (Some (chunk_event t (of_nat (ot_offset t)) bs), t\<lparr>ot_offset := fin\<rparr>)))
      | StageEnd \<Rightarrow> (Some (end_event t), t\<lparr>ot_stage := StageDone\<rparr>)
      | StageDone \<Rightarrow> (None, t))"

section \<open>Receiving a transfer\<close>

record transfer_limits =
  max_image_bytes :: nat
  max_text_bytes :: nat

datatype incoming_kind = KindImage u32 u32 | KindText

record incoming_state =
  is_transfer_id :: u64
  is_kind :: incoming_kind
  is_total_bytes :: nat
  is_content_sha256 :: bytes
  is_bytes :: bytes
  is_last_progress :: instant

type_synonym incoming_transfer = "incoming_state option"

type_synonym handled = "(clipboard_error, clipboard_item option) result \<times> incoming_transfer"

definition incoming_start ::
  "instant \<Rightarrow> incoming_transfer \<Rightarrow> u64 \<Rightarrow> incoming_kind \<Rightarrow> nat \<Rightarrow> nat \<Rightarrow> bytes \<Rightarrow> handled" where
  "incoming_start now active transfer_id kind total_bytes max_bytes hash =
     (if total_bytes = 0 \<or> total_bytes > max_bytes
      then (Err (EncodedTooLarge total_bytes max_bytes), active)
      else (Ok None,
            Some \<lparr>is_transfer_id = transfer_id, is_kind = kind, is_total_bytes = total_bytes,
                  is_content_sha256 = hash, is_bytes = [], is_last_progress = now\<rparr>))"

definition incoming_chunk ::
  "instant \<Rightarrow> incoming_transfer \<Rightarrow> u64 \<Rightarrow> bool \<Rightarrow> u32 \<Rightarrow> bytes \<Rightarrow> handled" where
  "incoming_chunk now active transfer_id text offset bs =
     (case active of
        None \<Rightarrow> (Err InvalidTransfer, active)
      | Some st \<Rightarrow>
          if is_transfer_id st \<noteq> transfer_id \<or> (is_kind st = KindText) \<noteq> text
          then (Err InvalidTransfer, active)
          else (let expected = of_nat (length (is_bytes st)) in
                if offset \<noteq> expected then (Err (OffsetMismatch expected offset), active)
                else if bs = [] \<or> length bs > TRANSFER_CHUNK_BYTES
                        \<or> min (length (is_bytes st) + length bs) (2 ^ 64 - 1) > is_total_bytes st
                then (Err InvalidTransfer, active)
                else (Ok None,
                      Some (st\<lparr>is_bytes := is_bytes st @ bs, is_last_progress := now\<rparr>))))"

definition incoming_finish ::
  "(bytes \<Rightarrow> bytes) \<Rightarrow> image_codec \<Rightarrow> incoming_transfer \<Rightarrow> u64 \<Rightarrow> bool \<Rightarrow> transfer_limits \<Rightarrow> handled" where
  "incoming_finish sha codec active transfer_id text limits =
     (case active of
        None \<Rightarrow> (Err InvalidTransfer, None)
      | Some st \<Rightarrow>
          if is_transfer_id st \<noteq> transfer_id \<or> (is_kind st = KindText) \<noteq> text
             \<or> length (is_bytes st) \<noteq> is_total_bytes st
          then (Err InvalidTransfer, None)
          else (case is_kind st of
                  KindImage width height \<Rightarrow>
                    (case from_encoded sha codec (is_bytes st) ''image/png'' (max_image_bytes limits) of
                       Inl e \<Rightarrow> (Err e, None)
                     | Inr img \<Rightarrow>
                         if ci_width img \<noteq> width \<or> ci_height img \<noteq> height
                            \<or> ci_content_sha256 img \<noteq> is_content_sha256 st
                         then (Err HashMismatch, None)
                         else (Ok (Some (ItemImage img)), None))
                | KindText \<Rightarrow>
                    if hash_bytes sha (is_bytes st) \<noteq> is_content_sha256 st
                    then (Err HashMismatch, None)
                    else (case from_utf8 (is_bytes st) of
                            None \<Rightarrow> (Err InvalidText, None)
                          | Some text \<Rightarrow> (Ok (Some (ItemText text)), None))))"

fun handle ::
  "(bytes \<Rightarrow> bytes) \<Rightarrow> image_codec \<Rightarrow> instant \<Rightarrow> incoming_transfer \<Rightarrow> clipboard_event \<Rightarrow> transfer_limits
     \<Rightarrow> handled" where
  "handle sha codec now active (ImageStart transfer_id _ width height total_bytes hash) limits =
     (if unat width * unat height * 4 \<ge> 2 ^ 64 then (Err InvalidDimensions, active)
      else (case validate_dimensions width height (unat width * unat height * 4) of
              Inl e \<Rightarrow> (Err e, active)
            | Inr _ \<Rightarrow> incoming_start now active transfer_id (KindImage width height) (unat total_bytes)
                         (max_image_bytes limits) hash))"
| "handle sha codec now active (TextStart transfer_id _ total_bytes hash) limits =
     incoming_start now active transfer_id KindText (unat total_bytes) (max_text_bytes limits) hash"
| "handle sha codec now active (ImageChunk transfer_id offset bs) limits =
     incoming_chunk now active transfer_id False offset bs"
| "handle sha codec now active (TextChunk transfer_id offset bs) limits =
     incoming_chunk now active transfer_id True offset bs"
| "handle sha codec now active (ImageEnd transfer_id) limits =
     incoming_finish sha codec active transfer_id False limits"
| "handle sha codec now active (TextEnd transfer_id) limits =
     incoming_finish sha codec active transfer_id True limits"
| "handle sha codec now active (ImageCancel transfer_id _) limits =
     (Ok None, (case active of
                  Some st \<Rightarrow> if is_transfer_id st = transfer_id then None else active
                | None \<Rightarrow> active))"
| "handle sha codec now active _ limits = (Err InvalidTransfer, active)"

definition expire_transfer_id :: "instant \<Rightarrow> incoming_transfer \<Rightarrow> u64 option \<times> incoming_transfer" where
  "expire_transfer_id now active =
     (case active of
        Some st \<Rightarrow> if duration_since now (is_last_progress st) > IMAGE_TRANSFER_TIMEOUT
                   then (Some (is_transfer_id st), None) else (None, active)
      | None \<Rightarrow> (None, active))"

definition expire ::
  "instant \<Rightarrow> incoming_transfer \<Rightarrow> (clipboard_error, unit) result \<times> incoming_transfer" where
  "expire now active =
     (case expire_transfer_id now active of
        (Some _, active') \<Rightarrow> (Err TransferExpired, active')
      | (None, active') \<Rightarrow> (Ok (), active'))"

definition incoming_clear :: "incoming_transfer \<Rightarrow> incoming_transfer" where
  "incoming_clear active = None"

end
