(* ===== verification/ClipboardTransfer.thy ===== *)
theory ClipboardTransfer
  imports Clipboard
begin

text \<open>
  What the clipboard transfer of \<open>edge-clipboard\<close> guarantees: a sender's event sequence ends, the
  receiver rebuilds exactly the item that was sent, a hostile sender cannot make it buffer more than
  the announced and permitted size, and the bulk budget is spent and refilled as intended.
\<close>

section \<open>The sender's event sequence\<close>

definition transfer_measure :: "outgoing_transfer \<Rightarrow> nat" where
  "transfer_measure t =
     (case ot_stage t of
        StageStart \<Rightarrow> 3 + (length (payload_bytes (ot_payload t)) - ot_offset t)
      | StageChunks \<Rightarrow> 2 + (length (payload_bytes (ot_payload t)) - ot_offset t)
      | StageEnd \<Rightarrow> 1
      | StageDone \<Rightarrow> 0)"

lemma next_event_measure:
  assumes "next_event t = (Some e, t')"
  shows "transfer_measure t' < transfer_measure t"
proof (cases "ot_stage t")
  case StageChunks
  then show ?thesis
    using assms by (auto simp: next_event_def transfer_measure_def Let_def TRANSFER_CHUNK_BYTES_def
        split: if_splits)
qed (use assms in \<open>auto simp: next_event_def transfer_measure_def\<close>)

text \<open>Calling \<open>next_event\<close> until it returns None.\<close>

function transfer_events :: "outgoing_transfer \<Rightarrow> clipboard_event list" where
  "transfer_events t =
     (case next_event t of (None, _) \<Rightarrow> [] | (Some e, t') \<Rightarrow> e # transfer_events t')"
  by pat_completeness auto
termination
  by (relation "measure transfer_measure") (auto dest: next_event_measure [OF sym])

declare transfer_events.simps [simp del]

lemma events_start:
  "ot_stage t = StageStart \<Longrightarrow>
     transfer_events t = start_event t # transfer_events (t\<lparr>ot_stage := StageChunks\<rparr>)"
  by (subst transfer_events.simps) (simp add: next_event_def)

lemma events_done: "ot_stage t = StageDone \<Longrightarrow> transfer_events t = []"
  by (subst transfer_events.simps) (simp add: next_event_def)

lemma events_end:
  "ot_stage t = StageChunks \<Longrightarrow> length (payload_bytes (ot_payload t)) \<le> ot_offset t \<Longrightarrow>
     transfer_events t = [end_event t]"
  by (subst transfer_events.simps) (simp add: next_event_def Let_def events_done)

lemma events_chunk:
  "ot_stage t = StageChunks \<Longrightarrow> ot_offset t < length (payload_bytes (ot_payload t)) \<Longrightarrow>
     transfer_events t =
       chunk_event t (of_nat (ot_offset t))
         (take TRANSFER_CHUNK_BYTES (drop (ot_offset t) (payload_bytes (ot_payload t)))) #
       transfer_events (t\<lparr>ot_offset :=
         min (ot_offset t + TRANSFER_CHUNK_BYTES) (length (payload_bytes (ot_payload t)))\<rparr>)"
  by (subst transfer_events.simps) (auto simp: next_event_def Let_def min_def)

lemma events_nonempty: "ot_stage t = StageChunks \<Longrightarrow> transfer_events t \<noteq> []"
  by (cases "ot_offset t < length (payload_bytes (ot_payload t))")
     (simp_all add: events_chunk events_end)

section \<open>The receiver over a sequence of events\<close>

fun handle_all ::
  "(bytes \<Rightarrow> bytes) \<Rightarrow> image_codec \<Rightarrow> transfer_limits \<Rightarrow> incoming_transfer \<Rightarrow> (instant \<times> clipboard_event) list
     \<Rightarrow> (clipboard_error, clipboard_item option) result list \<times> incoming_transfer" where
  "handle_all sha codec limits active [] = ([], active)"
| "handle_all sha codec limits active ((now, e) # es) =
     (let (r, active') = handle sha codec now active e limits;
          (rs, active'') = handle_all sha codec limits active' es
      in (r # rs, active''))"

definition is_text_payload :: "outgoing_payload \<Rightarrow> bool" where
  "is_text_payload p = (case p of OutText _ _ \<Rightarrow> True | _ \<Rightarrow> False)"

text \<open>A receiver that holds the first \<open>n\<close> bytes of a transfer.\<close>

definition holds_prefix :: "incoming_state \<Rightarrow> outgoing_transfer \<Rightarrow> bool" where
  "holds_prefix st t \<longleftrightarrow>
     is_transfer_id st = ot_transfer_id t \<and>
     (is_kind st = KindText) = is_text_payload (ot_payload t) \<and>
     is_total_bytes st = length (payload_bytes (ot_payload t)) \<and>
     ot_offset t \<le> length (payload_bytes (ot_payload t)) \<and>
     is_bytes st = take (ot_offset t) (payload_bytes (ot_payload t))"

lemma handle_chunk_event:
  "handle sha codec now active (chunk_event t offset bs) limits =
     incoming_chunk now active (ot_transfer_id t) (is_text_payload (ot_payload t)) offset bs"
  by (cases "ot_payload t") (simp_all add: chunk_event_def is_text_payload_def)

lemma handle_end_event:
  "handle sha codec now active (end_event t) limits =
     incoming_finish sha codec active (ot_transfer_id t) (is_text_payload (ot_payload t)) limits"
  by (cases "ot_payload t") (simp_all add: end_event_def is_text_payload_def)

lemma min_offset_le: "(x :: nat) \<le> y \<Longrightarrow> min x (2 ^ 64 - 1) \<le> y"
  by simp

lemma chunk_accepted:
  assumes st: "holds_prefix st t" and off: "ot_offset t < length (payload_bytes (ot_payload t))"
    and t': "t' = t\<lparr>ot_offset :=
      min (ot_offset t + TRANSFER_CHUNK_BYTES) (length (payload_bytes (ot_payload t)))\<rparr>"
  shows "\<exists>st'. incoming_chunk now (Some st) (ot_transfer_id t) (is_text_payload (ot_payload t))
      (of_nat (ot_offset t))
      (take TRANSFER_CHUNK_BYTES (drop (ot_offset t) (payload_bytes (ot_payload t)))) =
        (Ok None, Some st') \<and>
      holds_prefix st' t' \<and> is_kind st' = is_kind st \<and> is_content_sha256 st' = is_content_sha256 st"
proof -
  define p where "p = payload_bytes (ot_payload t)"
  define c where "c = take TRANSFER_CHUNK_BYTES (drop (ot_offset t) p)"
  have c: "c \<noteq> []" "length c \<le> TRANSFER_CHUNK_BYTES"
    using off by (simp_all add: c_def p_def TRANSFER_CHUNK_BYTES_def)
  have len: "length (is_bytes st) = ot_offset t"
    using st off by (simp add: holds_prefix_def)
  have "ot_offset t + length c \<le> length p"
    using off by (auto simp: c_def p_def)
  then have "\<not> min (length (is_bytes st) + length c) (2 ^ 64 - 1) > is_total_bytes st"
    using st min_offset_le by (fastforce simp: len holds_prefix_def p_def)
  moreover have "take (ot_offset t) p @ c = take (ot_offset t') p"
    using t' by (auto simp: c_def p_def min_def take_add [symmetric])
  ultimately show ?thesis
    using st c t' unfolding incoming_chunk_def
    by (simp add: len Let_def holds_prefix_def flip: p_def c_def)
qed

lemma chunks_phase:
  assumes "ot_stage t = StageChunks" "holds_prefix st t" "map snd tes = transfer_events t"
  shows "\<exists>st'. is_bytes st' = payload_bytes (ot_payload t) \<and> is_transfer_id st' = ot_transfer_id t \<and>
      is_total_bytes st' = length (payload_bytes (ot_payload t)) \<and>
      is_kind st' = is_kind st \<and> is_content_sha256 st' = is_content_sha256 st \<and>
      handle_all sha codec limits (Some st) tes =
        (let (r, active) = incoming_finish sha codec (Some st') (ot_transfer_id t)
                             (is_text_payload (ot_payload t)) limits
         in (replicate (length tes - 1) (Ok None) @ [r], active))"
  using assms
proof (induction "transfer_measure t" arbitrary: t st tes rule: less_induct)
  case less
  show ?case
  proof (cases "ot_offset t < length (payload_bytes (ot_payload t))")
    case False
    then have "ot_offset t = length (payload_bytes (ot_payload t))"
      using less.prems(2) by (simp add: holds_prefix_def)
    moreover obtain now where "tes = [(now, end_event t)]"
      using less.prems(1,3) False events_end [of t] by (cases tes) auto
    ultimately show ?thesis
      using less.prems(2) by (intro exI [of _ st]) (auto simp: handle_end_event holds_prefix_def split: prod.splits)
  next
    case True
    define t' where "t' = t\<lparr>ot_offset :=
      min (ot_offset t + TRANSFER_CHUNK_BYTES) (length (payload_bytes (ot_payload t)))\<rparr>"
    from less.prems(3) obtain now tes' where tes: "tes = (now, chunk_event t (of_nat (ot_offset t))
         (take TRANSFER_CHUNK_BYTES (drop (ot_offset t) (payload_bytes (ot_payload t))))) # tes'"
      "map snd tes' = transfer_events t'"
      unfolding events_chunk [OF less.prems(1) True] t'_def by (cases tes) auto
    obtain st1 where st1: "incoming_chunk now (Some st) (ot_transfer_id t) (is_text_payload (ot_payload t))
        (of_nat (ot_offset t))
        (take TRANSFER_CHUNK_BYTES (drop (ot_offset t) (payload_bytes (ot_payload t)))) = (Ok None, Some st1)"
      "holds_prefix st1 t'" "is_kind st1 = is_kind st" "is_content_sha256 st1 = is_content_sha256 st"
      using chunk_accepted [OF less.prems(2) True t'_def] by blast
    have stage: "ot_stage t' = StageChunks"
      using less.prems(1) by (simp add: t'_def)
    have "transfer_measure t' < transfer_measure t"
      using less.prems(1) True by (auto simp: t'_def transfer_measure_def TRANSFER_CHUNK_BYTES_def)
    from less.hyps [OF this stage st1(2) tes(2)]
    obtain st' where st': "is_bytes st' = payload_bytes (ot_payload t') \<and>
      is_transfer_id st' = ot_transfer_id t' \<and>
      is_total_bytes st' = length (payload_bytes (ot_payload t')) \<and>
      is_kind st' = is_kind st1 \<and> is_content_sha256 st' = is_content_sha256 st1 \<and>
      handle_all sha codec limits (Some st1) tes' =
        (let (r, active) = incoming_finish sha codec (Some st') (ot_transfer_id t')
                             (is_text_payload (ot_payload t')) limits
         in (replicate (length tes' - 1) (Ok None) @ [r], active))" ..
    have "tes' \<noteq> []"
      using tes(2) events_nonempty [OF stage] by auto
    then have "Ok None # replicate (length tes' - 1) (Ok None) = replicate (length tes - 1) (Ok None)"
      by (cases tes') (simp_all add: tes(1))
    then show ?thesis
      using st' st1 by (intro exI [of _ st']) (auto simp: tes(1) handle_chunk_event t'_def split: prod.splits)
  qed
qed

text \<open>The whole exchange, for a start the receiver accepts.\<close>

lemma transfer_phase:
  assumes start: "ot_stage t = StageStart" "ot_offset t = 0"
    and tes: "map snd tes = transfer_events t"
    and accept: "\<And>now. \<exists>st. handle sha codec now active (start_event t) limits = (Ok None, Some st) \<and>
      holds_prefix st t \<and> is_kind st = kind \<and> is_content_sha256 st = hash"
    and finish: "\<And>st. is_bytes st = payload_bytes (ot_payload t) \<Longrightarrow>
      is_transfer_id st = ot_transfer_id t \<Longrightarrow>
      is_total_bytes st = length (payload_bytes (ot_payload t)) \<Longrightarrow> is_kind st = kind \<Longrightarrow>
      is_content_sha256 st = hash \<Longrightarrow>
      incoming_finish sha codec (Some st) (ot_transfer_id t) (is_text_payload (ot_payload t)) limits =
        (Ok (Some item), None)"
  shows "handle_all sha codec limits active tes =
    (replicate (length tes - 1) (Ok None) @ [Ok (Some item)], None)"
proof -
  let ?t = "t\<lparr>ot_stage := StageChunks\<rparr>"
  obtain now tes' where tes': "tes = (now, start_event t) # tes'" "map snd tes' = transfer_events ?t"
    using tes unfolding events_start [OF start(1)] by (cases tes) auto
  obtain st where st: "handle sha codec now active (start_event t) limits = (Ok None, Some st)"
    "holds_prefix st t" "is_kind st = kind" "is_content_sha256 st = hash"
    using accept by blast
  have pre: "holds_prefix st ?t"
    using st(2) by (simp add: holds_prefix_def)
  obtain st' where st': "is_bytes st' = payload_bytes (ot_payload t) \<and>
      is_transfer_id st' = ot_transfer_id t \<and>
      is_total_bytes st' = length (payload_bytes (ot_payload t)) \<and>
      is_kind st' = is_kind st \<and> is_content_sha256 st' = is_content_sha256 st \<and>
      handle_all sha codec limits (Some st) tes' =
        (let (r, active) = incoming_finish sha codec (Some st') (ot_transfer_id t)
                             (is_text_payload (ot_payload t)) limits
         in (replicate (length tes' - 1) (Ok None) @ [r], active))"
    using chunks_phase [of ?t st tes' sha codec limits] pre tes'(2) by auto
  have "tes' \<noteq> []"
    using tes'(2) events_nonempty [of ?t] by auto
  then have rep: "Ok None # replicate (length tes' - 1) (Ok None) = replicate (length tes - 1) (Ok None)"
    by (cases tes') (simp_all add: tes'(1))
  have "handle_all sha codec limits (Some st) tes' =
      (replicate (length tes' - 1) (Ok None) @ [Ok (Some item)], None)"
    using st' st(3,4) finish [of st'] by simp
  then show ?thesis
    using rep by (simp add: tes'(1) st(1))
qed

section \<open>Bounded buffering\<close>

text \<open>A receiver's steps: any event from the peer, the expiry check, and a local clear.\<close>

datatype incoming_op = HandleOp instant clipboard_event | ExpireOp instant | ClearIncomingOp

fun incoming_step ::
  "(bytes \<Rightarrow> bytes) \<Rightarrow> image_codec \<Rightarrow> transfer_limits \<Rightarrow> incoming_transfer \<Rightarrow> incoming_op \<Rightarrow> incoming_transfer"
  where
  "incoming_step sha codec limits active (HandleOp now e) = snd (handle sha codec now active e limits)"
| "incoming_step sha codec limits active (ExpireOp now) = snd (expire now active)"
| "incoming_step sha codec limits active ClearIncomingOp = incoming_clear active"

definition limit_for :: "transfer_limits \<Rightarrow> incoming_kind \<Rightarrow> nat" where
  "limit_for limits k = (case k of KindText \<Rightarrow> max_text_bytes limits | KindImage _ _ \<Rightarrow> max_image_bytes limits)"

definition incoming_wf :: "transfer_limits \<Rightarrow> incoming_transfer \<Rightarrow> bool" where
  "incoming_wf limits active \<longleftrightarrow>
     (\<forall>st. active = Some st \<longrightarrow>
        length (is_bytes st) \<le> is_total_bytes st \<and> 0 < is_total_bytes st \<and>
        is_total_bytes st < 2 ^ 32 \<and> is_total_bytes st \<le> limit_for limits (is_kind st))"

lemma incoming_start_wf:
  assumes "incoming_wf limits active" "len < 2 ^ 32" "limit_for limits kind = bound"
  shows "incoming_wf limits (snd (incoming_start now active tid kind len bound hash))"
  using assms by (auto simp: incoming_start_def incoming_wf_def)

lemma incoming_chunk_wf:
  assumes "incoming_wf limits active"
  shows "incoming_wf limits (snd (incoming_chunk now active tid text offset bs))"
  using assms by (auto simp: incoming_chunk_def incoming_wf_def Let_def min_def split: option.splits if_splits)

lemma incoming_finish_clears: "snd (incoming_finish sha codec active tid text limits) = None"
  by (auto simp: incoming_finish_def split: option.split incoming_kind.split sum.split)

lemma unat_u32_lt: "unat (n :: u32) < 2 ^ 32"
  using unat_lt_pow [of n] by simp

lemma handle_wf:
  assumes wf: "incoming_wf limits active"
  shows "incoming_wf limits (snd (handle sha codec now active e limits))"
proof (cases e)
  case (ImageStart tid s w h n hash)
  then show ?thesis
    using wf incoming_start_wf [OF wf unat_u32_lt [of n], of "KindImage w h" "max_image_bytes limits"]
    by (auto simp: limit_for_def split: sum.split)
next
  case (TextStart tid s n hash)
  then show ?thesis
    using incoming_start_wf [OF wf unat_u32_lt [of n], of KindText "max_text_bytes limits"]
    by (simp add: limit_for_def)
next
  case (ImageCancel tid r)
  then show ?thesis
    using wf by (auto simp: incoming_wf_def split: option.split)
next
  case (ImageEnd tid)
  then show ?thesis by (simp add: incoming_finish_clears incoming_wf_def)
next
  case (TextEnd tid)
  then show ?thesis by (simp add: incoming_finish_clears incoming_wf_def)
qed (use wf in \<open>simp_all add: incoming_chunk_wf\<close>)

lemma expire_wf: "incoming_wf limits active \<Longrightarrow> incoming_wf limits (snd (expire now active))"
  by (auto simp: expire_def expire_transfer_id_def incoming_wf_def split: option.splits if_splits prod.splits)

interpretation incoming: guarded_machine "incoming_step sha codec limits" "incoming_wf limits"
  for sha codec limits
proof
  fix active op
  assume wf: "incoming_wf limits active"
  show "incoming_wf limits (incoming_step sha codec limits active op)"
    by (cases op) (use wf in \<open>simp_all add: handle_wf expire_wf\<close>, simp add: incoming_clear_def incoming_wf_def)
qed

section \<open>Starting a transfer\<close>

lemma unat_of_nat_u32: "n < 2 ^ 32 \<Longrightarrow> unat (of_nat n :: u32) = n"
  by (simp add: unat_of_nat)

lemma text_start_accepted:
  assumes "t = outgoing_text sha tid sq text" "text \<noteq> []" "length text < 2 ^ 32"
    "length text \<le> max_text_bytes limits"
  shows "\<exists>st. handle sha codec now active (start_event t) limits = (Ok None, Some st) \<and>
    holds_prefix st t \<and> is_kind st = KindText \<and> is_content_sha256 st = sha (as_bytes text)"
  using assms
  by (auto simp: outgoing_text_def Let_def with_payload_def start_event_def incoming_start_def
      unat_of_nat_u32 holds_prefix_def is_text_payload_def hash_bytes_def)

lemma from_rgba_Ok:
  assumes "from_rgba sha codec w h rgba bound = Ok im"
  shows "write_png codec w h rgba = Some (ci_png im)" "length (ci_png im) \<le> bound"
    "im = \<lparr>ci_width = w, ci_height = h, ci_rgba = rgba, ci_png = ci_png im,
           ci_content_sha256 = hash_image sha w h rgba\<rparr>"
    "w \<noteq> 0" "h \<noteq> 0" "unat w * unat h \<le> MAX_IMAGE_PIXELS" "length rgba = unat w * unat h * 4"
  using assms
  by (auto simp: from_rgba_def validate_dimensions_def Let_def split: sum.splits option.splits if_splits)

lemma from_rgba_other_bound:
  assumes "from_rgba sha codec w h rgba bound = Ok im" "length (ci_png im) \<le> bound'"
  shows "from_rgba sha codec w h rgba bound' = Ok im"
  using assms by (auto simp: from_rgba_def split: sum.splits option.splits if_splits)

text \<open>What the image crate promises of its PNG writer and reader.\<close>

definition png_codec :: "image_codec \<Rightarrow> bool" where
  "png_codec codec \<longleftrightarrow>
     (\<forall>w h rgba png. write_png codec w h rgba = Some png \<longrightarrow>
        png \<noteq> [] \<and> read_dimensions codec Png png = Some (w, h) \<and>
        decode_rgba8 codec Png w h png = Some rgba)"

lemma from_encoded_own_png:
  assumes "png_codec codec" "from_rgba sha codec w h rgba bound = Ok im"
    and "length (ci_png im) \<le> bound'"
  shows "from_encoded sha codec (ci_png im) ''image/png'' bound' = Ok im"
proof -
  note im = from_rgba_Ok [OF assms(2)]
  have "read_dimensions codec Png (ci_png im) = Some (w, h)"
    "decode_rgba8 codec Png w h (ci_png im) = Some rgba"
    using assms(1) im(1) by (auto simp: png_codec_def)
  then show ?thesis
    using assms(3) im(4-6) from_rgba_other_bound [OF assms(2,3)]
    by (simp add: from_encoded_def mime_format_def)
qed

lemma from_encoded_hash:
  assumes "from_encoded sha codec bs mime bound = Ok im"
  shows "ci_content_sha256 im = hash_image sha (ci_width im) (ci_height im) (ci_rgba im)"
proof -
  obtain w h rgba where "from_rgba sha codec w h rgba bound = Ok im"
    using assms by (auto simp: from_encoded_def split: if_splits option.splits prod.splits)
  from from_rgba_Ok(3) [OF this] show ?thesis
    by (metis canonical_image.select_convs(1,2,3,5))
qed

lemma image_start_accepted:
  assumes "t = outgoing_image tid sq im" "from_rgba sha codec w h rgba bound = Ok im" "png_codec codec"
    "length (ci_png im) < 2 ^ 32" "length (ci_png im) \<le> max_image_bytes limits"
  shows "\<exists>st. handle sha codec now active (start_event t) limits = (Ok None, Some st) \<and>
    holds_prefix st t \<and> is_kind st = KindImage w h \<and> is_content_sha256 st = hash_image sha w h rgba"
proof -
  note im = from_rgba_Ok [OF assms(2)]
  have dims: "ci_width im = w" "ci_height im = h" "ci_content_sha256 im = hash_image sha w h rgba"
    by (subst im(3), simp)+
  have "ci_png im \<noteq> []"
    using assms(3) im(1) by (auto simp: png_codec_def)
  moreover have "validate_dimensions w h (unat w * unat h * 4) = Ok ()"
    using im(4-6) by (simp add: validate_dimensions_def Let_def MAX_IMAGE_PIXELS_def mult.commute [of "unat h"])
  moreover have "\<not> 2 ^ 64 \<le> unat w * unat h * 4"
    using im(6) by (simp add: MAX_IMAGE_PIXELS_def mult.commute [of "unat h"])
  ultimately show ?thesis
    using assms(4,5) dims
    by (simp add: assms(1) outgoing_image_def with_payload_def start_event_def incoming_start_def
        unat_of_nat_u32 holds_prefix_def is_text_payload_def)
qed

section \<open>The bulk budget and the change tracker over time\<close>

datatype schedule_op = SentOp frame | ReceivedOp frame

fun schedule_step :: "image_transfer_schedule \<Rightarrow> schedule_op \<Rightarrow> image_transfer_schedule" where
  "schedule_step s (SentOp f) = record_sent_frame s f"
| "schedule_step s (ReceivedOp f) = record_received_frame s f"

fun refills :: "schedule_op \<Rightarrow> bool" where
  "refills (SentOp f) = is_chunk_frame f"
| "refills (ReceivedOp f) = False"

fun spends :: "schedule_op \<Rightarrow> bool" where
  "spends (SentOp f) = (\<not> is_chunk_frame f)"
| "spends (ReceivedOp f) = (\<not> is_clipboard_frame f)"

definition spent_since_chunk :: "schedule_op list \<Rightarrow> nat" where
  "spent_since_chunk ops = length (filter spends (takeWhile (\<lambda>op. \<not> refills op) (rev ops)))"

lemma schedule_counter:
  "unat (high_priority_frames_since_chunk (foldl schedule_step schedule_default ops)) =
     min (spent_since_chunk ops) 255"
proof (induction ops rule: rev_induct)
  case Nil
  then show ?case by (simp add: schedule_default_def spent_since_chunk_def)
next
  case (snoc op ops)
  show ?case
    using snoc by (cases op) (auto simp: record_sent_frame_def record_received_frame_def
        record_image_chunk_def record_high_priority_frame_def unat_saturating_add spent_since_chunk_def)
qed

datatype tracker_op =
    MarkObserved "clipboard_content_id option"
  | OfferIfChanged "clipboard_content_id option"
  | OfferCurrent "clipboard_content_id option"

fun tracker_step ::
  "clipboard_change_tracker \<Rightarrow> tracker_op \<Rightarrow> u64 option \<times> clipboard_change_tracker" where
  "tracker_step t (MarkObserved c) = (None, mark_observed t c)"
| "tracker_step t (OfferIfChanged c) = offer_if_changed t c"
| "tracker_step t (OfferCurrent c) = offer_current t c"

fun offered :: "clipboard_change_tracker \<Rightarrow> tracker_op list \<Rightarrow> u64 list" where
  "offered t [] = []"
| "offered t (op # ops) =
     (case tracker_step t op of
        (None, t') \<Rightarrow> offered t' ops
      | (Some sequence, t') \<Rightarrow> sequence # offered t' ops)"

lemma tracker_step_sequence:
  "tracker_step t op = (r, t') \<Longrightarrow>
     (case r of None \<Rightarrow> cct_sequence t' = cct_sequence t
      | Some q \<Rightarrow> q = saturating_add (cct_sequence t) 1 \<and> cct_sequence t' = q)"
  by (cases op) (auto simp: mark_observed_def offer_if_changed_def offer_current_def Let_def
      split: if_splits option.splits)

lemma offered_increasing:
  "unat (cct_sequence t) + length ops < 2 ^ 64 \<Longrightarrow> sorted_wrt (<) (cct_sequence t # offered t ops)"
proof (induction ops arbitrary: t)
  case (Cons op ops)
  obtain r t' where st: "tracker_step t op = (r, t')"
    by (cases "tracker_step t op")
  note seq = tracker_step_sequence [OF st]
  show ?case
  proof (cases r)
    case None
    then have "cct_sequence t' = cct_sequence t"
      using seq by simp
    with Cons.IH [of t'] Cons.prems st None show ?thesis
      by simp
  next
    case (Some q)
    have q: "unat q = unat (cct_sequence t) + 1" "cct_sequence t' = q"
      using seq Some Cons.prems by (simp_all add: unat_saturating_add)
    then have "sorted_wrt (<) (q # offered t' ops)"
      using Cons.IH [of t'] Cons.prems by simp
    moreover have "cct_sequence t < q"
      using q(1) by (simp add: word_less_nat_alt)
    ultimately show ?thesis
      using st Some by auto
  qed
qed simp

text \<open>A codec that stores the dimensions and the pixels as they are, for the witness.\<close>

definition raw_codec :: image_codec where
  "raw_codec =
     \<lparr>write_png = (\<lambda>w h rgba. Some (be_bytes 4 (unat w) @ be_bytes 4 (unat h) @ rgba)),
      read_dimensions = (\<lambda>_ bs. Some (of_nat (from_be_bytes (take 4 bs)),
                                      of_nat (from_be_bytes (take 4 (drop 4 bs))))),
      decode_rgba8 = (\<lambda>_ _ _ bs. Some (drop 8 bs))\<rparr>"

lemma raw_codec_png: "png_codec raw_codec"
proof -
  have "from_be_bytes (be_bytes 4 (unat (n :: u32))) = unat n" for n
    using unat_lt_pow [of n] by (intro from_be_bytes_be_bytes) simp
  moreover have "be_bytes 4 m @ xs \<noteq> []" for m xs
    by (metis append_is_Nil_conv length_be_bytes list.size(3) zero_neq_numeral)
  ultimately show ?thesis
    by (auto simp: png_codec_def raw_codec_def)
qed

section \<open>Properties\<close>

text \<open>A clipboard text survives its transfer: for every valid UTF-8 text within the receiver's limit,
  the sender's events, handled in order at whatever times and whatever transfer was pending before,
  are all accepted, the last one yields exactly the text, and nothing stays buffered.\<close>

theorem text_transfer_roundtrip:
  assumes "valid_str text" "text \<noteq> []" "length text < 2 ^ 32" "length text \<le> max_text_bytes limits"
    and "map snd tes = transfer_events (outgoing_text sha tid sq text)"
  shows "handle_all sha codec limits active tes =
    (replicate (length tes - 1) (Ok None) @ [Ok (Some (ItemText text))], None)"
proof (rule transfer_phase [OF _ _ assms(5)])
  let ?t = "outgoing_text sha tid sq text"
  show "ot_stage ?t = StageStart" "ot_offset ?t = 0"
    by (simp_all add: outgoing_text_def Let_def with_payload_def)
  show "\<exists>st. handle sha codec now active (start_event ?t) limits = (Ok None, Some st) \<and>
    holds_prefix st ?t \<and> is_kind st = KindText \<and> is_content_sha256 st = sha (as_bytes text)" for now
    using text_start_accepted [OF refl assms(2-4)] .
  show "incoming_finish sha codec (Some st) (ot_transfer_id ?t) (is_text_payload (ot_payload ?t)) limits =
      (Ok (Some (ItemText text)), None)"
    if "is_bytes st = payload_bytes (ot_payload ?t)" "is_transfer_id st = ot_transfer_id ?t"
      "is_total_bytes st = length (payload_bytes (ot_payload ?t))" "is_kind st = KindText"
      "is_content_sha256 st = sha (as_bytes text)" for st
    using that assms(1) by (simp add: incoming_finish_def outgoing_text_def Let_def with_payload_def
        is_text_payload_def hash_bytes_def from_utf8_as_bytes)
qed

theorem text_transfer_roundtrip_witness:
  "handle_all (\<lambda>bs. bs) raw_codec \<lparr>max_image_bytes = 0, max_text_bytes = 2\<rparr> None
     (map (\<lambda>e. (0, e)) (transfer_events (outgoing_text (\<lambda>bs. bs) 1 1 ''hi''))) =
   (replicate 2 (Ok None) @ [Ok (Some (ItemText ''hi''))], None)"
proof -
  have n: "length (transfer_events (outgoing_text (\<lambda>bs. bs) 1 1 ''hi'')) = 3"
    by (simp add: events_start events_chunk events_end outgoing_text_def Let_def with_payload_def
        TRANSFER_CHUNK_BYTES_def)
  have "valid_str ''hi''"
    by (simp add: valid_str_def as_bytes_def)
  from text_transfer_roundtrip [OF this, of "\<lparr>max_image_bytes = 0, max_text_bytes = 2\<rparr>"
      "map (\<lambda>e. (0, e)) (transfer_events (outgoing_text (\<lambda>bs. bs) 1 1 ''hi''))" "\<lambda>bs. bs" 1 1 raw_codec None]
  show ?thesis
    by (simp add: comp_def n)
qed

text \<open>C20: A canonical image survives its transfer: if the PNG reader reads back what the PNG writer
  wrote, an image built by the sender from RGBA pixels is rebuilt by the receiver with the same
  dimensions, pixels, encoding and content hash, whatever the receiver was doing before, as long as
  the encoding fits the receiver's limit.\<close>

theorem image_transfer_roundtrip:
  assumes "png_codec codec" "from_rgba sha codec w h rgba bound = Ok im"
    and "length (ci_png im) < 2 ^ 32" "length (ci_png im) \<le> max_image_bytes limits"
    and "map snd tes = transfer_events (outgoing_image tid sq im)"
  shows "handle_all sha codec limits active tes =
    (replicate (length tes - 1) (Ok None) @ [Ok (Some (ItemImage im))], None)"
proof (rule transfer_phase [OF _ _ assms(5)])
  let ?t = "outgoing_image tid sq im"
  note im = from_rgba_Ok [OF assms(2)]
  show "ot_stage ?t = StageStart" "ot_offset ?t = 0"
    by (simp_all add: outgoing_image_def with_payload_def)
  show "\<exists>st. handle sha codec now active (start_event ?t) limits = (Ok None, Some st) \<and>
    holds_prefix st ?t \<and> is_kind st = KindImage w h \<and> is_content_sha256 st = hash_image sha w h rgba"
    for now
    using image_start_accepted [OF refl assms(2,1,3,4)] .
  have "ci_width im = w" "ci_height im = h" "ci_content_sha256 im = hash_image sha w h rgba"
    by (subst im(3), simp)+
  then show "incoming_finish sha codec (Some st) (ot_transfer_id ?t) (is_text_payload (ot_payload ?t)) limits =
      (Ok (Some (ItemImage im)), None)"
    if "is_bytes st = payload_bytes (ot_payload ?t)" "is_transfer_id st = ot_transfer_id ?t"
      "is_total_bytes st = length (payload_bytes (ot_payload ?t))" "is_kind st = KindImage w h"
      "is_content_sha256 st = hash_image sha w h rgba" for st
    using that from_encoded_own_png [OF assms(1,2,4)]
    by (simp add: incoming_finish_def outgoing_image_def with_payload_def is_text_payload_def)
qed

theorem image_transfer_roundtrip_witness:
  "\<exists>im. from_rgba (\<lambda>bs. bs) raw_codec 1 1 [1, 2, 3, 4] 12 = Ok im \<and>
    (let (rs, active) = handle_all (\<lambda>bs. bs) raw_codec \<lparr>max_image_bytes = 12, max_text_bytes = 0\<rparr> None
       (map (\<lambda>e. (5, e)) (transfer_events (outgoing_image 7 1 im)))
     in last rs = Ok (Some (ItemImage im)) \<and> active = None)"
proof -
  obtain im where im: "from_rgba (\<lambda>bs. bs) raw_codec 1 1 [1, 2, 3, 4] 12 = Ok im" "length (ci_png im) = 12"
    by (simp add: from_rgba_def validate_dimensions_def Let_def MAX_IMAGE_PIXELS_def raw_codec_def)
  from image_transfer_roundtrip [OF raw_codec_png im(1), of "\<lparr>max_image_bytes = 12, max_text_bytes = 0\<rparr>"
      "map (\<lambda>e. (5, e)) (transfer_events (outgoing_image 7 1 im))" 7 1 None]
  show ?thesis
    using im by (simp add: comp_def)
qed

text \<open>C24: A peer cannot make the receiver buffer more than it announced, nor announce more than the
  limit: after any sequence of events (in any order, with any content), expiry checks and clears, the
  buffered bytes of the pending transfer are within its announced total, which is positive, below
  \<open>2^32\<close> and within the limit for its kind.\<close>

theorem incoming_buffer_bounded:
  "case foldl (incoming_step sha codec limits) None ops of
     None \<Rightarrow> True
   | Some st \<Rightarrow>
       length (is_bytes st) \<le> is_total_bytes st \<and> 0 < is_total_bytes st \<and> is_total_bytes st < 2 ^ 32 \<and>
       is_total_bytes st \<le> limit_for limits (is_kind st)"
proof -
  have "incoming_wf limits None"
    by (simp add: incoming_wf_def)
  from incoming.run_inv [OF this, of sha codec ops] show ?thesis
    unfolding incoming_wf_def by (cases "foldl (incoming_step sha codec limits) None ops") simp_all
qed

text \<open>The receiver delivers only what was announced: an item that any event yields is the complete
  buffer of the pending transfer, of the announced length, and its content hash is the one the start
  frame announced; delivery ends the transfer.\<close>

theorem incoming_item_authentic:
  assumes "handle sha codec now active e limits = (Ok (Some item), active')"
  shows "\<exists>st. active = Some st \<and> active' = None \<and> length (is_bytes st) = is_total_bytes st \<and>
    (case item of
       ItemText text \<Rightarrow> is_kind st = KindText \<and> as_bytes text = is_bytes st \<and> valid_str text \<and>
         item_id sha item = ContentText (is_content_sha256 st)
     | ItemImage im \<Rightarrow> is_kind st = KindImage (ci_width im) (ci_height im) \<and>
         item_id sha item = ContentImage (is_content_sha256 st) \<and>
         ci_content_sha256 im = hash_image sha (ci_width im) (ci_height im) (ci_rgba im))"
proof -
  have fin: "\<exists>st. active = Some st \<and> active' = None \<and> length (is_bytes st) = is_total_bytes st \<and>
    (case item of
       ItemText text \<Rightarrow> is_kind st = KindText \<and> as_bytes text = is_bytes st \<and> valid_str text \<and>
         item_id sha item = ContentText (is_content_sha256 st)
     | ItemImage im \<Rightarrow> is_kind st = KindImage (ci_width im) (ci_height im) \<and>
         item_id sha item = ContentImage (is_content_sha256 st) \<and>
         ci_content_sha256 im = hash_image sha (ci_width im) (ci_height im) (ci_rgba im))"
    if "incoming_finish sha codec active tid b limits = (Ok (Some item), active')" for tid b
    using that from_encoded_hash
    by (fastforce simp: incoming_finish_def from_utf8_Some valid_str_def split: option.splits if_splits
        incoming_kind.splits sum.splits)
  show ?thesis
    using assms by (cases e)
      (auto simp: incoming_start_def incoming_chunk_def Let_def dest: fin split: if_splits option.splits sum.splits)
qed

theorem incoming_item_authentic_witness:
  "\<exists>st. handle (\<lambda>bs. bs) raw_codec 3 (Some st) (TextEnd 7) \<lparr>max_image_bytes = 0, max_text_bytes = 2\<rparr> =
      (Ok (Some (ItemText ''hi'')), None) \<and>
    item_id (\<lambda>bs. bs) (ItemText ''hi'') = ContentText (is_content_sha256 st)"
proof -
  define st where "st = \<lparr>is_transfer_id = 7, is_kind = KindText, is_total_bytes = 2,
    is_content_sha256 = as_bytes ''hi'', is_bytes = as_bytes ''hi'', is_last_progress = 0\<rparr>"
  have h: "handle (\<lambda>bs. bs) raw_codec 3 (Some st) (TextEnd 7) \<lparr>max_image_bytes = 0, max_text_bytes = 2\<rparr> =
      (Ok (Some (ItemText ''hi'')), None)"
    by (simp add: st_def incoming_finish_def hash_bytes_def from_utf8_def)
       (simp add: as_bytes_def)
  from incoming_item_authentic [OF h] h show ?thesis
    by auto
qed

text \<open>A bulk transfer is never starved: over any exchange of frames, a chunk is due exactly when at
  least 64 high-priority frames went by, in either direction, since the last chunk sent; the counter
  saturates and never wraps back.\<close>

theorem bulk_due_iff_budget_spent:
  "image_chunk_is_due (foldl schedule_step schedule_default ops) = (64 \<le> spent_since_chunk ops)"
  using schedule_counter [of ops]
  by (simp add: image_chunk_is_due_def word_le_nat_alt MAX_HIGH_PRIORITY_FRAMES_BEFORE_IMAGE_CHUNK_def)

text \<open>The sequence numbers a clipboard owner offers only grow: over any list of observations and
  offers (fewer than \<open>2^64\<close>), the offered numbers are strictly increasing and larger than zero, so a
  peer can tell a newer item from an older one.\<close>

theorem offered_sequences_increase:
  assumes "length ops < 2 ^ 64"
  shows "sorted_wrt (<) (0 # offered (tracker_new observed) ops)"
  using offered_increasing [of "tracker_new observed" ops] assms by (simp add: tracker_new_def)

theorem offered_sequences_increase_witness:
  "sorted_wrt (<) (0 # offered (tracker_new None)
     [OfferCurrent (Some (ContentText [1])), OfferIfChanged (Some (ContentText [1])),
      OfferIfChanged (Some (ContentText [2]))])"
  by (rule offered_sequences_increase) simp

end
