(* ===== verification/BTree.thy ===== *)
theory BTree
  imports Machines
begin

text \<open>
  Rust's \<open>BTreeMap\<close> as the list of its entries in key order, which is also its iteration order.
  \<open>bt_get\<close>, \<open>bt_insert\<close> and \<open>bt_remove\<close> are \<open>get\<close>, \<open>insert\<close> and \<open>remove\<close>; \<open>bt_wf\<close> is the
  order of the keys. A \<open>BTreeSet\<close> is the sorted list of its elements. Strings compare by their bytes,
  as \<open>str\<close> does.
\<close>

type_synonym ('k, 'v) btree = "('k \<times> 'v) list"

definition bt_get :: "('k, 'v) btree \<Rightarrow> 'k \<Rightarrow> 'v option" where
  "bt_get t k = map_of t k"

fun bt_insert :: "'k::linorder \<Rightarrow> 'v \<Rightarrow> ('k, 'v) btree \<Rightarrow> ('k, 'v) btree" where
  "bt_insert k v [] = [(k, v)]"
| "bt_insert k v ((l, w) # t) =
     (if k < l then (k, v) # (l, w) # t
      else if k = l then (k, v) # t
      else (l, w) # bt_insert k v t)"

definition bt_remove :: "'k \<Rightarrow> ('k, 'v) btree \<Rightarrow> ('k, 'v) btree" where
  "bt_remove k t = filter (\<lambda>e. fst e \<noteq> k) t"

definition bt_values :: "('k, 'v) btree \<Rightarrow> 'v list" where
  "bt_values t = map snd t"

definition bt_keys :: "('k, 'v) btree \<Rightarrow> 'k list" where
  "bt_keys t = map fst t"

definition bt_wf :: "('k::linorder, 'v) btree \<Rightarrow> bool" where
  "bt_wf t = sorted_wrt (<) (map fst t)"

lemma bt_get_Nil [simp]: "bt_get [] k = None"
  by (simp add: bt_get_def)

lemma bt_get_insert: "bt_get (bt_insert k v t) l = (if l = k then Some v else bt_get t l)"
  by (induction k v t rule: bt_insert.induct) (auto simp: bt_get_def)

lemma bt_get_remove: "bt_get (bt_remove k t) l = (if l = k then None else bt_get t l)"
  by (induction t) (auto simp: bt_get_def bt_remove_def)

interpretation bt: keyed_table bt_get bt_insert bt_remove
  by unfold_locales (simp_all add: bt_get_insert bt_get_remove)

lemma fst_set_bt_insert: "fst ` set (bt_insert k v t) = insert k (fst ` set t)"
  by (induction k v t rule: bt_insert.induct) auto

lemma set_bt_insert_subset: "set (bt_insert k v t) \<subseteq> insert (k, v) (set t)"
  by (induction k v t rule: bt_insert.induct) auto

lemma bt_wf_Nil [simp]: "bt_wf []"
  by (simp add: bt_wf_def)

lemma bt_wf_insert: "bt_wf t \<Longrightarrow> bt_wf (bt_insert k v t)"
proof (induction k v t rule: bt_insert.induct)
  case (2 k v l w t)
  have "\<forall>x\<in>fst ` set (bt_insert k v t). l < x" if "l < k"
    using 2 that by (auto simp: fst_set_bt_insert bt_wf_def)
  then show ?case
    using 2 by (auto simp: bt_wf_def)
qed (simp add: bt_wf_def)

lemma bt_wf_remove: "bt_wf t \<Longrightarrow> bt_wf (bt_remove k t)"
  by (simp add: bt_wf_def bt_remove_def sorted_wrt_map sorted_wrt_filter)

lemma bt_wf_distinct: "bt_wf t \<Longrightarrow> distinct (map fst t)"
  by (simp add: bt_wf_def strict_sorted_iff)

lemma bt_get_in: "bt_get t k = Some v \<Longrightarrow> (k, v) \<in> set t"
  by (simp add: bt_get_def map_of_SomeD)

lemma bt_in_get: "bt_wf t \<Longrightarrow> (k, v) \<in> set t \<Longrightarrow> bt_get t k = Some v"
  by (simp add: bt_get_def bt_wf_distinct)

lemma bt_get_None_iff: "bt_get t k = None \<longleftrightarrow> k \<notin> set (bt_keys t)"
  by (simp add: bt_get_def bt_keys_def map_of_eq_None_iff)

lemma bt_values_iff: "bt_wf t \<Longrightarrow> v \<in> set (bt_values t) \<longleftrightarrow> (\<exists>k. bt_get t k = Some v)"
  by (force simp: bt_values_def dest: bt_get_in intro: bt_in_get)

lemma bt_list_ex:
  assumes "bt_wf t"
  shows "list_ex P (bt_values t) \<longleftrightarrow> (\<exists>k v. bt_get t k = Some v \<and> P v)"
proof -
  have "list_ex P (bt_values t) \<longleftrightarrow> (\<exists>v. v \<in> set (bt_values t) \<and> P v)"
    by (auto simp: list_ex_iff)
  also have "\<dots> \<longleftrightarrow> (\<exists>k v. bt_get t k = Some v \<and> P v)"
    by (simp only: bt_values_iff [OF assms]) blast
  finally show ?thesis .
qed

lemma bt_insert_present:
  "bt_get t k \<noteq> None \<Longrightarrow> bt_wf t \<Longrightarrow> bt_keys (bt_insert k v t) = bt_keys t"
proof (induction k v t rule: bt_insert.induct)
  case (2 k v l w t)
  then show ?case
    by (auto simp: bt_get_def bt_keys_def bt_wf_def split: if_splits dest!: map_of_SomeD)
qed simp

lemma length_bt_insert: "length (bt_insert k v t) \<le> Suc (length t)"
  by (induction k v t rule: bt_insert.induct) auto

end
