(* ===== verification/Crypto.thy ===== *)
theory Crypto
  imports Protocol BTree
begin

text \<open>
  Identities and pins of \<open>crates/edge-crypto/src/lib.rs\<close>: the key file, the pin store with PC peers
  and phones kept apart, fingerprints, the pairing code both users compare, and the atomic file
  writer.

  The crates it calls are parameters: \<open>sha\<close> is SHA-256, \<open>hex\<close> and \<open>unhex\<close> are \<open>hex::encode\<close> and
  \<open>hex::decode\<close>, \<open>to_toml\<close> and \<open>from_toml\<close> the TOML codec of one file.
\<close>

section \<open>Errors and the atomic writer\<close>

datatype crypto_error =
    NoiseError
  | InvalidKeyLength nat
  | HexError
  | CryptoIo
  | TomlDecode
  | TomlEncode
  | PacketTooLarge u32
  | FingerprintMismatch (fm_expected: string) (fm_actual: string)

definition vec_to_key :: "bytes \<Rightarrow> (crypto_error, bytes) result" where
  "vec_to_key bs = (if length bs = 32 then Ok bs else Err (InvalidKeyLength (length bs)))"

text \<open>
  \<open>write_atomic_with\<close>, as it is built for Unix. A path names a file, and beside it is a temporary file, whose name is
  new for every call. A file has the data that processes read, and whether all of it was synced: a crash leaves synced data
  as it is, and anything in place of data that was not synced. \<open>ap_before\<close> is what the path named in earlier versions
  of the directory, any of which a crash may bring back until the directory is synced.
\<close>

record disk_file =
  df_data :: bytes
  df_synced :: bool

record atomic_path =
  ap_file :: "disk_file option"
  ap_temp :: "disk_file option"
  ap_before :: "disk_file option list"

definition ap_contents :: "atomic_path \<Rightarrow> bytes option" where
  "ap_contents fs = map_option df_data (ap_file fs)"

definition stored :: "bytes option \<Rightarrow> atomic_path" where
  "stored c = \<lparr>ap_file = map_option (\<lambda>bs. \<lparr>df_data = bs, df_synced = True\<rparr>) c, ap_temp = None, ap_before = []\<rparr>"

lemma stored_contents [simp]: "ap_contents (stored c) = c"
  by (cases c) (simp_all add: ap_contents_def stored_def)

datatype file_op = CreateTemp | WriteTemp bytes | SyncTemp | RenameTemp | SyncDirectory

definition append_temp :: "bytes \<Rightarrow> atomic_path \<Rightarrow> atomic_path" where
  "append_temp bs fs =
     fs\<lparr>ap_temp := map_option (\<lambda>f. \<lparr>df_data = df_data f @ bs, df_synced = df_synced f \<and> bs = []\<rparr>) (ap_temp fs)\<rparr>"

text \<open>One operation of the file system; None is an error. \<open>create_new\<close> refuses a name that exists.\<close>

fun do_op :: "file_op \<Rightarrow> atomic_path \<Rightarrow> atomic_path option" where
  "do_op CreateTemp fs =
     (if ap_temp fs = None then Some (fs\<lparr>ap_temp := Some \<lparr>df_data = [], df_synced = False\<rparr>\<rparr>) else None)"
| "do_op (WriteTemp bs) fs = Some (append_temp bs fs)"
| "do_op SyncTemp fs = Some (fs\<lparr>ap_temp := map_option (df_synced_update (\<lambda>_. True)) (ap_temp fs)\<rparr>)"
| "do_op RenameTemp fs =
     (case ap_temp fs of
        None \<Rightarrow> None
      | Some f \<Rightarrow> Some (fs\<lparr>ap_file := Some f, ap_temp := None, ap_before := ap_file fs # ap_before fs\<rparr>))"
| "do_op SyncDirectory fs = Some (fs\<lparr>ap_before := []\<rparr>)"

text \<open>\<open>write_point\<close> is the operation that fails, or the one in which the process dies; \<open>failed_op\<close> is what it leaves,
  None for the other operations. A failed write leaves a part of the data.\<close>

datatype write_point =
  AtDirectory | AtOpen | AtWrite nat | AtSync | AtRename | AtDirSync | NoPoint

fun failed_op :: "write_point \<Rightarrow> file_op \<Rightarrow> atomic_path \<Rightarrow> atomic_path option" where
  "failed_op AtOpen CreateTemp fs = Some fs"
| "failed_op (AtWrite n) (WriteTemp bs) fs = Some (append_temp (take n bs) fs)"
| "failed_op AtSync SyncTemp fs = Some fs"
| "failed_op AtRename RenameTemp fs = Some fs"
| "failed_op AtDirSync SyncDirectory fs = Some fs"
| "failed_op point op fs = None"

primrec run_ops :: "write_point \<Rightarrow> file_op list \<Rightarrow> atomic_path \<Rightarrow> bool \<times> atomic_path" where
  "run_ops point [] fs = (True, fs)"
| "run_ops point (op # ops) fs =
     (case failed_op point op fs of
        Some fs1 \<Rightarrow> (False, fs1)
      | None \<Rightarrow> (case do_op op fs of Some fs1 \<Rightarrow> run_ops point ops fs1 | None \<Rightarrow> (False, fs)))"

definition atomic_ops :: "bytes \<Rightarrow> file_op list" where
  "atomic_ops contents = [CreateTemp, WriteTemp contents, SyncTemp, RenameTemp, SyncDirectory]"

text \<open>The files when the process dies at the point, and the files when it goes on.\<close>

definition interrupted :: "write_point \<Rightarrow> bytes \<Rightarrow> atomic_path \<Rightarrow> bool \<times> atomic_path" where
  "interrupted point contents fs =
     (if point = AtDirectory then (False, fs) else run_ops point (atomic_ops contents) fs)"

definition write_atomic ::
  "write_point \<Rightarrow> bytes \<Rightarrow> atomic_path \<Rightarrow> (crypto_error, unit) result \<times> atomic_path" where
  "write_atomic point contents fs =
     (case interrupted point contents fs of
        (True, fs1) \<Rightarrow> (Ok (), fs1)
      | (False, fs1) \<Rightarrow> (Err CryptoIo, if point = AtDirectory then fs1 else fs1\<lparr>ap_temp := None\<rparr>))"

lemmas write_atomic_defs = write_atomic_def interrupted_def atomic_ops_def append_temp_def

lemma write_atomic_ok: "write_atomic point contents fs = (Ok (), fs1) \<Longrightarrow> ap_contents fs1 = Some contents"
  by (cases point) (auto simp: write_atomic_defs ap_contents_def split: if_splits)

lemma write_atomic_failed:
  "write_atomic point contents fs = (Err e, fs1) \<Longrightarrow> point \<noteq> AtDirSync \<Longrightarrow> ap_contents fs1 = ap_contents fs"
  by (cases point) (auto simp: write_atomic_defs ap_contents_def split: if_splits)

lemma write_stored [simp]: "write_atomic NoPoint contents (stored c) = (Ok (), stored (Some contents))"
  by (simp add: write_atomic_defs stored_def)

section \<open>Identity\<close>

record identity_key =
  ik_private :: bytes
  ik_public :: bytes

record identity_file =
  private_key_hex :: string
  public_key_hex :: string

definition fingerprint :: "(bytes \<Rightarrow> bytes) \<Rightarrow> (bytes \<Rightarrow> string) \<Rightarrow> bytes \<Rightarrow> string" where
  "fingerprint sha hex public_key =
     (let h = hex (sha public_key)
      in take 8 h @ '':'' @ take 8 (drop 8 h) @ '':'' @ take 8 (drop 16 h) @ '':'' @ take 8 (drop 24 h))"

definition key_fingerprint :: "(bytes \<Rightarrow> bytes) \<Rightarrow> (bytes \<Rightarrow> string) \<Rightarrow> identity_key \<Rightarrow> string" where
  "key_fingerprint sha hex key = fingerprint sha hex (ik_public key)"

definition identity_file_decode ::
  "(string \<Rightarrow> bytes option) \<Rightarrow> (bytes \<Rightarrow> identity_file option) \<Rightarrow> bytes \<Rightarrow> (crypto_error, identity_key) result"
  where
  "identity_file_decode unhex from_toml txt =
     (case from_toml txt of
        None \<Rightarrow> Err TomlDecode
      | Some file \<Rightarrow>
          (case unhex (private_key_hex file) of
             None \<Rightarrow> Err HexError
           | Some private_bytes \<Rightarrow>
               (case vec_to_key private_bytes of
                  Inl e \<Rightarrow> Err e
                | Inr private_key \<Rightarrow>
                    (case unhex (public_key_hex file) of
                       None \<Rightarrow> Err HexError
                     | Some public_bytes \<Rightarrow>
                         (case vec_to_key public_bytes of
                            Inl e \<Rightarrow> Err e
                          | Inr public_key \<Rightarrow>
                              Ok \<lparr>ik_private = private_key, ik_public = public_key\<rparr>)))))"

definition identity_save ::
  "(bytes \<Rightarrow> string) \<Rightarrow> (identity_file \<Rightarrow> bytes option) \<Rightarrow> write_point \<Rightarrow> identity_key \<Rightarrow> atomic_path
     \<Rightarrow> (crypto_error, unit) result \<times> atomic_path" where
  "identity_save hex to_toml point key fs =
     (case to_toml \<lparr>private_key_hex = hex (ik_private key), public_key_hex = hex (ik_public key)\<rparr> of
        None \<Rightarrow> (Err TomlEncode, fs)
      | Some txt \<Rightarrow> write_atomic point txt fs)"

text \<open>\<open>generated\<close> is the pair the Noise library's key generation returns, private key first.\<close>

definition identity_generate :: "(bytes \<times> bytes) option \<Rightarrow> (crypto_error, identity_key) result" where
  "identity_generate generated =
     (case generated of
        None \<Rightarrow> Err NoiseError
      | Some (private_bytes, public_bytes) \<Rightarrow>
          (case vec_to_key private_bytes of
             Inl e \<Rightarrow> Err e
           | Inr private_key \<Rightarrow>
               (case vec_to_key public_bytes of
                  Inl e \<Rightarrow> Err e
                | Inr public_key \<Rightarrow> Ok \<lparr>ik_private = private_key, ik_public = public_key\<rparr>)))"

text \<open>\<open>fs\<close> holds the file or its absence; other read errors are \<open>read_fails\<close>.\<close>

definition load_or_create ::
  "(bytes \<Rightarrow> string) \<Rightarrow> (string \<Rightarrow> bytes option) \<Rightarrow> (identity_file \<Rightarrow> bytes option)
     \<Rightarrow> (bytes \<Rightarrow> identity_file option) \<Rightarrow> bool \<Rightarrow> (bytes \<times> bytes) option \<Rightarrow> write_point \<Rightarrow> atomic_path
     \<Rightarrow> (crypto_error, identity_key) result \<times> atomic_path" where
  "load_or_create hex unhex to_toml from_toml read_fails generated point fs =
     (if read_fails then (Err CryptoIo, fs)
      else (case ap_contents fs of
              Some txt \<Rightarrow> (identity_file_decode unhex from_toml txt, fs)
            | None \<Rightarrow>
                (case identity_generate generated of
                   Inl e \<Rightarrow> (Err e, fs)
                 | Inr key \<Rightarrow>
                     (case identity_save hex to_toml point key fs of
                        (Inl e, fs') \<Rightarrow> (Err e, fs')
                      | (Inr _, fs') \<Rightarrow> (Ok key, fs')))))"

section \<open>Pins\<close>

datatype phone_feature = FeatureClipboard | FeatureNotifications | FeatureAudio

definition phone_features_all :: "phone_feature set" where
  "phone_features_all = {FeatureClipboard, FeatureNotifications, FeatureAudio}"

record pinned_peer =
  pp_fingerprint :: string

record pinned_phone =
  pf_fingerprint :: string
  pf_allowed_features :: "phone_feature set"

record pin_store =
  ps_peers :: "(string, pinned_peer) btree"
  ps_phones :: "(string, pinned_phone) btree"

datatype pin_status = Trusted | Unknown | Changed (changed_expected: string)

definition pin_store_default :: pin_store where
  "pin_store_default = \<lparr>ps_peers = [], ps_phones = []\<rparr>"

definition pin_store_load ::
  "(bytes \<Rightarrow> pin_store option) \<Rightarrow> bool \<Rightarrow> atomic_path \<Rightarrow> (crypto_error, pin_store) result" where
  "pin_store_load from_toml read_fails fs =
     (if read_fails then Err CryptoIo
      else (case ap_contents fs of
              None \<Rightarrow> Ok pin_store_default
            | Some txt \<Rightarrow> (case from_toml txt of None \<Rightarrow> Err TomlDecode | Some s \<Rightarrow> Ok s)))"

definition pin_store_save ::
  "(pin_store \<Rightarrow> bytes option) \<Rightarrow> write_point \<Rightarrow> pin_store \<Rightarrow> atomic_path
     \<Rightarrow> (crypto_error, unit) result \<times> atomic_path" where
  "pin_store_save to_toml point s fs =
     (case to_toml s of None \<Rightarrow> (Err TomlEncode, fs) | Some txt \<Rightarrow> write_atomic point txt fs)"

definition status :: "pin_store \<Rightarrow> string \<Rightarrow> string \<Rightarrow> pin_status" where
  "status s peer fp =
     (case bt_get (ps_peers s) peer of
        Some pinned \<Rightarrow> if pp_fingerprint pinned = fp then Trusted else Changed (pp_fingerprint pinned)
      | None \<Rightarrow> Unknown)"

definition pin :: "pin_store \<Rightarrow> string \<Rightarrow> string \<Rightarrow> pin_store" where
  "pin s peer fp = s\<lparr>ps_peers := bt_insert peer \<lparr>pp_fingerprint = fp\<rparr> (ps_peers s)\<rparr>"

definition phone_status :: "pin_store \<Rightarrow> string \<Rightarrow> string \<Rightarrow> pin_status" where
  "phone_status s phone fp =
     (case bt_get (ps_phones s) phone of
        Some pinned \<Rightarrow> if pf_fingerprint pinned = fp then Trusted else Changed (pf_fingerprint pinned)
      | None \<Rightarrow> Unknown)"

definition pinned_phone_of :: "pin_store \<Rightarrow> string \<Rightarrow> pinned_phone option" where
  "pinned_phone_of s phone = bt_get (ps_phones s) phone"

definition pin_phone :: "pin_store \<Rightarrow> string \<Rightarrow> string \<Rightarrow> phone_feature set \<Rightarrow> pin_store" where
  "pin_phone s phone fp allowed =
     s\<lparr>ps_phones := bt_insert phone \<lparr>pf_fingerprint = fp, pf_allowed_features = allowed\<rparr> (ps_phones s)\<rparr>"

definition remove_phone :: "pin_store \<Rightarrow> string \<Rightarrow> pinned_phone option \<times> pin_store" where
  "remove_phone s phone =
     (bt_get (ps_phones s) phone, s\<lparr>ps_phones := bt_remove phone (ps_phones s)\<rparr>)"

definition is_pc_key :: "pin_store \<Rightarrow> string \<Rightarrow> bool" where
  "is_pc_key s fp = list_ex (\<lambda>p. pp_fingerprint p = fp) (bt_values (ps_peers s))"

definition is_phone_key :: "pin_store \<Rightarrow> string \<Rightarrow> bool" where
  "is_phone_key s fp = list_ex (\<lambda>p. pf_fingerprint p = fp) (bt_values (ps_phones s))"

definition is_trusted :: "pin_status \<Rightarrow> bool" where
  "is_trusted st = (case st of Trusted \<Rightarrow> True | _ \<Rightarrow> False)"

section \<open>The pairing code\<close>

definition decimal_digit :: "nat \<Rightarrow> char" where
  "decimal_digit n = char_of (48 + n mod 10)"

text \<open>\<open>{value:06}\<close> for a value below one million.\<close>

definition six_digits :: "nat \<Rightarrow> string" where
  "six_digits n = map (\<lambda>k. decimal_digit (n div 10 ^ k)) [5, 4, 3, 2, 1, 0]"

definition pairing_input :: "string \<Rightarrow> string \<Rightarrow> string" where
  "pairing_input first_fingerprint second_fingerprint =
     (let (a, b) = (if first_fingerprint \<le> second_fingerprint
                    then (first_fingerprint, second_fingerprint)
                    else (second_fingerprint, first_fingerprint))
      in ''edge-kvm-pairing-v1'' @ [CHR 0x00] @ a @ [CHR 0x00] @ b)"

definition pairing_code :: "(bytes \<Rightarrow> bytes) \<Rightarrow> string \<Rightarrow> string \<Rightarrow> string" where
  "pairing_code sha first_fingerprint second_fingerprint =
     (let digest = sha (as_bytes (pairing_input first_fingerprint second_fingerprint));
          value = from_be_bytes (take 4 digest) mod 1000000
      in six_digits value)"

section \<open>Lemmas\<close>

lemma is_trusted_iff [simp]: "is_trusted st \<longleftrightarrow> st = Trusted"
  by (cases st) (simp_all add: is_trusted_def)

lemma status_Trusted: "status s peer fp = Trusted \<longleftrightarrow> bt_get (ps_peers s) peer = Some \<lparr>pp_fingerprint = fp\<rparr>"
  by (auto simp: status_def split: option.splits intro: pinned_peer.equality)

lemma ascii_digits: "\<forall>m\<in>set [0..<10]. char_of (48 + m) \<in> set ''0123456789''"
  by code_simp

lemma decimal_digit_in: "decimal_digit n \<in> set ''0123456789''"
  using ascii_digits by (simp add: decimal_digit_def del: set_simps)

lemma pairing_input_cases:
  "\<exists>a b. {a, b} = {x, y} \<and>
     pairing_input x y = ''edge-kvm-pairing-v1'' @ [CHR 0x00] @ a @ [CHR 0x00] @ b"
proof (cases "x \<le> y")
  case True
  then show ?thesis by (intro exI [of _ x] exI [of _ y]) (simp add: pairing_input_def)
next
  case False
  then show ?thesis
    by (intro exI [of _ y] exI [of _ x]) (simp add: pairing_input_def insert_commute)
qed

lemma pairing_input_inject:
  assumes "CHR 0x00 \<notin> set x \<union> set y \<union> set x' \<union> set y'"
    and "pairing_input x y = pairing_input x' y'"
  shows "{x, y} = {x', y'}"
proof -
  obtain a b where ab: "{a, b} = {x, y}"
    "pairing_input x y = ''edge-kvm-pairing-v1'' @ [CHR 0x00] @ a @ [CHR 0x00] @ b"
    using pairing_input_cases [of x y] by (elim exE conjE) (rule that)
  obtain c d where cd: "{c, d} = {x', y'}"
    "pairing_input x' y' = ''edge-kvm-pairing-v1'' @ [CHR 0x00] @ c @ [CHR 0x00] @ d"
    using pairing_input_cases [of x' y'] by (elim exE conjE) (rule that)
  have "a \<in> {x, y}" "c \<in> {x', y'}"
    by (simp_all only: ab(1) [symmetric] cd(1) [symmetric] insertI1)
  then have nul: "CHR 0x00 \<notin> set a" "CHR 0x00 \<notin> set c"
    using assms(1) by auto
  have eq: "a @ CHR 0x00 # b = c @ CHR 0x00 # d"
    using assms(2) unfolding ab(2) cd(2) by simp
  have "split_once (CHR 0x00) (a @ CHR 0x00 # b) = Some (a, b)"
    using nul(1) by (simp add: split_once_Some)
  moreover have "split_once (CHR 0x00) (c @ CHR 0x00 # d) = Some (c, d)"
    using nul(2) by (simp add: split_once_Some)
  ultimately have "Some (a, b) = Some (c, d)"
    by (simp only: eq)
  then have "a = c \<and> b = d"
    by simp
  with ab(1) cd(1) show ?thesis by simp
qed

section \<open>The pin store as two maps\<close>

datatype pin_op =
    PinPeerOp string string
  | PinPhoneOp string string "phone_feature set"
  | RemovePhoneOp string

fun pin_step :: "pin_store \<Rightarrow> pin_op \<Rightarrow> pin_store" where
  "pin_step s (PinPeerOp peer fp) = pin s peer fp"
| "pin_step s (PinPhoneOp phone fp allowed) = pin_phone s phone fp allowed"
| "pin_step s (RemovePhoneOp phone) = snd (remove_phone s phone)"

text \<open>The specification: a map from PC names to keys and one from phone names to keys and features.\<close>

type_synonym pin_maps = "(string \<Rightarrow> string option) \<times> (string \<Rightarrow> (string \<times> phone_feature set) option)"

definition pin_maps_of :: "pin_store \<Rightarrow> pin_maps" where
  "pin_maps_of s =
     (\<lambda>n. map_option pp_fingerprint (bt_get (ps_peers s) n),
      \<lambda>n. map_option (\<lambda>p. (pf_fingerprint p, pf_allowed_features p)) (bt_get (ps_phones s) n))"

fun pin_maps_step :: "pin_maps \<Rightarrow> pin_op \<Rightarrow> pin_maps" where
  "pin_maps_step (pcs, phones) (PinPeerOp peer fp) = (pcs(peer := Some fp), phones)"
| "pin_maps_step (pcs, phones) (PinPhoneOp phone fp allowed) = (pcs, phones(phone := Some (fp, allowed)))"
| "pin_maps_step (pcs, phones) (RemovePhoneOp phone) = (pcs, phones(phone := None))"

definition pins_wf :: "pin_store \<Rightarrow> bool" where
  "pins_wf s \<longleftrightarrow> bt_wf (ps_peers s) \<and> bt_wf (ps_phones s)"

interpretation pins: simulated_machine pin_step pins_wf pin_maps_of pin_maps_step
proof
  fix s e
  show "pins_wf (pin_step s e)" if "pins_wf s"
    using that by (cases e)
      (simp_all add: pins_wf_def pin_def pin_phone_def remove_phone_def bt_wf_insert bt_wf_remove)
  show "pin_maps_of (pin_step s e) = pin_maps_step (pin_maps_of s) e" if "pins_wf s"
    by (cases e) (auto simp: pin_maps_of_def pin_def pin_phone_def remove_phone_def fun_eq_iff
        bt_get_insert bt_get_remove)
qed

lemma pins_wf_default [simp]: "pins_wf pin_store_default"
  by (simp add: pins_wf_def pin_store_default_def)

lemma status_of_maps:
  "status s peer fp = (case fst (pin_maps_of s) peer of
     None \<Rightarrow> Unknown | Some k \<Rightarrow> if k = fp then Trusted else Changed k)"
  "phone_status s phone fp = (case snd (pin_maps_of s) phone of
     None \<Rightarrow> Unknown | Some (k, _) \<Rightarrow> if k = fp then Trusted else Changed k)"
  by (simp_all add: status_def phone_status_def pin_maps_of_def split: option.split)

lemma keys_of_maps:
  assumes "pins_wf s"
  shows "is_pc_key s fp \<longleftrightarrow> (\<exists>n. fst (pin_maps_of s) n = Some fp)"
    "is_phone_key s fp \<longleftrightarrow> (\<exists>n a. snd (pin_maps_of s) n = Some (fp, a))"
  using assms
  by (simp_all add: is_pc_key_def is_phone_key_def bt_list_ex pins_wf_def pin_maps_of_def)

section \<open>Properties\<close>

text \<open>The pin store is two independent maps: after any sequence of pinning and removal, what it
  answers about a name or a key is what the two abstract maps say, so a phone's pin or removal never
  changes what is known of a PC, whatever name it chose, and a key other than the pinned one is
  reported as changed together with the expected key.\<close>

theorem pin_store_refines_maps:
  fixes ops
  defines "s \<equiv> foldl pin_step pin_store_default ops"
    and "m \<equiv> foldl pin_maps_step (Map.empty, Map.empty) ops"
  shows "status s peer fp = (case fst m peer of None \<Rightarrow> Unknown
           | Some k \<Rightarrow> if k = fp then Trusted else Changed k) \<and>
    phone_status s phone fp = (case snd m phone of None \<Rightarrow> Unknown
           | Some (k, _) \<Rightarrow> if k = fp then Trusted else Changed k) \<and>
    is_pc_key s fp = (\<exists>n. fst m n = Some fp) \<and>
    is_phone_key s fp = (\<exists>n a. snd m n = Some (fp, a))"
proof -
  have "pin_maps_of pin_store_default = (Map.empty, Map.empty)"
    by (simp add: pin_maps_of_def pin_store_default_def)
  then have "pin_maps_of s = m"
    using pins.run_abs [OF pins_wf_default, of ops] by (simp add: s_def m_def)
  moreover have "pins_wf s"
    unfolding s_def by (rule pins.run_inv) simp
  ultimately show ?thesis
    by (simp add: status_of_maps keys_of_maps)
qed

text \<open>Both users see the same pairing code: it does not depend on which computer computes it, it
  is always six decimal digits, and the hashed text determines the two fingerprints (which contain no
  NUL byte), so no other pair of keys shares it.\<close>

theorem pairing_code_symmetric:
  assumes "CHR 0x00 \<notin> set x \<union> set y \<union> set x' \<union> set y'"
  shows "pairing_code sha x y = pairing_code sha y x \<and>
    length (pairing_code sha x y) = 6 \<and>
    set (pairing_code sha x y) \<subseteq> set ''0123456789'' \<and>
    (pairing_input x y = pairing_input x' y' \<longleftrightarrow> {x, y} = {x', y'})"
proof -
  have sym: "pairing_input x y = pairing_input y x" for x y
    by (auto simp: pairing_input_def)
  note digit = decimal_digit_in
  have "pairing_input x y = pairing_input x' y'" if "{x, y} = {x', y'}"
    using that unfolding doubleton_eq_iff by (metis sym)
  then have inj: "pairing_input x y = pairing_input x' y' \<longleftrightarrow> {x, y} = {x', y'}"
    using pairing_input_inject [OF assms] by (rule iffI [rotated])
  have six: "length (six_digits n) = 6 \<and> set (six_digits n) \<subseteq> set ''0123456789''" for n
    using digit by (simp only: six_digits_def) auto
  show ?thesis
    unfolding pairing_code_def Let_def using inj six sym [of x y] by (simp only:)
qed

theorem pairing_code_symmetric_witness:
  "pairing_code (\<lambda>bs. bs) ''aa'' ''bb'' = pairing_code (\<lambda>bs. bs) ''bb'' ''aa'' \<and>
   pairing_input ''aa'' ''bb'' \<noteq> pairing_input ''aa'' ''cc''"
  using pairing_code_symmetric [of "''aa''" "''bb''" "''aa''" "''cc''" "\<lambda>bs. bs"]
  by (simp add: doubleton_eq_iff)

text \<open>What may be in the file after a crash.\<close>

fun readable :: "disk_file option \<Rightarrow> bytes option set" where
  "readable None = {None}"
| "readable (Some f) = (if df_synced f then {Some (df_data f)} else range Some)"

definition after_crash :: "atomic_path \<Rightarrow> bytes option set" where
  "after_crash fs = (\<Union>f \<in> set (ap_file fs # ap_before fs). readable f)"

definition after_writes :: "bytes option \<Rightarrow> (write_point \<times> bytes) list \<Rightarrow> atomic_path" where
  "after_writes c ws = foldl (\<lambda>fs (point, contents). snd (write_atomic point contents fs)) (stored c) ws"

text \<open>What a write should leave: a success only the new contents; a failure the old ones, but the new ones also if
  only the directory could not be synced.\<close>

fun leaves :: "bytes option set \<Rightarrow> write_point \<times> bytes \<Rightarrow> bytes option set" where
  "leaves old (NoPoint, contents) = {Some contents}"
| "leaves old (AtDirSync, contents) = insert (Some contents) old"
| "leaves old (point, contents) = old"

lemma write_leaves:
  assumes "ap_temp fs = None"
  shows "after_crash (snd (write_atomic point contents fs)) = leaves (after_crash fs) (point, contents)"
    "ap_temp (snd (write_atomic point contents fs)) = None"
    "after_crash (snd (interrupted point contents fs)) \<subseteq> insert (Some contents) (after_crash fs)"
  using assms by (cases point; auto simp: write_atomic_defs after_crash_def)+

lemma after_writes_leave:
  "after_crash (after_writes c ws) = foldl leaves {c} ws" "ap_temp (after_writes c ws) = None"
proof (induction ws rule: rev_induct)
  case Nil
  {
    case 1
    show ?case
      by (cases c) (simp_all add: after_writes_def after_crash_def stored_def)
  next
    case 2
    show ?case
      by (simp add: after_writes_def stored_def)
  }
next
  case (snoc w ws)
  obtain point contents where "w = (point, contents)"
    by fastforce
  then have "after_writes c (ws @ [w]) = snd (write_atomic point contents (after_writes c ws))"
    by (simp add: after_writes_def)
  then show "after_crash (after_writes c (ws @ [w])) = foldl leaves {c} (ws @ [w])" "ap_temp (after_writes c (ws @ [w])) = None"
    using write_leaves(1,2) [OF snoc(2)] snoc(1) \<open>w = (point, contents)\<close> by simp_all
qed

text \<open>C25: A state file survives crashes and is never a mix. After any writes, each of which may fail at any of its
  operations, a crash leaves exactly: the contents of the last write that succeeded, or of a later one for which only the
  sync of the directory failed; so what was reported as written is on the disk, and nothing is torn. A crash in
  the middle of a further write leaves one of these or the complete new contents. A success makes the new contents
  what is read, and the only ones a crash can leave; a failure removes the temporary file and leaves what was read, unless
  only the sync of the directory failed.\<close>

theorem atomic_write_never_mixes:
  "after_crash (after_writes c ws) = foldl leaves {c} ws \<and>
   after_crash (snd (interrupted point contents (after_writes c ws))) \<subseteq> insert (Some contents) (foldl leaves {c} ws) \<and>
   (case write_atomic point contents (after_writes c ws) of
      (Inr _, fs) \<Rightarrow> point = NoPoint \<and> ap_contents fs = Some contents \<and> after_crash fs = {Some contents}
    | (Inl _, fs) \<Rightarrow> point \<noteq> NoPoint \<and> ap_temp fs = None \<and>
        ap_contents fs = (if point = AtDirSync then Some contents else ap_contents (after_writes c ws)))"
proof -
  have temp: "ap_temp (after_writes c ws) = None"
    by (rule after_writes_leave)
  have "case write_atomic point contents fs of
      (Inr _, fs1) \<Rightarrow> point = NoPoint \<and> ap_contents fs1 = Some contents \<and> after_crash fs1 = {Some contents}
    | (Inl _, fs1) \<Rightarrow> point \<noteq> NoPoint \<and> ap_temp fs1 = None \<and>
        ap_contents fs1 = (if point = AtDirSync then Some contents else ap_contents fs)"
    if "ap_temp fs = None" for fs
    using that by (cases point) (simp_all add: write_atomic_defs ap_contents_def after_crash_def)
  from this [OF temp] show ?thesis
    using write_leaves(3) [OF temp, of point contents] after_writes_leave(1) [of c ws] by simp
qed

text \<open>The identity survives restarts: a first start that reports a key has stored it, and every
  later start that can read the file gets the same key back without generating one, given that the
  TOML and hex codecs read back what they wrote.\<close>

theorem identity_created_once:
  assumes "\<And>file txt. to_toml file = Some txt \<Longrightarrow> from_toml txt = Some file"
    and "\<And>bs. unhex (hex bs) = Some bs"
    and "ap_contents fs = None"
    and "load_or_create hex unhex to_toml from_toml False generated point fs = (Ok key, fs')"
  shows "load_or_create hex unhex to_toml from_toml False generated' point' fs' = (Ok key, fs')"
proof -
  obtain priv pub where gen: "generated = Some (priv, pub)" "length priv = 32" "length pub = 32"
      "key = \<lparr>ik_private = priv, ik_public = pub\<rparr>"
    using assms(3,4) by (auto simp: load_or_create_def identity_generate_def vec_to_key_def
        split: option.splits sum.splits prod.splits if_splits)
  obtain p where p: "to_toml \<lparr>private_key_hex = hex priv, public_key_hex = hex pub\<rparr> = Some p"
      "ap_contents fs' = Some p"
    using assms(3,4) gen by (auto simp: load_or_create_def identity_generate_def vec_to_key_def
        identity_save_def write_atomic_ok split: option.splits sum.splits prod.splits if_splits)
  show ?thesis
    using assms(1) [OF p(1)] gen assms(2)
    by (simp add: load_or_create_def p(2) identity_file_decode_def vec_to_key_def)
qed

definition identity_to_bytes :: "identity_file \<Rightarrow> bytes option" where
  "identity_to_bytes f =
     (if length (private_key_hex f) < 256
      then Some (of_nat (length (private_key_hex f)) # as_bytes (private_key_hex f @ public_key_hex f))
      else None)"

definition identity_of_bytes :: "bytes \<Rightarrow> identity_file option" where
  "identity_of_bytes bs =
     (case bs of [] \<Rightarrow> None
      | n # r \<Rightarrow> Some \<lparr>private_key_hex = take (unat n) (bytes_str r),
                       public_key_hex = drop (unat n) (bytes_str r)\<rparr>)"

lemma identity_of_bytes_inverse: "identity_to_bytes f = Some txt \<Longrightarrow> identity_of_bytes txt = Some f"
  by (auto simp: identity_to_bytes_def identity_of_bytes_def unat_of_nat split: if_splits)

theorem identity_created_once_witness:
  "\<exists>fs'. load_or_create bytes_str (\<lambda>s. Some (as_bytes s)) identity_to_bytes identity_of_bytes False
      (Some (replicate 32 1, replicate 32 2)) NoPoint (stored None) =
      (Ok \<lparr>ik_private = replicate 32 1, ik_public = replicate 32 2\<rparr>, fs') \<and>
    load_or_create bytes_str (\<lambda>s. Some (as_bytes s)) identity_to_bytes identity_of_bytes False
      None AtOpen fs' = (Ok \<lparr>ik_private = replicate 32 1, ik_public = replicate 32 2\<rparr>, fs')"
proof -
  obtain fs' where fs': "load_or_create bytes_str (\<lambda>s. Some (as_bytes s)) identity_to_bytes
      identity_of_bytes False (Some (replicate 32 1, replicate 32 2)) NoPoint
      (stored None) =
      (Ok \<lparr>ik_private = replicate 32 1, ik_public = replicate 32 2\<rparr>, fs')"
    by (simp add: load_or_create_def identity_generate_def vec_to_key_def identity_save_def
        identity_to_bytes_def bytes_str_def)
  show ?thesis
    using fs' identity_created_once [where generated' = None and point' = AtOpen, OF identity_of_bytes_inverse _ _ fs']
    by auto
qed

end
