(* ===== verification/NotificationStore.thy ===== *)
theory NotificationStore
  imports Protocol BTree
begin

text \<open>
  The durable notification history of \<open>apps/edge-receiver-linux/src/notification_hub.rs\<close>: the
  \<open>Store\<close> one coordinator writes and every replica copies, with the checks on keys and contents. An
  \<open>anyhow\<close> error is a constructor of \<open>hub_error\<close>. Operations that change the store return their Rust
  result and the store after the call, also on errors.
\<close>

definition MAX_RECORDS :: nat where
  "MAX_RECORDS = 4096"

definition MAX_PENDING :: nat where
  "MAX_PENDING = 1024"

definition MAX_STORE_BYTES :: nat where
  "MAX_STORE_BYTES = 32 * 1024 * 1024"

datatype hub_error =
    ZeroSequence | SourceImpersonation | StateFull | SequenceExhausted | InvalidLocalOrigin | OutboxFull
  | InvalidOrigin | InvalidInstance | ContentTooLarge | IconNotThemeName | InvalidUrgency | IconTooLarge
  | OwnerDiffers | OwnerNotConfirmed | OutputQueueFull | InvalidEpoch | StoreReset | NestedSnapshot
  | RecordOutsideSnapshot | SnapshotCapacity | EndWithoutStart | IncorrectAuthority
  | StoreTooLarge | StoreCorrupt | IdentityChanged | OwnerChanged | LimitsExceeded | NotEnrolledCoordinator
  | PersistFailed | EpochGeneration | SnapshotTooLarge | BufferFull | ControlInterrupted
  | WorkerQueueFull | WorkerStopped | PhoneSnapshotFull | PhoneIdentitiesFull | PhoneImportsFull
  | SnapshotNotImported

section \<open>Checks\<close>

definition is_digit :: "char \<Rightarrow> bool" where
  "is_digit c \<longleftrightarrow> CHR ''0'' \<le> c \<and> c \<le> CHR ''9''"

definition is_ascii_alpha :: "char \<Rightarrow> bool" where
  "is_ascii_alpha c = (let n = of_char c :: nat in n \<in> {65..90} \<union> {97..122})"

definition is_ascii_alphanumeric :: "char \<Rightarrow> bool" where
  "is_ascii_alphanumeric c \<longleftrightarrow> is_digit c \<or> is_ascii_alpha c"

definition is_ascii_hexdigit :: "char \<Rightarrow> bool" where
  "is_ascii_hexdigit c \<longleftrightarrow>
     is_digit c \<or> CHR ''a'' \<le> c \<and> c \<le> CHR ''f'' \<or> CHR ''A'' \<le> c \<and> c \<le> CHR ''F''"

definition valid_origin :: "string \<Rightarrow> bool" where
  "valid_origin origin_str \<longleftrightarrow>
     length origin_str = 35 \<and> length (split_on (CHR '':'') origin_str) = 4 \<and>
     list_all (\<lambda>part. length part = 8 \<and> list_all is_ascii_hexdigit part)
       (split_on (CHR '':'') origin_str)"

definition valid_instance :: "string \<Rightarrow> bool" where
  "valid_instance i \<longleftrightarrow>
     i \<noteq> [] \<and> length i \<le> 160 \<and>
     list_all (\<lambda>c. is_ascii_alphanumeric c \<or> c \<in> set ''-_/'') i"

definition validate_key :: "notification_key \<Rightarrow> (hub_error, unit) result" where
  "validate_key key =
     (if \<not> valid_origin (origin key) then Err InvalidOrigin
      else if \<not> valid_instance (instance_of key) then Err InvalidInstance
      else Ok ())"

definition validate_content :: "shared_notification \<Rightarrow> (hub_error, unit) result" where
  "validate_content c =
     (if \<not> (char_count (sn_app_name c) \<le> 64 \<and> char_count (sn_title c) \<le> 256 \<and> length (sn_body c) \<le> 4096)
      then Err ContentTooLarge
      else if \<not> (length (sn_icon c) \<le> 128 \<and>
                 list_all (\<lambda>x. is_ascii_alphanumeric x \<or> x \<in> set ''-_.'') (sn_icon c))
      then Err IconNotThemeName
      else if \<not> sn_urgency c \<le> 2 then Err InvalidUrgency
      else if \<not> (case sn_icon_png c of None \<Rightarrow> True | Some png \<Rightarrow> length png \<le> MAX_ICON_BYTES)
      then Err IconTooLarge
      else Ok ())"

section \<open>The store\<close>

record phone_instance =
  pi_instance :: string
  pi_present :: bool

record store =
  st_coordinator :: string
  st_epoch :: string
  st_local_identity :: string
  st_sequence :: u64
  st_records :: "notification_record list"
  st_pending :: "notification_operation list"
  st_phone_instances :: "(string, phone_instance) btree"
  st_imported_phones :: "(string, string) btree"

definition store_default :: store where
  "store_default = \<lparr>st_coordinator = [], st_epoch = [], st_local_identity = [], st_sequence = 0,
     st_records = [], st_pending = [], st_phone_instances = [], st_imported_phones = []\<rparr>"

definition coordinator_locked :: "store \<Rightarrow> bool" where
  "coordinator_locked s \<longleftrightarrow>
     st_epoch s \<noteq> [] \<or> st_records s \<noteq> [] \<or>
     list_ex (\<lambda>operation. origin (op_key operation) \<noteq> st_local_identity s) (st_pending s)"

text \<open>\<open>iter_mut().find\<close> and an assignment through the reference it returns.\<close>

fun map_first :: "('a \<Rightarrow> bool) \<Rightarrow> ('a \<Rightarrow> 'a) \<Rightarrow> 'a list \<Rightarrow> 'a list" where
  "map_first P f [] = []"
| "map_first P f (x # xs) = (if P x then f x # xs else x # map_first P f xs)"

definition find_record :: "notification_record list \<Rightarrow> notification_key \<Rightarrow> notification_record option" where
  "find_record rs key = find (\<lambda>r. rec_key r = key) rs"

definition check_operation :: "string \<Rightarrow> notification_operation \<Rightarrow> (hub_error, unit) result" where
  "check_operation sender operation =
     (case validate_key (op_key operation) of
        Inl e \<Rightarrow> Err e
      | Inr _ \<Rightarrow>
          if \<not> op_sequence operation > 0 then Err ZeroSequence
          else (case op_content operation of
                  None \<Rightarrow> Ok ()
                | Some content \<Rightarrow>
                    if origin (op_key operation) \<noteq> sender then Err SourceImpersonation
                    else validate_content content))"

definition apply_op ::
  "store \<Rightarrow> string \<Rightarrow> notification_operation \<Rightarrow> (hub_error, bool) result \<times> store" where
  "apply_op s sender operation =
     (case check_operation sender operation of
        Inl e \<Rightarrow> (Err e, s)
      | Inr _ \<Rightarrow>
          (case find_record (st_records s) (op_key operation) of
             Some r \<Rightarrow>
               if rec_content r = None then (Ok False, s)
               else if op_content operation = None \<or> op_sequence operation > rec_source_sequence r
               then (Ok True,
                     s\<lparr>st_records := map_first (\<lambda>r. rec_key r = op_key operation)
                         (\<lambda>r. r\<lparr>rec_content := op_content operation,
                                rec_source_sequence := (if op_content operation \<noteq> None
                                   then op_sequence operation else rec_source_sequence r)\<rparr>)
                         (st_records s)\<rparr>)
               else (Ok False, s)
           | None \<Rightarrow>
               if \<not> length (st_records s) < MAX_RECORDS then (Err StateFull, s)
               else (Ok True,
                     s\<lparr>st_records := st_records s @
                         [\<lparr>rec_key = op_key operation, rec_source_sequence = op_sequence operation,
                           rec_content = op_content operation\<rparr>]\<rparr>)))"

definition view :: "store \<Rightarrow> notification_record list" where
  "view s = st_records (fold (\<lambda>operation overlay. snd (apply_op overlay (st_local_identity s) operation))
                          (st_pending s) s)"

definition store_record :: "store \<Rightarrow> notification_key \<Rightarrow> notification_record option" where
  "store_record s key =
     (let current = find_record (st_records s) key in
      case find (\<lambda>operation. op_key operation = key) (st_pending s) of
        None \<Rightarrow> current
      | Some operation \<Rightarrow>
          (let overlay = store_default\<lparr>st_records := (case current of None \<Rightarrow> [] | Some r \<Rightarrow> [r])\<rparr>;
               overlay' = snd (apply_op overlay (st_local_identity s) operation)
           in if st_records overlay' = [] then None else Some (last (st_records overlay'))))"

definition queue_local ::
  "store \<Rightarrow> notification_key \<Rightarrow> shared_notification option \<Rightarrow> bool \<Rightarrow> (hub_error, bool) result \<times> store"
  where
  "queue_local s key content coordinator =
     (if (case find_record (view s) key of
            Some r \<Rightarrow> rec_content r = None \<or> rec_content r = content
          | None \<Rightarrow> False)
      then (Ok False, s)
      else (case checked_add (st_sequence s) 1 of
              None \<Rightarrow> (Err SequenceExhausted, s)
            | Some sequence \<Rightarrow>
                (let s1 = s\<lparr>st_sequence := sequence\<rparr>;
                     operation = \<lparr>op_sequence = sequence, op_key = key, op_content = content\<rparr>
                 in case validate_key key of
                      Inl e \<Rightarrow> (Err e, s1)
                    | Inr _ \<Rightarrow>
                        (case (case content of
                                 None \<Rightarrow> Ok ()
                               | Some c \<Rightarrow>
                                   (case validate_content c of
                                      Inl e \<Rightarrow> Err e
                                    | Inr _ \<Rightarrow> if origin key \<noteq> st_local_identity s
                                               then Err InvalidLocalOrigin else Ok ())) of
                           Inl e \<Rightarrow> (Err e, s1)
                         | Inr _ \<Rightarrow>
                             if coordinator
                             then (case apply_op s1 (st_local_identity s) operation of
                                     (Inl e, s2) \<Rightarrow> (Err e, s2)
                                   | (Inr _, s2) \<Rightarrow> (Ok True, s2))
                             else (let s2 = s1\<lparr>st_pending := filter (\<lambda>p. op_key p \<noteq> key) (st_pending s1)\<rparr>
                                   in if \<not> (length (st_pending s2) < MAX_PENDING \<and>
                                             length (st_records s2) + length (st_pending s2) < MAX_RECORDS)
                                      then (Err OutboxFull, s2)
                                      else (Ok True, s2\<lparr>st_pending := st_pending s2 @ [operation]\<rparr>))))))"

end
