(* ===== verification/NotificationHistory.thy ===== *)
theory NotificationHistory
  imports NotificationStore
begin

text \<open>
  What the notification store guarantees by itself: lookups after an operation, the order along which
  a history moves (nothing is forgotten, a removal is final), where contents can come from, and that
  the single-key lookup \<open>record\<close> agrees with the full view.
\<close>

section \<open>Lookups\<close>

lemma find_record_Nil [simp]: "find_record [] k = None"
  by (simp add: find_record_def)

lemma find_record_Cons:
  "find_record (r # rs) k = (if rec_key r = k then Some r else find_record rs k)"
  by (simp add: find_record_def)

lemma find_record_append:
  "find_record (rs @ ts) k = (case find_record rs k of Some r \<Rightarrow> Some r | None \<Rightarrow> find_record ts k)"
  by (induction rs) (simp_all add: find_record_Cons)

lemma find_record_key: "find_record rs k = Some r \<Longrightarrow> rec_key r = k \<and> r \<in> set rs"
  by (induction rs) (auto simp: find_record_Cons split: if_splits)

lemma find_record_None: "find_record rs k = None \<longleftrightarrow> k \<notin> rec_key ` set rs"
  by (induction rs) (auto simp: find_record_Cons)

lemma find_record_map_first:
  assumes "\<And>r. rec_key (f r) = rec_key r"
  shows "find_record (map_first (\<lambda>r. rec_key r = k) f rs) l =
    (if l = k then map_option f (find_record rs k) else find_record rs l)"
  using assms by (induction rs) (auto simp: find_record_Cons)

lemma find_record_in:
  "distinct (map rec_key rs) \<Longrightarrow> r \<in> set rs \<Longrightarrow> find_record rs (rec_key r) = Some r"
  by (induction rs) (auto simp: find_record_Cons)

lemma length_map_first [simp]: "length (map_first P f xs) = length xs"
  by (induction xs) simp_all

lemma keys_map_first:
  assumes "\<And>r. rec_key (f r) = rec_key r"
  shows "map rec_key (map_first P f rs) = map rec_key rs"
  using assms by (induction rs) simp_all

lemma set_map_first: "x \<in> set (map_first P f xs) \<Longrightarrow> x \<in> set xs \<or> (\<exists>y\<in>set xs. P y \<and> x = f y)"
  by (induction xs) (auto split: if_splits)

text \<open>The effect of an operation on the record it names.\<close>

definition merge_record ::
  "notification_operation \<Rightarrow> bool \<Rightarrow> notification_record option \<Rightarrow> notification_record option" where
  "merge_record operation room current =
     (case current of
        None \<Rightarrow> if room
                then Some \<lparr>rec_key = op_key operation, rec_source_sequence = op_sequence operation,
                           rec_content = op_content operation\<rparr>
                else None
      | Some r \<Rightarrow>
          if rec_content r = None then Some r
          else if op_content operation = None then Some (r\<lparr>rec_content := None\<rparr>)
          else if op_sequence operation > rec_source_sequence r
          then Some (r\<lparr>rec_content := op_content operation, rec_source_sequence := op_sequence operation\<rparr>)
          else Some r)"

lemma apply_op_other [simp]:
  "st_local_identity (snd (apply_op s sender op)) = st_local_identity s"
  "st_pending (snd (apply_op s sender op)) = st_pending s"
  "st_epoch (snd (apply_op s sender op)) = st_epoch s"
  "st_sequence (snd (apply_op s sender op)) = st_sequence s"
  by (auto simp: apply_op_def split: sum.split option.split)

lemma apply_op_find:
  "find_record (st_records (snd (apply_op s sender op))) k =
     (if k = op_key op \<and> is_ok (check_operation sender op)
      then merge_record op (length (st_records s) < MAX_RECORDS) (find_record (st_records s) k)
      else find_record (st_records s) k)"
proof (cases "check_operation sender op")
  case (Inl e)
  then show ?thesis by (simp add: apply_op_def)
next
  case (Inr u)
  show ?thesis
  proof (cases "find_record (st_records s) (op_key op)")
    case None
    then show ?thesis
      using Inr by (auto simp: apply_op_def merge_record_def find_record_append find_record_Cons
          split: option.split)
  next
    case (Some r)
    then show ?thesis
      using Inr by (simp add: apply_op_def merge_record_def find_record_map_first)
  qed
qed

lemma apply_op_length:
  "length (st_records (snd (apply_op s sender op))) =
     (if is_ok (check_operation sender op) \<and> find_record (st_records s) (op_key op) = None \<and>
         length (st_records s) < MAX_RECORDS
      then Suc (length (st_records s)) else length (st_records s))"
  by (auto simp: apply_op_def split: sum.split option.split)

section \<open>The history moves forward\<close>

fun history_step :: "store \<Rightarrow> string \<times> notification_operation \<Rightarrow> store" where
  "history_step s (sender, op) = snd (apply_op s sender op)"

definition record_le :: "notification_record \<Rightarrow> notification_record \<Rightarrow> bool" where
  "record_le r t \<longleftrightarrow>
     rec_source_sequence r \<le> rec_source_sequence t \<and> (rec_content r = None \<longrightarrow> rec_content t = None)"

definition history_le :: "store \<Rightarrow> store \<Rightarrow> bool" where
  "history_le s t \<longleftrightarrow>
     (\<forall>k r. find_record (st_records s) k = Some r \<longrightarrow>
        (\<exists>t'. find_record (st_records t) k = Some t' \<and> record_le r t'))"

definition records_wf :: "notification_record list \<Rightarrow> bool" where
  "records_wf rs \<longleftrightarrow>
     distinct (map rec_key rs) \<and> length rs \<le> MAX_RECORDS \<and>
     (\<forall>r\<in>set rs. is_ok (validate_key (rec_key r)) \<and>
        (\<forall>c. rec_content r = Some c \<longrightarrow> is_ok (validate_content c)))"

lemma record_le_refl: "record_le r r"
  by (simp add: record_le_def)

lemma record_le_trans: "record_le r t \<Longrightarrow> record_le t u \<Longrightarrow> record_le r u"
  by (auto simp: record_le_def)

lemma history_le_refl: "history_le s s"
  by (auto simp: history_le_def record_le_refl)

lemma history_le_trans: "history_le s t \<Longrightarrow> history_le t u \<Longrightarrow> history_le s u"
  unfolding history_le_def by (meson record_le_trans)

lemma merge_record_le: "merge_record op room (Some r) = Some t \<Longrightarrow> record_le r t"
  by (auto simp: merge_record_def record_le_def split: if_splits)

lemma merge_record_Some: "\<exists>t. merge_record op room (Some r) = Some t"
  by (simp add: merge_record_def)

lemma history_step_le: "history_le s (history_step s e)"
proof -
  obtain sender op where e: "e = (sender, op)"
    by (cases e)
  have "\<exists>t'. find_record (st_records (history_step s e)) k = Some t' \<and> record_le r t'"
    if r: "find_record (st_records s) k = Some r" for k r
  proof -
    obtain t where "merge_record op (length (st_records s) < MAX_RECORDS) (Some r) = Some t"
      using merge_record_Some by blast
    then show ?thesis
      using r merge_record_le record_le_refl by (auto simp: e apply_op_find)
  qed
  then show ?thesis
    by (auto simp: history_le_def)
qed

lemma check_operation_Ok:
  "is_ok (check_operation sender op) \<longleftrightarrow>
     is_ok (validate_key (op_key op)) \<and> op_sequence op > 0 \<and>
     (\<forall>c. op_content op = Some c \<longrightarrow> origin (op_key op) = sender \<and> is_ok (validate_content c))"
  by (auto simp: check_operation_def is_ok_iff split: sum.split option.split)

lemma history_step_wf:
  assumes "records_wf (st_records s)"
  shows "records_wf (st_records (history_step s e))"
proof -
  obtain sender op where e: "e = (sender, op)"
    by (cases e)
  show ?thesis
  proof (cases "check_operation sender op")
    case (Inl err)
    then show ?thesis
      using assms by (simp add: e apply_op_def)
  next
    case (Inr u)
    then have ok: "is_ok (validate_key (op_key op))"
        "\<forall>c. op_content op = Some c \<longrightarrow> is_ok (validate_content c)"
      using check_operation_Ok [of sender op] by auto
    show ?thesis
    proof (cases "find_record (st_records s) (op_key op)")
      case None
      have "op_key op \<notin> rec_key ` set (st_records s)"
        using None by (simp add: find_record_None)
      then show ?thesis
        using assms ok unfolding e history_step.simps apply_op_def Inr None
        by (cases "length (st_records s) < MAX_RECORDS") (simp_all add: records_wf_def)
    next
      case (Some r)
      then show ?thesis
        using assms Inr ok
        by (auto simp: e apply_op_def records_wf_def keys_map_first dest!: set_map_first)
    qed
  qed
qed

interpretation history: progressing_machine history_step "\<lambda>s. records_wf (st_records s)" history_le
proof
  show "records_wf (st_records (history_step s e))" if "records_wf (st_records s)" for s e
    using that by (rule history_step_wf)
  show "history_le s s" for s
    by (rule history_le_refl)
  show "history_le s u" if "history_le s t" "history_le t u" for s t u
    using that by (rule history_le_trans)
  show "history_le s (history_step s e)" for s e
    by (rule history_step_le)
qed

section \<open>The view\<close>

definition overlay_op :: "string \<Rightarrow> store \<Rightarrow> notification_operation \<Rightarrow> store" where
  "overlay_op me s operation = history_step s (me, operation)"

lemma view_foldl: "view s = st_records (foldl (overlay_op (st_local_identity s)) s (st_pending s))"
  by (simp add: view_def overlay_op_def foldl_conv_fold)

lemma overlay_other_key:
  "k \<notin> op_key ` set ops \<Longrightarrow>
     find_record (st_records (foldl (overlay_op me) s ops)) k = find_record (st_records s) k"
  by (induction ops arbitrary: s) (simp_all add: overlay_op_def apply_op_find)

lemma overlay_length:
  "length (st_records (foldl (overlay_op me) s ops)) \<le> length (st_records s) + length ops"
proof (induction ops arbitrary: s)
  case (Cons op ops)
  have "length (st_records (overlay_op me s op)) \<le> Suc (length (st_records s))"
    by (simp add: overlay_op_def apply_op_length)
  with Cons [of "overlay_op me s op"] show ?case
    by simp
qed simp

lemma overlay_find:
  assumes "distinct (map op_key ops)" "op \<in> set ops" "is_ok (check_operation me op)"
    and "length (st_records s) + length ops \<le> MAX_RECORDS"
  shows "find_record (st_records (foldl (overlay_op me) s ops)) (op_key op) =
    merge_record op True (find_record (st_records s) (op_key op))"
  using assms
proof (induction ops arbitrary: s)
  case (Cons x ops)
  have len: "length (st_records (overlay_op me s x)) \<le> Suc (length (st_records s))"
    by (simp add: overlay_op_def apply_op_length)
  show ?case
  proof (cases "x = op")
    case True
    then have "op_key op \<notin> op_key ` set ops"
      using Cons.prems(1) by auto
    then show ?thesis
      using True Cons.prems(3,4) by (simp add: overlay_other_key, simp add: overlay_op_def apply_op_find)
  next
    case False
    then have "op_key x \<noteq> op_key op" "op \<in> set ops"
      using Cons.prems(1,2) by auto
    moreover from this have "find_record (st_records (overlay_op me s x)) (op_key op) =
        find_record (st_records s) (op_key op)"
      by (simp add: overlay_op_def apply_op_find)
    ultimately show ?thesis
      using Cons.IH [of "overlay_op me s x"] Cons.prems len by simp
  qed
qed simp

lemma find_pending:
  assumes "find (\<lambda>op. op_key op = k) ops = Some op"
  shows "op \<in> set ops" "op_key op = k"
  using assms by (auto simp: find_Some_iff)

lemma store_record_find:
  "store_record s k =
     (case find (\<lambda>op. op_key op = k) (st_pending s) of
        None \<Rightarrow> find_record (st_records s) k
      | Some op \<Rightarrow> if is_ok (check_operation (st_local_identity s) op)
                  then merge_record op True (find_record (st_records s) k)
                  else find_record (st_records s) k)"
proof (cases "find (\<lambda>op. op_key op = k) (st_pending s)")
  case None
  then show ?thesis by (simp add: store_record_def)
next
  case (Some op)
  then have k: "op_key op = k"
    by (rule find_pending(2))
  define o1 where "o1 = store_default\<lparr>st_records :=
    (case find_record (st_records s) k of None \<Rightarrow> [] | Some r \<Rightarrow> [r])\<rparr>"
  define o2 where "o2 = snd (apply_op o1 (st_local_identity s) op)"
  have find1: "find_record (st_records o1) k = find_record (st_records s) k"
    by (auto simp: o1_def find_record_Cons dest: find_record_key split: option.split)
  have room: "length (st_records o1) < MAX_RECORDS"
    by (simp add: o1_def MAX_RECORDS_def split: option.split)
  have short: "length (st_records o2) \<le> 1"
    using find1 by (auto simp: o2_def apply_op_length k o1_def split: option.split)
  have keys: "\<forall>r\<in>set (st_records o2). rec_key r = k"
    by (auto simp: o2_def apply_op_def o1_def k find_record_Cons dest: find_record_key
        split: sum.split option.split)
  have "(if st_records o2 = [] then None else Some (last (st_records o2))) = find_record (st_records o2) k"
    using short keys by (cases "st_records o2") (auto simp: find_record_Cons)
  moreover have "find_record (st_records o2) k =
      (if is_ok (check_operation (st_local_identity s) op)
       then merge_record op True (find_record (st_records s) k) else find_record (st_records s) k)"
    using room find1 by (simp add: o2_def apply_op_find k)
  moreover have "store_record s k = (if st_records o2 = [] then None else Some (last (st_records o2)))"
    by (simp add: store_record_def Let_def Some o1_def o2_def)
  ultimately show ?thesis
    by (simp add: Some)
qed

lemma find_pending_None: "find (\<lambda>op. op_key op = k) ops = None \<longleftrightarrow> k \<notin> op_key ` set ops"
  by (auto simp: find_None_iff)

lemma find_pending_view:
  assumes "distinct (map op_key (st_pending s))"
    and "\<forall>op\<in>set (st_pending s). is_ok (check_operation (st_local_identity s) op)"
    and "length (st_records s) + length (st_pending s) \<le> MAX_RECORDS"
  shows "find_record (view s) k = store_record s k"
proof (cases "find (\<lambda>op. op_key op = k) (st_pending s)")
  case None
  have "k \<notin> op_key ` set (st_pending s)"
    using None by (simp add: find_pending_None)
  then show ?thesis
    by (simp add: view_foldl store_record_find None overlay_other_key)
next
  case (Some op)
  then show ?thesis
    using overlay_find [OF assms(1) _ _ assms(3), of op] assms(2) find_pending [OF Some]
    by (simp add: view_foldl store_record_find)
qed

section \<open>Properties\<close>

text \<open>C26: A notification history only moves forward: whatever operations reach it, from whichever
  senders, valid or not, a key once known stays known, its source sequence never decreases, and a
  removed notification stays removed, even if its source posts it again.\<close>

theorem notification_removal_final:
  assumes "find_record (st_records s) k = Some r" and "records_wf (st_records s)"
  shows "\<exists>t. find_record (st_records (foldl history_step s ops)) k = Some t \<and>
    rec_source_sequence r \<le> rec_source_sequence t \<and> (rec_content r = None \<longrightarrow> rec_content t = None)"
  using history.run_le [OF assms(2), of ops] assms(1) by (auto simp: history_le_def record_le_def)

definition sample_key :: notification_key where
  "sample_key = NotificationKey ''01234567:89abcdef:01234567:89abcdef'' ''app/1''"

definition sample_content :: shared_notification where
  "sample_content = \<lparr>sn_app_name = ''App'', sn_title = ''Hi'', sn_body = ''text'', sn_icon = ''mail'',
     sn_icon_png = None, sn_posted_ms = 5, sn_urgency = 1\<rparr>"

lemma sample_valid: "validate_key sample_key = Ok ()" "validate_content sample_content = Ok ()"
  by code_simp+

theorem notification_removal_final_witness:
  "\<exists>t. find_record (st_records (foldl history_step
      (store_default\<lparr>st_records := [\<lparr>rec_key = sample_key, rec_source_sequence = 3, rec_content = None\<rparr>]\<rparr>)
      [(origin sample_key, \<lparr>op_sequence = 9, op_key = sample_key, op_content = Some sample_content\<rparr>)]))
      sample_key = Some t \<and> rec_content t = None"
proof -
  let ?r = "\<lparr>rec_key = sample_key, rec_source_sequence = 3, rec_content = None\<rparr>"
  have "records_wf [?r]"
    by (simp add: records_wf_def sample_valid MAX_RECORDS_def)
  moreover have "find_record [?r] sample_key = Some ?r"
    by (simp add: find_record_Cons)
  ultimately show ?thesis
    using notification_removal_final [of "store_default\<lparr>st_records := [?r]\<rparr>" sample_key ?r
        "[(origin sample_key, \<lparr>op_sequence = 9, op_key = sample_key, op_content = Some sample_content\<rparr>)]"]
    by (auto simp del: foldl_Cons)
qed

text \<open>C27: Nobody can post in another computer's name: after any operations from any senders, every
  notification with a content either had this content before or was submitted, with this content and
  this key, by the computer its origin names.\<close>

theorem notification_no_impersonation:
  assumes "find_record (st_records (foldl history_step s ops)) k = Some r" and "rec_content r = Some c"
  shows "(\<exists>r0. find_record (st_records s) k = Some r0 \<and> rec_content r0 = Some c) \<or>
    (\<exists>op. (origin k, op) \<in> set ops \<and> op_key op = k \<and> op_content op = Some c)"
  using assms
proof (induction ops arbitrary: s)
  case (Cons e ops)
  obtain sender op where e: "e = (sender, op)"
    by (cases e)
  have "(\<exists>r0. find_record (st_records s) k = Some r0 \<and> rec_content r0 = Some c) \<or>
      sender = origin k \<and> op_key op = k \<and> op_content op = Some c"
    if "find_record (st_records (history_step s e)) k = Some r0" "rec_content r0 = Some c" for r0
    using that check_operation_Ok [of sender op]
    by (auto simp: e apply_op_find merge_record_def split: if_splits option.splits)
  with Cons e show ?case
    by fastforce
qed simp

theorem notification_no_impersonation_witness:
  "\<exists>r. find_record (st_records (foldl history_step store_default
      [(origin sample_key, \<lparr>op_sequence = 9, op_key = sample_key, op_content = Some sample_content\<rparr>)]))
      sample_key = Some r \<and> rec_content r = Some sample_content \<and>
    (\<exists>op. (origin sample_key, op) \<in> set [(origin sample_key,
        \<lparr>op_sequence = 9, op_key = sample_key, op_content = Some sample_content\<rparr>)] \<and>
      op_content op = Some sample_content)"
proof -
  let ?ops = "[(origin sample_key, \<lparr>op_sequence = 9, op_key = sample_key, op_content = Some sample_content\<rparr>)]"
  obtain r where r: "find_record (st_records (foldl history_step store_default ?ops)) sample_key = Some r"
    "rec_content r = Some sample_content"
    by (simp add: apply_op_find check_operation_def sample_valid merge_record_def store_default_def
        MAX_RECORDS_def)
  from notification_no_impersonation [OF r] r show ?thesis
    by (auto simp: store_default_def)
qed

text \<open>The single-key lookup is the full view restricted to that key: as long as the pending
  operations are distinct, valid and fit beside the records, \<open>record\<close>, which applies at most one pending
  operation, answers for every key exactly what the view over all of them shows.\<close>

theorem record_agrees_with_view:
  assumes "distinct (map op_key (st_pending s))"
    and "\<forall>op\<in>set (st_pending s). check_operation (st_local_identity s) op = Ok ()"
    and "length (st_records s) + length (st_pending s) \<le> MAX_RECORDS"
  shows "store_record s k = find_record (view s) k"
  using find_pending_view [OF assms(1) _ assms(3), of k] assms(2) by simp

theorem record_agrees_with_view_witness:
  "store_record (store_default\<lparr>st_local_identity := origin sample_key,
      st_pending := [\<lparr>op_sequence = 1, op_key = sample_key, op_content = Some sample_content\<rparr>]\<rparr>) sample_key =
   find_record (view (store_default\<lparr>st_local_identity := origin sample_key,
      st_pending := [\<lparr>op_sequence = 1, op_key = sample_key, op_content = Some sample_content\<rparr>]\<rparr>)) sample_key"
  by (rule record_agrees_with_view)
     (simp_all add: check_operation_def sample_valid store_default_def MAX_RECORDS_def)

end
