(* ===== verification/NotificationLink.thy ===== *)
theory NotificationLink
  imports NotificationHistory
begin

text \<open>
  The hub around the store and its links to other computers (\<open>NotificationHub\<close>,
  \<open>NotificationLink\<close>, \<open>SessionLink\<close> in \<open>notification_hub.rs\<close>): who may change the history, how a
  coordinator streams snapshots, how a replica submits its outbox, and the memory bound on staged
  snapshots.

  \<open>persist\<close> says whether writing a store to disk succeeds (serialisation, size limit and I/O);
  \<open>hub_changes\<close> counts the publications of the watch channel, and \<open>nl_seen\<close> the last one a link has
  seen (None when marked changed). One call of \<open>link_next\<close> is one pass of the loop in \<open>next\<close>; None
  means it waits.
\<close>

section \<open>The hub\<close>

record notification_config =
  nc_enabled :: bool
  nc_coordinator_fingerprint :: string
  nc_peers :: "string list"

record hub =
  hub_config :: notification_config
  hub_identity :: string
  hub_store :: store
  hub_changes :: nat
  hub_links :: nat
  hub_error_text :: "hub_error option"

definition is_coordinator :: "hub \<Rightarrow> bool" where
  "is_coordinator h = (hub_identity h = nc_coordinator_fingerprint (hub_config h))"

definition enrolled :: "hub \<Rightarrow> string \<Rightarrow> bool" where
  "enrolled h peer = (peer \<in> set (nc_peers (hub_config h)))"

definition publish :: "hub \<Rightarrow> hub" where
  "publish h = h\<lparr>hub_changes := Suc (hub_changes h)\<rparr>"

definition record_error :: "hub \<Rightarrow> hub_error \<Rightarrow> hub" where
  "record_error h e = (if hub_error_text h = None then h\<lparr>hub_error_text := Some e\<rparr> else h)"

definition clear_error :: "hub \<Rightarrow> hub" where
  "clear_error h = h\<lparr>hub_error_text := None\<rparr>"

text \<open>A change commits only when it is on disk; only then is it published.\<close>

definition commit :: "(store \<Rightarrow> bool) \<Rightarrow> hub \<Rightarrow> store \<Rightarrow> (hub_error, unit) result \<times> hub" where
  "commit persist h s =
     (if persist s then (Ok (), publish (h\<lparr>hub_store := s\<rparr>)) else (Err PersistFailed, h))"

definition hub_local ::
  "(store \<Rightarrow> bool) \<Rightarrow> hub \<Rightarrow> notification_key \<Rightarrow> shared_notification option
     \<Rightarrow> (hub_error, unit) result \<times> hub" where
  "hub_local persist h key content =
     (case queue_local (hub_store h) key content (is_coordinator h) of
        (Inl e, _) \<Rightarrow> (Err e, h)
      | (Inr False, _) \<Rightarrow> (Ok (), h)
      | (Inr True, s) \<Rightarrow> commit persist h s)"

definition local_phone :: "hub \<Rightarrow> notification_key \<Rightarrow> bool" where
  "local_phone h key \<longleftrightarrow> origin key = hub_identity h \<and> take 6 (instance_of key) = ''phone/''"

definition local_from_bridge ::
  "(store \<Rightarrow> bool) \<Rightarrow> hub \<Rightarrow> notification_key \<Rightarrow> shared_notification option \<Rightarrow> hub" where
  "local_from_bridge persist h key content =
     (case hub_local persist h key content of (Inl e, h') \<Rightarrow> record_error h' e | (Inr _, h') \<Rightarrow> h')"

section \<open>A link to one peer\<close>

record link =
  nl_active :: bool \<comment> \<open>the peer confirmed the history owner\<close>
  nl_sent_through :: u64
  nl_peer :: string
  nl_seen :: "nat option"
  nl_outgoing :: "notification_sync list"
  nl_staged :: "(string \<times> notification_record list) option"
  nl_dirty :: bool

definition hub_link :: "hub \<Rightarrow> string \<Rightarrow> bool \<Rightarrow> (link \<times> hub) option" where
  "hub_link h peer supported =
     (if \<not> supported \<or> \<not> enrolled h peer
         \<or> (\<not> is_coordinator h \<and> peer \<noteq> nc_coordinator_fingerprint (hub_config h))
      then None
      else Some (\<lparr>nl_active = False, nl_sent_through = 0, nl_peer = peer, nl_seen = None,
                  nl_outgoing = [Settings (nc_coordinator_fingerprint (hub_config h))],
                  nl_staged = None, nl_dirty = False\<rparr>, clear_error h))"

definition snapshot_events :: "store \<Rightarrow> notification_sync list" where
  "snapshot_events s = SnapshotStart (st_epoch s) # map SyncRecord (st_records s) @ [SnapshotEnd]"

definition submit_events :: "u64 \<Rightarrow> store \<Rightarrow> notification_sync list" where
  "submit_events sent s = map Submit (filter (\<lambda>operation. op_sequence operation > sent) (st_pending s))"

definition refill :: "hub \<Rightarrow> link \<Rightarrow> link" where
  "refill h l =
     (let s = hub_store h; l1 = l\<lparr>nl_dirty := False\<rparr> in
      if is_coordinator h then l1\<lparr>nl_outgoing := nl_outgoing l1 @ snapshot_events s\<rparr>
      else l1\<lparr>nl_outgoing := nl_outgoing l1 @ submit_events (nl_sent_through l1) s,
              nl_sent_through := fold max (map op_sequence (st_pending s)) (nl_sent_through l1)\<rparr>)"

definition link_next :: "hub \<Rightarrow> link \<Rightarrow> notification_sync option \<times> link" where
  "link_next h l =
     (case nl_outgoing l of
        e # es \<Rightarrow> (Some e, l\<lparr>nl_outgoing := es\<rparr>)
      | [] \<Rightarrow>
          if \<not> nl_active l then (None, l)
          else if \<not> nl_dirty l \<and> nl_seen l = Some (hub_changes h) then (None, l)
          else (let l1 = refill h (l\<lparr>nl_seen := (if nl_dirty l then nl_seen l else Some (hub_changes h)),
                                     nl_dirty := True\<rparr>)
                in case nl_outgoing l1 of
                     e # es \<Rightarrow> (Some e, l1\<lparr>nl_outgoing := es\<rparr>)
                   | [] \<Rightarrow> (None, l1)))"

definition valid_epoch :: "string \<Rightarrow> bool" where
  "valid_epoch epoch \<longleftrightarrow> length epoch = 32 \<and> list_all is_ascii_hexdigit epoch"

definition receive_submit ::
  "(store \<Rightarrow> bool) \<Rightarrow> hub \<Rightarrow> link \<Rightarrow> notification_operation \<Rightarrow> (hub_error, unit) result \<times> hub \<times> link" where
  "receive_submit persist h l operation =
     (case apply_op (hub_store h) (nl_peer l) operation of
        (Inl e, _) \<Rightarrow> (Err e, h, l)
      | (Inr changed, next) \<Rightarrow>
          (case (if changed then commit persist h next else (Ok (), h)) of
             (Inl e, h') \<Rightarrow> (Err e, h', l)
           | (Inr _, h') \<Rightarrow>
               if \<not> length (nl_outgoing l) < MAX_RECORDS + MAX_PENDING + 4 then (Err OutputQueueFull, h', l)
               else (Ok (), h', l\<lparr>nl_outgoing := nl_outgoing l @ [Ack (op_sequence operation)]\<rparr>)))"

definition receive_ack ::
  "(store \<Rightarrow> bool) \<Rightarrow> hub \<Rightarrow> link \<Rightarrow> u64 \<Rightarrow> (hub_error, unit) result \<times> hub \<times> link" where
  "receive_ack persist h l sequence =
     (let s = hub_store h in
      case find (\<lambda>operation. op_sequence operation = sequence) (st_pending s) of
        None \<Rightarrow> (Ok (), h, l)
      | Some operation \<Rightarrow>
          (let next = s\<lparr>st_pending := filter (\<lambda>p. op_sequence p \<noteq> sequence) (st_pending s)\<rparr> in
           case apply_op next (hub_identity h) operation of
             (Inl e, _) \<Rightarrow> (Err e, h, l)
           | (Inr _, next') \<Rightarrow>
               (case commit persist h next' of
                  (Inl e, h') \<Rightarrow> (Err e, h', l)
                | (Inr _, h') \<Rightarrow> (Ok (), h', l))))"

definition receive_snapshot_start ::
  "hub \<Rightarrow> link \<Rightarrow> string \<Rightarrow> (hub_error, unit) result \<times> hub \<times> link" where
  "receive_snapshot_start h l epoch =
     (if \<not> valid_epoch epoch then (Err InvalidEpoch, h, l)
      else if \<not> (st_epoch (hub_store h) = [] \<or> st_epoch (hub_store h) = epoch) then (Err StoreReset, h, l)
      else if nl_staged l \<noteq> None then (Err NestedSnapshot, h, l)
      else (Ok (), h, l\<lparr>nl_staged := Some (epoch, [])\<rparr>))"

definition receive_record ::
  "hub \<Rightarrow> link \<Rightarrow> notification_record \<Rightarrow> (hub_error, unit) result \<times> hub \<times> link" where
  "receive_record h l r =
     (case validate_key (rec_key r) of
        Inl e \<Rightarrow> (Err e, h, l)
      | Inr _ \<Rightarrow>
          (case (case rec_content r of None \<Rightarrow> Ok () | Some c \<Rightarrow> validate_content c) of
             Inl e \<Rightarrow> (Err e, h, l)
           | Inr _ \<Rightarrow>
               (case nl_staged l of
                  None \<Rightarrow> (Err RecordOutsideSnapshot, h, l)
                | Some (epoch, staged) \<Rightarrow>
                    if \<not> (length staged < MAX_RECORDS \<and> \<not> list_ex (\<lambda>t. rec_key t = rec_key r) staged)
                    then (Err SnapshotCapacity, h, l)
                    else (Ok (), h, l\<lparr>nl_staged := Some (epoch, staged @ [r])\<rparr>))))"

definition receive_snapshot_end ::
  "(store \<Rightarrow> bool) \<Rightarrow> hub \<Rightarrow> link \<Rightarrow> (hub_error, unit) result \<times> hub \<times> link" where
  "receive_snapshot_end persist h l =
     (case nl_staged l of
        None \<Rightarrow> (Err EndWithoutStart, h, l)
      | Some (epoch, records) \<Rightarrow>
          (let l1 = l\<lparr>nl_staged := None\<rparr>; s = hub_store h in
           if st_epoch s = epoch \<and> st_records s = records then (Ok (), h, l1)
           else (case commit persist h (s\<lparr>st_epoch := epoch, st_records := records\<rparr>) of
                   (Inl e, h') \<Rightarrow> (Err e, h', l1)
                 | (Inr _, h') \<Rightarrow> (Ok (), h', l1))))"

definition link_receive ::
  "(store \<Rightarrow> bool) \<Rightarrow> hub \<Rightarrow> link \<Rightarrow> notification_sync \<Rightarrow> (hub_error, unit) result \<times> hub \<times> link" where
  "link_receive persist h l e =
     (case e of
        Settings coordinator \<Rightarrow>
          if coordinator \<noteq> nc_coordinator_fingerprint (hub_config h) then (Err OwnerDiffers, h, l)
          else if nl_active l then (Ok (), h, l)
          else (Ok (), h\<lparr>hub_links := Suc (hub_links h)\<rparr>, l\<lparr>nl_active := True\<rparr>)
      | _ \<Rightarrow>
          if \<not> nl_active l then (Err OwnerNotConfirmed, h, l)
          else (case e of
                  Submit operation \<Rightarrow>
                    if is_coordinator h then receive_submit persist h l operation
                    else (Err IncorrectAuthority, h, l)
                | Ack sequence \<Rightarrow>
                    if \<not> is_coordinator h then receive_ack persist h l sequence
                    else (Err IncorrectAuthority, h, l)
                | SnapshotStart epoch \<Rightarrow>
                    if \<not> is_coordinator h then receive_snapshot_start h l epoch
                    else (Err IncorrectAuthority, h, l)
                | SyncRecord r \<Rightarrow>
                    if \<not> is_coordinator h then receive_record h l r
                    else (Err IncorrectAuthority, h, l)
                | SnapshotEnd \<Rightarrow>
                    if \<not> is_coordinator h then receive_snapshot_end persist h l
                    else (Err IncorrectAuthority, h, l)
                | Settings _ \<Rightarrow> (Err IncorrectAuthority, h, l)))"

section \<open>The session's side of a link\<close>

text \<open>
  Snapshot frames are collected before they reach the worker. \<open>se_buffered\<close> is the shared byte
  counter, \<open>is_budget\<close> what one snapshot reserved of it; \<open>se_queue\<close> is the bounded queue (32 places)
  to the worker, each snapshot in it keeping its reservation until the worker is done with it.
\<close>

record incoming_snapshot =
  isn_epoch :: string
  isn_records :: "notification_record list"
  isn_budget :: nat

datatype incoming_notification = IncomingEvent notification_sync | IncomingSnapshot incoming_snapshot

record session_link =
  se_queue :: "incoming_notification list"
  se_working :: "incoming_snapshot option"
  se_staged :: "incoming_snapshot option"
  se_buffered :: nat
  se_worker_alive :: bool

definition WORKER_QUEUE :: nat where
  "WORKER_QUEUE = 32"

definition reserve :: "nat \<Rightarrow> nat \<Rightarrow> nat option" where
  "reserve used amount =
     (if used + amount < 2 ^ 64 \<and> used + amount \<le> MAX_STORE_BYTES then Some (used + amount) else None)"

definition staged_bytes :: "notification_record \<Rightarrow> nat" where
  "staged_bytes r =
     length (origin (rec_key r)) + length (instance_of (rec_key r)) + 256 +
     (case rec_content r of
        None \<Rightarrow> 0
      | Some c \<Rightarrow> length (sn_app_name c) + length (sn_title c) + length (sn_body c) + length (sn_icon c) +
                  (case sn_icon_png c of None \<Rightarrow> 0 | Some png \<Rightarrow> length png))"

definition try_send ::
  "session_link \<Rightarrow> incoming_notification \<Rightarrow> (hub_error, unit) result \<times> session_link" where
  "try_send l request =
     (if \<not> se_worker_alive l then (Err WorkerStopped, l)
      else if length (se_queue l) \<ge> WORKER_QUEUE then (Err WorkerQueueFull, l)
      else (Ok (), l\<lparr>se_queue := se_queue l @ [request]\<rparr>))"

text \<open>A snapshot that is dropped (a failed send) gives its reservation back.\<close>

definition release :: "incoming_snapshot \<Rightarrow> session_link \<Rightarrow> session_link" where
  "release snapshot l = l\<lparr>se_buffered := se_buffered l - isn_budget snapshot\<rparr>"

definition enqueue ::
  "session_link \<Rightarrow> notification_sync \<Rightarrow> (hub_error, unit) result \<times> session_link" where
  "enqueue l e =
     (case e of
        SnapshotStart epoch \<Rightarrow>
          if se_staged l \<noteq> None then (Err NestedSnapshot, l)
          else if length epoch \<noteq> 32 then (Err InvalidEpoch, l)
          else (Ok (), l\<lparr>se_staged := Some \<lparr>isn_epoch = epoch, isn_records = [], isn_budget = 0\<rparr>\<rparr>)
      | SyncRecord r \<Rightarrow>
          (case se_staged l of
             None \<Rightarrow> (Err RecordOutsideSnapshot, l)
           | Some snapshot \<Rightarrow>
               if \<not> length (isn_records snapshot) < MAX_RECORDS then (Err SnapshotTooLarge, l)
               else (case reserve (se_buffered l) (staged_bytes r) of
                       None \<Rightarrow> (Err BufferFull, l)
                     | Some used \<Rightarrow>
                         (Ok (), l\<lparr>se_buffered := used,
                                   se_staged := Some (snapshot\<lparr>isn_records := isn_records snapshot @ [r],
                                     isn_budget := isn_budget snapshot + staged_bytes r\<rparr>)\<rparr>)))
      | SnapshotEnd \<Rightarrow>
          (case se_staged l of
             None \<Rightarrow> (Err EndWithoutStart, l)
           | Some snapshot \<Rightarrow>
               (case try_send (l\<lparr>se_staged := None\<rparr>) (IncomingSnapshot snapshot) of
                  (Inl err, l') \<Rightarrow> (Err err, release snapshot l')
                | (Inr _, l') \<Rightarrow> (Ok (), l')))
      | _ \<Rightarrow>
          if se_staged l \<noteq> None then (Err ControlInterrupted, l)
          else try_send l (IncomingEvent e))"

text \<open>The worker takes one request, and gives a snapshot's reservation back when it is done with it.\<close>

definition worker_take :: "session_link \<Rightarrow> session_link" where
  "worker_take l =
     (case se_working l of
        Some _ \<Rightarrow> l
      | None \<Rightarrow>
          (case se_queue l of
             [] \<Rightarrow> l
           | IncomingEvent _ # q \<Rightarrow> l\<lparr>se_queue := q\<rparr>
           | IncomingSnapshot snapshot # q \<Rightarrow> l\<lparr>se_queue := q, se_working := Some snapshot\<rparr>))"

definition worker_done :: "session_link \<Rightarrow> session_link" where
  "worker_done l =
     (case se_working l of
        None \<Rightarrow> l
      | Some snapshot \<Rightarrow> release snapshot (l\<lparr>se_working := None\<rparr>))"

text \<open>The events the worker hands to the link for one request.\<close>

fun worker_events :: "incoming_notification \<Rightarrow> notification_sync list" where
  "worker_events (IncomingEvent e) = [e]"
| "worker_events (IncomingSnapshot snapshot) =
     SnapshotStart (isn_epoch snapshot) # map SyncRecord (isn_records snapshot) @ [SnapshotEnd]"

section \<open>Opening the store\<close>

text \<open>
  The store part of \<open>start\<close>. \<open>file\<close> is the store file, absent or with its size and what
  \<open>serde_json\<close> reads of it; \<open>fresh_epoch\<close> is a random epoch, None when the system has no randomness.
\<close>

record store_file =
  sf_len :: nat
  sf_store :: "store option"

fun apply_all :: "store \<Rightarrow> string \<Rightarrow> notification_operation list \<Rightarrow> (hub_error, store) result" where
  "apply_all s sender [] = Ok s"
| "apply_all s sender (operation # ops) =
     (case apply_op s sender operation of
        (Inl e, _) \<Rightarrow> Err e
      | (Inr _, s') \<Rightarrow> apply_all s' sender ops)"

definition change_owner ::
  "notification_config \<Rightarrow> string \<Rightarrow> string option \<Rightarrow> store \<Rightarrow> (hub_error, store) result" where
  "change_owner config identity fresh_epoch s =
     (if coordinator_locked s then Err OwnerChanged
      else (let s1 = s\<lparr>st_coordinator := nc_coordinator_fingerprint config\<rparr> in
            if st_coordinator s1 = identity
            then (case apply_all (s1\<lparr>st_pending := []\<rparr>) identity (st_pending s1) of
                    Inl e \<Rightarrow> Err e
                  | Inr s2 \<Rightarrow> (case fresh_epoch of
                                 None \<Rightarrow> Err EpochGeneration
                               | Some epoch \<Rightarrow> Ok (s2\<lparr>st_epoch := epoch\<rparr>)))
            else Ok s1))"

definition validate_config :: "notification_config \<Rightarrow> string \<Rightarrow> (hub_error, unit) result" where
  "validate_config config identity =
     (if \<not> list_all (\<lambda>f. is_ok (validate_key (NotificationKey f ''config'')))
              (nc_coordinator_fingerprint config # nc_peers config)
      then Err InvalidOrigin
      else if \<not> (nc_coordinator_fingerprint config = identity \<or>
                 nc_coordinator_fingerprint config \<in> set (nc_peers config))
      then Err NotEnrolledCoordinator
      else Ok ())"

definition open_store ::
  "notification_config \<Rightarrow> string \<Rightarrow> string option \<Rightarrow> store_file option \<Rightarrow> (hub_error, store) result" where
  "open_store config identity fresh_epoch file =
     (case file of
        Some f \<Rightarrow>
          if \<not> sf_len f \<le> MAX_STORE_BYTES then Err StoreTooLarge
          else (case sf_store f of
                  None \<Rightarrow> Err StoreCorrupt
                | Some s \<Rightarrow>
                    if st_local_identity s \<noteq> identity then Err IdentityChanged
                    else (case (if st_coordinator s \<noteq> nc_coordinator_fingerprint config
                                then change_owner config identity fresh_epoch s else Ok s) of
                            Inl e \<Rightarrow> Err e
                          | Inr s' \<Rightarrow>
                              if \<not> (length (st_records s') \<le> MAX_RECORDS \<and> length (st_pending s') \<le> MAX_PENDING)
                              then Err LimitsExceeded else Ok s'))
      | None \<Rightarrow>
          (if nc_coordinator_fingerprint config = identity
           then (case fresh_epoch of
                   None \<Rightarrow> Err EpochGeneration
                 | Some epoch \<Rightarrow> Ok (store_default\<lparr>st_epoch := epoch,
                     st_coordinator := nc_coordinator_fingerprint config, st_local_identity := identity\<rparr>))
           else Ok (store_default\<lparr>st_coordinator := nc_coordinator_fingerprint config,
                     st_local_identity := identity\<rparr>)))"

definition coordinator_locked_on_disk :: "store_file option \<Rightarrow> (hub_error, bool) result" where
  "coordinator_locked_on_disk file =
     (case file of
        None \<Rightarrow> Ok False
      | Some f \<Rightarrow>
          if \<not> sf_len f \<le> MAX_STORE_BYTES then Err StoreTooLarge
          else (case sf_store f of None \<Rightarrow> Err StoreCorrupt | Some s \<Rightarrow> Ok (coordinator_locked s)))"

end
