(* ===== verification/NotificationSync.thy ===== *)
theory NotificationSync
  imports NotificationLink
begin

text \<open>
  What the notification links guarantee: only the right peer and event change a history, a replica
  ends up with the coordinator's records, an acknowledgement changes nothing a user sees, choosing
  the owner keeps the queued notifications, and the memory of staged snapshots is bounded.
\<close>

section \<open>Receiving\<close>

lemma commit_Ok: "persist s \<Longrightarrow> commit persist h s = (Ok (), publish (h\<lparr>hub_store := s\<rparr>))"
  by (simp add: commit_def)

lemma commit_store: "hub_store (snd (commit persist h s)) = (if persist s then s else hub_store h)"
  by (simp add: commit_def publish_def)

lemma commit_cases:
  "commit persist h s = (r, h') \<Longrightarrow>
     (is_ok r \<and> persist s \<and> hub_store h' = s) \<or> (\<not> is_ok r \<and> \<not> persist s \<and> h' = h)"
  by (auto simp: commit_def publish_def split: if_splits)

lemma is_coordinator_simps [simp]:
  "is_coordinator (h\<lparr>hub_store := s\<rparr>) = is_coordinator h"
  "is_coordinator (publish h) = is_coordinator h"
  by (simp_all add: is_coordinator_def publish_def)

lemma publish_simps [simp]:
  "hub_store (publish h) = hub_store h" "hub_identity (publish h) = hub_identity h"
  "hub_config (publish h) = hub_config h"
  by (simp_all add: publish_def)

fun receive_all ::
  "(store \<Rightarrow> bool) \<Rightarrow> hub \<Rightarrow> link \<Rightarrow> notification_sync list
     \<Rightarrow> (hub_error, unit) result list \<times> hub \<times> link" where
  "receive_all persist h l [] = ([], h, l)"
| "receive_all persist h l (e # es) =
     (let (r, h', l') = link_receive persist h l e;
          (rs, h'', l'') = receive_all persist h' l' es
      in (r # rs, h'', l''))"

lemma receive_all_append:
  "receive_all persist h l (es @ fs) =
     (let (rs, h', l') = receive_all persist h l es; (ts, h'', l'') = receive_all persist h' l' fs
      in (rs @ ts, h'', l''))"
  by (induction es arbitrary: h l) (auto simp: Let_def split: prod.splits)

lemma receive_record_Ok:
  assumes "\<not> is_coordinator h" "nl_active l" "nl_staged l = Some (epoch, staged)"
    and "records_wf (staged @ [r])"
  shows "link_receive persist h l (SyncRecord r) = (Ok (), h, l\<lparr>nl_staged := Some (epoch, staged @ [r])\<rparr>)"
proof -
  have wf: "is_ok (validate_key (rec_key r))" "\<forall>c. rec_content r = Some c \<longrightarrow> is_ok (validate_content c)"
    "length staged < MAX_RECORDS" "rec_key r \<notin> rec_key ` set staged"
    using assms(4) by (simp_all add: records_wf_def)
  have "\<not> list_ex (\<lambda>t. rec_key t = rec_key r) staged"
    using wf(4) by (auto simp: list_ex_iff image_iff)
  moreover obtain u where "validate_key (rec_key r) = Ok u"
    using wf(1) by (auto simp: is_ok_iff)
  moreover obtain v where "(case rec_content r of None \<Rightarrow> Ok () | Some c \<Rightarrow> validate_content c) = Ok v"
    using wf(2) by (cases "rec_content r") (auto simp: is_ok_iff)
  ultimately show ?thesis
    using assms(1-3) wf(3) by (simp add: link_receive_def receive_record_def)
qed

lemma records_wf_prefix: "records_wf (a @ b) \<Longrightarrow> records_wf a"
  by (auto simp: records_wf_def)

lemma receive_records:
  assumes "\<not> is_coordinator h" "nl_active l" "nl_staged l = Some (epoch, staged)"
    and "records_wf (staged @ rs)"
  shows "receive_all persist h l (map SyncRecord rs) =
    (replicate (length rs) (Ok ()), h, l\<lparr>nl_staged := Some (epoch, staged @ rs)\<rparr>)"
  using assms
proof (induction rs arbitrary: l staged)
  case Nil
  then show ?case by simp
next
  case (Cons r rs)
  let ?l = "l\<lparr>nl_staged := Some (epoch, staged @ [r])\<rparr>"
  have wf: "records_wf (staged @ [r])"
    using records_wf_prefix [of "staged @ [r]" rs] Cons.prems(4) by simp
  have "receive_all persist h ?l (map SyncRecord rs) =
      (replicate (length rs) (Ok ()), h, ?l\<lparr>nl_staged := Some (epoch, (staged @ [r]) @ rs)\<rparr>)"
    using Cons.prems by (intro Cons.IH) simp_all
  then show ?case
    using receive_record_Ok [OF Cons.prems(1-3) wf, of persist] by simp
qed

section \<open>Lookups after an acknowledgement\<close>

definition outbox_wf :: "store \<Rightarrow> bool" where
  "outbox_wf s \<longleftrightarrow>
     distinct (map op_key (st_pending s)) \<and> distinct (map op_sequence (st_pending s)) \<and>
     (\<forall>op\<in>set (st_pending s). is_ok (check_operation (st_local_identity s) op)) \<and>
     length (st_records s) + length (st_pending s) \<le> MAX_RECORDS"

lemma outbox_view: "outbox_wf s \<Longrightarrow> find_record (view s) k = store_record s k"
  by (simp add: outbox_wf_def find_pending_view)

lemma find_Some_in: "find P xs = Some x \<Longrightarrow> x \<in> set xs \<and> P x"
  by (auto simp: find_Some_iff)

lemma filter_other_sequence:
  assumes "distinct (map op_sequence ops)" "distinct (map op_key ops)" "op \<in> set ops"
  shows "filter (\<lambda>p. op_sequence p \<noteq> op_sequence op) ops = filter (\<lambda>p. op_key p \<noteq> op_key op) ops"
proof (rule filter_cong [OF refl])
  fix p
  assume "p \<in> set ops"
  with assms show "(op_sequence p \<noteq> op_sequence op) = (op_key p \<noteq> op_key op)"
    by (auto simp: distinct_map inj_on_def)
qed

lemma find_filter_key:
  "find (\<lambda>op. op_key op = k) (filter (\<lambda>op. op_key op \<noteq> l) ops) =
     (if k = l then None else find (\<lambda>op. op_key op = k) ops)"
  by (induction ops) auto

lemma find_distinct_key:
  "distinct (map op_key ops) \<Longrightarrow> op \<in> set ops \<Longrightarrow> find (\<lambda>p. op_key p = op_key op) ops = Some op"
  by (induction ops) auto

lemma acked_store_record:
  assumes wf: "outbox_wf s" and op: "op \<in> set (st_pending s)"
    and next': "next' = s\<lparr>st_pending := filter (\<lambda>p. op_sequence p \<noteq> op_sequence op) (st_pending s)\<rparr>"
  shows "store_record (snd (apply_op next' (st_local_identity s) op)) k = store_record s k"
proof -
  have d: "distinct (map op_key (st_pending s))" "distinct (map op_sequence (st_pending s))"
    and ok: "is_ok (check_operation (st_local_identity s) op)"
    using wf op by (auto simp: outbox_wf_def)
  have room: "length (st_records s) < MAX_RECORDS"
    using wf op by (cases "st_pending s") (auto simp: outbox_wf_def)
  have pend: "st_pending next' = filter (\<lambda>p. op_key p \<noteq> op_key op) (st_pending s)"
    by (simp add: next' filter_other_sequence [OF d(2,1) op])
  have recs: "st_records next' = st_records s" "st_local_identity next' = st_local_identity s"
    by (simp_all add: next')
  show ?thesis
  proof (cases "k = op_key op")
    case True
    then show ?thesis
      using ok room find_distinct_key [OF d(1) op]
      by (simp add: store_record_find pend find_filter_key apply_op_find recs)
  next
    case False
    then show ?thesis
      by (simp add: store_record_find pend find_filter_key apply_op_find recs split: option.split)
  qed
qed

lemma acked_outbox_wf:
  assumes wf: "outbox_wf s" and op: "op \<in> set (st_pending s)"
    and next': "next' = s\<lparr>st_pending := filter (\<lambda>p. op_sequence p \<noteq> op_sequence op) (st_pending s)\<rparr>"
  shows "outbox_wf (snd (apply_op next' (st_local_identity s) op))"
proof -
  have "length (filter (\<lambda>p. op_sequence p \<noteq> op_sequence op) (st_pending s)) < length (st_pending s)"
    using op by (intro length_filter_less [of op]) auto
  moreover have "length (st_records (snd (apply_op next' (st_local_identity s) op))) \<le> Suc (length (st_records s))"
    by (simp add: apply_op_length next')
  ultimately show ?thesis
    using wf unfolding outbox_wf_def
    by (auto simp: next' distinct_map_filter intro: order_trans)
qed

section \<open>Memory of staged snapshots\<close>

definition snapshot_wf :: "incoming_snapshot \<Rightarrow> bool" where
  "snapshot_wf sn \<longleftrightarrow>
     isn_budget sn = sum_list (map staged_bytes (isn_records sn)) \<and> length (isn_records sn) \<le> MAX_RECORDS"

fun queued_snapshots :: "incoming_notification list \<Rightarrow> incoming_snapshot list" where
  "queued_snapshots [] = []"
| "queued_snapshots (IncomingEvent _ # q) = queued_snapshots q"
| "queued_snapshots (IncomingSnapshot sn # q) = sn # queued_snapshots q"

lemma queued_snapshots_append: "queued_snapshots (p @ q) = queued_snapshots p @ queued_snapshots q"
  by (induction p rule: queued_snapshots.induct) simp_all

definition held_snapshots :: "session_link \<Rightarrow> incoming_snapshot list" where
  "held_snapshots l =
     queued_snapshots (se_queue l) @ (case se_working l of None \<Rightarrow> [] | Some sn \<Rightarrow> [sn]) @
     (case se_staged l of None \<Rightarrow> [] | Some sn \<Rightarrow> [sn])"

text \<open>The shared counter is exactly what the held snapshots reserved.\<close>

definition session_wf :: "session_link \<Rightarrow> bool" where
  "session_wf l \<longleftrightarrow>
     se_buffered l = sum_list (map isn_budget (held_snapshots l)) \<and> se_buffered l \<le> MAX_STORE_BYTES \<and>
     (\<forall>sn\<in>set (held_snapshots l). snapshot_wf sn) \<and> length (se_queue l) \<le> WORKER_QUEUE"

datatype session_op = EnqueueOp notification_sync | WorkerTakeOp | WorkerDoneOp | WorkerDiesOp

fun session_step :: "session_link \<Rightarrow> session_op \<Rightarrow> session_link" where
  "session_step l (EnqueueOp e) = snd (enqueue l e)"
| "session_step l WorkerTakeOp = worker_take l"
| "session_step l WorkerDoneOp = worker_done l"
| "session_step l WorkerDiesOp = l\<lparr>se_worker_alive := False\<rparr>"

definition session_spawn :: session_link where
  "session_spawn = \<lparr>se_queue = [], se_working = None, se_staged = None, se_buffered = 0, se_worker_alive = True\<rparr>"

lemma try_send_event_wf:
  "session_wf l \<Longrightarrow> session_wf (snd (try_send l (IncomingEvent e)))"
  by (auto simp: try_send_def session_wf_def held_snapshots_def queued_snapshots_append)

lemma enqueue_start_wf: "session_wf l \<Longrightarrow> session_wf (snd (enqueue l (SnapshotStart epoch)))"
  by (auto simp: enqueue_def session_wf_def held_snapshots_def snapshot_wf_def)

lemma enqueue_record_wf:
  assumes "session_wf l"
  shows "session_wf (snd (enqueue l (SyncRecord r)))"
proof (cases "se_staged l")
  case None
  then show ?thesis using assms by (simp add: enqueue_def)
next
  case (Some sn)
  show ?thesis
  proof (cases "reserve (se_buffered l) (staged_bytes r)")
    case None
    then show ?thesis using assms Some by (simp add: enqueue_def)
  next
    case (Some used)
    then have "used = se_buffered l + staged_bytes r" "used \<le> MAX_STORE_BYTES"
      by (auto simp: reserve_def split: if_splits)
    then show ?thesis
      using assms Some \<open>se_staged l = Some sn\<close>
      by (auto simp: enqueue_def session_wf_def held_snapshots_def snapshot_wf_def)
  qed
qed

lemma enqueue_end_wf:
  assumes "session_wf l"
  shows "session_wf (snd (enqueue l SnapshotEnd))"
  using assms
  by (cases "se_staged l")
     (auto simp: enqueue_def try_send_def release_def session_wf_def held_snapshots_def
        queued_snapshots_append)

lemma session_step_wf: "session_wf l \<Longrightarrow> session_wf (session_step l op)"
proof (cases op)
  case (EnqueueOp e)
  then show "session_wf l \<Longrightarrow> session_wf (session_step l op)"
    using enqueue_start_wf enqueue_record_wf enqueue_end_wf try_send_event_wf
    by (cases e) (auto simp: enqueue_def split: if_splits)
next
  case WorkerTakeOp
  then show "session_wf l \<Longrightarrow> session_wf (session_step l op)"
    by (auto simp: worker_take_def session_wf_def held_snapshots_def
        split: option.split list.split incoming_notification.split)
next
  case WorkerDoneOp
  then show "session_wf l \<Longrightarrow> session_wf (session_step l op)"
    by (auto simp: worker_done_def release_def session_wf_def held_snapshots_def split: option.split)
next
  case WorkerDiesOp
  then show "session_wf l \<Longrightarrow> session_wf (session_step l op)"
    by (simp add: session_wf_def held_snapshots_def)
qed

interpretation session: guarded_machine session_step session_wf
  by unfold_locales (rule session_step_wf)

section \<open>Choosing the owner\<close>

lemma apply_op_Ok:
  assumes "is_ok (check_operation me op)" "length (st_records s) < MAX_RECORDS"
  shows "is_ok (fst (apply_op s me op))"
  using assms by (auto simp: apply_op_def split: sum.split option.split)

lemma apply_all_Ok:
  assumes "\<forall>op\<in>set ops. is_ok (check_operation me op)"
    and "length (st_records s) + length ops \<le> MAX_RECORDS"
  shows "apply_all s me ops = Ok (foldl (overlay_op me) s ops)"
  using assms
proof (induction ops arbitrary: s)
  case (Cons op ops)
  have "is_ok (fst (apply_op s me op))"
    using Cons.prems by (intro apply_op_Ok) auto
  then obtain b s' where s': "apply_op s me op = (Ok b, s')"
    by (cases "apply_op s me op") (auto simp: is_ok_iff)
  have "length (st_records (snd (apply_op s me op))) \<le> Suc (length (st_records s))"
    by (simp add: apply_op_length)
  then show ?case
    using Cons s' by (simp add: overlay_op_def)
qed simp

lemma apply_op_records_cong:
  "st_records s = st_records t \<Longrightarrow>
     st_records (snd (apply_op s me op)) = st_records (snd (apply_op t me op))"
  by (auto simp: apply_op_def split: sum.split option.split)

lemma overlay_records_cong:
  "st_records s = st_records t \<Longrightarrow>
     st_records (foldl (overlay_op me) s ops) = st_records (foldl (overlay_op me) t ops)"
proof (induction ops arbitrary: s t)
  case (Cons op ops)
  have "st_records (overlay_op me s op) = st_records (overlay_op me t op)"
    unfolding overlay_op_def history_step.simps by (rule apply_op_records_cong [OF Cons.prems])
  then show ?case
    unfolding foldl_Cons by (rule Cons.IH)
qed simp

lemma overlay_pending [simp]:
  "st_pending (foldl (overlay_op me) s ops) = st_pending s"
  by (induction ops arbitrary: s) (simp_all add: overlay_op_def)

text \<open>
  A comment in \<open>receive\<close> says the coordinator sends its snapshot before the acknowledgement. It does
  not: the acknowledgement is queued at once, a snapshot only when the queue has run empty.
\<close>

lemma ack_precedes_snapshot:
  assumes "is_coordinator h" "nl_active l" "nl_outgoing l = []"
    and "link_receive persist h l (Submit op) = (Ok (), h', l')"
  shows "fst (link_next h' l') = Some (Ack (op_sequence op))"
  using assms by (auto simp: link_receive_def receive_submit_def link_next_def split: prod.splits sum.splits if_splits)

section \<open>Properties\<close>

text \<open>C19: A replica converges: the events a coordinator queues for a link, received by a replica that has
  the same owner confirmed and no other epoch, are all accepted and leave the replica with exactly the
  coordinator's records and epoch, and with its own outbox untouched.\<close>

theorem replica_converges:
  assumes "is_coordinator a" "records_wf (st_records (hub_store a))" "valid_epoch (st_epoch (hub_store a))"
    and "nl_outgoing la = []"
    and "\<not> is_coordinator b" "nl_active lb" "nl_staged lb = None"
    and "st_epoch (hub_store b) = [] \<or> st_epoch (hub_store b) = st_epoch (hub_store a)"
    and "persist ((hub_store b)\<lparr>st_epoch := st_epoch (hub_store a), st_records := st_records (hub_store a)\<rparr>)"
  shows "\<exists>b'. receive_all persist b lb (nl_outgoing (refill a la)) =
      (replicate (length (st_records (hub_store a)) + 2) (Ok ()), b', lb) \<and>
    st_records (hub_store b') = st_records (hub_store a) \<and>
    st_epoch (hub_store b') = st_epoch (hub_store a) \<and>
    st_pending (hub_store b') = st_pending (hub_store b)"
proof -
  let ?e = "st_epoch (hub_store a)" and ?rs = "st_records (hub_store a)"
  let ?l = "lb\<lparr>nl_staged := Some (?e, [])\<rparr>"
  have start: "link_receive persist b lb (SnapshotStart ?e) = (Ok (), b, ?l)"
    using assms(3,5-8) by (auto simp: link_receive_def receive_snapshot_start_def)
  have recs: "receive_all persist b ?l (map SyncRecord ?rs) =
      (replicate (length ?rs) (Ok ()), b, lb\<lparr>nl_staged := Some (?e, ?rs)\<rparr>)"
    using receive_records [of b ?l ?e "[]" ?rs persist] assms(2,5,6) by simp
  have unstaged: "lb\<lparr>nl_staged := None\<rparr> = lb"
    using assms(7) by simp
  have "\<exists>b'. link_receive persist b (lb\<lparr>nl_staged := Some (?e, ?rs)\<rparr>) SnapshotEnd = (Ok (), b', lb) \<and>
    st_records (hub_store b') = ?rs \<and> st_epoch (hub_store b') = ?e \<and>
    st_pending (hub_store b') = st_pending (hub_store b)"
    using assms(5,6) commit_Ok [where persist = persist and h = b, OF assms(9)] unstaged
    by (simp add: link_receive_def receive_snapshot_end_def Let_def)
  then obtain b' where fin: "link_receive persist b (lb\<lparr>nl_staged := Some (?e, ?rs)\<rparr>) SnapshotEnd = (Ok (), b', lb)"
    "st_records (hub_store b') = ?rs" "st_epoch (hub_store b') = ?e"
    "st_pending (hub_store b') = st_pending (hub_store b)"
    by (elim exE conjE) (rule that)
  have "nl_outgoing (refill a la) = snapshot_events (hub_store a)"
    using assms(1,4) by (simp add: refill_def Let_def)
  then show ?thesis
    using start recs fin
    by (simp add: snapshot_events_def receive_all_append replicate_append_same)
qed

text \<open>C28: Only the right authority changes a history: an event received on a link changes the store only
  after the peer confirmed the owner, and then only a submission accepted by the coordinator, checked
  against the peer's own identity, or an acknowledgement or a snapshot received by a replica.\<close>

theorem link_authority:
  assumes "link_receive persist h l e = (r, h', l')" and "hub_store h' \<noteq> hub_store h"
  shows "nl_active l \<and> persist (hub_store h') \<and>
    (if is_coordinator h
     then \<exists>op. e = Submit op \<and> hub_store h' = history_step (hub_store h) (nl_peer l, op) \<and>
       is_ok (check_operation (nl_peer l) op)
     else (\<exists>q. e = Ack q) \<or> e = SnapshotEnd)"
proof -
  have committed: "persist (hub_store h')"
    if "commit persist h s = (x, h')" for s x
    using commit_cases [OF that] assms(2) by auto
  have submit: "persist (hub_store h') \<and> hub_store h' = history_step (hub_store h) (nl_peer l, op) \<and>
      is_ok (check_operation (nl_peer l) op)"
    if "receive_submit persist h l op = (r, h', l')" for op
  proof -
    obtain x s where ap: "apply_op (hub_store h) (nl_peer l) op = (x, s)"
      by (cases "apply_op (hub_store h) (nl_peer l) op")
    then have "x = Ok True \<and> (\<exists>y. commit persist h s = (y, h'))"
      using that assms(2)
      by (auto simp: receive_submit_def split: sum.splits if_splits prod.splits bool.splits)
    then have "persist s \<and> hub_store h' = s" "x = Ok True"
      using commit_cases assms(2) by fastforce+
    moreover have "is_ok (check_operation (nl_peer l) op)"
      using ap \<open>x = Ok True\<close> by (auto simp: apply_op_def split: sum.splits)
    ultimately show ?thesis
      using ap by simp
  qed
  have ack: "persist (hub_store h')" if "receive_ack persist h l q = (r, h', l')" for q
    using that assms(2) committed
    by (auto simp: receive_ack_def Let_def split: option.splits prod.splits sum.splits)
  have fin: "persist (hub_store h')" if "receive_snapshot_end persist h l = (r, h', l')"
    using that assms(2) committed
    by (auto simp: receive_snapshot_end_def Let_def split: option.splits prod.splits sum.splits if_splits)
  show ?thesis
  proof (cases e)
    case (Submit op)
    then have s: "nl_active l" "is_coordinator h" "receive_submit persist h l op = (r, h', l')"
      using assms by (auto simp: link_receive_def split: if_splits)
    from submit [OF s(3)] s(1,2) Submit show ?thesis
      by (auto simp del: history_step.simps)
  next
    case (Ack q)
    then show ?thesis
      using assms ack by (auto simp: link_receive_def split: if_splits)
  next
    case SnapshotEnd
    then show ?thesis
      using assms fin by (auto simp: link_receive_def split: if_splits)
  qed (use assms in \<open>auto simp: link_receive_def receive_record_def receive_snapshot_start_def
        split: if_splits sum.splits option.splits\<close>)
qed

text \<open>A two-computer setup for the witnesses.\<close>

definition sample_peer :: string where
  "sample_peer = ''fedcba98:76543210:fedcba98:76543210''"

definition sample_hub :: "string \<Rightarrow> store \<Rightarrow> hub" where
  "sample_hub identity s =
     \<lparr>hub_config = \<lparr>nc_enabled = True, nc_coordinator_fingerprint = origin sample_key,
                    nc_peers = [origin sample_key, sample_peer]\<rparr>,
      hub_identity = identity, hub_store = s, hub_changes = 0, hub_links = 0, hub_error_text = None\<rparr>"

definition sample_store :: store where
  "sample_store = store_default\<lparr>st_epoch := ''0123456789abcdef0123456789abcdef'',
     st_records := [\<lparr>rec_key = sample_key, rec_source_sequence = 3, rec_content = Some sample_content\<rparr>]\<rparr>"

definition sample_link :: "string \<Rightarrow> link" where
  "sample_link peer = \<lparr>nl_active = True, nl_sent_through = 0, nl_peer = peer, nl_seen = None,
     nl_outgoing = [], nl_staged = None, nl_dirty = False\<rparr>"

lemma sample_simps [simp]:
  "hub_store (sample_hub identity s) = s" "hub_identity (sample_hub identity s) = identity"
  "nl_active (sample_link peer)" "nl_staged (sample_link peer) = None"
  "nl_outgoing (sample_link peer) = []" "nl_peer (sample_link peer) = peer"
  by (simp_all add: sample_hub_def sample_link_def)

lemma sample_coordinator:
  "is_coordinator (sample_hub (origin sample_key) s)" "\<not> is_coordinator (sample_hub sample_peer s)"
  by (simp_all add: is_coordinator_def sample_hub_def sample_key_def sample_peer_def)

theorem replica_converges_witness:
  "\<exists>b'. receive_all (\<lambda>_. True) (sample_hub sample_peer store_default) (sample_link (origin sample_key))
      (nl_outgoing (refill (sample_hub (origin sample_key) sample_store) (sample_link sample_peer))) =
      ([Ok (), Ok (), Ok ()], b', sample_link (origin sample_key)) \<and>
    st_records (hub_store b') = st_records sample_store"
proof -
  have "valid_epoch ''0123456789abcdef0123456789abcdef''"
    by code_simp
  moreover have "records_wf (st_records sample_store)"
    by (simp add: records_wf_def sample_store_def sample_valid MAX_RECORDS_def)
  ultimately show ?thesis
    using replica_converges [of "sample_hub (origin sample_key) sample_store" "sample_link sample_peer"
        "sample_hub sample_peer store_default" "sample_link (origin sample_key)" "\<lambda>_. True"]
    by (auto simp: sample_coordinator sample_store_def store_default_def numeral_3_eq_3)
qed

theorem link_authority_witness:
  "\<exists>r h' l'. link_receive (\<lambda>_. True) (sample_hub (origin sample_key) store_default) (sample_link sample_peer)
      (Submit \<lparr>op_sequence = 4, op_key = sample_key, op_content = None\<rparr>) = (r, h', l') \<and>
    hub_store h' = history_step store_default (sample_peer, \<lparr>op_sequence = 4, op_key = sample_key, op_content = None\<rparr>)"
proof -
  let ?h = "sample_hub (origin sample_key) store_default" and ?l = "sample_link sample_peer"
  let ?op = "\<lparr>op_sequence = 4, op_key = sample_key, op_content = None\<rparr> :: notification_operation"
  obtain r h' l' where r: "link_receive (\<lambda>_. True) ?h ?l (Submit ?op) = (r, h', l')"
    by (cases "link_receive (\<lambda>_. True) ?h ?l (Submit ?op)")
  have "apply_op store_default sample_peer ?op = (Ok True, store_default\<lparr>st_records :=
      [\<lparr>rec_key = sample_key, rec_source_sequence = 4, rec_content = None\<rparr>]\<rparr>)"
    by (simp add: apply_op_def check_operation_def sample_valid store_default_def MAX_RECORDS_def)
  then have "hub_store h' \<noteq> hub_store ?h"
    using r sample_coordinator(1) [of store_default]
    by (auto simp: link_receive_def receive_submit_def commit_def store_default_def MAX_RECORDS_def
        MAX_PENDING_def)
  from link_authority [OF r this] show ?thesis
    using r sample_coordinator(1) by (auto simp del: history_step.simps)
qed

text \<open>An acknowledgement changes nothing a user sees: when a replica with a consistent outbox takes
  the acknowledgement of an operation it still holds, the operation leaves the outbox and every key
  shows in the view exactly what it showed before.\<close>

theorem ack_keeps_view:
  assumes "outbox_wf (hub_store h)" "op \<in> set (st_pending (hub_store h))"
    and "hub_identity h = st_local_identity (hub_store h)"
    and "receive_ack persist h l (op_sequence op) = (Ok (), h', l')"
  shows "st_pending (hub_store h') = filter (\<lambda>p. op_sequence p \<noteq> op_sequence op) (st_pending (hub_store h)) \<and>
    outbox_wf (hub_store h') \<and> find_record (view (hub_store h')) k = find_record (view (hub_store h)) k"
proof -
  let ?s = "hub_store h"
  define next' where "next' = ?s\<lparr>st_pending := filter (\<lambda>p. op_sequence p \<noteq> op_sequence op) (st_pending ?s)\<rparr>"
  have "distinct (map op_sequence (st_pending ?s))"
    using assms(1) by (simp add: outbox_wf_def)
  then have "find (\<lambda>p. op_sequence p = op_sequence op) (st_pending ?s) = Some op"
    using assms(2) by (induction "st_pending ?s" arbitrary: h) (auto simp: find_Some_iff in_set_conv_nth
        distinct_conv_nth dest: nth_mem)
  then have "hub_store h' = snd (apply_op next' (st_local_identity ?s) op)"
    using assms(3,4)
    by (auto simp: receive_ack_def Let_def next'_def split: prod.splits sum.splits dest!: commit_cases)
  then show ?thesis
    using acked_store_record [OF assms(1,2) next'_def] acked_outbox_wf [OF assms(1,2) next'_def]
      outbox_view [OF assms(1)] outbox_view [of "hub_store h'"]
    by (simp add: next'_def)
qed

definition sample_replica :: store where
  "sample_replica = store_default\<lparr>st_local_identity := origin sample_key, st_sequence := 1,
     st_pending := [\<lparr>op_sequence = 1, op_key = sample_key, op_content = Some sample_content\<rparr>]\<rparr>"

lemma sample_replica_wf: "outbox_wf sample_replica"
  by (simp add: outbox_wf_def sample_replica_def check_operation_def sample_valid store_default_def
      MAX_RECORDS_def)

theorem ack_keeps_view_witness:
  "\<exists>h' l'. receive_ack (\<lambda>_. True) (sample_hub (origin sample_key) sample_replica) (sample_link sample_peer) 1 =
      (Ok (), h', l') \<and> st_pending (hub_store h') = [] \<and>
    find_record (view (hub_store h')) sample_key = find_record (view sample_replica) sample_key"
proof -
  let ?op = "\<lparr>op_sequence = 1, op_key = sample_key, op_content = Some sample_content\<rparr>"
  let ?h = "sample_hub (origin sample_key) sample_replica"
  have pend: "st_pending sample_replica = [?op]" "st_local_identity sample_replica = origin sample_key"
    by (simp_all add: sample_replica_def)
  obtain h' l' where r: "receive_ack (\<lambda>_. True) ?h (sample_link sample_peer) (op_sequence ?op) = (Ok (), h', l')"
    by (simp add: receive_ack_def pend Let_def apply_op_def check_operation_def sample_valid commit_def
        sample_replica_def store_default_def MAX_RECORDS_def)
  from ack_keeps_view [OF _ _ _ r, of sample_key] r show ?thesis
    by (auto simp: sample_replica_wf pend)
qed

text \<open>Staged snapshots use bounded memory: whatever a peer sends and however the worker keeps up, the
  shared byte counter equals what the held snapshots reserved, never exceeds the store limit, every
  held snapshot reserved the size of all its records and has at most \<open>MAX_RECORDS\<close> of them, and the
  queue to the worker stays within its 32 places.\<close>

theorem session_memory_bounded:
  fixes ops
  defines "l \<equiv> foldl session_step session_spawn ops"
  shows "se_buffered l = sum_list (map isn_budget (held_snapshots l)) \<and>
    se_buffered l \<le> 32 * 1024 * 1024 \<and> length (se_queue l) \<le> 32 \<and>
    list_all (\<lambda>sn. isn_budget sn = sum_list (map staged_bytes (isn_records sn)) \<and>
                length (isn_records sn) \<le> MAX_RECORDS) (held_snapshots l)"
proof -
  have "session_wf session_spawn"
    by (simp add: session_wf_def session_spawn_def held_snapshots_def)
  then have "session_wf l"
    unfolding l_def by (rule session.run_inv)
  then show ?thesis
    by (simp add: session_wf_def snapshot_wf_def list_all_iff MAX_STORE_BYTES_def WORKER_QUEUE_def)
qed

text \<open>Choosing the owner never discards the notifications queued before the choice: opening the store
  of a computer that becomes the owner, while no history exists yet and its outbox is consistent,
  succeeds with a fresh epoch, an empty outbox, and exactly the records its view showed.\<close>

theorem owner_choice_keeps_outbox:
  assumes "sf_len f \<le> MAX_STORE_BYTES" "sf_store f = Some s" "st_local_identity s = identity"
    and "st_coordinator s \<noteq> identity" "nc_coordinator_fingerprint config = identity"
    and "\<not> coordinator_locked s" "outbox_wf s"
  shows "\<exists>s'. open_store config identity (Some epoch) (Some f) = Ok s' \<and>
    st_records s' = view s \<and> st_pending s' = [] \<and> st_epoch s' = epoch \<and> st_coordinator s' = identity"
proof -
  let ?s1 = "s\<lparr>st_coordinator := identity, st_pending := []\<rparr>"
  have all: "apply_all ?s1 identity (st_pending s) = Ok (foldl (overlay_op identity) ?s1 (st_pending s))"
    using assms(3,7) by (intro apply_all_Ok) (auto simp: outbox_wf_def)
  have coord: "st_coordinator (foldl (overlay_op me) t ops) = st_coordinator t" for me t ops
    by (induction ops arbitrary: t) (auto simp: overlay_op_def apply_op_def split: sum.split option.split)
  have recs: "st_records (foldl (overlay_op identity) ?s1 (st_pending s)) = view s"
    unfolding view_foldl assms(3) by (rule overlay_records_cong) simp
  have "length (view s) \<le> MAX_RECORDS"
    using overlay_length [of "st_local_identity s" s "st_pending s"] assms(7)
    by (auto simp: view_foldl outbox_wf_def intro: order_trans)
  then show ?thesis
    using assms(1-6) all recs coord [of identity ?s1]
    by (simp add: open_store_def change_owner_def Let_def)
qed

theorem owner_choice_keeps_outbox_witness:
  "\<exists>s'. open_store \<lparr>nc_enabled = True, nc_coordinator_fingerprint = origin sample_key, nc_peers = []\<rparr>
      (origin sample_key) (Some ''e'') (Some \<lparr>sf_len = 10, sf_store = Some sample_replica\<rparr>) = Ok s' \<and>
    st_records s' = view sample_replica \<and> st_pending s' = []"
proof -
  have "\<not> coordinator_locked sample_replica" "st_coordinator sample_replica \<noteq> origin sample_key"
    "st_local_identity sample_replica = origin sample_key"
    by (simp_all add: coordinator_locked_def sample_replica_def store_default_def sample_key_def)
  then show ?thesis
    using owner_choice_keeps_outbox [of "\<lparr>sf_len = 10, sf_store = Some sample_replica\<rparr>" sample_replica
        "origin sample_key" "\<lparr>nc_enabled = True, nc_coordinator_fingerprint = origin sample_key, nc_peers = []\<rparr>"
        "''e''"] sample_replica_wf
    by (auto simp: MAX_STORE_BYTES_def)
qed


end
