(* ===== verification/Noise.thy ===== *)
theory Noise
  imports Crypto Framing Clipboard
begin

text \<open>
  The encrypted transport: packet framing, sealing and the handshake of \<open>crates/edge-crypto/src/lib.rs\<close>
  and the frame sessions of \<open>crates/edge-runtime/src/lib.rs\<close> on top of it.

  The \<open>snow\<close> library is a record of functions over its transport state \<open>'n\<close> and handshake state
  \<open>'h\<close>. What is written to a connection is the list of bytes; \<open>io_ok\<close> says whether the operating
  system takes the bytes. \<open>noise_sync\<close> is what the Noise protocol promises of the two ends of one
  direction: a sealed message is 16 bytes longer and opens to the plaintext, in order.
\<close>

definition MAX_NOISE_PACKET_BYTES :: nat where
  "MAX_NOISE_PACKET_BYTES = 65535"

definition NOISE_TAG_BYTES :: nat where
  "NOISE_TAG_BYTES = 16"

record 'n noise_lib =
  write_message :: "'n \<Rightarrow> bytes \<Rightarrow> (bytes \<times> 'n) option"
  read_message :: "'n \<Rightarrow> bytes \<Rightarrow> (bytes \<times> 'n) option"

definition packet_too_large :: "nat \<Rightarrow> crypto_error" where
  "packet_too_large len = PacketTooLarge (if len < 2 ^ 32 then of_nat len else - 1)"

section \<open>Packets\<close>

definition write_packet :: "bytes \<Rightarrow> (crypto_error, bytes) result" where
  "write_packet payload =
     (if length payload > MAX_NOISE_PACKET_BYTES then Err (packet_too_large (length payload))
      else Ok (be_bytes 4 (length payload) @ payload))"

definition read_packet :: "bytes \<Rightarrow> (crypto_error, bytes \<times> bytes) result" where
  "read_packet s =
     (if length s < 4 then Err CryptoIo
      else (let len = from_be_bytes (take 4 s); s1 = drop 4 s in
            if len > MAX_NOISE_PACKET_BYTES then Err (PacketTooLarge (of_nat len))
            else if length s1 < len then Err CryptoIo
            else Ok (take len s1, drop len s1)))"

text \<open>\<open>(len as u32).to_be_bytes()\<close> of the sealed length, after \<open>out.truncate\<close>.\<close>

definition seal_packet ::
  "'n noise_lib \<Rightarrow> 'n \<Rightarrow> bytes \<Rightarrow> (crypto_error, bytes) result \<times> 'n" where
  "seal_packet lib transport plaintext =
     (let sealed_len = length plaintext + NOISE_TAG_BYTES in
      if sealed_len > MAX_NOISE_PACKET_BYTES then (Err (packet_too_large sealed_len), transport)
      else (case write_message lib transport plaintext of
              None \<Rightarrow> (Err NoiseError, transport)
            | Some (sealed, transport') \<Rightarrow>
                (Ok (be_bytes 4 (length sealed mod 2 ^ 32) @ sealed), transport')))"

definition noise_write_packet ::
  "'n noise_lib \<Rightarrow> bool \<Rightarrow> 'n \<Rightarrow> bytes \<Rightarrow> (crypto_error, bytes) result \<times> 'n" where
  "noise_write_packet lib io_ok transport plaintext =
     (case seal_packet lib transport plaintext of
        (Inl e, transport') \<Rightarrow> (Err e, transport')
      | (Inr packet, transport') \<Rightarrow> (if io_ok then Ok packet else Err CryptoIo, transport'))"

definition noise_read_packet ::
  "'n noise_lib \<Rightarrow> 'n \<Rightarrow> bytes \<Rightarrow> (crypto_error, bytes \<times> bytes) result \<times> 'n" where
  "noise_read_packet lib transport s =
     (case read_packet s of
        Inl e \<Rightarrow> (Err e, transport)
      | Inr (encrypted, rest) \<Rightarrow>
          (case read_message lib transport encrypted of
             None \<Rightarrow> (Err NoiseError, transport)
           | Some (plaintext, transport') \<Rightarrow> (Ok (plaintext, rest), transport')))"

section \<open>The handshake\<close>

record ('h, 'n) handshake_lib =
  hs_write :: "'h \<Rightarrow> (bytes \<times> 'h) option"
  hs_read :: "'h \<Rightarrow> bytes \<Rightarrow> 'h option"
  hs_remote_static :: "'h \<Rightarrow> bytes option"
  hs_into_transport :: "'h \<Rightarrow> 'n option"

definition remote_static_fingerprint ::
  "(bytes \<Rightarrow> bytes) \<Rightarrow> (bytes \<Rightarrow> string) \<Rightarrow> ('h, 'n) handshake_lib \<Rightarrow> 'h \<Rightarrow> (crypto_error, string) result"
  where
  "remote_static_fingerprint sha hex lib h =
     (case hs_remote_static lib h of
        None \<Rightarrow> Err (InvalidKeyLength 0)
      | Some key \<Rightarrow> Ok (fingerprint sha hex key))"

definition hs_send :: "('h, 'n) handshake_lib \<Rightarrow> 'h \<Rightarrow> (crypto_error, bytes \<times> 'h) result" where
  "hs_send lib h =
     (case hs_write lib h of
        None \<Rightarrow> Err NoiseError
      | Some (m, h') \<Rightarrow> (case write_packet m of Inl e \<Rightarrow> Err e | Inr packet \<Rightarrow> Ok (packet, h')))"

definition hs_receive ::
  "('h, 'n) handshake_lib \<Rightarrow> 'h \<Rightarrow> bytes \<Rightarrow> (crypto_error, bytes \<times> 'h) result" where
  "hs_receive lib h s =
     (case read_packet s of
        Inl e \<Rightarrow> Err e
      | Inr (m, rest) \<Rightarrow> (case hs_read lib h m of None \<Rightarrow> Err NoiseError | Some h' \<Rightarrow> Ok (rest, h')))"

text \<open>
  \<open>built\<close> is the result of the builder; \<open>s\<close> the bytes the peer sends. The result carries the
  transport, the unread rest of the connection and the peer's fingerprint.
\<close>

definition initiate_noise_session ::
  "(bytes \<Rightarrow> bytes) \<Rightarrow> (bytes \<Rightarrow> string) \<Rightarrow> ('h, 'n) handshake_lib \<Rightarrow> 'h option \<Rightarrow> string option \<Rightarrow> bytes
     \<Rightarrow> (crypto_error, 'n \<times> bytes \<times> string) result" where
  "initiate_noise_session sha hex lib built expected_peer s =
     (case built of
        None \<Rightarrow> Err NoiseError
      | Some h0 \<Rightarrow>
          (case hs_send lib h0 of
             Inl e \<Rightarrow> Err e
           | Inr (_, h1) \<Rightarrow>
               (case hs_receive lib h1 s of
                  Inl e \<Rightarrow> Err e
                | Inr (rest, h2) \<Rightarrow>
                    (case hs_send lib h2 of
                       Inl e \<Rightarrow> Err e
                     | Inr (_, h3) \<Rightarrow>
                         (case remote_static_fingerprint sha hex lib h3 of
                            Inl e \<Rightarrow> Err e
                          | Inr actual \<Rightarrow>
                              if (case expected_peer of
                                    None \<Rightarrow> False
                                  | Some expected \<Rightarrow> expected \<noteq> [] \<and> expected \<noteq> actual)
                              then Err (FingerprintMismatch (the expected_peer) actual)
                              else (case hs_into_transport lib h3 of
                                      None \<Rightarrow> Err NoiseError
                                    | Some n \<Rightarrow> Ok (n, rest, actual)))))))"

definition accept_noise_session ::
  "(bytes \<Rightarrow> bytes) \<Rightarrow> (bytes \<Rightarrow> string) \<Rightarrow> ('h, 'n) handshake_lib \<Rightarrow> 'h option \<Rightarrow> bytes
     \<Rightarrow> (crypto_error, 'n \<times> bytes \<times> string) result" where
  "accept_noise_session sha hex lib built s =
     (case built of
        None \<Rightarrow> Err NoiseError
      | Some h0 \<Rightarrow>
          (case hs_receive lib h0 s of
             Inl e \<Rightarrow> Err e
           | Inr (s1, h1) \<Rightarrow>
               (case hs_send lib h1 of
                  Inl e \<Rightarrow> Err e
                | Inr (_, h2) \<Rightarrow>
                    (case hs_receive lib h2 s1 of
                       Inl e \<Rightarrow> Err e
                     | Inr (rest, h3) \<Rightarrow>
                         (case remote_static_fingerprint sha hex lib h3 of
                            Inl e \<Rightarrow> Err e
                          | Inr actual \<Rightarrow>
                              (case hs_into_transport lib h3 of
                                 None \<Rightarrow> Err NoiseError
                               | Some n \<Rightarrow> Ok (n, rest, actual)))))))"

section \<open>Frame sessions\<close>

datatype runtime_error = RuntimeCrypto crypto_error | RuntimeProtocol protocol_error

definition encode_secure_frame ::
  "(frame \<Rightarrow> bytes option) \<Rightarrow> frame \<Rightarrow> (runtime_error, bytes) result" where
  "encode_secure_frame enc f =
     (case encode_frame enc f of
        Inl e \<Rightarrow> Err (RuntimeProtocol e)
      | Inr payload \<Rightarrow>
          if length payload > MAX_SECURE_FRAME_BYTES
          then Err (RuntimeProtocol (FrameTooLarge
                 (if length payload < 2 ^ 32 then of_nat (length payload) else - 1)))
          else Ok payload)"

record 'n secure_frame_writer =
  sw_inner :: 'n
  sw_image_schedule :: image_transfer_schedule

definition secure_write ::
  "(frame \<Rightarrow> bytes option) \<Rightarrow> 'n noise_lib \<Rightarrow> bool \<Rightarrow> 'n secure_frame_writer \<Rightarrow> frame
     \<Rightarrow> (runtime_error, bytes) result \<times> 'n secure_frame_writer" where
  "secure_write enc lib io_ok w f =
     (case encode_secure_frame enc f of
        Inl e \<Rightarrow> (Err e, w)
      | Inr payload \<Rightarrow>
          (case noise_write_packet lib io_ok (sw_inner w) payload of
             (Inl e, n) \<Rightarrow> (Err (RuntimeCrypto e), w\<lparr>sw_inner := n\<rparr>)
           | (Inr packet, n) \<Rightarrow>
               (Ok packet, w\<lparr>sw_inner := n,
                             sw_image_schedule := record_sent_frame (sw_image_schedule w) f\<rparr>)))"

definition bulk_is_due :: "'n secure_frame_writer \<Rightarrow> bool" where
  "bulk_is_due w = image_chunk_is_due (sw_image_schedule w)"

definition record_received :: "'n secure_frame_writer \<Rightarrow> frame \<Rightarrow> 'n secure_frame_writer" where
  "record_received w f = w\<lparr>sw_image_schedule := record_received_frame (sw_image_schedule w) f\<rparr>"

definition secure_read ::
  "(bytes \<Rightarrow> frame option) \<Rightarrow> 'n noise_lib \<Rightarrow> 'n \<Rightarrow> bytes
     \<Rightarrow> (runtime_error, frame \<times> bytes) result \<times> 'n" where
  "secure_read dec lib n s =
     (case noise_read_packet lib n s of
        (Inl e, n') \<Rightarrow> (Err (RuntimeCrypto e), n')
      | (Inr (payload, rest), n') \<Rightarrow>
          (case decode_frame dec payload of
             Inl e \<Rightarrow> (Err (RuntimeProtocol e), n')
           | Inr f \<Rightarrow> (Ok (f, rest), n')))"

section \<open>Lemmas\<close>

lemma packet_len_lt: "n \<le> MAX_NOISE_PACKET_BYTES \<Longrightarrow> from_be_bytes (be_bytes 4 n) = n"
  by (rule from_be_bytes_be_bytes) (simp add: MAX_NOISE_PACKET_BYTES_def)

lemma read_packet_append:
  assumes "length p \<le> MAX_NOISE_PACKET_BYTES"
  shows "read_packet (be_bytes 4 (length p) @ p @ rest) = Ok (p, rest)"
  using assms by (simp add: read_packet_def packet_len_lt Let_def)

interpretation packet: length_framing write_packet read_packet
proof
  fix p bs rest
  assume "write_packet p = Ok bs"
  then have "bs = be_bytes 4 (length p) @ p" "length p \<le> MAX_NOISE_PACKET_BYTES"
    by (auto simp: write_packet_def split: if_splits)
  then show "read_packet (bs @ rest) = Ok (p, rest)"
    using read_packet_append [of p rest] by simp
qed

definition noise_sync :: "'n noise_lib \<Rightarrow> ('n \<Rightarrow> 'n \<Rightarrow> bool) \<Rightarrow> bool" where
  "noise_sync lib S \<longleftrightarrow>
     (\<forall>w r p c w'. S w r \<longrightarrow> write_message lib w p = Some (c, w') \<longrightarrow>
        length c = length p + NOISE_TAG_BYTES \<and> (\<exists>r'. read_message lib r c = Some (p, r') \<and> S w' r'))"

lemma noise_packet_roundtrip:
  assumes "noise_sync lib S" "S w r" "noise_write_packet lib io w p = (Ok packet, w')"
  shows "\<exists>r'. noise_read_packet lib r (packet @ rest) = (Ok (p, rest), r') \<and> S w' r'"
proof -
  obtain c where c: "write_message lib w p = Some (c, w')" "packet = be_bytes 4 (length c mod 2 ^ 32) @ c"
    and len: "length p + NOISE_TAG_BYTES \<le> MAX_NOISE_PACKET_BYTES"
    using assms(3) by (auto simp: noise_write_packet_def seal_packet_def Let_def
        split: if_splits option.splits prod.splits sum.splits)
  obtain r' where r: "length c = length p + NOISE_TAG_BYTES" "read_message lib r c = Some (p, r')" "S w' r'"
    using assms(1,2) c(1) unfolding noise_sync_def by blast
  have "length c \<le> MAX_NOISE_PACKET_BYTES" "length c mod 2 ^ 32 = length c"
    using len r(1) by (simp_all add: MAX_NOISE_PACKET_BYTES_def)
  then show ?thesis
    using c(2) r read_packet_append [of c rest] by (simp add: noise_read_packet_def)
qed

lemma encode_secure_frame_Ok:
  "encode_secure_frame enc f = Ok payload \<longleftrightarrow> enc f = Some payload \<and> length payload \<le> MAX_SECURE_FRAME_BYTES"
  unfolding encode_secure_frame_def encode_frame_def
  by (cases "enc f") (auto simp: not_less)

lemma secure_packet_fits:
  assumes "encode_secure_frame enc f = Ok payload"
  shows "length payload + NOISE_TAG_BYTES \<le> MAX_NOISE_PACKET_BYTES"
proof -
  have "length payload \<le> MAX_SECURE_FRAME_BYTES"
    using assms by (simp only: encode_secure_frame_Ok)
  then show ?thesis
    by (simp add: MAX_SECURE_FRAME_BYTES_def NOISE_TAG_BYTES_def MAX_NOISE_PACKET_BYTES_def)
qed

section \<open>A session over many frames\<close>

text \<open>Sending a list of frames, keeping the ones that were accepted and the bytes written; reading a
  number of frames.\<close>

fun secure_send_all ::
  "(frame \<Rightarrow> bytes option) \<Rightarrow> 'n noise_lib \<Rightarrow> 'n secure_frame_writer \<Rightarrow> frame list
     \<Rightarrow> frame list \<times> bytes \<times> 'n secure_frame_writer" where
  "secure_send_all enc lib w [] = ([], [], w)"
| "secure_send_all enc lib w (f # fs) =
     (case secure_write enc lib True w f of
        (Inl e, w') \<Rightarrow> secure_send_all enc lib w' fs
      | (Inr packet, w') \<Rightarrow>
          (let (sent, bs, w'') = secure_send_all enc lib w' fs in (f # sent, packet @ bs, w'')))"

fun secure_read_n ::
  "(bytes \<Rightarrow> frame option) \<Rightarrow> 'n noise_lib \<Rightarrow> nat \<Rightarrow> 'n \<Rightarrow> bytes
     \<Rightarrow> (runtime_error, frame list \<times> bytes) result \<times> 'n" where
  "secure_read_n dec lib 0 n s = (Ok ([], s), n)"
| "secure_read_n dec lib (Suc k) n s =
     (case secure_read dec lib n s of
        (Inl e, n') \<Rightarrow> (Err e, n')
      | (Inr (f, rest), n') \<Rightarrow>
          (case secure_read_n dec lib k n' rest of
             (Inl e, n'') \<Rightarrow> (Err e, n'')
           | (Inr (fs, rest'), n'') \<Rightarrow> (Ok (f # fs, rest'), n'')))"

definition accepts_all :: "'n noise_lib \<Rightarrow> bool" where
  "accepts_all lib \<longleftrightarrow>
     (\<forall>n p. length p + NOISE_TAG_BYTES \<le> MAX_NOISE_PACKET_BYTES \<longrightarrow> write_message lib n p \<noteq> None)"

lemma secure_write_Ok:
  assumes "secure_write enc lib io w f = (Ok packet, w')"
  shows "\<exists>payload. enc f = Some payload \<and>
    noise_write_packet lib io (sw_inner w) payload = (Ok packet, sw_inner w')"
  using assms
  by (auto simp: secure_write_def encode_secure_frame_Ok split: sum.splits prod.splits)

lemma secure_write_fits:
  assumes "accepts_all lib"
  shows "is_ok (fst (secure_write enc lib True w f)) = fits_secure_frame enc f"
    and "\<not> fits_secure_frame enc f \<Longrightarrow> snd (secure_write enc lib True w f) = w"
proof -
  have fits: "fits_secure_frame enc f \<longleftrightarrow> (\<exists>payload. encode_secure_frame enc f = Ok payload)"
    by (auto simp: encode_secure_frame_Ok fits_secure_frame_def encode_frame_def split: option.split)
  show "\<not> fits_secure_frame enc f \<Longrightarrow> snd (secure_write enc lib True w f) = w"
    unfolding fits by (cases "encode_secure_frame enc f") (simp_all add: secure_write_def)
  show "is_ok (fst (secure_write enc lib True w f)) = fits_secure_frame enc f"
  proof (cases "encode_secure_frame enc f")
    case (Inl e)
    then show ?thesis
      by (simp add: fits secure_write_def)
  next
    case (Inr payload)
    note len = secure_packet_fits [OF Inr]
    obtain c n' where "write_message lib (sw_inner w) payload = Some (c, n')"
      using assms len unfolding accepts_all_def by fast
    then show ?thesis
      using Inr len by (simp add: fits secure_write_def noise_write_packet_def seal_packet_def Let_def)
  qed
qed

lemma secure_frame_step:
  assumes "frame_codec enc dec" "noise_sync lib S" "S (sw_inner w) r"
    and "secure_write enc lib io w f = (Ok packet, w')"
  shows "\<exists>r'. secure_read dec lib r (packet @ rest) = (Ok (f, rest), r') \<and> S (sw_inner w') r'"
proof -
  obtain payload where p: "enc f = Some payload"
    "noise_write_packet lib io (sw_inner w) payload = (Ok packet, sw_inner w')"
    using secure_write_Ok [OF assms(4)] by (elim exE conjE)
  obtain r' where r: "noise_read_packet lib r (packet @ rest) = (Ok (payload, rest), r')" "S (sw_inner w') r'"
    using noise_packet_roundtrip [OF assms(2,3) p(2), of rest] by (elim exE conjE)
  have "dec payload = Some f"
    using assms(1) p(1) by (simp add: frame_codec_def)
  then show ?thesis
    using r by (simp add: secure_read_def decode_frame_def)
qed

lemma secure_session:
  assumes "frame_codec enc dec" "noise_sync lib S" "S (sw_inner w) r" "accepts_all lib"
    and "secure_send_all enc lib w fs = (sent, bs, w')"
  shows "sent = filter (fits_secure_frame enc) fs \<and>
    (\<exists>r'. secure_read_n dec lib (length sent) r (bs @ rest) = (Ok (sent, rest), r') \<and> S (sw_inner w') r')"
  using assms(3,5)
proof (induction fs arbitrary: w r sent bs)
  case Nil
  then show ?case by simp
next
  case (Cons f fs)
  show ?case
  proof (cases "fits_secure_frame enc f")
    case False
    then have "\<not> is_ok (fst (secure_write enc lib True w f))" "snd (secure_write enc lib True w f) = w"
      using secure_write_fits [OF assms(4)] by simp_all
    then obtain e where "secure_write enc lib True w f = (Err e, w)"
      by (cases "secure_write enc lib True w f"; cases "fst (secure_write enc lib True w f)") auto
    then show ?thesis
      using Cons False by simp
  next
    case True
    then have "is_ok (fst (secure_write enc lib True w f))"
      using secure_write_fits(1) [OF assms(4)] by simp
    then obtain packet w1 where step: "secure_write enc lib True w f = (Ok packet, w1)"
      by (cases "secure_write enc lib True w f") (auto simp: is_ok_iff)
    obtain sent1 bs1 where rest: "secure_send_all enc lib w1 fs = (sent1, bs1, w')"
        "sent = f # sent1" "bs = packet @ bs1"
      using Cons.prems(2) step by (auto split: prod.splits)
    obtain r1 where r1: "secure_read dec lib r (packet @ bs1 @ rest) = (Ok (f, bs1 @ rest), r1)" "S (sw_inner w1) r1"
      using secure_frame_step [OF assms(1,2) Cons.prems(1) step, of "bs1 @ rest"] by (elim exE conjE)
    from Cons.IH [OF r1(2) rest(1)] show ?thesis
      using True r1(1) rest(2,3) by auto
  qed
qed

section \<open>Properties\<close>

text \<open>C29: An encrypted session delivers exactly the frames that fit: if the codec and the Noise library
  keep their promises, then of any list of frames handed to the writer exactly those that fit one
  encrypted message go out, in order, and are read back as they were; the others are refused without
  disturbing the session, which stays in step with its reader.\<close>

theorem secure_session_roundtrip:
  assumes "frame_codec enc dec" and "noise_sync lib S" and "S (sw_inner w) r" and "accepts_all lib"
    and "secure_send_all enc lib w fs = (sent, bs, w')"
  shows "sent = filter (fits_secure_frame enc) fs \<and>
    (\<exists>r'. secure_read_n dec lib (length sent) r (bs @ rest) = (Ok (sent, rest), r') \<and> S (sw_inner w') r')"
  using secure_session [OF assms] .

text \<open>A transport that counts its messages in the tag, for the witness.\<close>

definition counting_lib :: "nat noise_lib" where
  "counting_lib =
     \<lparr>write_message = (\<lambda>n p. Some (p @ be_bytes 16 n, Suc n)),
      read_message = (\<lambda>n c. if 16 \<le> length c \<and> drop (length c - 16) c = be_bytes 16 n
                            then Some (take (length c - 16) c, Suc n) else None)\<rparr>"

lemma counting_lib_sync: "noise_sync counting_lib (=)" "accepts_all counting_lib"
  by (simp_all add: noise_sync_def accepts_all_def counting_lib_def NOISE_TAG_BYTES_def)

theorem secure_session_roundtrip_witness:
  "\<exists>bs w'. secure_send_all heartbeat_enc counting_lib
      \<lparr>sw_inner = 0, sw_image_schedule = schedule_default\<rparr> [FHeartbeat (Heartbeat 7), FNotificationSync SnapshotEnd] =
      ([FHeartbeat (Heartbeat 7)], bs, w') \<and>
    (\<exists>r'. secure_read_n heartbeat_dec counting_lib 1 0 bs = (Ok ([FHeartbeat (Heartbeat 7)], []), r'))"
proof -
  let ?w = "\<lparr>sw_inner = 0 :: nat, sw_image_schedule = schedule_default\<rparr>"
  obtain sent bs w' where run: "secure_send_all heartbeat_enc counting_lib ?w
      [FHeartbeat (Heartbeat 7), FNotificationSync SnapshotEnd] = (sent, bs, w')"
    by (cases "secure_send_all heartbeat_enc counting_lib ?w
      [FHeartbeat (Heartbeat 7), FNotificationSync SnapshotEnd]")
  have "fits_secure_frame heartbeat_enc (FHeartbeat (Heartbeat 7))"
    "\<not> fits_secure_frame heartbeat_enc (FNotificationSync SnapshotEnd)"
    by (simp_all add: fits_secure_frame_def encode_frame_def MAX_SECURE_FRAME_BYTES_def)
  then show ?thesis
    using secure_session_roundtrip [OF heartbeat_codec counting_lib_sync(1) _ counting_lib_sync(2) run, of 0 "[]"] run
    by auto
qed

text \<open>A connection that expects a key opens only to that key: a completed handshake reports the
  fingerprint of the static key the Noise library authenticated, and the initiator completes it only
  if no fingerprint was expected, or an empty one, or exactly this one.\<close>

theorem handshake_checks_pinned_key:
  assumes "initiate_noise_session sha hex lib built expected s = Ok (n, rest, actual)"
  shows "(expected = None \<or> expected = Some [] \<or> expected = Some actual) \<and>
    (\<exists>h key. hs_remote_static lib h = Some key \<and> actual = fingerprint sha hex key \<and>
       hs_into_transport lib h = Some n)"
  using assms
  by (auto simp: initiate_noise_session_def remote_static_fingerprint_def
      split: option.splits sum.splits prod.splits if_splits)

definition echo_handshake :: "(nat, nat) handshake_lib" where
  "echo_handshake = \<lparr>hs_write = (\<lambda>h. Some ([], h)), hs_read = (\<lambda>h _. Some (Suc h)),
     hs_remote_static = (\<lambda>_. Some [7]), hs_into_transport = Some\<rparr>"

theorem handshake_checks_pinned_key_witness:
  "\<exists>n rest actual. initiate_noise_session (\<lambda>bs. bs) bytes_str echo_handshake (Some 0) None [0, 0, 0, 0] =
      Ok (n, rest, actual) \<and>
    (\<exists>key. actual = fingerprint (\<lambda>bs. bs) bytes_str key)"
proof -
  have r: "initiate_noise_session (\<lambda>bs. bs) bytes_str echo_handshake (Some 0) None [0, 0, 0, 0] =
      Ok (1, [], fingerprint (\<lambda>bs. bs) bytes_str [7])"
    by (simp add: initiate_noise_session_def hs_send_def hs_receive_def echo_handshake_def write_packet_def
        read_packet_def remote_static_fingerprint_def from_be_bytes_def Let_def)
  from handshake_checks_pinned_key [OF r] r show ?thesis
    by blast
qed

end
