(* ===== verification/Keymap.thy ===== *)
theory Keymap
  imports Prelude
begin

text \<open>
  \<open>crates/edge-keymap/src/lib.rs\<close>: Windows scan codes and Linux evdev key codes. The first match is
  the table of its arms in order, the second the chain of its arms.
\<close>

record windows_scan_code =
  wsc_scan_code :: u16
  wsc_extended :: bool

definition windows_scan_code_new :: "u16 \<Rightarrow> bool \<Rightarrow> windows_scan_code" where
  "windows_scan_code_new scan_code extended = \<lparr>wsc_scan_code = scan_code, wsc_extended = extended\<rparr>"

definition scancode_table :: "((u16 \<times> bool) \<times> u16) list" where
  "scancode_table =
    [((0x02, False), 2), ((0x03, False), 3), ((0x04, False), 4), ((0x05, False), 5),
     ((0x06, False), 6), ((0x07, False), 7), ((0x08, False), 8), ((0x09, False), 9),
     ((0x0A, False), 10), ((0x0B, False), 11), ((0x10, False), 16), ((0x11, False), 17),
     ((0x12, False), 18), ((0x13, False), 19), ((0x14, False), 20), ((0x15, False), 21),
     ((0x16, False), 22), ((0x17, False), 23), ((0x18, False), 24), ((0x19, False), 25),
     ((0x1E, False), 30), ((0x1F, False), 31), ((0x20, False), 32), ((0x21, False), 33),
     ((0x22, False), 34), ((0x23, False), 35), ((0x24, False), 36), ((0x25, False), 37),
     ((0x26, False), 38), ((0x2C, False), 44), ((0x2D, False), 45), ((0x2E, False), 46),
     ((0x2F, False), 47), ((0x30, False), 48), ((0x31, False), 49), ((0x32, False), 50),
     ((0x01, False), 1), ((0x0E, False), 14), ((0x0F, False), 15), ((0x1C, False), 28),
     ((0x39, False), 57), ((0x1C, True), 28), ((0x3A, False), 58), ((0x2A, False), 42),
     ((0x36, False), 54), ((0x1D, False), 29), ((0x1D, True), 97), ((0x38, False), 56),
     ((0x38, True), 100), ((0x5B, True), 125), ((0x5C, True), 126), ((0x48, True), 103),
     ((0x50, True), 108), ((0x4B, True), 105), ((0x4D, True), 106), ((0x52, True), 110),
     ((0x53, True), 111), ((0x47, True), 102), ((0x4F, True), 107), ((0x49, True), 104),
     ((0x51, True), 109), ((0x3B, False), 59), ((0x3C, False), 60), ((0x3D, False), 61),
     ((0x3E, False), 62), ((0x3F, False), 63), ((0x40, False), 64), ((0x41, False), 65),
     ((0x42, False), 66), ((0x43, False), 67), ((0x44, False), 68), ((0x57, False), 87),
     ((0x58, False), 88), ((0x0C, False), 12), ((0x0D, False), 13), ((0x1A, False), 26),
     ((0x1B, False), 27), ((0x27, False), 39), ((0x28, False), 40), ((0x29, False), 41),
     ((0x2B, False), 43), ((0x33, False), 51), ((0x34, False), 52), ((0x35, False), 53)]"

definition windows_scancode_to_evdev :: "windows_scan_code \<Rightarrow> u16 option" where
  "windows_scancode_to_evdev key = map_of scancode_table (wsc_scan_code key, wsc_extended key)"

definition evdev_scan :: "u16 \<Rightarrow> (u16 \<times> bool) option" where
  "evdev_scan code =
     (if 2 \<le> code \<and> code \<le> 11 then Some (code - 2 + 0x02, False)
      else if 16 \<le> code \<and> code \<le> 25 then Some (code - 16 + 0x10, False)
      else if 30 \<le> code \<and> code \<le> 38 then Some (code - 30 + 0x1E, False)
      else if 44 \<le> code \<and> code \<le> 50 then Some (code - 44 + 0x2C, False)
      else if code = 1 then Some (0x01, False)
      else if code = 14 then Some (0x0E, False)
      else if code = 15 then Some (0x0F, False)
      else if code = 28 then Some (0x1C, False)
      else if code = 57 then Some (0x39, False)
      else if code = 58 then Some (0x3A, False)
      else if code = 42 then Some (0x2A, False)
      else if code = 54 then Some (0x36, False)
      else if code = 29 then Some (0x1D, False)
      else if code = 97 then Some (0x1D, True)
      else if code = 56 then Some (0x38, False)
      else if code = 100 then Some (0x38, True)
      else if code = 125 then Some (0x5B, True)
      else if code = 126 then Some (0x5C, True)
      else if code = 103 then Some (0x48, True)
      else if code = 108 then Some (0x50, True)
      else if code = 105 then Some (0x4B, True)
      else if code = 106 then Some (0x4D, True)
      else if code = 110 then Some (0x52, True)
      else if code = 111 then Some (0x53, True)
      else if code = 102 then Some (0x47, True)
      else if code = 107 then Some (0x4F, True)
      else if code = 104 then Some (0x49, True)
      else if code = 109 then Some (0x51, True)
      else if 59 \<le> code \<and> code \<le> 68 then Some (code - 59 + 0x3B, False)
      else if code = 87 then Some (0x57, False)
      else if code = 88 then Some (0x58, False)
      else if code = 12 then Some (0x0C, False)
      else if code = 13 then Some (0x0D, False)
      else if code = 26 then Some (0x1A, False)
      else if code = 27 then Some (0x1B, False)
      else if code = 39 then Some (0x27, False)
      else if code = 40 then Some (0x28, False)
      else if code = 41 then Some (0x29, False)
      else if code = 43 then Some (0x2B, False)
      else if code = 51 then Some (0x33, False)
      else if code = 52 then Some (0x34, False)
      else if code = 53 then Some (0x35, False)
      else None)"

definition evdev_to_windows_scancode :: "u16 \<Rightarrow> windows_scan_code option" where
  "evdev_to_windows_scancode code =
     map_option (\<lambda>(scan_code, extended). windows_scan_code_new scan_code extended) (evdev_scan code)"

section \<open>Properties\<close>

lemma table_back: "list_all (\<lambda>(k, c). k = (0x1C, True) \<or> evdev_scan c = Some k) scancode_table"
  by code_simp

lemma table_evdev_below: "evdev_scan code = Some k \<Longrightarrow> code \<in> set (map of_nat [0..<128])"
proof -
  assume "evdev_scan code = Some k"
  then have "unat code < 128"
    unfolding evdev_scan_def word_le_nat_alt by (auto split: if_splits)
  moreover have "code = of_nat (unat code)"
    by simp
  ultimately show ?thesis
    by (metis (no_types, lifting) atLeastLessThan_iff image_eqI list.set_map set_upt zero_le)
qed

lemma evdev_forth:
  "list_all (\<lambda>c. case evdev_scan c of None \<Rightarrow> True | Some k \<Rightarrow> map_of scancode_table k = Some c)
     (map of_nat [0..<128])"
  by code_simp

text \<open>A key survives the crossing between the two systems: every Linux key code that has a Windows
  scan code comes back from it unchanged, and every Windows scan code that has a Linux key code comes
  back unchanged, with one exception, the keypad Enter, which becomes the main Enter.\<close>

theorem keymap_roundtrip:
  "(evdev_to_windows_scancode code = Some key \<longrightarrow> windows_scancode_to_evdev key = Some code) \<and>
   (windows_scancode_to_evdev key = Some code \<longrightarrow>
      evdev_to_windows_scancode code = Some key \<or> key = windows_scan_code_new 0x1C True)"
proof (intro conjI impI)
  assume "evdev_to_windows_scancode code = Some key"
  then obtain k where k: "evdev_scan code = Some k" "key = windows_scan_code_new (fst k) (snd k)"
    by (auto simp: evdev_to_windows_scancode_def)
  have "map_of scancode_table k = Some code"
    using evdev_forth table_evdev_below [OF k(1)] k(1) by (auto simp: list_all_iff)
  then show "windows_scancode_to_evdev key = Some code"
    by (simp add: windows_scancode_to_evdev_def k(2) windows_scan_code_new_def)
next
  assume "windows_scancode_to_evdev key = Some code"
  then have "((wsc_scan_code key, wsc_extended key), code) \<in> set scancode_table"
    by (simp add: windows_scancode_to_evdev_def map_of_SomeD)
  then have "(wsc_scan_code key, wsc_extended key) = (0x1C, True) \<or>
      evdev_scan code = Some (wsc_scan_code key, wsc_extended key)"
    using table_back by (auto simp: list_all_iff)
  then show "evdev_to_windows_scancode code = Some key \<or> key = windows_scan_code_new 0x1C True"
    by (auto simp: evdev_to_windows_scancode_def windows_scan_code_new_def)
qed

theorem keymap_roundtrip_witness:
  "windows_scancode_to_evdev (windows_scan_code_new 0x1E False) = Some 30 \<and>
   evdev_to_windows_scancode 30 = Some (windows_scan_code_new 0x1E False)"
proof -
  have "windows_scancode_to_evdev (windows_scan_code_new 0x1E False) = Some 30"
    by code_simp
  then show ?thesis
    using keymap_roundtrip [of 30 "windows_scan_code_new 0x1E False"] by (simp add: windows_scan_code_new_def)
qed

end
