(* ===== verification/Audio.thy ===== *)
theory Audio
  imports BTree Protocol
begin

text \<open>
  \<open>crates/edge-audio/src/lib.rs\<close>: authenticated audio datagrams and the jitter buffer that puts them
  back in order. The ChaCha20-Poly1305 crate is the record \<open>aead\<close>; \<open>aead_ok\<close> states that it opens
  what it sealed and adds a 16-byte tag. The sample arithmetic of \<open>PcmCodec\<close> and \<open>PcmConcealer\<close> is
  floating point and is not modelled.
\<close>

definition FRAME_MS :: u16 where
  "FRAME_MS = 5"

definition MAX_DATAGRAM_BYTES :: nat where
  "MAX_DATAGRAM_BYTES = 1200"

definition MAGIC :: bytes where
  "MAGIC = as_bytes ''EKA1''"

definition VERSION :: u8 where
  "VERSION = 1"

definition HEADER_LEN :: nat where
  "HEADER_LEN = 36"

datatype audio_error = Truncated | InvalidPacket | WrongSession | Oversized | Authentication

record session_secrets =
  ss_session_id :: bytes
  ss_session_salt :: bytes
  ss_session_key :: bytes

record audio_packet =
  ap_sequence :: u64
  ap_sample_timestamp :: u32
  ap_flags :: u8
  ap_payload :: bytes

section \<open>Datagrams\<close>

text \<open>Key, nonce, associated data and message.\<close>

record aead =
  aead_encrypt :: "bytes \<Rightarrow> bytes \<Rightarrow> bytes \<Rightarrow> bytes \<Rightarrow> bytes option"
  aead_decrypt :: "bytes \<Rightarrow> bytes \<Rightarrow> bytes \<Rightarrow> bytes \<Rightarrow> bytes option"

record packet_cipher =
  pc_session_id :: bytes
  pc_session_salt :: bytes
  pc_key :: bytes

definition packet_cipher_new :: "session_secrets \<Rightarrow> packet_cipher" where
  "packet_cipher_new secrets =
     \<lparr>pc_session_id = ss_session_id secrets, pc_session_salt = ss_session_salt secrets,
      pc_key = ss_session_key secrets\<rparr>"

definition nonce :: "packet_cipher \<Rightarrow> u64 \<Rightarrow> bytes" where
  "nonce c sequence = pc_session_salt c @ be_bytes 8 (unat sequence)"

definition packet_header :: "packet_cipher \<Rightarrow> u64 \<Rightarrow> u32 \<Rightarrow> u8 \<Rightarrow> bytes" where
  "packet_header c sequence sample_timestamp flags =
     MAGIC @ [VERSION, flags] @ be_bytes 2 HEADER_LEN @ pc_session_id c @ be_bytes 8 (unat sequence) @
     be_bytes 4 (unat sample_timestamp)"

definition seal_payload ::
  "aead \<Rightarrow> packet_cipher \<Rightarrow> u64 \<Rightarrow> u32 \<Rightarrow> u8 \<Rightarrow> bytes \<Rightarrow> (audio_error, bytes) result" where
  "seal_payload lib c sequence sample_timestamp flags payload =
     (let header = packet_header c sequence sample_timestamp flags in
      case aead_encrypt lib (pc_key c) (nonce c sequence) header payload of
        None \<Rightarrow> Err Authentication
      | Some encrypted \<Rightarrow>
          (let datagram = header @ encrypted in
           if length datagram > MAX_DATAGRAM_BYTES then Err Oversized else Ok datagram))"

definition seal :: "aead \<Rightarrow> packet_cipher \<Rightarrow> audio_packet \<Rightarrow> (audio_error, bytes) result" where
  "seal lib c p = seal_payload lib c (ap_sequence p) (ap_sample_timestamp p) (ap_flags p) (ap_payload p)"

definition slice :: "nat \<Rightarrow> nat \<Rightarrow> bytes \<Rightarrow> bytes" where
  "slice a b bs = take (b - a) (drop a bs)"

definition open_datagram :: "aead \<Rightarrow> packet_cipher \<Rightarrow> bytes \<Rightarrow> (audio_error, audio_packet) result" where
  "open_datagram lib c datagram =
     (if length datagram < HEADER_LEN + 16 then Err Truncated
      else if length datagram > MAX_DATAGRAM_BYTES then Err Oversized
      else if take 4 datagram \<noteq> MAGIC \<or> datagram ! 4 \<noteq> VERSION then Err InvalidPacket
      else if from_be_bytes (slice 6 8 datagram) \<noteq> HEADER_LEN then Err InvalidPacket
      else if slice 8 24 datagram \<noteq> pc_session_id c then Err WrongSession
      else (let sequence = of_nat (from_be_bytes (slice 24 32 datagram));
                sample_timestamp = of_nat (from_be_bytes (slice 32 36 datagram))
            in case aead_decrypt lib (pc_key c) (nonce c sequence) (take HEADER_LEN datagram)
                      (drop HEADER_LEN datagram) of
                 None \<Rightarrow> Err Authentication
               | Some payload \<Rightarrow>
                   Ok \<lparr>ap_sequence = sequence, ap_sample_timestamp = sample_timestamp,
                       ap_flags = datagram ! 5, ap_payload = payload\<rparr>))"

section \<open>The jitter buffer\<close>

text \<open>
  The packets by sequence number, in a \<open>BTreeMap\<close>. \<open>pop_ready\<close> computes the buffered timeline in
  \<open>usize\<close>, which wraps at \<open>2^64\<close> in a release build.
\<close>

record jitter_buffer =
  jb_packets :: "(u64, audio_packet) btree"
  jb_next_sequence :: "u64 option"
  jb_target_packets :: nat
  jb_max_packets :: nat
  jb_started :: bool

definition clamp :: "nat \<Rightarrow> nat \<Rightarrow> nat \<Rightarrow> nat" where
  "clamp lo hi n = (if n < lo then lo else if n > hi then hi else n)"

definition jitter_new :: "u32 \<Rightarrow> jitter_buffer" where
  "jitter_new target_ms =
     (let target_packets = max (unat (max target_ms (ucast FRAME_MS) div ucast FRAME_MS)) 1
      in \<lparr>jb_packets = [], jb_next_sequence = None, jb_target_packets = target_packets,
          jb_max_packets = clamp 24 96 (target_packets * 3), jb_started = False\<rparr>)"

text \<open>\<open>while packets.len() > max_packets\<close>: drop the first packet and restart at the one after it.\<close>

function trim :: "nat \<Rightarrow> (u64, audio_packet) btree \<Rightarrow> u64 option
    \<Rightarrow> (u64, audio_packet) btree \<times> u64 option" where
  "trim bound packets next =
     (if length packets > bound
      then (let packets' = tl packets
            in trim bound packets' (case packets' of [] \<Rightarrow> None | e # _ \<Rightarrow> Some (fst e)))
      else (packets, next))"
  by pat_completeness auto
termination
  by (relation "measure (\<lambda>(bound, packets, next). length packets)") auto

declare trim.simps [simp del]

definition jitter_push :: "jitter_buffer \<Rightarrow> audio_packet \<Rightarrow> bool \<times> jitter_buffer" where
  "jitter_push b p =
     (if jb_started b \<and> (case jb_next_sequence b of None \<Rightarrow> False | Some next \<Rightarrow> ap_sequence p < next)
      then (False, b)
      else (let next1 = (if jb_started b then jb_next_sequence b
                         else Some (case jb_next_sequence b of None \<Rightarrow> ap_sequence p
                                    | Some next \<Rightarrow> min next (ap_sequence p)));
                next2 = (case next1 of None \<Rightarrow> Some (ap_sequence p) | Some n \<Rightarrow> Some n);
                inserted = (bt_get (jb_packets b) (ap_sequence p) = None);
                (packets, next3) = trim (jb_max_packets b) (bt_insert (ap_sequence p) p (jb_packets b)) next2
            in (inserted, b\<lparr>jb_packets := packets, jb_next_sequence := next3\<rparr>)))"

definition saturating_sub :: "u64 \<Rightarrow> u64 \<Rightarrow> u64" where
  "saturating_sub a b = (if a < b then 0 else a - b)"

text \<open>None: not enough buffered. Some None: the packet of this slot is missing.\<close>

definition pop_ready :: "jitter_buffer \<Rightarrow> audio_packet option option \<times> jitter_buffer" where
  "pop_ready b =
     (case jb_next_sequence b of
        None \<Rightarrow> (None, b)
      | Some sequence \<Rightarrow>
          if jb_packets b = [] then (None, b)
          else (let highest = fst (last (jb_packets b));
                    buffered_timeline = (unat (saturating_sub highest sequence) + 1) mod 2 ^ 64
                in if buffered_timeline < jb_target_packets b then (None, b)
                   else (Some (bt_get (jb_packets b) sequence),
                         b\<lparr>jb_started := True, jb_next_sequence := Some (sequence + 1),
                           jb_packets := bt_remove sequence (jb_packets b)\<rparr>)))"

section \<open>Lemmas on datagrams\<close>

definition cipher_wf :: "packet_cipher \<Rightarrow> bool" where
  "cipher_wf c \<longleftrightarrow> length (pc_session_id c) = 16 \<and> length (pc_session_salt c) = 4"

definition aead_ok :: "aead \<Rightarrow> bool" where
  "aead_ok lib \<longleftrightarrow>
     (\<forall>k n a m c. (aead_encrypt lib k n a m = Some c) = (aead_decrypt lib k n a c = Some m)) \<and>
     (\<forall>k n a m c. aead_encrypt lib k n a m = Some c \<longrightarrow> length c = length m + 16)"

lemma slice_append: "length xs = a \<Longrightarrow> length ys = b - a \<Longrightarrow> slice a b (xs @ ys @ zs) = ys"
  by (simp add: slice_def)

lemma take_slice: "a \<le> b \<Longrightarrow> take b d = take a d @ slice a b d"
  by (metis le_add_diff_inverse slice_def take_add)

lemma length_slice: "a \<le> b \<Longrightarrow> b \<le> length d \<Longrightarrow> length (slice a b d) = b - a"
  by (simp add: slice_def)

lemma length_MAGIC [simp]: "length MAGIC = 4"
  by (simp add: MAGIC_def)

lemma length_header: "cipher_wf c \<Longrightarrow> length (packet_header c q t f) = HEADER_LEN"
  by (simp add: packet_header_def cipher_wf_def HEADER_LEN_def)

lemma word_from_be_bytes:
  "length s = 8 \<Longrightarrow> be_bytes 8 (unat (of_nat (from_be_bytes s) :: u64)) = s"
  "length s = 4 \<Longrightarrow> be_bytes 4 (unat (of_nat (from_be_bytes s) :: u32)) = s"
proof -
  show "be_bytes 8 (unat (of_nat (from_be_bytes s) :: u64)) = s" if "length s = 8"
  proof -
    have "from_be_bytes s < 2 ^ LENGTH(64)"
      using from_be_bytes_lt [of s] that by simp
    then have "unat (of_nat (from_be_bytes s) :: u64) = from_be_bytes s"
      by (simp only: unat_of_nat mod_less)
    then show ?thesis
      using be_bytes_from_be_bytes [of s] that by simp
  qed
  show "be_bytes 4 (unat (of_nat (from_be_bytes s) :: u32)) = s" if "length s = 4"
  proof -
    have "from_be_bytes s < 2 ^ LENGTH(32)"
      using from_be_bytes_lt [of s] that by simp
    then have "unat (of_nat (from_be_bytes s) :: u32) = from_be_bytes s"
      by (simp only: unat_of_nat mod_less)
    then show ?thesis
      using be_bytes_from_be_bytes [of s] that by simp
  qed
qed

lemma from_be_bytes_word:
  "of_nat (from_be_bytes (be_bytes 8 (unat (q :: u64)))) = q"
  "of_nat (from_be_bytes (be_bytes 4 (unat (t :: u32)))) = t"
proof -
  have "unat q < 256 ^ 8" "unat t < 256 ^ 4"
    using unat_lt_pow [of q] unat_lt_pow [of t] by simp_all
  then have "from_be_bytes (be_bytes 8 (unat q)) = unat q" "from_be_bytes (be_bytes 4 (unat t)) = unat t"
    by (simp_all only: from_be_bytes_be_bytes)
  then show "of_nat (from_be_bytes (be_bytes 8 (unat q))) = q" "of_nat (from_be_bytes (be_bytes 4 (unat t))) = t"
    by simp_all
qed

lemma header_fields:
  fixes c :: packet_cipher and q :: u64 and t :: u32 and f :: u8 and enc :: bytes
  assumes "cipher_wf c"
  defines "d \<equiv> packet_header c q t f @ enc"
  shows "take 4 d = MAGIC" "d ! 4 = VERSION" "d ! 5 = f" "slice 6 8 d = be_bytes 2 HEADER_LEN"
    "slice 8 24 d = pc_session_id c" "slice 24 32 d = be_bytes 8 (unat q)"
    "slice 32 36 d = be_bytes 4 (unat t)" "take HEADER_LEN d = packet_header c q t f"
    "drop HEADER_LEN d = enc"
proof -
  have id: "length (pc_session_id c) = 16"
    using assms(1) by (simp add: cipher_wf_def)
  show "take 4 d = MAGIC" "d ! 4 = VERSION" "d ! 5 = f"
    by (simp_all add: d_def packet_header_def nth_append)
  show "slice 6 8 d = be_bytes 2 HEADER_LEN"
    using slice_append [of "MAGIC @ [VERSION, f]" 6 "be_bytes 2 HEADER_LEN" 8]
    by (simp add: d_def packet_header_def)
  show "slice 8 24 d = pc_session_id c"
    using slice_append [of "MAGIC @ [VERSION, f] @ be_bytes 2 HEADER_LEN" 8 "pc_session_id c" 24] id
    by (simp add: d_def packet_header_def)
  show "slice 24 32 d = be_bytes 8 (unat q)"
    using slice_append [of "MAGIC @ [VERSION, f] @ be_bytes 2 HEADER_LEN @ pc_session_id c" 24
        "be_bytes 8 (unat q)" 32] id
    by (simp add: d_def packet_header_def)
  show "slice 32 36 d = be_bytes 4 (unat t)"
    using slice_append [of "MAGIC @ [VERSION, f] @ be_bytes 2 HEADER_LEN @ pc_session_id c @
        be_bytes 8 (unat q)" 32 "be_bytes 4 (unat t)" 36] id
    by (simp add: d_def packet_header_def)
  show "take HEADER_LEN d = packet_header c q t f" "drop HEADER_LEN d = enc"
    using length_header [OF assms(1)] by (simp_all add: d_def)
qed

lemma header_rebuilt:
  assumes "HEADER_LEN + 16 \<le> length d" "take 4 d = MAGIC" "d ! 4 = VERSION"
    and "from_be_bytes (slice 6 8 d) = HEADER_LEN" "slice 8 24 d = pc_session_id c"
  shows "take HEADER_LEN d = packet_header c (of_nat (from_be_bytes (slice 24 32 d)))
    (of_nat (from_be_bytes (slice 32 36 d))) (d ! 5)"
proof -
  have len: "52 \<le> length d"
    using assms(1) by (simp add: HEADER_LEN_def)
  have two: "slice 4 6 d = [d ! 4, d ! 5]"
    using len by (simp add: slice_def take_Suc_conv_app_nth numeral_2_eq_2 Cons_nth_drop_Suc [symmetric])
  have six: "slice 6 8 d = be_bytes 2 HEADER_LEN"
    using be_bytes_from_be_bytes [of "slice 6 8 d"] len assms(4) by (simp add: length_slice)
  have "take 36 d = take 4 d @ slice 4 6 d @ slice 6 8 d @ slice 8 24 d @ slice 24 32 d @ slice 32 36 d"
    by (simp add: take_slice [of 32 36] take_slice [of 24 32] take_slice [of 8 24] take_slice [of 6 8]
        take_slice [of 4 6])
  then show ?thesis
    using len assms(2,3,5) two six
    by (simp add: packet_header_def HEADER_LEN_def word_from_be_bytes length_slice)
qed

lemma nonce_inject: "nonce c q = nonce c r \<longleftrightarrow> q = r"
proof -
  have "be_bytes 8 (unat q) = be_bytes 8 (unat r) \<longleftrightarrow> q = r"
    by (metis from_be_bytes_word(1))
  then show ?thesis
    by (simp add: nonce_def)
qed

section \<open>Lemmas on the jitter buffer\<close>

lemma trim_result:
  "trim bound packets nx =
     (drop (length packets - bound) packets,
      if length packets > bound
      then (case drop (length packets - bound) packets of [] \<Rightarrow> None | e # _ \<Rightarrow> Some (fst e)) else nx)"
proof (induction bound packets nx rule: trim.induct)
  case (1 bound packets nx)
  show ?case
  proof (cases "length packets > bound")
    case False
    then show ?thesis by (subst trim.simps) simp
  next
    case True
    then have d: "drop (length (tl packets) - bound) (tl packets) = drop (length packets - bound) packets"
      by (cases packets) (simp_all add: Suc_diff_le)
    have "length (tl packets) \<le> bound \<Longrightarrow> tl packets = drop (length packets - bound) packets"
      using d by simp
    with 1 [OF True refl] True d show ?thesis
      by (subst trim.simps) (auto simp: Let_def)
  qed
qed

definition jitter_wf :: "jitter_buffer \<Rightarrow> bool" where
  "jitter_wf b \<longleftrightarrow>
     bt_wf (jb_packets b) \<and> (\<forall>e\<in>set (jb_packets b). ap_sequence (snd e) = fst e \<and> fst e \<noteq> - 1) \<and>
     length (jb_packets b) \<le> jb_max_packets b \<and> 0 < jb_max_packets b \<and>
     (jb_packets b \<noteq> [] \<or> jb_started b \<longrightarrow> jb_next_sequence b \<noteq> None) \<and>
     (\<forall>n. jb_next_sequence b = Some n \<longrightarrow> (\<forall>e\<in>set (jb_packets b). n \<le> fst e))"

lemma bt_wf_drop: "bt_wf t \<Longrightarrow> bt_wf (drop n t)"
  by (simp add: bt_wf_def drop_map [symmetric] sorted_wrt_drop)

lemma bt_wf_hd: "bt_wf (e # t) \<Longrightarrow> x \<in> set (e # t) \<Longrightarrow> fst e \<le> fst x"
  by (auto simp: bt_wf_def)

text \<open>The buffer under any arrivals and reads, and the packets it hands out.\<close>

datatype jitter_op = PushOp audio_packet | PopOp

fun jitter_step :: "jitter_buffer \<Rightarrow> jitter_op \<Rightarrow> jitter_buffer" where
  "jitter_step b (PushOp p) =
     (if ap_sequence p = - 1 then b else snd (jitter_push b p))"
| "jitter_step b PopOp = snd (pop_ready b)"

fun emitted :: "jitter_buffer \<Rightarrow> jitter_op list \<Rightarrow> audio_packet list" where
  "emitted b [] = []"
| "emitted b (PushOp p # ops) = emitted (jitter_step b (PushOp p)) ops"
| "emitted b (PopOp # ops) =
     (case fst (pop_ready b) of Some (Some p) \<Rightarrow> [p] | _ \<Rightarrow> []) @ emitted (jitter_step b PopOp) ops"

lemma push_wf:
  assumes wf: "jitter_wf b" and p: "ap_sequence p \<noteq> - 1"
  shows "jitter_wf (snd (jitter_push b p)) \<and>
    (jb_started b \<longrightarrow> (\<exists>n m. jb_next_sequence b = Some n \<and>
       jb_next_sequence (snd (jitter_push b p)) = Some m \<and> n \<le> m)) \<and>
    jb_started (snd (jitter_push b p)) = jb_started b"
proof (cases "jb_started b \<and> (\<exists>n. jb_next_sequence b = Some n \<and> ap_sequence p < n)")
  case True
  then show ?thesis
    using wf by (auto simp: jitter_push_def)
next
  case False
  define t where "t = bt_insert (ap_sequence p) p (jb_packets b)"
  define n where "n = (if jb_started b then the (jb_next_sequence b)
    else (case jb_next_sequence b of None \<Rightarrow> ap_sequence p | Some m \<Rightarrow> min m (ap_sequence p)))"
  have started: "jb_started b \<Longrightarrow> jb_next_sequence b = Some n"
    using wf by (auto simp: jitter_wf_def n_def)
  have t: "bt_wf t" "\<forall>e\<in>set t. ap_sequence (snd e) = fst e \<and> fst e \<noteq> - 1" "t \<noteq> []"
    "length t \<le> Suc (jb_max_packets b)"
  proof -
    show "bt_wf t"
      using wf by (simp add: t_def bt_wf_insert jitter_wf_def)
    show "\<forall>e\<in>set t. ap_sequence (snd e) = fst e \<and> fst e \<noteq> - 1"
      using set_bt_insert_subset [of "ap_sequence p" p "jb_packets b"] wf p
      by (auto simp: t_def jitter_wf_def)
    show "t \<noteq> []"
      using fst_set_bt_insert [of "ap_sequence p" p "jb_packets b"] by (auto simp: t_def)
    show "length t \<le> Suc (jb_max_packets b)"
      using length_bt_insert [of "ap_sequence p" p "jb_packets b"] wf by (simp add: t_def jitter_wf_def)
  qed
  have nle: "n \<le> ap_sequence p"
  proof (cases "jb_started b")
    case True
    with False started show ?thesis by (simp add: not_less)
  next
    case False
    then show ?thesis by (cases "jb_next_sequence b") (simp_all add: n_def)
  qed
  have old: "n \<le> m" if "jb_next_sequence b = Some m" for m
    using that by (cases "jb_started b") (simp_all add: n_def)
  have below: "\<forall>e\<in>set t. n \<le> fst e"
  proof
    fix e
    assume "e \<in> set t"
    then consider "fst e = ap_sequence p" | "e \<in> set (jb_packets b)"
      using set_bt_insert_subset [of "ap_sequence p" p "jb_packets b"] by (auto simp: t_def)
    then show "n \<le> fst e"
    proof cases
      case 1
      then show ?thesis
        using nle by simp
    next
      case 2
      then have "jb_packets b \<noteq> []"
        by auto
      then obtain m where m: "jb_next_sequence b = Some m"
        using wf by (auto simp: jitter_wf_def)
      then have "m \<le> fst e"
        using wf 2 by (simp add: jitter_wf_def)
      with old [OF m] show ?thesis
        by simp
    qed
  qed
  obtain ts nx where tr: "trim (jb_max_packets b) t (Some n) = (ts, nx)"
    by (cases "trim (jb_max_packets b) t (Some n)")
  have res: "snd (jitter_push b p) = b\<lparr>jb_packets := ts, jb_next_sequence := nx\<rparr>"
  proof -
    have guard: "\<not> (jb_started b \<and> (case jb_next_sequence b of None \<Rightarrow> False | Some m \<Rightarrow> ap_sequence p < m))"
      using False by (cases "jb_next_sequence b") simp_all
    have first: "(case (if jb_started b then jb_next_sequence b
        else Some (case jb_next_sequence b of None \<Rightarrow> ap_sequence p | Some m \<Rightarrow> min m (ap_sequence p))) of
          None \<Rightarrow> Some (ap_sequence p) | Some m \<Rightarrow> Some m) = Some n"
      using started by (cases "jb_started b"; cases "jb_next_sequence b") (simp_all add: n_def)
    show ?thesis
      unfolding jitter_push_def Let_def if_not_P [OF guard] first t_def [symmetric] tr by simp
  qed
  have pos: "0 < jb_max_packets b"
    using wf by (simp add: jitter_wf_def)
  have ts: "ts = drop (length t - jb_max_packets b) t" "ts \<noteq> []" "length ts \<le> jb_max_packets b"
  proof -
    show *: "ts = drop (length t - jb_max_packets b) t"
      using tr by (simp add: trim_result)
    have "0 < length t"
      using t(3) by simp
    then have "0 < length ts"
      using pos by (simp add: *)
    then show "ts \<noteq> []"
      by simp
    show "length ts \<le> jb_max_packets b"
      by (simp add: *)
  qed
  have sub: "set ts \<subseteq> set t"
    using ts(1) by (simp add: set_drop_subset)
  have wfts: "bt_wf ts"
    using ts(1) t(1) by (simp add: bt_wf_drop)
  obtain m where m: "nx = Some m" "n \<le> m" "\<forall>e\<in>set ts. m \<le> fst e"
  proof (cases "length t > jb_max_packets b")
    case True
    obtain e r where e: "ts = e # r"
      using ts(2) by (cases ts) auto
    then have "nx = Some (fst e)"
      using tr True ts(1) by (auto simp: trim_result)
    moreover have "n \<le> fst e"
      using below sub e by auto
    ultimately show ?thesis
      using that bt_wf_hd wfts e by metis
  next
    case False
    then show ?thesis
      using that tr below sub by (auto simp: trim_result)
  qed
  show ?thesis
    using wf wfts ts(2,3) t(2) sub m started unfolding res jitter_wf_def by auto
qed

lemma word_less_succ:
  fixes n :: "'a::len word"
  assumes "n \<noteq> - 1"
  shows "n < n + 1"
proof -
  have "unat n \<noteq> 2 ^ LENGTH('a) - 1"
    using assms by (metis unat_minus_one_max word_unat_eq_iff)
  then have "unat n + 1 < 2 ^ LENGTH('a)"
    using unat_lt_pow [of n] by linarith
  then show ?thesis
    by (simp add: word_less_nat_alt unat_word_ariths)
qed

lemma pop_wf:
  assumes wf: "jitter_wf b"
  shows "jitter_wf (snd (pop_ready b)) \<and>
    (\<forall>n. jb_next_sequence b = Some n \<longrightarrow> (\<exists>m. jb_next_sequence (snd (pop_ready b)) = Some m \<and> n \<le> m)) \<and>
    (jb_started b \<longrightarrow> jb_started (snd (pop_ready b))) \<and>
    (\<forall>p. fst (pop_ready b) = Some (Some p) \<longrightarrow>
       jb_started (snd (pop_ready b)) \<and> jb_next_sequence b = Some (ap_sequence p) \<and>
       (\<exists>m. jb_next_sequence (snd (pop_ready b)) = Some m \<and> ap_sequence p < m))"
proof (cases "fst (pop_ready b)")
  case None
  then show ?thesis
    using wf by (auto simp: pop_ready_def Let_def split: option.splits if_splits)
next
  case (Some slot)
  then obtain n where n: "jb_next_sequence b = Some n" "jb_packets b \<noteq> []"
      "pop_ready b = (Some (bt_get (jb_packets b) n), b\<lparr>jb_started := True, jb_next_sequence := Some (n + 1),
         jb_packets := bt_remove n (jb_packets b)\<rparr>)"
    by (auto simp: pop_ready_def Let_def split: option.splits if_splits)
  obtain e where "e \<in> set (jb_packets b)"
    using n(2) by (cases "jb_packets b") auto
  then have "n \<le> fst e" "fst e \<noteq> - 1"
    using wf n(1) by (auto simp: jitter_wf_def)
  then have "n \<noteq> - 1"
    by (metis word_order.extremum_unique)
  then have lt: "n < n + 1"
    by (rule word_less_succ)
  have step: "n + 1 \<le> fst e" if "e \<in> set (bt_remove n (jb_packets b))" for e
  proof -
    have e: "e \<in> set (jb_packets b)" "fst e \<noteq> n"
      using that by (simp_all add: bt_remove_def)
    have "n \<le> fst e"
      using wf n(1) e(1) by (simp add: jitter_wf_def)
    then have "n < fst e"
      using e(2) by simp
    then show ?thesis
      by (rule inc_le)
  qed
  have "jitter_wf (snd (pop_ready b))"
    using wf step unfolding n(3) jitter_wf_def
    by (auto simp: bt_wf_remove [unfolded bt_remove_def] bt_remove_def intro: order_trans [OF length_filter_le])
  moreover have "ap_sequence p = n" if "bt_get (jb_packets b) n = Some p" for p
    using bt_get_in [OF that] wf by (auto simp: jitter_wf_def)
  ultimately show ?thesis
    using n lt by (auto simp: less_imp_le)
qed

lemma jitter_step_wf: "jitter_wf b \<Longrightarrow> jitter_wf (jitter_step b op)"
  using push_wf pop_wf by (cases op) auto

interpretation jitter: guarded_machine jitter_step jitter_wf
  by unfold_locales (rule jitter_step_wf)

lemma emitted_above:
  assumes "jitter_wf b" "p \<in> set (emitted b ops)" "jb_started b" "jb_next_sequence b = Some n"
  shows "n \<le> ap_sequence p"
  using assms
proof (induction b ops arbitrary: n rule: emitted.induct)
  case (2 b q ops)
  have wf: "jitter_wf (jitter_step b (PushOp q))"
    using 2(2) by (rule jitter_step_wf)
  show ?case
  proof (cases "ap_sequence q = - 1")
    case True
    then show ?thesis using 2 by simp
  next
    case False
    from push_wf [OF 2(2) False] 2(4,5) obtain m where
      m: "jb_next_sequence (snd (jitter_push b q)) = Some m" "n \<le> m" "jb_started (snd (jitter_push b q))"
      by auto
    have "m \<le> ap_sequence p"
      using 2(1) [of m] wf m 2(3) False by simp
    with m(2) show ?thesis by simp
  qed
next
  case (3 b ops)
  have wf: "jitter_wf (jitter_step b PopOp)"
    using 3(2) by (rule jitter_step_wf)
  from pop_wf [OF 3(2)] 3(4,5) obtain m where
    m: "jb_next_sequence (snd (pop_ready b)) = Some m" "n \<le> m" "jb_started (snd (pop_ready b))"
    by auto
  have first: "ap_sequence q = n" if "fst (pop_ready b) = Some (Some q)" for q
    using pop_wf [OF 3(2)] that 3(5) by auto
  from 3(3) consider "fst (pop_ready b) = Some (Some p)" | "p \<in> set (emitted (jitter_step b PopOp) ops)"
    by (auto split: option.splits)
  then show ?case
  proof cases
    case 1
    then show ?thesis using first by simp
  next
    case 2
    have "m \<le> ap_sequence p"
      using 3(1) [of m] wf m 2 by simp
    with m(2) show ?thesis by simp
  qed
qed simp

lemma emitted_sorted:
  assumes "jitter_wf b"
  shows "sorted_wrt (<) (map ap_sequence (emitted b ops))"
  using assms
proof (induction b ops rule: emitted.induct)
  case (2 b q ops)
  show ?case
    using 2(1) [OF jitter_step_wf [OF 2(2)]] by (simp only: emitted.simps)
next
  case (3 b ops)
  have wf: "jitter_wf (jitter_step b PopOp)"
    using 3(2) by (rule jitter_step_wf)
  have rest: "sorted_wrt (<) (map ap_sequence (emitted (jitter_step b PopOp) ops))"
    using 3(1) wf by simp
  show ?case
  proof (cases "\<exists>q. fst (pop_ready b) = Some (Some q)")
    case True
    then obtain q where q: "fst (pop_ready b) = Some (Some q)" ..
    with pop_wf [OF 3(2)] obtain m where
      m: "jb_started (jitter_step b PopOp)" "jb_next_sequence (jitter_step b PopOp) = Some m" "ap_sequence q < m"
      by auto
    have "ap_sequence q < ap_sequence p" if "p \<in> set (emitted (jitter_step b PopOp) ops)" for p
      using emitted_above [OF wf that m(1,2)] m(3) by (rule less_le_trans [rotated])
    then show ?thesis
      using rest q by simp
  next
    case False
    then show ?thesis
      using rest by (auto split: option.splits)
  qed
qed simp

lemma jitter_new_wf: "jitter_wf (jitter_new ms)"
  by (simp add: jitter_wf_def jitter_new_def Let_def clamp_def)

lemma jitter_step_max: "jb_max_packets (jitter_step b op) = jb_max_packets b"
  by (cases op) (auto simp: jitter_push_def pop_ready_def Let_def split: option.splits prod.splits)

interpretation jitter_max: guarded_machine jitter_step "\<lambda>b. jb_max_packets b = n" for n
  by unfold_locales (simp add: jitter_step_max)

section \<open>Properties\<close>

text \<open>C30: An audio datagram is accepted exactly when it is what the sender sealed: with an AEAD that
  opens what it sealed and nothing else, \<open>open\<close> returns a packet from a datagram if and only if sealing
  that packet gives that datagram, so every header field is covered, and two packets with different
  sequence numbers never share a nonce.\<close>

theorem audio_open_iff_seal:
  assumes "aead_ok lib" and "cipher_wf c"
  shows "(open_datagram lib c d = Ok p \<longleftrightarrow> seal lib c p = Ok d) \<and> (nonce c q = nonce c r \<longleftrightarrow> q = r)"
proof -
  let ?h = "packet_header c (ap_sequence p) (ap_sample_timestamp p) (ap_flags p)"
  have "open_datagram lib c d = Ok p" if sealed: "seal lib c p = Ok d"
  proof -
    let ?e = "aead_encrypt lib (pc_key c) (nonce c (ap_sequence p)) ?h (ap_payload p)"
    obtain enc where enc: "?e = Some enc"
      using sealed by (cases ?e) (simp_all add: seal_def seal_payload_def Let_def)
    have d: "d = ?h @ enc" "\<not> MAX_DATAGRAM_BYTES < length (?h @ enc)"
      using sealed enc by (simp_all add: seal_def seal_payload_def Let_def split: if_splits)
    have len: "length enc = length (ap_payload p) + 16"
      "aead_decrypt lib (pc_key c) (nonce c (ap_sequence p)) ?h enc = Some (ap_payload p)"
      using assms(1) enc by (auto simp: aead_ok_def)
    note f = header_fields [OF assms(2), where q = "ap_sequence p" and t = "ap_sample_timestamp p" and
        f = "ap_flags p" and enc = enc, folded d(1)]
    have "from_be_bytes (slice 6 8 d) = HEADER_LEN"
      by (simp add: f(4) HEADER_LEN_def)
    moreover have "length d = HEADER_LEN + length enc"
      by (simp add: d(1) length_header [OF assms(2)])
    ultimately show ?thesis
      using d(2) [folded d(1)] len f
      by (simp add: open_datagram_def from_be_bytes_word Let_def)
  qed
  moreover have "seal lib c p = Ok d" if open_ok: "open_datagram lib c d = Ok p"
  proof -
    let ?q = "of_nat (from_be_bytes (slice 24 32 d))" and ?t = "of_nat (from_be_bytes (slice 32 36 d))"
    have d: "HEADER_LEN + 16 \<le> length d" "length d \<le> MAX_DATAGRAM_BYTES" "take 4 d = MAGIC" "d ! 4 = VERSION"
        "from_be_bytes (slice 6 8 d) = HEADER_LEN" "slice 8 24 d = pc_session_id c"
      and p: "ap_sequence p = ?q" "ap_sample_timestamp p = ?t" "ap_flags p = d ! 5"
        "aead_decrypt lib (pc_key c) (nonce c ?q) (take HEADER_LEN d) (drop HEADER_LEN d) = Some (ap_payload p)"
      using open_ok by (auto simp: open_datagram_def Let_def split: if_splits option.splits)
    have h: "?h = take HEADER_LEN d"
      by (simp only: p(1-3) header_rebuilt [OF d(1,3-6)])
    have "aead_encrypt lib (pc_key c) (nonce c (ap_sequence p)) ?h (ap_payload p) = Some (drop HEADER_LEN d)"
      using assms(1) p(4) unfolding aead_ok_def h p(1) [symmetric] by simp
    then show ?thesis
      using d(2) by (simp add: seal_def seal_payload_def Let_def h del: length_append)
  qed
  ultimately show ?thesis
    using nonce_inject by blast
qed

definition tagging_aead :: aead where
  "tagging_aead =
     \<lparr>aead_encrypt = (\<lambda>k n a m. Some (m @ replicate 16 7)),
      aead_decrypt = (\<lambda>k n a c. if 16 \<le> length c \<and> drop (length c - 16) c = replicate 16 7
                               then Some (take (length c - 16) c) else None)\<rparr>"

lemma tagging_aead_ok: "aead_ok tagging_aead"
proof -
  have "m @ replicate 16 7 = c \<longleftrightarrow>
      16 \<le> length c \<and> drop (length c - 16) c = replicate 16 7 \<and> take (length c - 16) c = m" for m c :: bytes
    by (metis (no_types, lifting) add_diff_cancel_right' append_eq_conv_conj append_take_drop_id le_add2
        length_append length_replicate)
  then show ?thesis
    by (auto simp: aead_ok_def tagging_aead_def)
qed

theorem audio_open_iff_seal_witness:
  "\<exists>c p d. seal tagging_aead c p = Ok d \<and> open_datagram tagging_aead c d = Ok p \<and> nonce c 1 \<noteq> nonce c 2"
proof -
  define c where "c = \<lparr>pc_session_id = replicate 16 1, pc_session_salt = replicate 4 2, pc_key = []\<rparr>"
  define p where "p = \<lparr>ap_sequence = 5, ap_sample_timestamp = 240, ap_flags = 0, ap_payload = [9, 8]\<rparr>"
  have wf: "cipher_wf c"
    by (simp add: c_def cipher_wf_def)
  obtain d where d: "seal tagging_aead c p = Ok d"
    using length_header [OF wf]
    by (simp add: seal_def seal_payload_def tagging_aead_def Let_def MAX_DATAGRAM_BYTES_def HEADER_LEN_def p_def)
  then show ?thesis
    using audio_open_iff_seal [OF tagging_aead_ok wf, of d p 1 2] by auto
qed

text \<open>C31: Playback never goes back: whatever the order, loss and duplication of arriving packets (with a
  sequence number other than \<open>2^64 - 1\<close>), the packets handed to playback have strictly increasing
  sequence numbers, and the buffer never holds more than its bound, which is between 24 and 96.\<close>

theorem jitter_in_order_and_bounded:
  fixes ops and ms
  defines "b \<equiv> foldl jitter_step (jitter_new ms) ops"
  shows "sorted_wrt (<) (map ap_sequence (emitted (jitter_new ms) ops)) \<and>
    length (jb_packets b) \<le> jb_max_packets b \<and> 24 \<le> jb_max_packets b \<and> jb_max_packets b \<le> 96"
proof -
  have "jb_max_packets b = jb_max_packets (jitter_new ms)"
    unfolding b_def by (rule jitter_max.run_inv) simp
  moreover have "24 \<le> jb_max_packets (jitter_new ms) \<and> jb_max_packets (jitter_new ms) \<le> 96"
    by (simp add: jitter_new_def Let_def clamp_def)
  moreover have "jitter_wf b"
    unfolding b_def by (rule jitter.run_inv) (rule jitter_new_wf)
  ultimately show ?thesis
    using emitted_sorted [OF jitter_new_wf] by (auto simp: jitter_wf_def)
qed

end
