(* ===== verification/PhonePairing.thy ===== *)
theory PhonePairing
  imports Machines "HOL-Library.Sublist" "HOL-Library.Product_Lexorder"
begin

text \<open>
  The phone pairing window of \<open>phone_pairing.rs\<close>: the one-time token with its expiry, the limit on
  wrong tokens per address, the comparison of tokens, the link shown as a QR code and the choice of
  the addresses in it. The random bytes of the token are an argument, and so is \<open>show_ip\<close>, the
  \<open>Display\<close> of an address.
\<close>

section \<open>Addresses\<close>

datatype ip_addr = V4 u32 | V6 "128 word"

text \<open>The derived order: every IPv4 address before every IPv6 address.\<close>

instantiation ip_addr :: linorder
begin

fun less_eq_ip_addr :: "ip_addr \<Rightarrow> ip_addr \<Rightarrow> bool" where
  "less_eq_ip_addr (V4 a) (V4 b) = (a \<le> b)"
| "less_eq_ip_addr (V4 a) (V6 b) = True"
| "less_eq_ip_addr (V6 a) (V4 b) = False"
| "less_eq_ip_addr (V6 a) (V6 b) = (a \<le> b)"

definition less_ip_addr :: "ip_addr \<Rightarrow> ip_addr \<Rightarrow> bool" where
  "less_ip_addr a b = (a \<le> b \<and> \<not> b \<le> a)"

instance
proof
  fix x y z :: ip_addr
  show "x < y \<longleftrightarrow> x \<le> y \<and> \<not> y \<le> x"
    by (rule less_ip_addr_def)
  show "x \<le> x"
    by (cases x) simp_all
  show "x \<le> y \<or> y \<le> x"
    by (cases x; cases y) (simp_all add: linear)
  show "x = y" if "x \<le> y" "y \<le> x"
    using that by (cases x; cases y) simp_all
  show "x \<le> z" if "x \<le> y" "y \<le> z"
    using that by (cases x; cases y; cases z) simp_all
qed

end

definition is_ipv6 :: "ip_addr \<Rightarrow> bool" where
  "is_ipv6 ip = (case ip of V4 _ \<Rightarrow> False | V6 _ \<Rightarrow> True)"

definition is_unspecified :: "ip_addr \<Rightarrow> bool" where
  "is_unspecified ip = (case ip of V4 a \<Rightarrow> a = 0 | V6 a \<Rightarrow> a = 0)"

definition is_loopback :: "ip_addr \<Rightarrow> bool" where
  "is_loopback ip = (case ip of V4 a \<Rightarrow> drop_bit 24 a = 127 | V6 a \<Rightarrow> a = 1)"

definition is_link_local :: "ip_addr \<Rightarrow> bool" where
  "is_link_local ip =
     (case ip of V4 a \<Rightarrow> drop_bit 16 a = 0xA9FE | V6 a \<Rightarrow> drop_bit 112 a AND 0xFFC0 = 0xFE80)"

definition is_usable_lan_ip :: "ip_addr \<Rightarrow> bool" where
  "is_usable_lan_ip ip = (\<not> is_loopback ip \<and> \<not> is_link_local ip \<and> \<not> is_unspecified ip)"

definition tunnel_prefixes :: "string list" where
  "tunnel_prefixes =
     [''lo'', ''tun'', ''tap'', ''wg'', ''ppp'', ''docker'', ''br-'', ''veth'', ''virbr'', ''vnet'', ''zt'',
      ''tailscale'']"

definition is_tunnel_or_virtual :: "string \<Rightarrow> bool" where
  "is_tunnel_or_virtual name = (list_ex (\<lambda>p. prefix p name) tunnel_prefixes \<or> sublist ''pia'' name)"

definition select_lan_addresses :: "(string \<times> ip_addr) list \<Rightarrow> ip_addr \<Rightarrow> ip_addr list" where
  "select_lan_addresses interfaces listen =
     (if \<not> is_unspecified listen then [listen]
      else remdups_adj (sort_key (\<lambda>ip. (is_ipv6 ip, ip))
        (map snd (filter (\<lambda>(name, ip). \<not> is_tunnel_or_virtual name \<and> is_usable_lan_ip ip \<and>
                                        (is_ipv6 listen \<or> \<not> is_ipv6 ip)) interfaces))))"

section \<open>The window\<close>

definition PAIRING_WINDOW :: duration where
  "PAIRING_WINDOW = from_secs (5 * 60)"

definition FREE_FAILURES :: u32 where
  "FREE_FAILURES = 3"

definition FAILURE_SPACING :: duration where
  "FAILURE_SPACING = from_secs 1"

datatype pairing_refusal = Closed | WrongToken | RateLimited | RefusalFailed

fun refusal_code :: "pairing_refusal \<Rightarrow> string" where
  "refusal_code Closed = ''pairing_closed''"
| "refusal_code WrongToken = ''pairing_wrong_token''"
| "refusal_code RateLimited = ''pairing_rate_limited''"
| "refusal_code RefusalFailed = ''pairing_failed''"

fun refusal_message :: "pairing_refusal \<Rightarrow> string" where
  "refusal_message Closed = ''pairing isn't open on the computer; run pair-phone again''"
| "refusal_message WrongToken = ''the pairing code doesn't match; scan the current QR code''"
| "refusal_message RateLimited = ''too many wrong pairing codes; wait a moment''"
| "refusal_message RefusalFailed = ''the computer couldn't save the pairing; see its log''"

record failures =
  fl_count :: u32
  fl_last :: instant

record pairing_window =
  pw_token :: string
  pw_expires :: instant
  pw_failures :: "ip_addr \<Rightarrow> failures option"

definition hex_digit :: "u8 \<Rightarrow> char" where
  "hex_digit n = (''0123456789abcdef'') ! unat n"

definition hex_byte :: "u8 \<Rightarrow> string" where
  "hex_byte b = [hex_digit (drop_bit 4 b), hex_digit (b AND 15)]"

definition window_open :: "bytes \<Rightarrow> instant \<Rightarrow> pairing_window" where
  "window_open random now =
     \<lparr>pw_token = concat (map hex_byte random), pw_expires = now + PAIRING_WINDOW, pw_failures = Map.empty\<rparr>"

definition window_is_open :: "pairing_window \<Rightarrow> instant \<Rightarrow> bool" where
  "window_is_open w now = (now < pw_expires w)"

definition constant_time_eq :: "bytes \<Rightarrow> bytes \<Rightarrow> bool" where
  "constant_time_eq left right =
     (length left = length right \<and>
      foldl (\<lambda>difference (a, b). difference OR (a XOR b)) 0 (zip left right) = 0)"

definition window_check ::
  "pairing_window \<Rightarrow> string \<Rightarrow> ip_addr \<Rightarrow> instant \<Rightarrow> (pairing_refusal, unit) result \<times> pairing_window" where
  "window_check w token ip now =
     (if \<not> window_is_open w now then (Err Closed, w)
      else if (case pw_failures w ip of
                 None \<Rightarrow> False
               | Some f \<Rightarrow> fl_count f \<ge> FREE_FAILURES \<and> duration_since now (fl_last f) < FAILURE_SPACING)
      then (Err RateLimited, w)
      else if constant_time_eq (as_bytes token) (as_bytes (pw_token w)) then (Ok (), w)
      else (let f = (case pw_failures w ip of None \<Rightarrow> \<lparr>fl_count = 0, fl_last = now\<rparr> | Some f \<Rightarrow> f)
            in (Err WrongToken,
                w\<lparr>pw_failures := (pw_failures w)(ip \<mapsto> \<lparr>fl_count = fl_count f + 1, fl_last = now\<rparr>)\<rparr>)))"

fun decimal :: "nat \<Rightarrow> string" where
  "decimal n = (if n < 10 then [char_of (48 + n)] else decimal (n div 10) @ [char_of (48 + n mod 10)])"

declare decimal.simps [simp del]

definition pairing_uri :: "(ip_addr \<Rightarrow> string) \<Rightarrow> ip_addr list \<Rightarrow> u16 \<Rightarrow> string \<Rightarrow> string \<Rightarrow> string" where
  "pairing_uri show_ip addresses port fingerprint token =
     foldl (\<lambda>uri address. uri @ ''&addr='' @ show_ip address)
       (''hyprmobile://pair?v=1&fp='' @ fingerprint @ ''&port='' @ decimal (unat port) @ ''&token='' @ token)
       addresses"

section \<open>Lemmas\<close>

lemma or_fold_zero:
  "foldl (\<lambda>(d :: u8) (a, b). d OR (a XOR b)) d ps = 0 \<longleftrightarrow> d = 0 \<and> (\<forall>(a, b)\<in>set ps. a = b)"
proof (induction ps arbitrary: d)
  case Nil
  then show ?case by simp
next
  case (Cons p ps)
  have "d OR (a XOR b) = 0 \<longleftrightarrow> d = 0 \<and> a = b" for a b :: u8
    by (auto simp: bit_eq_iff bit_or_iff bit_xor_iff)
  then show ?case
    by (cases p) (simp add: Cons.IH)
qed

lemma constant_time_eq_iff [simp]: "constant_time_eq left right \<longleftrightarrow> left = right"
proof (cases "length left = length right")
  case True
  then show ?thesis
    by (auto simp: constant_time_eq_def or_fold_zero list_eq_iff_zip_eq)
qed (auto simp: constant_time_eq_def)

text \<open>Attempts to pair, in order.\<close>

record attempt =
  at_token :: string
  at_ip :: ip_addr
  at_now :: instant

definition attempt_result :: "pairing_window \<Rightarrow> attempt \<Rightarrow> (pairing_refusal, unit) result" where
  "attempt_result w a = fst (window_check w (at_token a) (at_ip a) (at_now a))"

definition attempt_step :: "pairing_window \<Rightarrow> attempt \<Rightarrow> pairing_window" where
  "attempt_step w a = snd (window_check w (at_token a) (at_ip a) (at_now a))"

text \<open>When an address presented a wrong token that was compared.\<close>

fun wrong_times :: "ip_addr \<Rightarrow> pairing_window \<Rightarrow> attempt list \<Rightarrow> instant list" where
  "wrong_times ip w [] = []"
| "wrong_times ip w (a # as) =
     (if at_ip a = ip \<and> attempt_result w a = Err WrongToken then [at_now a] else []) @
     wrong_times ip (attempt_step w a) as"

abbreviation later_by_spacing :: "instant \<Rightarrow> instant \<Rightarrow> bool" where
  "later_by_spacing a b \<equiv> a + FAILURE_SPACING \<le> b"

text \<open>What the window knows of one address, given when its compared wrong tokens came.\<close>

definition tracks :: "instant \<Rightarrow> ip_addr \<Rightarrow> pairing_window \<Rightarrow> instant list \<Rightarrow> bool" where
  "tracks opened ip w ts \<longleftrightarrow>
     pw_failures w ip =
       (if ts = [] then None else Some \<lparr>fl_count = of_nat (length ts), fl_last = last ts\<rparr>) \<and>
     sorted_wrt later_by_spacing (drop 2 ts) \<and>
     (\<forall>t\<in>set ts. opened \<le> t \<and> t < pw_expires w) \<and> pw_expires w = opened + PAIRING_WINDOW"

lemma spaced_length:
  assumes "sorted_wrt later_by_spacing xs" "\<forall>t\<in>set xs. a \<le> t \<and> t < a + PAIRING_WINDOW"
  shows "length xs \<le> 300"
proof -
  have lower: "a + i * FAILURE_SPACING \<le> xs ! i" if "i < length xs" for i
    using that
  proof (induction i)
    case 0
    then show ?case using assms(2) by simp
  next
    case (Suc i)
    have "xs ! i + FAILURE_SPACING \<le> xs ! Suc i"
      using assms(1) Suc.prems by (simp add: sorted_wrt_iff_nth_less)
    with Suc show ?case by simp
  qed
  show ?thesis
  proof (rule ccontr)
    assume "\<not> length xs \<le> 300"
    then have "300 < length xs" by simp
    with lower [of 300] assms(2) show False
      by (fastforce simp: PAIRING_WINDOW_def FAILURE_SPACING_def from_secs_def dest: nth_mem)
  qed
qed

lemma tracks_length:
  assumes "tracks opened ip w ts"
  shows "length ts \<le> 302"
proof -
  have "length (drop 2 ts) \<le> 300"
    using assms by (intro spaced_length [of _ opened]) (auto simp: tracks_def dest: in_set_dropD)
  then show ?thesis by simp
qed

lemma tracks_step:
  assumes tr: "tracks opened ip w ts" and now: "opened \<le> at_now a"
  shows "tracks opened ip (attempt_step w a)
    (ts @ (if at_ip a = ip \<and> attempt_result w a = Err WrongToken then [at_now a] else []))"
proof (cases "at_ip a = ip \<and> attempt_result w a = Err WrongToken")
  case False
  then show ?thesis
    using tr by (auto simp: tracks_def attempt_step_def attempt_result_def window_check_def Let_def)
next
  case True
  let ?now = "at_now a"
  have wrong: "fst (window_check w (at_token a) ip ?now) = Err WrongToken"
    using True by (elim conjE) (simp add: attempt_result_def)
  have is_open: "?now < pw_expires w"
    and limit: "\<not> (case pw_failures w ip of None \<Rightarrow> False
      | Some f \<Rightarrow> fl_count f \<ge> FREE_FAILURES \<and> duration_since ?now (fl_last f) < FAILURE_SPACING)"
    using wrong by (auto simp: window_check_def window_is_open_def split: if_splits)
  have after: "pw_failures (attempt_step w a) ip =
      Some \<lparr>fl_count = of_nat (length (ts @ [?now])), fl_last = ?now\<rparr>"
      "pw_expires (attempt_step w a) = pw_expires w"
    using True tr wrong
    by (auto simp: attempt_step_def window_check_def Let_def tracks_def split: if_splits)
  have "sorted_wrt later_by_spacing (drop 2 (ts @ [?now]))"
  proof (cases "length ts < 3")
    case True
    then have "length (drop 2 (ts @ [?now])) \<le> 1 \<or> length ts = 2"
      by simp linarith
    then show ?thesis
      using True tr by (auto simp: tracks_def)
  next
    case False
    have "unat (of_nat (length ts) :: u32) = length ts"
      using tracks_length [OF tr] by (simp add: unat_of_nat)
    then have "(3 :: u32) \<le> of_nat (length ts)"
      using False by (simp add: word_le_nat_alt)
    then have gap: "last ts + FAILURE_SPACING \<le> ?now"
      using limit tr False
      by (auto simp: tracks_def FREE_FAILURES_def duration_since_def FAILURE_SPACING_def from_secs_def
          split: if_splits)
    have "\<forall>t\<in>set (drop 2 ts). t \<le> last ts"
    proof
      fix t
      assume "t \<in> set (drop 2 ts)"
      then show "t \<le> last ts"
        using tr False unfolding tracks_def
        by (cases "drop 2 ts" rule: rev_cases)
          (auto simp: sorted_wrt_append drop_append dest!: arg_cong [where f = last])
    qed
    then show ?thesis
      using tr gap False by (auto simp: tracks_def sorted_wrt_append intro: order_trans [OF add_right_mono])
  qed
  then show ?thesis
    using True tr after is_open now by (auto simp: tracks_def)
qed

lemma tracks_run:
  assumes "tracks opened ip w ts" "\<forall>a\<in>set as. opened \<le> at_now a"
  shows "tracks opened ip (foldl attempt_step w as) (ts @ wrong_times ip w as)"
  using assms
proof (induction as arbitrary: w ts)
  case Nil
  then show ?case by simp
next
  case (Cons a as)
  show ?case
    using Cons.IH [OF tracks_step [OF Cons.prems(1)]] Cons.prems(2) by simp
qed

section \<open>One address does not affect another\<close>

definition same_for :: "ip_addr \<Rightarrow> pairing_window \<Rightarrow> pairing_window \<Rightarrow> bool" where
  "same_for ip v w \<longleftrightarrow>
     pw_token v = pw_token w \<and> pw_expires v = pw_expires w \<and> pw_failures v ip = pw_failures w ip"

lemma check_same_for: "same_for ip v w \<Longrightarrow> fst (window_check v tok ip now) = fst (window_check w tok ip now)"
  by (simp add: same_for_def window_check_def window_is_open_def)

lemma step_same_for:
  "same_for ip v w \<Longrightarrow> at_ip a = ip \<Longrightarrow> same_for ip (attempt_step v a) (attempt_step w a)"
  by (simp add: same_for_def attempt_step_def window_check_def window_is_open_def Let_def)

lemma step_other: "same_for ip v w \<Longrightarrow> at_ip a \<noteq> ip \<Longrightarrow> same_for ip (attempt_step v a) w"
  by (simp add: same_for_def attempt_step_def window_check_def Let_def)

lemma run_same_for:
  "same_for ip v w \<Longrightarrow>
     same_for ip (foldl attempt_step v as) (foldl attempt_step w (filter (\<lambda>a. at_ip a = ip) as))"
proof (induction as arbitrary: v w)
  case (Cons a as)
  then show ?case
    using step_same_for [of ip v w a] step_other [of ip v w a] by (cases "at_ip a = ip") simp_all
qed simp

section \<open>Properties\<close>

text \<open>Guessing is limited: from the third wrong token on, the window compares the tokens of one
  address at least one second apart, whatever other addresses do in between, so in the five minutes it
  is open an address gets at most 302 wrong tokens compared and its failure counter never wraps.\<close>

theorem wrong_tokens_spaced:
  assumes "\<forall>a\<in>set as. opened \<le> at_now a"
  shows "sorted_wrt (\<lambda>t u. t + FAILURE_SPACING \<le> u) (drop 2 (wrong_times ip (window_open random opened) as)) \<and>
    length (wrong_times ip (window_open random opened) as) \<le> 302 \<and>
    (case pw_failures (foldl attempt_step (window_open random opened) as) ip of
       None \<Rightarrow> wrong_times ip (window_open random opened) as = []
     | Some f \<Rightarrow> unat (fl_count f) = length (wrong_times ip (window_open random opened) as))"
proof -
  have "tracks opened ip (window_open random opened) []"
    by (simp add: tracks_def window_open_def)
  then have tr: "tracks opened ip (foldl attempt_step (window_open random opened) as)
      (wrong_times ip (window_open random opened) as)"
    using tracks_run [OF _ assms] by fastforce
  have "unat (of_nat n :: u32) = n" if "n \<le> 302" for n
    using that by (simp add: unat_of_nat)
  then show ?thesis
    using tr tracks_length [OF tr] by (auto simp: tracks_def)
qed

theorem wrong_tokens_spaced_witness:
  "length (wrong_times (V4 1) (window_open [7] 5) [\<lparr>at_token = ''x'', at_ip = V4 1, at_now = 6\<rparr>]) \<le> 302"
  using wrong_tokens_spaced [of "[\<lparr>at_token = ''x'', at_ip = V4 1, at_now = 6\<rparr>]" 5 "V4 1" "[7]"] by simp

text \<open>Garbage from elsewhere cannot invalidate the token: after any attempts the answer to an
  address is the one it would get had only its own attempts happened; an accepted token is the
  window's own, presented before it expires; and the right token is refused before that only to an
  address that failed at least three times, the last time less than a second ago.\<close>

theorem pairing_addresses_independent:
  fixes random opened as tok ip now
  defines "w \<equiv> foldl attempt_step (window_open random opened) as"
  shows "fst (window_check w tok ip now) =
      fst (window_check (foldl attempt_step (window_open random opened) (filter (\<lambda>a. at_ip a = ip) as)) tok ip now) \<and>
    (fst (window_check w tok ip now) = Ok () \<longleftrightarrow>
       now < opened + PAIRING_WINDOW \<and> tok = concat (map hex_byte random) \<and>
       (case pw_failures w ip of None \<Rightarrow> True
        | Some f \<Rightarrow> fl_count f < 3 \<or> FAILURE_SPACING \<le> now - fl_last f))"
proof -
  have "same_for ip (window_open random opened) (window_open random opened)"
    by (simp add: same_for_def)
  note same = run_same_for [OF this, of as]
  have step: "pw_token (attempt_step v a) = pw_token v \<and> pw_expires (attempt_step v a) = pw_expires v" for v a
    by (simp add: attempt_step_def window_check_def Let_def)
  have "pw_token (foldl attempt_step v as) = pw_token v \<and> pw_expires (foldl attempt_step v as) = pw_expires v" for v as
    by (induction as arbitrary: v) (simp_all add: step)
  then have fixed: "pw_token w = concat (map hex_byte random)" "pw_expires w = opened + PAIRING_WINDOW"
    by (simp_all add: w_def window_open_def)
  have "fst (window_check w tok ip now) = Ok () \<longleftrightarrow>
      now < pw_expires w \<and> tok = pw_token w \<and>
      (case pw_failures w ip of None \<Rightarrow> True
       | Some f \<Rightarrow> fl_count f < 3 \<or> FAILURE_SPACING \<le> now - fl_last f)"
    by (auto simp: window_check_def window_is_open_def FREE_FAILURES_def duration_since_def not_le not_less
        Let_def split: option.splits)
  then show ?thesis
    using check_same_for [OF same, of tok now] fixed by (simp add: w_def)
qed

end
