(* ===== verification/PhoneSessions.thy ===== *)
theory PhoneSessions
  imports PhonePairing Crypto
begin

text \<open>
  The phone sessions the receiver keeps (\<open>PhoneSessions\<close> in \<open>phone.rs\<close>): who is admitted, the requests
  that change the pin store, and the pin file. Requests are handled one at a time by the receiver loop.

  What a request meets is the record \<open>request_env\<close>: the time, random bytes for a token, the network
  interfaces, the point at which the pin file's write fails, and whether the shared notification hub
  could remove the phone. \<open>to_toml\<close> is the TOML encoder of the pin store and \<open>show_ip\<close> the \<open>Display\<close> of
  an address. Log lines and the tray are not modelled; what closing a phone's notifications does is in
  the notification component.
\<close>

section \<open>Admission\<close>

definition is_phone_hello :: "hello \<Rightarrow> bool" where
  "is_phone_hello h = list_ex (\<lambda>e. e = HYPR_PHONE_EXTENSION) (hello_extensions h)"

datatype phone_admission = AdmitAccept pinned_phone | AdmitPair | AdmitReject string string

definition admit_phone :: "pin_store \<Rightarrow> string \<Rightarrow> string \<Rightarrow> bool \<Rightarrow> phone_admission" where
  "admit_phone pins name fp pairing_open =
     (if is_pc_key pins fp
      then AdmitReject ''key_is_pc'' ''this key is paired as a computer, not a phone''
      else (case phone_status pins name fp of
              Trusted \<Rightarrow> AdmitAccept (the (pinned_phone_of pins name))
            | Unknown \<Rightarrow>
                if pairing_open then AdmitPair
                else AdmitReject ''phone_not_paired''
                  ''this phone isn't paired; run `edge-receiver-linux pair-phone` on the computer and scan the code''
            | Changed _ \<Rightarrow>
                if pairing_open then AdmitPair
                else AdmitReject ''phone_key_changed''
                  ''a different phone is paired under this name; pair again with `edge-receiver-linux pair-phone`''))"

record local_hello =
  lh_device_name :: string
  lh_role :: role
  lh_fingerprint :: string

definition local_hello_frame :: "local_hello \<Rightarrow> bool \<Rightarrow> bool \<Rightarrow> frame" where
  "local_hello_frame h notifications images =
     FHello \<lparr>hello_protocol_version = PROTOCOL_VERSION, hello_device_name = lh_device_name h,
       hello_role = lh_role h, hello_public_key_fingerprint = lh_fingerprint h, hello_capabilities = [],
       hello_extensions = [HYPR_PHONE_EXTENSION] @ (if notifications then [NOTIFICATIONS_EXTENSION] else []) @
         (if images then [CLIPBOARD_IMAGE_EXTENSION] else []),
       hello_node_capabilities = []\<rparr>"

section \<open>Sessions\<close>

text \<open>
  A running session has the commands queued for it and whether its task has finished; dropping it
  aborts the task. \<open>psn_clipboard\<close> is None without a clipboard source, else whether images are enabled.
\<close>

record running_phone =
  rp_name :: string
  rp_pairing :: bool
  rp_commands :: "audio_direction option list"
  rp_finished :: bool

record phone_sessions =
  psn_local :: local_hello
  psn_listen :: ip_addr
  psn_port :: u16
  psn_clipboard :: "bool option"
  psn_desktop :: bool
  psn_hub :: bool
  psn_mirrors :: "(string, unit) btree"
  psn_sessions :: "(string, running_phone) btree"
  psn_pairing :: "pairing_window option"
  psn_paired_watcher :: bool

definition phone_sessions_new :: "local_hello \<Rightarrow> ip_addr \<Rightarrow> u16 \<Rightarrow> bool option \<Rightarrow> phone_sessions" where
  "phone_sessions_new h listen port clipboard =
     \<lparr>psn_local = h, psn_listen = listen, psn_port = port, psn_clipboard = clipboard, psn_desktop = False,
      psn_hub = False, psn_mirrors = [], psn_sessions = [], psn_pairing = None, psn_paired_watcher = False\<rparr>"

definition MAX_PAIRING_SESSIONS :: nat where
  "MAX_PAIRING_SESSIONS = 4"

datatype entry = EntryPinned pinned_phone | EntryPairing

record session_context =
  ctx_name :: string
  ctx_fingerprint :: string
  ctx_ip :: ip_addr
  ctx_clipboard :: bool
  ctx_clipboard_images :: bool
  ctx_notifications :: bool
  ctx_hub :: bool
  ctx_accepts_audio_invite :: bool

datatype start_outcome = StartRejected string string | StartSpawned frame entry session_context

definition pairing_open :: "phone_sessions \<Rightarrow> instant \<Rightarrow> bool" where
  "pairing_open ps now = (case psn_pairing ps of None \<Rightarrow> False | Some w \<Rightarrow> window_is_open w now)"

definition start_phone ::
  "instant \<Rightarrow> ip_addr \<Rightarrow> string \<Rightarrow> string \<Rightarrow> string list \<Rightarrow> pin_store \<Rightarrow> phone_sessions
     \<Rightarrow> start_outcome \<times> phone_sessions" where
  "start_phone now addr name fp extensions pins ps =
     (let advertises = (\<lambda>n. list_ex (\<lambda>e. e = n) extensions);
          phone_takes_images = advertises CLIPBOARD_IMAGE_EXTENSION;
          live = filter (\<lambda>(_, running). \<not> rp_finished running) (psn_sessions ps);
          ps1 = ps\<lparr>psn_sessions := live\<rparr>;
          admission = admit_phone pins name fp (pairing_open ps now);
          entry = (case admission of
              AdmitAccept phone \<Rightarrow> Ok (EntryPinned phone)
            | AdmitPair \<Rightarrow>
                if length (filter rp_pairing (bt_values live)) \<ge> MAX_PAIRING_SESSIONS
                then Err (''pairing_busy'', ''too many phones are pairing at once'')
                else Ok EntryPairing
            | AdmitReject code message \<Rightarrow> Err (code, message))
      in case entry of
           Inl (code, message) \<Rightarrow> (StartRejected code message, ps1)
         | Inr e \<Rightarrow>
             (let pairing = (e = EntryPairing);
                  images = (psn_clipboard ps = Some True);
                  hello = local_hello_frame (psn_local ps) (psn_desktop ps) images;
                  context = \<lparr>ctx_name = name, ctx_fingerprint = fp, ctx_ip = addr,
                    ctx_clipboard = (psn_clipboard ps \<noteq> None),
                    ctx_clipboard_images = (images \<and> phone_takes_images),
                    ctx_notifications = psn_desktop ps, ctx_hub = psn_hub ps,
                    ctx_accepts_audio_invite = advertises PHONE_AUDIO_INVITE_EXTENSION\<rparr>;
                  running = \<lparr>rp_name = name, rp_pairing = pairing, rp_commands = [], rp_finished = False\<rparr>
              in (StartSpawned hello e context,
                  ps1\<lparr>psn_sessions := bt_insert fp running (bt_remove fp live),
                      psn_mirrors := (if psn_desktop ps then bt_insert fp () (psn_mirrors ps)
                                      else psn_mirrors ps)\<rparr>)))"

definition connected :: "phone_sessions \<Rightarrow> string list" where
  "connected ps =
     map rp_name (filter (\<lambda>r. \<not> rp_pairing r \<and> \<not> rp_finished r) (bt_values (psn_sessions ps)))"

section \<open>Requests\<close>

record request_env =
  rq_now :: instant
  rq_random :: bytes
  rq_interfaces :: "(string \<times> ip_addr) list"
  rq_point :: write_point
  rq_hub_ok :: bool

datatype phone_request =
    ReqPair string string ip_addr string \<comment> \<open>name, fingerprint, address, token\<close>
  | ReqForget string string
  | ReqOpenPairing
  | ReqUnpair string
  | ReqList
  | ReqAudio string "audio_direction option"

datatype unpair_error = SavePinsFailed | SharedRemovalFailed

datatype phone_reply =
    PairReply "(pairing_refusal, pinned_phone) result"
  | OfferReply string duration
  | UnpairReply "(unpair_error, bool) result"
  | ListReply "(string \<times> bool) list"
  | NoReply

text \<open>The receiver loop's state: sessions, pins in memory, and the pin file.\<close>

type_synonym phone_world = "phone_sessions \<times> pin_store \<times> atomic_path"

definition retain_other_keys :: "string \<Rightarrow> (string, pinned_phone) btree \<Rightarrow> (string, pinned_phone) btree" where
  "retain_other_keys fp phones = filter (\<lambda>(_, pinned). pf_fingerprint pinned \<noteq> fp) phones"

definition pair ::
  "(pin_store \<Rightarrow> bytes option) \<Rightarrow> request_env \<Rightarrow> string \<Rightarrow> string \<Rightarrow> ip_addr \<Rightarrow> string \<Rightarrow> phone_world
     \<Rightarrow> (pairing_refusal, pinned_phone) result \<times> phone_world" where
  "pair to_toml env name fp ip token = (\<lambda>(ps, pins, fs).
     (case psn_pairing ps of
        None \<Rightarrow> (Err Closed, ps, pins, fs)
      | Some window \<Rightarrow>
          (case window_check window token ip (rq_now env) of
             (Inl refusal, window') \<Rightarrow> (Err refusal, ps\<lparr>psn_pairing := Some window'\<rparr>, pins, fs)
           | (Inr _, window') \<Rightarrow>
               (let ps1 = ps\<lparr>psn_pairing := Some window'\<rparr>
                in if is_pc_key pins fp then (Err RefusalFailed, ps1, pins, fs)
                   else (let previous = ps_phones pins;
                             pins1 = pins\<lparr>ps_phones := retain_other_keys fp (ps_phones pins)\<rparr>;
                             pins2 = pin_phone pins1 name fp phone_features_all
                         in case pin_store_save to_toml (rq_point env) pins2 fs of
                              (Inl _, fs') \<Rightarrow> (Err RefusalFailed, ps1, pins2\<lparr>ps_phones := previous\<rparr>, fs')
                            | (Inr _, fs') \<Rightarrow>
                                (Ok (the (pinned_phone_of pins2 name)),
                                 ps1\<lparr>psn_pairing := None, psn_paired_watcher := False\<rparr>, pins2, fs'))))))"

definition unpair ::
  "(pin_store \<Rightarrow> bytes option) \<Rightarrow> request_env \<Rightarrow> string \<Rightarrow> phone_world
     \<Rightarrow> (unpair_error, bool) result \<times> phone_world" where
  "unpair to_toml env name = (\<lambda>(ps, pins, fs).
     (case remove_phone pins name of
        (None, pins1) \<Rightarrow> (Ok False, ps, pins1, fs)
      | (Some removed, pins1) \<Rightarrow>
          (case pin_store_save to_toml (rq_point env) pins1 fs of
             (Inl _, fs') \<Rightarrow>
               (Err SavePinsFailed, ps, pins1\<lparr>ps_phones := bt_insert name removed (ps_phones pins1)\<rparr>, fs')
           | (Inr _, fs') \<Rightarrow>
               (let ps1 = ps\<lparr>psn_sessions := bt_remove (pf_fingerprint removed) (psn_sessions ps)\<rparr>;
                    ps2 = (if psn_desktop ps
                           then ps1\<lparr>psn_mirrors := bt_remove (pf_fingerprint removed) (psn_mirrors ps1)\<rparr>
                           else ps1)
                in (if psn_hub ps \<and> \<not> rq_hub_ok env then Err SharedRemovalFailed else Ok True,
                    ps2, pins1, fs')))))"

definition queue_command :: "audio_direction option \<Rightarrow> running_phone \<Rightarrow> running_phone" where
  "queue_command dir r = r\<lparr>rp_commands := rp_commands r @ [dir]\<rparr>"

fun handle_request ::
  "(pin_store \<Rightarrow> bytes option) \<Rightarrow> (ip_addr \<Rightarrow> string) \<Rightarrow> request_env \<Rightarrow> phone_request \<Rightarrow> phone_world
     \<Rightarrow> phone_reply \<times> phone_world" where
  "handle_request to_toml show_ip env (ReqPair name fp ip token) w =
     (case pair to_toml env name fp ip token w of (result, w') \<Rightarrow> (PairReply result, w'))"
| "handle_request to_toml show_ip env (ReqForget name fp) (ps, pins, fs) =
     (if is_trusted (phone_status pins name fp)
      then (NoReply, snd (unpair to_toml env name (ps, pins, fs)))
      else (NoReply, ps, pins, fs))"
| "handle_request to_toml show_ip env ReqOpenPairing (ps, pins, fs) =
     (let window = window_open (rq_random env) (rq_now env);
          uri = pairing_uri show_ip (select_lan_addresses (rq_interfaces env) (psn_listen ps)) (psn_port ps)
            (lh_fingerprint (psn_local ps)) (pw_token window)
      in (OfferReply uri PAIRING_WINDOW,
          ps\<lparr>psn_pairing := Some window, psn_paired_watcher := True\<rparr>, pins, fs))"
| "handle_request to_toml show_ip env (ReqUnpair name) w =
     (case unpair to_toml env name w of (result, w') \<Rightarrow> (UnpairReply result, w'))"
| "handle_request to_toml show_ip env ReqList (ps, pins, fs) =
     (ListReply (map (\<lambda>name. (name, name \<in> set (connected ps))) (bt_keys (ps_phones pins))), ps, pins, fs)"
| "handle_request to_toml show_ip env (ReqAudio fp dir) (ps, pins, fs) =
     (NoReply,
      (case bt_get (psn_sessions ps) fp of
         None \<Rightarrow> ps
       | Some r \<Rightarrow> ps\<lparr>psn_sessions := bt_insert fp (queue_command dir r) (psn_sessions ps)\<rparr>), pins, fs)"

section \<open>Lemmas\<close>

lemma bt_ext:
  assumes "bt_wf s" "bt_wf t" "\<And>k. bt_get s k = bt_get t k"
  shows "s = t"
proof (rule map_sorted_distinct_set_unique [where f = fst])
  have sub: "set u \<subseteq> set v" if "bt_wf u" "\<And>k. bt_get u k = bt_get v k" for u v :: "('a, 'b) btree"
  proof
    fix e
    assume "e \<in> set u"
    then have "bt_get v (fst e) = Some (snd e)"
      using bt_in_get [OF that(1), of "fst e" "snd e"] that(2) [of "fst e"] by simp
    then show "e \<in> set v"
      by (auto dest: bt_get_in)
  qed
  show "set s = set t"
    using sub [of s t] sub [of t s] assms by auto
  then show "inj_on fst (set s \<union> set t)"
    using bt_wf_distinct [OF assms(2)] by (simp add: distinct_map)
  show "sorted (map fst s)" "distinct (map fst s)" "sorted (map fst t)" "distinct (map fst t)"
    using assms(1,2) by (simp_all add: bt_wf_def strict_sorted_iff)
qed

lemma bt_reinsert:
  assumes "bt_wf t" "bt_get t k = Some v"
  shows "bt_insert k v (bt_remove k t) = t"
  using assms by (intro bt_ext bt_wf_insert bt_wf_remove) (auto simp: bt_get_insert bt_get_remove)

lemma retain_wf: "bt_wf t \<Longrightarrow> bt_wf (retain_other_keys fp t)"
  by (simp add: bt_wf_def retain_other_keys_def sorted_wrt_map sorted_wrt_filter)

lemma retain_get:
  assumes "bt_wf t"
  shows "bt_get (retain_other_keys fp t) n =
    (case bt_get t n of None \<Rightarrow> None | Some p \<Rightarrow> if pf_fingerprint p = fp then None else Some p)"
proof -
  have "bt_get (retain_other_keys fp t) n = Some p \<longleftrightarrow> bt_get t n = Some p \<and> pf_fingerprint p \<noteq> fp" for p
    using bt_in_get [OF assms] bt_in_get [OF retain_wf [OF assms]]
    by (auto simp: retain_other_keys_def dest!: bt_get_in)
  note iff = this
  show ?thesis
  proof (cases "bt_get (retain_other_keys fp t) n")
    case None
    then show ?thesis
      using iff [of "the (bt_get t n)"] by (cases "bt_get t n") simp_all
  next
    case (Some q)
    then show ?thesis
      using iff [of q] by simp
  qed
qed

lemma window_check_Ok:
  assumes "window_check w token ip now = (Inr u, w')"
  shows "w' = w" "token = pw_token w" "now < pw_expires w"
  using assms by (auto simp: window_check_def window_is_open_def Let_def split: if_splits)

lemma pair_cases:
  assumes "pair to_toml env name fp ip token (ps, pins, fs) = (result, ps', pins', fs')"
  obtains (paired) w where "psn_pairing ps = Some w" "token = pw_token w" "rq_now env < pw_expires w"
      "\<not> is_pc_key pins fp"
      "pins' = pin_phone (pins\<lparr>ps_phones := retain_other_keys fp (ps_phones pins)\<rparr>) name fp phone_features_all"
      "result = Ok \<lparr>pf_fingerprint = fp, pf_allowed_features = phone_features_all\<rparr>"
      "psn_pairing ps' = None" "pin_store_save to_toml (rq_point env) pins' fs = (Ok (), fs')"
    | (refused) e where "result = Err e" "pins' = pins" "(psn_pairing ps' = None) = (psn_pairing ps = None)"
      "fs' = fs \<or> (\<exists>s err. pin_store_save to_toml (rq_point env) s fs = (Err err, fs'))"
proof (cases "psn_pairing ps")
  case None
  then show ?thesis
    using assms by (intro refused [of Closed]) (simp_all add: pair_def)
next
  case (Some w)
  obtain r w' where check: "window_check w token ip (rq_now env) = (r, w')"
    by (cases "window_check w token ip (rq_now env)")
  show ?thesis
  proof (cases r)
    case (Inl e)
    then have "result = Err e" "pins' = pins" "psn_pairing ps' = Some w'" "fs' = fs"
      using assms Some check by (auto simp: pair_def)
    then show ?thesis
      using Some by (intro refused [of e]) simp_all
  next
    case (Inr u)
    note ok = window_check_Ok [OF check [unfolded Inr]]
    show ?thesis
    proof (cases "is_pc_key pins fp")
      case True
      then have "result = Err RefusalFailed" "pins' = pins" "psn_pairing ps' = Some w'" "fs' = fs"
        using assms Some check Inr by (auto simp: pair_def Let_def)
      then show ?thesis
        using Some by (intro refused [of RefusalFailed]) simp_all
    next
      case False
      let ?pins = "pin_phone (pins\<lparr>ps_phones := retain_other_keys fp (ps_phones pins)\<rparr>) name fp phone_features_all"
      obtain saved fs2 where save: "pin_store_save to_toml (rq_point env) ?pins fs = (saved, fs2)"
        by (cases "pin_store_save to_toml (rq_point env) ?pins fs")
      show ?thesis
      proof (cases saved)
        case (Inl err)
        have "fs' = fs2" "result = Err RefusalFailed" "pins' = pins" "psn_pairing ps' = Some w'"
          using assms Some check Inr False save Inl by (auto simp: pair_def Let_def pin_phone_def)
        then show ?thesis
          using save Inl Some by (intro refused [of RefusalFailed]) auto
      next
        case (Inr u2)
        have "fs' = fs2" "pins' = ?pins" "psn_pairing ps' = None"
            "result = Ok (the (pinned_phone_of ?pins name))"
          using assms Some check \<open>r = Inr u\<close> False save Inr by (auto simp: pair_def Let_def)
        then show ?thesis
          using save Inr Some ok False
          by (intro paired [of w]) (simp_all add: pinned_phone_of_def pin_phone_def bt_get_insert)
      qed
    qed
  qed
qed

lemma unpair_cases:
  assumes "unpair to_toml env name (ps, pins, fs) = (result, ps', pins', fs')" "bt_wf (ps_phones pins)"
  obtains (removed) p where "bt_get (ps_phones pins) name = Some p"
      "pins' = pins\<lparr>ps_phones := bt_remove name (ps_phones pins)\<rparr>" "psn_pairing ps' = psn_pairing ps"
      "psn_sessions ps' = bt_remove (pf_fingerprint p) (psn_sessions ps)"
      "pin_store_save to_toml (rq_point env) pins' fs = (Ok (), fs')"
    | (kept) "pins' = pins" "ps' = ps"
      "fs' = fs \<or> (\<exists>s err. pin_store_save to_toml (rq_point env) s fs = (Err err, fs'))"
proof (cases "bt_get (ps_phones pins) name")
  case None
  then have "bt_remove name (ps_phones pins) = ps_phones pins"
    by (auto simp: bt_remove_def filter_id_conv bt_get_def map_of_eq_None_iff)
  then show ?thesis
    using assms None by (intro kept) (auto simp: unpair_def remove_phone_def)
next
  case (Some p)
  let ?pins = "pins\<lparr>ps_phones := bt_remove name (ps_phones pins)\<rparr>"
  obtain saved fs2 where save: "pin_store_save to_toml (rq_point env) ?pins fs = (saved, fs2)"
    by (cases "pin_store_save to_toml (rq_point env) ?pins fs")
  show ?thesis
  proof (cases saved)
    case (Inl err)
    have "bt_insert name p (bt_remove name (ps_phones pins)) = ps_phones pins"
      by (rule bt_reinsert [OF assms(2) Some])
    then have "pins' = pins" "ps' = ps" "fs' = fs2"
      using assms(1) Some save Inl by (auto simp: unpair_def remove_phone_def)
    then show ?thesis
      using save Inl by (intro kept) auto
  next
    case (Inr u)
    then show ?thesis
      using assms(1) Some save by (intro removed [of p]) (auto simp: unpair_def remove_phone_def Let_def)
  qed
qed

section \<open>The pins and their file\<close>

text \<open>One pin per phone key, and no key is both a phone's and a computer's.\<close>

definition phones_wf :: "pin_store \<Rightarrow> bool" where
  "phones_wf pins \<longleftrightarrow>
     pins_wf pins \<and>
     (\<forall>n m p q. bt_get (ps_phones pins) n = Some p \<and> bt_get (ps_phones pins) m = Some q \<and>
        pf_fingerprint p = pf_fingerprint q \<longrightarrow> n = m) \<and>
     (\<forall>n p. bt_get (ps_phones pins) n = Some p \<longrightarrow> \<not> is_pc_key pins (pf_fingerprint p))"

lemma phones_wf_paired:
  assumes "phones_wf pins" "\<not> is_pc_key pins fp"
  shows "phones_wf (pin_phone (pins\<lparr>ps_phones := retain_other_keys fp (ps_phones pins)\<rparr>) name fp allowed)"
    (is "phones_wf ?pins")
proof -
  have wf: "bt_wf (ps_phones pins)" "bt_wf (ps_peers pins)"
    using assms(1) by (simp_all add: phones_wf_def pins_wf_def)
  have get: "bt_get (ps_phones ?pins) n =
      (if n = name then Some \<lparr>pf_fingerprint = fp, pf_allowed_features = allowed\<rparr>
       else (case bt_get (ps_phones pins) n of None \<Rightarrow> None
             | Some p \<Rightarrow> if pf_fingerprint p = fp then None else Some p))" for n
    by (simp add: pin_phone_def bt_get_insert retain_get [OF wf(1)])
  have pc: "is_pc_key ?pins = is_pc_key pins"
    by (simp add: fun_eq_iff is_pc_key_def pin_phone_def)
  have "pins_wf ?pins"
    using wf by (simp add: pins_wf_def pin_phone_def bt_wf_insert retain_wf)
  then show ?thesis
    using assms unfolding phones_wf_def get pc by (auto split: if_splits option.splits)
qed

lemma phones_wf_removed:
  assumes "phones_wf pins"
  shows "phones_wf (pins\<lparr>ps_phones := bt_remove name (ps_phones pins)\<rparr>)"
  using assms by (auto simp: phones_wf_def pins_wf_def bt_wf_remove bt_get_remove is_pc_key_def split: if_splits)

definition world_step ::
  "(pin_store \<Rightarrow> bytes option) \<Rightarrow> (ip_addr \<Rightarrow> string) \<Rightarrow> phone_world \<Rightarrow> request_env \<times> phone_request
     \<Rightarrow> phone_world" where
  "world_step to_toml show_ip w e = snd (handle_request to_toml show_ip (fst e) (snd e) w)"

text \<open>What one request can do to the pins, the window and the file.\<close>

lemma request_cases:
  assumes "handle_request to_toml show_ip env req (ps, pins, fs) = (reply, ps', pins', fs')"
    and "bt_wf (ps_phones pins)"
  obtains (paired) name fp ip token w where "req = ReqPair name fp ip token" "psn_pairing ps = Some w"
      "token = pw_token w" "rq_now env < pw_expires w" "\<not> is_pc_key pins fp"
      "pins' = pin_phone (pins\<lparr>ps_phones := retain_other_keys fp (ps_phones pins)\<rparr>) name fp phone_features_all"
      "reply = PairReply (Ok \<lparr>pf_fingerprint = fp, pf_allowed_features = phone_features_all\<rparr>)"
      "psn_pairing ps' = None" "pin_store_save to_toml (rq_point env) pins' fs = (Ok (), fs')"
    | (removed) name where "pins' = pins\<lparr>ps_phones := bt_remove name (ps_phones pins)\<rparr>"
      "\<And>p. reply \<noteq> PairReply (Ok p)" "psn_pairing ps' = psn_pairing ps"
      "pin_store_save to_toml (rq_point env) pins' fs = (Ok (), fs')"
    | (same) "pins' = pins" "\<And>p. reply \<noteq> PairReply (Ok p)"
      "psn_pairing ps' = None \<longleftrightarrow> psn_pairing ps = None \<and> req \<noteq> ReqOpenPairing"
      "fs' = fs \<or> (\<exists>s err. pin_store_save to_toml (rq_point env) s fs = (Err err, fs'))"
proof (cases req)
  case (ReqPair name fp ip token)
  obtain r where r: "pair to_toml env name fp ip token (ps, pins, fs) = (r, ps', pins', fs')" "reply = PairReply r"
    using assms(1) by (auto simp: ReqPair split: prod.splits)
  from r(1) show ?thesis
  proof (cases rule: pair_cases)
    case (paired w)
    then show ?thesis
      by (intro that(1) [OF ReqPair, of w]) (simp_all add: r(2))
  next
    case (refused e)
    then show ?thesis
      by (intro that(3)) (simp_all add: r(2) ReqPair)
  qed
next
  case (ReqForget name fp)
  show ?thesis
  proof (cases "is_trusted (phone_status pins name fp)")
    case False
    then show ?thesis
      using assms(1) by (intro that(3)) (auto simp: ReqForget)
  next
    case True
    then have "unpair to_toml env name (ps, pins, fs) =
        (fst (unpair to_toml env name (ps, pins, fs)), ps', pins', fs')" and reply: "reply = NoReply"
      using assms(1) by (auto simp: ReqForget prod_eq_iff)
    from this(1) assms(2) show ?thesis
    proof (cases rule: unpair_cases)
      case (removed p)
      then show ?thesis
        by (intro that(2) [of name]) (simp_all add: reply)
    next
      case kept
      then show ?thesis
        by (intro that(3)) (simp_all add: reply ReqForget)
    qed
  qed
next
  case ReqOpenPairing
  then show ?thesis
    using assms(1) by (intro that(3)) (auto simp: Let_def)
next
  case (ReqUnpair name)
  obtain r where r: "unpair to_toml env name (ps, pins, fs) = (r, ps', pins', fs')" "reply = UnpairReply r"
    using assms(1) by (auto simp: ReqUnpair split: prod.splits)
  from r(1) assms(2) show ?thesis
  proof (cases rule: unpair_cases)
    case (removed p)
    then show ?thesis
      by (intro that(2) [of name]) (simp_all add: r(2))
  next
    case kept
    then show ?thesis
      by (intro that(3)) (simp_all add: r(2) ReqUnpair)
  qed
next
  case ReqList
  then show ?thesis
    using assms(1) by (intro that(3)) auto
next
  case (ReqAudio fp dir)
  then show ?thesis
    using assms(1) by (intro that(3)) (auto split: option.splits)
qed

lemma save_contents:
  assumes "pin_store_save to_toml point pins fs = (Ok (), fs')"
  shows "\<exists>bs. to_toml pins = Some bs \<and> ap_contents fs' = Some bs"
  using assms by (auto simp: pin_store_save_def write_atomic_ok split: option.splits)

lemma save_failed_contents:
  assumes "pin_store_save to_toml point pins fs = (Err err, fs')" "point \<noteq> AtDirSync"
  shows "ap_contents fs' = ap_contents fs"
  using assms by (auto simp: pin_store_save_def write_atomic_failed split: option.splits)

definition file_agrees :: "(bytes \<Rightarrow> pin_store option) \<Rightarrow> phone_world \<Rightarrow> bool" where
  "file_agrees from_toml = (\<lambda>(ps, pins, fs). pin_store_load from_toml False fs = Ok pins)"

lemma world_step_wf:
  assumes "phones_wf (fst (snd w))"
  shows "phones_wf (fst (snd (world_step to_toml show_ip w e)))"
proof -
  obtain ps pins fs where w: "w = (ps, pins, fs)" by (cases w)
  obtain env req where e: "e = (env, req)" by (cases e)
  obtain reply ps' pins' fs' where h: "handle_request to_toml show_ip env req (ps, pins, fs) = (reply, ps', pins', fs')"
    by (cases "handle_request to_toml show_ip env req (ps, pins, fs)") auto
  have "bt_wf (ps_phones pins)"
    using assms by (simp add: w phones_wf_def pins_wf_def)
  with h have "phones_wf pins'"
  proof (cases rule: request_cases)
    case (paired name fp ip token win)
    then show ?thesis
      using phones_wf_paired [of pins fp] assms by (simp add: w)
  next
    case (removed name)
    then show ?thesis
      using phones_wf_removed [of pins] assms by (simp add: w)
  next
    case same
    then show ?thesis
      using assms by (simp add: w)
  qed
  then show ?thesis
    by (simp add: world_step_def w e h)
qed

interpretation phone_requests: guarded_machine "world_step to_toml show_ip" "\<lambda>w. phones_wf (fst (snd w))"
    for to_toml show_ip
  by unfold_locales (rule world_step_wf)

lemma world_step_agrees:
  assumes codec: "\<And>s bs. to_toml s = Some bs \<Longrightarrow> from_toml bs = Some s"
    and wf: "phones_wf (fst (snd w))" and agrees: "file_agrees from_toml w"
    and point: "rq_point (fst e) \<noteq> AtDirSync"
  shows "file_agrees from_toml (world_step to_toml show_ip w e)"
proof -
  obtain ps pins fs where w: "w = (ps, pins, fs)" by (cases w)
  obtain env req where e: "e = (env, req)" by (cases e)
  obtain reply ps' pins' fs' where h: "handle_request to_toml show_ip env req (ps, pins, fs) = (reply, ps', pins', fs')"
    by (cases "handle_request to_toml show_ip env req (ps, pins, fs)") auto
  have saved: "pin_store_load from_toml False fs' = Ok pins'"
    if "pin_store_save to_toml (rq_point env) pins' fs = (Ok (), fs')"
    using save_contents [OF that] codec by (auto simp: pin_store_load_def)
  have "bt_wf (ps_phones pins)"
    using wf by (simp add: w phones_wf_def pins_wf_def)
  with h have "pin_store_load from_toml False fs' = Ok pins'"
  proof (cases rule: request_cases)
    case (paired name fp ip token win)
    then show ?thesis by (intro saved)
  next
    case (removed name)
    then show ?thesis by (intro saved)
  next
    case same
    then have "ap_contents fs' = ap_contents fs"
      using point save_failed_contents by (auto simp: e)
    then show ?thesis
      using agrees same by (simp add: w file_agrees_def pin_store_load_def)
  qed
  then show ?thesis
    by (simp add: world_step_def w e h file_agrees_def)
qed

section \<open>Requests in sequence\<close>

fun replies :: "(pin_store \<Rightarrow> bytes option) \<Rightarrow> (ip_addr \<Rightarrow> string) \<Rightarrow> phone_world
    \<Rightarrow> (request_env \<times> phone_request) list \<Rightarrow> phone_reply list" where
  "replies to_toml show_ip w [] = []"
| "replies to_toml show_ip w (e # es) =
     fst (handle_request to_toml show_ip (fst e) (snd e) w) #
     replies to_toml show_ip (world_step to_toml show_ip w e) es"

definition is_accepted :: "phone_reply \<Rightarrow> bool" where
  "is_accepted r = (case r of PairReply (Inr _) \<Rightarrow> True | _ \<Rightarrow> False)"

definition windows_left :: "phone_world \<Rightarrow> nat" where
  "windows_left w = (if psn_pairing (fst w) = None then 0 else 1)"

lemma step_windows:
  assumes "phones_wf (fst (snd w))"
  shows "(if is_accepted (fst (handle_request to_toml show_ip (fst e) (snd e) w)) then 1 else 0) +
      windows_left (world_step to_toml show_ip w e) \<le>
    (if snd e = ReqOpenPairing then 1 else 0) + windows_left w"
proof -
  obtain ps pins fs where w: "w = (ps, pins, fs)" by (cases w)
  obtain env req where e: "e = (env, req)" by (cases e)
  obtain reply ps' pins' fs' where h: "handle_request to_toml show_ip env req (ps, pins, fs) = (reply, ps', pins', fs')"
    by (cases "handle_request to_toml show_ip env req (ps, pins, fs)") auto
  have "bt_wf (ps_phones pins)"
    using assms by (simp add: w phones_wf_def pins_wf_def)
  with h show ?thesis
  proof (cases rule: request_cases)
    case (paired name fp ip token win)
    then show ?thesis
      using h by (simp add: w e world_step_def windows_left_def)
  next
    case (removed name)
    then have "\<not> is_accepted reply"
      by (auto simp: is_accepted_def split: phone_reply.splits sum.splits)
    then show ?thesis
      using h removed by (simp add: w e world_step_def windows_left_def)
  next
    case same
    then have "\<not> is_accepted reply"
      by (auto simp: is_accepted_def split: phone_reply.splits sum.splits)
    then show ?thesis
      using h same by (simp add: w e world_step_def windows_left_def)
  qed
qed

lemma accepted_bounded:
  "phones_wf (fst (snd w)) \<Longrightarrow>
     length (filter is_accepted (replies to_toml show_ip w es)) \<le>
     length (filter (\<lambda>e. snd e = ReqOpenPairing) es) + windows_left w"
proof (induction es arbitrary: w)
  case (Cons e es)
  show ?case
    using Cons.IH [OF world_step_wf [OF Cons.prems, where e = e and to_toml = to_toml and show_ip = show_ip]]
      step_windows [OF Cons.prems, where e = e and to_toml = to_toml and show_ip = show_ip]
    by auto
qed simp

section \<open>Properties\<close>

text \<open>C21: Only the token makes a phone trusted: if a request makes a key trusted that was not, the
  request was a pairing of exactly that name and key with the token of the open, unexpired window, the
  key is not a computer's, the pin was saved first, and the window is closed afterwards. No request
  changes the pins of computers, and over any run there are at most as many pairings as windows opened.\<close>

theorem phone_trust_needs_token:
  assumes "phones_wf pins"
    and "handle_request to_toml show_ip env req (ps, pins, fs) = (reply, ps', pins', fs')"
  shows "(phone_status pins' n k = Trusted \<longrightarrow> phone_status pins n k \<noteq> Trusted \<longrightarrow>
      (\<exists>ip w. req = ReqPair n k ip (pw_token w) \<and> psn_pairing ps = Some w \<and> rq_now env < pw_expires w \<and>
         \<not> is_pc_key pins k \<and> psn_pairing ps' = None \<and>
         pin_store_save to_toml (rq_point env) pins' fs = (Ok (), fs') \<and>
         reply = PairReply (Ok \<lparr>pf_fingerprint = k, pf_allowed_features = phone_features_all\<rparr>))) \<and>
    ps_peers pins' = ps_peers pins \<and>
    length (filter is_accepted (replies to_toml show_ip (ps, pins, fs) es)) \<le>
      length (filter (\<lambda>e. snd e = ReqOpenPairing) es) + (if psn_pairing ps = None then 0 else 1)"
proof -
  have wf: "bt_wf (ps_phones pins)"
    using assms(1) by (simp add: phones_wf_def pins_wf_def)
  have "(phone_status pins' n k = Trusted \<longrightarrow> phone_status pins n k \<noteq> Trusted \<longrightarrow>
      (\<exists>ip w. req = ReqPair n k ip (pw_token w) \<and> psn_pairing ps = Some w \<and> rq_now env < pw_expires w \<and>
         \<not> is_pc_key pins k \<and> psn_pairing ps' = None \<and>
         pin_store_save to_toml (rq_point env) pins' fs = (Ok (), fs') \<and>
         reply = PairReply (Ok \<lparr>pf_fingerprint = k, pf_allowed_features = phone_features_all\<rparr>))) \<and>
      ps_peers pins' = ps_peers pins"
    using assms(2) wf
  proof (cases rule: request_cases)
    case (paired name fp ip token win)
    have "name = n \<and> fp = k" if "phone_status pins' n k = Trusted" "phone_status pins n k \<noteq> Trusted"
      using that unfolding paired(6)
      by (auto simp: phone_status_def pin_phone_def bt_get_insert retain_get [OF wf] split: if_splits option.splits)
    then show ?thesis
      using paired by (auto simp: pin_phone_def)
  next
    case (removed name)
    then show ?thesis
      by (auto simp: phone_status_def bt_get_remove split: if_splits)
  next
    case same
    then show ?thesis by simp
  qed
  then show ?thesis
    using accepted_bounded [of "(ps, pins, fs)" to_toml show_ip es] assms(1) by (simp add: windows_left_def)
qed

definition sample_pins :: pin_store where
  "sample_pins = pin_phone pin_store_default ''p'' ''k'' phone_features_all"

definition sample_sessions :: phone_sessions where
  "sample_sessions =
     phone_sessions_new \<lparr>lh_device_name = ''pc'', lh_role = Receiver, lh_fingerprint = ''f''\<rparr> (V4 0) 24801 None"

definition sample_env :: "write_point \<Rightarrow> request_env" where
  "sample_env point = \<lparr>rq_now = 10, rq_random = [171], rq_interfaces = [], rq_point = point, rq_hub_ok = True\<rparr>"

definition sample_toml :: "pin_store \<Rightarrow> bytes option" where
  "sample_toml s = (if s = pin_store_default then Some [0] else if s = sample_pins then Some [1] else None)"

definition sample_of_toml :: "bytes \<Rightarrow> pin_store option" where
  "sample_of_toml bs = (if bs = [0] then Some pin_store_default else if bs = [1] then Some sample_pins else None)"

lemma sample_codec: "sample_toml s = Some bs \<Longrightarrow> sample_of_toml bs = Some s"
  by (auto simp: sample_toml_def sample_of_toml_def split: if_splits)

lemma phones_wf_default: "phones_wf pin_store_default"
  by (simp add: phones_wf_def pins_wf_def pin_store_default_def)

lemmas sample_defs = sample_sessions_def sample_env_def phone_sessions_new_def pair_def window_check_def
  window_is_open_def window_open_def PAIRING_WINDOW_def from_secs_def hex_byte_def hex_digit_def Let_def
  is_pc_key_def bt_values_def retain_other_keys_def pinned_phone_of_def pin_store_save_def
  pin_store_default_def sample_pins_def pin_phone_def sample_toml_def bt_get_def

text \<open>A pairing of the sample phone, with the pin file's write failing at \<open>point\<close>.\<close>

definition sample_pairing :: "write_point \<Rightarrow> phone_reply \<times> phone_world" where
  "sample_pairing point =
     handle_request sample_toml (\<lambda>_. '''') (sample_env point) (ReqPair ''p'' ''k'' (V4 1) ''ab'')
       (sample_sessions\<lparr>psn_pairing := Some (window_open [171] 5)\<rparr>, pin_store_default,
        stored (Some [0]))"

lemma sample_pairing_accepted:
  "sample_pairing NoPoint =
     (PairReply (Ok \<lparr>pf_fingerprint = ''k'', pf_allowed_features = phone_features_all\<rparr>),
      sample_sessions, sample_pins, stored (Some [1]))"
  by (simp add: sample_pairing_def sample_defs)

theorem phone_trust_needs_token_witness:
  "psn_pairing (sample_sessions\<lparr>psn_pairing := Some (window_open [171] 5)\<rparr>) \<noteq> None \<and>
   phone_status sample_pins ''p'' ''k'' = Trusted \<and> phone_status pin_store_default ''p'' ''k'' \<noteq> Trusted \<and>
   ps_peers sample_pins = ps_peers pin_store_default"
  using phone_trust_needs_token [OF phones_wf_default sample_pairing_accepted [unfolded sample_pairing_def]]
  by (simp add: phone_status_def sample_pins_def pin_phone_def bt_get_def pin_store_default_def)

text \<open>
  If only the final directory sync fails, the file already holds the new pins: the phone is told that
  the pairing was not saved, memory drops the pin, and a restart trusts the phone.
\<close>

lemma refused_pairing_on_disk:
  "case sample_pairing AtDirSync of (reply, ps, pins, fs) \<Rightarrow>
     reply = PairReply (Err RefusalFailed) \<and> pins = pin_store_default \<and>
     pin_store_load sample_of_toml False fs = Ok sample_pins \<and> psn_pairing ps \<noteq> None"
  by (simp add: sample_pairing_def sample_defs pin_store_load_def sample_of_toml_def write_atomic_defs stored_def
      ap_contents_def)

text \<open>
  A session that started unpaired keeps its \<open>pairing\<close> flag after it paired: the phone is listed as not
  connected until it reconnects, and it still counts against \<open>MAX_PAIRING_SESSIONS\<close>.
\<close>

lemma paired_session_listed_disconnected:
  fixes win
  defines "win \<equiv> window_open [171] 5"
  shows "case start_phone 10 (V4 1) ''p'' ''k'' [] pin_store_default (sample_sessions\<lparr>psn_pairing := Some win\<rparr>) of
     (StartSpawned _ e _, ps) \<Rightarrow>
       (case handle_request sample_toml (\<lambda>_. '''') (sample_env NoPoint) (ReqPair ''p'' ''k'' (V4 1) ''ab'')
               (ps, pin_store_default, stored (Some [0])) of
          (reply, ps', pins', fs') \<Rightarrow>
            is_accepted reply \<and> phone_status pins' ''p'' ''k'' = Trusted \<and>
            fst (handle_request sample_toml (\<lambda>_. '''') (sample_env NoPoint) ReqList (ps', pins', fs')) =
              ListReply [(''p'', False)])
   | _ \<Rightarrow> False"
  by (auto simp: win_def start_phone_def admit_phone_def pairing_open_def phone_status_def connected_def
      is_accepted_def bt_keys_def bt_remove_def MAX_PAIRING_SESSIONS_def sample_defs)

text \<open>C32: The pin file and the pins in memory agree: if they do at the start, then after any requests,
  with writes failing at any point before the final directory sync, a restart loads exactly the pins in
  memory; a failed pairing or unpairing leaves both as they were. In every such run no key is pinned
  under two names and no phone's key is a computer's.\<close>

theorem pin_file_agrees:
  assumes "\<And>s bs. to_toml s = Some bs \<Longrightarrow> from_toml bs = Some s"
    and "phones_wf pins" and "pin_store_load from_toml False fs = Ok pins"
    and "\<forall>e\<in>set es. rq_point (fst e) \<noteq> AtDirSync"
    and "foldl (world_step to_toml show_ip) (ps, pins, fs) es = (ps', pins', fs')"
  shows "pin_store_load from_toml False fs' = Ok pins' \<and> phones_wf pins'"
proof -
  have run: "file_agrees from_toml (foldl (world_step to_toml show_ip) w es)"
    if "phones_wf (fst (snd w))" "file_agrees from_toml w" "\<forall>e\<in>set es. rq_point (fst e) \<noteq> AtDirSync" for w
    using that
  proof (induction es arbitrary: w)
    case (Cons e es)
    then show ?case
      using world_step_wf [OF Cons.prems(1)] world_step_agrees [where from_toml = from_toml, OF assms(1)] by simp
  qed simp
  show ?thesis
    using run [of "(ps, pins, fs)"] phone_requests.run_inv [of "(ps, pins, fs)" to_toml show_ip es] assms(2-5)
    by (simp add: file_agrees_def)
qed

theorem pin_file_agrees_witness:
  "pin_store_load sample_of_toml False (stored (Some [1])) = Ok sample_pins \<and>
   phones_wf sample_pins"
proof (rule pin_file_agrees [where es = "[(sample_env NoPoint, ReqPair ''p'' ''k'' (V4 1) ''ab'')]" and
      fs = "stored (Some [0])" and show_ip = "\<lambda>_. ''''" and
      ps = "sample_sessions\<lparr>psn_pairing := Some (window_open [171] 5)\<rparr>" and ps' = sample_sessions,
      OF sample_codec phones_wf_default])
  show "foldl (world_step sample_toml (\<lambda>_. ''''))
      (sample_sessions\<lparr>psn_pairing := Some (window_open [171] 5)\<rparr>, pin_store_default,
       stored (Some [0]))
      [(sample_env NoPoint, ReqPair ''p'' ''k'' (V4 1) ''ab'')] =
      (sample_sessions, sample_pins, stored (Some [1]))"
    using sample_pairing_accepted by (simp add: sample_pairing_def world_step_def)
qed (simp_all add: pin_store_load_def sample_of_toml_def sample_env_def)

end
