(* ===== verification/PhoneLoop.thy ===== *)
theory PhoneLoop
  imports PhoneSessions
begin

text \<open>
  One phone's session: \<open>classify_phone_frame\<close>, \<open>pair_phone\<close> and the loop of \<open>run_phone_session\<close> in
  \<open>phone.rs\<close>, with \<open>phone_audio::start\<close>. Each branch of the loop's \<open>select!\<close> is one event; the handler
  returns the next state or the way the session ended, and what it asked of other components, in order.

  \<open>write_ok\<close> tells whether the session can still write; the first send that fails ends the session.
  Clipboard, notification history and the desktop mirror are other components: the loop hands events
  to them, and \<open>ImageTick\<close> and \<open>ImageExpiry\<close> carry what the clipboard state says: whether an image is
  going out, and the transfer that timed out. The audio stream's secrets come with the event. The
  tray's display of the audio direction is not part of this model.
\<close>

definition RECEIVER_PING_BIT :: u64 where
  "RECEIVER_PING_BIT = push_bit 63 1"

definition PHONE_JITTER_TARGET_MS :: u16 where
  "PHONE_JITTER_TARGET_MS = 80"

record phone_timings =
  pt_ping_interval :: duration
  pt_dead_after :: duration

definition phone_timings_default :: phone_timings where
  "phone_timings_default = \<lparr>pt_ping_interval = from_secs 30, pt_dead_after = from_secs 95\<rparr>"

section \<open>Classification\<close>

datatype phone_frame =
    PfHeartbeat u64
  | PfError
  | PfClipboard
  | PfNotification
  | PfAudioRequest "audio_direction option" u16
  | PfAudioStopped
  | PfPairRequest string
  | PfUnpair
  | PfNotAllowed string

fun classify_phone_frame :: "frame \<Rightarrow> phone_frame" where
  "classify_phone_frame (FHeartbeat (Heartbeat sequence)) = PfHeartbeat sequence"
| "classify_phone_frame (FError _) = PfError"
| "classify_phone_frame (FClipboard _) = PfClipboard"
| "classify_phone_frame (FNotification _) = PfNotification"
| "classify_phone_frame (FNotificationSync _) = PfNotAllowed ''NotificationSync''"
| "classify_phone_frame (FPhone (PairRequest token)) = PfPairRequest token"
| "classify_phone_frame (FPhone Unpair) = PfUnpair"
| "classify_phone_frame (FPhone PairAccepted) = PfNotAllowed ''PairAccepted''"
| "classify_phone_frame (FPhone (AudioRequest direction udp_port)) = PfAudioRequest direction udp_port"
| "classify_phone_frame (FPhone (AudioStopped _)) = PfAudioStopped"
| "classify_phone_frame (FPhone (AudioStart _ _ _ _ _)) = PfNotAllowed ''AudioStart''"
| "classify_phone_frame (FPhone (AudioInvite _)) = PfNotAllowed ''AudioInvite''"
| "classify_phone_frame (FHello _) = PfNotAllowed ''Hello''"
| "classify_phone_frame (FScreenInfo _) = PfNotAllowed ''ScreenInfo''"
| "classify_phone_frame (FInput _) = PfNotAllowed ''Input''"
| "classify_phone_frame (FControl _) = PfNotAllowed ''Control''"
| "classify_phone_frame (FAudio _) = PfNotAllowed ''Audio''"
| "classify_phone_frame (FPairing _) = PfNotAllowed ''Pairing''"
| "classify_phone_frame (FRole _) = PfNotAllowed ''Role''"

section \<open>State\<close>

record phone_stream =
  st_generation :: u64
  st_direction :: audio_direction

record phone_session =
  se_clipboard :: bool
  se_changes :: bool
  se_notifications :: bool
  se_shared_phone :: bool
  se_audio_allowed :: bool
  se_audio :: "phone_stream option"
  se_audio_generation :: u64
  se_ping_sequence :: u64
  se_ping_sent :: "(u64 \<times> instant) option"
  se_dead :: instant

datatype session_error =
    SendFailed | ReaderStopped | ReadFailed | PhoneSilent | FrameNotAllowed string
  | NoPairRequest | InsteadOfPairRequest | LoopStopped | PairingRefused pairing_refusal

datatype session_action =
    SendFrame frame
  | StartAudio audio_direction u16 u64 \<comment> \<open>direction, the phone's UDP port, generation\<close>
  | ApplyClipboard clipboard_event
  | ApplyHistory notification_event
  | ApplyMirror notification_event
  | CloseMirror
  | SendImageFrame
  | SendChangedOffer
  | AskPair string
  | AskForget string string
  | TrayRoundTrip duration

datatype outcome = Running phone_session | EndedOk | EndedErr session_error

datatype session_event =
    PingTick instant
  | Command "audio_direction option"
  | AudioReport u64 string
  | DeadTick instant
  | ImageTick bool
  | ImageExpiry "u64 option"
  | ClipboardChanged
  | ClipboardClosed
  | FrameRead instant frame "bytes \<times> bytes \<times> bytes" bool
      \<comment> \<open>time, frame, secrets for a new stream, and whether the history import succeeds\<close>
  | ReadError bool \<comment> \<open>whether the error is a clean close\<close>
  | ReaderGone

section \<open>Entry\<close>

text \<open>
  \<open>first\<close> is the first frame within the time limit: None after a timeout or when the reader stopped,
  an error, or a frame. \<open>answer\<close> is the receiver loop's answer, None when it stopped.
\<close>

definition pair_phone ::
  "bool \<Rightarrow> (session_error, frame) result option \<Rightarrow> (pairing_refusal, pinned_phone) result option
     \<Rightarrow> (session_error, pinned_phone) result \<times> session_action list" where
  "pair_phone write_ok first answer =
     (case first of
        None \<Rightarrow> (Err NoPairRequest, [])
      | Some (Inl e) \<Rightarrow> (Err e, [])
      | Some (Inr frame) \<Rightarrow>
          (case classify_phone_frame frame of
             PfPairRequest token \<Rightarrow>
               (case answer of
                  None \<Rightarrow> (Err LoopStopped, [AskPair token])
                | Some (Inr phone) \<Rightarrow>
                    if write_ok then (Ok phone, [AskPair token, SendFrame (FPhone PairAccepted)])
                    else (Err SendFailed, [AskPair token])
                | Some (Inl refusal) \<Rightarrow>
                    (Err (PairingRefused refusal),
                     AskPair token #
                     (if write_ok
                      then [SendFrame (FError \<lparr>re_code = refusal_code refusal, re_message = refusal_message refusal\<rparr>)]
                      else [])))
           | _ \<Rightarrow> (Err InsteadOfPairRequest, [])))"

definition session_start :: "session_context \<Rightarrow> phone_timings \<Rightarrow> bool \<Rightarrow> instant \<Rightarrow> pinned_phone \<Rightarrow> phone_session" where
  "session_start ctx timings clipboard_starts now phone =
     (let notifications = (ctx_notifications ctx \<and> FeatureNotifications \<in> pf_allowed_features phone)
      in \<lparr>se_clipboard = (ctx_clipboard ctx \<and> FeatureClipboard \<in> pf_allowed_features phone \<and> clipboard_starts),
          se_changes = True, se_notifications = notifications, se_shared_phone = (notifications \<and> ctx_hub ctx),
          se_audio_allowed = (FeatureAudio \<in> pf_allowed_features phone), se_audio = None,
          se_audio_generation = 0, se_ping_sequence = 0, se_ping_sent = None,
          se_dead = now + pt_dead_after timings\<rparr>)"

section \<open>The loop\<close>

text \<open>\<open>send(\<dots>).await?\<close> followed by the rest of the branch.\<close>

definition and_send :: "bool \<Rightarrow> frame \<Rightarrow> outcome \<times> session_action list \<Rightarrow> outcome \<times> session_action list" where
  "and_send write_ok frame rest =
     (if write_ok then (fst rest, SendFrame frame # snd rest) else (EndedErr SendFailed, []))"

fun handle_phone_frame ::
  "session_context \<Rightarrow> bool \<Rightarrow> instant \<Rightarrow> frame \<Rightarrow> bytes \<times> bytes \<times> bytes \<Rightarrow> bool \<Rightarrow> phone_session \<Rightarrow> phone_frame
     \<Rightarrow> outcome \<times> session_action list" where
  "handle_phone_frame ctx write_ok now frame secrets imported s (PfHeartbeat sequence) =
     (if sequence AND RECEIVER_PING_BIT = 0 then and_send write_ok frame (Running s, [])
      else (case se_ping_sent s of
              Some (sent_sequence, sent) \<Rightarrow>
                if sent_sequence = sequence
                then (Running (s\<lparr>se_ping_sent := None\<rparr>), [TrayRoundTrip (duration_since now sent)])
                else (Running s, [])
            | None \<Rightarrow> (Running s, [])))"
| "handle_phone_frame ctx write_ok now frame secrets imported s PfError = (Running s, [])"
| "handle_phone_frame ctx write_ok now frame secrets imported s PfNotification =
     (Running s,
      (case frame of
         FNotification event \<Rightarrow>
           if \<not> se_notifications s then []
           else if se_shared_phone s
           then ApplyHistory event # (if event = PhoneSnapshotEnd \<and> imported then [CloseMirror] else [])
           else [ApplyMirror event]
       | _ \<Rightarrow> []))"
| "handle_phone_frame ctx write_ok now frame secrets imported s PfClipboard =
     (Running s,
      (case frame of FClipboard event \<Rightarrow> if se_clipboard s then [ApplyClipboard event] else [] | _ \<Rightarrow> []))"
| "handle_phone_frame ctx write_ok now frame secrets imported s (PfPairRequest _) =
     and_send write_ok (FPhone PairAccepted) (Running s, [])"
| "handle_phone_frame ctx write_ok now frame secrets imported s (PfAudioRequest direction udp_port) =
     (let s1 = s\<lparr>se_audio := None\<rparr> in
      case direction of
        None \<Rightarrow> (Running s1, [])
      | Some dir \<Rightarrow>
          if \<not> se_audio_allowed s
          then and_send write_ok (FPhone (AudioStopped ''audio isn't allowed for this phone'')) (Running s1, [])
          else (let generation = se_audio_generation s + 1;
                    (session_id, session_salt, session_key) = secrets;
                    start = FPhone (AudioStart dir session_id session_salt session_key PHONE_JITTER_TARGET_MS)
                in (case and_send write_ok start
                           (Running (s1\<lparr>se_audio_generation := generation,
                              se_audio := Some \<lparr>st_generation = generation, st_direction = dir\<rparr>\<rparr>), []) of
                      (out, acts) \<Rightarrow> (out, StartAudio dir udp_port generation # acts))))"
| "handle_phone_frame ctx write_ok now frame secrets imported s PfAudioStopped =
     (Running (s\<lparr>se_audio := None\<rparr>), [])"
| "handle_phone_frame ctx write_ok now frame secrets imported s PfUnpair =
     (EndedOk, [AskForget (ctx_name ctx) (ctx_fingerprint ctx)])"
| "handle_phone_frame ctx write_ok now frame secrets imported s (PfNotAllowed kind) =
     (EndedErr (FrameNotAllowed kind), [])"

fun loop_step ::
  "session_context \<Rightarrow> phone_timings \<Rightarrow> bool \<Rightarrow> phone_session \<Rightarrow> session_event \<Rightarrow> outcome \<times> session_action list" where
  "loop_step ctx timings write_ok s (PingTick now) =
     (let ping_sequence = (se_ping_sequence s + 1) AND NOT RECEIVER_PING_BIT;
          sequence = RECEIVER_PING_BIT OR ping_sequence
      in and_send write_ok (FHeartbeat (Heartbeat sequence))
           (Running (s\<lparr>se_ping_sequence := ping_sequence, se_ping_sent := Some (sequence, now)\<rparr>), []))"
| "loop_step ctx timings write_ok s (Command (Some direction)) =
     (if ctx_accepts_audio_invite ctx
      then and_send write_ok (FPhone (AudioInvite direction)) (Running s, [])
      else (Running s, []))"
| "loop_step ctx timings write_ok s (Command None) =
     (if se_audio s = None then (Running s, [])
      else and_send write_ok (FPhone (AudioStopped ''stopped on the computer'')) (Running (s\<lparr>se_audio := None\<rparr>), []))"
| "loop_step ctx timings write_ok s (AudioReport generation reason) =
     (case se_audio s of
        Some running \<Rightarrow>
          if st_generation running = generation
          then and_send write_ok (FPhone (AudioStopped reason)) (Running (s\<lparr>se_audio := None\<rparr>), [])
          else (Running s, [])
      | None \<Rightarrow> (Running s, []))"
| "loop_step ctx timings write_ok s (DeadTick now) =
     (if se_dead s \<le> now then (EndedErr PhoneSilent, []) else (Running s, []))"
| "loop_step ctx timings write_ok s (ImageTick outgoing) =
     (Running s, if se_clipboard s \<and> outgoing then [SendImageFrame] else [])"
| "loop_step ctx timings write_ok s (ImageExpiry expired) =
     (case expired of
        Some transfer_id \<Rightarrow>
          if se_clipboard s
          then and_send write_ok (FClipboard (ImageCancel transfer_id TimedOut)) (Running s, [])
          else (Running s, [])
      | None \<Rightarrow> (Running s, []))"
| "loop_step ctx timings write_ok s ClipboardChanged =
     (Running s, if se_clipboard s \<and> se_changes s then [SendChangedOffer] else [])"
| "loop_step ctx timings write_ok s ClipboardClosed =
     (Running (if se_clipboard s \<and> se_changes s then s\<lparr>se_changes := False\<rparr> else s), [])"
| "loop_step ctx timings write_ok s (FrameRead now frame secrets imported) =
     handle_phone_frame ctx write_ok now frame secrets imported (s\<lparr>se_dead := now + pt_dead_after timings\<rparr>)
       (classify_phone_frame frame)"
| "loop_step ctx timings write_ok s (ReadError closed) =
     (if closed then EndedOk else EndedErr ReadFailed, [])"
| "loop_step ctx timings write_ok s ReaderGone = (EndedErr ReaderStopped, [])"

text \<open>The session over a sequence of events, each with whether a send would succeed.\<close>

fun run_session ::
  "session_context \<Rightarrow> phone_timings \<Rightarrow> phone_session \<Rightarrow> (bool \<times> session_event) list \<Rightarrow> outcome \<times> session_action list"
  where
  "run_session ctx timings s [] = (Running s, [])"
| "run_session ctx timings s ((write_ok, ev) # evs) =
     (case loop_step ctx timings write_ok s ev of
        (Running s', acts) \<Rightarrow> (case run_session ctx timings s' evs of (out, acts') \<Rightarrow> (out, acts @ acts'))
      | (ended, acts) \<Rightarrow> (ended, acts))"

section \<open>Lemmas\<close>

lemma and_send_simps [simp]:
  "and_send True frame rest = (fst rest, SendFrame frame # snd rest)"
  "and_send False frame rest = (EndedErr SendFailed, [])"
  by (simp_all add: and_send_def)

text \<open>What the pin allows an action to be.\<close>

fun action_allowed :: "session_context \<Rightarrow> phone_feature set \<Rightarrow> session_action \<Rightarrow> bool" where
  "action_allowed ctx allowed (StartAudio _ _ _) = (FeatureAudio \<in> allowed)"
| "action_allowed ctx allowed (ApplyClipboard _) = (FeatureClipboard \<in> allowed)"
| "action_allowed ctx allowed SendImageFrame = (FeatureClipboard \<in> allowed)"
| "action_allowed ctx allowed SendChangedOffer = (FeatureClipboard \<in> allowed)"
| "action_allowed ctx allowed (ApplyHistory _) = (FeatureNotifications \<in> allowed)"
| "action_allowed ctx allowed (ApplyMirror _) = (FeatureNotifications \<in> allowed)"
| "action_allowed ctx allowed CloseMirror = (FeatureNotifications \<in> allowed)"
| "action_allowed ctx allowed (AskPair _) = False"
| "action_allowed ctx allowed (AskForget name fp) = (name = ctx_name ctx \<and> fp = ctx_fingerprint ctx)"
| "action_allowed ctx allowed _ = True"

definition session_wf :: "phone_feature set \<Rightarrow> phone_session \<Rightarrow> bool" where
  "session_wf allowed s \<longleftrightarrow>
     (se_clipboard s \<longrightarrow> FeatureClipboard \<in> allowed) \<and> (se_notifications s \<longrightarrow> FeatureNotifications \<in> allowed) \<and>
     (se_audio_allowed s \<longrightarrow> FeatureAudio \<in> allowed)"

definition outcome_all :: "(phone_session \<Rightarrow> bool) \<Rightarrow> outcome \<Rightarrow> bool" where
  "outcome_all P out = (case out of Running s \<Rightarrow> P s | _ \<Rightarrow> True)"

lemma outcome_all_simps [simp]:
  "outcome_all P (Running s) = P s" "outcome_all P EndedOk" "outcome_all P (EndedErr e)"
  by (simp_all add: outcome_all_def)

lemma and_send_all:
  "outcome_all P (fst rest) \<Longrightarrow> outcome_all P (fst (and_send write_ok frame rest))"
  "\<forall>a\<in>set (snd rest). Q a \<Longrightarrow> Q (SendFrame frame) \<Longrightarrow> \<forall>a\<in>set (snd (and_send write_ok frame rest)). Q a"
  by (cases write_ok; simp)+

lemma handle_frame_wf:
  assumes "session_wf allowed s"
  shows "outcome_all (session_wf allowed) (fst (handle_phone_frame ctx write_ok now frame secrets imported s pf)) \<and>
    (\<forall>a\<in>set (snd (handle_phone_frame ctx write_ok now frame secrets imported s pf)). action_allowed ctx allowed a)"
  using assms
  by (cases pf; cases write_ok)
    (auto simp: session_wf_def Let_def split: option.splits frame.splits if_splits prod.splits)

lemma loop_step_wf:
  assumes "session_wf allowed s"
  shows "outcome_all (session_wf allowed) (fst (loop_step ctx timings write_ok s ev)) \<and>
    (\<forall>a\<in>set (snd (loop_step ctx timings write_ok s ev)). action_allowed ctx allowed a)"
proof (cases ev)
  case (FrameRead now frame secrets imported)
  have "session_wf allowed (s\<lparr>se_dead := now + pt_dead_after timings\<rparr>)"
    using assms by (simp add: session_wf_def)
  from handle_frame_wf [OF this] show ?thesis
    by (simp add: FrameRead)
next
  case (Command direction)
  then show ?thesis
    using assms by (cases direction; cases write_ok) (auto simp: session_wf_def)
qed (use assms in \<open>cases write_ok; auto simp: session_wf_def Let_def split: option.splits\<close>)+

lemma run_session_append:
  "run_session ctx timings s (xs @ ys) =
     (case run_session ctx timings s xs of
        (Running s', acts) \<Rightarrow> (case run_session ctx timings s' ys of (out, acts') \<Rightarrow> (out, acts @ acts'))
      | (ended, acts) \<Rightarrow> (ended, acts))"
  by (induction ctx timings s xs rule: run_session.induct) (auto split: prod.splits outcome.splits)

lemma run_session_wf:
  "session_wf allowed s \<Longrightarrow>
     outcome_all (session_wf allowed) (fst (run_session ctx timings s evs)) \<and>
     (\<forall>a\<in>set (snd (run_session ctx timings s evs)). action_allowed ctx allowed a)"
proof (induction evs arbitrary: s)
  case (Cons e evs)
  obtain write_ok ev where e: "e = (write_ok, ev)" by (cases e)
  obtain out acts where step: "loop_step ctx timings write_ok s ev = (out, acts)"
    by (cases "loop_step ctx timings write_ok s ev")
  have "outcome_all (session_wf allowed) out" "\<forall>a\<in>set acts. action_allowed ctx allowed a"
    using loop_step_wf [OF Cons.prems, of ctx timings write_ok ev] by (simp_all add: step)
  then show ?case
  proof (cases out)
    case (Running s')
    then have "session_wf allowed s'"
      using \<open>outcome_all (session_wf allowed) out\<close> by simp
    from Cons.IH [OF this] show ?thesis
      using \<open>\<forall>a\<in>set acts. action_allowed ctx allowed a\<close>
      by (cases "run_session ctx timings s' evs") (auto simp: e step Running)
  qed (auto simp: e step)
qed simp

text \<open>The audio streams started, by generation, and when the session last heard the phone.\<close>

fun starts :: "session_action list \<Rightarrow> u64 list" where
  "starts [] = []"
| "starts (StartAudio _ _ generation # acts) = generation # starts acts"
| "starts (_ # acts) = starts acts"

lemma starts_append [simp]: "starts (xs @ ys) = starts xs @ starts ys"
  by (induction xs rule: starts.induct) simp_all

fun last_heard :: "instant \<Rightarrow> (bool \<times> session_event) list \<Rightarrow> instant" where
  "last_heard t [] = t"
| "last_heard t ((_, FrameRead now _ _ _) # evs) = last_heard now evs"
| "last_heard t (_ # evs) = last_heard t evs"

text \<open>The generations are \<open>1, 2, \<dots>\<close>, in the width of the counter.\<close>

definition numbered :: "u64 list \<Rightarrow> bool" where
  "numbered gens \<longleftrightarrow> gens = map (\<lambda>i. of_nat (Suc i)) [0..<length gens]"

definition stream_inv :: "u64 list \<Rightarrow> phone_session \<Rightarrow> bool" where
  "stream_inv gens s \<longleftrightarrow>
     numbered gens \<and> se_audio_generation s = of_nat (length gens) \<and>
     (case se_audio s of None \<Rightarrow> True | Some st \<Rightarrow> gens \<noteq> [] \<and> st_generation st = last gens)"

lemma numbered_snoc: "numbered gens \<Longrightarrow> numbered (gens @ [of_nat (length gens) + 1])"
  by (simp add: numbered_def add.commute)

lemma numbered_distinct:
  assumes "numbered gens" "length gens < 2 ^ 64"
  shows "distinct gens"
proof -
  have "inj_on (\<lambda>i. of_nat (Suc i) :: u64) {0..<length gens}"
    by (intro inj_onI) (use assms(2) in \<open>auto simp: word_of_nat_eq_iff take_bit_nat_eq_self simp del: of_nat_Suc\<close>)
  then have "distinct (map (\<lambda>i. of_nat (Suc i) :: u64) [0..<length gens])"
    by (simp only: distinct_map distinct_upt atLeastLessThan_upt simp_thms)
  then show ?thesis
    using assms(1) by (simp only: numbered_def)
qed

lemma stream_inv_update [simp]:
  "stream_inv gens (s\<lparr>se_dead := t\<rparr>) = stream_inv gens s"
  "stream_inv gens (s\<lparr>se_ping_sent := p\<rparr>) = stream_inv gens s"
  "stream_inv gens (s\<lparr>se_ping_sequence := q\<rparr>) = stream_inv gens s"
  "stream_inv gens (s\<lparr>se_changes := b\<rparr>) = stream_inv gens s"
  by (simp_all add: stream_inv_def)

lemma stream_inv_keep: "stream_inv gens s \<Longrightarrow> stream_inv gens (s\<lparr>se_audio := None\<rparr>)"
  by (simp add: stream_inv_def)

lemma stream_inv_start:
  assumes "stream_inv gens s"
  shows "stream_inv (gens @ [se_audio_generation s + 1])
    (s\<lparr>se_audio_generation := se_audio_generation s + 1,
       se_audio := Some \<lparr>st_generation = se_audio_generation s + 1, st_direction = dir\<rparr>\<rparr>)"
  using assms numbered_snoc [of gens] by (simp add: stream_inv_def)

lemma and_send_outcome [simp]:
  "outcome_all P (fst (and_send write_ok frame rest)) = (write_ok \<longrightarrow> outcome_all P (fst rest))"
  "starts (snd (and_send write_ok frame rest)) = (if write_ok then starts (snd rest) else [])"
  by (cases write_ok; simp)+

lemma stream_inv_frame:
  assumes "stream_inv gens s"
  shows "outcome_all (stream_inv (gens @ starts (snd (handle_phone_frame ctx write_ok now frame secrets imported s pf))))
    (fst (handle_phone_frame ctx write_ok now frame secrets imported s pf))"
proof (cases pf)
  case (PfHeartbeat sequence)
  then show ?thesis
    using assms by (simp split: option.split prod.split)
next
  case PfNotification
  then show ?thesis
    using assms by (simp split: frame.split)
next
  case PfClipboard
  then show ?thesis
    using assms by (simp split: frame.split)
next
  case (PfAudioRequest direction udp_port)
  obtain a b c where sec: "secrets = (a, b, c)" by (cases secrets)
  show ?thesis
    using stream_inv_keep [OF assms] stream_inv_start [OF assms]
    by (cases write_ok) (simp_all add: PfAudioRequest Let_def sec split: option.split)
qed (use assms stream_inv_keep [OF assms] in simp_all)

lemma stream_inv_step:
  assumes "stream_inv gens s"
  shows "outcome_all (stream_inv (gens @ starts (snd (loop_step ctx timings write_ok s ev))))
    (fst (loop_step ctx timings write_ok s ev))"
proof (cases ev)
  case (FrameRead now frame secrets imported)
  have "stream_inv gens (s\<lparr>se_dead := now + pt_dead_after timings\<rparr>)"
    using assms by simp
  from stream_inv_frame [OF this] show ?thesis
    by (simp add: FrameRead)
next
  case (Command direction)
  then show ?thesis
    using assms stream_inv_keep [OF assms] by (cases direction) simp_all
next
  case (AudioReport generation reason)
  then show ?thesis
    using assms stream_inv_keep [OF assms] by (simp split: option.split)
next
  case (ImageExpiry expired)
  then show ?thesis
    using assms by (simp split: option.split)
qed (use assms in \<open>simp_all add: Let_def\<close>)

lemma ended_numbered:
  assumes "stream_inv gens s" "fst (loop_step ctx timings write_ok s ev) = out" "\<And>s'. out \<noteq> Running s'"
  shows "numbered (gens @ starts (snd (loop_step ctx timings write_ok s ev)))"
proof (cases ev)
  case (FrameRead now frame secrets imported)
  obtain a b c where "secrets = (a, b, c)" by (cases secrets)
  moreover have "numbered gens" "numbered (gens @ [se_audio_generation s + 1])"
    using assms(1) numbered_snoc [of gens] by (simp_all add: stream_inv_def)
  ultimately show ?thesis
    using assms(2,3)
    by (cases "classify_phone_frame frame"; cases write_ok)
      (auto simp: FrameRead Let_def split: option.splits frame.splits prod.splits if_splits)
next
  case (Command direction)
  then show ?thesis
    using assms(1) by (cases direction) (simp_all add: stream_inv_def)
next
  case (AudioReport generation reason)
  then show ?thesis
    using assms(1) by (simp add: stream_inv_def split: option.split)
next
  case (ImageExpiry expired)
  then show ?thesis
    using assms(1) by (simp add: stream_inv_def split: option.split)
qed (use assms(1) in \<open>simp_all add: Let_def stream_inv_def\<close>)

lemma stream_inv_run:
  assumes "stream_inv gens s" "run_session ctx timings s evs = (out, acts)"
  shows "outcome_all (stream_inv (gens @ starts acts)) out \<and> numbered (gens @ starts acts)"
  using assms
proof (induction evs arbitrary: s gens acts)
  case Nil
  then show ?case by (auto simp: stream_inv_def)
next
  case (Cons e evs)
  obtain write_ok ev where e: "e = (write_ok, ev)" by (cases e)
  obtain out1 acts1 where step: "loop_step ctx timings write_ok s ev = (out1, acts1)"
    by (cases "loop_step ctx timings write_ok s ev")
  show ?case
  proof (cases "\<exists>s1. out1 = Running s1")
    case True
    then obtain s1 where Running: "out1 = Running s1" ..
    obtain acts2 where run: "run_session ctx timings s1 evs = (out, acts2)" "acts = acts1 @ acts2"
      using Cons.prems(2) by (auto simp: e step Running split: prod.splits)
    have "stream_inv (gens @ starts acts1) s1"
      using stream_inv_step [OF Cons.prems(1), of ctx timings write_ok ev] by (simp add: step Running)
    from Cons.IH [OF this run(1)] show ?thesis
      by (simp add: run(2))
  next
    case False
    then have "out = out1" "acts = acts1"
      using Cons.prems(2) step by (cases out1; auto simp: e)+
    moreover have "numbered (gens @ starts acts1)"
      using ended_numbered [OF Cons.prems(1), of ctx timings write_ok ev out1] step False by simp
    ultimately show ?thesis
      using False by (cases out1) auto
  qed
qed

lemma dead_frame:
  assumes "fst (handle_phone_frame ctx write_ok now frame secrets imported s pf) = Running s'"
  shows "se_dead s' = se_dead s"
  using assms
  by (cases pf; cases write_ok)
    (auto simp: Let_def split: option.splits frame.splits prod.splits if_splits)

lemma dead_step:
  assumes "se_dead s = t + pt_dead_after timings" "loop_step ctx timings write_ok s ev = (Running s', acts)"
  shows "se_dead s' = last_heard t [(write_ok, ev)] + pt_dead_after timings"
proof (cases ev)
  case (FrameRead now frame secrets imported)
  then have "fst (handle_phone_frame ctx write_ok now frame secrets imported
      (s\<lparr>se_dead := now + pt_dead_after timings\<rparr>) (classify_phone_frame frame)) = Running s'"
    using assms(2) by simp
  from dead_frame [OF this] show ?thesis
    by (simp add: FrameRead)
next
  case (Command direction)
  then show ?thesis
    using assms by (cases direction; cases write_ok) (auto split: if_splits)
qed (use assms in \<open>cases write_ok; auto simp: Let_def split: option.splits if_splits\<close>)+

lemma last_heard_Cons: "last_heard t (e # evs) = last_heard (last_heard t [e]) evs"
  by (cases e; cases "snd e") auto

lemma dead_run:
  assumes "se_dead s = t + pt_dead_after timings" "run_session ctx timings s evs = (Running s', acts)"
  shows "se_dead s' = last_heard t evs + pt_dead_after timings"
  using assms
proof (induction evs arbitrary: s t acts)
  case Nil
  then show ?case by simp
next
  case (Cons e evs)
  obtain write_ok ev where e: "e = (write_ok, ev)" by (cases e)
  obtain s1 acts1 acts2 where step: "loop_step ctx timings write_ok s ev = (Running s1, acts1)"
      and run: "run_session ctx timings s1 evs = (Running s', acts2)"
    using Cons.prems(2) by (auto simp: e split: prod.splits outcome.splits)
  show ?case
    using Cons.IH [OF dead_step [OF Cons.prems(1) step] run] last_heard_Cons [of t e evs] by (simp add: e)
qed

section \<open>Properties\<close>

text \<open>C33: A phone only gets what its pin allows: over any session, audio streams start only with the
  audio feature, clipboard and notification events are passed on only with theirs, and the only pin
  change a running session asks for is to forget the phone itself. A frame that belongs to computers
  (input, control, screen, role, pairing, hello, PC audio, notification sync) or is the computer's half
  of a phone exchange ends the session at once with no effect.\<close>

theorem phone_session_confined:
  shows "(\<forall>a\<in>set (snd (run_session ctx timings (session_start ctx timings clip now phone) evs)).
      action_allowed ctx (pf_allowed_features phone) a) \<and>
    (case frame of
       FHeartbeat _ \<Rightarrow> True | FError _ \<Rightarrow> True | FClipboard _ \<Rightarrow> True | FNotification _ \<Rightarrow> True
     | FPhone (PairRequest _) \<Rightarrow> True | FPhone Unpair \<Rightarrow> True | FPhone (AudioRequest _ _) \<Rightarrow> True
     | FPhone (AudioStopped _) \<Rightarrow> True
     | _ \<Rightarrow> (\<exists>kind. loop_step ctx timings write_ok s (FrameRead t frame secrets imported) =
                      (EndedErr (FrameNotAllowed kind), [])))"
proof -
  have "session_wf (pf_allowed_features phone) (session_start ctx timings clip now phone)"
    by (simp add: session_wf_def session_start_def)
  from run_session_wf [OF this] show ?thesis
    by (simp split: frame.split phone_event.split)
qed

definition sample_ctx :: session_context where
  "sample_ctx =
     \<lparr>ctx_name = ''p'', ctx_fingerprint = ''k'', ctx_ip = V4 1, ctx_clipboard = True, ctx_clipboard_images = True,
      ctx_notifications = True, ctx_hub = True, ctx_accepts_audio_invite = True\<rparr>"

definition sample_phone :: pinned_phone where
  "sample_phone = \<lparr>pf_fingerprint = ''k'', pf_allowed_features = {FeatureAudio}\<rparr>"

definition sample_start :: phone_session where
  "sample_start = session_start sample_ctx phone_timings_default True 0 sample_phone"

definition sample_events :: "(bool \<times> session_event) list" where
  "sample_events =
     [(True, FrameRead 1 (FClipboard TextRequest) ([], [], []) True),
      (True, FrameRead 2 (FPhone (AudioRequest (Some ToPhone) 7)) ([1], [2], [3]) True)]"

lemma sample_run:
  "\<exists>s. run_session sample_ctx phone_timings_default sample_start sample_events =
     (Running s, [StartAudio ToPhone 7 1, SendFrame (FPhone (AudioStart ToPhone [1] [2] [3] 80))])"
  by (simp add: sample_start_def sample_events_def session_start_def sample_ctx_def sample_phone_def
      PHONE_JITTER_TARGET_MS_def Let_def)

theorem phone_session_confined_witness:
  "StartAudio ToPhone 7 1 \<in> set (snd (run_session sample_ctx phone_timings_default sample_start sample_events)) \<and>
   action_allowed sample_ctx (pf_allowed_features sample_phone) (StartAudio ToPhone 7 1)"
proof -
  have "StartAudio ToPhone 7 1 \<in> set (snd (run_session sample_ctx phone_timings_default sample_start sample_events))"
    using sample_run by (elim exE) simp
  then show ?thesis
    using phone_session_confined [where ctx = sample_ctx and timings = phone_timings_default and clip = True and
        now = 0 and phone = sample_phone and evs = sample_events]
    unfolding sample_start_def by blast
qed

text \<open>Streams and silence of a phone: the streams of a session are numbered from one, so for fewer
  than \<open>2^64\<close> streams the numbers differ; a running stream is always the latest one, so a late report of
  an earlier stream changes nothing; and the session ends for silence exactly when \<open>dead_after\<close> has
  passed since the last frame of the phone (or since the start).\<close>

theorem phone_streams_and_silence:
  assumes "run_session ctx timings (session_start ctx timings clip now phone) evs = (Running s, acts)"
  shows "(length (starts acts) < 2 ^ 64 \<longrightarrow> distinct (starts acts)) \<and>
    (case se_audio s of
       None \<Rightarrow> loop_step ctx timings write_ok s (AudioReport g reason) = (Running s, [])
     | Some stream \<Rightarrow> starts acts \<noteq> [] \<and> st_generation stream = last (starts acts) \<and>
         (g \<noteq> last (starts acts) \<longrightarrow>
            loop_step ctx timings write_ok s (AudioReport g reason) = (Running s, []))) \<and>
    loop_step ctx timings write_ok s (DeadTick t) =
      (if last_heard now evs + pt_dead_after timings \<le> t then (EndedErr PhoneSilent, []) else (Running s, []))"
proof -
  have start: "stream_inv [] (session_start ctx timings clip now phone)"
    "se_dead (session_start ctx timings clip now phone) = now + pt_dead_after timings"
    by (simp_all add: stream_inv_def numbered_def session_start_def Let_def)
  show ?thesis
    using stream_inv_run [OF start(1) assms] dead_run [OF start(2) assms] numbered_distinct
    by (auto simp: stream_inv_def split: option.split)
qed

theorem phone_streams_and_silence_witness:
  "\<exists>s acts. run_session sample_ctx phone_timings_default sample_start sample_events = (Running s, acts) \<and>
     starts acts = [1] \<and> distinct (starts acts) \<and>
     loop_step sample_ctx phone_timings_default True s (DeadTick 94000000000) = (Running s, [])"
proof -
  obtain s where s: "run_session sample_ctx phone_timings_default sample_start sample_events =
      (Running s, [StartAudio ToPhone 7 1, SendFrame (FPhone (AudioStart ToPhone [1] [2] [3] 80))])"
    using sample_run by (elim exE) (rule that)
  show ?thesis
    using phone_streams_and_silence [OF s [unfolded sample_start_def], of True 5 "''x''" 94000000000] s
    by (auto simp: sample_events_def phone_timings_default_def from_secs_def)
qed

end
