(* ===== verification/Geometry.thy ===== *)
theory Geometry
  imports Protocol Complex_Main
begin

text \<open>
  Screen geometry: \<open>crates/edge-geometry/src/lib.rs\<close>, and what the receiver's \<open>main.rs\<close> does with it
  (\<open>linux_release_cursor\<close>, \<open>real_cursor_at_return_edge\<close>). The arithmetic on \<open>f64\<close> is arithmetic on
  real numbers here, without its rounding; the conversions of the processor between real numbers and the bit
  patterns of \<open>f32\<close> and \<open>f64\<close> are the parameter \<open>floats\<close>.
\<close>

record floats =
  fl_f64 :: "real \<Rightarrow> f64"
  fl_f32 :: "real \<Rightarrow> f32"
  fl_real32 :: "f32 \<Rightarrow> real"

text \<open>What the code relies on: rounding to \<open>f32\<close> does not leave the unit interval.\<close>

definition floats_ok :: "floats \<Rightarrow> bool" where
  "floats_ok F \<longleftrightarrow> (\<forall>r. 0 \<le> r \<and> r \<le> 1 \<longrightarrow> 0 \<le> fl_real32 F (fl_f32 F r) \<and> fl_real32 F (fl_f32 F r) \<le> 1)"

section \<open>Points and rectangles\<close>

record size_px =
  sz_width :: u32
  sz_height :: u32

record point =
  pt_x :: real
  pt_y :: real

record rect =
  rc_x :: real
  rc_y :: real
  rc_width :: u32
  rc_height :: u32

definition saturating_pred :: "u32 \<Rightarrow> u32" where
  "saturating_pred w = (if w = 0 then 0 else w - 1)"

text \<open>\<open>f64::from(extent.saturating_sub(1))\<close>.\<close>

definition last_pixel :: "u32 \<Rightarrow> real" where
  "last_pixel extent = real (unat (saturating_pred extent))"

definition rect_right :: "rect \<Rightarrow> real" where
  "rect_right r = rc_x r + last_pixel (rc_width r)"

definition rect_bottom :: "rect \<Rightarrow> real" where
  "rect_bottom r = rc_y r + last_pixel (rc_height r)"

definition clamp :: "real \<Rightarrow> real \<Rightarrow> real \<Rightarrow> real" where
  "clamp value lo hi = min (max value lo) hi"

text \<open>\<open>f64::round\<close>: to the nearest integer, half away from zero.\<close>

definition round_away :: "real \<Rightarrow> real" where
  "round_away r = (if 0 \<le> r then of_int \<lfloor>r + 1 / 2\<rfloor> else - of_int \<lfloor>- r + 1 / 2\<rfloor>)"

section \<open>Entering and leaving\<close>

definition normalized_axis :: "floats \<Rightarrow> real \<Rightarrow> u32 \<Rightarrow> f32" where
  "normalized_axis F pos extent =
     (if unat extent \<le> 1 then fl_f32 F 0
      else fl_f32 F (clamp pos 0 (real (unat (extent - 1))) / real (unat (extent - 1))))"

definition bounded_inset :: "real \<Rightarrow> u32 \<Rightarrow> real" where
  "bounded_inset inset extent = clamp inset 1 (last_pixel extent)"

record enter_remote_point =
  er_edge :: edge
  er_normalized_position :: f32
  er_remote_start :: point

record leave_remote_point =
  lr_edge :: edge
  lr_normalized_position :: f32
  lr_local_restore :: point

definition enter_left_edge :: "floats \<Rightarrow> real \<Rightarrow> size_px \<Rightarrow> size_px \<Rightarrow> enter_remote_point" where
  "enter_left_edge F local_cursor_y local remote =
     (let normalized = normalized_axis F local_cursor_y (sz_height local);
          remote_y = last_pixel (sz_height remote) * fl_real32 F normalized
      in \<lparr>er_edge = EdgeLeft, er_normalized_position = normalized,
          er_remote_start = \<lparr>pt_x = real (unat (sz_width remote) - 2),
            pt_y = clamp remote_y 0 (last_pixel (sz_height remote))\<rparr>\<rparr>)"

definition leave_right_edge :: "floats \<Rightarrow> real \<Rightarrow> size_px \<Rightarrow> size_px \<Rightarrow> leave_remote_point" where
  "leave_right_edge F remote_cursor_y local remote =
     (let normalized = normalized_axis F remote_cursor_y (sz_height remote);
          local_y = last_pixel (sz_height local) * fl_real32 F normalized
      in \<lparr>lr_edge = EdgeRight, lr_normalized_position = normalized,
          lr_local_restore = \<lparr>pt_x = 1, pt_y = clamp local_y 0 (last_pixel (sz_height local))\<rparr>\<rparr>)"

definition apply_remote_motion :: "point \<Rightarrow> real \<Rightarrow> real \<Rightarrow> size_px \<Rightarrow> point" where
  "apply_remote_motion cursor dx dy remote =
     \<lparr>pt_x = clamp (pt_x cursor + dx) 0 (last_pixel (sz_width remote)),
      pt_y = clamp (pt_y cursor + dy) 0 (last_pixel (sz_height remote))\<rparr>"

definition exits_right :: "point \<Rightarrow> size_px \<Rightarrow> bool" where
  "exits_right cursor remote = (pt_x cursor \<ge> last_pixel (sz_width remote))"

fun point_is_at_edge :: "edge \<Rightarrow> point \<Rightarrow> rect \<Rightarrow> bool" where
  "point_is_at_edge EdgeLeft p b = (pt_x p \<le> rc_x b)"
| "point_is_at_edge EdgeRight p b = (pt_x p \<ge> rect_right b)"
| "point_is_at_edge EdgeTop p b = (pt_y p \<le> rc_y b)"
| "point_is_at_edge EdgeBottom p b = (pt_y p \<ge> rect_bottom b)"

fun edge_anchor :: "edge \<Rightarrow> point \<Rightarrow> rect \<Rightarrow> real \<Rightarrow> point" where
  "edge_anchor EdgeLeft p b inset = \<lparr>pt_x = rc_x b + inset, pt_y = clamp (pt_y p) (rc_y b) (rect_bottom b)\<rparr>"
| "edge_anchor EdgeRight p b inset = \<lparr>pt_x = rect_right b - inset, pt_y = clamp (pt_y p) (rc_y b) (rect_bottom b)\<rparr>"
| "edge_anchor EdgeTop p b inset = \<lparr>pt_x = clamp (pt_x p) (rc_x b) (rect_right b), pt_y = rc_y b + inset\<rparr>"
| "edge_anchor EdgeBottom p b inset = \<lparr>pt_x = clamp (pt_x p) (rc_x b) (rect_right b), pt_y = rect_bottom b - inset\<rparr>"

definition sideways :: "edge \<Rightarrow> bool" where
  "sideways e = (e = EdgeLeft \<or> e = EdgeRight)"

definition normalized_perpendicular :: "floats \<Rightarrow> edge \<Rightarrow> point \<Rightarrow> rect \<Rightarrow> f32" where
  "normalized_perpendicular F e p b =
     (if sideways e then normalized_axis F (pt_y p - rc_y b) (rc_height b)
      else normalized_axis F (pt_x p - rc_x b) (rc_width b))"

definition remote_entry_point :: "floats \<Rightarrow> edge \<Rightarrow> f32 \<Rightarrow> size_px \<Rightarrow> real \<Rightarrow> point" where
  "remote_entry_point F e normalized remote inset =
     (let x_inset = bounded_inset inset (sz_width remote);
          y_inset = bounded_inset inset (sz_height remote);
          x = last_pixel (sz_width remote) * fl_real32 F normalized;
          y = last_pixel (sz_height remote) * fl_real32 F normalized
      in case e of
           EdgeLeft \<Rightarrow> \<lparr>pt_x = last_pixel (sz_width remote) - x_inset, pt_y = y\<rparr>
         | EdgeRight \<Rightarrow> \<lparr>pt_x = x_inset, pt_y = y\<rparr>
         | EdgeTop \<Rightarrow> \<lparr>pt_x = x, pt_y = last_pixel (sz_height remote) - y_inset\<rparr>
         | EdgeBottom \<Rightarrow> \<lparr>pt_x = x, pt_y = y_inset\<rparr>)"

definition local_restore_point :: "floats \<Rightarrow> edge \<Rightarrow> f32 \<Rightarrow> rect \<Rightarrow> real \<Rightarrow> point" where
  "local_restore_point F e normalized b inset =
     (let x = round_away (clamp (rc_x b + last_pixel (rc_width b) * fl_real32 F normalized) (rc_x b) (rect_right b));
          y = round_away (clamp (rc_y b + last_pixel (rc_height b) * fl_real32 F normalized) (rc_y b) (rect_bottom b))
      in case e of
           EdgeLeft \<Rightarrow> \<lparr>pt_x = rc_x b + inset, pt_y = y\<rparr>
         | EdgeRight \<Rightarrow> \<lparr>pt_x = rect_right b - inset, pt_y = y\<rparr>
         | EdgeTop \<Rightarrow> \<lparr>pt_x = x, pt_y = rc_y b + inset\<rparr>
         | EdgeBottom \<Rightarrow> \<lparr>pt_x = x, pt_y = rect_bottom b - inset\<rparr>)"

fun remote_return_edge_reached :: "edge \<Rightarrow> point \<Rightarrow> size_px \<Rightarrow> real \<Rightarrow> bool" where
  "remote_return_edge_reached EdgeLeft c remote margin = (pt_x c \<ge> last_pixel (sz_width remote) - margin)"
| "remote_return_edge_reached EdgeRight c remote margin = (pt_x c \<le> margin)"
| "remote_return_edge_reached EdgeTop c remote margin = (pt_y c \<ge> last_pixel (sz_height remote) - margin)"
| "remote_return_edge_reached EdgeBottom c remote margin = (pt_y c \<le> margin)"

end
