(* ===== verification/Capture.thy ===== *)
theory Capture
  imports Geometry Keymap
begin

text \<open>
  The edge capture of the Windows controller: the module \<open>capture\<close> of
  \<open>crates/edge-windows-input/src/lib.rs\<close>. \<open>capture_state\<close> is the state behind \<open>STATE\<close>, with the
  statics the callbacks read; each callback of Windows and each exported function is one operation, which
  returns the new state, what was done in order, and, for a hook, whether the event was kept from Windows.

  One reading of the clock and of the desktop (\<open>capture_env\<close>) serves a whole callback. Statistics that no
  decision depends on, threads and window handles are not modelled; a callback that finds the lock taken is the
  argument \<open>contended\<close>.
\<close>

section \<open>Coordinates\<close>

text \<open>Screen coordinates are \<open>i32\<close>; their arithmetic wraps, as in a release build.\<close>

record pixel =
  px_x :: i32
  px_y :: i32

definition real_i32 :: "i32 \<Rightarrow> real" where
  "real_i32 w = of_int (sint w)"

text \<open>\<open>as i32\<close>: towards zero, saturating.\<close>

definition i32_of_real :: "real \<Rightarrow> i32" where
  "i32_of_real r =
     (let z = (if 0 \<le> r then \<lfloor>r\<rfloor> else - \<lfloor>- r\<rfloor>)
      in word_of_int (max (- 2147483648) (min 2147483647 z)))"

definition real_point :: "pixel \<Rightarrow> point" where
  "real_point p = \<lparr>pt_x = real_i32 (px_x p), pt_y = real_i32 (px_y p)\<rparr>"

definition rounded_pixel :: "point \<Rightarrow> pixel" where
  "rounded_pixel p = \<lparr>px_x = i32_of_real (round_away (pt_x p)), px_y = i32_of_real (round_away (pt_y p))\<rparr>"

record local_bounds =
  lb_left :: i32
  lb_top :: i32
  lb_width :: i32
  lb_height :: i32

text \<open>\<open>saturating_sub(1)\<close> and \<open>/ 2\<close> of an \<open>i32\<close>.\<close>

definition i32_saturating_pred :: "i32 \<Rightarrow> i32" where
  "i32_saturating_pred w = (if sint w = - 2147483648 then w else w - 1)"

definition i32_half :: "i32 \<Rightarrow> i32" where
  "i32_half w = word_of_int (if 0 \<le> sint w then sint w div 2 else - (- sint w div 2))"

definition bounds_right :: "local_bounds \<Rightarrow> i32" where
  "bounds_right b = lb_left b + i32_saturating_pred (lb_width b)"

definition bounds_bottom :: "local_bounds \<Rightarrow> i32" where
  "bounds_bottom b = lb_top b + i32_saturating_pred (lb_height b)"

definition bounds_center :: "local_bounds \<Rightarrow> point" where
  "bounds_center b =
     \<lparr>pt_x = real_i32 (lb_left b + i32_half (lb_width b)), pt_y = real_i32 (lb_top b + i32_half (lb_height b))\<rparr>"

definition at_least_one :: "i32 \<Rightarrow> u32" where
  "at_least_one w = (if sint w < 1 then 1 else w)"

definition bounds_rect :: "local_bounds \<Rightarrow> rect" where
  "bounds_rect b =
     \<lparr>rc_x = real_i32 (lb_left b), rc_y = real_i32 (lb_top b),
      rc_width = at_least_one (lb_width b), rc_height = at_least_one (lb_height b)\<rparr>"

definition anchor_for :: "local_bounds \<Rightarrow> edge \<Rightarrow> pixel \<Rightarrow> pixel" where
  "anchor_for b e p = rounded_pixel (edge_anchor e (real_point p) (bounds_rect b) 2)"

definition restore_for :: "floats \<Rightarrow> local_bounds \<Rightarrow> edge \<Rightarrow> f32 \<Rightarrow> pixel" where
  "restore_for F b e normalized = rounded_pixel (local_restore_point F e normalized (bounds_rect b) 3)"

section \<open>The game guard\<close>

datatype game_compatibility_mode = Compatible | Borderless | AlwaysEnabled

record game_guard =
  gg_last_check :: instant
  gg_blocks_capture :: bool
  gg_fullscreen :: bool
  gg_cursor_confined :: bool

text \<open>What a callback reads: the clock, the foreground window and whether it covers its monitor, whether the
  cursor is confined, and whether installing a hook succeeds.\<close>

record capture_env =
  ce_now :: instant
  ce_foreground :: int
  ce_fullscreen :: bool
  ce_confined :: bool
  ce_hook_ok :: bool

definition GAME_GUARD_CHECK_INTERVAL :: duration where
  "GAME_GUARD_CHECK_INTERVAL = from_millis 250"

definition RELEASE_REENTRY_COOLDOWN :: duration where
  "RELEASE_REENTRY_COOLDOWN = from_millis 750"

definition REMOTE_ENTRY_PADDING :: real where
  "REMOTE_ENTRY_PADDING = 32"

definition REMOTE_RETURN_MARGIN :: real where
  "REMOTE_RETURN_MARGIN = 12"

definition game_guard_default :: "instant \<Rightarrow> game_guard" where
  "game_guard_default now =
     \<lparr>gg_last_check = now - GAME_GUARD_CHECK_INTERVAL, gg_blocks_capture = False, gg_fullscreen = False,
      gg_cursor_confined = False\<rparr>"

fun game_guard_should_block :: "game_compatibility_mode \<Rightarrow> bool \<Rightarrow> bool \<Rightarrow> bool" where
  "game_guard_should_block Compatible fullscreen confined = (fullscreen \<or> confined)"
| "game_guard_should_block Borderless fullscreen confined = confined"
| "game_guard_should_block AlwaysEnabled fullscreen confined = False"

definition guard_refresh :: "capture_env \<Rightarrow> game_compatibility_mode \<Rightarrow> game_guard \<Rightarrow> game_guard" where
  "guard_refresh e mode g =
     (if duration_since (ce_now e) (gg_last_check g) < GAME_GUARD_CHECK_INTERVAL then g
      else \<lparr>gg_last_check = ce_now e,
            gg_blocks_capture = game_guard_should_block mode (ce_fullscreen e) (ce_confined e),
            gg_fullscreen = ce_fullscreen e, gg_cursor_confined = ce_confined e\<rparr>)"

section \<open>State\<close>

record capture_config =
  cc_edge :: edge
  cc_remote_size :: size_px
  cc_game_compatibility :: game_compatibility_mode

datatype captured_input = CapturedInput input_event | CapturedControl control_event

datatype capture_effect =
    Emit captured_input
  | SetCursor pixel
  | HideCursors
  | ShowCursors
  | InstallMouseHook
  | UninstallMouseHook

text \<open>\<open>cs_stat_active\<close> and \<open>cs_stat_suspended\<close> are the atomics of \<open>CAPTURE_STATS\<close>, which are read without
  the lock; \<open>cs_mouse_hook\<close> tells whether the mouse hook is installed.\<close>

record capture_state =
  cs_config :: capture_config
  cs_bounds :: local_bounds
  cs_active :: bool
  cs_enabled :: bool
  cs_anchor :: pixel
  cs_remote_cursor :: point
  cs_virtual_cursor :: point
  cs_ctrl_down :: bool
  cs_alt_down :: bool
  cs_suspended :: bool
  cs_suspend_foreground :: "int option"
  cs_cursor_hidden :: bool
  cs_game_guard :: game_guard
  cs_raw_absolute :: "(i32 \<times> i32) option"
  cs_last_raw_input :: "instant option"
  cs_blocked_until :: instant
  cs_stat_active :: bool
  cs_stat_suspended :: bool
  cs_mouse_hook :: bool

type_synonym capture_op = "capture_state \<Rightarrow> capture_state \<times> capture_effect list"

definition nothing :: capture_op where
  "nothing s = (s, [])"

definition andthen :: "capture_op \<Rightarrow> capture_op \<Rightarrow> capture_op" where
  "andthen f g s = (case f s of (s1, as) \<Rightarrow> (case g s1 of (s2, bs) \<Rightarrow> (s2, as @ bs)))"

definition emit :: "captured_input \<Rightarrow> capture_op" where
  "emit c s = (s, [Emit c])"

definition capture_start :: "capture_config \<Rightarrow> local_bounds \<Rightarrow> instant \<Rightarrow> capture_state" where
  "capture_start config bounds now =
     \<lparr>cs_config = config, cs_bounds = bounds, cs_active = False, cs_enabled = True, cs_anchor = \<lparr>px_x = 0, px_y = 0\<rparr>,
      cs_remote_cursor = \<lparr>pt_x = 0, pt_y = 0\<rparr>, cs_virtual_cursor = bounds_center bounds, cs_ctrl_down = False,
      cs_alt_down = False, cs_suspended = False, cs_suspend_foreground = None, cs_cursor_hidden = False,
      cs_game_guard = game_guard_default now, cs_raw_absolute = None, cs_last_raw_input = None, cs_blocked_until = now,
      cs_stat_active = False, cs_stat_suspended = False, cs_mouse_hook = True\<rparr>"

section \<open>Helpers of the state\<close>

definition guard_update :: "capture_env \<Rightarrow> capture_state \<Rightarrow> capture_state" where
  "guard_update e s = s\<lparr>cs_game_guard := guard_refresh e (cc_game_compatibility (cs_config s)) (cs_game_guard s)\<rparr>"

definition game_guard_blocks_capture :: "capture_env \<Rightarrow> capture_state \<Rightarrow> bool \<times> capture_state" where
  "game_guard_blocks_capture e s = (let s1 = guard_update e s in (gg_blocks_capture (cs_game_guard s1), s1))"

definition virtual_edge_required :: "capture_env \<Rightarrow> capture_state \<Rightarrow> bool \<times> capture_state" where
  "virtual_edge_required e s =
     (let s1 = guard_update e s; g = cs_game_guard s1
      in (cc_game_compatibility (cs_config s) \<noteq> Compatible \<and> (gg_fullscreen g \<or> gg_cursor_confined g), s1))"

definition at_activation_edge :: "capture_state \<Rightarrow> pixel \<Rightarrow> bool" where
  "at_activation_edge s p = point_is_at_edge (cc_edge (cs_config s)) (real_point p) (bounds_rect (cs_bounds s))"

definition activation_allowed :: "capture_env \<Rightarrow> capture_state \<Rightarrow> bool" where
  "activation_allowed e s = (ce_now e \<ge> cs_blocked_until s)"

definition remote_at_return_edge :: "capture_state \<Rightarrow> bool" where
  "remote_at_return_edge s =
     remote_return_edge_reached (cc_edge (cs_config s)) (cs_remote_cursor s) (cc_remote_size (cs_config s))
       REMOTE_RETURN_MARGIN"

definition raw_input_is_recent :: "capture_env \<Rightarrow> capture_state \<Rightarrow> bool" where
  "raw_input_is_recent e s =
     (case cs_last_raw_input s of None \<Rightarrow> False | Some t \<Rightarrow> duration_since (ce_now e) t < from_millis 250)"

definition local_normalized :: "floats \<Rightarrow> capture_state \<Rightarrow> pixel \<Rightarrow> f32" where
  "local_normalized F s p =
     normalized_perpendicular F (cc_edge (cs_config s)) (real_point p) (bounds_rect (cs_bounds s))"

definition remote_normalized :: "floats \<Rightarrow> capture_state \<Rightarrow> f32" where
  "remote_normalized F s =
     (let remote = cc_remote_size (cs_config s)
      in normalized_perpendicular F (cc_edge (cs_config s)) (cs_remote_cursor s)
           \<lparr>rc_x = 0, rc_y = 0, rc_width = sz_width remote, rc_height = sz_height remote\<rparr>)"

definition remote_start :: "floats \<Rightarrow> capture_state \<Rightarrow> pixel \<Rightarrow> point" where
  "remote_start F s p =
     remote_entry_point F (cc_edge (cs_config s)) (local_normalized F s p) (cc_remote_size (cs_config s))
       REMOTE_ENTRY_PADDING"

definition local_restore :: "floats \<Rightarrow> capture_state \<Rightarrow> pixel" where
  "local_restore F s = restore_for F (cs_bounds s) (cc_edge (cs_config s)) (remote_normalized F s)"

section \<open>The source cursor and the mouse hook\<close>

definition hide_source_cursor :: capture_op where
  "hide_source_cursor s = (if cs_cursor_hidden s then (s, []) else (s\<lparr>cs_cursor_hidden := True\<rparr>, [HideCursors]))"

definition show_source_cursor :: capture_op where
  "show_source_cursor s = (if \<not> cs_cursor_hidden s then (s, []) else (s\<lparr>cs_cursor_hidden := False\<rparr>, [ShowCursors]))"

definition install_mouse_hook_if_needed :: "capture_env \<Rightarrow> capture_op" where
  "install_mouse_hook_if_needed e s =
     (if cs_mouse_hook s then (s, [])
      else if ce_hook_ok e then (s\<lparr>cs_mouse_hook := True\<rparr>, [InstallMouseHook]) else (s, []))"

definition uninstall_mouse_hook :: capture_op where
  "uninstall_mouse_hook s = (if cs_mouse_hook s then (s\<lparr>cs_mouse_hook := False\<rparr>, [UninstallMouseHook]) else (s, []))"

section \<open>Entering and leaving\<close>

definition enter_remote :: "floats \<Rightarrow> pixel \<Rightarrow> capture_op" where
  "enter_remote F p s =
     (let s1 = s\<lparr>cs_active := True, cs_stat_active := True,
                 cs_anchor := anchor_for (cs_bounds s) (cc_edge (cs_config s)) p,
                 cs_remote_cursor := remote_start F s p, cs_raw_absolute := None\<rparr>
      in case hide_source_cursor s1 of
           (s2, hidden) \<Rightarrow>
             (s2, [Emit (CapturedControl (EnterRemote (cc_edge (cs_config s)) (local_normalized F s p))),
                   SetCursor (cs_anchor s1)] @ hidden))"

definition release_to_local :: "floats \<Rightarrow> capture_env \<Rightarrow> release_reason \<Rightarrow> capture_op" where
  "release_to_local F e reason s =
     (if \<not> cs_active s then (s, [])
      else (let s1 = s\<lparr>cs_active := False, cs_raw_absolute := None,
                       cs_blocked_until := ce_now e + RELEASE_REENTRY_COOLDOWN, cs_stat_active := False\<rparr>
            in case show_source_cursor s1 of
                 (s2, shown) \<Rightarrow>
                   (let restore = local_restore F s2;
                        (virtual, s3) = virtual_edge_required e s2
                    in (s3\<lparr>cs_virtual_cursor := (if virtual then bounds_center (cs_bounds s3) else real_point restore)\<rparr>,
                        [Emit (CapturedInput AllKeysUp), Emit (CapturedControl (ReleaseToLocal reason))] @ shown @
                        [SetCursor restore]))))"

definition release_if_remote_return_edge :: "floats \<Rightarrow> capture_env \<Rightarrow> capture_op" where
  "release_if_remote_return_edge F e s =
     (if \<not> remote_at_return_edge s then (s, []) else release_to_local F e UserRequest s)"

definition move_remote :: "floats \<Rightarrow> capture_env \<Rightarrow> real \<Rightarrow> real \<Rightarrow> capture_op" where
  "move_remote F e dx dy s =
     andthen (emit (CapturedInput (PointerMotion (fl_f64 F dx) (fl_f64 F dy)))) (release_if_remote_return_edge F e)
       (s\<lparr>cs_remote_cursor := apply_remote_motion (cs_remote_cursor s) dx dy (cc_remote_size (cs_config s))\<rparr>)"

definition remote_motion :: "floats \<Rightarrow> capture_env \<Rightarrow> pixel \<Rightarrow> capture_op" where
  "remote_motion F e p s =
     (let dx = real_i32 (px_x p - px_x (cs_anchor s)); dy = real_i32 (px_y p - px_y (cs_anchor s))
      in if dx = 0 \<and> dy = 0 then (s, [SetCursor (cs_anchor s)])
         else andthen (\<lambda>s. (s, [SetCursor (cs_anchor s)])) (move_remote F e dx dy) s)"

text \<open>The motion of a raw event: relative, or the difference to the last absolute position.\<close>

definition raw_delta :: "i32 \<Rightarrow> i32 \<Rightarrow> bool \<Rightarrow> capture_state \<Rightarrow> (i32 \<times> i32) option \<times> capture_state" where
  "raw_delta x y absolute s =
     (if absolute
      then (case cs_raw_absolute s of
              None \<Rightarrow> (None, s\<lparr>cs_raw_absolute := Some (x, y)\<rparr>)
            | Some (px, py) \<Rightarrow> (Some (x - px, y - py), s\<lparr>cs_raw_absolute := Some (x, y)\<rparr>))
      else (Some (x, y), s\<lparr>cs_raw_absolute := None\<rparr>))"

definition raw_remote_motion :: "floats \<Rightarrow> capture_env \<Rightarrow> i32 \<Rightarrow> i32 \<Rightarrow> bool \<Rightarrow> capture_op" where
  "raw_remote_motion F e x y absolute s =
     (case raw_delta x y absolute s of
        (None, s1) \<Rightarrow> (s1, [])
      | (Some (dx, dy), s1) \<Rightarrow>
          if dx = 0 \<and> dy = 0 then (s1, []) else move_remote F e (real_i32 dx) (real_i32 dy) s1)"

definition raw_local_motion :: "floats \<Rightarrow> capture_env \<Rightarrow> i32 \<Rightarrow> i32 \<Rightarrow> bool \<Rightarrow> capture_op" where
  "raw_local_motion F e x y absolute s =
     (case virtual_edge_required e s of
        (required, s1) \<Rightarrow>
          if \<not> required then (s1\<lparr>cs_raw_absolute := None\<rparr>, [])
          else (case raw_delta x y absolute s1 of
                  (None, s2) \<Rightarrow> (s2, [])
                | (Some (dx, dy), s2) \<Rightarrow>
                    if dx = 0 \<and> dy = 0 then (s2, [])
                    else (let b = cs_bounds s2; v = cs_virtual_cursor s2;
                              v' = \<lparr>pt_x = clamp (pt_x v + real_i32 dx) (real_i32 (lb_left b)) (real_i32 (bounds_right b)),
                                    pt_y = clamp (pt_y v + real_i32 dy) (real_i32 (lb_top b)) (real_i32 (bounds_bottom b))\<rparr>;
                              s3 = s2\<lparr>cs_virtual_cursor := v'\<rparr>; p = rounded_pixel v'
                          in if activation_allowed e s3 \<and> at_activation_edge s3 p then enter_remote F p s3
                             else (s3, []))))"

section \<open>Suspension\<close>

definition toggle_capture_suspended :: "floats \<Rightarrow> capture_env \<Rightarrow> capture_op" where
  "toggle_capture_suspended F e s =
     (let suspended = \<not> cs_suspended s;
          s1 = s\<lparr>cs_suspended := suspended,
                 cs_suspend_foreground := (if suspended \<and> ce_foreground e \<noteq> 0 then Some (ce_foreground e) else None),
                 cs_stat_suspended := suspended\<rparr>
      in if suspended
         then andthen (release_to_local F e UserRequest) (andthen show_source_cursor uninstall_mouse_hook) s1
         else install_mouse_hook_if_needed e s1)"

definition refresh_capture_suspension :: "capture_env \<Rightarrow> capture_op" where
  "refresh_capture_suspension e s =
     (if \<not> cs_suspended s then (s, [])
      else (case cs_suspend_foreground s of
              None \<Rightarrow> (s, [])
            | Some window \<Rightarrow>
                if ce_foreground e = 0 \<or> ce_foreground e = window then (s, [])
                else install_mouse_hook_if_needed e
                  (s\<lparr>cs_suspended := False, cs_suspend_foreground := None, cs_stat_suspended := False\<rparr>)))"

section \<open>The mouse hook\<close>

datatype mouse_message =
    MouseMove | LeftDown | LeftUp | RightDown | RightUp | MiddleDown | MiddleUp | XDown | XUp | MouseWheel
  | MouseHWheel | OtherMouse

text \<open>\<open>md_ours\<close>: the event carries the tag of our own injector; \<open>md_injected\<close>: another program injected it.\<close>

record mouse_data =
  md_message :: mouse_message
  md_pt :: pixel
  md_data :: u32
  md_injected :: bool
  md_ours :: bool

datatype hook_result = CallNext | Swallow

definition high_word :: "u32 \<Rightarrow> u16" where
  "high_word value = ucast (drop_bit 16 value AND 0xffff)"

definition high_word_signed :: "u32 \<Rightarrow> int" where
  "high_word_signed value = sint (high_word value)"

definition x_button :: "u32 \<Rightarrow> mouse_button option" where
  "x_button mouse_data =
     (if high_word mouse_data = 1 then Some ButtonBack
      else if high_word mouse_data = 2 then Some ButtonForward else None)"

definition wheel_delta :: "u32 \<Rightarrow> real" where
  "wheel_delta mouse_data = of_int (high_word_signed mouse_data) / 120"

definition button :: "mouse_button \<Rightarrow> bool \<Rightarrow> captured_input" where
  "button b down = CapturedInput (PointerButton b down)"

definition forward_mouse :: "floats \<Rightarrow> capture_env \<Rightarrow> mouse_data \<Rightarrow> capture_op" where
  "forward_mouse F e m s =
     (case md_message m of
        MouseMove \<Rightarrow>
          andthen hide_source_cursor
            (\<lambda>s. if \<not> raw_input_is_recent e s then remote_motion F e (md_pt m) s else (s, [])) s
      | LeftDown \<Rightarrow> emit (button ButtonLeft True) s
      | LeftUp \<Rightarrow> emit (button ButtonLeft False) s
      | RightDown \<Rightarrow> emit (button ButtonRight True) s
      | RightUp \<Rightarrow> emit (button ButtonRight False) s
      | MiddleDown \<Rightarrow> emit (button ButtonMiddle True) s
      | MiddleUp \<Rightarrow> emit (button ButtonMiddle False) s
      | XDown \<Rightarrow> (case x_button (md_data m) of Some b \<Rightarrow> emit (button b True) s | None \<Rightarrow> (s, []))
      | XUp \<Rightarrow> (case x_button (md_data m) of Some b \<Rightarrow> emit (button b False) s | None \<Rightarrow> (s, []))
      | MouseWheel \<Rightarrow> emit (CapturedInput (PointerWheel (fl_f64 F 0) (fl_f64 F (wheel_delta (md_data m))))) s
      | MouseHWheel \<Rightarrow> emit (CapturedInput (PointerWheel (fl_f64 F (wheel_delta (md_data m))) (fl_f64 F 0))) s
      | OtherMouse \<Rightarrow> (s, []))"

definition mouse_hook ::
  "floats \<Rightarrow> capture_env \<Rightarrow> mouse_data \<Rightarrow> capture_state \<Rightarrow> hook_result \<times> capture_state \<times> capture_effect list" where
  "mouse_hook F e m s =
     (if md_ours m \<or> \<not> cs_enabled s then (CallNext, s, [])
      else (case refresh_capture_suspension e s of
              (s1, refreshed) \<Rightarrow>
                if cs_suspended s1
                then (CallNext, andthen (\<lambda>s. (s, refreshed)) (release_to_local F e UserRequest) s1)
                else (case game_guard_blocks_capture e s1 of
                        (blocks, s2) \<Rightarrow>
                          if blocks
                          then (CallNext, andthen (\<lambda>s. (s, refreshed)) (release_to_local F e UserRequest) s2)
                          else if \<not> cs_active s2
                          then (case (if md_message m = MouseMove then virtual_edge_required e s2 else (True, s2)) of
                                  (virtual, s3) \<Rightarrow>
                                    (let s4 = (if \<not> virtual then s3\<lparr>cs_virtual_cursor := real_point (md_pt m)\<rparr> else s3)
                                     in if md_message m = MouseMove \<and> activation_allowed e s4 \<and>
                                           at_activation_edge s4 (md_pt m)
                                        then (Swallow, andthen (\<lambda>s. (s, refreshed)) (enter_remote F (md_pt m)) s4)
                                        else (CallNext, s4, refreshed)))
                          else if md_injected m then (Swallow, s2, refreshed)
                          else (Swallow, andthen (\<lambda>s. (s, refreshed)) (forward_mouse F e m) s2))))"

section \<open>The keyboard hook\<close>

datatype key_message = KeyDown | SysKeyDown | KeyUp | SysKeyUp | OtherKey

record key_data =
  kd_message :: key_message
  kd_vk_code :: u32
  kd_scan_code :: u32
  kd_extended :: bool
  kd_injected :: bool
  kd_ours :: bool

definition is_release_hotkey :: "u32 \<Rightarrow> bool" where
  "is_release_hotkey vk_code = (vk_code = 0x13 \<or> vk_code = 0x1b)"

definition VK_G :: u32 where
  "VK_G = 0x47"

definition update_modifier :: "u32 \<Rightarrow> bool \<Rightarrow> capture_state \<Rightarrow> capture_state" where
  "update_modifier vk_code down s =
     (if vk_code \<in> {0x11, 0xa2, 0xa3} then s\<lparr>cs_ctrl_down := down\<rparr>
      else if vk_code \<in> {0x12, 0xa4, 0xa5} then s\<lparr>cs_alt_down := down\<rparr> else s)"

definition map_key :: "u16 \<Rightarrow> bool \<Rightarrow> u16 option" where
  "map_key scan_code extended =
     windows_scancode_to_evdev \<lparr>wsc_scan_code = scan_code, wsc_extended = extended\<rparr>"

definition keyboard_hook ::
  "floats \<Rightarrow> capture_env \<Rightarrow> key_data \<Rightarrow> capture_state \<Rightarrow> hook_result \<times> capture_state \<times> capture_effect list" where
  "keyboard_hook F e k s =
     (let down = (kd_message k = KeyDown \<or> kd_message k = SysKeyDown);
          up = (kd_message k = KeyUp \<or> kd_message k = SysKeyUp)
      in if kd_ours k then (CallNext, s, [])
         else if kd_injected k \<and> cs_active s then (Swallow, s, [])
         else if \<not> cs_enabled s then (CallNext, s, [])
         else (case refresh_capture_suspension e s of
                 (s1, refreshed) \<Rightarrow>
                   (let s2 = (if down \<or> up then update_modifier (kd_vk_code k) down s1 else s1);
                        hot = (down \<and> cs_ctrl_down s2 \<and> cs_alt_down s2)
                    in if hot \<and> kd_vk_code k = VK_G
                       then (Swallow, andthen (\<lambda>s. (s, refreshed)) (toggle_capture_suspended F e) s2)
                       else if \<not> cs_active s2 then (CallNext, s2, refreshed)
                       else if hot \<and> is_release_hotkey (kd_vk_code k)
                       then (Swallow, andthen (\<lambda>s. (s, refreshed)) (release_to_local F e Hotkey) s2)
                       else if down \<or> up
                       then (Swallow, andthen (\<lambda>s. (s, refreshed)) (andthen hide_source_cursor
                              (\<lambda>s. case map_key (ucast (kd_scan_code k)) (kd_extended k) of
                                     Some code \<Rightarrow> emit (CapturedInput (Key code down)) s | None \<Rightarrow> (s, []))) s2)
                       else (Swallow, s2, refreshed))))"

section \<open>Raw input\<close>

definition raw_mouse_input :: "floats \<Rightarrow> capture_env \<Rightarrow> i32 \<Rightarrow> i32 \<Rightarrow> bool \<Rightarrow> capture_op" where
  "raw_mouse_input F e x y absolute s =
     (let s1 = s\<lparr>cs_last_raw_input := Some (ce_now e)\<rparr>
      in if \<not> cs_enabled s1 then (s1, [])
         else if cs_active s1 then raw_remote_motion F e x y absolute s1
         else raw_local_motion F e x y absolute s1)"

section \<open>Exported functions\<close>

definition api_release_to_local :: "floats \<Rightarrow> capture_env \<Rightarrow> release_reason \<Rightarrow> capture_op" where
  "api_release_to_local F e reason = andthen (release_to_local F e reason) show_source_cursor"

definition handle_receiver_release ::
  "floats \<Rightarrow> capture_env \<Rightarrow> release_reason \<Rightarrow> capture_state \<Rightarrow> bool \<times> capture_state \<times> capture_effect list" where
  "handle_receiver_release F e reason s =
     (if \<not> cs_active s then (False, s, [])
      else if reason = UserRequest \<and> \<not> remote_at_return_edge s then (False, s, [])
      else (True, release_to_local F e reason s))"

definition set_enabled_with_release_reason :: "floats \<Rightarrow> capture_env \<Rightarrow> bool \<Rightarrow> release_reason \<Rightarrow> capture_op" where
  "set_enabled_with_release_reason F e enabled reason s =
     (if cs_enabled s = enabled then (s, [])
      else andthen (\<lambda>s. if \<not> enabled then release_to_local F e reason s else (s, []))
        (andthen (\<lambda>s. (s\<lparr>cs_enabled := enabled\<rparr>, [])) show_source_cursor) s)"

text \<open>Every operation of the capture; \<open>Contended\<close> is a mouse or keyboard hook that found the lock taken.\<close>

datatype hook_event =
    MouseHook mouse_data
  | KeyboardHook key_data
  | RawMouse i32 i32 bool
  | Contended
  | ReleaseToLocalCall release_reason
  | ReceiverReleaseCall release_reason
  | SetEnabledCall bool
  | DisableCall

definition capture_step ::
  "floats \<Rightarrow> capture_env \<times> hook_event \<Rightarrow> capture_state \<Rightarrow> hook_result \<times> capture_state \<times> capture_effect list" where
  "capture_step F i s =
     (case i of (e, event) \<Rightarrow>
        (case event of
           MouseHook m \<Rightarrow> mouse_hook F e m s
         | KeyboardHook k \<Rightarrow> keyboard_hook F e k s
         | RawMouse x y absolute \<Rightarrow> (CallNext, raw_mouse_input F e x y absolute s)
         | Contended \<Rightarrow> (if cs_stat_active s then Swallow else CallNext, s, [])
         | ReleaseToLocalCall reason \<Rightarrow> (CallNext, api_release_to_local F e reason s)
         | ReceiverReleaseCall reason \<Rightarrow> (CallNext, snd (handle_receiver_release F e reason s))
         | SetEnabledCall enabled \<Rightarrow> (CallNext, set_enabled_with_release_reason F e enabled UserRequest s)
         | DisableCall \<Rightarrow> (CallNext, set_enabled_with_release_reason F e False PeerDisconnected s)))"

fun capture_run ::
  "floats \<Rightarrow> capture_state \<Rightarrow> (capture_env \<times> hook_event) list \<Rightarrow> capture_state \<times> capture_effect list" where
  "capture_run F s [] = (s, [])"
| "capture_run F s (i # is) =
     (case capture_step F i s of
        (_, s1, as) \<Rightarrow> (case capture_run F s1 is of (s2, bs) \<Rightarrow> (s2, as @ bs)))"

section \<open>The input supervisor\<close>

record supervisor_snapshot =
  sn_raw_mouse :: u64
  sn_raw_keyboard :: u64
  sn_hook_mouse :: u64
  sn_hook_keyboard :: u64
  sn_system_last_input :: "u32 option"

definition raw_advanced :: "supervisor_snapshot \<Rightarrow> supervisor_snapshot \<Rightarrow> bool" where
  "raw_advanced c p = (sn_raw_mouse c > sn_raw_mouse p \<or> sn_raw_keyboard c > sn_raw_keyboard p)"

definition hooks_advanced :: "supervisor_snapshot \<Rightarrow> supervisor_snapshot \<Rightarrow> bool" where
  "hooks_advanced c p = (sn_hook_mouse c > sn_hook_mouse p \<or> sn_hook_keyboard c > sn_hook_keyboard p)"

definition system_input_advanced :: "supervisor_snapshot \<Rightarrow> supervisor_snapshot \<Rightarrow> bool" where
  "system_input_advanced c p =
     (case (sn_system_last_input c, sn_system_last_input p) of (Some current, Some old) \<Rightarrow> current \<noteq> old | _ \<Rightarrow> False)"

definition hook_needs_repair :: "u64 \<Rightarrow> u64 \<Rightarrow> u64 \<Rightarrow> u64 \<Rightarrow> bool \<Rightarrow> bool" where
  "hook_needs_repair raw previous_raw hook previous_hook enabled =
     (enabled \<and> raw > previous_raw \<and> hook = previous_hook)"

definition full_pipeline_stalled :: "supervisor_snapshot \<Rightarrow> supervisor_snapshot \<Rightarrow> bool" where
  "full_pipeline_stalled c p = (system_input_advanced c p \<and> \<not> raw_advanced c p \<and> \<not> hooks_advanced c p)"

definition raw_input_stalled :: "supervisor_snapshot \<Rightarrow> supervisor_snapshot \<Rightarrow> bool" where
  "raw_input_stalled c p = (hooks_advanced c p \<and> \<not> raw_advanced c p)"

record supervisor =
  su_previous :: supervisor_snapshot
  su_fully_stalled :: u8
  su_hook_stalled :: u8
  su_raw_stalled :: u8
  su_last_restart :: instant

definition INPUT_STALL_CONFIRMATIONS :: u8 where
  "INPUT_STALL_CONFIRMATIONS = 2"

definition INPUT_RESTART_COOLDOWN :: duration where
  "INPUT_RESTART_COOLDOWN = from_secs 8"

definition supervisor_start :: "supervisor_snapshot \<Rightarrow> instant \<Rightarrow> supervisor" where
  "supervisor_start snapshot now =
     \<lparr>su_previous = snapshot, su_fully_stalled = 0, su_hook_stalled = 0, su_raw_stalled = 0,
      su_last_restart = now - INPUT_RESTART_COOLDOWN\<rparr>"

datatype restart = RestartAll | RestartHooks | RestartRaw

text \<open>\<open>capture_enabled_and_suspended\<close>: of a state that could be locked.\<close>

definition capture_enabled_and_suspended :: "capture_state option \<Rightarrow> bool \<times> bool" where
  "capture_enabled_and_suspended state =
     (case state of Some s \<Rightarrow> (cs_enabled s, cs_suspended s) | None \<Rightarrow> (False, False))"

definition confirm :: "bool \<Rightarrow> u8 \<Rightarrow> u8" where
  "confirm stalled ticks = (if stalled then saturating_add ticks 1 else 0)"

text \<open>One check, after \<open>INPUT_SUPERVISOR_INTERVAL\<close>; \<open>works\<close> tells whether a restart succeeds.\<close>

definition supervisor_check ::
  "capture_state option \<Rightarrow> supervisor_snapshot \<Rightarrow> instant \<Rightarrow> (restart \<Rightarrow> bool) \<Rightarrow> supervisor \<Rightarrow> supervisor \<times> restart option"
  where
  "supervisor_check state current now works u =
     (case capture_enabled_and_suspended state of
        (enabled, suspended) \<Rightarrow>
          if \<not> enabled
          then (u\<lparr>su_previous := current, su_fully_stalled := 0, su_hook_stalled := 0, su_raw_stalled := 0\<rparr>, None)
          else (let p = su_previous u;
                    hook_stalled =
                      (hook_needs_repair (sn_raw_mouse current) (sn_raw_mouse p) (sn_hook_mouse current)
                         (sn_hook_mouse p) (\<not> suspended) \<or>
                       hook_needs_repair (sn_raw_keyboard current) (sn_raw_keyboard p) (sn_hook_keyboard current)
                         (sn_hook_keyboard p) True);
                    u1 = u\<lparr>su_fully_stalled := confirm (full_pipeline_stalled current p) (su_fully_stalled u),
                           su_hook_stalled := confirm hook_stalled (su_hook_stalled u),
                           su_raw_stalled := confirm (raw_input_stalled current p) (su_raw_stalled u),
                           su_previous := current\<rparr>;
                    cooled = (duration_since now (su_last_restart u1) \<ge> INPUT_RESTART_COOLDOWN);
                    restarted = (\<lambda>kind u. if works kind then u\<lparr>su_last_restart := now\<rparr> else u)
                in if cooled \<and> su_fully_stalled u1 \<ge> INPUT_STALL_CONFIRMATIONS
                   then ((restarted RestartAll u1)\<lparr>su_fully_stalled := 0, su_hook_stalled := 0, su_raw_stalled := 0\<rparr>,
                         Some RestartAll)
                   else if cooled \<and> su_hook_stalled u1 \<ge> INPUT_STALL_CONFIRMATIONS
                   then ((restarted RestartHooks u1)\<lparr>su_hook_stalled := 0\<rparr>, Some RestartHooks)
                   else if cooled \<and> su_raw_stalled u1 \<ge> INPUT_STALL_CONFIRMATIONS
                   then ((restarted RestartRaw u1)\<lparr>su_raw_stalled := 0\<rparr>, Some RestartRaw)
                   else (u1, None)))"

end
