(* ===== verification/CaptureSafety.thy ===== *)
theory CaptureSafety
  imports Capture
begin

text \<open>
  What the Windows capture keeps over any sequence of its callbacks: the form of the event stream it sends, the
  tracked cursor, the cooldown, and which events Windows still gets. A relation between the state before an
  operation, the state after it and what it did, holds of every callback once it holds of the few operations the
  callbacks are made of: that is the locale \<open>capture_contract\<close>.
\<close>

section \<open>Updates without a contract of their own\<close>

text \<open>The state without the fields that callbacks update on the way.\<close>

definition core :: "capture_state \<Rightarrow> capture_state" where
  "core s = s\<lparr>cs_virtual_cursor := \<lparr>pt_x = 0, pt_y = 0\<rparr>, cs_game_guard := game_guard_default 0, cs_raw_absolute := None,
     cs_last_raw_input := None, cs_ctrl_down := False, cs_alt_down := False, cs_suspended := False,
     cs_suspend_foreground := None, cs_stat_suspended := False, cs_mouse_hook := False\<rparr>"

lemma core_fields:
  assumes "core s1 = core s"
  shows "cs_active s1 = cs_active s" "cs_enabled s1 = cs_enabled s" "cs_config s1 = cs_config s"
    "cs_bounds s1 = cs_bounds s" "cs_remote_cursor s1 = cs_remote_cursor s" "cs_blocked_until s1 = cs_blocked_until s"
    "cs_cursor_hidden s1 = cs_cursor_hidden s" "cs_stat_active s1 = cs_stat_active s" "cs_anchor s1 = cs_anchor s"
proof -
  have "f (core s1) = f (core s)" for f :: "capture_state \<Rightarrow> 'a"
    using assms by simp
  note eq = arg_cong [OF assms]
  show "cs_active s1 = cs_active s" "cs_enabled s1 = cs_enabled s" "cs_config s1 = cs_config s"
    "cs_bounds s1 = cs_bounds s" "cs_remote_cursor s1 = cs_remote_cursor s" "cs_blocked_until s1 = cs_blocked_until s"
    "cs_cursor_hidden s1 = cs_cursor_hidden s" "cs_stat_active s1 = cs_stat_active s" "cs_anchor s1 = cs_anchor s"
    using eq [of cs_active] eq [of cs_enabled] eq [of cs_config] eq [of cs_bounds] eq [of cs_remote_cursor]
      eq [of cs_blocked_until] eq [of cs_cursor_hidden] eq [of cs_stat_active] eq [of cs_anchor]
    by (simp_all add: core_def)
qed

lemma core_updates [simp]:
  "core (s\<lparr>cs_virtual_cursor := c\<rparr>) = core s" "core (s\<lparr>cs_game_guard := g\<rparr>) = core s"
  "core (s\<lparr>cs_raw_absolute := a\<rparr>) = core s" "core (s\<lparr>cs_last_raw_input := t\<rparr>) = core s"
  "core (s\<lparr>cs_ctrl_down := b\<rparr>) = core s" "core (s\<lparr>cs_alt_down := b\<rparr>) = core s"
  "core (s\<lparr>cs_suspended := b\<rparr>) = core s" "core (s\<lparr>cs_suspend_foreground := w\<rparr>) = core s"
  "core (s\<lparr>cs_stat_suspended := b\<rparr>) = core s" "core (s\<lparr>cs_mouse_hook := b\<rparr>) = core s"
  by (simp_all add: core_def)

lemma core_guard [simp]: "core (guard_update e s) = core s"
  by (simp add: guard_update_def)

lemma core_raw_delta: "raw_delta x y a s = (d, s1) \<Longrightarrow> core s1 = core s"
  by (auto simp: raw_delta_def split: if_splits option.splits prod.splits)

lemma core_modifier [simp]: "core (update_modifier vk down s) = core s"
  by (simp add: update_modifier_def)

lemma core_refresh: "refresh_capture_suspension e s = (s1, as) \<Longrightarrow> core s1 = core s"
  by (auto simp: refresh_capture_suspension_def install_mouse_hook_if_needed_def split: if_splits option.splits)

lemma release_inactive [simp]: "\<not> cs_active (fst (release_to_local F e r s))"
  by (simp add: release_to_local_def show_source_cursor_def virtual_edge_required_def guard_update_def Let_def)

section \<open>The contract\<close>

definition silent :: "capture_effect \<Rightarrow> bool" where
  "silent a \<longleftrightarrow> (case a of Emit c \<Rightarrow> False | _ \<Rightarrow> True)"

lemma silent_simps [simp]:
  "silent (SetCursor c)" "silent HideCursors" "silent ShowCursors" "silent InstallMouseHook" "silent UninstallMouseHook"
  "\<not> silent (Emit x)"
  by (simp_all add: silent_def)

locale capture_contract =
  fixes F :: floats
    and R :: "capture_env \<Rightarrow> capture_state \<Rightarrow> capture_state \<times> capture_effect list \<Rightarrow> bool"
  assumes chain: "R e s (s1, as) \<Longrightarrow> R e s1 (s2, bs) \<Longrightarrow> R e s (s2, as @ bs)"
    and update: "core s1 = core s \<Longrightarrow> list_all silent as \<Longrightarrow> R e s (s1, as)"
    and release: "R e s (release_to_local F e r s)"
    and enter: "\<not> cs_active s \<Longrightarrow> cs_enabled s \<Longrightarrow> activation_allowed e s \<Longrightarrow> R e s (enter_remote F p s)"
    and hide: "cs_active s \<Longrightarrow> R e s (hide_source_cursor s)"
    and reveal: "\<not> cs_active s \<Longrightarrow> R e s (show_source_cursor s)"
    and forward: "cs_active s \<Longrightarrow> x \<noteq> AllKeysUp \<Longrightarrow> R e s (s, [Emit (CapturedInput x)])"
    and move: "cs_active s \<Longrightarrow> R e s (move_remote F e dx dy s)"
    and enable: "\<not> cs_active s \<Longrightarrow> R e s (s\<lparr>cs_enabled := b\<rparr>, [])"
begin

lemma chain_andthen:
  assumes "R e s (f s)" "R e (fst (f s)) (g (fst (f s)))"
  shows "R e s (andthen f g s)"
  using assms chain by (fastforce simp: andthen_def split: prod.splits)

lemma chain_after:
  assumes "R e s (s1, as)" "R e s1 (f s1)"
  shows "R e s (andthen (\<lambda>s. (s, as)) f s1)"
  using assms chain by (fastforce simp: andthen_def split: prod.splits)

lemma quiet: "core s1 = core s \<Longrightarrow> R e s (s1, [])"
  by (rule update) simp_all

lemma from_update:
  assumes "core s1 = core s" "R e s1 r"
  shows "R e s r"
  using chain [OF quiet [OF assms(1)], of e "fst r" "snd r"] assms(2) by simp

lemma hook_updates: "R e s (uninstall_mouse_hook s)" "R e s (install_mouse_hook_if_needed e' s)"
  by (auto simp: uninstall_mouse_hook_def install_mouse_hook_if_needed_def intro: update)

lemma raw_remote: "R e s (raw_remote_motion F e x y a s)" if "cs_active s"
proof -
  obtain d s1 where d: "raw_delta x y a s = (d, s1)"
    by fastforce
  note core = core_raw_delta [OF d]
  have "R e s (move_remote F e dx dy s1)" for dx dy
    by (rule from_update [OF core move]) (use that core_fields [OF core] in simp)
  then show ?thesis
    using quiet [OF core] by (auto simp: raw_remote_motion_def d split: option.split)
qed

lemma raw_local: "R e s (raw_local_motion F e x y a s)" if "\<not> cs_active s" "cs_enabled s"
proof -
  obtain d s1 where d: "raw_delta x y a (guard_update e s) = (d, s1)"
    by fastforce
  have core: "core (s1\<lparr>cs_virtual_cursor := v\<rparr>) = core s" for v
    using core_raw_delta [OF d] by simp
  have "R e s (enter_remote F p (s1\<lparr>cs_virtual_cursor := v\<rparr>))"
    if "activation_allowed e (s1\<lparr>cs_virtual_cursor := v\<rparr>)" for p v
    by (rule from_update [OF core enter]) (use that \<open>\<not> cs_active s\<close> \<open>cs_enabled s\<close> core_fields [OF core] in auto)
  then show ?thesis
    using quiet [OF core] quiet [of s1 s] core_raw_delta [OF d]
    by (auto simp: raw_local_motion_def virtual_edge_required_def Let_def d intro: quiet split: option.split)
qed

lemma set_cursor: "R e s (s, [SetCursor c])"
  by (rule update) simp_all

lemma remote: "R e s (remote_motion F e p s)" if "cs_active s"
  using that set_cursor by (auto simp: remote_motion_def Let_def intro!: chain_andthen move)

lemma refresh: "R e s (refresh_capture_suspension e s)"
  by (cases "refresh_capture_suspension e s")
    (auto dest: core_refresh intro!: update simp: refresh_capture_suspension_def install_mouse_hook_if_needed_def
      split: if_splits option.splits)

lemma toggle: "R e s (toggle_capture_suspended F e s)"
proof -
  define s1 where "s1 = s\<lparr>cs_suspended := \<not> cs_suspended s,
    cs_suspend_foreground := (if \<not> cs_suspended s \<and> ce_foreground e \<noteq> 0 then Some (ce_foreground e) else None),
    cs_stat_suspended := \<not> cs_suspended s\<rparr>"
  have "R e s1 (andthen (release_to_local F e UserRequest) (andthen show_source_cursor uninstall_mouse_hook) s1)"
    by (rule chain_andthen, rule release, rule chain_andthen, rule reveal, simp, rule hook_updates)
  then have "R e s (andthen (release_to_local F e UserRequest) (andthen show_source_cursor uninstall_mouse_hook) s1)"
    "R e s (install_mouse_hook_if_needed e s1)"
    by (rule from_update [rotated], simp add: s1_def) (rule from_update [OF _ hook_updates(2)], simp add: s1_def)
  then show ?thesis
    unfolding toggle_capture_suspended_def Let_def s1_def [symmetric] by simp
qed

lemma mouse_forwarded: "R e s (forward_mouse F e m s)" if "cs_active s"
proof (cases "md_message m")
  case MouseMove
  have "R e s (andthen hide_source_cursor
      (\<lambda>s. if \<not> raw_input_is_recent e s then remote_motion F e (md_pt m) s else (s, [])) s)"
    by (rule chain_andthen)
      (use that hide in \<open>auto simp: hide_source_cursor_def intro: remote quiet\<close>)
  then show ?thesis
    by (simp add: forward_mouse_def MouseMove)
qed (use that in \<open>auto simp: forward_mouse_def button_def emit_def intro: forward quiet split: option.split\<close>)

lemma mouse: "R e s (snd (mouse_hook F e m s))"
proof (cases "md_ours m \<or> \<not> cs_enabled s")
  case False
  obtain s1 as where r: "refresh_capture_suspension e s = (s1, as)"
    by fastforce
  define s2 where "s2 = guard_update e s1"
  define s3 where "s3 = guard_update e s2"
  note c1 = core_refresh [OF r]
  have c: "core s2 = core s" "core s3 = core s" "core (s3\<lparr>cs_virtual_cursor := v\<rparr>) = core s" for v
    by (simp_all add: s2_def s3_def c1)
  have r1: "R e s (s1, as)"
    using refresh [of e s] by (simp add: r)
  have r2: "R e s (s', as)" if "core s' = core s" for s'
    using chain [OF r1 quiet, of s'] that c1 by simp
  have out: "R e s (andthen (\<lambda>s. (s, as)) (release_to_local F e UserRequest) s1)"
    "R e s (andthen (\<lambda>s. (s, as)) (release_to_local F e UserRequest) s2)"
    by (rule chain_after, rule r1, rule release, rule chain_after, rule r2, rule c, rule release)
  have go: "R e s (andthen (\<lambda>s. (s, as)) (enter_remote F (md_pt m)) s')"
    if "\<not> cs_active s" "core s' = core s" "activation_allowed e s'" for s'
    by (rule chain_after, rule r2, rule that(2), rule enter)
      (use that False core_fields [OF that(2)] in auto)
  have fwd: "R e s (andthen (\<lambda>s. (s, as)) (forward_mouse F e m) s2)" if "cs_active s"
    by (rule chain_after, rule r2, rule c, rule mouse_forwarded) (simp add: core_fields [OF c(1)] that)
  have b: "game_guard_blocks_capture e s1 = (gg_blocks_capture (cs_game_guard s2), s2)"
    by (simp add: game_guard_blocks_capture_def Let_def s2_def)
  obtain v where v: "virtual_edge_required e s2 = (v, s3)"
    by (simp add: virtual_edge_required_def Let_def s3_def)
  show ?thesis
    using False core_fields(1) [OF c(1)] out go [OF _ c(2)] go [OF _ c(3)] go [OF _ c(1)] fwd r2 [OF c(1)]
      r2 [OF c(2)] r2 [OF c(3)]
    by (simp add: mouse_hook_def r b v Let_def)
qed (simp add: mouse_hook_def quiet)

lemma keyboard: "R e s (snd (keyboard_hook F e k s))"
proof (cases "kd_ours k \<or> kd_injected k \<and> cs_active s \<or> \<not> cs_enabled s")
  case False
  obtain s1 as where r: "refresh_capture_suspension e s = (s1, as)"
    by fastforce
  define down where "down = (kd_message k = KeyDown \<or> kd_message k = SysKeyDown)"
  define up where "up = (kd_message k = KeyUp \<or> kd_message k = SysKeyUp)"
  define s2 where "s2 = (if down \<or> up then update_modifier (kd_vk_code k) down s1 else s1)"
  have c: "core s2 = core s" "core s2 = core s1"
    using core_refresh [OF r] by (simp_all add: s2_def)
  note active = core_fields(1) [OF c(1)]
  have "R e s (s1, as)"
    using refresh [of e s] by (simp add: r)
  from chain [OF this quiet [OF c(2)]] have r2: "R e s (s2, as)"
    by simp
  have key: "R e s (andthen (\<lambda>s. (s, as)) (andthen hide_source_cursor
      (\<lambda>s. case map_key (ucast (kd_scan_code k)) (kd_extended k) of
             Some code \<Rightarrow> emit (CapturedInput (Key code down)) s | None \<Rightarrow> (s, []))) s2)"
    if "cs_active s"
  proof (rule chain_after, rule r2, rule chain_andthen, rule hide)
    show "cs_active s2"
      using that active by simp
    have "cs_active (fst (hide_source_cursor s2))"
      using that active by (simp add: hide_source_cursor_def)
    then show "R e (fst (hide_source_cursor s2)) (case map_key (ucast (kd_scan_code k)) (kd_extended k) of
        Some code \<Rightarrow> emit (CapturedInput (Key code down)) (fst (hide_source_cursor s2))
      | None \<Rightarrow> (fst (hide_source_cursor s2), []))"
      by (auto intro: forward quiet simp: emit_def split: option.split)
  qed
  have hot: "R e s (andthen (\<lambda>s. (s, as)) (toggle_capture_suspended F e) s2)"
    "R e s (andthen (\<lambda>s. (s, as)) (release_to_local F e Hotkey) s2)"
    by (rule chain_after, rule r2, rule toggle, rule chain_after, rule r2, rule release)
  show ?thesis
    unfolding keyboard_hook_def r down_def [symmetric] up_def [symmetric] Let_def prod.case s2_def [symmetric]
    using False active key hot r2 quiet [of s s] by simp
qed (auto simp: keyboard_hook_def Let_def quiet)

lemma set_enabled: "R e s (set_enabled_with_release_reason F e b r s)" if "cs_active s \<longrightarrow> cs_enabled s"
proof (cases "cs_enabled s = b")
  case False
  define s1 where "s1 = fst (if \<not> b then release_to_local F e r s else (s, []))"
  have idle: "\<not> cs_active s1"
    using False that by (auto simp: s1_def)
  have "R e s (andthen (\<lambda>s. if \<not> b then release_to_local F e r s else (s, []))
      (andthen (\<lambda>s. (s\<lparr>cs_enabled := b\<rparr>, [])) show_source_cursor) s)"
  proof (rule chain_andthen, unfold s1_def [symmetric])
    show "R e s (if \<not> b then release_to_local F e r s else (s, []))"
      by (simp add: release quiet)
    show "R e s1 (andthen (\<lambda>s. (s\<lparr>cs_enabled := b\<rparr>, [])) show_source_cursor s1)"
      by (rule chain_andthen) (use idle in \<open>simp_all add: enable reveal\<close>)
  qed
  then show ?thesis
    using False by (simp add: set_enabled_with_release_reason_def)
qed (simp add: set_enabled_with_release_reason_def quiet)

text \<open>Every callback keeps to the contract.\<close>

lemma step: "R (fst i) s (snd (capture_step F i s))" if "cs_active s \<longrightarrow> cs_enabled s"
proof -
  obtain e event where i: "i = (e, event)"
    by (cases i)
  show ?thesis
  proof (cases event)
    case (RawMouse x y a)
    let ?s = "s\<lparr>cs_last_raw_input := Some (ce_now e)\<rparr>"
    have "R e ?s (raw_mouse_input F e x y a s)"
      by (simp add: raw_mouse_input_def Let_def raw_remote raw_local quiet)
    then have "R e s (raw_mouse_input F e x y a s)"
      by (rule from_update [rotated]) simp
    then show ?thesis
      by (simp add: capture_step_def i RawMouse)
  next
    case (ReleaseToLocalCall reason)
    have "R e s (api_release_to_local F e reason s)"
      unfolding api_release_to_local_def by (rule chain_andthen, rule release, rule reveal) simp
    then show ?thesis
      by (simp add: capture_step_def i ReleaseToLocalCall)
  next
    case (ReceiverReleaseCall reason)
    then show ?thesis
      by (simp add: capture_step_def i handle_receiver_release_def release quiet)
  qed (simp_all add: capture_step_def i mouse keyboard set_enabled that quiet)
qed

end

section \<open>The event stream\<close>

datatype stream_phase = Idle | Remote | Flushed

fun stream_next :: "stream_phase \<Rightarrow> capture_effect \<Rightarrow> stream_phase option" where
  "stream_next Idle (Emit (CapturedControl (EnterRemote e p))) = Some Remote"
| "stream_next Remote (Emit (CapturedInput x)) = Some (if x = AllKeysUp then Flushed else Remote)"
| "stream_next Flushed (Emit (CapturedControl (ReleaseToLocal r))) = Some Idle"
| "stream_next ph (Emit c) = None"
| "stream_next ph a = Some ph"

fun stream :: "stream_phase \<Rightarrow> capture_effect list \<Rightarrow> stream_phase option" where
  "stream ph [] = Some ph"
| "stream ph (a # as) = (case stream_next ph a of None \<Rightarrow> None | Some ph' \<Rightarrow> stream ph' as)"

lemma stream_append: "stream ph (as @ bs) = (case stream ph as of None \<Rightarrow> None | Some ph' \<Rightarrow> stream ph' bs)"
  by (induction as arbitrary: ph) (auto split: option.split)

definition phase_of :: "capture_state \<Rightarrow> stream_phase" where
  "phase_of s = (if cs_active s then Remote else Idle)"

definition capture_ok :: "capture_state \<Rightarrow> bool" where
  "capture_ok s \<longleftrightarrow> cs_stat_active s = cs_active s \<and> cs_cursor_hidden s = cs_active s \<and>
     (cs_active s \<longrightarrow> cs_enabled s)"

text \<open>\<open>sound s r\<close>: from \<open>s\<close>, the result \<open>r\<close> keeps the invariant and continues the stream.\<close>

definition sound :: "capture_state \<Rightarrow> capture_state \<times> capture_effect list \<Rightarrow> bool" where
  "sound s r \<longleftrightarrow> capture_ok s \<longrightarrow> capture_ok (fst r) \<and> stream (phase_of s) (snd r) = Some (phase_of (fst r))"

lemma phase_of_core: "core s1 = core s \<Longrightarrow> phase_of s1 = phase_of s"
  using core_fields(1) [of s1 s] by (simp add: phase_of_def)

lemma capture_ok_core: "core s1 = core s \<Longrightarrow> capture_ok s1 = capture_ok s"
  using core_fields [of s1 s] by (simp add: capture_ok_def)

lemma stream_silent: "list_all silent as \<Longrightarrow> stream ph as = Some ph"
  by (induction as) (auto simp: silent_def split: capture_effect.splits)

lemma sound_release: "sound s (release_to_local F e r s)"
  by (simp add: sound_def release_to_local_def show_source_cursor_def virtual_edge_required_def guard_update_def
      Let_def)
    (simp add: capture_ok_def phase_of_def)

lemma sound_move:
  assumes "cs_active s"
  shows "sound s (move_remote F e dx dy s)"
proof -
  define s1 where
    "s1 = s\<lparr>cs_remote_cursor := apply_remote_motion (cs_remote_cursor s) dx dy (cc_remote_size (cs_config s))\<rparr>"
  obtain s2 as where s2: "release_if_remote_return_edge F e s1 = (s2, as)"
    by fastforce
  have "capture_ok s1 = capture_ok s" "phase_of s1 = Remote" "phase_of s = Remote"
    using assms by (simp_all add: s1_def capture_ok_def phase_of_def)
  moreover have "sound s1 (s2, as)"
    using sound_release [of s1 F e UserRequest] by (auto simp: s2 [symmetric] release_if_remote_return_edge_def sound_def)
  ultimately show ?thesis
    by (simp add: move_remote_def s1_def [symmetric] andthen_def emit_def s2 sound_def)
qed

interpretation bracketed: capture_contract F "\<lambda>e. sound"
proof
  show "sound s (s2, as @ bs)" if "sound s (s1, as)" "sound s1 (s2, bs)" for s s1 s2 as bs
    using that by (auto simp: sound_def stream_append)
  show "sound s (s1, as)" if "core s1 = core s" "list_all silent as" for s s1 as
    using that capture_ok_core [OF that(1)] phase_of_core [OF that(1)] by (simp add: sound_def stream_silent)
  show "sound s (release_to_local F e r s)" for e s r
    by (rule sound_release)
  show "sound s (enter_remote F p s)" if "\<not> cs_active s" "cs_enabled s" for s p
    using that by (auto simp: sound_def enter_remote_def hide_source_cursor_def Let_def capture_ok_def phase_of_def)
  show "sound s (hide_source_cursor s)" if "cs_active s" for s
    using that by (simp add: sound_def hide_source_cursor_def capture_ok_def phase_of_def)
  show "sound s (show_source_cursor s)" if "\<not> cs_active s" for s
    using that by (simp add: sound_def show_source_cursor_def capture_ok_def phase_of_def)
  show "sound s (s, [Emit (CapturedInput x)])" if "cs_active s" "x \<noteq> AllKeysUp" for s x
    using that by (simp add: sound_def phase_of_def)
  show "sound s (move_remote F e dx dy s)" if "cs_active s" for s e dx dy
    using that by (rule sound_move)
  show "sound s (s\<lparr>cs_enabled := b\<rparr>, [])" if "\<not> cs_active s" for s b
    using that by (simp add: sound_def capture_ok_def phase_of_def)
qed

lemma capture_ok_step: "capture_ok s \<Longrightarrow> capture_ok (fst (snd (capture_step F i s)))"
  using bracketed.step [of s F i] by (simp add: sound_def capture_ok_def)

lemma sound_run: "sound s (capture_run F s is)"
proof (induction "is" arbitrary: s)
  case (Cons i "is")
  obtain r s1 as where step: "capture_step F i s = (r, s1, as)"
    by (cases "capture_step F i s") auto
  show ?case
    using bracketed.step [of s F i] Cons.IH [of s1]
    by (auto simp: step sound_def capture_ok_def stream_append split: prod.splits)
qed (simp add: sound_def)

lemma capture_start_ok: "capture_ok (capture_start cfg b now)" "phase_of (capture_start cfg b now) = Idle"
  by (simp_all add: capture_start_def capture_ok_def phase_of_def)

text \<open>C16: The event stream of the Windows capture is well formed, whatever callbacks come: between an
  EnterRemote and the next ReleaseToLocal only input is sent, every ReleaseToLocal directly follows an AllKeysUp,
  outside such a span nothing is sent; and at any time a span is open exactly when the capture is active, which is
  exactly when the local cursor is hidden and when the atomic that contended hooks read says so.\<close>

theorem capture_stream_bracketed:
  "case capture_run F (capture_start cfg b now) is of (s, effects) \<Rightarrow>
     stream Idle effects = Some (if cs_active s then Remote else Idle) \<and>
     cs_cursor_hidden s = cs_active s \<and> cs_stat_active s = cs_active s \<and>
     \<not> (cs_active s \<and> \<not> cs_enabled s)"
proof -
  obtain s effects where run: "capture_run F (capture_start cfg b now) is = (s, effects)"
    by fastforce
  have "capture_ok s" "stream Idle effects = Some (phase_of s)"
    using sound_run [of "capture_start cfg b now" F "is"] by (simp_all add: run sound_def capture_start_ok)
  then show ?thesis
    by (simp add: run capture_ok_def phase_of_def)
qed

section \<open>The tracked cursor\<close>

definition in_screen :: "capture_state \<Rightarrow> bool" where
  "in_screen s \<longleftrightarrow>
     0 \<le> pt_x (cs_remote_cursor s) \<and> pt_x (cs_remote_cursor s) \<le> last_pixel (sz_width (cc_remote_size (cs_config s))) \<and>
     0 \<le> pt_y (cs_remote_cursor s) \<and> pt_y (cs_remote_cursor s) \<le> last_pixel (sz_height (cc_remote_size (cs_config s)))"

text \<open>The extent the capture enters along is more than the return margin.\<close>

definition wide_enough :: "capture_config \<Rightarrow> bool" where
  "wide_enough cfg \<longleftrightarrow>
     (if sideways (cc_edge cfg) then last_pixel (sz_width (cc_remote_size cfg))
      else last_pixel (sz_height (cc_remote_size cfg))) > REMOTE_RETURN_MARGIN"

definition tracked :: "capture_state \<Rightarrow> bool" where
  "tracked s \<longleftrightarrow> (cs_active s \<longrightarrow> in_screen s \<and> \<not> remote_at_return_edge s)"

lemma last_pixel_nonneg [simp]: "0 \<le> last_pixel w"
  unfolding last_pixel_def by (rule of_nat_0_le_iff)

lemma clamp_bounds: "lo \<le> hi \<Longrightarrow> lo \<le> clamp v lo hi \<and> clamp v lo hi \<le> hi"
  by (simp add: clamp_def)

lemma normalized_unit:
  assumes "floats_ok F"
  shows "0 \<le> fl_real32 F (normalized_perpendicular F e p b)" "fl_real32 F (normalized_perpendicular F e p b) \<le> 1"
proof -
  have axis: "0 \<le> fl_real32 F (normalized_axis F v w) \<and> fl_real32 F (normalized_axis F v w) \<le> 1" for v w
  proof -
    have "0 \<le> clamp v 0 (real (unat (w - 1))) / real (unat (w - 1))"
      "clamp v 0 (real (unat (w - 1))) / real (unat (w - 1)) \<le> 1"
      by (auto simp: clamp_def divide_simps)
    then show ?thesis
      using assms by (simp add: normalized_axis_def floats_ok_def)
  qed
  show "0 \<le> fl_real32 F (normalized_perpendicular F e p b)" "fl_real32 F (normalized_perpendicular F e p b) \<le> 1"
    using axis by (simp_all add: normalized_perpendicular_def)
qed

lemma entry_point_in_screen:
  fixes e :: edge and remote :: size_px
  assumes "0 \<le> fl_real32 F n" "fl_real32 F n \<le> 1" "0 \<le> inset"
  defines "p \<equiv> remote_entry_point F e n remote inset"
  shows "0 \<le> pt_x p" "pt_x p \<le> last_pixel (sz_width remote)" "0 \<le> pt_y p" "pt_y p \<le> last_pixel (sz_height remote)"
proof -
  have inset: "0 \<le> bounded_inset inset w" "bounded_inset inset w \<le> last_pixel w" for w
    by (simp_all add: bounded_inset_def clamp_def)
  have unit: "0 \<le> last_pixel w * fl_real32 F n" "last_pixel w * fl_real32 F n \<le> last_pixel w" for w
    using assms by (simp_all add: mult_left_le)
  show "0 \<le> pt_x p" "pt_x p \<le> last_pixel (sz_width remote)" "0 \<le> pt_y p" "pt_y p \<le> last_pixel (sz_height remote)"
    using inset unit by (simp_all add: p_def remote_entry_point_def Let_def split: edge.split)
qed

lemma entry_off_return_edge:
  assumes "(if sideways e then last_pixel (sz_width remote) else last_pixel (sz_height remote)) > REMOTE_RETURN_MARGIN"
  shows "\<not> remote_return_edge_reached e (remote_entry_point F e n remote REMOTE_ENTRY_PADDING) remote REMOTE_RETURN_MARGIN"
proof -
  have "REMOTE_RETURN_MARGIN < bounded_inset REMOTE_ENTRY_PADDING w" if "last_pixel w > REMOTE_RETURN_MARGIN" for w
    using that by (auto simp: bounded_inset_def clamp_def REMOTE_RETURN_MARGIN_def REMOTE_ENTRY_PADDING_def)
  then show ?thesis
    using assms by (cases e) (force simp: remote_entry_point_def Let_def sideways_def)+
qed

lemma motion_in_screen:
  "in_screen (s\<lparr>cs_remote_cursor := apply_remote_motion c dx dy (cc_remote_size (cs_config s))\<rparr>)"
  using clamp_bounds [OF last_pixel_nonneg] by (simp add: in_screen_def apply_remote_motion_def)

definition tracks :: "floats \<Rightarrow> capture_state \<Rightarrow> capture_state \<times> capture_effect list \<Rightarrow> bool" where
  "tracks F s r \<longleftrightarrow> cs_config (fst r) = cs_config s \<and>
     (floats_ok F \<and> wide_enough (cs_config s) \<and> tracked s \<longrightarrow> tracked (fst r))"

lemma release_fields [simp]:
  "cs_config (fst (release_to_local F e r s)) = cs_config s"
  by (simp add: release_to_local_def show_source_cursor_def virtual_edge_required_def guard_update_def Let_def)

lemma tracks_release: "tracks F s (release_to_local F e r s)"
  by (simp add: tracks_def) (simp add: tracked_def)

interpretation tracking: capture_contract F "\<lambda>e. tracks F"
proof
  show "tracks F s (s2, as @ bs)" if "tracks F s (s1, as)" "tracks F s1 (s2, bs)" for s s1 s2 as bs
    using that by (simp add: tracks_def)
  show "tracks F s (s1, as)" if "core s1 = core s" "list_all silent as" for s s1 as
    using core_fields [OF that(1)] by (simp add: tracks_def tracked_def in_screen_def remote_at_return_edge_def)
  show "tracks F s (release_to_local F e r s)" for e s r
    by (rule tracks_release)
  show "tracks F s (enter_remote F p s)" if "\<not> cs_active s" "cs_enabled s" for s p
  proof -
    let ?n = "local_normalized F s p"
    have cursor: "cs_remote_cursor (fst (enter_remote F p s)) =
        remote_entry_point F (cc_edge (cs_config s)) ?n (cc_remote_size (cs_config s)) REMOTE_ENTRY_PADDING"
      and config: "cs_config (fst (enter_remote F p s)) = cs_config s"
      by (simp_all add: enter_remote_def hide_source_cursor_def Let_def remote_start_def)
    show ?thesis
    proof (cases "floats_ok F \<and> wide_enough (cs_config s)")
      case True
      have pad: "(0::real) \<le> REMOTE_ENTRY_PADDING"
        by (simp add: REMOTE_ENTRY_PADDING_def)
      have unit: "0 \<le> fl_real32 F ?n" "fl_real32 F ?n \<le> 1"
        using True normalized_unit by (simp_all add: local_normalized_def)
      have "in_screen (fst (enter_remote F p s))"
        unfolding in_screen_def cursor config using entry_point_in_screen [OF unit pad] by simp
      moreover have "\<not> remote_at_return_edge (fst (enter_remote F p s))"
        unfolding remote_at_return_edge_def cursor config
        by (rule entry_off_return_edge) (use True in \<open>simp add: wide_enough_def\<close>)
      ultimately show ?thesis
        by (simp add: tracks_def tracked_def config)
    qed (auto simp: tracks_def config)
  qed
  show "tracks F s (hide_source_cursor s)" if "cs_active s" for s
    by (simp add: tracks_def hide_source_cursor_def tracked_def in_screen_def remote_at_return_edge_def)
  show "tracks F s (show_source_cursor s)" if "\<not> cs_active s" for s
    by (simp add: tracks_def show_source_cursor_def tracked_def in_screen_def remote_at_return_edge_def)
  show "tracks F s (s, [Emit (CapturedInput x)])" if "cs_active s" "x \<noteq> AllKeysUp" for s x
    by (simp add: tracks_def)
  show "tracks F s (move_remote F e dx dy s)" if "cs_active s" for s e dx dy
  proof -
    define s1 where
      "s1 = s\<lparr>cs_remote_cursor := apply_remote_motion (cs_remote_cursor s) dx dy (cc_remote_size (cs_config s))\<rparr>"
    have out: "fst (move_remote F e dx dy s) = fst (release_if_remote_return_edge F e s1)"
      by (simp add: move_remote_def s1_def [symmetric] andthen_def emit_def case_prod_beta)
    have "in_screen s1" "cs_config s1 = cs_config s"
      by (simp_all add: s1_def motion_in_screen)
    then show ?thesis
      by (simp add: tracks_def out release_if_remote_return_edge_def tracked_def)
  qed
  show "tracks F s (s\<lparr>cs_enabled := b\<rparr>, [])" if "\<not> cs_active s" for s b
    by (simp add: tracks_def tracked_def in_screen_def remote_at_return_edge_def)
qed

lemma run_tracked:
  assumes "capture_ok s" "floats_ok F" "wide_enough (cs_config s)" "tracked s"
  shows "tracked (fst (capture_run F s is)) \<and> cs_config (fst (capture_run F s is)) = cs_config s"
  using assms
proof (induction "is" arbitrary: s)
  case (Cons i "is")
  obtain r s1 as where step: "capture_step F i s = (r, s1, as)"
    by (cases "capture_step F i s") auto
  have "capture_ok s1"
    using capture_ok_step [OF Cons.prems(1), of F i] by (simp add: step)
  moreover have "cs_active s \<longrightarrow> cs_enabled s"
    using Cons.prems(1) by (simp add: capture_ok_def)
  then have "tracks F s (s1, as)"
    using tracking.step [of s F i] by (simp add: step)
  ultimately show ?case
    using Cons.IH [of s1] Cons.prems(2-4) by (simp add: step tracks_def case_prod_beta)
qed simp

text \<open>C34: While the capture is active, the cursor it tracks on the remote screen lies on that screen and off the
  return edge, if the screen is larger than the return margin along the entered axis. So entering never leads
  straight back, and, since the capture releases control itself as soon as the tracked cursor reaches the return
  edge, a receiver that reports the return edge (\<open>handle_receiver_release\<close> with \<open>UserRequest\<close>) is never
  heeded.\<close>

theorem capture_cursor_tracked:
  assumes "floats_ok F" "wide_enough cfg" "capture_run F (capture_start cfg b now) is = (s, effects)"
  shows "\<not> (cs_active s \<and> (\<not> in_screen s \<or> remote_at_return_edge s)) \<and>
    handle_receiver_release F e UserRequest s = (False, s, [])"
proof -
  have "tracked s"
    using run_tracked [OF capture_start_ok(1) assms(1), of cfg b now "is"] assms(2,3)
    by (simp add: capture_start_def tracked_def)
  then show ?thesis
    by (auto simp: tracked_def handle_receiver_release_def)
qed

section \<open>The cooldown\<close>

definition enters :: "capture_effect \<Rightarrow> bool" where
  "enters a \<longleftrightarrow> (case a of Emit (CapturedControl (EnterRemote e p)) \<Rightarrow> True | _ \<Rightarrow> False)"

definition releases :: "capture_effect \<Rightarrow> bool" where
  "releases a \<longleftrightarrow> (case a of Emit (CapturedControl (ReleaseToLocal r)) \<Rightarrow> True | _ \<Rightarrow> False)"

definition cools :: "capture_env \<Rightarrow> capture_state \<Rightarrow> capture_state \<times> capture_effect list \<Rightarrow> bool" where
  "cools e s r \<longleftrightarrow> (list_ex enters (snd r) \<longrightarrow> cs_blocked_until s \<le> ce_now e) \<and>
     cs_blocked_until (fst r) =
       (if list_ex releases (snd r) then ce_now e + RELEASE_REENTRY_COOLDOWN else cs_blocked_until s)"

lemma effect_kinds [simp]:
  "enters (Emit (CapturedControl (EnterRemote ed p)))" "\<not> releases (Emit (CapturedControl (EnterRemote ed p)))"
  "releases (Emit (CapturedControl (ReleaseToLocal r)))" "\<not> enters (Emit (CapturedControl (ReleaseToLocal r)))"
  "\<not> enters (Emit (CapturedInput x))" "\<not> releases (Emit (CapturedInput x))"
  "silent a \<Longrightarrow> \<not> enters a" "silent a \<Longrightarrow> \<not> releases a"
  by (auto simp: enters_def releases_def silent_def split: capture_effect.splits)

lemma no_kinds: "list_all silent as \<Longrightarrow> \<not> list_ex enters as \<and> \<not> list_ex releases as"
  by (induction as) auto

lemma cools_release: "cools e s (release_to_local F e r s)"
  by (simp add: cools_def release_to_local_def show_source_cursor_def virtual_edge_required_def guard_update_def
      Let_def)

interpretation cooling: capture_contract F cools
proof
  show "cools e s (s2, as @ bs)" if "cools e s (s1, as)" "cools e s1 (s2, bs)" for e s s1 s2 as bs
    using that by (auto simp: cools_def RELEASE_REENTRY_COOLDOWN_def from_millis_def split: if_splits)
  show "cools e s (s1, as)" if "core s1 = core s" "list_all silent as" for e s s1 as
    using core_fields [OF that(1)] no_kinds [OF that(2)] by (simp add: cools_def)
  show "cools e s (release_to_local F e r s)" for e s r
    by (rule cools_release)
  show "cools e s (enter_remote F p s)" if "activation_allowed e s" for e s p
    using that by (simp add: cools_def enter_remote_def hide_source_cursor_def activation_allowed_def Let_def)
  show "cools e s (hide_source_cursor s)" for e s
    by (simp add: cools_def hide_source_cursor_def)
  show "cools e s (show_source_cursor s)" for e s
    by (simp add: cools_def show_source_cursor_def)
  show "cools e s (s, [Emit (CapturedInput x)])" for e s x
    by (simp add: cools_def)
  show "cools e s (move_remote F e dx dy s)" for e s dx dy
  proof -
    define s1 where
      "s1 = s\<lparr>cs_remote_cursor := apply_remote_motion (cs_remote_cursor s) dx dy (cc_remote_size (cs_config s))\<rparr>"
    have "cools e s1 (release_if_remote_return_edge F e s1)"
      using cools_release by (simp add: release_if_remote_return_edge_def cools_def)
    then show ?thesis
      by (simp add: move_remote_def s1_def [symmetric] andthen_def emit_def cools_def case_prod_beta)
        (simp add: s1_def)
  qed
  show "cools e s (s\<lparr>cs_enabled := b\<rparr>, [])" for e s b
    by (simp add: cools_def)
qed

definition state_at :: "floats \<Rightarrow> capture_state \<Rightarrow> (capture_env \<times> hook_event) list \<Rightarrow> nat \<Rightarrow> capture_state" where
  "state_at F s is k = fst (capture_run F s (take k is))"

text \<open>What the \<open>k\<close>-th callback of a run does.\<close>

definition effects_at ::
  "floats \<Rightarrow> capture_state \<Rightarrow> (capture_env \<times> hook_event) list \<Rightarrow> nat \<Rightarrow> capture_effect list" where
  "effects_at F s is k = snd (snd (capture_step F (is ! k) (state_at F s is k)))"

lemma capture_run_append:
  "fst (capture_run F s (xs @ ys)) = fst (capture_run F (fst (capture_run F s xs)) ys)"
  by (induction xs arbitrary: s) (simp_all add: case_prod_beta)

lemma state_at_Suc:
  "k < length is \<Longrightarrow> state_at F s is (Suc k) = fst (snd (capture_step F (is ! k) (state_at F s is k)))"
  by (simp add: state_at_def take_Suc_conv_app_nth capture_run_append case_prod_beta)

lemma run_capture_ok: "capture_ok s \<Longrightarrow> capture_ok (fst (capture_run F s is))"
  using sound_run [of s F "is"] by (simp add: sound_def)

lemma step_cools:
  assumes "capture_ok s"
  shows "cools (fst i) s (snd (capture_step F i s))"
  by (rule cooling.step) (use assms in \<open>simp add: capture_ok_def\<close>)

text \<open>Control returned to the local computer stays there for a while: in any sequence of callbacks whose clock
  does not run backwards, a callback that enters the remote computer comes at least 750 ms after every earlier
  callback that released control.\<close>

theorem capture_reentry_cooldown:
  assumes "sorted (map (\<lambda>i. ce_now (fst i)) is)" "j < k" "k < length is"
    and "list_ex releases (effects_at F (capture_start cfg b now) is j)"
    and "list_ex enters (effects_at F (capture_start cfg b now) is k)"
  shows "ce_now (fst (is ! j)) + from_millis 750 \<le> ce_now (fst (is ! k))"
proof -
  let ?s = "state_at F (capture_start cfg b now) is" and ?t = "\<lambda>n. ce_now (fst (is ! n))"
  have cools: "cools (fst (is ! n)) (?s n) (snd (capture_step F (is ! n) (?s n)))" for n
    by (rule step_cools) (simp add: state_at_def run_capture_ok capture_start_ok)
  have "j < m \<Longrightarrow> m \<le> k \<Longrightarrow> ?t j + RELEASE_REENTRY_COOLDOWN \<le> cs_blocked_until (?s m)" for m
  proof (induction m)
    case (Suc n)
    then have n: "n < length is" "j \<le> n"
      using assms(3) by simp_all
    have "?t j \<le> ?t n"
      using sorted_nth_mono [OF assms(1) n(2)] n assms(3) by simp
    then show ?case
      using cools [of n] Suc n assms(4) by (cases "j = n") (auto simp: state_at_Suc cools_def effects_at_def)
  qed simp
  from this [OF assms(2)] have "?t j + RELEASE_REENTRY_COOLDOWN \<le> cs_blocked_until (?s k)"
    by simp
  then show ?thesis
    using cools [of k] assms(5) by (simp add: cools_def effects_at_def RELEASE_REENTRY_COOLDOWN_def)
qed

section \<open>Which events Windows still gets\<close>

text \<open>An input of the user that is sent to the remote computer.\<close>

definition forwards :: "capture_effect \<Rightarrow> bool" where
  "forwards a \<longleftrightarrow> (case a of Emit (CapturedInput x) \<Rightarrow> x \<noteq> AllKeysUp | _ \<Rightarrow> False)"

lemma forwards_simps [simp]:
  "silent a \<Longrightarrow> \<not> forwards a" "\<not> forwards (Emit (CapturedControl c))" "\<not> forwards (Emit (CapturedInput AllKeysUp))"
  by (auto simp: forwards_def silent_def split: capture_effect.splits)

lemma silent_no_forward: "list_all silent as \<Longrightarrow> \<not> list_ex forwards as"
  by (induction as) auto

lemma refresh_silent: "refresh_capture_suspension e s = (s1, as) \<Longrightarrow> list_all silent as"
  by (auto simp: refresh_capture_suspension_def install_mouse_hook_if_needed_def split: if_splits option.splits)

lemma release_no_forward: "\<not> list_ex forwards (snd (release_to_local F e r s))"
  by (simp add: release_to_local_def show_source_cursor_def virtual_edge_required_def Let_def)

lemma enter_active [simp]: "cs_active (fst (enter_remote F p s))"
  by (simp add: enter_remote_def hide_source_cursor_def Let_def)

lemma snd_andthen: "snd (andthen f g s) = snd (f s) @ snd (g (fst (f s)))" "fst (andthen f g s) = fst (g (fst (f s)))"
  by (simp_all add: andthen_def case_prod_beta)

lemma mouse_hook_exclusive:
  "fst (mouse_hook F e m s) = Swallow \<Longrightarrow> cs_active s \<or> cs_active (fst (snd (mouse_hook F e m s)))"
  "fst (mouse_hook F e m s) = CallNext \<Longrightarrow> \<not> list_ex forwards (snd (snd (mouse_hook F e m s)))"
proof -
  obtain s1 as where r: "refresh_capture_suspension e s = (s1, as)"
    by fastforce
  note active = core_fields(1) [OF core_refresh [OF r]]
  note quiet = silent_no_forward [OF refresh_silent [OF r]]
  show "cs_active s \<or> cs_active (fst (snd (mouse_hook F e m s)))" if "fst (mouse_hook F e m s) = Swallow"
    using that active
    by (auto simp: mouse_hook_def r game_guard_blocks_capture_def virtual_edge_required_def guard_update_def Let_def
        snd_andthen split: if_splits)
  show "\<not> list_ex forwards (snd (snd (mouse_hook F e m s)))" if "fst (mouse_hook F e m s) = CallNext"
    using that quiet release_no_forward
    by (auto simp: mouse_hook_def r game_guard_blocks_capture_def virtual_edge_required_def guard_update_def Let_def
        snd_andthen split: if_splits)
qed

lemma refresh_modifiers:
  "refresh_capture_suspension e s = (s1, as) \<Longrightarrow> cs_ctrl_down s1 = cs_ctrl_down s \<and> cs_alt_down s1 = cs_alt_down s"
  by (auto simp: refresh_capture_suspension_def install_mouse_hook_if_needed_def split: if_splits option.splits)

definition key_down :: "key_data \<Rightarrow> bool" where
  "key_down k \<longleftrightarrow> kd_message k = KeyDown \<or> kd_message k = SysKeyDown"

lemma update_modifier_active [simp]:
  "cs_active (update_modifier vk d s) = cs_active s" "update_modifier VK_G d s = s"
  by (simp_all add: update_modifier_def VK_G_def)

lemma update_modifier_hotkey [simp]: "is_release_hotkey vk \<Longrightarrow> update_modifier vk d s = s"
  unfolding is_release_hotkey_def by (elim disjE; simp add: update_modifier_def)

lemma keyboard_hook_exclusive:
  "fst (keyboard_hook F e k s) = Swallow \<Longrightarrow>
     cs_active s \<or> key_down k \<and> kd_vk_code k = VK_G \<and> cs_ctrl_down s \<and> cs_alt_down s"
  "fst (keyboard_hook F e k s) = CallNext \<Longrightarrow> \<not> list_ex forwards (snd (snd (keyboard_hook F e k s)))"
proof -
  obtain s1 as where r: "refresh_capture_suspension e s = (s1, as)"
    by fastforce
  define up where "up = (kd_message k = KeyUp \<or> kd_message k = SysKeyUp)"
  define s2 where "s2 = (if key_down k \<or> up then update_modifier (kd_vk_code k) (key_down k) s1 else s1)"
  have active: "cs_active s2 = cs_active s"
    using core_fields(1) [OF core_refresh [OF r]] by (simp add: s2_def)
  have G: "cs_ctrl_down s2 = cs_ctrl_down s \<and> cs_alt_down s2 = cs_alt_down s" if "kd_vk_code k = VK_G"
    using refresh_modifiers [OF r] that by (simp add: s2_def)
  have quiet: "\<not> list_ex forwards as"
    by (rule silent_no_forward, rule refresh_silent, rule r)
  have "(fst (keyboard_hook F e k s) = Swallow \<longrightarrow>
        cs_active s \<or> key_down k \<and> cs_ctrl_down s2 \<and> cs_alt_down s2 \<and> kd_vk_code k = VK_G) \<and>
      (fst (keyboard_hook F e k s) = CallNext \<longrightarrow> snd (snd (keyboard_hook F e k s)) \<in> {[], as})"
    unfolding keyboard_hook_def r prod.case Let_def key_down_def [symmetric] up_def [symmetric] s2_def [symmetric] active
    by simp
  then show "fst (keyboard_hook F e k s) = Swallow \<Longrightarrow>
      cs_active s \<or> key_down k \<and> kd_vk_code k = VK_G \<and> cs_ctrl_down s \<and> cs_alt_down s"
    "fst (keyboard_hook F e k s) = CallNext \<Longrightarrow> \<not> list_ex forwards (snd (snd (keyboard_hook F e k s)))"
    using G quiet by auto
qed

text \<open>C23: Every event of the user goes to exactly one of the two computers. In any state the capture can reach, a
  hook keeps an event from Windows only if the capture was or became active (so the event belongs to the remote
  computer) or it is the Ctrl+Alt+G that switches the suspension; and when a hook passes the event on to Windows,
  it sends no input to the remote computer.\<close>

theorem capture_events_exclusive:
  assumes "fst (capture_run F (capture_start cfg b now) is) = s"
    and "capture_step F (e, event) s = (result, s', effects)"
    and "event = Contended \<or> (\<exists>m. event = MouseHook m) \<or> (\<exists>k. event = KeyboardHook k)"
  shows "(result = Swallow \<longrightarrow> cs_active s \<or> cs_active s' \<or>
      (\<exists>k. event = KeyboardHook k \<and> key_down k \<and> kd_vk_code k = VK_G \<and> cs_ctrl_down s \<and> cs_alt_down s)) \<and>
    (result = CallNext \<longrightarrow> \<not> list_ex forwards effects)"
proof -
  have ok: "capture_ok s"
    using run_capture_ok [OF capture_start_ok(1)] assms(1) by blast
  show ?thesis
    using assms(3)
  proof (elim disjE exE)
    fix m assume "event = MouseHook m"
    then show ?thesis
      using assms(2) mouse_hook_exclusive [of F e m s] by (auto simp: capture_step_def)
  next
    fix k assume "event = KeyboardHook k"
    then show ?thesis
      using assms(2) keyboard_hook_exclusive [of F e k s] by (auto simp: capture_step_def)
  qed (use assms(2) ok in \<open>auto simp: capture_step_def capture_ok_def split: if_splits\<close>)
qed

text \<open>The user can always take control back: in any state the capture can reach in which it is active and both
  Ctrl and Alt are held, the first press of Pause or Escape that the user makes releases control, with the reason
  Hotkey, shows the cursor again, and keeps the key from both computers.\<close>

theorem capture_hotkey_releases:
  assumes "fst (capture_run F (capture_start cfg b now) is) = s"
    and "cs_active s" "cs_ctrl_down s" "cs_alt_down s" "key_down k" "is_release_hotkey (kd_vk_code k)"
    and "\<not> kd_injected k" "\<not> kd_ours k"
  shows "\<exists>s' effects. capture_step F (e, KeyboardHook k) s = (Swallow, s', effects) \<and> \<not> cs_active s' \<and>
    \<not> cs_cursor_hidden s' \<and> Emit (CapturedControl (ReleaseToLocal Hotkey)) \<in> set effects \<and>
    \<not> list_ex forwards effects"
proof -
  have ok: "capture_ok s"
    using run_capture_ok [OF capture_start_ok(1)] assms(1) by blast
  obtain s1 as where r: "refresh_capture_suspension e s = (s1, as)"
    by fastforce
  note s1 = core_fields [OF core_refresh [OF r]] and modifiers = refresh_modifiers [OF r]
  have vk: "kd_vk_code k \<noteq> VK_G"
    using assms(6) by (auto simp: is_release_hotkey_def VK_G_def)
  have hook: "keyboard_hook F e k s = (Swallow, andthen (\<lambda>s. (s, as)) (release_to_local F e Hotkey) s1)"
    using assms(2-8) ok s1(1) modifiers vk unfolding key_down_def capture_ok_def
    by (simp add: keyboard_hook_def r Let_def)
  obtain s' bs where out: "release_to_local F e Hotkey s1 = (s', bs)"
    by fastforce
  have "cs_active s1" "cs_cursor_hidden s1"
    using assms(2) ok s1 by (simp_all add: capture_ok_def)
  then have "\<not> cs_active s'" "\<not> cs_cursor_hidden s'" "Emit (CapturedControl (ReleaseToLocal Hotkey)) \<in> set bs"
    using out by (auto simp: release_to_local_def show_source_cursor_def virtual_edge_required_def guard_update_def Let_def)
  moreover have "\<not> list_ex forwards bs"
    using release_no_forward [of F e Hotkey s1] by (simp add: out)
  ultimately show ?thesis
    using silent_no_forward [OF refresh_silent [OF r]]
    by (simp add: capture_step_def hook andthen_def out)
qed

section \<open>A sample run\<close>

text \<open>Fixed-point formats in place of the floating point ones.\<close>

definition sample_floats :: floats where
  "sample_floats = \<lparr>fl_f64 = (\<lambda>r. word_of_int \<lfloor>r\<rfloor>), fl_f32 = (\<lambda>r. word_of_int \<lfloor>r * 16777216\<rfloor>),
     fl_real32 = (\<lambda>w. real (unat w) / 16777216)\<rparr>"

lemma sample_floats_ok: "floats_ok sample_floats"
proof -
  have "real (unat (word_of_int \<lfloor>r * 16777216\<rfloor> :: 32 word)) / 16777216 \<le> 1" if "0 \<le> r" "r \<le> 1" for r :: real
  proof -
    have "0 \<le> \<lfloor>r * 16777216\<rfloor>" "\<lfloor>r * 16777216\<rfloor> \<le> 16777216"
      using that by (simp_all add: floor_le_iff)
    then have "unat (word_of_int \<lfloor>r * 16777216\<rfloor> :: 32 word) \<le> 16777216"
      by (simp add: unsigned_of_int nat_le_iff take_bit_int_eq_self)
    moreover have "real n / 16777216 \<le> 1" if "n \<le> 16777216" for n
      using that by simp
    ultimately show ?thesis
      by blast
  qed
  moreover have "0 \<le> real n / 16777216" for n
    by simp
  ultimately show ?thesis
    unfolding floats_ok_def sample_floats_def floats.simps by blast
qed

definition sample_config :: capture_config where
  "sample_config = \<lparr>cc_edge = EdgeLeft, cc_remote_size = \<lparr>sz_width = 1920, sz_height = 1080\<rparr>,
     cc_game_compatibility = AlwaysEnabled\<rparr>"

definition sample_bounds :: local_bounds where
  "sample_bounds = \<lparr>lb_left = 0, lb_top = 0, lb_width = 2560, lb_height = 1440\<rparr>"

definition desktop :: "nat \<Rightarrow> capture_env" where
  "desktop t = \<lparr>ce_now = from_millis t, ce_foreground = 1, ce_fullscreen = False, ce_confined = False, ce_hook_ok = True\<rparr>"

definition at_left_edge :: mouse_data where
  "at_left_edge = \<lparr>md_message = MouseMove, md_pt = \<lparr>px_x = 0, px_y = 100\<rparr>, md_data = 0, md_injected = False,
     md_ours = False\<rparr>"

definition press :: "u32 \<Rightarrow> u32 \<Rightarrow> key_data" where
  "press vk scan = \<lparr>kd_message = KeyDown, kd_vk_code = vk, kd_scan_code = scan, kd_extended = False,
     kd_injected = False, kd_ours = False\<rparr>"

abbreviation sample_start :: capture_state where
  "sample_start \<equiv> capture_start sample_config sample_bounds 0"

lemmas sample_defs = sample_config_def sample_bounds_def desktop_def at_left_edge_def press_def

lemma enter_fields [simp]:
  "cs_ctrl_down (fst (enter_remote F p s)) = cs_ctrl_down s" "cs_alt_down (fst (enter_remote F p s)) = cs_alt_down s"
  "cs_enabled (fst (enter_remote F p s)) = cs_enabled s" "cs_suspended (fst (enter_remote F p s)) = cs_suspended s"
  "cs_config (fst (enter_remote F p s)) = cs_config s" "cs_bounds (fst (enter_remote F p s)) = cs_bounds s"
  "cs_game_guard (fst (enter_remote F p s)) = cs_game_guard s" "list_ex enters (snd (enter_remote F p s))"
  by (simp_all add: enter_remote_def hide_source_cursor_def Let_def)

text \<open>The cursor touches the left edge while local input is free.\<close>

lemma touch_left_edge:
  assumes "cs_config s = sample_config" "cs_bounds s = sample_bounds" "\<not> cs_active s" "cs_enabled s" "\<not> cs_suspended s"
    and "\<not> gg_blocks_capture (cs_game_guard s)" "\<not> gg_fullscreen (cs_game_guard s)"
    "\<not> gg_cursor_confined (cs_game_guard s)" "cs_blocked_until s \<le> from_millis t"
  shows "\<exists>s1. capture_step F (desktop t, MouseHook at_left_edge) s =
    (Swallow, enter_remote F (md_pt at_left_edge) s1) \<and> cs_ctrl_down s1 = cs_ctrl_down s \<and>
    cs_alt_down s1 = cs_alt_down s \<and> cs_suspended s1 = cs_suspended s \<and> cs_enabled s1 = cs_enabled s \<and>
    cs_config s1 = cs_config s \<and> cs_bounds s1 = cs_bounds s \<and> \<not> gg_blocks_capture (cs_game_guard s1) \<and>
    \<not> gg_fullscreen (cs_game_guard s1) \<and> \<not> gg_cursor_confined (cs_game_guard s1)"
  using assms
  by (simp add: capture_step_def mouse_hook_def refresh_capture_suspension_def game_guard_blocks_capture_def
      virtual_edge_required_def guard_update_def guard_refresh_def activation_allowed_def at_activation_edge_def
      andthen_def sample_defs bounds_rect_def real_point_def real_i32_def Let_def case_prod_beta)
    (intro conjI impI; rule exI, rule conjI, rule refl, simp)

lemma sample_start_simps [simp]:
  "cs_config sample_start = sample_config" "cs_bounds sample_start = sample_bounds" "\<not> cs_active sample_start"
  "cs_enabled sample_start" "\<not> cs_suspended sample_start" "\<not> cs_ctrl_down sample_start" "\<not> cs_alt_down sample_start"
  "\<not> gg_blocks_capture (cs_game_guard sample_start)" "\<not> gg_fullscreen (cs_game_guard sample_start)"
  "\<not> gg_cursor_confined (cs_game_guard sample_start)" "cs_blocked_until sample_start = 0"
  by (simp_all add: capture_start_def game_guard_default_def)

text \<open>The remote computer is entered, then Ctrl and Alt are pressed.\<close>

definition hotkey_inputs :: "(capture_env \<times> hook_event) list" where
  "hotkey_inputs = [(desktop 1, MouseHook at_left_edge), (desktop 2, KeyboardHook (press 0xa2 0x1d)),
     (desktop 3, KeyboardHook (press 0xa4 0x38))]"

lemma modifier_step:
  assumes "cs_active s" "cs_enabled s" "\<not> cs_suspended s" "vk \<in> {0xa2, 0xa4}"
  shows "\<exists>s1 effects. capture_step F (desktop t, KeyboardHook (press vk scan)) s = (Swallow, s1, effects) \<and>
    cs_active s1 \<and> cs_enabled s1 \<and> \<not> cs_suspended s1 \<and>
    cs_ctrl_down s1 = (cs_ctrl_down s \<or> vk = 0xa2) \<and> cs_alt_down s1 = (cs_alt_down s \<or> vk = 0xa4)"
  using assms
  by (auto simp: capture_step_def keyboard_hook_def refresh_capture_suspension_def update_modifier_def press_def
      VK_G_def is_release_hotkey_def andthen_def hide_source_cursor_def emit_def Let_def split: option.split)

lemma hotkey_run:
  "\<exists>s. fst (capture_run F sample_start hotkey_inputs) = s \<and> cs_active s \<and> cs_ctrl_down s \<and> cs_alt_down s"
proof -
  obtain s0 where s0: "capture_step F (desktop 1, MouseHook at_left_edge) sample_start =
      (Swallow, enter_remote F (md_pt at_left_edge) s0)" "\<not> cs_suspended s0" "cs_enabled s0"
    using touch_left_edge [of sample_start 1 F] by auto
  define s1 where "s1 = fst (enter_remote F (md_pt at_left_edge) s0)"
  have "cs_active s1" "cs_enabled s1" "\<not> cs_suspended s1"
    using s0 by (simp_all add: s1_def)
  then obtain s2 as2 where s2: "capture_step F (desktop 2, KeyboardHook (press 0xa2 0x1d)) s1 = (Swallow, s2, as2)"
      "cs_active s2" "cs_enabled s2" "\<not> cs_suspended s2" "cs_ctrl_down s2"
    using modifier_step [of s1 "0xa2" F 2 "0x1d"] by auto
  obtain s3 as3 where s3: "capture_step F (desktop 3, KeyboardHook (press 0xa4 0x38)) s2 = (Swallow, s3, as3)"
      "cs_active s3" "cs_ctrl_down s3" "cs_alt_down s3"
    using modifier_step [of s2 "0xa4" F 3 "0x38"] s2 by auto
  have "fst (capture_run F sample_start hotkey_inputs) = s3"
    using s0 s2 s3 by (simp add: hotkey_inputs_def case_prod_beta s1_def [symmetric])
  then show ?thesis
    using s3 by simp
qed

theorem capture_hotkey_releases_witness:
  "\<exists>s s' effects. fst (capture_run sample_floats sample_start hotkey_inputs) = s \<and> cs_active s \<and>
     capture_step sample_floats (desktop 4, KeyboardHook (press 0x13 0x45)) s = (Swallow, s', effects) \<and>
     \<not> cs_active s'"
proof -
  obtain s where s: "fst (capture_run sample_floats sample_start hotkey_inputs) = s" "cs_active s" "cs_ctrl_down s"
      "cs_alt_down s"
    using hotkey_run by blast
  have k: "key_down (press 0x13 0x45)" "is_release_hotkey (kd_vk_code (press 0x13 0x45))"
      "\<not> kd_injected (press 0x13 0x45)" "\<not> kd_ours (press 0x13 0x45)"
    by (simp_all add: press_def key_down_def is_release_hotkey_def)
  show ?thesis
    using capture_hotkey_releases [OF s k, of "desktop 4"] s by blast
qed

theorem capture_events_exclusive_witness:
  "\<exists>s' effects. capture_step sample_floats (desktop 1, MouseHook at_left_edge) sample_start = (Swallow, s', effects) \<and>
     cs_active s'"
proof -
  obtain s' effects where step: "capture_step sample_floats (desktop 1, MouseHook at_left_edge) sample_start =
      (Swallow, s', effects)"
    using touch_left_edge [of sample_start 1 sample_floats] by (metis prod.collapse sample_start_simps zero_le)
  show ?thesis
    using capture_events_exclusive [of sample_floats sample_config sample_bounds 0 "[]", OF _ step] step by auto
qed

theorem capture_cursor_tracked_witness:
  "\<exists>s effects. capture_run sample_floats sample_start hotkey_inputs = (s, effects) \<and> cs_active s \<and> in_screen s \<and>
     handle_receiver_release sample_floats (desktop 4) UserRequest s = (False, s, [])"
proof -
  obtain s effects where run: "capture_run sample_floats sample_start hotkey_inputs = (s, effects)"
    by fastforce
  have "cs_active s"
    using hotkey_run [of sample_floats] by (simp add: run)
  moreover have "wide_enough sample_config"
    by (simp add: wide_enough_def sample_config_def sideways_def last_pixel_def saturating_pred_def
        REMOTE_RETURN_MARGIN_def)
  ultimately show ?thesis
    using capture_cursor_tracked [OF sample_floats_ok _ run, of "desktop 4"] run by auto
qed

text \<open>The remote computer is entered, released from outside, and entered again a second later.\<close>

definition reentry_inputs :: "(capture_env \<times> hook_event) list" where
  "reentry_inputs = [(desktop 1, MouseHook at_left_edge), (desktop 2, ReleaseToLocalCall UserRequest),
     (desktop 1002, MouseHook at_left_edge)]"

lemma after_release:
  assumes "cs_active s"
  shows "cs_config (fst (api_release_to_local F e r s)) = cs_config s"
    "cs_bounds (fst (api_release_to_local F e r s)) = cs_bounds s"
    "\<not> cs_active (fst (api_release_to_local F e r s))"
    "cs_enabled (fst (api_release_to_local F e r s)) = cs_enabled s"
    "cs_suspended (fst (api_release_to_local F e r s)) = cs_suspended s"
    "cs_blocked_until (fst (api_release_to_local F e r s)) = ce_now e + RELEASE_REENTRY_COOLDOWN"
    "cs_game_guard (fst (api_release_to_local F e r s)) =
       guard_refresh e (cc_game_compatibility (cs_config s)) (cs_game_guard s)"
    "list_ex releases (snd (api_release_to_local F e r s))"
  using assms
  by (simp_all add: api_release_to_local_def andthen_def release_to_local_def show_source_cursor_def
      virtual_edge_required_def guard_update_def Let_def case_prod_beta)

theorem capture_reentry_cooldown_witness:
  "list_ex releases (effects_at sample_floats sample_start reentry_inputs 1) \<and>
   list_ex enters (effects_at sample_floats sample_start reentry_inputs 2) \<and>
   ce_now (desktop 2) + from_millis 750 \<le> ce_now (desktop 1002)"
proof -
  obtain s0 where s0: "capture_step sample_floats (desktop 1, MouseHook at_left_edge) sample_start =
      (Swallow, enter_remote sample_floats (md_pt at_left_edge) s0)" "\<not> cs_suspended s0" "cs_enabled s0"
      "cs_config s0 = sample_config" "cs_bounds s0 = sample_bounds" "\<not> gg_blocks_capture (cs_game_guard s0)"
      "\<not> gg_fullscreen (cs_game_guard s0)" "\<not> gg_cursor_confined (cs_game_guard s0)"
    using touch_left_edge [of sample_start 1 sample_floats] by auto
  define s1 where "s1 = fst (enter_remote sample_floats (md_pt at_left_edge) s0)"
  define s2 where "s2 = fst (api_release_to_local sample_floats (desktop 2) UserRequest s1)"
  have "cs_active s1"
    by (simp add: s1_def)
  note release = after_release [OF this, of sample_floats "desktop 2" UserRequest, folded s2_def]
  have s2: "cs_config s2 = sample_config" "cs_bounds s2 = sample_bounds" "\<not> cs_active s2" "cs_enabled s2"
      "\<not> cs_suspended s2" "\<not> gg_blocks_capture (cs_game_guard s2)" "\<not> gg_fullscreen (cs_game_guard s2)"
      "\<not> gg_cursor_confined (cs_game_guard s2)" "cs_blocked_until s2 \<le> from_millis 1002"
    using release s0 by (simp_all add: s1_def guard_refresh_def desktop_def sample_config_def from_millis_def
        RELEASE_REENTRY_COOLDOWN_def)
  obtain s3 where s3: "capture_step sample_floats (desktop 1002, MouseHook at_left_edge) s2 =
      (Swallow, enter_remote sample_floats (md_pt at_left_edge) s3)"
    using touch_left_edge [OF s2, of sample_floats] by auto
  have at: "state_at sample_floats sample_start reentry_inputs 1 = s1"
      "state_at sample_floats sample_start reentry_inputs 2 = s2"
    using s0(1) by (simp_all add: state_at_def reentry_inputs_def take_Cons' s1_def s2_def case_prod_beta capture_step_def)
  have both: "list_ex releases (effects_at sample_floats sample_start reentry_inputs 1)"
      "list_ex enters (effects_at sample_floats sample_start reentry_inputs 2)"
    unfolding effects_at_def at using release(8) s3 by (simp_all add: reentry_inputs_def capture_step_def)
  have "sorted (map (\<lambda>i. ce_now (fst i)) reentry_inputs)" "2 < length reentry_inputs"
    by (simp_all add: reentry_inputs_def desktop_def from_millis_def)
  then show ?thesis
    using capture_reentry_cooldown [OF _ _ _ both] both by (simp add: reentry_inputs_def)
qed

end
