(* ===== verification/SupervisorSafety.thy ===== *)
theory SupervisorSafety
  imports Capture
begin

text \<open>
  The supervisor that replaces stalled input workers of the Windows capture (\<open>run_input_supervisor\<close>): when it
  restarts, and how often.
\<close>

text \<open>One check: the capture state if it could be locked, the counters, the clock, and which restarts succeed.\<close>

type_synonym supervisor_input = "capture_state option \<times> supervisor_snapshot \<times> instant \<times> (restart \<Rightarrow> bool)"

fun check_input :: "supervisor_input \<Rightarrow> supervisor \<Rightarrow> supervisor \<times> restart option" where
  "check_input (state, current, now, works) u = supervisor_check state current now works u"

definition supervisor_at :: "supervisor \<Rightarrow> supervisor_input list \<Rightarrow> nat \<Rightarrow> supervisor" where
  "supervisor_at u is k = foldl (\<lambda>u i. fst (check_input i u)) u (take k is)"

definition restart_at :: "supervisor \<Rightarrow> supervisor_input list \<Rightarrow> nat \<Rightarrow> restart option" where
  "restart_at u is k = snd (check_input (is ! k) (supervisor_at u is k))"

text \<open>What the supervisor takes for a stall of a kind.\<close>

definition stalled :: "restart \<Rightarrow> capture_state option \<Rightarrow> supervisor_snapshot \<Rightarrow> supervisor_snapshot \<Rightarrow> bool" where
  "stalled kind state c p \<longleftrightarrow> fst (capture_enabled_and_suspended state) \<and>
     (case kind of
        RestartAll \<Rightarrow> full_pipeline_stalled c p
      | RestartHooks \<Rightarrow>
          hook_needs_repair (sn_raw_mouse c) (sn_raw_mouse p) (sn_hook_mouse c) (sn_hook_mouse p)
            (\<not> snd (capture_enabled_and_suspended state)) \<or>
          hook_needs_repair (sn_raw_keyboard c) (sn_raw_keyboard p) (sn_hook_keyboard c) (sn_hook_keyboard p) True
      | RestartRaw \<Rightarrow> raw_input_stalled c p)"

definition stalled_at :: "restart \<Rightarrow> supervisor \<Rightarrow> supervisor_input list \<Rightarrow> nat \<Rightarrow> bool" where
  "stalled_at kind u is k =
     (case is ! k of (state, current, _) \<Rightarrow> stalled kind state current (su_previous (supervisor_at u is k)))"

fun ticks :: "restart \<Rightarrow> supervisor \<Rightarrow> u8" where
  "ticks RestartAll u = su_fully_stalled u"
| "ticks RestartHooks u = su_hook_stalled u"
| "ticks RestartRaw u = su_raw_stalled u"

lemma supervisor_at_simps [simp]:
  "supervisor_at u is 0 = u"
  "k < length is \<Longrightarrow> supervisor_at u is (Suc k) = fst (check_input (is ! k) (supervisor_at u is k))"
  by (simp_all add: supervisor_at_def take_Suc_conv_app_nth)

lemma two_not_le [simp]: "\<not> (2 :: u8) \<le> 0" "\<not> (2 :: u8) \<le> 1"
  by (simp_all add: word_le_nat_alt)

lemma confirmed_twice:
  assumes "confirm b n \<ge> 2"
  shows "b \<and> n \<noteq> 0"
proof -
  show ?thesis
    using assms by (cases "n = 0") (auto simp: confirm_def saturating_add_def split: if_splits)
qed

lemma confirm_nonzero: "confirm b n \<noteq> 0 \<Longrightarrow> b"
  by (auto simp: confirm_def split: if_splits)

lemma check_cases:
  fixes u :: supervisor
  assumes "supervisor_check state current now works u = (u', r)"
  shows "ticks kind u' \<noteq> 0 \<Longrightarrow> stalled kind state current (su_previous u)"
    and "r = Some kind \<Longrightarrow> stalled kind state current (su_previous u) \<and> ticks kind u \<noteq> 0"
    and "r = Some kind \<Longrightarrow> su_last_restart u + INPUT_RESTART_COOLDOWN \<le> now"
    and "su_last_restart u' = (if \<exists>kind. r = Some kind \<and> works kind then now else su_last_restart u)"
proof -
  obtain enabled suspended where es: "capture_enabled_and_suspended state = (enabled, suspended)"
    by fastforce
  have cool: "0 < INPUT_RESTART_COOLDOWN"
    by (simp add: INPUT_RESTART_COOLDOWN_def from_secs_def)
  note unfolded = assms [unfolded supervisor_check_def es prod.case Let_def INPUT_STALL_CONFIRMATIONS_def]
  show "stalled kind state current (su_previous u)" if "ticks kind u' \<noteq> 0"
    using unfolded that
    by (cases kind) (auto simp: stalled_def es split: if_splits dest: confirm_nonzero)
  show "stalled kind state current (su_previous u) \<and> ticks kind u \<noteq> 0" if "r = Some kind"
    using unfolded that
    by (cases kind) (auto simp: stalled_def es split: if_splits dest: confirmed_twice)
  show "su_last_restart u + INPUT_RESTART_COOLDOWN \<le> now" if "r = Some kind"
    using unfolded that cool by (auto simp: duration_since_def split: if_splits)
  show "su_last_restart u' = (if \<exists>kind. r = Some kind \<and> works kind then now else su_last_restart u)"
    using unfolded by (auto split: if_splits)
qed

lemma ticks_seen:
  assumes "k \<le> length is" "ticks kind (supervisor_at (supervisor_start snapshot now) is k) \<noteq> 0"
  shows "0 < k \<and> stalled_at kind (supervisor_start snapshot now) is (k - 1)"
proof (cases k)
  case 0
  then show ?thesis
    using assms(2) by (cases kind) (simp_all add: supervisor_start_def)
next
  case (Suc n)
  obtain state current t works where i: "is ! n = (state, current, t, works)"
    by (cases "is ! n")
  obtain u' r where c: "supervisor_check state current t works (supervisor_at (supervisor_start snapshot now) is n) = (u', r)"
    by fastforce
  show ?thesis
    using check_cases(1) [OF c, of kind] assms by (simp add: Suc i c stalled_at_def)
qed

text \<open>The supervisor restarts input workers only on confirmed stalls, and not too often: every restart of a
  kind follows two consecutive checks that both saw a stall of that kind while the capture was enabled, and once a
  restart succeeded, the next attempt of any kind comes at least eight seconds later.\<close>

theorem supervisor_restarts_spaced:
  assumes "sorted (map (\<lambda>(_, _, t, _). t) is)" "k < length is"
    and "restart_at (supervisor_start snapshot now) is k = Some kind"
  shows "0 < k \<and> stalled_at kind (supervisor_start snapshot now) is k \<and>
    stalled_at kind (supervisor_start snapshot now) is (k - 1) \<and>
    (\<forall>j kind' state current t works. j < k \<and> is ! j = (state, current, t, works) \<and>
      restart_at (supervisor_start snapshot now) is j = Some kind' \<and> works kind' \<longrightarrow>
      t + from_secs 8 \<le> (case is ! k of (_, _, t', _) \<Rightarrow> t'))"
proof -
  let ?u = "supervisor_at (supervisor_start snapshot now) is"
  obtain state current t' works where i: "is ! k = (state, current, t', works)"
    by (cases "is ! k")
  obtain u' r where c: "supervisor_check state current t' works (?u k) = (u', r)"
    by fastforce
  have r: "r = Some kind"
    using assms(3) by (simp add: restart_at_def i c)
  have last: "t \<le> su_last_restart (?u m)"
    if "j < m" "m \<le> k" "is ! j = (sj, cj, t, wj)"
      "restart_at (supervisor_start snapshot now) is j = Some kind'" "wj kind'" for m j sj cj t wj kind'
    using that(1,2)
  proof (induction m)
    case (Suc n)
    obtain sn cn tn wn where n: "is ! n = (sn, cn, tn, wn)"
      by (cases "is ! n")
    obtain un rn where cn: "supervisor_check sn cn tn wn (?u n) = (un, rn)"
      by fastforce
    have len: "n < length is" "j < length is"
      using Suc.prems assms(2) by simp_all
    have step: "?u (Suc n) = un"
      using len by (simp add: n cn)
    show ?case
    proof (cases "j = n")
      case True
      then have "rn = Some kind'" "tn = t" "wn = wj"
        using that(3,4) n cn by (auto simp: restart_at_def)
      then show ?thesis
        using check_cases(4) [OF cn] that(5) by (auto simp: step)
    next
      case False
      have "t \<le> tn"
        using sorted_nth_mono [OF assms(1), of j n] Suc.prems len that(3) by (simp add: n)
      then show ?thesis
        using check_cases(4) [OF cn] Suc False by (auto simp: step)
    qed
  qed simp
  have "ticks kind (?u k) \<noteq> 0" "stalled_at kind (supervisor_start snapshot now) is k"
    using check_cases(2) [OF c r] by (simp_all add: stalled_at_def i)
  moreover have "t + from_secs 8 \<le> t'" if "j < k" "is ! j = (sj, cj, t, wj)"
      "restart_at (supervisor_start snapshot now) is j = Some kind'" "wj kind'" for j sj cj t wj kind'
    using last [OF that(1) order.refl that(2-4)] check_cases(3) [OF c r] by (simp add: INPUT_RESTART_COOLDOWN_def)
  ultimately show ?thesis
    using ticks_seen [of k "is" kind snapshot now] assms(2) i by auto
qed

text \<open>Windows sees input that neither worker reports.\<close>

definition quiet_snapshot :: "u32 \<Rightarrow> supervisor_snapshot" where
  "quiet_snapshot tick =
     \<lparr>sn_raw_mouse = 0, sn_raw_keyboard = 0, sn_hook_mouse = 0, sn_hook_keyboard = 0, sn_system_last_input = Some tick\<rparr>"

definition enabled_state :: capture_state where
  "enabled_state = capture_start
     \<lparr>cc_edge = EdgeLeft, cc_remote_size = \<lparr>sz_width = 1920, sz_height = 1080\<rparr>, cc_game_compatibility = AlwaysEnabled\<rparr>
     \<lparr>lb_left = 0, lb_top = 0, lb_width = 2560, lb_height = 1440\<rparr> 0"

definition sample_checks :: "supervisor_input list" where
  "sample_checks =
     [(Some enabled_state, quiet_snapshot 1, from_secs 20, \<lambda>_. True), (Some enabled_state, quiet_snapshot 2, from_secs 21, \<lambda>_. True)]"

theorem supervisor_restarts_spaced_witness:
  "restart_at (supervisor_start (quiet_snapshot 0) (from_secs 10)) sample_checks 1 = Some RestartAll \<and>
   stalled_at RestartAll (supervisor_start (quiet_snapshot 0) (from_secs 10)) sample_checks 0"
proof -
  have len: "(1::nat) < length sample_checks"
    by (simp add: sample_checks_def)
  have at: "restart_at (supervisor_start (quiet_snapshot 0) (from_secs 10)) sample_checks 1 = Some RestartAll"
    unfolding restart_at_def supervisor_at_def
    by (simp add: sample_checks_def supervisor_check_def capture_enabled_and_suspended_def enabled_state_def
        capture_start_def quiet_snapshot_def supervisor_start_def hook_needs_repair_def full_pipeline_stalled_def
        raw_input_stalled_def raw_advanced_def hooks_advanced_def system_input_advanced_def confirm_def
        saturating_add_def INPUT_STALL_CONFIRMATIONS_def INPUT_RESTART_COOLDOWN_def from_secs_def duration_since_def
        Let_def)
  show ?thesis
    using supervisor_restarts_spaced [OF _ len at] at by (simp add: sample_checks_def from_secs_def)
qed

end
