(* ===== verification/ComputerPairing.thy ===== *)
theory ComputerPairing
  imports Crypto Liveness PhonePairing
begin

text \<open>
  How two computers set up a session in \<open>apps/edge-receiver-linux/src/main.rs\<close>: the listening side, inside
  \<open>run_node\<close>, and the dialling side, \<open>connect_linux_peer\<close>, up to the point where both trust each other.
  Each side is one function of the frames that arrive in time, of how many writes succeed and of the answer of its
  confirmation window; it returns the outcome, the changed state and the frames it sent. The log, the tray, and the
  debug print of an unexpected frame in an error text are not modelled.
\<close>

section \<open>Hello\<close>

record node_config =
  nc_device_name :: string
  nc_role :: role
  nc_notifications :: bool

definition node_hello :: "node_config \<Rightarrow> string \<Rightarrow> hello" where
  "node_hello cfg fp =
     \<lparr>hello_protocol_version = PROTOCOL_VERSION, hello_device_name = nc_device_name cfg, hello_role = nc_role cfg,
      hello_public_key_fingerprint = fp, hello_capabilities = [],
      hello_extensions =
        [CLIPBOARD_IMAGE_EXTENSION, CLIPBOARD_TEXT_CHUNKS_EXTENSION, INPUT_TOGGLE_EXTENSION,
         PAIRING_CONFIRMATION_EXTENSION, AUDIO_ROUTE_EXTENSION] @
        (if nc_notifications cfg then [NOTIFICATION_SYNC_EXTENSION] else []),
      hello_node_capabilities =
        [InputCaptureV1, InputInjectV1, RoleSwitchV1, ScreenInfoBothSidesV1, AudioCaptureV1, AudioPlaybackV1]\<rparr>"

definition supports_confirmation :: "hello \<Rightarrow> bool" where
  "supports_confirmation h = (PAIRING_CONFIRMATION_EXTENSION \<in> set (hello_extensions h))"

definition UPDATE_TEXT :: string where
  "UPDATE_TEXT = ''peer does not support two-sided pairing confirmation; update it first''"

definition REPLACED_TEXT :: string where
  "REPLACED_TEXT = ''the saved peer identity changed; choose 'Pair or replace peer...' on both computers''"

definition UPGRADE_TEXT :: string where
  "UPGRADE_TEXT = ''Upgrade the other computer''"

definition validate_controller_hello :: "hello \<Rightarrow> string \<Rightarrow> (string, unit) result" where
  "validate_controller_hello h noise_fingerprint =
     (if hello_protocol_version h \<noteq> PROTOCOL_VERSION
      then Err (UPGRADE_TEXT @ '': peer protocol version '' @ decimal (unat (hello_protocol_version h)) @
                '' is incompatible with '' @ decimal (unat PROTOCOL_VERSION))
      else if hello_public_key_fingerprint h \<noteq> noise_fingerprint
      then Err ''peer hello fingerprint does not match its encrypted identity''
      else Ok ())"

section \<open>What is read\<close>

text \<open>A frame that does not arrive in time, or after the connection closed, is the end of the list.\<close>

definition peer_error :: "remote_error \<Rightarrow> string" where
  "peer_error e = ''peer error: '' @ re_code e @ '': '' @ re_message e"

fun read_hello :: "frame list \<Rightarrow> (string, hello \<times> frame list) result" where
  "read_hello (FHello h # rest) = Ok (h, rest)"
| "read_hello (FError e # rest) = Err (peer_error e)"
| "read_hello (_ # rest) = read_hello rest"
| "read_hello [] = Err ''timed out waiting for peer hello''"

fun read_status :: "frame list \<Rightarrow> (string, (bool \<times> bool) \<times> frame list) result" where
  "read_status (FPairing (PairingStatusEvent trusted armed) # rest) = Ok ((trusted, armed), rest)"
| "read_status (FError e # rest) = Err (peer_error e)"
| "read_status (_ # rest) = Err ''expected peer pairing status''"
| "read_status [] = Err ''timed out waiting for peer pairing status''"

fun read_decision :: "frame list \<Rightarrow> (string, bool) result" where
  "read_decision (FPairing (PairingDecision accepted) # rest) = Ok accepted"
| "read_decision (FError e # rest) = Err (peer_error e)"
| "read_decision (_ # rest) = Err ''expected peer pairing decision''"
| "read_decision [] = Err ''timed out waiting for pairing confirmation on the peer''"

section \<open>The listening side\<close>

datatype accept_outcome =
    AcceptRefused string \<comment> \<open>the code of the error frame\<close>
  | AcceptDropped
  | AcceptSaveFailed
  | AcceptSession

text \<open>How many writes succeed, the frames that arrive after the peer's hello, the answer of the confirmation
  window (no, if it fails), and whether the pin file can be written.\<close>

record accept_input =
  ai_writes :: nat
  ai_frames :: "frame list"
  ai_dialog :: bool
  ai_save_ok :: bool

text \<open>\<open>reject_pairing\<close>: a refusal is sent if it can be.\<close>

definition reject_pairing :: "nat \<Rightarrow> frame list \<Rightarrow> string \<Rightarrow> string \<Rightarrow> frame list" where
  "reject_pairing writes sent code message = take writes (sent @ [FError \<lparr>re_code = code, re_message = message\<rparr>])"

definition accept_computer ::
  "node_config \<Rightarrow> string \<Rightarrow> pin_store \<Rightarrow> bool \<Rightarrow> hello \<Rightarrow> string \<Rightarrow> accept_input
     \<Rightarrow> accept_outcome \<times> pin_store \<times> bool \<times> frame list" where
  "accept_computer cfg local_fp pins armed h fp inp =
     (let reject = reject_pairing (ai_writes inp)
      in if is_phone_key pins fp
      then (AcceptRefused ''key_is_phone'', pins, armed,
            reject [] ''key_is_phone'' ''this key is paired as a phone; it can't connect as a computer'')
      else (let pin_status = status pins (hello_device_name h) fp;
                trusted = is_trusted pin_status;
                session_armed = (armed \<or> pin_status = Unknown);
                sent0 = [FHello (node_hello cfg local_fp)];
                sent1 = sent0 @ [FPairing (PairingStatusEvent trusted session_armed)]
            in if ai_writes inp < 1 then (AcceptDropped, pins, armed, [])
               else if supports_confirmation h
               then (if ai_writes inp < 2 then (AcceptDropped, pins, armed, sent0)
                     else (case read_status (ai_frames inp) of
                             Inl _ \<Rightarrow> (AcceptDropped, pins, armed, sent1)
                           | Inr ((peer_trusted, peer_armed), rest) \<Rightarrow>
                               if trusted \<and> peer_trusted then (AcceptSession, pins, False, sent1)
                               else if \<not> session_armed \<or> \<not> peer_armed
                               then (AcceptRefused ''pairing_not_armed'', pins, armed,
                                     reject sent1 ''pairing_not_armed'' REPLACED_TEXT)
                               else if ai_writes inp < 3 then (AcceptDropped, pins, armed, sent1)
                               else (let accepted = ai_dialog inp;
                                         sent2 = sent1 @ [FPairing (PairingDecision accepted)];
                                         peer_accepted = (accepted \<and> read_decision rest = Ok True)
                                     in if \<not> accepted \<or> \<not> peer_accepted then (AcceptDropped, pins, False, sent2)
                                        else (let pins1 = pin pins (hello_device_name h) fp
                                              in if ai_save_ok inp then (AcceptSession, pins1, False, sent2)
                                                 else (AcceptSaveFailed, pins1, False, sent2)))))
               else if \<not> trusted
               then (AcceptRefused ''pairing_update_required'', pins, armed,
                     reject sent0 ''pairing_update_required'' UPDATE_TEXT)
               else (AcceptSession, pins, False, sent0)))"

section \<open>The dialling side\<close>

text \<open>All frames that arrive after the handshake; the confirmation window may fail with None.\<close>

record connect_input =
  ci_writes :: nat
  ci_frames :: "frame list"
  ci_dialog :: "bool option"

text \<open>\<open>Ok\<close> tells whether the computers were paired during this connection. The dialling side trusts the key
  of every paired computer, whatever its name.\<close>

definition connect_computer ::
  "node_config \<Rightarrow> string \<Rightarrow> string list \<Rightarrow> string \<Rightarrow> bool \<Rightarrow> string \<Rightarrow> connect_input
     \<Rightarrow> (string, bool) result \<times> frame list" where
  "connect_computer cfg local_fp paired pinned armed fp inp =
     (let trusted = (fp \<in> set paired \<or> pinned = fp);
          sent0 = [FHello (node_hello cfg local_fp)];
          sent1 = sent0 @ [FPairing (PairingStatusEvent trusted armed)];
          lost = Err ''connection lost''
      in if ci_writes inp < 1 then (lost, [])
         else (case read_hello (ci_frames inp) of
                 Inl message \<Rightarrow> (Err message, sent0)
               | Inr (h, rest0) \<Rightarrow>
                   (case validate_controller_hello h fp of
                      Inl message \<Rightarrow> (Err message, sent0)
                    | Inr _ \<Rightarrow>
                        if supports_confirmation h
                        then (if ci_writes inp < 2 then (lost, sent0)
                              else (case read_status rest0 of
                                      Inl message \<Rightarrow> (Err message, sent1)
                                    | Inr ((peer_trusted, peer_armed), rest) \<Rightarrow>
                                        if trusted \<and> peer_trusted then (Ok False, sent1)
                                        else if \<not> armed \<or> \<not> peer_armed
                                        then (Err ''pairing needs approval on both computers'',
                                              take (ci_writes inp) (sent1 @ [FPairing (PairingDecision False)]))
                                        else (case ci_dialog inp of
                                                None \<Rightarrow> (Err ''Linux pairing confirmation task failed'', sent1)
                                              | Some accepted \<Rightarrow>
                                                  if ci_writes inp < 3 then (lost, sent1)
                                                  else (if \<not> accepted then Err ''pairing was not approved on both computers''
                                                        else (case read_decision rest of
                                                                Inl message \<Rightarrow> Err message
                                                              | Inr False \<Rightarrow> Err ''pairing was not approved on both computers''
                                                              | Inr True \<Rightarrow> Ok True),
                                                        sent1 @ [FPairing (PairingDecision accepted)]))))
                        else if \<not> trusted then (Err UPDATE_TEXT, sent0)
                        else (Ok False, sent0))))"

section \<open>Both sides together\<close>

text \<open>The two sides' own status, as they announce it.\<close>

definition listener_status :: "pin_store \<Rightarrow> bool \<Rightarrow> string \<Rightarrow> string \<Rightarrow> pairing_status" where
  "listener_status pins armed name fp =
     \<lparr>pst_trusted = is_trusted (status pins name fp), pst_armed = (armed \<or> status pins name fp = Unknown)\<rparr>"

definition connector_status :: "string list \<Rightarrow> string \<Rightarrow> bool \<Rightarrow> string \<Rightarrow> pairing_status" where
  "connector_status paired pinned armed fp = \<lparr>pst_trusted = (fp \<in> set paired \<or> pinned = fp), pst_armed = armed\<rparr>"

lemma node_hello_simps [simp]:
  "supports_confirmation (node_hello cfg fp)" "hello_device_name (node_hello cfg fp) = nc_device_name cfg"
  "validate_controller_hello (node_hello cfg fp) fp = Ok ()"
  by (simp_all add: supports_confirmation_def node_hello_def validate_controller_hello_def)

text \<open>Each side's first two frames do not depend on what it read after the hello.\<close>

lemma accept_announces:
  assumes "accept_computer cfg fp_l pins armed (node_hello cfg_c fp) fp
      \<lparr>ai_writes = 3, ai_frames = frames, ai_dialog = answer, ai_save_ok = True\<rparr> = (outcome, pins', armed', sent)"
    and "\<not> is_phone_key pins fp"
    and "st = listener_status pins armed (nc_device_name cfg_c) fp"
  shows "take 2 sent = [FHello (node_hello cfg fp_l), FPairing (PairingStatusEvent (pst_trusted st) (pst_armed st))]"
  using assms
  by (auto simp: accept_computer_def listener_status_def reject_pairing_def Let_def split: sum.splits if_splits prod.splits)

lemma connect_announces:
  assumes "connect_computer cfg fp_c paired pinned armed fp
      \<lparr>ci_writes = 3, ci_frames = FHello (node_hello cfg_l fp) # frames, ci_dialog = Some answer\<rparr> = (result, sent)"
    and "st = connector_status paired pinned armed fp"
  shows "take 2 sent = [FHello (node_hello cfg fp_c), FPairing (PairingStatusEvent (pst_trusted st) (pst_armed st))]"
  using assms
  by (auto simp: connect_computer_def connector_status_def Let_def split: sum.splits if_splits prod.splits)

lemma two_frames: "take 2 xs = [a, b] \<Longrightarrow> \<exists>rest. xs = a # b # rest"
  by (cases xs; cases "tl xs") (auto simp: numeral_2_eq_2)

text \<open>What each side does once it read the other's status, as an equation.\<close>

lemma accept_decides:
  assumes "\<not> is_phone_key pins fp" and "st = listener_status pins armed (nc_device_name cfg_c) fp"
  shows "accept_computer cfg fp_l pins armed (node_hello cfg_c fp) fp
      \<lparr>ai_writes = 3, ai_frames = FPairing (PairingStatusEvent pt pa) # rest, ai_dialog = answer, ai_save_ok = True\<rparr>
    = (let sent = [FHello (node_hello cfg fp_l), FPairing (PairingStatusEvent (pst_trusted st) (pst_armed st))]
       in if pst_trusted st \<and> pt then (AcceptSession, pins, False, sent)
          else if \<not> pst_armed st \<or> \<not> pa
          then (AcceptRefused ''pairing_not_armed'', pins, armed,
                sent @ [FError \<lparr>re_code = ''pairing_not_armed'', re_message = REPLACED_TEXT\<rparr>])
          else if answer \<and> read_decision rest = Ok True
          then (AcceptSession, pin pins (nc_device_name cfg_c) fp, False, sent @ [FPairing (PairingDecision answer)])
          else (AcceptDropped, pins, False, sent @ [FPairing (PairingDecision answer)]))"
  using assms by (simp add: accept_computer_def listener_status_def reject_pairing_def Let_def)

lemma connect_decides:
  assumes "st = connector_status paired pinned armed fp"
  shows "connect_computer cfg fp_c paired pinned armed fp
      \<lparr>ci_writes = 3, ci_frames = FHello (node_hello cfg_l fp) # FPairing (PairingStatusEvent pt pa) # rest,
       ci_dialog = Some answer\<rparr>
    = (let sent = [FHello (node_hello cfg fp_c), FPairing (PairingStatusEvent (pst_trusted st) (pst_armed st))]
       in if pst_trusted st \<and> pt then (Ok False, sent)
          else if \<not> pst_armed st \<or> \<not> pa
          then (Err ''pairing needs approval on both computers'', sent @ [FPairing (PairingDecision False)])
          else (if \<not> answer then Err ''pairing was not approved on both computers''
                else (case read_decision rest of
                        Inl message \<Rightarrow> Err message
                      | Inr False \<Rightarrow> Err ''pairing was not approved on both computers''
                      | Inr True \<Rightarrow> Ok True),
                sent @ [FPairing (PairingDecision answer)]))"
  using assms by (simp add: connect_computer_def connector_status_def Let_def)

text \<open>C3: Two computers pair together or not at all, as \<open>resolve_pairing\<close> says. Let one computer dial the other,
  both running this code, with a working connection, so that each reads the frames the other sent, and a
  confirmation window that returns on the dialling side. Then the outcome on both sides is that of the pairing
  decision of \<open>edge-runtime\<close> on what each side announced and on both users' answers: both get a session exactly if
  both trusted each other already or both users accepted an armed pairing, the dialling side reports a new pairing
  and the listening side pins the key exactly in the latter case, and otherwise the pins stay as they were.\<close>

theorem computers_pair_together:
  assumes listener: "accept_computer cfg_l fp_l pins armed_l (node_hello cfg_c fp_c) fp_c
      \<lparr>ai_writes = 3, ai_frames = drop 1 sent_c, ai_dialog = answer_l, ai_save_ok = True\<rparr>
        = (outcome, pins', armed', sent_l)"
    and connector: "connect_computer cfg_c fp_c paired pinned armed_c fp_l
      \<lparr>ci_writes = 3, ci_frames = sent_l, ci_dialog = Some answer_c\<rparr> = (result, sent_c)"
    and phone: "\<not> is_phone_key pins fp_c"
    and decided: "decision = resolve_pairing (listener_status pins armed_l (nc_device_name cfg_c) fp_c)
      (connector_status paired pinned armed_c fp_l) (Some (answer_l, answer_c))"
  shows "(outcome = AcceptSession) = (decision = AlreadyTrusted \<or> decision = Accepted) \<and>
    is_ok result = (decision = AlreadyTrusted \<or> decision = Accepted) \<and>
    (result = Ok True) = (decision = Accepted) \<and>
    pins' = (if decision = Accepted then pin pins (nc_device_name cfg_c) fp_c else pins)"
proof -
  define l where "l = listener_status pins armed_l (nc_device_name cfg_c) fp_c"
  define c where "c = connector_status paired pinned armed_c fp_l"
  obtain rest_l where sl: "sent_l = FHello (node_hello cfg_l fp_l) # FPairing (PairingStatusEvent (pst_trusted l) (pst_armed l)) # rest_l"
    using two_frames[OF accept_announces[OF listener phone l_def]] by blast
  obtain rest_c where sc: "sent_c = FHello (node_hello cfg_c fp_c) # FPairing (PairingStatusEvent (pst_trusted c) (pst_armed c)) # rest_c"
    using two_frames[OF connect_announces[OF connector[unfolded sl] c_def]] by blast
  note ends = listener[unfolded sc, simplified, unfolded accept_decides[OF phone l_def] Let_def]
    connector[unfolded sl connect_decides[OF c_def] Let_def]
  have rests: "rest_l = [FPairing (PairingDecision answer_l)] \<and> rest_c = [FPairing (PairingDecision answer_c)]"
    if "\<not> (pst_trusted l \<and> pst_trusted c)" "pst_armed l" "pst_armed c"
    using that ends sl sc by (auto split: if_splits)
  show ?thesis
    using ends rests unfolding decided[folded l_def c_def] resolve_pairing_def
    by (cases answer_l; cases answer_c) (auto split: if_splits)
qed

theorem computers_pair_together_witness:
  "(let desk = \<lparr>nc_device_name = ''desk'', nc_role = Controller, nc_notifications = False\<rparr>;
        lap = \<lparr>nc_device_name = ''lap'', nc_role = Receiver, nc_notifications = True\<rparr>;
        sent_l = [FHello (node_hello lap ''b2''), FPairing (PairingStatusEvent False True), FPairing (PairingDecision True)];
        sent_c = [FHello (node_hello desk ''a1''), FPairing (PairingStatusEvent False True), FPairing (PairingDecision True)]
    in accept_computer lap ''b2'' pin_store_default False (node_hello desk ''a1'') ''a1''
         \<lparr>ai_writes = 3, ai_frames = drop 1 sent_c, ai_dialog = True, ai_save_ok = True\<rparr>
       = (AcceptSession, pin pin_store_default ''desk'' ''a1'', False, sent_l) \<and>
       is_ok (fst (connect_computer desk ''a1'' [] [] True ''b2''
         \<lparr>ci_writes = 3, ci_frames = sent_l, ci_dialog = Some True\<rparr>)))"
proof -
  define desk where "desk = \<lparr>nc_device_name = ''desk'', nc_role = Controller, nc_notifications = False\<rparr>"
  define lap where "lap = \<lparr>nc_device_name = ''lap'', nc_role = Receiver, nc_notifications = True\<rparr>"
  define sent_l where "sent_l = [FHello (node_hello lap ''b2''), FPairing (PairingStatusEvent False True), FPairing (PairingDecision True)]"
  define sent_c where "sent_c = [FHello (node_hello desk ''a1''), FPairing (PairingStatusEvent False True), FPairing (PairingDecision True)]"
  have name: "nc_device_name desk = ''desk''" by (simp add: desk_def)
  have p: "\<not> is_phone_key pin_store_default ''a1''"
    by (simp add: is_phone_key_def pin_store_default_def bt_values_def)
  have s: "status pin_store_default (nc_device_name desk) ''a1'' = Unknown"
    by (simp add: status_def pin_store_default_def bt_get_def)
  have l: "accept_computer lap ''b2'' pin_store_default False (node_hello desk ''a1'') ''a1''
         \<lparr>ai_writes = 3, ai_frames = drop 1 sent_c, ai_dialog = True, ai_save_ok = True\<rparr>
       = (AcceptSession, pin pin_store_default ''desk'' ''a1'', False, sent_l)"
    unfolding sent_c_def sent_l_def using s name
    by (simp add: accept_decides[OF p refl] listener_status_def Let_def)
  have c: "connect_computer desk ''a1'' [] [] True ''b2''
         \<lparr>ci_writes = 3, ci_frames = sent_l, ci_dialog = Some True\<rparr> = (Ok True, sent_c)"
    unfolding sent_c_def sent_l_def by (simp add: connect_decides[OF refl] connector_status_def Let_def)
  have accepted: "resolve_pairing (listener_status pin_store_default False (nc_device_name desk) ''a1'')
      (connector_status [] [] True ''b2'') (Some (True, True)) = Accepted"
    using computers_pair_together[OF l c p refl, THEN conjunct2, THEN conjunct2, THEN conjunct1] by blast
  have "is_ok (fst (connect_computer desk ''a1'' [] [] True ''b2''
         \<lparr>ci_writes = 3, ci_frames = sent_l, ci_dialog = Some True\<rparr>))"
    unfolding c fst_conv
    using computers_pair_together[OF l c p refl, THEN conjunct2, THEN conjunct1] accepted by blast
  then show ?thesis
    using l unfolding Let_def desk_def[symmetric] lap_def[symmetric] sent_l_def[symmetric] sent_c_def[symmetric]
    by blast
qed

end
