(* ===== verification/SessionProgram.thy ===== *)
theory SessionProgram
  imports Role Liveness Ping Clipboard Audio
begin

text \<open>
  What the sessions of \<open>apps/edge-receiver-linux/src/main.rs\<close> share, on the accepting side
  (\<open>ReceiverSession\<close>) and on the dialling side (\<open>ConnectorSession\<close>): the return watcher, the events of
  the capture portal and of the tray, the effects of a session, its programs over them, and a calculus of weakest
  preconditions for these programs.
\<close>

section \<open>The return watcher\<close>

text \<open>
  \<open>rw_poller\<close>: a task is sampling the cursor. Its reports arrive with the generation that started it;
  \<open>next_release\<close> drops the reports of an earlier arming.
\<close>

record return_watcher =
  rw_output :: bool
  rw_edge :: "edge option"
  rw_generation :: u64
  rw_motion_seen :: bool
  rw_poller :: bool

definition watcher_new :: "screen_info option \<Rightarrow> return_watcher" where
  "watcher_new info =
     \<lparr>rw_output = (case info of None \<Rightarrow> False | Some i \<Rightarrow> si_outputs i \<noteq> []), rw_edge = None, rw_generation = 0,
      rw_motion_seen = False, rw_poller = False\<rparr>"

definition watcher_disarm :: "return_watcher \<Rightarrow> return_watcher" where
  "watcher_disarm w = w\<lparr>rw_edge := None, rw_generation := rw_generation w + 1, rw_poller := False\<rparr>"

definition watcher_arm :: "edge \<Rightarrow> return_watcher \<Rightarrow> return_watcher" where
  "watcher_arm e w =
     (let w1 = (watcher_disarm w)\<lparr>rw_edge := Some e\<rparr>
      in if \<not> rw_output w then w1 else w1\<lparr>rw_motion_seen := False, rw_poller := True\<rparr>)"

fun watcher_record_control :: "control_event \<Rightarrow> return_watcher \<Rightarrow> return_watcher" where
  "watcher_record_control (EnterRemote e _) w = watcher_arm e w"
| "watcher_record_control (ReleaseToLocal _) w = watcher_disarm w"
| "watcher_record_control (LeaveRemote _ _) w = watcher_disarm w"
| "watcher_record_control (SetInputForwarding enabled) w = (if enabled then w else watcher_disarm w)"

definition watcher_note_motion :: "return_watcher \<Rightarrow> return_watcher" where
  "watcher_note_motion w = (if rw_poller w then w\<lparr>rw_motion_seen := True\<rparr> else w)"

definition watcher_retry_release :: "return_watcher \<Rightarrow> return_watcher" where
  "watcher_retry_release w = (case rw_edge w of Some e \<Rightarrow> watcher_arm e w | None \<Rightarrow> w)"

definition watcher_accepts :: "return_watcher \<Rightarrow> u64 \<Rightarrow> bool" where
  "watcher_accepts w generation = (generation = rw_generation w \<and> rw_edge w \<noteq> None)"

section \<open>Peers and events\<close>

text \<open>What does not change during a session; the peer is the connector that controls us at the start.\<close>

record session_peer =
  sp_local :: string
  sp_peer :: string
  sp_audio_playback :: bool
  sp_audio_capture :: bool
  sp_audio_route :: bool
  sp_input_toggle :: bool
  sp_role_switch :: bool
  sp_input_capture :: bool
  sp_input_injection :: bool
  sp_listener_position :: edge
  sp_jitter_target_ms :: u16
  sp_screen :: "screen_info option"

definition role_switch_available :: "session_peer \<Rightarrow> bool" where
  "role_switch_available p = (sp_role_switch p \<and> sp_input_capture p \<and> sp_input_injection p)"

datatype capture_event =
    Activated edge f32 | CapturedInput input_event | Deactivated | EmergencyReleased | LayoutChanged
  | BackendFailed string | CaptureGone

datatype controller_choice = ChooseLocal | ChoosePeer

datatype audio_choice = AudioOff | AudioLocal | AudioPeer

datatype tray_command =
    OpenSettings | AddPhone | ArmPairing | TrayQuit | Disconnect | Reconnect
  | SetController controller_choice | ToggleInputForwarding | SetAudio audio_choice

fun opposite_edge :: "edge \<Rightarrow> edge" where
  "opposite_edge EdgeLeft = EdgeRight"
| "opposite_edge EdgeRight = EdgeLeft"
| "opposite_edge EdgeTop = EdgeBottom"
| "opposite_edge EdgeBottom = EdgeTop"

definition ROLE_DEADLINE :: duration where
  "ROLE_DEADLINE = from_secs 5"

section \<open>Effects and programs\<close>

datatype effect =
    Send frame
  | Inject input_event
  | KeysUp
  | CaptureArm
  | CaptureRelease "(edge \<times> f32) option" \<comment> \<open>where the local cursor goes, if anywhere\<close>
  | CaptureDisarm
  | CaptureReleaseAndDisarm
  | CaptureKeepAlive
  | CapturePreflight edge
  | StopAudioSender
  | StartAudioTask u64 bytes bytes bytes u16
  | StartAudioReceiver u16
  | SaveRole string
  | RememberPosition edge
  | HandleClipboard clipboard_event
  | RequestClipboardRead
  | OfferClipboard
  | SendClipboardChunk
  | HandleNotification notification_sync
  | StorePause bool
  | SaveAudioRoute "string option"
  | AllowCapture bool \<comment> \<open>of the Windows capture\<close>
  | ForceRelease
  | PeerRelease release_reason
  | TrayRelease
  | WriteText string
  | WriteImage canonical_image
  | DelayRequest clipboard_event

datatype session_fault =
    ConnectionFailed | PeerSilent | CaptureFailed | CaptureStopped | InjectorFailed | ReaderEnded
  | NoPrepare | ForeignController | InvalidEpoch | UnsupportedRoute | SaveFailed | NoSocket
  | RoleFault | LoadFailed | ClipboardFailed | TrayFailed | CursorFailed | PeerError string

datatype session_exit = ExitReplaced | ExitQuit | ExitDisconnect | ExitPair | ExitFault session_fault

datatype 's session_outcome = Continue 's | Ended session_exit

type_synonym 's prog = "nat \<Rightarrow> 's session_outcome \<times> effect list"

definition ret :: "'s \<Rightarrow> 's prog" where
  "ret s = (\<lambda>writes. (Continue s, []))"

definition stop :: "session_exit \<Rightarrow> 's prog" where
  "stop e = (\<lambda>writes. (Ended e, []))"

definition act :: "effect \<Rightarrow> 's prog \<Rightarrow> 's prog" where
  "act a k = (\<lambda>writes. case k writes of (out, acts) \<Rightarrow> (out, a # acts))"

text \<open>\<open>write(\<dots>).await?\<close> and \<open>write(\<dots>).await.ok()\<close>.\<close>

definition send :: "frame \<Rightarrow> 's prog \<Rightarrow> 's prog" where
  "send f k = (\<lambda>writes. case writes of 0 \<Rightarrow> (Ended (ExitFault ConnectionFailed), []) | Suc w \<Rightarrow> act (Send f) k w)"

definition send_lossy :: "frame \<Rightarrow> 's prog \<Rightarrow> 's prog" where
  "send_lossy f k = (\<lambda>writes. case writes of 0 \<Rightarrow> k 0 | Suc w \<Rightarrow> act (Send f) k w)"

text \<open>A write whose failure is handled by going on otherwise.\<close>

definition send_else :: "frame \<Rightarrow> 's prog \<Rightarrow> 's prog \<Rightarrow> 's prog" where
  "send_else f fail k = (\<lambda>writes. case writes of 0 \<Rightarrow> fail 0 | Suc w \<Rightarrow> act (Send f) k w)"

definition act_if :: "bool \<Rightarrow> effect \<Rightarrow> 's prog \<Rightarrow> 's prog" where
  "act_if b a k = (if b then act a k else k)"

text \<open>A call followed by \<open>?\<close>: its effect happens, and a failure ends the session.\<close>

definition attempt :: "effect \<Rightarrow> bool \<Rightarrow> session_fault \<Rightarrow> 's prog \<Rightarrow> 's prog" where
  "attempt a ok fault k = act a (if ok then k else stop (ExitFault fault))"

record session_env =
  ev_now :: instant
  ev_preflight :: "string option" \<comment> \<open>the errors of preparing and of arming the capture portal, if any\<close>
  ev_arm :: "string option"
  ev_release_ok :: bool
  ev_inject_ok :: bool
  ev_keys_up_ok :: bool
  ev_save_ok :: bool
  ev_socket :: "u16 option" \<comment> \<open>the local port of the audio socket\<close>
  ev_audio_error :: "string option"
  ev_secrets :: "bytes \<times> bytes \<times> bytes"

definition audio_state_frame :: "audio_stream_state \<Rightarrow> string option \<Rightarrow> frame" where
  "audio_state_frame state detail = FAudio (AudioState state detail)"

section \<open>Weakest preconditions\<close>

text \<open>\<open>wp P k\<close>: if the program continues, \<open>P\<close> holds of the new state and the effects. \<open>emits Q k\<close>:
  all its effects satisfy \<open>Q\<close>, also when it ends the session.\<close>

definition wp :: "('s \<Rightarrow> effect list \<Rightarrow> bool) \<Rightarrow> 's prog \<Rightarrow> bool" where
  "wp P k \<longleftrightarrow> (\<forall>w. case k w of (Continue s, acts) \<Rightarrow> P s acts | _ \<Rightarrow> True)"

definition emits :: "(effect \<Rightarrow> bool) \<Rightarrow> 's prog \<Rightarrow> bool" where
  "emits Q k \<longleftrightarrow> (\<forall>w. \<forall>a\<in>set (snd (k w)). Q a)"

lemma wp_simps [simp]:
  "wp P (ret s) = P s []"
  "wp P (stop e)"
  "wp P (act a k) = wp (\<lambda>s acts. P s (a # acts)) k"
  "wp P (act_if b a k) = (if b then wp (\<lambda>s acts. P s (a # acts)) k else wp P k)"
  "wp P (attempt a ok fault k) = (ok \<longrightarrow> wp (\<lambda>s acts. P s (a # acts)) k)"
  by (auto simp: wp_def ret_def stop_def act_def act_if_def attempt_def split: prod.splits session_outcome.splits)

lemma wp_send [simp]: "wp (\<lambda>s acts. P s (Send f # acts)) k \<Longrightarrow> wp P (send f k)"
  by (auto simp: wp_def send_def act_def split: nat.split prod.splits session_outcome.splits)

lemma wp_send_lossy [simp]: "wp (\<lambda>s acts. P s (Send f # acts)) k \<Longrightarrow> wp P k \<Longrightarrow> wp P (send_lossy f k)"
  by (auto simp: wp_def send_lossy_def act_def split: nat.split prod.splits session_outcome.splits)

lemma wp_send_else [simp]: "wp (\<lambda>s acts. P s (Send f # acts)) k \<Longrightarrow> wp P fail \<Longrightarrow> wp P (send_else f fail k)"
  by (auto simp: wp_def send_else_def act_def split: nat.split prod.splits session_outcome.splits)

lemma snd_act [simp]: "snd (act a k w) = a # snd (k w)"
  by (simp add: act_def case_prod_beta)

lemma emits_simps [simp]:
  "emits Q (ret s)"
  "emits Q (stop e)"
  "emits Q (act a k) = (Q a \<and> emits Q k)"
  "emits Q (act_if b a k) = ((b \<longrightarrow> Q a) \<and> emits Q k)"
  "emits Q (attempt a ok fault k) = (Q a \<and> (ok \<longrightarrow> emits Q k))"
  by (auto simp: emits_def ret_def stop_def act_if_def attempt_def)

lemma emits_send [simp]:
  "Q (Send f) \<Longrightarrow> emits Q k \<Longrightarrow> emits Q (send f k)"
  "Q (Send f) \<Longrightarrow> emits Q k \<Longrightarrow> emits Q (send_lossy f k)"
  by (auto simp: emits_def send_def send_lossy_def split: nat.splits)

lemma emits_send_else [simp]:
  "Q (Send f) \<Longrightarrow> emits Q k \<Longrightarrow> emits Q fail \<Longrightarrow> emits Q (send_else f fail k)"
  by (auto simp: emits_def send_else_def split: nat.splits)

lemma fst_act [simp]: "fst (act a k w) = fst (k w)" "fst (act_if b a k w) = fst (k w)"
  by (simp_all add: act_def act_if_def case_prod_beta)

lemma fst_ret [simp]: "fst (ret s w) = Continue s" "fst (stop e w) = Ended e"
  by (simp_all add: ret_def stop_def)

lemma fst_send_lossy_ret [simp]: "fst (send_lossy f (ret s) w) = Continue s"
  by (simp add: send_lossy_def split: nat.split)

section \<open>Held keys\<close>

datatype held_input = HeldKey u16 | HeldButton mouse_button

fun press :: "held_input set \<Rightarrow> effect \<Rightarrow> held_input set" where
  "press h (Inject (Key c down)) = (if down then insert (HeldKey c) h else h - {HeldKey c})"
| "press h (Inject (PointerButton b down)) = (if down then insert (HeldButton b) h else h - {HeldButton b})"
| "press h KeysUp = {}"
| "press h _ = h"

definition held :: "held_input set \<Rightarrow> effect list \<Rightarrow> held_input set" where
  "held h acts = foldl press h acts"

lemma held_simps [simp]:
  "held h [] = h" "held h (a # acts) = held (press h a) acts" "held h (xs @ ys) = held (held h xs) ys"
  by (simp_all add: held_def)

section \<open>Loops\<close>

fun loop_run ::
  "('s \<Rightarrow> 'i \<Rightarrow> 's session_outcome \<times> effect list) \<Rightarrow> 's \<Rightarrow> 'i list \<Rightarrow> 's session_outcome \<times> effect list" where
  "loop_run step s [] = (Continue s, [])"
| "loop_run step s (i # is) =
     (case step s i of
        (Continue s', acts) \<Rightarrow> (case loop_run step s' is of (out, acts') \<Rightarrow> (out, acts @ acts'))
      | (Ended e, acts) \<Rightarrow> (Ended e, acts))"

lemma loop_run_Cons:
  assumes "loop_run step s (i # is) = (Continue s', acts)"
  obtains s1 acts1 acts2 where "step s i = (Continue s1, acts1)" "loop_run step s1 is = (Continue s', acts2)"
    "acts = acts1 @ acts2"
  using assms by (auto split: prod.splits session_outcome.splits)

lemma loop_run_snoc:
  "loop_run step s (xs @ [i]) =
     (case loop_run step s xs of
        (Continue s', acts) \<Rightarrow> (case step s' i of (out, acts') \<Rightarrow> (out, acts @ acts'))
      | (Ended e, acts) \<Rightarrow> (Ended e, acts))"
  by (induction xs arbitrary: s) (auto split: prod.split session_outcome.split)

text \<open>An invariant of a session over its state and a summary of the effects so far, kept by every step.\<close>

locale session_loop =
  fixes step :: "'s \<Rightarrow> 'i \<Rightarrow> 's session_outcome \<times> effect list"
    and see :: "'h \<Rightarrow> effect \<Rightarrow> 'h"
    and inv :: "'h \<Rightarrow> 's \<Rightarrow> bool"
  assumes step_keeps: "inv h s \<Longrightarrow> step s i = (Continue s', acts) \<Longrightarrow> inv (foldl see h acts) s'"
begin

lemma run_keeps:
  assumes "inv h s" "loop_run step s is = (Continue s', acts)"
  shows "inv (foldl see h acts) s'"
  using assms
proof (induction "is" arbitrary: h s acts)
  case (Cons i "is")
  from Cons.prems(2) obtain s1 acts1 acts2 where "step s i = (Continue s1, acts1)"
    "loop_run step s1 is = (Continue s', acts2)" "acts = acts1 @ acts2"
    by (rule loop_run_Cons)
  then show ?case
    using Cons.IH [OF step_keeps [OF Cons.prems(1)]] by (metis foldl_append)
qed simp

end

end
