(* ===== verification/ReceiverSession.thy ===== *)
theory ReceiverSession
  imports SessionProgram
begin

text \<open>
  The receiver's session with a controlling computer: \<open>handle_controller\<close> of
  \<open>apps/edge-receiver-linux/src/main.rs\<close>, with
  \<open>request_connector_control_after_capture_failure\<close> and the helpers they call. Every branch of the
  loop's \<open>select!\<close> is one event, every kind of frame one handler.

  A handler is a program over \<open>effect\<close>s: what it asks of the injector, the capture portal, the audio
  tasks, the files and the connection, in order. The connection accepts a number of further writes;
  a write after that fails, and ends the session where the code says \<open>?\<close>. What the other calls return
  is in the record \<open>session_env\<close> of the step. The tray's display, log lines and counters are not
  modelled, and the clipboard's and the notification hub's own work is in their components.
\<close>

section \<open>State\<close>

record receiver =
  rv_liveness :: liveness_tracker
  rv_gate :: input_epoch_gate
  rv_ping :: heartbeat_ping
  rv_heartbeat_sequence :: u64
  rv_heartbeat_at :: instant
  rv_watcher :: return_watcher
  rv_forwarding :: bool
  rv_paused :: bool
  rv_epoch :: u64
  rv_role_state :: role_state
  rv_local_controller :: bool
  rv_capture_active :: bool
  rv_prepared :: "role_state option"
  rv_deadline :: "instant option"
  rv_capture :: bool
  rv_audio_sender :: bool
  rv_audio_receiver :: bool
  rv_audio_task :: bool
  rv_audio_generation :: u64
  rv_audio_source :: "string option"
  rv_clipboard_watched :: bool

text \<open>\<open>capture\<close> tells whether a capture backend was handed over from an earlier session.\<close>

definition receiver_start :: "session_peer \<Rightarrow> bool \<Rightarrow> bool \<Rightarrow> instant \<Rightarrow> receiver" where
  "receiver_start p capture watched now =
     \<lparr>rv_liveness = the (liveness_new liveness_config_default now), rv_gate = gate_default, rv_ping = ping_default,
      rv_heartbeat_sequence = 0, rv_heartbeat_at = now + heartbeat_interval liveness_config_default False,
      rv_watcher = watcher_new (sp_screen p), rv_forwarding = True, rv_paused = False, rv_epoch = INITIAL_ROLE_EPOCH,
      rv_role_state = \<lparr>rs_controller_fingerprint = Some (sp_peer p), rs_role_epoch = INITIAL_ROLE_EPOCH,
        rs_transition = Stable, rs_listener_position = sp_listener_position p, rs_paused = False,
        rs_failure_detail = None\<rparr>,
      rv_local_controller = False, rv_capture_active = False, rv_prepared = None, rv_deadline = None,
      rv_capture = capture, rv_audio_sender = False, rv_audio_receiver = False, rv_audio_task = False,
      rv_audio_generation = 0, rv_audio_source = None, rv_clipboard_watched = watched\<rparr>"

section \<open>Shared steps\<close>

definition input_active :: "receiver \<Rightarrow> bool" where
  "input_active s = (if rv_local_controller s then rv_capture_active s else gate_accepts_input (rv_gate s))"

definition drop_audio :: "receiver \<Rightarrow> (receiver \<Rightarrow> receiver prog) \<Rightarrow> receiver prog" where
  "drop_audio s k =
     act_if (rv_audio_sender s) StopAudioSender
       (k (s\<lparr>rv_audio_task := False, rv_audio_generation := rv_audio_generation s + 1, rv_audio_sender := False,
             rv_audio_receiver := False\<rparr>))"

definition may_capture :: "receiver \<Rightarrow> bool" where
  "may_capture s = (rv_local_controller s \<and> rv_forwarding s \<and> \<not> rv_paused s \<and> rv_capture s)"

definition request_connector_control :: "session_peer \<Rightarrow> session_env \<Rightarrow> receiver \<Rightarrow> receiver prog" where
  "request_connector_control p env s =
     send (FRole (RoleRequest (sp_peer p))) (ret (s\<lparr>rv_deadline := Some (ev_now env + ROLE_DEADLINE)\<rparr>))"

section \<open>Timers and local events\<close>

definition watchdog_tick :: "session_peer \<Rightarrow> session_env \<Rightarrow> receiver \<Rightarrow> receiver prog" where
  "watchdog_tick p env s =
     act_if (may_capture s) CaptureKeepAlive
       (let expired = (case rv_deadline s of None \<Rightarrow> False | Some d \<Rightarrow> d \<le> ev_now env);
            s1 = (if expired then s\<lparr>rv_deadline := None, rv_prepared := None\<rparr> else s)
        in act_if (expired \<and> may_capture s1) CaptureArm
             (case poll (rv_liveness s1) (ev_now env) (input_active s1) of
                (event, liveness) \<Rightarrow>
                  (let s2 = s1\<lparr>rv_liveness := liveness\<rparr> in
                   case event of
                     Some SoftInputTimeout \<Rightarrow>
                       (let s3 = s2\<lparr>rv_capture_active := False, rv_gate := gate_suspend (rv_gate s2)\<rparr>
                        in act KeysUp (act_if (rv_capture s3) (CaptureRelease None)
                             (send_lossy (frame_control (rv_epoch s3) (ReleaseToLocal HeartbeatTimeout)) (ret s3))))
                   | Some HardSessionTimeout \<Rightarrow> stop (ExitFault PeerSilent)
                   | None \<Rightarrow> ret s2)))"

definition portal_event :: "session_peer \<Rightarrow> session_env \<Rightarrow> capture_event \<Rightarrow> receiver \<Rightarrow> receiver prog" where
  "portal_event p env event s =
     (let allowed = (rv_local_controller s \<and> rv_forwarding s \<and> \<not> rv_paused s);
          keys_up = frame_input (rv_epoch s) AllKeysUp in
      case event of
        Activated e position \<Rightarrow>
          if allowed
          then send (frame_control (rv_epoch s) (EnterRemote e position)) (ret (s\<lparr>rv_capture_active := True\<rparr>))
          else ret s
      | CapturedInput input \<Rightarrow>
          if allowed then send (frame_input (rv_epoch s) input) (ret s) else ret s
      | Deactivated \<Rightarrow> send_lossy keys_up (ret (s\<lparr>rv_capture_active := False\<rparr>))
      | EmergencyReleased \<Rightarrow> send_lossy keys_up (ret (s\<lparr>rv_capture_active := False\<rparr>))
      | LayoutChanged \<Rightarrow>
          (let s1 = s\<lparr>rv_capture_active := False\<rparr> in
           case rv_prepared s1 of
             Some prepared \<Rightarrow>
               send_lossy (FRole (Ready (rs_role_epoch prepared) False True
                   (Some ''monitor layout changed during capture preflight'')))
                 (ret (s1\<lparr>rv_prepared := None, rv_deadline := None\<rparr>))
           | None \<Rightarrow>
               if may_capture s1 then attempt CaptureArm (ev_arm env = None) CaptureFailed (ret s1) else ret s1)
      | BackendFailed error \<Rightarrow>
          send_lossy keys_up
            (let s1 = s\<lparr>rv_capture_active := False, rv_capture := False\<rparr> in
             if rv_local_controller s1 \<and> role_switch_available p \<and> \<not> rv_paused s1 \<and> rv_deadline s1 = None
             then request_connector_control p env s1
             else stop (ExitFault CaptureFailed))
      | CaptureGone \<Rightarrow>
          if rv_capture s \<and> rv_local_controller s then stop (ExitFault CaptureStopped) else ret s)"

text \<open>\<open>expired\<close> is the clipboard transfer that timed out, if one did.\<close>

definition heartbeat_tick :: "session_peer \<Rightarrow> session_env \<Rightarrow> u64 option \<Rightarrow> receiver \<Rightarrow> receiver prog" where
  "heartbeat_tick p env expired s =
     (let sequence = rv_heartbeat_sequence s + 1;
          (heartbeat, ping) = outgoing (rv_ping s) sequence (ev_now env);
          s1 = s\<lparr>rv_heartbeat_sequence := sequence, rv_ping := ping,
                 rv_heartbeat_at := ev_now env +
                   heartbeat_interval liveness_config_default (input_active s \<or> rv_prepared s \<noteq> None)\<rparr>;
          beat = send (FHeartbeat heartbeat) (ret s1)
      in case expired of
           Some transfer_id \<Rightarrow> send (FClipboard (ImageCancel transfer_id TimedOut)) beat
         | None \<Rightarrow> beat)"

text \<open>Whether the audio sender and the audio receiver report that they finished.\<close>

definition status_tick :: "bool \<Rightarrow> string option \<Rightarrow> receiver \<Rightarrow> receiver prog" where
  "status_tick sender_finished receiver_failure s =
     (let check_receiver = (\<lambda>s. case receiver_failure of
            Some failure \<Rightarrow>
              if rv_audio_receiver s
              then send_lossy (FAudio (AudioState AudioError (Some failure))) (ret (s\<lparr>rv_audio_receiver := False\<rparr>))
              else ret s
          | None \<Rightarrow> ret s)
      in if rv_audio_sender s \<and> sender_finished
         then act StopAudioSender
           (send_lossy (FAudio (AudioState AudioError (Some ''Linux audio capture stopped unexpectedly'')))
             (check_receiver (s\<lparr>rv_audio_sender := False\<rparr>)))
         else check_receiver s)"

definition audio_started :: "u64 \<Rightarrow> string option \<Rightarrow> receiver \<Rightarrow> receiver prog" where
  "audio_started generation error s =
     (if \<not> rv_audio_task s then ret s
      else if generation \<noteq> rv_audio_generation s
      then act_if (error = None) StopAudioSender (ret s)
      else (let s1 = s\<lparr>rv_audio_task := False\<rparr> in
            case error of
              None \<Rightarrow> send (FAudio (AudioState AudioStreaming None)) (ret (s1\<lparr>rv_audio_sender := True\<rparr>))
            | Some detail \<Rightarrow> send (FAudio (AudioState AudioError (Some detail))) (ret s1)))"

definition tray_disconnect :: "session_peer \<Rightarrow> receiver \<Rightarrow> receiver prog" where
  "tray_disconnect p s =
     (if sp_role_switch p
      then drop_audio (s\<lparr>rv_paused := True\<rparr>)
        (\<lambda>s1. act KeysUp (act_if (rv_capture s1) (CaptureRelease None) (act_if (rv_capture s1) CaptureDisarm
           (send (FRole (SetPaused True)) (ret s1)))))
      else act_if (rv_audio_sender s) StopAudioSender
        (act KeysUp (send_lossy (frame_control (rv_epoch s) (ReleaseToLocal UserRequest)) (stop ExitDisconnect))))"

definition tray_reconnect :: "session_peer \<Rightarrow> session_env \<Rightarrow> receiver \<Rightarrow> receiver prog" where
  "tray_reconnect p env s =
     (if sp_role_switch p
      then (let s1 = s\<lparr>rv_paused := False\<rparr>
            in send (FRole (SetPaused False))
                 (if rv_local_controller s1 \<and> rv_forwarding s1 \<and> rv_capture s1
                  then attempt CaptureArm (ev_arm env = None) CaptureFailed (ret s1) else ret s1))
      else ret s)"

definition tray_set_controller :: "session_peer \<Rightarrow> session_env \<Rightarrow> controller_choice \<Rightarrow> receiver \<Rightarrow> receiver prog" where
  "tray_set_controller p env choice s =
     (let requested = (case choice of ChooseLocal \<Rightarrow> sp_local p | ChoosePeer \<Rightarrow> sp_peer p)
      in if rv_paused s \<or> \<not> role_switch_available p then ret s
         else if rv_prepared s = None \<and> rv_deadline s = None \<and>
                 rs_controller_fingerprint (rv_role_state s) \<noteq> Some requested
         then send (FRole (RoleRequest requested)) (ret (s\<lparr>rv_deadline := Some (ev_now env + ROLE_DEADLINE)\<rparr>))
         else ret s)"

definition tray_toggle_forwarding :: "session_peer \<Rightarrow> session_env \<Rightarrow> receiver \<Rightarrow> receiver prog" where
  "tray_toggle_forwarding p env s =
     (if rv_prepared s \<noteq> None then ret s
      else (let enabled = (\<not> rv_forwarding s);
                s1 = s\<lparr>rv_forwarding := enabled\<rparr>;
                announce = (\<lambda>s.
                  if sp_input_toggle p then send (frame_control (rv_epoch s) (SetInputForwarding enabled)) (ret s)
                  else if \<not> enabled
                  then send (frame_control (rv_epoch s) (ReleaseToLocal BackendFailure)) (ret s)
                  else ret s)
            in if \<not> enabled
               then act KeysUp (act_if (rv_capture s1) CaptureReleaseAndDisarm
                 (announce (s1\<lparr>rv_watcher := watcher_record_control (SetInputForwarding False) (rv_watcher s1)\<rparr>)))
               else if rv_local_controller s1 \<and> rv_capture s1
               then attempt CaptureArm (ev_arm env = None) CaptureFailed (announce s1)
               else announce s1))"

definition tray_set_audio :: "session_peer \<Rightarrow> audio_choice \<Rightarrow> receiver \<Rightarrow> receiver prog" where
  "tray_set_audio p choice s =
     (let source = (case choice of
            AudioOff \<Rightarrow> Some None
          | AudioLocal \<Rightarrow> if sp_audio_playback p then Some (Some (sp_local p)) else None
          | AudioPeer \<Rightarrow> if sp_audio_capture p \<and> sp_audio_route p then Some (Some (sp_peer p)) else None)
      in case source of
           None \<Rightarrow> ret s
         | Some src \<Rightarrow>
             send (FAudio (if sp_audio_route p then RequestRoute src
                           else SetEnabled (src = Some (sp_local p)))) (ret s))"

fun tray_event :: "session_peer \<Rightarrow> session_env \<Rightarrow> tray_command \<Rightarrow> receiver \<Rightarrow> receiver prog" where
  "tray_event p env OpenSettings s = ret s"
| "tray_event p env AddPhone s = ret s"
| "tray_event p env ArmPairing s = ret s"
| "tray_event p env TrayQuit s = act_if (rv_audio_sender s) StopAudioSender (stop ExitQuit)"
| "tray_event p env Disconnect s = tray_disconnect p s"
| "tray_event p env Reconnect s = tray_reconnect p env s"
| "tray_event p env (SetController choice) s = tray_set_controller p env choice s"
| "tray_event p env ToggleInputForwarding s = tray_toggle_forwarding p env s"
| "tray_event p env (SetAudio choice) s = tray_set_audio p choice s"

text \<open>The watcher's report: generation and the control to send.\<close>

definition return_release :: "u64 \<Rightarrow> control_event \<Rightarrow> receiver \<Rightarrow> receiver prog" where
  "return_release generation control s =
     (if \<not> watcher_accepts (rv_watcher s) generation then ret s
      else if rv_local_controller s \<or> \<not> rv_forwarding s \<or> rv_paused s \<or> \<not> gate_accepts_input (rv_gate s)
      then ret (s\<lparr>rv_watcher := watcher_retry_release (rv_watcher s)\<rparr>)
      else (let s1 = s\<lparr>rv_watcher := watcher_disarm (rv_watcher s), rv_gate := gate_suspend (rv_gate s)\<rparr>
            in act KeysUp (send (frame_control (rv_epoch s1) control) (ret s1))))"

section \<open>Frames\<close>

definition handle_input :: "session_env \<Rightarrow> input_frame \<Rightarrow> receiver \<Rightarrow> receiver prog" where
  "handle_input env input s =
     (if if_role_epoch input \<noteq> rv_epoch s then ret s
      else if rv_paused s \<or> rv_local_controller s then ret s
      else if if_event input = AllKeysUp then attempt KeysUp (ev_keys_up_ok env) InjectorFailed (ret s)
      else if \<not> rv_forwarding s then ret s
      else if \<not> gate_accepts_input (rv_gate s) then ret s
      else attempt (Inject (if_event input)) (ev_inject_ok env) InjectorFailed
        (ret (case if_event input of
                PointerMotion _ _ \<Rightarrow> s\<lparr>rv_watcher := watcher_note_motion (rv_watcher s)\<rparr>
              | _ \<Rightarrow> s)))"

definition should_release_legacy_controller :: "bool \<Rightarrow> bool \<Rightarrow> control_event \<Rightarrow> bool" where
  "should_release_legacy_controller forwarding supports_toggle control =
     (\<not> forwarding \<and> \<not> supports_toggle \<and> is_enter_remote control)"

definition handle_forwarding :: "session_peer \<Rightarrow> session_env \<Rightarrow> bool \<Rightarrow> receiver \<Rightarrow> receiver prog" where
  "handle_forwarding p env enabled s =
     (if \<not> sp_input_toggle p then ret s
      else (let s1 = s\<lparr>rv_forwarding := enabled\<rparr>;
                watch = (\<lambda>s. ret (s\<lparr>rv_watcher := watcher_record_control (SetInputForwarding enabled) (rv_watcher s)\<rparr>))
            in if \<not> enabled
               then act KeysUp (act_if (rv_capture s1) CaptureReleaseAndDisarm
                 (watch (s1\<lparr>rv_capture_active := False, rv_gate := gate_suspend (rv_gate s1)\<rparr>)))
               else if rv_local_controller s1 \<and> rv_capture s1
               then attempt CaptureArm (ev_arm env = None) CaptureFailed (watch s1)
               else watch s1))"

text \<open>The cursor of a release is \<open>linux_release_cursor\<close> of the edge and position, if the screen is known.\<close>

definition handle_control :: "session_peer \<Rightarrow> session_env \<Rightarrow> control_frame \<Rightarrow> receiver \<Rightarrow> receiver prog" where
  "handle_control p env control s =
     (if cf_role_epoch control \<noteq> rv_epoch s then ret s
      else (case cf_event control of
              SetInputForwarding enabled \<Rightarrow> handle_forwarding p env enabled s
            | event \<Rightarrow>
                if rv_local_controller s
                then (case event of
                        LeaveRemote e position \<Rightarrow>
                          (let s1 = s\<lparr>rv_capture_active := False\<rparr>
                           in send (frame_input (rv_epoch s1) AllKeysUp)
                                (if rv_capture s1
                                 then attempt (CaptureRelease
                                     (case sp_screen p of
                                        Some i \<Rightarrow> if si_outputs i \<noteq> [] then Some (e, position) else None
                                      | None \<Rightarrow> None)) (ev_release_ok env) CaptureFailed (ret s1)
                                 else ret s1))
                      | ReleaseToLocal _ \<Rightarrow>
                          (let s1 = s\<lparr>rv_capture_active := False\<rparr>
                           in if rv_capture s1
                              then attempt (CaptureRelease None) (ev_release_ok env) CaptureFailed (ret s1)
                              else ret s1)
                      | _ \<Rightarrow> ret s)
                else (let s1 = s\<lparr>rv_gate := gate_observe_control (rv_gate s) event,
                                 rv_watcher := watcher_record_control event (rv_watcher s)\<rparr>
                      in if should_release_legacy_controller (rv_forwarding s1) (sp_input_toggle p) event
                         then send (frame_control (rv_epoch s1) (ReleaseToLocal BackendFailure)) (ret s1)
                         else ret s1)))"

definition handle_audio_start ::
  "session_peer \<Rightarrow> u16 \<Rightarrow> bytes \<Rightarrow> bytes \<Rightarrow> bytes \<Rightarrow> audio_codec \<Rightarrow> u16 \<Rightarrow> receiver \<Rightarrow> receiver prog" where
  "handle_audio_start p udp_port session_id session_salt session_key codec frame_ms s =
     (if rv_audio_source s \<noteq> Some (sp_local p) then ret s
      else if udp_port = 0 \<or> codec \<noteq> PcmS16Stereo48Khz \<or> frame_ms \<noteq> FRAME_MS
      then send (audio_state_frame AudioError (Some ''unsupported audio format'')) (ret s)
      else act_if (rv_audio_sender s) StopAudioSender
        (let generation = rv_audio_generation s + 1;
             s1 = s\<lparr>rv_audio_sender := False, rv_audio_generation := generation\<rparr>
         in send (audio_state_frame AudioWaitingForUdp None)
              (act (StartAudioTask generation session_id session_salt session_key udp_port)
                (ret (s1\<lparr>rv_audio_task := True\<rparr>)))))"

definition offer_audio :: "session_env \<Rightarrow> receiver \<Rightarrow> receiver prog" where
  "offer_audio env s =
     (case ev_socket env of
        None \<Rightarrow> stop (ExitFault NoSocket)
      | Some port \<Rightarrow> send (FAudio (Offer port [PcmS16Stereo48Khz])) (ret s))"

definition handle_set_route :: "session_peer \<Rightarrow> session_env \<Rightarrow> string option \<Rightarrow> receiver \<Rightarrow> receiver prog" where
  "handle_set_route p env source s =
     (let valid = (case source of
            None \<Rightarrow> True
          | Some fp \<Rightarrow> fp = sp_local p \<and> sp_audio_playback p \<or>
                       fp = sp_peer p \<and> sp_audio_capture p \<and> sp_audio_route p)
      in if \<not> valid then stop (ExitFault UnsupportedRoute)
         else drop_audio (s\<lparr>rv_audio_source := source\<rparr>)
           (\<lambda>s1. if source = Some (sp_local p) \<and> \<not> rv_paused s1 then offer_audio env s1
                 else if source = None then send (audio_state_frame AudioDisabled None) (ret s1)
                 else ret s1))"

definition handle_audio_offer :: "session_peer \<Rightarrow> session_env \<Rightarrow> u16 \<Rightarrow> audio_codec list \<Rightarrow> receiver \<Rightarrow> receiver prog" where
  "handle_audio_offer p env udp_port codecs s =
     (if rv_audio_source s \<noteq> Some (sp_peer p) \<or> PcmS16Stereo48Khz \<notin> set codecs then ret s
      else (case ev_socket env of
              None \<Rightarrow> stop (ExitFault NoSocket)
            | Some port \<Rightarrow>
                (case ev_secrets env of (session_id, session_salt, session_key) \<Rightarrow>
                   send (FAudio (Start port session_id session_salt session_key PcmS16Stereo48Khz FRAME_MS
                       (sp_jitter_target_ms p)))
                     (act (StartAudioReceiver udp_port)
                       (case ev_audio_error env of
                          None \<Rightarrow> send (audio_state_frame AudioStreaming None) (ret (s\<lparr>rv_audio_receiver := True\<rparr>))
                        | Some e \<Rightarrow> send (audio_state_frame AudioError (Some e)) (ret s))))))"

fun handle_audio :: "session_peer \<Rightarrow> session_env \<Rightarrow> audio_control \<Rightarrow> receiver \<Rightarrow> receiver prog" where
  "handle_audio p env (Start udp_port session_id session_salt session_key codec frame_ms jitter) s =
     handle_audio_start p udp_port session_id session_salt session_key codec frame_ms s"
| "handle_audio p env (SetRoute source) s = handle_set_route p env source s"
| "handle_audio p env (Stop reason) s = drop_audio s (\<lambda>s1. send (audio_state_frame AudioDisabled None) (ret s1))"
| "handle_audio p env (Offer udp_port codecs) s = handle_audio_offer p env udp_port codecs s"
| "handle_audio p env (RequestRoute source) s = ret s"
| "handle_audio p env (SetEnabled enabled) s =
     drop_audio (s\<lparr>rv_audio_source := (if enabled then Some (sp_local p) else None)\<rparr>)
       (\<lambda>s1. if enabled \<and> \<not> rv_paused s1 then offer_audio env s1
             else send (audio_state_frame AudioDisabled None) (ret s1))"
| "handle_audio p env (AudioState state detail) s = ret s"

section \<open>Roles\<close>

definition foreign_controller :: "session_peer \<Rightarrow> role_state \<Rightarrow> bool" where
  "foreign_controller p state =
     (case rs_controller_fingerprint state of None \<Rightarrow> False | Some c \<Rightarrow> c \<noteq> sp_peer p \<and> c \<noteq> sp_local p)"

definition finish_session_state ::
  "session_peer \<Rightarrow> session_env \<Rightarrow> role_state \<Rightarrow> string option \<Rightarrow> receiver \<Rightarrow> receiver prog" where
  "finish_session_state p env state capture_failure s =
     (let suspended = (rs_paused state \<or> rs_controller_fingerprint state = None);
          s1 = (if suspended then s\<lparr>rv_gate := gate_suspend (rv_gate s)\<rparr> else s);
          s2 = s1\<lparr>rv_role_state := state, rv_capture_active := False, rv_prepared := None, rv_deadline := None\<rparr>;
          remember = act (RememberPosition (rs_listener_position state));
          finish = (case capture_failure of
              Some error \<Rightarrow>
                if role_switch_available p \<and> \<not> rv_paused s2
                then send (FRole (RoleRequest (sp_peer p)))
                  (remember (ret (s2\<lparr>rv_deadline := Some (ev_now env + ROLE_DEADLINE)\<rparr>)))
                else remember (ret s2)
            | None \<Rightarrow> remember (ret s2))
      in act_if suspended KeysUp
           (case rs_controller_fingerprint state of
              Some controller \<Rightarrow> attempt (SaveRole controller) (ev_save_ok env) SaveFailed finish
            | None \<Rightarrow> finish))"

definition handle_session_state :: "session_peer \<Rightarrow> session_env \<Rightarrow> role_state \<Rightarrow> receiver \<Rightarrow> receiver prog" where
  "handle_session_state p env state s =
     (if foreign_controller p state then stop (ExitFault ForeignController)
      else if rs_role_epoch state = 0 \<or> rs_transition state \<noteq> Stable then stop (ExitFault InvalidEpoch)
      else (let s1 = s\<lparr>rv_epoch := rs_role_epoch state, rv_paused := rs_paused state,
                       rv_local_controller := (rs_controller_fingerprint state = Some (sp_local p))\<rparr>
            in if rv_local_controller s1
               then act KeysUp
                 (let preflight_failed = (\<not> rv_capture s1 \<and> ev_preflight env \<noteq> None);
                      s2 = s1\<lparr>rv_capture := (rv_capture s1 \<or> \<not> preflight_failed)\<rparr>;
                      arms = (rv_forwarding s2 \<and> \<not> rv_paused s2 \<and> rv_capture s2);
                      failure = (if preflight_failed then ev_preflight env else if arms then ev_arm env else None);
                      s3 = (if failure \<noteq> None then s2\<lparr>rv_capture := False\<rparr> else s2)
                  in act_if (\<not> rv_capture s1) (CapturePreflight (opposite_edge (rs_listener_position state)))
                       (act_if arms CaptureArm (finish_session_state p env state failure s3)))
               else act_if (rv_capture s1) (CaptureRelease None) (act_if (rv_capture s1) CaptureDisarm
                      (finish_session_state p env state None s1))))"

definition handle_prepare :: "session_peer \<Rightarrow> session_env \<Rightarrow> role_state \<Rightarrow> receiver \<Rightarrow> receiver prog" where
  "handle_prepare p env proposal s =
     (if rv_paused s \<or> \<not> role_switch_available p
      then send (FRole (Ready (rs_role_epoch proposal) False False
             (Some ''role switching is unavailable while this session is paused''))) (ret s)
      else if \<not> is_ok (validate_prepare (rv_role_state s) proposal (sp_peer p) (sp_local p)) then ret s
      else (let preflights = (rs_controller_fingerprint proposal = Some (sp_local p) \<and> \<not> rv_capture s);
                capture_ready = (\<not> preflights \<or> ev_preflight env = None);
                detail = (if capture_ready then None
                          else Some (''listener capture preflight failed: '' @ the (ev_preflight env)));
                ready = (\<lambda>s. act_if preflights (CapturePreflight (opposite_edge (rs_listener_position proposal)))
                  (send (FRole (Ready (rs_role_epoch proposal) capture_ready True detail))
                    (ret (s\<lparr>rv_capture := (rv_capture s \<or> preflights \<and> capture_ready),
                            rv_prepared := Some proposal,
                            rv_deadline := Some (ev_now env + ROLE_DEADLINE)\<rparr>))))
            in if rv_local_controller s
               then act_if (rv_capture s) (CaptureRelease None) (act_if (rv_capture s) CaptureDisarm
                 (send_lossy (frame_input (rv_epoch s) AllKeysUp) (ready (s\<lparr>rv_capture_active := False\<rparr>))))
               else act KeysUp (ready (s\<lparr>rv_gate := gate_suspend (rv_gate s)\<rparr>))))"

definition handle_commit :: "session_peer \<Rightarrow> session_env \<Rightarrow> role_state \<Rightarrow> receiver \<Rightarrow> receiver prog" where
  "handle_commit p env commit s =
     (case rv_prepared s of
        None \<Rightarrow> stop (ExitFault NoPrepare)
      | Some prepared \<Rightarrow>
          if \<not> is_ok (validate_commit prepared commit) then ret s
          else (case rs_controller_fingerprint commit of
                  None \<Rightarrow> stop (ExitFault NoPrepare)
                | Some controller \<Rightarrow>
                    (let s1 = s\<lparr>rv_epoch := rs_role_epoch commit,
                                rv_local_controller := (controller = sp_local p), rv_capture_active := False,
                                rv_role_state := commit, rv_prepared := None, rv_deadline := None,
                                rv_gate := gate_suspend (rv_gate s)\<rparr>;
                         apply = attempt (SaveRole controller) (ev_save_ok env) SaveFailed
                           (send (FRole (Applied (rv_epoch s1))) (ret s1))
                     in act KeysUp
                          (if \<not> may_capture s1 then apply
                           else act CaptureArm
                             (case ev_arm env of
                                None \<Rightarrow> apply
                              | Some error \<Rightarrow>
                                  (let s2 = s1\<lparr>rv_capture := False\<rparr>
                                   in if role_switch_available p \<and> \<not> rv_paused s2
                                      then request_connector_control p env s2
                                      else stop (ExitFault CaptureFailed)))))))"

definition handle_abort :: "session_peer \<Rightarrow> session_env \<Rightarrow> role_state \<Rightarrow> receiver \<Rightarrow> receiver prog" where
  "handle_abort p env aborted s =
     (if rv_prepared s = None then ret s
      else if rs_role_epoch aborted \<noteq> rs_role_epoch (rv_role_state s) \<or>
              rs_controller_fingerprint aborted \<noteq> rs_controller_fingerprint (rv_role_state s)
      then ret s
      else (let s1 = s\<lparr>rv_prepared := None, rv_deadline := None\<rparr>
            in if may_capture s1 then attempt CaptureArm (ev_arm env = None) CaptureFailed (ret s1) else ret s1))"

definition handle_set_paused :: "session_env \<Rightarrow> bool \<Rightarrow> receiver \<Rightarrow> receiver prog" where
  "handle_set_paused env paused s =
     (let s1 = s\<lparr>rv_paused := paused\<rparr>
      in if paused
         then drop_audio (s1\<lparr>rv_capture_active := False\<rparr>)
           (\<lambda>s2. act KeysUp (act_if (rv_capture s2) CaptureReleaseAndDisarm
              (ret (s2\<lparr>rv_gate := gate_suspend (rv_gate s2)\<rparr>))))
         else if rv_local_controller s1 \<and> rv_capture s1
         then attempt CaptureArm (ev_arm env = None) CaptureFailed (ret s1)
         else ret s1)"

fun handle_role :: "session_peer \<Rightarrow> session_env \<Rightarrow> role_event \<Rightarrow> receiver \<Rightarrow> receiver prog" where
  "handle_role p env (SessionState state) s = handle_session_state p env state s"
| "handle_role p env (Prepare proposal) s = handle_prepare p env proposal s"
| "handle_role p env (Commit commit) s = handle_commit p env commit s"
| "handle_role p env (Abort aborted) s = handle_abort p env aborted s"
| "handle_role p env (SetPaused paused) s = handle_set_paused env paused s"
| "handle_role p env (RoleRequest fp) s = ret s"
| "handle_role p env (Ready epoch capture inject detail) s = ret s"
| "handle_role p env (Applied epoch) s = ret s"

text \<open>Every frame counts as a sign of life.\<close>

fun handle_frame :: "session_peer \<Rightarrow> session_env \<Rightarrow> frame \<Rightarrow> receiver \<Rightarrow> receiver prog" where
  "handle_frame p env (FNotificationSync event) s = act (HandleNotification event) (ret s)"
| "handle_frame p env (FInput input) s = handle_input env input s"
| "handle_frame p env (FClipboard event) s = (if rv_paused s then ret s else act (HandleClipboard event) (ret s))"
| "handle_frame p env (FHeartbeat heartbeat) s =
     (case incoming (rv_ping s) heartbeat (ev_now env) of
        (Some echo, ping) \<Rightarrow> send (FHeartbeat echo) (ret (s\<lparr>rv_ping := ping\<rparr>))
      | (None, ping) \<Rightarrow> ret (s\<lparr>rv_ping := ping\<rparr>))"
| "handle_frame p env (FControl control) s = handle_control p env control s"
| "handle_frame p env (FAudio control) s = handle_audio p env control s"
| "handle_frame p env (FRole event) s = handle_role p env event s"
| "handle_frame p env _ s = ret s"

section \<open>The loop\<close>

datatype session_event =
    WatchdogTick
  | PortalEvent capture_event
  | HeartbeatTick "u64 option"
  | StatusTick bool "string option"
  | AudioStarted u64 "string option"
  | ReplacedBy
  | TrayEvent tray_command
  | ClipboardChanged
  | ClipboardHubStopped
  | ClipboardRead
  | ChunkTick bool \<comment> \<open>whether a transfer is going out\<close>
  | ReturnReport u64 control_event
  | NotificationOut notification_sync
  | FrameIn frame
  | FrameEnd

fun session_program :: "session_peer \<Rightarrow> session_env \<Rightarrow> session_event \<Rightarrow> receiver \<Rightarrow> receiver prog" where
  "session_program p env WatchdogTick s = watchdog_tick p env s"
| "session_program p env (PortalEvent event) s = portal_event p env event s"
| "session_program p env (HeartbeatTick expired) s = heartbeat_tick p env expired s"
| "session_program p env (StatusTick finished failure) s = status_tick finished failure s"
| "session_program p env (AudioStarted generation error) s = audio_started generation error s"
| "session_program p env ReplacedBy s = act_if (rv_audio_sender s) StopAudioSender (stop ExitReplaced)"
| "session_program p env (TrayEvent command) s = tray_event p env command s"
| "session_program p env ClipboardChanged s =
     (if rv_clipboard_watched s \<and> \<not> rv_paused s then act RequestClipboardRead (ret s) else ret s)"
| "session_program p env ClipboardHubStopped s = ret (s\<lparr>rv_clipboard_watched := False\<rparr>)"
| "session_program p env ClipboardRead s = (if rv_paused s then ret s else act OfferClipboard (ret s))"
| "session_program p env (ChunkTick sending) s =
     (if \<not> rv_paused s \<and> sending then act SendClipboardChunk (ret s) else ret s)"
| "session_program p env (ReturnReport generation control) s = return_release generation control s"
| "session_program p env (NotificationOut event) s = send (FNotificationSync event) (ret s)"
| "session_program p env (FrameIn frame) s =
     handle_frame p env frame (s\<lparr>rv_liveness := observe_authenticated_frame (rv_liveness s) (ev_now env)\<rparr>)"
| "session_program p env FrameEnd s = stop (ExitFault ReaderEnded)"

text \<open>One iteration: the environment of the step, how many writes still succeed, and the event.\<close>

type_synonym session_input = "session_env \<times> nat \<times> session_event"

definition session_step :: "session_peer \<Rightarrow> receiver \<Rightarrow> session_input \<Rightarrow> receiver session_outcome \<times> effect list" where
  "session_step p s i = session_program p (fst i) (snd (snd i)) s (fst (snd i))"

fun session_run :: "session_peer \<Rightarrow> receiver \<Rightarrow> session_input list \<Rightarrow> receiver session_outcome \<times> effect list" where
  "session_run p s [] = (Continue s, [])"
| "session_run p s (i # is) =
     (case session_step p s i of
        (Continue s', acts) \<Rightarrow> (case session_run p s' is of (out, acts') \<Rightarrow> (out, acts @ acts'))
      | (Ended e, acts) \<Rightarrow> (Ended e, acts))"

text \<open>What the receiver does when a session ended; \<open>capture\<close> tells whether a capture backend is left.\<close>

definition session_cleanup :: "session_exit \<Rightarrow> bool \<Rightarrow> effect list" where
  "session_cleanup e capture =
     (if e \<noteq> ExitQuit \<and> capture then [CaptureRelease None, CaptureDisarm] else []) @ [KeysUp]"

end
