(* ===== verification/ReceiverSafety.thy ===== *)
theory ReceiverSafety
  imports ReceiverSession
begin

text \<open>
  What holds of the receiver's session: a calculus of weakest preconditions over its programs, the
  invariants of every iteration, and the properties of whole sessions.
\<close>

named_theorems session_defs \<open>the handlers of the session\<close>

lemmas [session_defs] = watchdog_tick_def portal_event_def heartbeat_tick_def status_tick_def audio_started_def
  tray_disconnect_def tray_reconnect_def tray_set_controller_def tray_toggle_forwarding_def tray_set_audio_def
  return_release_def handle_input_def handle_forwarding_def handle_control_def audio_state_frame_def
  handle_audio_start_def offer_audio_def handle_set_route_def handle_audio_offer_def finish_session_state_def
  handle_session_state_def handle_prepare_def handle_commit_def handle_abort_def handle_set_paused_def
  drop_audio_def request_connector_control_def may_capture_def

section \<open>Steps\<close>

lemma wp_step:
  assumes "wp P (session_program p (fst i) (snd (snd i)) s)" "session_step p s i = (Continue s', acts)"
  shows "P s' acts"
  using assms by (auto simp: wp_def session_step_def dest: spec [of _ "fst (snd i)"])

section \<open>Held keys\<close>

text \<open>Nothing of the peer's input is accepted.\<close>

definition blocked :: "receiver \<Rightarrow> bool" where
  "blocked s \<longleftrightarrow> rv_paused s \<or> rv_local_controller s \<or> \<not> rv_forwarding s \<or> ig_suspended (rv_gate s)"

definition no_stuck :: "held_input set \<Rightarrow> receiver \<Rightarrow> effect list \<Rightarrow> bool" where
  "no_stuck h s acts \<longleftrightarrow> (blocked s \<longrightarrow> held h acts = {})"

lemmas gate_defs = gate_suspend_def gate_accepts_input_def gate_observe_control_def

lemma wp_timers_no_stuck:
  assumes "no_stuck h s []"
  shows "wp (no_stuck h) (watchdog_tick p env s)" "wp (no_stuck h) (portal_event p env event s)"
    "wp (no_stuck h) (heartbeat_tick p env expired s)" "wp (no_stuck h) (status_tick finished failure s)"
    "wp (no_stuck h) (audio_started generation error s)" "wp (no_stuck h) (return_release g control s)"
  using assms
  by (simp_all add: session_defs no_stuck_def blocked_def gate_defs Let_def case_prod_beta
      split: option.split liveness_event.split capture_event.split)

lemma wp_tray_no_stuck:
  assumes "no_stuck h s []"
  shows "wp (no_stuck h) (tray_event p env command s)"
  using assms
  by (cases command) (simp_all add: session_defs no_stuck_def blocked_def gate_defs Let_def split: option.split)

lemma wp_input_no_stuck:
  assumes "no_stuck h s []"
  shows "wp (no_stuck h) (handle_input env input s)"
  using assms
  by (simp add: session_defs no_stuck_def blocked_def gate_defs split: input_event.split)

lemma wp_control_no_stuck:
  assumes "no_stuck h s []"
  shows "wp (no_stuck h) (handle_control p env control s)"
  using assms
  by (simp add: session_defs no_stuck_def blocked_def gate_defs Let_def split: control_event.split option.split)

lemma wp_audio_no_stuck:
  assumes "no_stuck h s []"
  shows "wp (no_stuck h) (handle_audio p env control s)"
  using assms
  by (cases control)
    (simp_all add: session_defs no_stuck_def blocked_def Let_def split: option.split prod.split)

lemma wp_role_no_stuck:
  assumes "no_stuck h s []"
  shows "wp (no_stuck h) (handle_role p env event s)"
  using assms
  by (cases event)
    (simp_all add: session_defs no_stuck_def blocked_def gate_defs Let_def split: option.split)

lemma wp_frame_no_stuck:
  assumes "no_stuck h s []"
  shows "wp (no_stuck h) (handle_frame p env frame s)"
proof (cases frame)
  case (FHeartbeat hb)
  then show ?thesis
    using assms by (simp add: no_stuck_def blocked_def split: prod.split option.split)
qed (use assms wp_input_no_stuck wp_control_no_stuck wp_audio_no_stuck wp_role_no_stuck in
  \<open>simp_all add: no_stuck_def\<close>)

lemma wp_session_no_stuck:
  assumes "no_stuck h s []"
  shows "wp (no_stuck h) (session_program p env event s)"
proof (cases event)
  case (FrameIn frame)
  have "no_stuck h (s\<lparr>rv_liveness := observe_authenticated_frame (rv_liveness s) (ev_now env)\<rparr>) []"
    using assms by (simp add: no_stuck_def blocked_def)
  from wp_frame_no_stuck [OF this] show ?thesis
    by (simp add: FrameIn)
qed (use assms wp_timers_no_stuck [OF assms] wp_tray_no_stuck [OF assms] in
  \<open>simp_all add: no_stuck_def blocked_def\<close>)

section \<open>Roles\<close>

text \<open>The epoch and the controlling side always match the adopted role state.\<close>

definition role_agrees :: "session_peer \<Rightarrow> receiver \<Rightarrow> bool" where
  "role_agrees p s \<longleftrightarrow>
     rv_epoch s = rs_role_epoch (rv_role_state s) \<and>
     rv_local_controller s = (rs_controller_fingerprint (rv_role_state s) = Some (sp_local p))"

lemma validate_commit_parts:
  assumes "is_ok (validate_commit prepared commit)"
  shows "rs_transition commit = Stable"
  using assms by (auto simp: validate_commit_def split: if_splits)

lemma wp_role_role_agrees:
  assumes "role_agrees p s"
  shows "wp (\<lambda>s' _. role_agrees p s') (handle_role p env event s)"
  using assms
  by (cases event) (auto simp: session_defs role_agrees_def Let_def split: option.splits)

lemma wp_role_agrees:
  assumes "role_agrees p s"
  shows "wp (\<lambda>s' _. role_agrees p s') (session_program p env event s)"
proof (cases event)
  case (FrameIn frame)
  let ?s = "s\<lparr>rv_liveness := observe_authenticated_frame (rv_liveness s) (ev_now env)\<rparr>"
  have s: "role_agrees p ?s"
    using assms by (simp add: role_agrees_def)
  show ?thesis
  proof (cases frame)
    case (FRole e)
    then show ?thesis
      using wp_role_role_agrees [OF s] by (simp add: FrameIn)
  next
    case (FAudio control)
    then show ?thesis
      using s by (cases control)
        (simp_all add: FrameIn session_defs role_agrees_def Let_def split: option.split prod.split)
  next
    case (FControl control)
    then show ?thesis
      using s by (simp add: FrameIn session_defs role_agrees_def Let_def split: control_event.split option.split)
  next
    case (FInput input)
    then show ?thesis
      using s by (simp add: FrameIn session_defs role_agrees_def split: input_event.split)
  next
    case (FHeartbeat hb)
    then show ?thesis
      using s by (simp add: FrameIn role_agrees_def split: prod.split option.split)
  qed (use s in \<open>simp_all add: FrameIn role_agrees_def\<close>)
next
  case (TrayEvent command)
  then show ?thesis
    using assms by (cases command) (simp_all add: session_defs role_agrees_def Let_def split: option.split)
qed (use assms in \<open>simp_all add: session_defs role_agrees_def Let_def case_prod_beta
  split: option.split liveness_event.split capture_event.split\<close>)

section \<open>The watchdog\<close>

text \<open>The tracker keeps its configuration and has not reported a hard timeout while the session lasts.\<close>

definition watchdog_ok :: "instant \<Rightarrow> receiver \<Rightarrow> bool" where
  "watchdog_ok t s \<longleftrightarrow>
     lt_config (rv_liveness s) = liveness_config_default \<and> lt_last_activity (rv_liveness s) = t \<and>
     \<not> lt_hard_reported (rv_liveness s)"

fun heard :: "instant \<Rightarrow> session_env \<Rightarrow> session_event \<Rightarrow> instant" where
  "heard t env (FrameIn frame) = ev_now env"
| "heard t env _ = t"

text \<open>\<open>unheard s\<close>: the program leaves the tracker of \<open>s\<close> alone.\<close>

definition unheard :: "receiver \<Rightarrow> receiver \<Rightarrow> effect list \<Rightarrow> bool" where
  "unheard s s' acts \<longleftrightarrow> rv_liveness s' = rv_liveness s"

lemma unheard_act [simp]: "unheard s s' (a # acts) = unheard s s' acts"
  by (simp add: unheard_def)

lemma wp_frame_unheard: "wp (unheard s) (handle_frame p env frame s)"
proof (cases frame)
  case (FRole e)
  then show ?thesis
    by (cases e) (simp_all add: session_defs unheard_def Let_def split: option.split)
next
  case (FAudio control)
  then show ?thesis
    by (cases control) (simp_all add: session_defs unheard_def Let_def split: option.split prod.split)
next
  case (FControl control)
  then show ?thesis
    by (simp add: session_defs unheard_def Let_def split: control_event.split option.split)
next
  case (FInput input)
  then show ?thesis
    by (simp add: session_defs unheard_def split: input_event.split)
next
  case (FHeartbeat hb)
  then show ?thesis
    by (simp add: unheard_def split: prod.split option.split)
qed (simp_all add: unheard_def)

lemma wp_local_unheard:
  assumes "\<And>frame. event \<noteq> FrameIn frame" "event \<noteq> WatchdogTick"
  shows "wp (unheard s) (session_program p env event s)"
proof (cases event)
  case (FrameIn frame)
  then show ?thesis
    using assms(1) by blast
next
  case WatchdogTick
  then show ?thesis
    using assms(2) by blast
next
  case (TrayEvent command)
  then show ?thesis
    by (cases command) (simp_all add: session_defs unheard_def Let_def split: option.split)
qed (simp_all add: session_defs unheard_def Let_def case_prod_beta split: option.split capture_event.split)

text \<open>A tick ends the session exactly when the peer was silent for the hard timeout.\<close>

lemma poll_watchdog:
  assumes "watchdog_ok t s" "poll (rv_liveness s) now active = (event, l)"
  shows "event = Some HardSessionTimeout \<longleftrightarrow> from_secs 5 \<le> duration_since now t"
    "event \<noteq> Some HardSessionTimeout \<Longrightarrow>
       lt_config l = liveness_config_default \<and> lt_last_activity l = t \<and> \<not> lt_hard_reported l"
proof -
  have hard: "lc_hard_session_timeout liveness_config_default = from_secs 5"
    by (simp add: liveness_config_default_def)
  show "event = Some HardSessionTimeout \<longleftrightarrow> from_secs 5 \<le> duration_since now t"
    "event \<noteq> Some HardSessionTimeout \<Longrightarrow>
       lt_config l = liveness_config_default \<and> lt_last_activity l = t \<and> \<not> lt_hard_reported l"
    using assms hard by (auto simp: poll_def Let_def watchdog_ok_def elapsed_def split: if_splits)
qed

lemma watchdog_tick_outcome:
  assumes ok: "watchdog_ok t s"
  shows "if from_secs 5 \<le> duration_since (ev_now env) t
     then fst (watchdog_tick p env s w) = Ended (ExitFault PeerSilent)
     else \<exists>s'. fst (watchdog_tick p env s w) = Continue s' \<and> watchdog_ok t s'"
proof -
  define s1 where "s1 = (if (case rv_deadline s of None \<Rightarrow> False | Some d \<Rightarrow> d \<le> ev_now env)
    then s\<lparr>rv_deadline := None, rv_prepared := None\<rparr> else s)"
  obtain event l where p: "poll (rv_liveness s1) (ev_now env) (input_active s1) = (event, l)"
    by fastforce
  have ok1: "watchdog_ok t s1"
    using ok by (simp add: s1_def watchdog_ok_def)
  have tick: "fst (watchdog_tick p env s w) = fst ((let s2 = s1\<lparr>rv_liveness := l\<rparr> in
      case event of
        Some SoftInputTimeout \<Rightarrow>
          (let s3 = s2\<lparr>rv_capture_active := False, rv_gate := gate_suspend (rv_gate s2)\<rparr>
           in act KeysUp (act_if (rv_capture s3) (CaptureRelease None)
                (send_lossy (frame_control (rv_epoch s3) (ReleaseToLocal HeartbeatTimeout)) (ret s3))))
      | Some HardSessionTimeout \<Rightarrow> stop (ExitFault PeerSilent)
      | None \<Rightarrow> ret s2) w)"
    unfolding watchdog_tick_def Let_def fst_act s1_def [symmetric] p by simp
  show ?thesis
    unfolding tick using poll_watchdog [OF ok1 p]
    by (cases event rule: option.exhaust [case_product liveness_event.exhaust])
      (auto simp: Let_def watchdog_ok_def split: option.split liveness_event.split)
qed

lemma wp_watchdog_ok:
  assumes "watchdog_ok t s"
  shows "wp (\<lambda>s' _. watchdog_ok (heard t env event) s') (session_program p env event s)"
proof -
  have kept: "wp (\<lambda>s' _. watchdog_ok t' s') k" if "watchdog_ok t' s0" "wp (unheard s0) k" for t' s0 k
    unfolding wp_def
  proof
    fix w
    obtain out acts where out: "k w = (out, acts)"
      by fastforce
    show "case k w of (Continue s', acts) \<Rightarrow> watchdog_ok t' s' | _ \<Rightarrow> True"
      using that(1) spec [OF that(2) [unfolded wp_def], of w] unfolding out
      by (cases out) (simp_all add: unheard_def watchdog_ok_def)
  qed
  consider "event = WatchdogTick" | frame where "event = FrameIn frame"
    | "event \<noteq> WatchdogTick" "\<And>frame. event \<noteq> FrameIn frame"
    by blast
  then show ?thesis
  proof cases
    case 1
    have "case watchdog_tick p env s w of (Continue s', acts) \<Rightarrow> watchdog_ok t s' | _ \<Rightarrow> True" for w
    proof -
      obtain out acts where out: "watchdog_tick p env s w = (out, acts)"
        by fastforce
      show ?thesis
        using watchdog_tick_outcome [OF assms, of env p w] unfolding out
        by (cases out) (auto split: if_splits)
    qed
    then show ?thesis
      by (simp add: 1 wp_def)
  next
    case 2
    have "watchdog_ok (ev_now env) (s\<lparr>rv_liveness := observe_authenticated_frame (rv_liveness s) (ev_now env)\<rparr>)"
      using assms by (simp add: watchdog_ok_def observe_authenticated_frame_def)
    from kept [OF this wp_frame_unheard] show ?thesis
      by (simp add: 2)
  next
    case 3
    then have "heard t env event = t"
      by (cases event) auto
    then show ?thesis
      using kept [OF assms wp_local_unheard [OF 3(2,1)]] by simp
  qed
qed

section \<open>Sessions\<close>

lemma session_run_Cons:
  assumes "session_run p s (i # is) = (Continue s', acts)"
  obtains s1 acts1 acts2 where "session_step p s i = (Continue s1, acts1)"
    "session_run p s1 is = (Continue s', acts2)" "acts = acts1 @ acts2"
  using assms by (auto split: prod.splits session_outcome.splits)

lemma session_run_no_stuck:
  assumes "session_run p s is = (Continue s', acts)" "no_stuck h s []"
  shows "no_stuck h s' acts"
  using assms
proof (induction "is" arbitrary: s h acts)
  case (Cons i "is")
  from Cons.prems(1) obtain s1 acts1 acts2 where run: "session_step p s i = (Continue s1, acts1)"
    "session_run p s1 is = (Continue s', acts2)" "acts = acts1 @ acts2"
    by (rule session_run_Cons)
  have "no_stuck (held h acts1) s1 []"
    using wp_step [OF wp_session_no_stuck [OF Cons.prems(2)] run(1)] by (simp add: no_stuck_def)
  from Cons.IH [OF run(2) this] show ?case
    by (simp add: no_stuck_def run(3))
qed (simp add: no_stuck_def)

lemma session_run_role_agrees:
  assumes "session_run p s is = (Continue s', acts)" "role_agrees p s"
  shows "role_agrees p s'"
  using assms
  by (induction "is" arbitrary: s acts)
    (simp, metis session_run_Cons wp_step wp_role_agrees)

text \<open>When the peer was last heard.\<close>

fun last_heard :: "instant \<Rightarrow> session_input list \<Rightarrow> instant" where
  "last_heard t [] = t"
| "last_heard t (i # is) = last_heard (heard t (fst i) (snd (snd i))) is"

lemma session_run_watchdog:
  assumes "session_run p s is = (Continue s', acts)" "watchdog_ok t s"
  shows "watchdog_ok (last_heard t is) s'"
  using assms
proof (induction "is" arbitrary: s t acts)
  case (Cons i "is")
  from Cons.prems(1) obtain s1 acts1 acts2 where run: "session_step p s i = (Continue s1, acts1)"
    "session_run p s1 is = (Continue s', acts2)"
    by (rule session_run_Cons)
  show ?case
    using Cons.IH [OF run(2) wp_step [OF wp_watchdog_ok [OF Cons.prems(2)] run(1)]] by simp
qed simp

lemma receiver_start_invariants:
  "no_stuck {} (receiver_start p capture watched now) []"
  "sp_local p \<noteq> sp_peer p \<Longrightarrow> role_agrees p (receiver_start p capture watched now)"
  "watchdog_ok now (receiver_start p capture watched now)"
  by (auto simp: receiver_start_def no_stuck_def role_agrees_def watchdog_ok_def liveness_new_def
      liveness_config_default_def from_secs_def)

text \<open>Only an input frame of the right epoch reaches the injector.\<close>

definition injects :: "effect \<Rightarrow> input_event option" where
  "injects a = (case a of Inject x \<Rightarrow> Some x | _ \<Rightarrow> None)"

definition quiet :: "effect \<Rightarrow> bool" where
  "quiet a \<longleftrightarrow> injects a = None"

lemma quiet_simps [simp]:
  "quiet (Inject x) = False" "quiet (Send f)" "quiet KeysUp" "quiet CaptureArm" "quiet (CaptureRelease c)"
  "quiet CaptureDisarm" "quiet CaptureReleaseAndDisarm" "quiet CaptureKeepAlive" "quiet (CapturePreflight e)"
  "quiet StopAudioSender" "quiet (StartAudioTask g b1 b2 b3 q)" "quiet (StartAudioReceiver q)" "quiet (SaveRole r)"
  "quiet (RememberPosition e)" "quiet (HandleClipboard ce)" "quiet RequestClipboardRead" "quiet OfferClipboard"
  "quiet SendClipboardChunk" "quiet (HandleNotification n)"
  by (simp_all add: quiet_def injects_def)

lemma emits_local_quiet:
  assumes "\<And>frame. event \<noteq> FrameIn frame"
  shows "emits quiet (session_program p env event s)"
proof (cases event)
  case (FrameIn frame)
  then show ?thesis
    using assms by blast
next
  case (TrayEvent command)
  then show ?thesis
    by (cases command) (simp_all add: session_defs Let_def split: option.split)
qed (simp_all add: session_defs Let_def case_prod_beta split: option.split capture_event.split liveness_event.split)

lemma emits_frame_quiet:
  assumes "\<And>input. frame \<noteq> FInput input"
  shows "emits quiet (handle_frame p env frame s)"
proof (cases frame)
  case (FInput input)
  then show ?thesis
    using assms by blast
next
  case (FRole e)
  then show ?thesis
    by (cases e) (simp_all add: session_defs Let_def split: option.split)
next
  case (FAudio control)
  then show ?thesis
    by (cases control) (simp_all add: session_defs Let_def split: option.split prod.split)
next
  case (FControl control)
  then show ?thesis
    by (simp add: session_defs Let_def split: control_event.split option.split)
next
  case (FHeartbeat hb)
  then show ?thesis
    by (simp split: prod.split option.split)
qed simp_all

lemma input_injects:
  assumes "Inject x \<in> set (snd (handle_input env input s w))"
  shows "if_event input = x \<and> x \<noteq> AllKeysUp \<and> if_role_epoch input = rv_epoch s \<and> \<not> blocked s"
  using assms
  by (auto simp: handle_input_def attempt_def act_def ret_def stop_def blocked_def gate_accepts_input_def
      split: if_splits)

lemma step_injects:
  assumes "Inject x \<in> set (snd (session_step p s i))"
  obtains input where "snd (snd i) = FrameIn (FInput input)" "if_event input = x" "x \<noteq> AllKeysUp"
    "if_role_epoch input = rv_epoch s" "\<not> blocked s"
proof -
  obtain env w event where i: "i = (env, w, event)"
    by (cases i) auto
  have loud: "\<not> emits quiet (session_program p env event s)"
    unfolding emits_def using assms by (fastforce simp: i session_step_def)
  obtain frame where frame: "event = FrameIn frame"
    using loud emits_local_quiet by blast
  obtain input where input: "frame = FInput input"
    using loud emits_frame_quiet frame by fastforce
  show thesis
    using that [of input] assms input_injects [of x env input
        "s\<lparr>rv_liveness := observe_authenticated_frame (rv_liveness s) (ev_now env)\<rparr>" w]
    by (simp add: i frame input session_step_def blocked_def)
qed

text \<open>A pending handover always has a deadline, at most \<open>ROLE_DEADLINE\<close> after the step that set it.\<close>

definition deadline_ok :: "receiver \<Rightarrow> bool" where
  "deadline_ok s \<longleftrightarrow> (rv_prepared s \<noteq> None \<longrightarrow> rv_deadline s \<noteq> None)"

lemma wp_role_deadline_ok:
  assumes "deadline_ok s"
  shows "wp (\<lambda>s' _. deadline_ok s') (handle_role p env event s)"
  using assms
  by (cases event) (simp_all add: session_defs deadline_ok_def Let_def split: option.split)

lemma wp_frame_deadline_ok:
  assumes "deadline_ok s"
  shows "wp (\<lambda>s' _. deadline_ok s') (handle_frame p env frame s)"
proof (cases frame)
  case (FRole e)
  then show ?thesis
    using wp_role_deadline_ok [OF assms] by simp
next
  case (FAudio control)
  then show ?thesis
    using assms by (cases control) (simp_all add: session_defs deadline_ok_def Let_def split: option.split prod.split)
next
  case (FControl control)
  then show ?thesis
    using assms by (simp add: session_defs deadline_ok_def Let_def split: control_event.split option.split)
next
  case (FInput input)
  then show ?thesis
    using assms by (simp add: session_defs deadline_ok_def split: input_event.split)
next
  case (FHeartbeat hb)
  then show ?thesis
    using assms by (simp add: deadline_ok_def split: prod.split option.split)
qed (use assms in simp_all)

lemma wp_deadline_ok:
  assumes "deadline_ok s"
  shows "wp (\<lambda>s' _. deadline_ok s') (session_program p env event s)"
proof (cases event)
  case (FrameIn frame)
  have "deadline_ok (s\<lparr>rv_liveness := observe_authenticated_frame (rv_liveness s) (ev_now env)\<rparr>)"
    using assms by (simp add: deadline_ok_def)
  from wp_frame_deadline_ok [OF this] show ?thesis
    by (simp add: FrameIn)
next
  case (TrayEvent command)
  then show ?thesis
    using assms by (cases command) (simp_all add: session_defs deadline_ok_def Let_def split: option.split)
next
  case WatchdogTick
  then show ?thesis
    using assms by (cases "rv_prepared s"; cases "rv_deadline s")
      (simp_all add: session_defs deadline_ok_def Let_def case_prod_beta split: option.split liveness_event.split)
qed (use assms in \<open>simp_all add: session_defs deadline_ok_def Let_def case_prod_beta
  split: option.split capture_event.split\<close>)

lemma session_run_deadline_ok:
  assumes "session_run p s is = (Continue s', acts)" "deadline_ok s"
  shows "deadline_ok s'"
  using assms
  by (induction "is" arbitrary: s acts)
    (simp, metis session_run_Cons wp_step wp_deadline_ok)

text \<open>What a step does to the adopted role state.\<close>

definition role_step :: "session_peer \<Rightarrow> receiver \<Rightarrow> session_event \<Rightarrow> receiver \<Rightarrow> bool" where
  "role_step p s event s' \<longleftrightarrow>
     rv_role_state s' = rv_role_state s \<or>
     (\<exists>state. event = FrameIn (FRole (SessionState state)) \<and> rv_role_state s' = state \<and>
        \<not> foreign_controller p state \<and> rs_role_epoch state \<noteq> 0 \<and> rs_transition state = Stable) \<or>
     (\<exists>commit prepared. event = FrameIn (FRole (Commit commit)) \<and> rv_role_state s' = commit \<and>
        rv_prepared s = Some prepared \<and> is_ok (validate_commit prepared commit) \<and> ig_suspended (rv_gate s'))"

lemma wp_role_step: "wp (\<lambda>s' _. role_step p s event s') (session_program p env event s)"
proof (cases event)
  case (FrameIn frame)
  show ?thesis
  proof (cases frame)
    case (FRole e)
    then show ?thesis
      by (cases e) (simp_all add: FrameIn session_defs role_step_def gate_defs Let_def split: option.split)
  next
    case (FAudio control)
    then show ?thesis
      by (cases control) (simp_all add: FrameIn session_defs role_step_def Let_def split: option.split prod.split)
  next
    case (FControl control)
    then show ?thesis
      by (simp add: FrameIn session_defs role_step_def Let_def split: control_event.split option.split)
  next
    case (FInput input)
    then show ?thesis
      by (simp add: FrameIn session_defs role_step_def split: input_event.split)
  next
    case (FHeartbeat hb)
    then show ?thesis
      by (simp add: FrameIn role_step_def split: prod.split option.split)
  qed (simp_all add: FrameIn role_step_def)
next
  case (TrayEvent command)
  then show ?thesis
    by (cases command) (simp_all add: session_defs role_step_def Let_def split: option.split)
qed (simp_all add: session_defs role_step_def Let_def case_prod_beta
  split: option.split capture_event.split liveness_event.split)

section \<open>Properties\<close>

text \<open>C6: Nothing stays pressed on the receiver. Whatever frames, timers and tray commands a session
  handles, and however its writes and devices fail: as long as the session runs and the peer's input is not
  accepted (the session is paused, forwarding is off, this computer controls, or the input gate is suspended),
  every key and button pressed before has been released again; and once the session ended, for whatever reason,
  nothing is held.\<close>

theorem receiver_no_stuck_keys:
  assumes "session_run p (receiver_start p capture watched now) is = (out, acts)"
  shows "case out of Continue s \<Rightarrow> \<not> (blocked s \<and> held {} acts \<noteq> {})
    | Ended e \<Rightarrow> held {} (acts @ session_cleanup e left) = {}"
proof (cases out)
  case (Continue s)
  show ?thesis
    using session_run_no_stuck [OF assms [unfolded Continue] receiver_start_invariants(1)]
    by (simp add: Continue no_stuck_def)
qed (simp add: session_cleanup_def)

definition sample_peer :: session_peer where
  "sample_peer = \<lparr>sp_local = ''listener'', sp_peer = ''connector'', sp_audio_playback = False, sp_audio_capture = False,
     sp_audio_route = False, sp_input_toggle = True, sp_role_switch = True, sp_input_capture = True,
     sp_input_injection = True, sp_listener_position = EdgeRight, sp_jitter_target_ms = 0, sp_screen = None\<rparr>"

definition sample_env :: "nat \<Rightarrow> session_env" where
  "sample_env t = \<lparr>ev_now = t, ev_preflight = None, ev_arm = None, ev_release_ok = True, ev_inject_ok = True,
     ev_keys_up_ok = True, ev_save_ok = True, ev_socket = None, ev_audio_error = None, ev_secrets = ([], [], [])\<rparr>"

text \<open>The peer enters, presses a key, and goes silent.\<close>

definition sample_inputs :: "session_input list" where
  "sample_inputs =
     [(sample_env 1, 9, FrameIn (frame_control INITIAL_ROLE_EPOCH (EnterRemote EdgeRight 0))),
      (sample_env 2, 9, FrameIn (frame_input INITIAL_ROLE_EPOCH (Key 30 True)))]"

definition sample_state :: receiver where
  "sample_state = (receiver_start sample_peer False False 0)
     \<lparr>rv_liveness := observe_authenticated_frame (observe_authenticated_frame
        (the (liveness_new liveness_config_default 0)) 1) 2,
      rv_gate := \<lparr>ig_suspended = False\<rparr>,
      rv_watcher := watcher_arm EdgeRight (watcher_new None)\<rparr>"

lemma receiver_sample_run:
  "session_run sample_peer (receiver_start sample_peer False False 0) sample_inputs =
     (Continue sample_state, [Inject (Key 30 True)])"
  by (simp add: sample_inputs_def sample_state_def sample_peer_def sample_env_def receiver_start_def session_step_def
      frame_control_def frame_input_def session_defs should_release_legacy_controller_def gate_defs gate_default_def
      ret_def act_def attempt_def)

definition paused_inputs :: "session_input list" where
  "paused_inputs = sample_inputs @ [(sample_env 3, 9, FrameIn (FRole (SetPaused True)))]"

lemma paused_run:
  "\<exists>s. session_run sample_peer (receiver_start sample_peer False False 0) paused_inputs =
     (Continue s, [Inject (Key 30 True), KeysUp]) \<and> blocked s"
proof -
  have "session_run p s (xs @ ys) = (case session_run p s xs of
      (Continue s', acts) \<Rightarrow> (case session_run p s' ys of (out, acts') \<Rightarrow> (out, acts @ acts'))
    | (Ended e, acts) \<Rightarrow> (Ended e, acts))" for p s xs ys
    by (induction xs arbitrary: s) (auto split: prod.split session_outcome.split)
  then show ?thesis
    by (simp add: paused_inputs_def receiver_sample_run)
      (simp add: sample_state_def sample_peer_def sample_env_def receiver_start_def session_step_def session_defs
        gate_defs ret_def act_def act_if_def blocked_def)
qed

theorem receiver_no_stuck_keys_witness:
  "\<exists>s. session_run sample_peer (receiver_start sample_peer False False 0) paused_inputs =
     (Continue s, [Inject (Key 30 True), KeysUp]) \<and> blocked s \<and> held {} [Inject (Key 30 True), KeysUp] = {}"
proof -
  obtain s where s: "session_run sample_peer (receiver_start sample_peer False False 0) paused_inputs =
      (Continue s, [Inject (Key 30 True), KeysUp])" "blocked s"
    using paused_run by blast
  show ?thesis
    using receiver_no_stuck_keys [OF s(1)] s by auto
qed

text \<open>C10: Input is injected only for the connected controller and only while it may control: when a step of
  a running session injects an event, the step handles an input frame carrying exactly that event, whose epoch is
  the epoch of the adopted role state; that role state does not name this computer as the controller; and the
  session is not paused, forwarding is on and the input gate is open.\<close>

theorem receiver_input_confined:
  assumes "sp_local p \<noteq> sp_peer p" "session_run p (receiver_start p capture watched now) is = (Continue s, acts)"
    "Inject x \<in> set (snd (session_step p s (env, w, event)))"
  shows "\<exists>input. event = FrameIn (FInput input) \<and> if_event input = x \<and> x \<noteq> AllKeysUp \<and>
    if_role_epoch input = rs_role_epoch (rv_role_state s) \<and>
    rs_controller_fingerprint (rv_role_state s) \<noteq> Some (sp_local p) \<and>
    \<not> rv_paused s \<and> rv_forwarding s \<and> gate_accepts_input (rv_gate s)"
proof -
  have "role_agrees p s"
    using session_run_role_agrees [OF assms(2) receiver_start_invariants(2) [OF assms(1)]] .
  moreover obtain input where "event = FrameIn (FInput input)" "if_event input = x" "x \<noteq> AllKeysUp"
      "if_role_epoch input = rv_epoch s" "\<not> blocked s"
    using step_injects [OF assms(3)] by auto
  ultimately show ?thesis
    by (simp add: role_agrees_def blocked_def gate_accepts_input_def)
qed

lemma sample_state_simps [simp]:
  "rv_epoch sample_state = INITIAL_ROLE_EPOCH" "rv_paused sample_state = False" "rv_forwarding sample_state = True"
  "rv_local_controller sample_state = False" "rv_gate sample_state = \<lparr>ig_suspended = False\<rparr>"
  "rv_capture sample_state = False"
  "rs_role_epoch (rv_role_state sample_state) = INITIAL_ROLE_EPOCH"
  "rs_controller_fingerprint (rv_role_state sample_state) = Some ''connector''"
  "rv_prepared sample_state = None" "rv_deadline sample_state = None"
  by (simp_all add: sample_state_def receiver_start_def sample_peer_def)

theorem receiver_input_confined_witness:
  "sp_local sample_peer \<noteq> sp_peer sample_peer \<and>
   Inject (Key 30 False) \<in> set (snd (session_step sample_peer sample_state
     (sample_env 3, 9, FrameIn (frame_input INITIAL_ROLE_EPOCH (Key 30 False))))) \<and>
   (\<exists>input. FrameIn (frame_input INITIAL_ROLE_EPOCH (Key 30 False)) = FrameIn (FInput input) \<and>
     if_event input = Key 30 False \<and> if_role_epoch input = INITIAL_ROLE_EPOCH)"
proof -
  have peers: "sp_local sample_peer \<noteq> sp_peer sample_peer"
    by (simp add: sample_peer_def)
  have inject: "Inject (Key 30 False) \<in> set (snd (session_step sample_peer sample_state
      (sample_env 3, 9, FrameIn (frame_input INITIAL_ROLE_EPOCH (Key 30 False)))))"
    by (simp add: session_step_def frame_input_def handle_input_def gate_accepts_input_def attempt_def)
  show ?thesis
    using receiver_input_confined [OF peers receiver_sample_run inject] peers inject by auto
qed

text \<open>A silent peer ends the session, and only silence does so in the watchdog: at a watchdog tick of a
  running session the session ends if and only if at least five seconds have passed since the last frame was
  received (since the start, if none was), and then as a silent peer's.\<close>

theorem receiver_silence_ends_session:
  assumes "session_run p (receiver_start p capture watched now) is = (Continue s, acts)"
  shows "(fst (session_step p s (env, w, WatchdogTick)) = Ended e) =
    (e = ExitFault PeerSilent \<and> from_secs 5 \<le> duration_since (ev_now env) (last_heard now is))"
  using watchdog_tick_outcome [OF session_run_watchdog [OF assms receiver_start_invariants(3)], of env p w]
  by (auto simp: session_step_def split: if_splits)

theorem receiver_silence_ends_session_witness:
  "fst (session_step sample_peer sample_state (sample_env (from_secs 6), 0, WatchdogTick)) =
     Ended (ExitFault PeerSilent)"
  by (subst receiver_silence_ends_session [OF receiver_sample_run])
    (simp add: sample_inputs_def sample_env_def frame_input_def from_secs_def duration_since_def)

text \<open>A handover that does not finish is forgotten: in every running session a prepared role state has a
  deadline, and the first watchdog tick at or after it, unless it ends the session, discards the prepared state
  and the deadline and leaves the adopted role state, its epoch and the controlling side as they were.\<close>

theorem receiver_handover_expires:
  assumes "session_run p (receiver_start p capture watched now) is = (Continue s, acts)"
    "rv_prepared s = Some prepared"
  shows "\<exists>d. rv_deadline s = Some d \<and> (d \<le> ev_now env \<longrightarrow>
    (\<forall>s'. fst (session_step p s (env, w, WatchdogTick)) = Continue s' \<longrightarrow>
      rv_prepared s' = None \<and> rv_deadline s' = None \<and> rv_role_state s' = rv_role_state s \<and>
      rv_epoch s' = rv_epoch s \<and> rv_local_controller s' = rv_local_controller s))"
proof -
  have "deadline_ok s"
    by (rule session_run_deadline_ok [OF assms(1)]) (simp add: deadline_ok_def receiver_start_def)
  then obtain d where d: "rv_deadline s = Some d"
    using assms(2) by (auto simp: deadline_ok_def)
  show ?thesis
    by (auto simp: d session_step_def watchdog_tick_def Let_def case_prod_beta
        split: option.splits liveness_event.splits)
qed

text \<open>The role state changes in two ways only. A step either keeps the adopted role state, or handles a
  session state of the connector that names no third computer, has a nonzero epoch and is stable, or handles a
  commit that agrees with the prepared state; a commit also leaves the input gate suspended, so no input sent
  under the earlier assignment is injected under the new one.\<close>

theorem receiver_role_changes:
  assumes "session_step p s (env, w, event) = (Continue s', acts)"
  shows "rv_role_state s' = rv_role_state s \<or>
    (\<exists>state. event = FrameIn (FRole (SessionState state)) \<and> rv_role_state s' = state \<and>
       \<not> foreign_controller p state \<and> rs_role_epoch state \<noteq> 0 \<and> rs_transition state = Stable) \<or>
    (\<exists>commit prepared. event = FrameIn (FRole (Commit commit)) \<and> rv_role_state s' = commit \<and>
       rv_prepared s = Some prepared \<and> is_ok (validate_commit prepared commit) \<and> \<not> gate_accepts_input (rv_gate s'))"
  using wp_step [OF wp_role_step, of p s "(env, w, event)" s' acts] assms
  unfolding role_step_def by (simp add: gate_accepts_input_def)

text \<open>A handover of the sample session to the listener.\<close>

definition sample_proposal :: role_state where
  "sample_proposal = \<lparr>rs_controller_fingerprint = Some ''listener'', rs_role_epoch = 2,
     rs_transition = Preparing ''listener'', rs_listener_position = EdgeRight, rs_paused = False,
     rs_failure_detail = None\<rparr>"

text \<open>The peer proposes it, and is heard once more one second later.\<close>

definition prepare_inputs :: "session_input list" where
  "prepare_inputs = [(sample_env 1, Suc 0, FrameIn (FRole (Prepare sample_proposal))),
     (sample_env (from_secs 1), Suc 0, FrameIn (FRole (RoleRequest ''listener'')))]"

definition prepared_state :: receiver where
  "prepared_state = (receiver_start sample_peer True False 0)
     \<lparr>rv_liveness := observe_authenticated_frame (observe_authenticated_frame
        (the (liveness_new liveness_config_default 0)) 1) (from_secs 1),
      rv_prepared := Some sample_proposal, rv_deadline := Some (1 + ROLE_DEADLINE)\<rparr>"

lemma prepared_run:
  "session_run sample_peer (receiver_start sample_peer True False 0) prepare_inputs =
   (Continue prepared_state, [KeysUp, Send (FRole (Ready 2 True True None))])"
  by (simp add: prepared_state_def prepare_inputs_def sample_proposal_def sample_peer_def sample_env_def
      receiver_start_def session_step_def handle_prepare_def role_switch_available_def validate_prepare_def
      checked_add_def INITIAL_ROLE_EPOCH_def gate_suspend_def gate_default_def ret_def act_def act_if_def send_def
      Let_def)

lemma prepared_state_simps [simp]:
  "rv_prepared prepared_state = Some sample_proposal" "rv_deadline prepared_state = Some (1 + ROLE_DEADLINE)"
  by (simp_all add: prepared_state_def)

lemma prepared_tick:
  "\<exists>s'. fst (session_step sample_peer prepared_state (sample_env (from_secs 5 + 1), 0, WatchdogTick)) = Continue s'"
  using watchdog_tick_outcome [OF session_run_watchdog [OF prepared_run receiver_start_invariants(3)],
      of "sample_env (from_secs 5 + 1)" sample_peer 0]
  by (auto simp: session_step_def prepare_inputs_def sample_env_def from_secs_def duration_since_def)

theorem receiver_handover_expires_witness:
  "\<exists>s'. fst (session_step sample_peer prepared_state (sample_env (from_secs 5 + 1), 0, WatchdogTick)) = Continue s' \<and>
     rv_prepared prepared_state = Some sample_proposal \<and> rv_prepared s' = None \<and>
     rv_role_state s' = rv_role_state prepared_state"
proof -
  obtain s' where tick: "fst (session_step sample_peer prepared_state
      (sample_env (from_secs 5 + 1), 0, WatchdogTick)) = Continue s'"
    using prepared_tick by blast
  moreover have "1 + ROLE_DEADLINE \<le> ev_now (sample_env (from_secs 5 + 1))"
    by (simp add: sample_env_def ROLE_DEADLINE_def)
  ultimately show ?thesis
    using receiver_handover_expires [OF prepared_run prepared_state_simps(1),
        of "sample_env (from_secs 5 + 1)" 0] by (simp add: tick)
qed

definition committed_proposal :: role_state where
  "committed_proposal = sample_proposal\<lparr>rs_transition := Stable\<rparr>"

theorem receiver_role_changes_witness:
  "\<exists>s' acts. session_step sample_peer prepared_state
      (sample_env 2, Suc 0, FrameIn (FRole (Commit committed_proposal))) = (Continue s', acts) \<and>
    rv_role_state s' = committed_proposal \<and> \<not> gate_accepts_input (rv_gate s')"
proof -
  obtain s' acts where step: "session_step sample_peer prepared_state
      (sample_env 2, Suc 0, FrameIn (FRole (Commit committed_proposal))) = (Continue s', acts)"
      "rv_role_state s' = committed_proposal"
    by (simp add: session_step_def handle_commit_def prepared_state_def committed_proposal_def sample_proposal_def
        validate_commit_def is_preparing_def may_capture_def receiver_start_def sample_peer_def sample_env_def
        Let_def ret_def act_def attempt_def send_def)
  have "rv_role_state prepared_state \<noteq> committed_proposal"
    by (simp add: prepared_state_def receiver_start_def committed_proposal_def sample_proposal_def sample_peer_def)
  then show ?thesis
    using step receiver_role_changes [OF step(1)] by auto
qed

end
