(* ===== verification/ReceiverHandover.thy ===== *)
theory ReceiverHandover
  imports ReceiverSafety
begin

text \<open>
  The receiver's session against the connector's \<open>RoleCoordinator\<close>: what both computers hold after a
  proposal of the coordinator was answered, decided and applied.
\<close>

text \<open>The two sides hold the same assignment.\<close>

definition agree :: "role_coordinator \<Rightarrow> receiver \<Rightarrow> bool" where
  "agree c s \<longleftrightarrow>
     rs_role_epoch (rc_stable c) = rs_role_epoch (rv_role_state s) \<and>
     rs_controller_fingerprint (rc_stable c) = rs_controller_fingerprint (rv_role_state s)"

lemma prepare_step:
  assumes "role_switch_available p" "\<not> rv_paused s" "is_ok (validate_prepare (rv_role_state s) q (sp_peer p) (sp_local p))"
  shows "\<exists>s1 acts ready detail. session_step p s (env, Suc (Suc w), FrameIn (FRole (Prepare q))) = (Continue s1, acts) \<and>
    Send (FRole (Ready (rs_role_epoch q) ready True detail)) \<in> set acts \<and>
    rv_prepared s1 = Some q \<and> rv_role_state s1 = rv_role_state s \<and> rv_epoch s1 = rv_epoch s \<and>
    rv_local_controller s1 = rv_local_controller s"
  using assms
  by (simp add: session_step_def handle_prepare_def Let_def act_if_def act_def send_def send_lossy_def ret_def)
    blast

lemma commit_step:
  assumes "rv_prepared s = Some q" "is_ok (validate_commit q d)" "rs_controller_fingerprint d = Some fp"
    and "ev_arm env = None" "ev_save_ok env"
  shows "\<exists>s2 acts. session_step p s (env, Suc w, FrameIn (FRole (Commit d))) = (Continue s2, acts) \<and>
    Send (FRole (Applied (rs_role_epoch d))) \<in> set acts \<and> SaveRole fp \<in> set acts \<and>
    rv_role_state s2 = d \<and> rv_epoch s2 = rs_role_epoch d \<and> rv_local_controller s2 = (fp = sp_local p) \<and>
    rv_prepared s2 = None"
  using assms
  by (simp add: session_step_def handle_commit_def Let_def act_if_def act_def send_def attempt_def ret_def)

lemma abort_step:
  assumes "rv_prepared s = Some q" "rs_role_epoch a = rs_role_epoch (rv_role_state s)"
    "rs_controller_fingerprint a = rs_controller_fingerprint (rv_role_state s)" "ev_arm env = None"
  shows "\<exists>s2 acts. session_step p s (env, w, FrameIn (FRole (Abort a))) = (Continue s2, acts) \<and>
    rv_role_state s2 = rv_role_state s \<and> rv_epoch s2 = rv_epoch s \<and>
    rv_local_controller s2 = rv_local_controller s \<and> rv_prepared s2 = None"
  using assms
  by (simp add: session_step_def handle_abort_def Let_def attempt_def act_def ret_def)

fun decision_frame :: "role_decision \<Rightarrow> frame" where
  "decision_frame (CommitDecision d) = FRole (Commit d)"
| "decision_frame (AbortDecision a) = FRole (Abort a)"

text \<open>A session that holds the coordinator's assignment answers a proposal with its readiness and prepares it.\<close>

lemma receiver_answers:
  assumes "agree c s" "rc_connector_fingerprint c = sp_peer p" "rc_listener_fingerprint c = sp_local p"
    and "prepare c fp = (Ok q, c1)" "role_switch_available p" "\<not> rv_paused s" "role_agrees p s"
  shows "\<exists>s1 acts ready detail. session_step p s (env, Suc (Suc w), FrameIn (FRole (Prepare q))) = (Continue s1, acts) \<and>
    Send (FRole (Ready (rs_role_epoch q) ready True detail)) \<in> set acts \<and>
    rv_prepared s1 = Some q \<and> agree c s1 \<and> role_agrees p s1"
proof -
  note q = prepare_Ok [OF assms(4)]
  have "validate_prepare (rv_role_state s) q (sp_peer p) (sp_local p) = Ok ()"
    unfolding validate_prepare_Ok using q assms(1-3) by (auto simp: agree_def in_pair_def)
  then show ?thesis
    using prepare_step [OF assms(5,6), of q env w] assms(1,7) by (fastforce simp: agree_def role_agrees_def)
qed

text \<open>Whatever the coordinator then decides, the session that prepared the proposal holds the coordinator's
  assignment again after the decision. A commit is applied, saved and confirmed.\<close>

lemma receiver_applies:
  assumes "prepare c fp = (Ok q, c1)" "rv_prepared s = Some q" "agree c s" "role_agrees p s"
    and "ev_arm env = None" "ev_save_ok env"
    and "finish_ready c1 (rs_role_epoch q) lc li rc ri detail = (Ok decision, c2)"
  shows "\<exists>s2 acts. session_step p s (env, Suc w, FrameIn (decision_frame decision)) = (Continue s2, acts) \<and>
    agree c2 s2 \<and> rc_pending c2 = None \<and> rv_prepared s2 = None \<and>
    rv_local_controller s2 = (rs_controller_fingerprint (rc_stable c2) = Some (sp_local p)) \<and>
    (case decision of
       CommitDecision d \<Rightarrow> lc \<and> li \<and> rc \<and> ri \<and> rs_controller_fingerprint d = Some fp \<and> rc_stable c2 = d \<and>
         Send (FRole (Applied (rs_role_epoch d))) \<in> set acts \<and> SaveRole fp \<in> set acts
     | AbortDecision a \<Rightarrow> rc_stable c2 = rc_stable c)"
proof (cases "lc \<and> li \<and> rc \<and> ri")
  case True
  note q = prepare_Ok [OF assms(1)]
  let ?d = "q\<lparr>rs_transition := Stable\<rparr>"
  have decision: "decision = CommitDecision ?d" "c2 = c\<lparr>rc_stable := ?d, rc_pending := None\<rparr>"
    using finish_ready_all [OF assms(1), of detail] True assms(7) by auto
  have "is_ok (validate_commit q ?d)" "rs_controller_fingerprint ?d = Some fp"
    using q by (simp_all add: validate_commit_def is_preparing_def)
  from commit_step [OF assms(2) this assms(5,6), of p w] show ?thesis
    using True decision q by (auto simp: agree_def)
next
  case False
  let ?a = "(rc_stable c)\<lparr>rs_transition := Failed, rs_failure_detail :=
    (case detail of Some d \<Rightarrow> Some d | None \<Rightarrow> Some BACKENDS_NOT_READY)\<rparr>"
  have decision: "decision = AbortDecision ?a" "c2 = c"
    using finish_ready_not_all [OF assms(1), of lc li rc ri detail] False assms(7) by auto
  have "rs_role_epoch ?a = rs_role_epoch (rv_role_state s)"
    "rs_controller_fingerprint ?a = rs_controller_fingerprint (rv_role_state s)"
    using assms(3) by (simp_all add: agree_def)
  from abort_step [OF assms(2) this assms(5), of p "Suc w"] show ?thesis
    using decision assms(3,4) prepare_Ok [OF assms(1)] by (auto simp: agree_def role_agrees_def)
qed

end
