(* ===== verification/ConnectorSession.thy ===== *)
theory ConnectorSession
  imports SessionProgram
begin

text \<open>
  The dialling computer's session: \<open>run_linux_controller_session\<close> of
  \<open>apps/edge-receiver-linux/src/main.rs\<close>, with the choice of the first controller in
  \<open>connect_linux_peer\<close> and the helpers both call. Every branch of the loop's \<open>select!\<close> is one event, every kind
  of frame one handler, written as a program over effects as in \<open>SessionProgram\<close>. The dialling side owns the
  \<open>RoleCoordinator\<close>: it decides every handover. The tray's display, log lines and counters are not modelled, and
  the clipboard's and the notification hub's own work is in their components.
\<close>

section \<open>State\<close>

record role_readiness =
  rd_capture :: bool
  rd_inject :: bool
  rd_detail :: "string option"

record connector =
  cn_liveness :: liveness_tracker
  cn_gate :: input_epoch_gate
  cn_ping :: heartbeat_ping
  cn_heartbeat_sequence :: u64
  cn_heartbeat_at :: instant
  cn_watcher :: return_watcher
  cn_forwarding :: bool
  cn_paused :: bool
  cn_epoch :: u64
  cn_local_controller :: bool
  cn_coordinator :: role_coordinator
  cn_readiness :: "role_readiness option"
  cn_deadline :: "instant option"
  cn_persist :: "(u64 \<times> string) option"
  cn_capture :: bool
  cn_input_active :: bool
  cn_released :: bool
  cn_audio_source :: "string option"
  cn_audio_sender :: bool
  cn_audio_receiver :: bool
  cn_audio_task :: bool
  cn_audio_generation :: u64
  cn_clipboard_watched :: bool

text \<open>What the portal's disarm and the clipboard return, besides the results the accepting side uses too.\<close>

record connector_env = session_env +
  ce_disarm_ok :: bool
  ce_clipboard_ok :: bool

section \<open>The first assignment\<close>

text \<open>\<open>persisted\<close> is the stored role, if there is one that can be read.\<close>

definition initial_controller :: "session_peer \<Rightarrow> bool \<Rightarrow> committed_role option \<Rightarrow> string option" where
  "initial_controller p prefers_control persisted =
     (case persisted of
        Some r \<Rightarrow>
          if belongs_to r (sp_local p) (sp_peer p) then Some (cr_controller_fingerprint r)
          else select_initial_controller (sp_local p) (sp_peer p) prefers_control
            \<lparr>controller_can_capture = True, receiver_can_inject = sp_input_injection p\<rparr>
            \<lparr>controller_can_capture = sp_input_capture p, receiver_can_inject = True\<rparr>
      | None \<Rightarrow>
          select_initial_controller (sp_local p) (sp_peer p) prefers_control
            \<lparr>controller_can_capture = True, receiver_can_inject = sp_input_injection p\<rparr>
            \<lparr>controller_can_capture = sp_input_capture p, receiver_can_inject = True\<rparr>)"

definition initial_role_state :: "session_peer \<Rightarrow> string option \<Rightarrow> bool \<Rightarrow> role_state" where
  "initial_role_state p controller paused =
     \<lparr>rs_controller_fingerprint = controller, rs_role_epoch = INITIAL_ROLE_EPOCH, rs_transition = Stable,
      rs_listener_position = sp_listener_position p, rs_paused = paused, rs_failure_detail = None\<rparr>"

text \<open>The audio source: what is stored for this pair, or else what the config says, where the peer supports it.\<close>

datatype audio_route_preference = RouteDisabled | RouteLocalToPeer | RoutePeerToLocal

definition initial_audio_source ::
  "session_peer \<Rightarrow> committed_audio_route option \<Rightarrow> audio_route_preference option \<Rightarrow> bool \<Rightarrow> string option" where
  "initial_audio_source p stored preference enabled =
     (let wanted = (case stored of
            Some route \<Rightarrow> car_source_fingerprint route
          | None \<Rightarrow>
              (case preference of
                 Some RouteDisabled \<Rightarrow> None
               | Some RouteLocalToPeer \<Rightarrow> Some (sp_local p)
               | Some RoutePeerToLocal \<Rightarrow> Some (sp_peer p)
               | None \<Rightarrow> if enabled then Some (sp_peer p) else None))
      in if wanted = Some (sp_local p) \<and> (\<not> sp_audio_playback p \<or> \<not> sp_audio_route p) \<or>
            wanted = Some (sp_peer p) \<and> \<not> sp_audio_capture p
         then None else wanted)"

section \<open>Shared steps\<close>

definition allowed :: "connector \<Rightarrow> bool" where
  "allowed s = (cn_local_controller s \<and> cn_forwarding s \<and> \<not> cn_paused s)"

definition keys_up_frame :: "connector \<Rightarrow> frame" where
  "keys_up_frame s = frame_input (cn_epoch s) AllKeysUp"

definition arm_capture :: "connector_env \<Rightarrow> connector \<Rightarrow> (connector \<Rightarrow> connector prog) \<Rightarrow> connector prog" where
  "arm_capture env s k =
     (if \<not> cn_capture s then stop (ExitFault CaptureFailed)
      else attempt CaptureArm (ev_arm env = None) CaptureFailed (k s))"

text \<open>Every caller goes on after a failure, without the backend.\<close>

definition disarm_capture :: "connector_env \<Rightarrow> connector \<Rightarrow> (connector \<Rightarrow> connector prog) \<Rightarrow> connector prog" where
  "disarm_capture env s k =
     (if \<not> cn_capture s then k s else act CaptureDisarm (k (s\<lparr>cn_capture := ce_disarm_ok env\<rparr>)))"

definition release_capture :: "connector \<Rightarrow> connector prog \<Rightarrow> connector prog" where
  "release_capture s k = act_if (cn_capture s) (CaptureRelease None) (act_if (cn_capture s) CaptureDisarm k)"

definition connector_drop_audio :: "connector \<Rightarrow> (connector \<Rightarrow> connector prog) \<Rightarrow> connector prog" where
  "connector_drop_audio s k =
     act_if (cn_audio_sender s) StopAudioSender
       (k (s\<lparr>cn_audio_task := False, cn_audio_generation := cn_audio_generation s + 1, cn_audio_sender := False,
             cn_audio_receiver := False\<rparr>))"

definition send_audio_route :: "session_peer \<Rightarrow> connector \<Rightarrow> connector prog \<Rightarrow> connector prog" where
  "send_audio_route p s k =
     send (FAudio (if sp_audio_route p then SetRoute (cn_audio_source s)
                   else SetEnabled (cn_audio_source s = Some (sp_peer p)))) k"

definition send_audio_offer :: "connector_env \<Rightarrow> connector prog \<Rightarrow> connector prog" where
  "send_audio_offer env k =
     (case ev_socket env of
        None \<Rightarrow> stop (ExitFault NoSocket)
      | Some port \<Rightarrow> send (FAudio (Offer port [PcmS16Stereo48Khz])) k)"

definition offer_if :: "bool \<Rightarrow> connector_env \<Rightarrow> connector prog \<Rightarrow> connector prog" where
  "offer_if b env k = (if b then send_audio_offer env k else k)"

definition change_audio_source ::
  "session_peer \<Rightarrow> connector_env \<Rightarrow> string option \<Rightarrow> (connector \<Rightarrow> connector prog) \<Rightarrow> connector \<Rightarrow> connector prog" where
  "change_audio_source p env source k s =
     connector_drop_audio (s\<lparr>cn_audio_source := source\<rparr>)
       (\<lambda>s1. attempt (SaveAudioRoute source) (ev_save_ok env) SaveFailed (send_audio_route p s1 (k s1)))"

text \<open>\<open>request_connector_control_after_capture_failure\<close>, with the peer's key.\<close>

definition request_peer_control :: "session_peer \<Rightarrow> connector \<Rightarrow> connector prog" where
  "request_peer_control p s = send (FRole (RoleRequest (sp_peer p))) (ret s)"

text \<open>\<open>begin_connector_role_switch\<close> and what both its callers do around it.\<close>

definition begin_role_switch :: "session_peer \<Rightarrow> connector_env \<Rightarrow> string \<Rightarrow> connector \<Rightarrow> connector prog" where
  "begin_role_switch p env requested s =
     (let s1 = s\<lparr>cn_gate := gate_suspend (cn_gate s)\<rparr>;
          was_local = (rs_controller_fingerprint (coordinator_state (cn_coordinator s1)) = Some (sp_local p));
          keys_up = frame_input (rs_role_epoch (coordinator_state (cn_coordinator s1))) AllKeysUp;
          propose = (case prepare (cn_coordinator s1) requested of
              (Inl _, _) \<Rightarrow> stop (ExitFault RoleFault)
            | (Inr proposal, coordinator) \<Rightarrow>
                send (FRole (Prepare proposal))
                  (let preflights = (requested = sp_local p \<and> \<not> cn_capture s1);
                       failed = (preflights \<and> ev_preflight env \<noteq> None);
                       readiness = \<lparr>rd_capture = \<not> failed, rd_inject = True,
                         rd_detail = (if failed then Some (''capture preflight failed: '' @ the (ev_preflight env))
                                      else None)\<rparr>
                   in act_if preflights (CapturePreflight (sp_listener_position p))
                        (ret (s1\<lparr>cn_coordinator := coordinator, cn_readiness := Some readiness,
                                cn_deadline := Some (ev_now env + ROLE_DEADLINE),
                                cn_capture := (cn_capture s1 \<or> preflights \<and> \<not> failed),
                                cn_input_active := False\<rparr>))))
      in if was_local then release_capture s1 (send_lossy keys_up propose) else act KeysUp propose)"

definition may_switch :: "session_peer \<Rightarrow> string \<Rightarrow> connector \<Rightarrow> bool" where
  "may_switch p requested s =
     (\<not> cn_paused s \<and> role_switch_available p \<and>
      rs_controller_fingerprint (coordinator_state (cn_coordinator s)) \<noteq> Some requested \<and>
      \<not> is_transitioning (cn_coordinator s))"

text \<open>An abort of the handover in progress; \<open>lossy\<close> tells whether a failing write is ignored.\<close>

definition abort_handover ::
  "bool \<Rightarrow> string \<Rightarrow> connector \<Rightarrow> (connector \<Rightarrow> connector prog) \<Rightarrow> connector prog" where
  "abort_handover lossy detail s k =
     (case abort (cn_coordinator s) detail of
        (Inl _, _) \<Rightarrow> stop (ExitFault RoleFault)
      | (Inr aborted, coordinator) \<Rightarrow>
          (let s1 = s\<lparr>cn_coordinator := coordinator, cn_deadline := None, cn_readiness := None\<rparr>
           in if lossy then send_lossy (FRole (Abort aborted)) (k s1) else send (FRole (Abort aborted)) (k s1)))"

definition rearm_if_allowed :: "connector_env \<Rightarrow> connector \<Rightarrow> (connector \<Rightarrow> connector prog) \<Rightarrow> connector prog" where
  "rearm_if_allowed env s k = (if allowed s then arm_capture env s k else k s)"

section \<open>The start of a session\<close>

definition connector_state :: "session_peer \<Rightarrow> role_coordinator \<Rightarrow> bool \<Rightarrow> string option \<Rightarrow> bool \<Rightarrow> instant \<Rightarrow> connector" where
  "connector_state p coordinator capture source watched now =
     (let role = coordinator_state coordinator
      in \<lparr>cn_liveness = the (liveness_new liveness_config_default now), cn_gate = gate_default, cn_ping = ping_default,
          cn_heartbeat_sequence = 0, cn_heartbeat_at = now + heartbeat_interval liveness_config_default False,
          cn_watcher = watcher_new (sp_screen p), cn_forwarding = (rs_controller_fingerprint role \<noteq> None),
          cn_paused = rs_paused role, cn_epoch = rs_role_epoch role,
          cn_local_controller = (rs_controller_fingerprint role = Some (sp_local p)), cn_coordinator = coordinator,
          cn_readiness = None, cn_deadline = None, cn_persist = None, cn_capture = capture, cn_input_active = False,
          cn_released = False, cn_audio_source = source, cn_audio_sender = False, cn_audio_receiver = False,
          cn_audio_task = False, cn_audio_generation = 0, cn_clipboard_watched = watched\<rparr>)"

text \<open>
  \<open>state\<close> is the assignment already sent to the peer, \<open>capture\<close> tells whether a backend is left from an
  earlier session, and \<open>stored\<close> is the stored audio route, None if the file cannot be read.
\<close>

definition connector_start ::
  "session_peer \<Rightarrow> connector_env \<Rightarrow> role_state \<Rightarrow> bool \<Rightarrow> committed_audio_route option option
     \<Rightarrow> audio_route_preference option \<Rightarrow> bool \<Rightarrow> bool \<Rightarrow> connector prog" where
  "connector_start p env state capture stored preference enabled watched =
     (case coordinator_new (sp_local p) (sp_peer p) (rs_controller_fingerprint state) (rs_role_epoch state)
             (sp_listener_position p) (rs_paused state) of
        Inl _ \<Rightarrow> stop (ExitFault RoleFault)
      | Inr coordinator \<Rightarrow>
          (let captures = (rs_controller_fingerprint state = Some (sp_local p) \<and> sp_input_injection p);
               preflights = (captures \<and> \<not> capture);
               preflight_failed = (preflights \<and> ev_preflight env \<noteq> None);
               arms = (captures \<and> \<not> preflight_failed \<and> \<not> rs_paused state);
               failure = (if preflight_failed then ev_preflight env else if arms then ev_arm env else None);
               capture1 = (if captures then failure = None else capture)
           in act_if preflights (CapturePreflight (sp_listener_position p)) (act_if arms CaptureArm
             (case stored of
                None \<Rightarrow> stop (ExitFault LoadFailed)
              | Some found \<Rightarrow>
                  (let route = (case found of
                         Some r \<Rightarrow> if audio_route_belongs_to r (sp_local p) (sp_peer p) then Some r else None
                       | None \<Rightarrow> None);
                       source = initial_audio_source p route preference enabled;
                       s = connector_state p coordinator capture1 source watched (ev_now env);
                       announce = send_audio_route p s
                         (offer_if (source = Some (sp_local p) \<and> \<not> cn_paused s) env (ret s));
                       begin = (if failure \<noteq> None \<and> role_switch_available p \<and> \<not> cn_paused s
                                then send (FRole (RoleRequest (sp_peer p))) announce else announce)
                   in if route = None
                      then attempt (SaveAudioRoute source) (ev_save_ok env) SaveFailed begin else begin)))))"

section \<open>Timers and local events\<close>

text \<open>The watchdog also finds out whether the audio sender and the audio receiver finished.\<close>

definition check_audio :: "bool \<Rightarrow> string option \<Rightarrow> connector \<Rightarrow> connector prog" where
  "check_audio sender_finished receiver_failure s =
     (let check_receiver = (\<lambda>s. case receiver_failure of
            Some failure \<Rightarrow>
              if cn_audio_receiver s
              then send_lossy (FAudio (AudioState AudioError (Some failure))) (ret (s\<lparr>cn_audio_receiver := False\<rparr>))
              else ret s
          | None \<Rightarrow> ret s)
      in if cn_audio_sender s \<and> sender_finished
         then act StopAudioSender
           (send_lossy (FAudio (AudioState AudioError (Some ''Linux audio capture stopped unexpectedly'')))
             (check_receiver (s\<lparr>cn_audio_sender := False\<rparr>)))
         else check_receiver s)"

definition connector_poll :: "connector_env \<Rightarrow> bool \<Rightarrow> string option \<Rightarrow> connector \<Rightarrow> connector prog" where
  "connector_poll env sender_finished receiver_failure s =
     (case poll (cn_liveness s) (ev_now env) (cn_input_active s) of
        (event, liveness) \<Rightarrow>
          (let s1 = s\<lparr>cn_liveness := liveness\<rparr> in
           case event of
             Some SoftInputTimeout \<Rightarrow>
               (let finish = (\<lambda>s2. send_lossy (keys_up_frame s2)
                      (check_audio sender_finished receiver_failure (s2\<lparr>cn_input_active := False\<rparr>)))
                in if cn_local_controller s1 \<and> cn_capture s1
                   then release_capture s1 (finish (s1\<lparr>cn_released := True\<rparr>))
                   else act KeysUp (finish (s1\<lparr>cn_gate := gate_suspend (cn_gate s1)\<rparr>)))
           | Some HardSessionTimeout \<Rightarrow> stop (ExitFault PeerSilent)
           | None \<Rightarrow> check_audio sender_finished receiver_failure s1))"

definition HANDOVER_TIMEOUT :: string where
  "HANDOVER_TIMEOUT = ''peer did not complete role preflight in time''"

definition connector_watchdog ::
  "connector_env \<Rightarrow> bool \<Rightarrow> string option \<Rightarrow> connector \<Rightarrow> connector prog" where
  "connector_watchdog env sender_finished receiver_failure s =
     act_if (allowed s \<and> cn_capture s) CaptureKeepAlive
       (let expired = ((case cn_deadline s of None \<Rightarrow> False | Some d \<Rightarrow> d \<le> ev_now env) \<and>
                       is_transitioning (cn_coordinator s));
            poll = connector_poll env sender_finished receiver_failure
        in if expired then abort_handover True HANDOVER_TIMEOUT s (\<lambda>s1. rearm_if_allowed env s1 poll) else poll s)"

definition connector_heartbeat :: "connector_env \<Rightarrow> connector \<Rightarrow> connector prog" where
  "connector_heartbeat env s =
     (let sequence = cn_heartbeat_sequence s + 1
      in case outgoing (cn_ping s) sequence (ev_now env) of
           (heartbeat, ping) \<Rightarrow>
             send (FHeartbeat heartbeat)
               (ret (s\<lparr>cn_heartbeat_sequence := sequence, cn_ping := ping,
                  cn_heartbeat_at := ev_now env + heartbeat_interval liveness_config_default
                    (cn_input_active s \<or> is_transitioning (cn_coordinator s))\<rparr>)))"

definition LAYOUT_CHANGED :: string where
  "LAYOUT_CHANGED = ''monitor layout changed during capture preflight''"

text \<open>Without a capture backend there are no events.\<close>

definition connector_portal :: "session_peer \<Rightarrow> connector_env \<Rightarrow> capture_event \<Rightarrow> connector \<Rightarrow> connector prog" where
  "connector_portal p env event s =
     (let lost = (\<lambda>s. if cn_local_controller s \<and> role_switch_available p \<and> \<not> cn_paused s \<and>
                         \<not> is_transitioning (cn_coordinator s)
                      then request_peer_control p s else ret s)
      in if \<not> cn_capture s then ret s
         else (case event of
             Activated e position \<Rightarrow>
               if allowed s
               then send (frame_control (cn_epoch s) (EnterRemote e position)) (ret (s\<lparr>cn_input_active := True\<rparr>))
               else ret s
           | CapturedInput input \<Rightarrow> if allowed s then send (frame_input (cn_epoch s) input) (ret s) else ret s
           | Deactivated \<Rightarrow> send (keys_up_frame s) (ret (s\<lparr>cn_input_active := False\<rparr>))
           | EmergencyReleased \<Rightarrow> send_lossy (keys_up_frame s) (ret (s\<lparr>cn_input_active := False\<rparr>))
           | LayoutChanged \<Rightarrow>
               (let s1 = s\<lparr>cn_input_active := False\<rparr>; rearm = (\<lambda>s2. rearm_if_allowed env s2 ret)
                in if is_transitioning (cn_coordinator s1) then abort_handover False LAYOUT_CHANGED s1 rearm
                   else rearm s1)
           | BackendFailed error \<Rightarrow>
               send_lossy (keys_up_frame s) (lost (s\<lparr>cn_capture := False, cn_input_active := False\<rparr>))
           | CaptureGone \<Rightarrow> lost (s\<lparr>cn_capture := False, cn_input_active := False\<rparr>)))"

definition connector_audio_started :: "u64 \<Rightarrow> string option \<Rightarrow> connector \<Rightarrow> connector prog" where
  "connector_audio_started generation error s =
     (if \<not> cn_audio_task s then ret s
      else if generation \<noteq> cn_audio_generation s then act_if (error = None) StopAudioSender (ret s)
      else (let s1 = s\<lparr>cn_audio_task := False\<rparr> in
            case error of
              None \<Rightarrow> send (audio_state_frame AudioStreaming None) (ret (s1\<lparr>cn_audio_sender := True\<rparr>))
            | Some detail \<Rightarrow> send (audio_state_frame AudioError (Some detail)) (ret s1)))"

section \<open>The tray\<close>

definition connector_toggle_forwarding :: "connector_env \<Rightarrow> connector \<Rightarrow> connector prog" where
  "connector_toggle_forwarding env s =
     (if cn_paused s \<or> is_transitioning (cn_coordinator s) \<or>
         rs_controller_fingerprint (coordinator_state (cn_coordinator s)) = None
      then ret s
      else (let enabled = (\<not> cn_forwarding s);
                s1 = s\<lparr>cn_forwarding := enabled, cn_input_active := False\<rparr>;
                announce = (\<lambda>s. send (frame_control (cn_epoch s) (SetInputForwarding enabled)) (ret s))
            in if cn_local_controller s1
               then if enabled then arm_capture env s1 announce else disarm_capture env s1 announce
               else if \<not> enabled then act KeysUp (announce s1) else announce s1))"

definition connector_set_controller ::
  "session_peer \<Rightarrow> connector_env \<Rightarrow> controller_choice \<Rightarrow> connector \<Rightarrow> connector prog" where
  "connector_set_controller p env choice s =
     (let requested = (case choice of ChooseLocal \<Rightarrow> sp_local p | ChoosePeer \<Rightarrow> sp_peer p)
      in if may_switch p requested s then begin_role_switch p env requested s else ret s)"

definition connector_set_audio ::
  "session_peer \<Rightarrow> connector_env \<Rightarrow> audio_choice \<Rightarrow> connector \<Rightarrow> connector prog" where
  "connector_set_audio p env choice s =
     (let change = (\<lambda>source. change_audio_source p env source
            (\<lambda>s1. offer_if (source = Some (sp_local p) \<and> \<not> cn_paused s1) env (ret s1)) s)
      in case choice of
           AudioOff \<Rightarrow> change None
         | AudioLocal \<Rightarrow> if sp_audio_playback p \<and> sp_audio_route p then change (Some (sp_local p)) else ret s
         | AudioPeer \<Rightarrow> if sp_audio_capture p then change (Some (sp_peer p)) else ret s)"

text \<open>Pausing, by the tray or by the peer.\<close>

definition pause_session :: "connector \<Rightarrow> (connector \<Rightarrow> connector prog) \<Rightarrow> connector prog" where
  "pause_session s k =
     act (StorePause True) (release_capture s
       (act KeysUp (connector_drop_audio (s\<lparr>cn_paused := True, cn_gate := gate_suspend (cn_gate s)\<rparr>) k)))"

definition connector_disconnect :: "connector \<Rightarrow> connector prog" where
  "connector_disconnect s =
     (if is_transitioning (cn_coordinator s) then ret s
      else (case set_paused (cn_coordinator s) True of
              (Inl _, _) \<Rightarrow> stop (ExitFault RoleFault)
            | (Inr _, coordinator) \<Rightarrow>
                pause_session (s\<lparr>cn_coordinator := coordinator\<rparr>)
                  (\<lambda>s1. send_lossy (FAudio (Stop StopUserRequest)) (send (FRole (SetPaused True)) (ret s1)))))"

definition connector_reconnect :: "session_peer \<Rightarrow> connector_env \<Rightarrow> connector \<Rightarrow> connector prog" where
  "connector_reconnect p env s =
     (case set_paused (cn_coordinator s) False of
        (Inl _, _) \<Rightarrow> stop (ExitFault RoleFault)
      | (Inr _, coordinator) \<Rightarrow>
          (let s1 = s\<lparr>cn_coordinator := coordinator, cn_paused := False\<rparr>
           in act (StorePause False) (send (FRole (SetPaused False))
                (send_audio_route p s1
                  (offer_if (cn_audio_source s1 = Some (sp_local p)) env
                    (if cn_local_controller s1 \<and> cn_forwarding s1 then arm_capture env s1 ret else ret s1))))))"

fun connector_tray :: "session_peer \<Rightarrow> connector_env \<Rightarrow> tray_command \<Rightarrow> connector \<Rightarrow> connector prog" where
  "connector_tray p env OpenSettings s = ret s"
| "connector_tray p env AddPhone s = ret s"
| "connector_tray p env ArmPairing s = ret s"
| "connector_tray p env TrayQuit s = stop ExitQuit"
| "connector_tray p env Disconnect s = connector_disconnect s"
| "connector_tray p env Reconnect s = connector_reconnect p env s"
| "connector_tray p env (SetController choice) s = connector_set_controller p env choice s"
| "connector_tray p env ToggleInputForwarding s = connector_toggle_forwarding env s"
| "connector_tray p env (SetAudio choice) s = connector_set_audio p env choice s"

definition connector_return :: "u64 \<Rightarrow> control_event \<Rightarrow> connector \<Rightarrow> connector prog" where
  "connector_return generation control s =
     (if \<not> watcher_accepts (cn_watcher s) generation then ret s
      else if cn_local_controller s \<or> \<not> cn_forwarding s \<or> cn_paused s \<or> \<not> gate_accepts_input (cn_gate s)
      then ret (s\<lparr>cn_watcher := watcher_retry_release (cn_watcher s)\<rparr>)
      else (let s1 = s\<lparr>cn_watcher := watcher_disarm (cn_watcher s), cn_gate := gate_suspend (cn_gate s)\<rparr>
            in act KeysUp (send (frame_control (cn_epoch s1) control) (ret s1))))"

section \<open>Frames\<close>

definition connector_input :: "connector_env \<Rightarrow> input_frame \<Rightarrow> connector \<Rightarrow> connector prog" where
  "connector_input env input s =
     (if if_role_epoch input = cn_epoch s \<and> \<not> cn_local_controller s \<and> cn_forwarding s \<and> \<not> cn_paused s
      then if if_event input = AllKeysUp then attempt KeysUp (ev_keys_up_ok env) InjectorFailed (ret s)
           else if \<not> gate_accepts_input (cn_gate s) then ret s
           else attempt (Inject (if_event input)) (ev_inject_ok env) InjectorFailed
             (ret (case if_event input of
                     PointerMotion _ _ \<Rightarrow> s\<lparr>cn_watcher := watcher_note_motion (cn_watcher s)\<rparr>
                   | _ \<Rightarrow> s))
      else ret s)"

definition connector_forwarding :: "connector_env \<Rightarrow> bool \<Rightarrow> connector \<Rightarrow> connector prog" where
  "connector_forwarding env enabled s =
     (let s1 = s\<lparr>cn_forwarding := enabled, cn_input_active := False\<rparr>
      in if cn_local_controller s1
         then if enabled then (if \<not> cn_paused s1 then arm_capture env s1 ret else ret s1)
              else disarm_capture env s1 ret
         else if \<not> enabled then act KeysUp (ret (s1\<lparr>cn_gate := gate_suspend (cn_gate s1)\<rparr>))
         else ret s1)"

definition connector_control :: "session_peer \<Rightarrow> connector_env \<Rightarrow> control_frame \<Rightarrow> connector \<Rightarrow> connector prog" where
  "connector_control p env control s =
     (if cf_role_epoch control \<noteq> cn_epoch s then ret s
      else (case cf_event control of
              LeaveRemote e position \<Rightarrow>
                if cn_local_controller s
                then send (keys_up_frame s)
                  (let s1 = s\<lparr>cn_input_active := False\<rparr>
                   in if cn_capture s
                      then attempt (CaptureRelease
                          (case sp_screen p of
                             Some i \<Rightarrow> if si_outputs i \<noteq> [] then Some (e, position) else None
                           | None \<Rightarrow> None)) (ev_release_ok env) CaptureFailed (ret s1)
                      else ret s1)
                else ret s
            | ReleaseToLocal _ \<Rightarrow>
                if cn_local_controller s
                then (let s1 = s\<lparr>cn_input_active := False\<rparr>
                      in if cn_capture s
                         then attempt (CaptureRelease None) (ev_release_ok env) CaptureFailed (ret s1)
                         else ret s1)
                else ret s
            | EnterRemote e position \<Rightarrow>
                if \<not> cn_local_controller s
                then ret (s\<lparr>cn_gate := gate_observe_control (cn_gate s) (EnterRemote e position),
                            cn_watcher := watcher_record_control (EnterRemote e position) (cn_watcher s)\<rparr>)
                else ret s
            | SetInputForwarding enabled \<Rightarrow> connector_forwarding env enabled s))"

section \<open>Audio\<close>

definition connector_audio_start ::
  "session_peer \<Rightarrow> u16 \<Rightarrow> bytes \<Rightarrow> bytes \<Rightarrow> bytes \<Rightarrow> audio_codec \<Rightarrow> u16 \<Rightarrow> connector \<Rightarrow> connector prog" where
  "connector_audio_start p udp_port session_id session_salt session_key codec frame_ms s =
     (if cn_audio_source s \<noteq> Some (sp_local p) \<or> udp_port = 0 \<or> codec \<noteq> PcmS16Stereo48Khz \<or> frame_ms \<noteq> FRAME_MS
      then ret s
      else act_if (cn_audio_sender s) StopAudioSender
        (let generation = cn_audio_generation s + 1
         in act (StartAudioTask generation session_id session_salt session_key udp_port)
              (ret (s\<lparr>cn_audio_sender := False, cn_audio_generation := generation, cn_audio_task := True\<rparr>))))"

definition connector_audio_offer ::
  "session_peer \<Rightarrow> connector_env \<Rightarrow> u16 \<Rightarrow> audio_codec list \<Rightarrow> connector \<Rightarrow> connector prog" where
  "connector_audio_offer p env udp_port codecs s =
     (if cn_audio_source s \<noteq> Some (sp_peer p) \<or> PcmS16Stereo48Khz \<notin> set codecs then ret s
      else (case ev_socket env of
              None \<Rightarrow> stop (ExitFault NoSocket)
            | Some port \<Rightarrow>
                (case ev_secrets env of (session_id, session_salt, session_key) \<Rightarrow>
                   send (FAudio (Start port session_id session_salt session_key PcmS16Stereo48Khz FRAME_MS
                       (sp_jitter_target_ms p)))
                     (act (StartAudioReceiver udp_port)
                       (case ev_audio_error env of
                          None \<Rightarrow> send (audio_state_frame AudioStreaming None) (ret (s\<lparr>cn_audio_receiver := True\<rparr>))
                        | Some e \<Rightarrow> send (audio_state_frame AudioError (Some e)) (ret s))))))"

definition valid_source :: "session_peer \<Rightarrow> string option \<Rightarrow> bool" where
  "valid_source p source =
     (case source of
        None \<Rightarrow> True
      | Some fp \<Rightarrow> fp = sp_local p \<and> sp_audio_playback p \<and> sp_audio_route p \<or> fp = sp_peer p \<and> sp_audio_capture p)"

fun connector_audio :: "session_peer \<Rightarrow> connector_env \<Rightarrow> audio_control \<Rightarrow> connector \<Rightarrow> connector prog" where
  "connector_audio p env (RequestRoute source) s =
     (if valid_source p source
      then change_audio_source p env source
        (\<lambda>s1. offer_if (source = Some (sp_local p) \<and> \<not> cn_paused s1) env (ret s1)) s
      else send_audio_route p s (ret s))"
| "connector_audio p env (Offer udp_port codecs) s = connector_audio_offer p env udp_port codecs s"
| "connector_audio p env (Start udp_port session_id session_salt session_key codec frame_ms jitter) s =
     connector_audio_start p udp_port session_id session_salt session_key codec frame_ms s"
| "connector_audio p env (Stop reason) s = connector_drop_audio s ret"
| "connector_audio p env (SetEnabled enabled) s =
     change_audio_source p env (if enabled then Some (sp_peer p) else None) ret s"
| "connector_audio p env (SetRoute source) s = ret s"
| "connector_audio p env (AudioState state detail) s = ret s"

section \<open>Roles\<close>

text \<open>The peer's readiness decides the handover. A commit is in force at once; its controller is saved when the
  peer confirms that it applied it.\<close>

definition connector_ready ::
  "session_peer \<Rightarrow> connector_env \<Rightarrow> u64 \<Rightarrow> bool \<Rightarrow> bool \<Rightarrow> string option \<Rightarrow> connector \<Rightarrow> connector prog" where
  "connector_ready p env epoch capture inject detail s =
     (case cn_readiness s of
        None \<Rightarrow> ret s
      | Some local \<Rightarrow>
          (case finish_ready (cn_coordinator s) epoch (rd_capture local) (rd_inject local) capture inject
                  (case detail of Some d \<Rightarrow> Some d | None \<Rightarrow> rd_detail local) of
             (Inl (UnexpectedEpoch _ _), _) \<Rightarrow> ret (s\<lparr>cn_deadline := Some (ev_now env + ROLE_DEADLINE)\<rparr>)
           | (Inl _, _) \<Rightarrow> stop (ExitFault RoleFault)
           | (Inr decision, coordinator) \<Rightarrow>
               (let s1 = s\<lparr>cn_coordinator := coordinator, cn_readiness := None, cn_deadline := None\<rparr> in
                case decision of
                  AbortDecision aborted \<Rightarrow>
                    send (FRole (Abort aborted)) (rearm_if_allowed env s1 ret)
                | CommitDecision commit \<Rightarrow>
                    (case rs_controller_fingerprint commit of
                       None \<Rightarrow> stop (ExitFault RoleFault)
                     | Some controller \<Rightarrow>
                         send (FRole (Commit commit))
                           (act KeysUp (rearm_if_allowed env
                             (s1\<lparr>cn_persist := Some (rs_role_epoch commit, controller),
                                 cn_epoch := rs_role_epoch commit,
                                 cn_local_controller := (controller = sp_local p),
                                 cn_gate := gate_suspend (cn_gate s1)\<rparr>) ret))))))"

definition connector_applied :: "connector_env \<Rightarrow> u64 \<Rightarrow> connector \<Rightarrow> connector prog" where
  "connector_applied env epoch s =
     (case cn_persist s of
        None \<Rightarrow> ret s
      | Some (expected, controller) \<Rightarrow>
          if epoch \<noteq> expected \<or> epoch \<noteq> cn_epoch s then ret s
          else attempt (SaveRole controller) (ev_save_ok env) SaveFailed (ret (s\<lparr>cn_persist := None\<rparr>)))"

definition connector_set_paused :: "session_peer \<Rightarrow> connector_env \<Rightarrow> bool \<Rightarrow> connector \<Rightarrow> connector prog" where
  "connector_set_paused p env paused s =
     (if is_transitioning (cn_coordinator s) then ret s
      else (case set_paused (cn_coordinator s) paused of
              (Inl _, _) \<Rightarrow> stop (ExitFault RoleFault)
            | (Inr _, coordinator) \<Rightarrow>
                (let s1 = s\<lparr>cn_coordinator := coordinator\<rparr>
                 in if paused then pause_session s1 (\<lambda>s2. send (FRole (SetPaused True)) (ret s2))
                    else (let s2 = s1\<lparr>cn_paused := False\<rparr>;
                              announce = (\<lambda>s3. send (FRole (SetPaused False))
                                (send_audio_route p s3
                                  (offer_if (cn_audio_source s3 = Some (sp_local p)) env (ret s3))))
                          in act (StorePause False)
                               (if cn_local_controller s2 \<and> cn_forwarding s2 then arm_capture env s2 announce
                                else announce s2)))))"

fun connector_role :: "session_peer \<Rightarrow> connector_env \<Rightarrow> role_event \<Rightarrow> connector \<Rightarrow> connector prog" where
  "connector_role p env (RoleRequest fp) s =
     (if may_switch p fp s \<and> (fp = sp_local p \<or> fp = sp_peer p) then begin_role_switch p env fp s else ret s)"
| "connector_role p env (Ready epoch capture inject detail) s = connector_ready p env epoch capture inject detail s"
| "connector_role p env (Applied epoch) s = connector_applied env epoch s"
| "connector_role p env (SetPaused paused) s = connector_set_paused p env paused s"
| "connector_role p env (SessionState state) s = ret s"
| "connector_role p env (Prepare proposal) s = ret s"
| "connector_role p env (Commit commit) s = ret s"
| "connector_role p env (Abort aborted) s = ret s"

section \<open>The loop\<close>

fun connector_handle :: "session_peer \<Rightarrow> connector_env \<Rightarrow> frame \<Rightarrow> connector \<Rightarrow> connector prog" where
  "connector_handle p env (FNotificationSync event) s = act (HandleNotification event) (ret s)"
| "connector_handle p env (FHeartbeat heartbeat) s =
     (case incoming (cn_ping s) heartbeat (ev_now env) of
        (Some echo, ping) \<Rightarrow> send (FHeartbeat echo) (ret (s\<lparr>cn_ping := ping\<rparr>))
      | (None, ping) \<Rightarrow> ret (s\<lparr>cn_ping := ping\<rparr>))"
| "connector_handle p env (FClipboard event) s =
     (if cn_paused s then ret s
      else attempt (HandleClipboard event) (ce_clipboard_ok env) ClipboardFailed (ret s))"
| "connector_handle p env (FInput input) s = connector_input env input s"
| "connector_handle p env (FControl control) s = connector_control p env control s"
| "connector_handle p env (FRole event) s = connector_role p env event s"
| "connector_handle p env (FAudio control) s = connector_audio p env control s"
| "connector_handle p env (FError e) s = stop (ExitFault (PeerError (re_code e @ '': '' @ re_message e)))"
| "connector_handle p env _ s = ret s"

text \<open>Every frame counts as a sign of life, and ends a release for silence.\<close>

definition connector_frame :: "session_peer \<Rightarrow> connector_env \<Rightarrow> frame \<Rightarrow> connector \<Rightarrow> connector prog" where
  "connector_frame p env frame s =
     (let s1 = s\<lparr>cn_liveness := observe_authenticated_frame (cn_liveness s) (ev_now env)\<rparr>
      in if cn_released s1 \<and> allowed s1 \<and> \<not> is_transitioning (cn_coordinator s1)
         then arm_capture env s1 (\<lambda>s2. connector_handle p env frame (s2\<lparr>cn_released := False\<rparr>))
         else connector_handle p env frame s1)"

datatype connector_event =
    OnReplaced
  | OnWatchdog bool "string option"
  | OnHeartbeat
  | OnPortal capture_event
  | OnAudioStarted u64 "string option"
  | OnTray tray_command
  | OnClipboardChanged
  | OnClipboardStopped
  | OnClipboardRead
  | OnReturn u64 control_event
  | OnNotification notification_sync
  | OnFrame frame
  | OnFrameEnd
  | OnChunk bool \<comment> \<open>whether a transfer is going out\<close>

fun connector_program :: "session_peer \<Rightarrow> connector_env \<Rightarrow> connector_event \<Rightarrow> connector \<Rightarrow> connector prog" where
  "connector_program p env OnReplaced s = stop ExitReplaced"
| "connector_program p env (OnWatchdog finished failure) s = connector_watchdog env finished failure s"
| "connector_program p env OnHeartbeat s = connector_heartbeat env s"
| "connector_program p env (OnPortal event) s = connector_portal p env event s"
| "connector_program p env (OnAudioStarted generation error) s = connector_audio_started generation error s"
| "connector_program p env (OnTray command) s = connector_tray p env command s"
| "connector_program p env OnClipboardChanged s =
     (if cn_clipboard_watched s \<and> \<not> cn_paused s then act RequestClipboardRead (ret s) else ret s)"
| "connector_program p env OnClipboardStopped s = ret (s\<lparr>cn_clipboard_watched := False\<rparr>)"
| "connector_program p env OnClipboardRead s = (if cn_paused s then ret s else act OfferClipboard (ret s))"
| "connector_program p env (OnReturn generation control) s = connector_return generation control s"
| "connector_program p env (OnNotification event) s = send (FNotificationSync event) (ret s)"
| "connector_program p env (OnFrame frame) s = connector_frame p env frame s"
| "connector_program p env OnFrameEnd s = stop (ExitFault ReaderEnded)"
| "connector_program p env (OnChunk sending) s =
     (if \<not> cn_paused s \<and> sending
      then attempt SendClipboardChunk (ce_clipboard_ok env) ConnectionFailed (ret s) else ret s)"

type_synonym connector_input = "connector_env \<times> nat \<times> connector_event"

definition connector_step ::
  "session_peer \<Rightarrow> connector \<Rightarrow> connector_input \<Rightarrow> connector session_outcome \<times> effect list" where
  "connector_step p s i = connector_program p (fst i) (snd (snd i)) s (fst (snd i))"

definition connector_run ::
  "session_peer \<Rightarrow> connector \<Rightarrow> connector_input list \<Rightarrow> connector session_outcome \<times> effect list" where
  "connector_run p = loop_run (connector_step p)"

text \<open>What follows the loop, whatever ended it: the epoch last in force, whether the connection still takes a
  frame, and whether a backend and an audio sender are left.\<close>

definition connector_cleanup :: "u64 \<Rightarrow> bool \<Rightarrow> bool \<Rightarrow> bool \<Rightarrow> effect list" where
  "connector_cleanup epoch writes capture sender =
     (if writes then [Send (frame_input epoch AllKeysUp)] else []) @
     (if capture then [CaptureRelease None, CaptureDisarm] else []) @ (if sender then [StopAudioSender] else []) @
     [KeysUp]"

end
