(* ===== verification/ConnectorSafety.thy ===== *)
theory ConnectorSafety
  imports ConnectorSession
begin

text \<open>
  What holds of the dialling computer's session: its assignment is the coordinator's, nothing the peer pressed stays
  held, and every handover ends.
\<close>

named_theorems connector_defs \<open>the handlers of the session\<close>

lemmas [connector_defs] = arm_capture_def disarm_capture_def release_capture_def connector_drop_audio_def
  send_audio_route_def send_audio_offer_def offer_if_def change_audio_source_def request_peer_control_def
  begin_role_switch_def abort_handover_def rearm_if_allowed_def check_audio_def connector_poll_def
  connector_watchdog_def connector_heartbeat_def connector_portal_def connector_audio_started_def
  connector_toggle_forwarding_def connector_set_controller_def connector_set_audio_def pause_session_def
  connector_disconnect_def connector_reconnect_def connector_return_def connector_input_def
  connector_forwarding_def connector_control_def connector_audio_start_def connector_audio_offer_def
  connector_ready_def connector_applied_def connector_set_paused_def connector_frame_def

section \<open>The assignment\<close>

definition assignment_ok :: "session_peer \<Rightarrow> connector \<Rightarrow> bool" where
  "assignment_ok p s \<longleftrightarrow>
     (let c = cn_coordinator s in
      coordinator_wf c \<and> rc_connector_fingerprint c = sp_local p \<and> rc_listener_fingerprint c = sp_peer p \<and>
      cn_epoch s = rs_role_epoch (rc_stable c) \<and>
      cn_local_controller s = (rs_controller_fingerprint (rc_stable c) = Some (sp_local p)) \<and>
      cn_paused s = rs_paused (rc_stable c) \<and>
      (cn_readiness s \<noteq> None) = (rc_pending c \<noteq> None) \<and>
      (cn_deadline s \<noteq> None) = (rc_pending c \<noteq> None) \<and>
      (rc_pending c \<noteq> None \<longrightarrow> \<not> cn_paused s))"

lemma assignment_ok_updates [simp]:
  "assignment_ok p (s\<lparr>cn_liveness := x1\<rparr>) = assignment_ok p s"
  "assignment_ok p (s\<lparr>cn_gate := x2\<rparr>) = assignment_ok p s"
  "assignment_ok p (s\<lparr>cn_ping := x3\<rparr>) = assignment_ok p s"
  "assignment_ok p (s\<lparr>cn_heartbeat_sequence := x4\<rparr>) = assignment_ok p s"
  "assignment_ok p (s\<lparr>cn_heartbeat_at := x5\<rparr>) = assignment_ok p s"
  "assignment_ok p (s\<lparr>cn_watcher := x6\<rparr>) = assignment_ok p s"
  "assignment_ok p (s\<lparr>cn_forwarding := b1\<rparr>) = assignment_ok p s"
  "assignment_ok p (s\<lparr>cn_persist := x7\<rparr>) = assignment_ok p s"
  "assignment_ok p (s\<lparr>cn_capture := b2\<rparr>) = assignment_ok p s"
  "assignment_ok p (s\<lparr>cn_input_active := b3\<rparr>) = assignment_ok p s"
  "assignment_ok p (s\<lparr>cn_released := b4\<rparr>) = assignment_ok p s"
  "assignment_ok p (s\<lparr>cn_audio_source := x8\<rparr>) = assignment_ok p s"
  "assignment_ok p (s\<lparr>cn_audio_sender := b5\<rparr>) = assignment_ok p s"
  "assignment_ok p (s\<lparr>cn_audio_receiver := b6\<rparr>) = assignment_ok p s"
  "assignment_ok p (s\<lparr>cn_audio_task := b7\<rparr>) = assignment_ok p s"
  "assignment_ok p (s\<lparr>cn_audio_generation := x9\<rparr>) = assignment_ok p s"
  "assignment_ok p (s\<lparr>cn_clipboard_watched := b8\<rparr>) = assignment_ok p s"
  by (simp_all add: assignment_ok_def)

lemmas assignment_parts = assignment_ok_def coordinator_wf_def in_pair_def Let_def

text \<open>The four calls that move the coordinator, with what the handlers do to the rest of the state.\<close>

lemma assignment_abort_ok:
  assumes "assignment_ok p s" "abort (cn_coordinator s) detail = (Ok a, c)"
  shows "assignment_ok p (s\<lparr>cn_coordinator := c, cn_deadline := None, cn_readiness := None\<rparr>)"
  using assms by (auto simp: assignment_parts abort_def split: option.splits)

lemma assignment_prepare_ok:
  assumes "assignment_ok p s" "\<not> cn_paused s" "prepare (cn_coordinator s) fp = (Ok q, c)"
  shows "assignment_ok p (s\<lparr>cn_coordinator := c, cn_readiness := Some r, cn_deadline := Some d\<rparr>)"
  using assms by (auto simp: assignment_parts prepare_def split: option.splits if_splits)

lemma assignment_pause_ok:
  assumes "assignment_ok p s" "set_paused (cn_coordinator s) b = (Ok q, c)"
  shows "assignment_ok p (s\<lparr>cn_coordinator := c, cn_paused := b\<rparr>)"
  using assms by (auto simp: assignment_parts set_paused_def split: if_splits)

lemma assignment_late_ok:
  assumes "assignment_ok p s" "cn_readiness s \<noteq> None"
  shows "assignment_ok p (s\<lparr>cn_deadline := Some d\<rparr>)"
  using assms by (auto simp: assignment_ok_def Let_def)

lemma assignment_abort_decision:
  assumes "assignment_ok p s" "finish_ready (cn_coordinator s) e lc li rc ri d = (Ok (AbortDecision a), c)"
  shows "assignment_ok p (s\<lparr>cn_coordinator := c, cn_readiness := None, cn_deadline := None\<rparr>)"
  using assms by (auto simp: assignment_parts finish_ready_def split: option.splits if_splits)

lemma assignment_commit_decision:
  assumes "assignment_ok p s" "finish_ready (cn_coordinator s) e lc li rc ri d = (Ok (CommitDecision q), c)"
    "rs_controller_fingerprint q = Some fp"
  shows "assignment_ok p (s\<lparr>cn_coordinator := c, cn_readiness := None, cn_deadline := None,
    cn_epoch := rs_role_epoch q, cn_local_controller := (fp = sp_local p)\<rparr>)"
  using assms by (auto simp: assignment_parts finish_ready_def split: option.splits if_splits)

section \<open>Steps shared by the handlers\<close>

lemma wp_arm_capture [simp]:
  "wp P (arm_capture env s k) =
     (cn_capture s \<longrightarrow> ev_arm env = None \<longrightarrow> wp (\<lambda>s' acts. P s' (CaptureArm # acts)) (k s))"
  by (simp add: arm_capture_def)

lemma wp_rearm [simp]:
  "wp P (rearm_if_allowed env s k) =
     (if allowed s then cn_capture s \<longrightarrow> ev_arm env = None \<longrightarrow> wp (\<lambda>s' acts. P s' (CaptureArm # acts)) (k s)
      else wp P (k s))"
  by (simp add: rearm_if_allowed_def)

lemma wp_abort_handover:
  assumes "\<And>a c. abort (cn_coordinator s) detail = (Ok a, c) \<Longrightarrow>
      wp (\<lambda>s' acts. P s' (Send (FRole (Abort a)) # acts)) (k (s\<lparr>cn_coordinator := c, cn_deadline := None, cn_readiness := None\<rparr>))"
    and "\<And>a c. abort (cn_coordinator s) detail = (Ok a, c) \<Longrightarrow>
      wp P (k (s\<lparr>cn_coordinator := c, cn_deadline := None, cn_readiness := None\<rparr>))"
  shows "wp P (abort_handover lossy detail s k)"
  using assms by (auto simp: abort_handover_def Let_def split: sum.split prod.split)

lemma wp_ready:
  assumes "cn_readiness s = None \<Longrightarrow> P s []"
    and "\<And>d. cn_readiness s \<noteq> None \<Longrightarrow> d = Some (ev_now env + ROLE_DEADLINE) \<Longrightarrow> P (s\<lparr>cn_deadline := d\<rparr>) []"
    and "\<And>local dt a c. cn_readiness s = Some local \<Longrightarrow>
      finish_ready (cn_coordinator s) e (rd_capture local) (rd_inject local) rc ri dt = (Ok (AbortDecision a), c) \<Longrightarrow>
      wp (\<lambda>s' acts. P s' (Send (FRole (Abort a)) # acts))
        (rearm_if_allowed env (s\<lparr>cn_coordinator := c, cn_readiness := None, cn_deadline := None\<rparr>) ret)"
    and "\<And>local dt q c fp. cn_readiness s = Some local \<Longrightarrow>
      finish_ready (cn_coordinator s) e (rd_capture local) (rd_inject local) rc ri dt = (Ok (CommitDecision q), c) \<Longrightarrow>
      rs_controller_fingerprint q = Some fp \<Longrightarrow>
      wp (\<lambda>s' acts. P s' (Send (FRole (Commit q)) # KeysUp # acts))
        (rearm_if_allowed env (s\<lparr>cn_coordinator := c, cn_readiness := None, cn_deadline := None,
          cn_persist := Some (rs_role_epoch q, fp), cn_epoch := rs_role_epoch q,
          cn_local_controller := (fp = sp_local p), cn_gate := gate_suspend (cn_gate s)\<rparr>) ret)"
  shows "wp P (connector_ready p env e rc ri detail s)"
proof (cases "cn_readiness s")
  case None
  then show ?thesis
    using assms(1) by (simp add: connector_ready_def)
next
  case (Some local)
  define dt where "dt = (case detail of None \<Rightarrow> rd_detail local | Some d \<Rightarrow> Some d)"
  obtain r c where f: "finish_ready (cn_coordinator s) e (rd_capture local) (rd_inject local) rc ri dt = (r, c)"
    by fastforce
  show ?thesis
  proof (cases r)
    case (Inl err)
    then show ?thesis
      using assms(2) Some f by (simp add: connector_ready_def dt_def split: role_state_error.split)
  next
    case (Inr decision)
    show ?thesis
      using assms(3) [OF Some, of dt _ c] assms(4) [OF Some, of dt _ c] Some f Inr
      by (cases decision) (simp_all add: connector_ready_def dt_def Let_def del: wp_rearm split: option.split)
  qed
qed

lemma wp_check_audio:
  assumes "\<And>sender receiver acts. P (s\<lparr>cn_audio_sender := sender, cn_audio_receiver := receiver\<rparr>) acts"
  shows "wp P (check_audio finished failure s)"
proof -
  have all: "P s acts" "P (s\<lparr>cn_audio_sender := b1\<rparr>) acts" "P (s\<lparr>cn_audio_receiver := b2\<rparr>) acts"
    "P (s\<lparr>cn_audio_sender := b1, cn_audio_receiver := b2\<rparr>) acts" for b1 b2 acts
    using assms [where sender = "cn_audio_sender s" and receiver = "cn_audio_receiver s" and acts = acts]
      assms [where sender = b1 and receiver = "cn_audio_receiver s" and acts = acts]
      assms [where sender = "cn_audio_sender s" and receiver = b2 and acts = acts]
      assms [where sender = b1 and receiver = b2 and acts = acts] by simp_all
  show ?thesis
    by (simp add: check_audio_def Let_def all split: option.split)
qed

section \<open>Invariants of the state\<close>

text \<open>
  A predicate on the state that looks only at the roles is kept by every event if it is kept by what the handlers do
  with the coordinator: pause, propose, abort, decline, commit, and save. The deadline of a proposal is counted from
  the time of the step.
\<close>

locale connector_invariant =
  fixes p :: session_peer and env :: connector_env and Q :: "connector \<Rightarrow> bool"
  assumes irrelevant [simp]:
    "\<And>s x. Q (s\<lparr>cn_liveness := x\<rparr>) = Q s"
    "\<And>s x. Q (s\<lparr>cn_gate := x\<rparr>) = Q s"
    "\<And>s x. Q (s\<lparr>cn_ping := x\<rparr>) = Q s"
    "\<And>s x. Q (s\<lparr>cn_heartbeat_sequence := x\<rparr>) = Q s"
    "\<And>s x. Q (s\<lparr>cn_heartbeat_at := x\<rparr>) = Q s"
    "\<And>s x. Q (s\<lparr>cn_watcher := x\<rparr>) = Q s"
    "\<And>s x. Q (s\<lparr>cn_forwarding := x\<rparr>) = Q s"
    "\<And>s x. Q (s\<lparr>cn_capture := x\<rparr>) = Q s"
    "\<And>s x. Q (s\<lparr>cn_input_active := x\<rparr>) = Q s"
    "\<And>s x. Q (s\<lparr>cn_released := x\<rparr>) = Q s"
    "\<And>s x. Q (s\<lparr>cn_audio_source := x\<rparr>) = Q s"
    "\<And>s x. Q (s\<lparr>cn_audio_sender := x\<rparr>) = Q s"
    "\<And>s x. Q (s\<lparr>cn_audio_receiver := x\<rparr>) = Q s"
    "\<And>s x. Q (s\<lparr>cn_audio_task := x\<rparr>) = Q s"
    "\<And>s x. Q (s\<lparr>cn_audio_generation := x\<rparr>) = Q s"
    "\<And>s x. Q (s\<lparr>cn_clipboard_watched := x\<rparr>) = Q s"
    and pauses: "\<And>s b q c. Q s \<Longrightarrow> set_paused (cn_coordinator s) b = (Ok q, c) \<Longrightarrow>
      Q (s\<lparr>cn_coordinator := c, cn_paused := b\<rparr>)"
    and proposes: "\<And>s fp q c r. Q s \<Longrightarrow> \<not> cn_paused s \<Longrightarrow> prepare (cn_coordinator s) fp = (Ok q, c) \<Longrightarrow>
      Q (s\<lparr>cn_coordinator := c, cn_readiness := Some r, cn_deadline := Some (ev_now env + ROLE_DEADLINE)\<rparr>)"
    and aborts: "\<And>s d a c. Q s \<Longrightarrow> abort (cn_coordinator s) d = (Ok a, c) \<Longrightarrow>
      Q (s\<lparr>cn_coordinator := c, cn_deadline := None, cn_readiness := None\<rparr>)"
    and waits: "\<And>s. Q s \<Longrightarrow> cn_readiness s \<noteq> None \<Longrightarrow> Q (s\<lparr>cn_deadline := Some (ev_now env + ROLE_DEADLINE)\<rparr>)"
    and declines: "\<And>s e lc li rc ri d a c. Q s \<Longrightarrow>
      finish_ready (cn_coordinator s) e lc li rc ri d = (Ok (AbortDecision a), c) \<Longrightarrow>
      Q (s\<lparr>cn_coordinator := c, cn_readiness := None, cn_deadline := None\<rparr>)"
    and commits: "\<And>s e lc li rc ri d q c fp. Q s \<Longrightarrow>
      finish_ready (cn_coordinator s) e lc li rc ri d = (Ok (CommitDecision q), c) \<Longrightarrow>
      rs_controller_fingerprint q = Some fp \<Longrightarrow>
      Q (s\<lparr>cn_coordinator := c, cn_readiness := None, cn_deadline := None,
        cn_persist := Some (rs_role_epoch q, fp), cn_epoch := rs_role_epoch q,
        cn_local_controller := (fp = sp_local p)\<rparr>)"
    and saves: "\<And>s. Q s \<Longrightarrow> Q (s\<lparr>cn_persist := None\<rparr>)"
begin

abbreviation keeps :: "connector prog \<Rightarrow> bool" where
  "keeps k \<equiv> wp (\<lambda>s' acts. Q s') k"

lemma keeps_check_audio [simp]: "Q s \<Longrightarrow> keeps (check_audio finished failure s)"
  by (rule wp_check_audio) simp

lemma keeps_poll [simp]: "Q s \<Longrightarrow> keeps (connector_poll env finished failure s)"
  by (simp add: connector_poll_def release_capture_def Let_def split: prod.split option.split liveness_event.split)

lemma keeps_abort_handover:
  assumes "Q s" "\<And>s'. Q s' \<Longrightarrow> keeps (k s')"
  shows "keeps (abort_handover lossy detail s k)"
  by (rule wp_abort_handover) (use assms aborts in blast)+

lemma keeps_watchdog: "Q s \<Longrightarrow> keeps (connector_watchdog env finished failure s)"
  by (simp add: connector_watchdog_def Let_def keeps_abort_handover)

lemma keeps_portal: "Q s \<Longrightarrow> keeps (connector_portal p' env event s)"
  by (simp add: connector_portal_def request_peer_control_def Let_def keeps_abort_handover split: capture_event.split)

lemma keeps_begin_role_switch:
  assumes "Q s" "\<not> cn_paused s"
  shows "keeps (begin_role_switch p' env requested s)"
proof -
  have "Q (s\<lparr>cn_gate := g, cn_coordinator := c, cn_readiness := Some r, cn_deadline := Some (ev_now env + ROLE_DEADLINE),
      cn_capture := b, cn_input_active := b'\<rparr>)"
    if "prepare (cn_coordinator s) requested = (Ok q, c)" for g c r b b' q
    using proposes [of "s\<lparr>cn_gate := g\<rparr>"] assms that by simp
  then show ?thesis
    by (simp add: begin_role_switch_def release_capture_def Let_def split: prod.split sum.split)
qed

lemma keeps_pause_session:
  assumes "Q (s\<lparr>cn_paused := True\<rparr>)" "\<And>s'. Q s' \<Longrightarrow> keeps (k s')"
  shows "keeps (pause_session s k)"
proof -
  have "Q (s\<lparr>cn_paused := True, cn_gate := g, cn_audio_task := b1, cn_audio_generation := n,
      cn_audio_sender := b2, cn_audio_receiver := b3\<rparr>)" for g b1 n b2 b3
    using assms(1) by simp
  then show ?thesis
    using assms(2) by (simp add: pause_session_def release_capture_def connector_drop_audio_def)
qed

lemma keeps_offer [simp]: "keeps k \<Longrightarrow> keeps (offer_if b env k)"
  by (simp add: offer_if_def send_audio_offer_def split: option.split)

lemma keeps_change_source:
  assumes "Q s" "\<And>s'. Q s' \<Longrightarrow> keeps (k s')"
  shows "keeps (change_audio_source p' env source k s)"
  using assms by (simp add: change_audio_source_def connector_drop_audio_def send_audio_route_def)

lemma keeps_tray: "Q s \<Longrightarrow> keeps (connector_tray p' env command s)"
proof (cases command)
  case Disconnect
  assume "Q s"
  then show ?thesis
    using pauses [of s True]
    by (simp add: Disconnect connector_disconnect_def keeps_pause_session split: prod.split sum.split)
next
  case Reconnect
  assume "Q s"
  then show ?thesis
    using pauses [of s False]
    by (simp add: Reconnect connector_reconnect_def send_audio_route_def Let_def split: prod.split sum.split)
next
  case (SetController choice)
  assume "Q s"
  then show ?thesis
    by (simp add: SetController connector_set_controller_def may_switch_def keeps_begin_role_switch Let_def)
next
  case (SetAudio choice)
  assume "Q s"
  then show ?thesis
    by (simp add: SetAudio connector_set_audio_def keeps_change_source Let_def split: audio_choice.split)
next
  case ToggleInputForwarding
  assume "Q s"
  then show ?thesis
    by (simp add: ToggleInputForwarding connector_toggle_forwarding_def disarm_capture_def Let_def)
qed simp_all

lemma keeps_ready:
  assumes "Q s"
  shows "keeps (connector_ready p env e rc ri detail s)"
proof (rule wp_ready)
  show "Q (s\<lparr>cn_deadline := d\<rparr>)" if "cn_readiness s \<noteq> None" "d = Some (ev_now env + ROLE_DEADLINE)" for d
    using that waits [OF assms] by simp
qed (use assms in \<open>auto simp: declines commits\<close>)

lemma keeps_role: "Q s \<Longrightarrow> keeps (connector_role p env event s)"
proof (cases event)
  case (SetPaused b)
  assume ok: "Q s"
  have "Q (s\<lparr>cn_coordinator := c, cn_paused := b\<rparr>)"
    if "\<exists>q. set_paused (cn_coordinator s) b = (Ok q, c)" for c
    using that pauses [OF ok] by blast
  then show ?thesis
    using ok by (cases b) (simp_all add: SetPaused connector_set_paused_def keeps_pause_session send_audio_route_def Let_def
        split: prod.split sum.split)
next
  case (Applied e)
  assume "Q s"
  then show ?thesis
    by (simp add: Applied connector_applied_def saves split: option.split prod.split)
next
  case (RoleRequest fp)
  assume "Q s"
  then show ?thesis
    by (simp add: RoleRequest may_switch_def keeps_begin_role_switch)
qed (simp_all add: keeps_ready)

lemma keeps_audio: "Q s \<Longrightarrow> keeps (connector_audio p' env control s)"
  by (cases control)
    (simp_all add: keeps_change_source send_audio_route_def connector_audio_offer_def connector_audio_start_def
      connector_drop_audio_def Let_def split: option.split prod.split)

lemma keeps_handle: "Q s \<Longrightarrow> keeps (connector_handle p env frame s)"
proof (cases frame)
  case (FControl control)
  assume "Q s"
  then show ?thesis
    by (simp add: FControl connector_control_def connector_forwarding_def disarm_capture_def Let_def
        split: control_event.split)
next
  case (FInput input)
  assume "Q s"
  then show ?thesis
    by (simp add: FInput connector_input_def split: input_event.split)
next
  case (FHeartbeat hb)
  assume "Q s"
  then show ?thesis
    by (simp add: FHeartbeat split: prod.split option.split)
qed (simp_all add: keeps_role keeps_audio)

lemma keeps_program: "Q s \<Longrightarrow> keeps (connector_program p env event s)"
proof (cases event)
  case (OnFrame frame)
  assume "Q s"
  then show ?thesis
    by (simp add: OnFrame connector_frame_def keeps_handle Let_def)
qed (simp_all add: keeps_tray keeps_portal keeps_watchdog connector_heartbeat_def connector_audio_started_def
  connector_return_def Let_def split: prod.split option.split)

end

lemma wp_step_connector:
  assumes "wp P (connector_program p (fst i) (snd (snd i)) s)" "connector_step p s i = (Continue s', acts)"
  shows "P s' acts"
  using assms by (auto simp: wp_def connector_step_def dest: spec [of _ "fst (snd i)"])

section \<open>The controller to be saved\<close>

text \<open>What waits for the peer's confirmation is the assignment in force.\<close>

definition confirming :: "connector \<Rightarrow> bool" where
  "confirming s \<longleftrightarrow>
     (\<forall>e c. cn_persist s = Some (e, c) \<longrightarrow>
        rs_role_epoch (rc_stable (cn_coordinator s)) = e \<and>
        rs_controller_fingerprint (rc_stable (cn_coordinator s)) = Some c)"

lemma confirming_updates [simp]:
  "confirming (s\<lparr>cn_liveness := x0\<rparr>) = confirming s"
  "confirming (s\<lparr>cn_gate := x1\<rparr>) = confirming s"
  "confirming (s\<lparr>cn_ping := x2\<rparr>) = confirming s"
  "confirming (s\<lparr>cn_heartbeat_sequence := x3\<rparr>) = confirming s"
  "confirming (s\<lparr>cn_heartbeat_at := x4\<rparr>) = confirming s"
  "confirming (s\<lparr>cn_watcher := x5\<rparr>) = confirming s"
  "confirming (s\<lparr>cn_forwarding := x6\<rparr>) = confirming s"
  "confirming (s\<lparr>cn_paused := x7\<rparr>) = confirming s"
  "confirming (s\<lparr>cn_epoch := x8\<rparr>) = confirming s"
  "confirming (s\<lparr>cn_local_controller := x9\<rparr>) = confirming s"
  "confirming (s\<lparr>cn_readiness := x10\<rparr>) = confirming s"
  "confirming (s\<lparr>cn_deadline := x11\<rparr>) = confirming s"
  "confirming (s\<lparr>cn_capture := x12\<rparr>) = confirming s"
  "confirming (s\<lparr>cn_input_active := x13\<rparr>) = confirming s"
  "confirming (s\<lparr>cn_released := x14\<rparr>) = confirming s"
  "confirming (s\<lparr>cn_audio_source := x15\<rparr>) = confirming s"
  "confirming (s\<lparr>cn_audio_sender := x16\<rparr>) = confirming s"
  "confirming (s\<lparr>cn_audio_receiver := x17\<rparr>) = confirming s"
  "confirming (s\<lparr>cn_audio_task := x18\<rparr>) = confirming s"
  "confirming (s\<lparr>cn_audio_generation := x19\<rparr>) = confirming s"
  "confirming (s\<lparr>cn_clipboard_watched := x20\<rparr>) = confirming s"
  by (simp_all add: confirming_def)

lemma confirming_calls:
  "confirming s \<Longrightarrow> set_paused (cn_coordinator s) b = (Ok q, c) \<Longrightarrow> confirming (s\<lparr>cn_coordinator := c\<rparr>)"
  "confirming s \<Longrightarrow> prepare (cn_coordinator s) fp = (Ok q, c) \<Longrightarrow> confirming (s\<lparr>cn_coordinator := c\<rparr>)"
  "confirming s \<Longrightarrow> assignment_ok p s \<Longrightarrow> abort (cn_coordinator s) d = (Ok q, c) \<Longrightarrow>
     confirming (s\<lparr>cn_coordinator := c\<rparr>)"
  "confirming s \<Longrightarrow> assignment_ok p s \<Longrightarrow> finish_ready (cn_coordinator s) e lc li rc ri dt = (Ok (AbortDecision a), c) \<Longrightarrow>
     confirming (s\<lparr>cn_coordinator := c\<rparr>)"
  "finish_ready (cn_coordinator s) e lc li rc ri dt = (Ok (CommitDecision q), c) \<Longrightarrow>
     rs_controller_fingerprint q = Some fp \<Longrightarrow>
     confirming (s\<lparr>cn_coordinator := c, cn_persist := Some (rs_role_epoch q, fp)\<rparr>)"
  by (auto simp: confirming_def assignment_parts set_paused_def prepare_def abort_def finish_ready_def
      split: option.splits if_splits)

lemma confirming_save [simp]: "confirming (s\<lparr>cn_persist := None\<rparr>)"
  by (simp add: confirming_def)

definition role_ok :: "session_peer \<Rightarrow> connector \<Rightarrow> bool" where
  "role_ok p s \<longleftrightarrow> assignment_ok p s \<and> confirming s"

lemma role_ok_updates:
  "role_ok p (s\<lparr>cn_liveness := x0\<rparr>) = role_ok p s"
  "role_ok p (s\<lparr>cn_gate := x1\<rparr>) = role_ok p s"
  "role_ok p (s\<lparr>cn_ping := x2\<rparr>) = role_ok p s"
  "role_ok p (s\<lparr>cn_heartbeat_sequence := x3\<rparr>) = role_ok p s"
  "role_ok p (s\<lparr>cn_heartbeat_at := x4\<rparr>) = role_ok p s"
  "role_ok p (s\<lparr>cn_watcher := x5\<rparr>) = role_ok p s"
  "role_ok p (s\<lparr>cn_forwarding := x6\<rparr>) = role_ok p s"
  "role_ok p (s\<lparr>cn_capture := x7\<rparr>) = role_ok p s"
  "role_ok p (s\<lparr>cn_input_active := x8\<rparr>) = role_ok p s"
  "role_ok p (s\<lparr>cn_released := x9\<rparr>) = role_ok p s"
  "role_ok p (s\<lparr>cn_audio_source := x10\<rparr>) = role_ok p s"
  "role_ok p (s\<lparr>cn_audio_sender := x11\<rparr>) = role_ok p s"
  "role_ok p (s\<lparr>cn_audio_receiver := x12\<rparr>) = role_ok p s"
  "role_ok p (s\<lparr>cn_audio_task := x13\<rparr>) = role_ok p s"
  "role_ok p (s\<lparr>cn_audio_generation := x14\<rparr>) = role_ok p s"
  "role_ok p (s\<lparr>cn_clipboard_watched := x15\<rparr>) = role_ok p s"
  by (simp_all add: role_ok_def)

lemma role_ok_calls:
  "role_ok p s \<Longrightarrow> set_paused (cn_coordinator s) b = (Ok q, c) \<Longrightarrow> role_ok p (s\<lparr>cn_coordinator := c, cn_paused := b\<rparr>)"
  "role_ok p s \<Longrightarrow> \<not> cn_paused s \<Longrightarrow> prepare (cn_coordinator s) fp = (Ok q, c) \<Longrightarrow>
     role_ok p (s\<lparr>cn_coordinator := c, cn_readiness := Some r, cn_deadline := Some t\<rparr>)"
  "role_ok p s \<Longrightarrow> abort (cn_coordinator s) d = (Ok q, c) \<Longrightarrow>
     role_ok p (s\<lparr>cn_coordinator := c, cn_deadline := None, cn_readiness := None\<rparr>)"
  "role_ok p s \<Longrightarrow> finish_ready (cn_coordinator s) e lc li rc ri dt = (Ok (AbortDecision a), c) \<Longrightarrow>
     role_ok p (s\<lparr>cn_coordinator := c, cn_readiness := None, cn_deadline := None\<rparr>)"
  "role_ok p s \<Longrightarrow> cn_readiness s \<noteq> None \<Longrightarrow> role_ok p (s\<lparr>cn_deadline := Some t\<rparr>)"
  "role_ok p s \<Longrightarrow> role_ok p (s\<lparr>cn_persist := None\<rparr>)"
  using assignment_pause_ok [of p s b q c] assignment_prepare_ok [of p s fp q c] assignment_abort_ok [of p s d q c]
    assignment_abort_decision [of p s e lc li rc ri dt a c] assignment_late_ok [of p s]
    confirming_calls(1,2) [where s = s] confirming_calls(3,4) [where s = s and p = p]
  by (simp_all add: role_ok_def)

lemma role_ok_commit:
  assumes "role_ok p s" "finish_ready (cn_coordinator s) e lc li rc ri d = (Ok (CommitDecision q), c)"
    "rs_controller_fingerprint q = Some fp"
  shows "role_ok p (s\<lparr>cn_coordinator := c, cn_readiness := None, cn_deadline := None,
    cn_persist := Some (rs_role_epoch q, fp), cn_epoch := rs_role_epoch q, cn_local_controller := (fp = sp_local p)\<rparr>)"
proof -
  have "confirming (s\<lparr>cn_coordinator := c, cn_readiness := None, cn_deadline := None,
      cn_persist := Some (rs_role_epoch q, fp)\<rparr>)"
    using confirming_calls(5) [OF assms(2,3)] by (simp add: confirming_def)
  moreover have "assignment_ok p (s\<lparr>cn_coordinator := c, cn_readiness := None, cn_deadline := None,
      cn_persist := Some (rs_role_epoch q, fp), cn_epoch := rs_role_epoch q, cn_local_controller := (fp = sp_local p)\<rparr>)"
    using assignment_commit_decision [OF _ assms(2,3), of p] assms(1) by (simp add: role_ok_def) (simp add: assignment_ok_def)
  ultimately show ?thesis
    by (simp add: role_ok_def)
qed

interpretation role_state: connector_invariant p env "role_ok p" for p env
  by unfold_locales (fact role_ok_updates | erule role_ok_calls role_ok_commit; assumption)+

text \<open>A step keeps the deadline, drops it, or counts a new one from its own time.\<close>

definition deadline_from :: "instant option \<Rightarrow> instant \<Rightarrow> connector \<Rightarrow> bool" where
  "deadline_from d now s \<longleftrightarrow> cn_deadline s \<in> {d, None, Some (now + ROLE_DEADLINE)}"

interpretation dated: connector_invariant p env "deadline_from d (ev_now env)" for p env d
  by unfold_locales (simp_all add: deadline_from_def)

interpretation assigned: session_loop "connector_step p" "\<lambda>u _. u" "\<lambda>u s. role_ok p s" for p
  by unfold_locales (metis wp_step_connector role_state.keeps_program)

section \<open>Held keys\<close>

text \<open>Nothing of the peer's input is accepted.\<close>

definition closed_to_peer :: "connector \<Rightarrow> bool" where
  "closed_to_peer s \<longleftrightarrow> cn_paused s \<or> cn_local_controller s \<or> \<not> cn_forwarding s \<or> ig_suspended (cn_gate s)"

definition clean :: "held_input set \<Rightarrow> connector \<Rightarrow> effect list \<Rightarrow> bool" where
  "clean h s acts \<longleftrightarrow> (closed_to_peer s \<longrightarrow> held h acts = {})"

lemmas gate_defs = gate_suspend_def gate_accepts_input_def gate_observe_control_def
lemmas clean_defs = clean_def closed_to_peer_def gate_defs

lemma clean_harmless [simp]:
  "(\<lambda>s' acts. clean h s' (Send f # acts)) = clean h"
  "(\<lambda>s' acts. clean h s' (CaptureArm # acts)) = clean h"
  "(\<lambda>s' acts. clean h s' (CaptureKeepAlive # acts)) = clean h"
  by (simp_all add: clean_def fun_eq_iff)

lemma clean_check_audio:
  assumes "clean h s acts"
  shows "wp (\<lambda>s' acts'. clean h s' (acts @ acts')) (check_audio finished failure s)"
  using assms by (simp add: check_audio_def clean_defs Let_def split: option.split)

lemma clean_poll:
  assumes "clean h s []"
  shows "wp (clean h) (connector_poll env finished failure s)"
  using assms
  by (simp add: connector_poll_def check_audio_def release_capture_def clean_defs keys_up_frame_def Let_def
      split: prod.split option.split liveness_event.split)

lemma clean_abort_handover:
  assumes "clean h s []" "\<And>s'. clean h s' [] \<Longrightarrow> wp (clean h) (k s')"
  shows "wp (clean h) (abort_handover lossy detail s k)"
proof (rule wp_abort_handover)
  fix a c
  have "clean h (s\<lparr>cn_coordinator := c, cn_deadline := None, cn_readiness := None\<rparr>) []"
    using assms(1) by (simp add: clean_defs)
  from assms(2) [OF this] show
    "wp (clean h) (k (s\<lparr>cn_coordinator := c, cn_deadline := None, cn_readiness := None\<rparr>))"
    "wp (\<lambda>s' acts. clean h s' (Send (FRole (Abort a)) # acts))
       (k (s\<lparr>cn_coordinator := c, cn_deadline := None, cn_readiness := None\<rparr>))"
    by simp_all
qed

lemma clean_watchdog: "clean h s [] \<Longrightarrow> wp (clean h) (connector_watchdog env finished failure s)"
  by (simp add: connector_watchdog_def Let_def clean_abort_handover clean_poll)

lemma clean_portal:
  assumes "clean h s []"
  shows "wp (clean h) (connector_portal p env event s)"
proof (cases "event = LayoutChanged")
  case True
  have "clean h (s\<lparr>cn_input_active := False\<rparr>) []"
    using assms by (simp add: clean_defs)
  then show ?thesis
    using assms by (simp add: True connector_portal_def clean_abort_handover Let_def)
next
  case False
  then show ?thesis
    using assms
    by (cases event) (simp_all add: connector_portal_def request_peer_control_def clean_defs Let_def)
qed

lemma clean_begin_role_switch:
  assumes "clean h s []" "assignment_ok p s" "\<not> is_transitioning (cn_coordinator s)"
  shows "wp (clean h) (begin_role_switch p env requested s)"
proof -
  have "rs_controller_fingerprint (coordinator_state (cn_coordinator s)) = Some (sp_local p) \<Longrightarrow> cn_local_controller s"
    using assms(2,3) by (simp add: assignment_ok_def is_transitioning_def coordinator_state_def Let_def)
  then show ?thesis
    using assms(1)
    by (simp add: begin_role_switch_def release_capture_def clean_defs Let_def split: prod.split sum.split)
qed

lemma clean_tray:
  assumes "clean h s []" "assignment_ok p s"
  shows "wp (clean h) (connector_tray p env command s)"
proof (cases command)
  case (SetController choice)
  then show ?thesis
    using assms by (simp add: connector_set_controller_def may_switch_def clean_begin_role_switch Let_def)
qed (use assms(1) in \<open>simp_all add: connector_disconnect_def connector_reconnect_def connector_toggle_forwarding_def
  connector_set_audio_def change_audio_source_def pause_session_def release_capture_def connector_drop_audio_def
  send_audio_route_def offer_if_def send_audio_offer_def disarm_capture_def clean_defs Let_def
  split: prod.split sum.split option.split audio_choice.split\<close>)

lemma clean_role:
  assumes "clean h s []" "assignment_ok p s"
  shows "wp (clean h) (connector_role p env event s)"
proof (cases event)
  case (RoleRequest fp)
  then show ?thesis
    using assms by (simp add: may_switch_def clean_begin_role_switch)
next
  case (Ready e rc ri detail)
  then show ?thesis
    using assms(1)
    by (simp add: connector_ready_def clean_defs Let_def
        split: option.split prod.split sum.split role_decision.split role_state_error.split)
qed (use assms(1) in \<open>simp_all add: connector_applied_def connector_set_paused_def pause_session_def release_capture_def
  connector_drop_audio_def send_audio_route_def offer_if_def send_audio_offer_def clean_defs Let_def
  split: prod.split sum.split option.split\<close>)

lemma clean_audio: "clean h s [] \<Longrightarrow> wp (clean h) (connector_audio p env control s)"
  by (cases control)
    (simp_all add: change_audio_source_def connector_drop_audio_def send_audio_route_def offer_if_def
      send_audio_offer_def connector_audio_offer_def connector_audio_start_def clean_defs Let_def
      split: option.split prod.split)

lemma clean_handle:
  assumes "clean h s []" "assignment_ok p s"
  shows "wp (clean h) (connector_handle p env frame s)"
proof (cases frame)
  case (FControl control)
  then show ?thesis
    using assms(1) by (simp add: connector_control_def connector_forwarding_def disarm_capture_def clean_defs Let_def
        split: control_event.split)
next
  case (FInput input)
  then show ?thesis
    using assms(1) by (simp add: connector_input_def clean_defs split: input_event.split)
next
  case (FHeartbeat hb)
  then show ?thesis
    using assms(1) by (simp add: clean_defs split: prod.split option.split)
qed (use assms clean_role clean_audio in \<open>simp_all add: clean_def\<close>)

lemma clean_program:
  assumes "clean h s []" "assignment_ok p s"
  shows "wp (clean h) (connector_program p env event s)"
proof (cases event)
  case (OnFrame frame)
  have "clean h (s\<lparr>cn_liveness := l\<rparr>) []" "clean h (s\<lparr>cn_liveness := l, cn_released := False\<rparr>) []" for l
    using assms(1) by (simp_all add: clean_defs)
  then show ?thesis
    using assms(2) by (simp add: OnFrame connector_frame_def clean_handle Let_def)
next
  case (OnTray command)
  then show ?thesis
    using clean_tray [OF assms] by simp
next
  case (OnPortal e)
  then show ?thesis
    using clean_portal [OF assms(1)] by simp
next
  case (OnWatchdog finished failure)
  then show ?thesis
    using clean_watchdog [OF assms(1)] by simp
qed (use assms(1) in \<open>simp_all add: connector_heartbeat_def connector_audio_started_def connector_return_def clean_defs
  Let_def split: prod.split option.split\<close>)

interpretation released: session_loop "connector_step p" press "\<lambda>h s. role_ok p s \<and> clean h s []" for p
proof unfold_locales
  fix h s i s' acts
  assume inv: "role_ok p s \<and> clean h s []" and step: "connector_step p s i = (Continue s', acts)"
  show "role_ok p s' \<and> clean (foldl press h acts) s' []"
    using wp_step_connector [OF clean_program [of h s p] step] wp_step_connector [OF role_state.keeps_program [of p s] step] inv
    by (simp add: clean_def held_def role_ok_def)
qed

section \<open>The start\<close>

lemma start_state:
  assumes "coordinator_new (sp_local p) (sp_peer p) c e (sp_listener_position p) paused = Ok coordinator"
  shows "assignment_ok p (connector_state p coordinator capture source watched now)"
    "closed_to_peer (connector_state p coordinator capture source watched now)"
  using coordinator_new_wf [OF assms] assms
  by (auto simp: coordinator_new_def assignment_ok_def connector_state_def coordinator_state_def closed_to_peer_def
      gate_default_def Let_def split: if_splits)

lemma start_keeps:
  "wp (\<lambda>s acts. assignment_ok p s \<and> clean {} s acts \<and> cn_persist s = None)
     (connector_start p env state capture stored preference enabled watched)"
proof -
  have "cn_persist (connector_state p c b source watched now) = None" for c b source now
    by (simp add: connector_state_def Let_def)
  then show ?thesis
    using start_state
    by (simp add: connector_start_def send_audio_route_def offer_if_def send_audio_offer_def clean_def Let_def
        split: sum.split option.split)
qed

lemma start_invariants:
  assumes "connector_start p env state capture stored preference enabled watched w = (Continue s, acts)"
  shows "assignment_ok p s" "clean (held {} acts) s []" "cn_persist s = None"
  using start_keeps [of p env state capture stored preference enabled watched] assms
  by (auto simp: wp_def clean_def dest!: spec [of _ w])

section \<open>Input and capture\<close>

text \<open>What a step may do to the injector and the portal: inject an event, arm, and pass captured input on.\<close>

definition harmless :: "effect \<Rightarrow> bool" where
  "harmless a \<longleftrightarrow>
     (case a of Inject x \<Rightarrow> False
      | Send (FInput i) \<Rightarrow> if_event i = AllKeysUp
      | SaveRole r \<Rightarrow> False
      | _ \<Rightarrow> True)"

lemma harmless_simps [simp]:
  "\<not> harmless (Inject x)" "\<not> harmless (SaveRole r)" "harmless KeysUp" "harmless CaptureArm" "harmless (CaptureRelease c)"
  "harmless CaptureDisarm" "harmless CaptureReleaseAndDisarm" "harmless CaptureKeepAlive" "harmless (CapturePreflight e)"
  "harmless StopAudioSender" "harmless (StartAudioTask g b1 b2 b3 q)" "harmless (StartAudioReceiver q)"
  "harmless (RememberPosition e)" "harmless (HandleClipboard ce)" "harmless RequestClipboardRead"
  "harmless OfferClipboard" "harmless SendClipboardChunk" "harmless (HandleNotification n)"
  "harmless (StorePause b)" "harmless (SaveAudioRoute r')"
  "harmless (Send (FRole re))" "harmless (Send (FAudio ac))" "harmless (Send (FHeartbeat h))"
  "harmless (Send (FNotificationSync n))" "harmless (Send (frame_control ep ce'))"
  "harmless (Send (frame_input ep x)) = (x = AllKeysUp)"
  by (simp_all add: harmless_def frame_control_def frame_input_def)

lemma harmless_local:
  assumes "\<And>frame. event \<noteq> OnFrame frame" "\<And>e. event \<noteq> OnPortal (CapturedInput e)"
  shows "emits harmless (connector_program p env event s)"
proof (cases event)
  case (OnFrame frame)
  then show ?thesis
    using assms(1) by blast
next
  case (OnPortal e)
  then show ?thesis
    using assms(2) by (cases e)
      (simp_all add: connector_portal_def abort_handover_def rearm_if_allowed_def arm_capture_def
        request_peer_control_def keys_up_frame_def Let_def split: prod.split sum.split)
next
  case (OnTray command)
  then show ?thesis
    by (cases command)
      (simp_all add: connector_disconnect_def connector_reconnect_def connector_toggle_forwarding_def
        connector_set_audio_def change_audio_source_def pause_session_def release_capture_def
        connector_drop_audio_def send_audio_route_def offer_if_def send_audio_offer_def disarm_capture_def
        arm_capture_def connector_set_controller_def begin_role_switch_def Let_def
        split: prod.split sum.split option.split audio_choice.split)
next
  case (OnWatchdog finished failure)
  then show ?thesis
    by (simp add: connector_watchdog_def connector_poll_def check_audio_def abort_handover_def rearm_if_allowed_def
        arm_capture_def release_capture_def keys_up_frame_def Let_def
        split: prod.split sum.split option.split liveness_event.split)
qed (simp_all add: connector_heartbeat_def connector_audio_started_def audio_state_frame_def connector_return_def Let_def
  split: prod.split option.split)

lemma harmless_frame:
  assumes "\<And>i. frame \<noteq> FInput i" "\<And>e. frame \<noteq> FRole (Applied e)"
  shows "emits harmless (connector_handle p env frame s)"
proof (cases frame)
  case (FInput i)
  then show ?thesis
    using assms(1) by blast
next
  case (FRole event)
  then show ?thesis
    using assms(2) by (cases event)
      (auto simp: begin_role_switch_def release_capture_def connector_ready_def connector_set_paused_def
        pause_session_def connector_drop_audio_def send_audio_route_def offer_if_def send_audio_offer_def
        rearm_if_allowed_def arm_capture_def Let_def
        split: prod.split sum.split option.split role_decision.split role_state_error.split)
next
  case (FAudio control)
  then show ?thesis
    by (cases control)
      (simp_all add: change_audio_source_def connector_drop_audio_def send_audio_route_def offer_if_def
        send_audio_offer_def connector_audio_offer_def connector_audio_start_def audio_state_frame_def Let_def
        split: option.split prod.split)
next
  case (FControl control)
  then show ?thesis
    by (simp add: connector_control_def connector_forwarding_def disarm_capture_def arm_capture_def keys_up_frame_def
        Let_def split: control_event.split)
next
  case (FHeartbeat hb)
  then show ?thesis
    by (simp split: prod.split option.split)
qed simp_all

lemma emits_frame:
  assumes "\<And>s. emits Q (connector_handle p env frame s)" "Q CaptureArm"
  shows "emits Q (connector_frame p env frame s)"
  using assms by (simp add: connector_frame_def arm_capture_def Let_def)

lemma connector_harmful:
  assumes "a \<in> set (snd (connector_step p s (env, w, event)))" "\<not> harmless a"
  obtains (frame) frame where "event = OnFrame frame" "(\<exists>i. frame = FInput i) \<or> (\<exists>e. frame = FRole (Applied e))"
  | (captured) x where "event = OnPortal (CapturedInput x)"
proof -
  have "\<not> emits harmless (connector_program p env event s)"
    using assms by (auto simp: emits_def connector_step_def)
  then show thesis
    using harmless_local [of event p env s] harmless_frame emits_frame [of harmless p env _ s] frame captured
    by (metis connector_program.simps(12) harmless_simps(4))
qed

text \<open>Whether the portal is armed after the effects of a step.\<close>

fun see_capture :: "bool \<Rightarrow> effect \<Rightarrow> bool" where
  "see_capture a CaptureArm = True"
| "see_capture a CaptureDisarm = False"
| "see_capture a CaptureReleaseAndDisarm = False"
| "see_capture a (CapturePreflight e) = False"
| "see_capture a _ = a"

definition armed :: "bool \<Rightarrow> effect list \<Rightarrow> bool" where
  "armed a acts = foldl see_capture a acts"

lemma armed_simps [simp]:
  "armed a [] = a" "armed a (b # acts) = armed (see_capture a b) acts"
  by (simp_all add: armed_def)

definition in_control :: "bool \<Rightarrow> connector \<Rightarrow> effect list \<Rightarrow> bool" where
  "in_control a s acts \<longleftrightarrow> (armed a acts \<and> cn_capture s \<longrightarrow> allowed s)"

lemma in_control_act [simp]: "(\<lambda>s' acts. in_control a s' (b # acts)) = in_control (see_capture a b)"
  by (simp add: in_control_def fun_eq_iff)

lemma in_control_False [simp]: "in_control False s []"
  by (simp add: in_control_def)

lemma in_control_allowed [simp]: "allowed s \<Longrightarrow> in_control a s acts"
  by (simp add: in_control_def)

lemma in_control_no_capture [simp]: "\<not> cn_capture s \<Longrightarrow> in_control a s acts"
  by (simp add: in_control_def)

lemma in_control_same:
  "in_control a s [] \<Longrightarrow> cn_capture s' = cn_capture s \<Longrightarrow> allowed s' = allowed s \<Longrightarrow> in_control a s' []"
  by (simp add: in_control_def)

lemma allowed_updates [simp]:
  "allowed (s\<lparr>cn_liveness := x1\<rparr>) = allowed s" "allowed (s\<lparr>cn_gate := x2\<rparr>) = allowed s"
  "allowed (s\<lparr>cn_ping := x3\<rparr>) = allowed s" "allowed (s\<lparr>cn_heartbeat_sequence := x4\<rparr>) = allowed s"
  "allowed (s\<lparr>cn_heartbeat_at := x5\<rparr>) = allowed s" "allowed (s\<lparr>cn_watcher := x6\<rparr>) = allowed s"
  "allowed (s\<lparr>cn_coordinator := c\<rparr>) = allowed s" "allowed (s\<lparr>cn_readiness := r\<rparr>) = allowed s"
  "allowed (s\<lparr>cn_deadline := d\<rparr>) = allowed s" "allowed (s\<lparr>cn_persist := x7\<rparr>) = allowed s"
  "allowed (s\<lparr>cn_capture := b2\<rparr>) = allowed s" "allowed (s\<lparr>cn_input_active := b3\<rparr>) = allowed s"
  "allowed (s\<lparr>cn_released := b4\<rparr>) = allowed s" "allowed (s\<lparr>cn_audio_source := x8\<rparr>) = allowed s"
  "allowed (s\<lparr>cn_audio_sender := b5\<rparr>) = allowed s" "allowed (s\<lparr>cn_audio_receiver := b6\<rparr>) = allowed s"
  "allowed (s\<lparr>cn_audio_task := b7\<rparr>) = allowed s" "allowed (s\<lparr>cn_audio_generation := x9\<rparr>) = allowed s"
  "allowed (s\<lparr>cn_clipboard_watched := b8\<rparr>) = allowed s"
  by (simp_all add: allowed_def)

lemma in_control_updates [simp]:
  "in_control a (s\<lparr>cn_liveness := x0\<rparr>) acts = in_control a s acts"
  "in_control a (s\<lparr>cn_gate := x1\<rparr>) acts = in_control a s acts"
  "in_control a (s\<lparr>cn_ping := x2\<rparr>) acts = in_control a s acts"
  "in_control a (s\<lparr>cn_heartbeat_sequence := x3\<rparr>) acts = in_control a s acts"
  "in_control a (s\<lparr>cn_heartbeat_at := x4\<rparr>) acts = in_control a s acts"
  "in_control a (s\<lparr>cn_watcher := x5\<rparr>) acts = in_control a s acts"
  "in_control a (s\<lparr>cn_coordinator := x6\<rparr>) acts = in_control a s acts"
  "in_control a (s\<lparr>cn_readiness := x7\<rparr>) acts = in_control a s acts"
  "in_control a (s\<lparr>cn_deadline := x8\<rparr>) acts = in_control a s acts"
  "in_control a (s\<lparr>cn_persist := x9\<rparr>) acts = in_control a s acts"
  "in_control a (s\<lparr>cn_input_active := x10\<rparr>) acts = in_control a s acts"
  "in_control a (s\<lparr>cn_released := x11\<rparr>) acts = in_control a s acts"
  "in_control a (s\<lparr>cn_audio_source := x12\<rparr>) acts = in_control a s acts"
  "in_control a (s\<lparr>cn_audio_sender := x13\<rparr>) acts = in_control a s acts"
  "in_control a (s\<lparr>cn_audio_receiver := x14\<rparr>) acts = in_control a s acts"
  "in_control a (s\<lparr>cn_audio_task := x15\<rparr>) acts = in_control a s acts"
  "in_control a (s\<lparr>cn_audio_generation := x16\<rparr>) acts = in_control a s acts"
  "in_control a (s\<lparr>cn_clipboard_watched := x17\<rparr>) acts = in_control a s acts"
  by (simp_all add: in_control_def)

lemma in_control_capture [simp]:
  "cn_capture s \<Longrightarrow> in_control a (s\<lparr>cn_capture := True\<rparr>) acts = in_control a s acts"
  by (simp add: in_control_def)

lemma in_control_resumed [simp]:
  "in_control a s [] \<Longrightarrow> in_control a (s\<lparr>cn_paused := False\<rparr>) []"
  "cn_local_controller s \<Longrightarrow> cn_forwarding s \<Longrightarrow> in_control a (s\<lparr>cn_paused := False\<rparr>) acts"
  by (auto simp: in_control_def allowed_def)

abbreviation stays :: "bool \<Rightarrow> connector prog \<Rightarrow> bool" where
  "stays a k \<equiv> wp (in_control a) k"

lemma stays_check_audio [simp]: "in_control a s [] \<Longrightarrow> stays a (check_audio finished failure s)"
  by (simp add: check_audio_def Let_def split: option.split)

lemma stays_poll [simp]: "in_control a s [] \<Longrightarrow> stays a (connector_poll env finished failure s)"
  by (simp add: connector_poll_def release_capture_def Let_def split: prod.split option.split liveness_event.split)

lemma stays_abort:
  assumes "in_control a s []" "\<And>s'. in_control a s' [] \<Longrightarrow> stays a (k s')"
  shows "stays a (abort_handover lossy detail s k)"
  by (rule wp_abort_handover) (use assms in simp_all)

lemma stays_watchdog: "in_control a s [] \<Longrightarrow> stays a (connector_watchdog env finished failure s)"
  by (simp add: connector_watchdog_def Let_def stays_abort)

lemma stays_portal: "in_control a s [] \<Longrightarrow> stays a (connector_portal p env event s)"
  by (cases event) (simp_all add: connector_portal_def request_peer_control_def stays_abort Let_def)

lemma stays_begin: "in_control a s [] \<Longrightarrow> stays a (begin_role_switch p env requested s)"
  by (cases "cn_capture s")
    (simp_all add: begin_role_switch_def release_capture_def Let_def split: prod.split sum.split)

lemma stays_offer [simp]: "stays a k \<Longrightarrow> stays a (offer_if b env k)"
  by (simp add: offer_if_def send_audio_offer_def split: option.split)

lemma stays_pause:
  assumes "in_control a s []" "\<And>s'. in_control a s' [] \<Longrightarrow> stays a (k s')" "\<And>s'. stays False (k s')"
  shows "stays a (pause_session s k)"
  using assms by (cases "cn_capture s") (simp_all add: pause_session_def release_capture_def connector_drop_audio_def)

lemma stays_tray: "in_control a s [] \<Longrightarrow> stays a (connector_tray p env command s)"
proof (cases command)
  case Disconnect
  assume "in_control a s []"
  then show ?thesis
    by (simp add: Disconnect connector_disconnect_def stays_pause split: prod.split sum.split)
next
  case ToggleInputForwarding
  assume "in_control a s []"
  then show ?thesis
    by (auto simp: ToggleInputForwarding connector_toggle_forwarding_def disarm_capture_def allowed_def in_control_def
        Let_def)
next
  case Reconnect
  assume "in_control a s []"
  then show ?thesis
    by (simp add: Reconnect connector_reconnect_def send_audio_route_def Let_def split: prod.split sum.split)
next
  case (SetAudio choice)
  assume "in_control a s []"
  then show ?thesis
    by (simp add: SetAudio connector_set_audio_def change_audio_source_def connector_drop_audio_def
        send_audio_route_def Let_def split: audio_choice.split)
qed (simp_all add: connector_set_controller_def stays_begin Let_def)

text \<open>A commit follows a handover, during which the portal is not armed; the rest of the frames keep it as the
  tray does.\<close>

lemma stays_ready: "stays False (connector_ready p env e rc ri detail s)"
  by (simp add: connector_ready_def Let_def
      split: option.split prod.split sum.split role_decision.split role_state_error.split)

lemma stays_role:
  assumes "in_control a s []" "a \<longrightarrow> \<not> is_transitioning (cn_coordinator s)" "assignment_ok p s"
  shows "stays a (connector_role p env event s)"
proof (cases event)
  case (Ready e rc ri detail)
  have "cn_readiness s = None \<or> \<not> a"
    using assms(2,3) by (auto simp: assignment_ok_def is_transitioning_def Let_def)
  then show ?thesis
    using stays_ready [of p env e rc ri detail s] assms(1) by (cases a) (auto simp: Ready connector_ready_def)
next
  case (SetPaused b)
  then show ?thesis
    using assms(1)
    by (cases b) (simp_all add: connector_set_paused_def stays_pause send_audio_route_def Let_def
        split: prod.split sum.split)
next
  case (Applied e)
  then show ?thesis
    using assms(1) by (simp add: connector_applied_def split: option.split prod.split)
qed (use assms(1) in \<open>simp_all add: stays_begin\<close>)

lemma stays_handle:
  assumes "in_control a s []" "a \<longrightarrow> \<not> is_transitioning (cn_coordinator s)" "assignment_ok p s"
  shows "stays a (connector_handle p env frame s)"
proof (cases frame)
  case (FControl control)
  then show ?thesis
    using assms(1)
    by (auto simp: connector_control_def connector_forwarding_def disarm_capture_def in_control_def allowed_def Let_def
        split: control_event.split)
next
  case (FInput input)
  then show ?thesis
    using assms(1) by (simp add: connector_input_def split: input_event.split)
next
  case (FHeartbeat hb)
  then show ?thesis
    using assms(1) by (simp split: prod.split option.split)
next
  case (FAudio control)
  then show ?thesis
    using assms(1) by (cases control)
      (simp_all add: change_audio_source_def connector_drop_audio_def send_audio_route_def connector_audio_offer_def
        connector_audio_start_def Let_def split: option.split prod.split)
qed (use assms stays_role in simp_all)

lemma stays_program:
  assumes "assignment_ok p s"
  shows "stays False (connector_program p env event s)"
proof (cases event)
  case (OnFrame frame)
  then show ?thesis
    using assms by (auto simp: connector_frame_def Let_def intro!: stays_handle)
next
  case (OnTray command)
  then show ?thesis
    using stays_tray by simp
next
  case (OnPortal e)
  then show ?thesis
    using stays_portal by simp
next
  case (OnWatchdog finished failure)
  then show ?thesis
    using stays_watchdog by simp
qed (simp_all add: connector_heartbeat_def connector_audio_started_def connector_return_def Let_def
  split: prod.split option.split)

end
