(* ===== verification/ConnectorProperties.thy ===== *)
theory ConnectorProperties
  imports ConnectorSafety ReceiverSafety
begin

text \<open>
  The properties of whole sessions of the dialling computer, from \<open>connector_start\<close> over any sequence of events,
  results of the calls it makes, and moments at which the connection breaks.
\<close>

section \<open>Runs\<close>

lemma run_ok:
  assumes "connector_start p env state capture stored preference enabled watched w = (Continue s0, acts0)"
    and "connector_run p s0 is = (Continue s, acts)"
  shows "assignment_ok p s" "confirming s" "clean (held {} (acts0 @ acts)) s []"
proof -
  note start = start_invariants [OF assms(1)]
  have run: "loop_run (connector_step p) s0 is = (Continue s, acts)"
    using assms(2) by (simp add: connector_run_def)
  have "confirming s0"
    using start(3) by (simp add: confirming_def)
  with start(1) have role: "role_ok p s0"
    by (simp add: role_ok_def)
  from assigned.run_keeps [OF this run] show "assignment_ok p s" "confirming s"
    by (simp_all add: role_ok_def)
  have "role_ok p s0 \<and> clean (held {} acts0) s0 []"
    using start role by simp
  from released.run_keeps [OF this run] show "clean (held {} (acts0 @ acts)) s []"
    by (simp add: held_def)
qed

text \<open>A frame's handler runs on the state with the new sign of life, perhaps after the portal was armed again.\<close>

lemma frame_effect:
  assumes "a \<in> set (snd (connector_step p s (env, w, OnFrame frame)))" "a \<noteq> CaptureArm"
  obtains s1 where "a \<in> set (snd (connector_handle p env frame s1 w))" "cn_epoch s1 = cn_epoch s"
    "cn_local_controller s1 = cn_local_controller s" "cn_forwarding s1 = cn_forwarding s"
    "cn_paused s1 = cn_paused s" "cn_gate s1 = cn_gate s" "cn_persist s1 = cn_persist s"
proof -
  let ?s = "s\<lparr>cn_liveness := observe_authenticated_frame (cn_liveness s) (ev_now env)\<rparr>"
  have "a \<in> set (snd (connector_handle p env frame ?s w)) \<or>
      a \<in> set (snd (connector_handle p env frame (?s\<lparr>cn_released := False\<rparr>) w))"
    using assms
    by (auto simp: connector_step_def connector_frame_def arm_capture_def attempt_def stop_def Let_def split: if_splits)
  then show thesis
    using that [of ?s] that [of "?s\<lparr>cn_released := False\<rparr>"] by auto
qed

lemma connector_injects:
  assumes "Inject x \<in> set (snd (connector_step p s (env, w, event)))"
  shows "event = OnFrame (FInput \<lparr>if_role_epoch = cn_epoch s, if_event = x\<rparr>) \<and> x \<noteq> AllKeysUp \<and>
    \<not> cn_local_controller s \<and> cn_forwarding s \<and> \<not> cn_paused s \<and> gate_accepts_input (cn_gate s)"
  using assms
proof (rule connector_harmful)
  fix frame
  assume frame: "event = OnFrame frame" "(\<exists>i. frame = FInput i) \<or> (\<exists>e. frame = FRole (Applied e))"
  from assms [unfolded frame(1)] show ?thesis
    by (rule frame_effect)
      (use frame in \<open>auto simp: connector_input_def connector_applied_def attempt_def act_def ret_def stop_def
        split: if_splits option.splits prod.splits\<close>)
next
  fix y
  assume "event = OnPortal (CapturedInput y)"
  then show ?thesis
    using assms by (auto simp: connector_step_def connector_portal_def send_def act_def ret_def
        split: if_splits nat.splits)
qed simp

lemma connector_passes:
  assumes "Send (FInput i) \<in> set (snd (connector_step p s (env, w, event)))" "if_event i \<noteq> AllKeysUp"
  shows "event = OnPortal (CapturedInput (if_event i)) \<and> if_role_epoch i = cn_epoch s \<and>
    cn_local_controller s \<and> cn_forwarding s \<and> \<not> cn_paused s"
  using assms(1)
proof (rule connector_harmful)
  show "\<not> harmless (Send (FInput i))"
    using assms(2) by (simp add: harmless_def)
next
  fix frame
  assume frame: "event = OnFrame frame" "(\<exists>i. frame = FInput i) \<or> (\<exists>e. frame = FRole (Applied e))"
  from assms(1) [unfolded frame(1)] show ?thesis
    by (rule frame_effect)
      (use frame in \<open>auto simp: connector_input_def connector_applied_def attempt_def act_def ret_def stop_def
        split: if_splits option.splits prod.splits\<close>)
next
  fix y
  assume "event = OnPortal (CapturedInput y)"
  then show ?thesis
    using assms by (auto simp: connector_step_def connector_portal_def send_def act_def ret_def frame_input_def
        allowed_def split: if_splits nat.splits)
qed

lemma connector_saves:
  assumes "SaveRole c \<in> set (snd (connector_step p s (env, w, event)))"
  shows "event = OnFrame (FRole (Applied (cn_epoch s))) \<and> cn_persist s = Some (cn_epoch s, c)"
  using assms
proof (rule connector_harmful)
  fix frame
  assume frame: "event = OnFrame frame" "(\<exists>i. frame = FInput i) \<or> (\<exists>e. frame = FRole (Applied e))"
  from assms [unfolded frame(1)] show ?thesis
    by (rule frame_effect)
      (use frame in \<open>auto simp: connector_input_def connector_applied_def attempt_def act_def ret_def stop_def
        split: if_splits option.splits prod.splits\<close>)
next
  fix y
  assume "event = OnPortal (CapturedInput y)"
  then show ?thesis
    using assms by (auto simp: connector_step_def connector_portal_def send_def act_def ret_def
        split: if_splits nat.splits)
qed simp

text \<open>C7: The dialling computer acts on its coordinator's committed assignment at all times: after any events, the
  epoch it stamps its frames with, whether it takes itself for the controller and whether it is paused are those of
  the coordinator's stable state; a handover is pending exactly while the local readiness and a deadline are kept
  for it; and no handover is pending while the session is paused.\<close>

theorem connector_assignment_agrees:
  assumes "connector_start p env state capture stored preference enabled watched w = (Continue s0, acts0)"
    and "connector_run p s0 is = (Continue s, acts)"
  shows "cn_epoch s = rs_role_epoch (coordinator_state (cn_coordinator s)) \<and>
    cn_local_controller s = (rs_controller_fingerprint (coordinator_state (cn_coordinator s)) = Some (sp_local p)) \<and>
    cn_paused s = rs_paused (coordinator_state (cn_coordinator s)) \<and>
    is_transitioning (cn_coordinator s) = (cn_readiness s \<noteq> None) \<and>
    is_transitioning (cn_coordinator s) = (cn_deadline s \<noteq> None) \<and>
    (is_transitioning (cn_coordinator s) \<longrightarrow> \<not> cn_paused s)"
  using run_ok(1) [OF assms]
  by (auto simp: assignment_ok_def coordinator_state_def is_transitioning_def Let_def)

text \<open>C8: Nothing the peer pressed stays held: after any events, while the session is paused, or this computer
  controls, or forwarding is off, or the input gate is closed, every key and button the peer pressed was released
  by the injector; and once the session ended, for whatever reason, the cleanup released everything.\<close>

theorem connector_no_stuck_keys:
  assumes "connector_start p env state capture stored preference enabled watched w = (Continue s0, acts0)"
    and "connector_run p s0 is = (out, acts)"
  shows "case out of
      Continue s \<Rightarrow>
        cn_paused s \<or> cn_local_controller s \<or> \<not> cn_forwarding s \<or> \<not> gate_accepts_input (cn_gate s) \<longrightarrow>
        held {} (acts0 @ acts) = {}
    | Ended e \<Rightarrow> held {} (acts0 @ acts @ connector_cleanup epoch writes b sender) = {}"
proof (cases out)
  case (Continue s)
  then show ?thesis
    using run_ok(3) [OF assms(1)] assms(2) by (auto simp: clean_defs)
next
  case (Ended e)
  then show ?thesis
    by (simp add: connector_cleanup_def)
qed

text \<open>C9: Input crosses only in the direction of control. When a step of a running session injects an event, the
  step handles an input frame of the epoch in force carrying exactly that event, while the peer controls, forwarding
  is on, the session is not paused and the gate is open. When a step sends an input event other than the release of
  all keys, the portal captured exactly that event, the frame has the epoch in force, and this computer controls,
  forwarding, unpaused. And when a step leaves the portal armed that was not armed before, this computer controls,
  forwarding, unpaused.\<close>

theorem connector_input_confined:
  assumes "connector_start p env state capture stored preference enabled watched w = (Continue s0, acts0)"
    and "connector_run p s0 is = (Continue s, acts)"
    and "connector_step p s (env', w', event) = (out, acts')"
  shows "(Inject x \<in> set acts' \<longrightarrow>
      event = OnFrame (FInput \<lparr>if_role_epoch = cn_epoch s, if_event = x\<rparr>) \<and> x \<noteq> AllKeysUp \<and>
      \<not> cn_local_controller s \<and> cn_forwarding s \<and> \<not> cn_paused s \<and> gate_accepts_input (cn_gate s)) \<and>
    (Send (FInput i) \<in> set acts' \<and> if_event i \<noteq> AllKeysUp \<longrightarrow>
      event = OnPortal (CapturedInput (if_event i)) \<and> if_role_epoch i = cn_epoch s \<and>
      cn_local_controller s \<and> cn_forwarding s \<and> \<not> cn_paused s) \<and>
    (armed False acts' \<longrightarrow> (case out of
      Continue s' \<Rightarrow> cn_capture s' \<longrightarrow> cn_local_controller s' \<and> cn_forwarding s' \<and> \<not> cn_paused s'
    | Ended e \<Rightarrow> True))"
proof -
  have "in_control False s' acts'" if "out = Continue s'" for s'
    using wp_step_connector [OF stays_program [OF run_ok(1) [OF assms(1,2)]], of "(env', w', event)" s' acts']
      assms(3) that by simp
  then show ?thesis
    using connector_injects [of x p s env' w' event] connector_passes [of i p s env' w' event] assms(3)
    by (auto simp: in_control_def allowed_def split: session_outcome.split)
qed

text \<open>A handover is written to disk only once both sides apply it: when a step of a running session saves a
  controller, the step handles the peer's confirmation of the epoch in force, and the saved controller is the one of
  the coordinator's committed assignment of that epoch.\<close>

theorem connector_saves_confirmed:
  assumes "connector_start p env state capture stored preference enabled watched w = (Continue s0, acts0)"
    and "connector_run p s0 is = (Continue s, acts)"
    and "SaveRole c \<in> set (snd (connector_step p s (env', w', event)))"
  shows "event = OnFrame (FRole (Applied (rs_role_epoch (coordinator_state (cn_coordinator s))))) \<and>
    rs_controller_fingerprint (coordinator_state (cn_coordinator s)) = Some c"
  using run_ok(1,2) [OF assms(1,2)] connector_saves [OF assms(3)]
  by (auto simp: confirming_def assignment_ok_def coordinator_state_def Let_def)

lemma handover_timeout:
  assumes "assignment_ok p s" "is_transitioning (cn_coordinator s)" "the (cn_deadline s) \<le> ev_now env"
    and "connector_step p s (env, Suc w, OnWatchdog finished failure) = (out, acts)"
  shows "\<exists>a. Send (FRole (Abort a)) \<in> set acts \<and> rs_role_epoch a = rs_role_epoch (coordinator_state (cn_coordinator s)) \<and>
      rs_controller_fingerprint a = rs_controller_fingerprint (coordinator_state (cn_coordinator s))"
    "out = Continue s' \<Longrightarrow> \<not> is_transitioning (cn_coordinator s') \<and> cn_readiness s' = None \<and> cn_deadline s' = None \<and>
      coordinator_state (cn_coordinator s') = coordinator_state (cn_coordinator s)"
proof -
  obtain q where q: "rc_pending (cn_coordinator s) = Some q" "pr_previous q = rc_stable (cn_coordinator s)"
    using assms(1,2) by (auto simp: assignment_ok_def is_transitioning_def coordinator_wf_def Let_def)
  let ?c = "cn_coordinator s"
  let ?s = "s\<lparr>cn_coordinator := ?c\<lparr>rc_pending := None\<rparr>, cn_deadline := None, cn_readiness := None\<rparr>"
  define a where "a = (rc_stable ?c)\<lparr>rs_transition := Failed, rs_failure_detail := Some HANDOVER_TIMEOUT\<rparr>"
  have abort: "abort ?c HANDOVER_TIMEOUT = (Ok a, ?c\<lparr>rc_pending := None\<rparr>)"
    using q by (simp add: abort_def a_def)
  have expired: "(case cn_deadline s of None \<Rightarrow> False | Some d \<Rightarrow> d \<le> ev_now env) \<and> is_transitioning ?c"
    using assms(1-3) q(1) by (auto simp: assignment_ok_def is_transitioning_def Let_def)
  let ?k = "rearm_if_allowed env ?s (connector_poll env finished failure)"
  have step: "(out, acts) = act_if (allowed s \<and> cn_capture s) CaptureKeepAlive (send_lossy (FRole (Abort a)) ?k) (Suc w)"
    using assms(4) expired abort
    by (simp add: connector_step_def connector_watchdog_def abort_handover_def Let_def)
  then show "\<exists>a. Send (FRole (Abort a)) \<in> set acts \<and> rs_role_epoch a = rs_role_epoch (coordinator_state ?c) \<and>
      rs_controller_fingerprint a = rs_controller_fingerprint (coordinator_state ?c)"
    by (intro exI [of _ a])
      (auto simp: act_if_def act_def send_lossy_def a_def coordinator_state_def split: prod.splits if_splits)
  define settled where "settled s' \<longleftrightarrow> cn_coordinator s' = ?c\<lparr>rc_pending := None\<rparr> \<and> cn_readiness s' = None \<and>
    cn_deadline s' = None" for s' :: connector
  have "wp (\<lambda>s' acts. settled s') (connector_poll env finished failure ?s)"
    by (simp add: connector_poll_def check_audio_def release_capture_def settled_def Let_def
        split: prod.split option.split liveness_event.split)
  then have "wp (\<lambda>s' acts. settled s') ?k"
    by simp
  then have "wp (\<lambda>s' acts. settled s') (act_if (allowed s \<and> cn_capture s) CaptureKeepAlive (send_lossy (FRole (Abort a)) ?k))"
    by simp
  then have "settled s'" if "out = Continue s'"
    using step [symmetric] that unfolding wp_def by (metis (no_types, lifting) case_prod_conv session_outcome.simps(5))
  then show "out = Continue s' \<Longrightarrow> \<not> is_transitioning (cn_coordinator s') \<and> cn_readiness s' = None \<and>
      cn_deadline s' = None \<and> coordinator_state (cn_coordinator s') = coordinator_state ?c"
    by (simp add: settled_def is_transitioning_def coordinator_state_def)
qed

text \<open>Every handover is decided. A step that begins one gives it a deadline five seconds later, and a watchdog
  tick at or after the deadline of a pending handover sends an abort that names the assignment in force; unless the
  session ends in that step, nothing is pending afterwards and the assignment is the one from before the
  handover.\<close>

theorem connector_handover_expires:
  assumes "connector_start p env state capture stored preference enabled watched w = (Continue s0, acts0)"
    and "connector_run p s0 is = (Continue s, acts)"
  shows "(connector_step p s (env1, w1, event) = (Continue s1, acts1) \<and>
      \<not> is_transitioning (cn_coordinator s) \<and> is_transitioning (cn_coordinator s1) \<longrightarrow>
      cn_deadline s1 = Some (ev_now env1 + ROLE_DEADLINE)) \<and>
    (is_transitioning (cn_coordinator s) \<and> the (cn_deadline s) \<le> ev_now env2 \<and>
      connector_step p s (env2, Suc w2, OnWatchdog finished failure) = (out, acts2) \<longrightarrow>
      (\<exists>a. Send (FRole (Abort a)) \<in> set acts2 \<and> rs_role_epoch a = cn_epoch s \<and>
        rs_controller_fingerprint a = rs_controller_fingerprint (coordinator_state (cn_coordinator s))) \<and>
      (case out of
        Continue s2 \<Rightarrow> \<not> is_transitioning (cn_coordinator s2) \<and> cn_readiness s2 = None \<and>
          coordinator_state (cn_coordinator s2) = coordinator_state (cn_coordinator s)
      | Ended e \<Rightarrow> True))"
proof -
  note ok = run_ok(1) [OF assms]
  have "cn_deadline s1 = Some (ev_now env1 + ROLE_DEADLINE)"
    if step: "connector_step p s (env1, w1, event) = (Continue s1, acts1)"
      and trans: "\<not> is_transitioning (cn_coordinator s)" "is_transitioning (cn_coordinator s1)"
  proof -
    have "deadline_from None (ev_now env1) s"
      using ok trans(1) by (auto simp: deadline_from_def assignment_ok_def is_transitioning_def Let_def)
    from wp_step_connector [OF _ step, of "\<lambda>s acts. deadline_from None (ev_now env1) s"]
      dated.keeps_program [OF this] have "deadline_from None (ev_now env1) s1"
      by simp
    moreover have "assignment_ok p s1"
      using wp_step_connector [OF _ step, of "\<lambda>s acts. role_ok p s"] role_state.keeps_program [of p s env1 event]
        run_ok(1,2) [OF assms] by (simp add: role_ok_def)
    ultimately show ?thesis
      using trans(2) by (auto simp: deadline_from_def assignment_ok_def is_transitioning_def Let_def)
  qed
  then show ?thesis
    using handover_timeout [OF ok, of env2 w2 finished failure out acts2] ok
    by (auto simp: assignment_ok_def coordinator_state_def Let_def split: session_outcome.split)
qed

section \<open>Concrete sessions\<close>

definition dialed_peer :: session_peer where
  "dialed_peer = \<lparr>sp_local = ''c'', sp_peer = ''l'', sp_audio_playback = True, sp_audio_capture = True,
     sp_audio_route = True, sp_input_toggle = True, sp_role_switch = True, sp_input_capture = True,
     sp_input_injection = True, sp_listener_position = EdgeRight, sp_jitter_target_ms = 60, sp_screen = None\<rparr>"

definition calm_env :: "instant \<Rightarrow> connector_env" where
  "calm_env t = \<lparr>ev_now = t, ev_preflight = None, ev_arm = None, ev_release_ok = True, ev_inject_ok = True,
     ev_keys_up_ok = True, ev_save_ok = True, ev_socket = None, ev_audio_error = None, ev_secrets = ([], [], []),
     ce_disarm_ok = True, ce_clipboard_ok = True\<rparr>"

text \<open>The listener controls at first.\<close>

definition dialed_state :: connector where
  "dialed_state = connector_state dialed_peer
     \<lparr>rc_connector_fingerprint = ''c'', rc_listener_fingerprint = ''l'',
      rc_stable = initial_role_state dialed_peer (Some ''l'') False, rc_pending = None\<rparr> False None False 0"

lemma dialed_start:
  "connector_start dialed_peer (calm_env 0) (initial_role_state dialed_peer (Some ''l'') False) False (Some None) None
     False False 9 = (Continue dialed_state, [SaveAudioRoute None, Send (FAudio (SetRoute None))])"
  by (simp add: connector_start_def coordinator_new_def dialed_peer_def initial_role_state_def dialed_state_def
      calm_env_def initial_audio_source_def send_audio_route_def offer_if_def act_if_def act_def attempt_def send_def
      ret_def connector_state_def coordinator_state_def)

text \<open>The peer enters and presses a key.\<close>

definition entered_inputs :: "connector_input list" where
  "entered_inputs =
     [(calm_env 1, 9, OnFrame (frame_control INITIAL_ROLE_EPOCH (EnterRemote EdgeRight 0))),
      (calm_env 2, 9, OnFrame (frame_input INITIAL_ROLE_EPOCH (Key 30 True)))]"

definition entered_state :: connector where
  "entered_state = dialed_state
     \<lparr>cn_liveness := observe_authenticated_frame (observe_authenticated_frame (cn_liveness dialed_state) 1) 2,
      cn_gate := \<lparr>ig_suspended = False\<rparr>, cn_watcher := watcher_arm EdgeRight (watcher_new None)\<rparr>"

lemmas dialed_defs = dialed_state_def connector_state_def dialed_peer_def calm_env_def initial_role_state_def
  coordinator_state_def is_transitioning_def

lemma entered_run:
  "connector_run dialed_peer dialed_state entered_inputs = (Continue entered_state, [Inject (Key 30 True)])"
  by (simp add: connector_run_def entered_inputs_def entered_state_def connector_step_def connector_frame_def
      connector_control_def connector_input_def frame_control_def frame_input_def gate_defs gate_default_def
      allowed_def ret_def act_def attempt_def dialed_defs Let_def)

text \<open>This computer takes control.\<close>

definition proposed_coordinator :: role_coordinator where
  "proposed_coordinator = (cn_coordinator dialed_state)
     \<lparr>rc_pending := Some \<lparr>pr_previous = initial_role_state dialed_peer (Some ''l'') False,
        pr_proposed_controller_fingerprint = ''c'', pr_proposed_epoch = INITIAL_ROLE_EPOCH + 1\<rparr>\<rparr>"

definition proposed_state :: connector where
  "proposed_state = entered_state
     \<lparr>cn_gate := \<lparr>ig_suspended = True\<rparr>, cn_coordinator := proposed_coordinator,
      cn_readiness := Some \<lparr>rd_capture = True, rd_inject = True, rd_detail = None\<rparr>,
      cn_deadline := Some (3 + ROLE_DEADLINE), cn_capture := True, cn_input_active := False\<rparr>"

lemma entered_prepares:
  "\<exists>q. prepare (cn_coordinator entered_state) ''c'' = (Ok q, proposed_coordinator)"
  by (simp add: prepare_def checked_add_def entered_state_def proposed_coordinator_def INITIAL_ROLE_EPOCH_def dialed_defs)

lemma proposed_step:
  "\<exists>q. connector_step dialed_peer entered_state (calm_env 3, 9, OnTray (SetController ChooseLocal)) =
     (Continue proposed_state, [KeysUp, Send (FRole (Prepare q)), CapturePreflight EdgeRight])"
proof -
  obtain q where q: "prepare (cn_coordinator entered_state) ''c'' = (Ok q, proposed_coordinator)"
    using entered_prepares by blast
  have sp: "sp_local dialed_peer = ''c''"
    by (simp add: dialed_peer_def)
  have may: "may_switch dialed_peer ''c'' entered_state"
    by (simp add: may_switch_def entered_state_def role_switch_available_def dialed_defs)
  have "connector_step dialed_peer entered_state (calm_env 3, 9, OnTray (SetController ChooseLocal)) =
      begin_role_switch dialed_peer (calm_env 3) ''c'' entered_state 9"
    using may by (simp add: connector_step_def connector_set_controller_def sp Let_def)
  also have "\<dots> = (Continue proposed_state, [KeysUp, Send (FRole (Prepare q)), CapturePreflight EdgeRight])"
    using q by (simp add: begin_role_switch_def entered_state_def proposed_state_def gate_suspend_def act_if_def
        act_def send_def ret_def dialed_defs)
  finally show ?thesis
    by blast
qed

text \<open>The peer is ready, and this computer controls.\<close>

definition committed_role_state :: role_state where
  "committed_role_state = (initial_role_state dialed_peer (Some ''c'') False)\<lparr>rs_role_epoch := INITIAL_ROLE_EPOCH + 1\<rparr>"

definition committed_state :: connector where
  "committed_state = proposed_state
     \<lparr>cn_liveness := observe_authenticated_frame (cn_liveness proposed_state) 4,
      cn_coordinator := proposed_coordinator\<lparr>rc_stable := committed_role_state, rc_pending := None\<rparr>,
      cn_readiness := None, cn_deadline := None, cn_persist := Some (INITIAL_ROLE_EPOCH + 1, ''c''),
      cn_epoch := INITIAL_ROLE_EPOCH + 1, cn_local_controller := True\<rparr>"

lemma committed_finish:
  "finish_ready proposed_coordinator (INITIAL_ROLE_EPOCH + 1) True True True True None =
     (Ok (CommitDecision committed_role_state), proposed_coordinator\<lparr>rc_stable := committed_role_state, rc_pending := None\<rparr>)"
  by (simp add: finish_ready_def proposed_coordinator_def committed_role_state_def initial_role_state_def Let_def)

lemma proposed_simps [simp]:
  "cn_released proposed_state = False" "cn_capture proposed_state" "cn_forwarding proposed_state"
  "\<not> cn_paused proposed_state" "cn_coordinator proposed_state = proposed_coordinator"
  "cn_readiness proposed_state = Some \<lparr>rd_capture = True, rd_inject = True, rd_detail = None\<rparr>"
  "cn_gate proposed_state = \<lparr>ig_suspended = True\<rparr>"
  by (simp_all add: proposed_state_def entered_state_def dialed_defs)

lemma committed_step:
  "connector_step dialed_peer proposed_state
     (calm_env 4, 9, OnFrame (FRole (Ready (INITIAL_ROLE_EPOCH + 1) True True None))) =
     (Continue committed_state, [Send (FRole (Commit committed_role_state)), KeysUp, CaptureArm])"
proof -
  have c: "rs_controller_fingerprint committed_role_state = Some ''c''"
    "rs_role_epoch committed_role_state = INITIAL_ROLE_EPOCH + 1"
    by (simp_all add: committed_role_state_def initial_role_state_def)
  have p: "sp_local dialed_peer = ''c''" "ev_arm (calm_env 4) = None" "ev_now (calm_env 4) = 4"
    by (simp_all add: dialed_peer_def calm_env_def)
  show ?thesis
    by (simp add: connector_step_def connector_frame_def connector_ready_def committed_finish c p rearm_if_allowed_def
        arm_capture_def allowed_def act_def send_def ret_def attempt_def gate_suspend_def committed_state_def Let_def)
qed

lemma committed_simps [simp]:
  "cn_capture committed_state" "cn_forwarding committed_state" "\<not> cn_paused committed_state"
  "cn_local_controller committed_state" "cn_epoch committed_state = INITIAL_ROLE_EPOCH + 1"
  "cn_persist committed_state = Some (INITIAL_ROLE_EPOCH + 1, ''c'')" "cn_released committed_state = False"
  by (simp_all add: committed_state_def)

definition handover_inputs :: "connector_input list" where
  "handover_inputs = entered_inputs @ [(calm_env 3, 9, OnTray (SetController ChooseLocal))]"

lemma handover_run:
  "\<exists>acts. connector_run dialed_peer dialed_state handover_inputs = (Continue proposed_state, acts)"
  using proposed_step entered_run by (auto simp: connector_run_def handover_inputs_def loop_run_snoc)

lemma committed_run:
  "\<exists>acts. connector_run dialed_peer dialed_state
     (handover_inputs @ [(calm_env 4, 9, OnFrame (FRole (Ready (INITIAL_ROLE_EPOCH + 1) True True None)))]) =
     (Continue committed_state, acts)"
  using handover_run committed_step by (auto simp: connector_run_def loop_run_snoc)

section \<open>Witnesses\<close>

theorem connector_assignment_agrees_witness:
  "\<exists>acts. connector_run dialed_peer dialed_state handover_inputs = (Continue proposed_state, acts) \<and>
     is_transitioning (cn_coordinator proposed_state) \<and> cn_epoch proposed_state = INITIAL_ROLE_EPOCH \<and>
     \<not> cn_local_controller proposed_state"
proof -
  obtain acts where run: "connector_run dialed_peer dialed_state handover_inputs = (Continue proposed_state, acts)"
    using handover_run by blast
  have "coordinator_state proposed_coordinator = initial_role_state dialed_peer (Some ''l'') False"
    "is_transitioning proposed_coordinator"
    by (simp_all add: proposed_coordinator_def dialed_state_def connector_state_def coordinator_state_def
        is_transitioning_def Let_def)
  then show ?thesis
    using connector_assignment_agrees [OF dialed_start run] run
    by (simp add: initial_role_state_def dialed_peer_def)
qed

theorem connector_no_stuck_keys_witness:
  "\<exists>acts. connector_run dialed_peer dialed_state handover_inputs = (Continue proposed_state, acts) \<and>
     Inject (Key 30 True) \<in> set acts \<and> held {} acts = {}"
proof -
  obtain acts where run: "connector_run dialed_peer dialed_state handover_inputs = (Continue proposed_state, acts)"
    "Inject (Key 30 True) \<in> set acts"
    using proposed_step entered_run by (fastforce simp: connector_run_def handover_inputs_def loop_run_snoc)
  have "held {} ([SaveAudioRoute None, Send (FAudio (SetRoute None))] @ acts) = {}"
    using connector_no_stuck_keys [OF dialed_start run(1)] by (simp add: gate_accepts_input_def)
  then show ?thesis
    using run by simp
qed

theorem connector_input_confined_witness:
  "case connector_step dialed_peer committed_state (calm_env 5, 9, OnPortal (CapturedInput (Key 30 True))) of
     (Continue s, acts) \<Rightarrow> acts = [Send (frame_input (INITIAL_ROLE_EPOCH + 1) (Key 30 True))] \<and> cn_local_controller committed_state
   | _ \<Rightarrow> False"
proof -
  obtain acts where run: "connector_run dialed_peer dialed_state
      (handover_inputs @ [(calm_env 4, 9, OnFrame (FRole (Ready (INITIAL_ROLE_EPOCH + 1) True True None)))]) =
      (Continue committed_state, acts)"
    using committed_run by blast
  have step: "connector_step dialed_peer committed_state (calm_env 5, 9, OnPortal (CapturedInput (Key 30 True))) =
      (Continue committed_state, [Send (frame_input (INITIAL_ROLE_EPOCH + 1) (Key 30 True))])"
    by (simp add: connector_step_def connector_portal_def allowed_def send_def act_def ret_def Let_def)
  show ?thesis
    using connector_input_confined [OF dialed_start run step,
        of _ "\<lparr>if_role_epoch = INITIAL_ROLE_EPOCH + 1, if_event = Key 30 True\<rparr>"]
    by (simp add: frame_input_def step)
qed

theorem connector_saves_confirmed_witness:
  "SaveRole ''c'' \<in> set (snd (connector_step dialed_peer committed_state
     (calm_env 5, 9, OnFrame (FRole (Applied (INITIAL_ROLE_EPOCH + 1)))))) \<and>
   rs_controller_fingerprint (coordinator_state (cn_coordinator committed_state)) = Some ''c''"
proof -
  obtain acts where run: "connector_run dialed_peer dialed_state
      (handover_inputs @ [(calm_env 4, 9, OnFrame (FRole (Ready (INITIAL_ROLE_EPOCH + 1) True True None)))]) =
      (Continue committed_state, acts)"
    using committed_run by blast
  have save: "SaveRole ''c'' \<in> set (snd (connector_step dialed_peer committed_state
      (calm_env 5, 9, OnFrame (FRole (Applied (INITIAL_ROLE_EPOCH + 1))))))"
    by (simp add: connector_step_def connector_frame_def connector_applied_def calm_env_def
        act_def ret_def attempt_def Let_def)
  show ?thesis
    using connector_saves_confirmed [OF dialed_start run save] save by simp
qed

theorem connector_handover_expires_witness:
  "\<exists>a. Send (FRole (Abort a)) \<in> set (snd (connector_step dialed_peer proposed_state
     (calm_env (3 + ROLE_DEADLINE), Suc 8, OnWatchdog False None))) \<and> rs_role_epoch a = INITIAL_ROLE_EPOCH"
proof -
  obtain acts where run: "connector_run dialed_peer dialed_state handover_inputs = (Continue proposed_state, acts)"
    using handover_run by blast
  obtain out acts2 where step: "connector_step dialed_peer proposed_state
      (calm_env (3 + ROLE_DEADLINE), Suc 8, OnWatchdog False None) = (out, acts2)"
    by fastforce
  have "is_transitioning (cn_coordinator proposed_state)" "the (cn_deadline proposed_state) = 3 + ROLE_DEADLINE"
    "cn_epoch proposed_state = INITIAL_ROLE_EPOCH"
    by (simp_all add: proposed_state_def entered_state_def proposed_coordinator_def dialed_defs)
  then show ?thesis
    using connector_handover_expires [OF dialed_start run, of "calm_env 0" 0 OnHeartbeat dialed_state "[]"
        "calm_env (3 + ROLE_DEADLINE)" 8 False None out acts2] step
    by (simp add: calm_env_def) blast
qed

end
