(* ===== verification/SessionsHandover.thy ===== *)
theory SessionsHandover
  imports ReceiverHandover ConnectorProperties
begin

text \<open>
  Both ends of one connection: the dialling computer's session and the accepting computer's session run a handover
  together, from the tray command to the saved role files.
\<close>

lemma begin_proposes:
  assumes "begin_role_switch p env fp c w = (Continue c1, acts)"
  shows "\<exists>q rd. prepare (cn_coordinator c) fp = (Ok q, cn_coordinator c1) \<and> Send (FRole (Prepare q)) \<in> set acts \<and>
    cn_readiness c1 = Some rd \<and> (fp = sp_local p \<and> rd_capture rd \<or> cn_capture c \<longrightarrow> cn_capture c1) \<and>
    cn_local_controller c1 = cn_local_controller c \<and> cn_forwarding c1 = cn_forwarding c \<and> cn_paused c1 = cn_paused c"
  using assms
  by (cases w)
    (auto simp: begin_role_switch_def release_capture_def act_if_def act_def send_def send_lossy_def ret_def stop_def
      Let_def split: prod.splits sum.splits if_splits nat.splits)

lemma tray_proposes:
  assumes "connector_step p c (env, w, OnTray (SetController choice)) = (Continue c1, acts)"
    "\<not> is_transitioning (cn_coordinator c)" "is_transitioning (cn_coordinator c1)"
  defines "fp \<equiv> (case choice of ChooseLocal \<Rightarrow> sp_local p | ChoosePeer \<Rightarrow> sp_peer p)"
  shows "\<exists>q rd. prepare (cn_coordinator c) fp = (Ok q, cn_coordinator c1) \<and> Send (FRole (Prepare q)) \<in> set acts \<and>
    cn_readiness c1 = Some rd \<and> (fp = sp_local p \<and> rd_capture rd \<or> cn_capture c \<longrightarrow> cn_capture c1) \<and>
    cn_local_controller c1 = cn_local_controller c \<and> cn_forwarding c1 = cn_forwarding c \<and> cn_paused c1 = cn_paused c"
proof -
  have "begin_role_switch p env fp c w = (Continue c1, acts)"
    using assms(1-3) by (auto simp: connector_step_def connector_set_controller_def fp_def ret_def Let_def split: if_splits)
  then show ?thesis
    by (rule begin_proposes)
qed

text \<open>The peer's readiness is decided by the coordinator, and the decision is sent.\<close>

lemma ready_decides:
  assumes "cn_readiness c1 = Some rd" "is_transitioning (cn_coordinator c1)" "ev_arm env = None"
    and "finish_ready (cn_coordinator c1) e (rd_capture rd) (rd_inject rd) ready True
      (case detail of Some d \<Rightarrow> Some d | None \<Rightarrow> rd_detail rd) = (Ok decision, k)"
    and "\<And>a. decision = AbortDecision a \<Longrightarrow> cn_local_controller c1 \<Longrightarrow> cn_capture c1"
    and "\<And>d. decision = CommitDecision d \<Longrightarrow>
      \<exists>fp. rs_controller_fingerprint d = Some fp \<and> (fp = sp_local p \<longrightarrow> cn_capture c1)"
  shows "\<exists>c2 acts. connector_step p c1 (env, Suc w, OnFrame (FRole (Ready e ready True detail))) = (Continue c2, acts) \<and>
    Send (decision_frame decision) \<in> set acts \<and> cn_coordinator c2 = k \<and>
    (case decision of
       CommitDecision d \<Rightarrow> cn_epoch c2 = rs_role_epoch d \<and> (cn_released c2 \<and> allowed c2 \<longrightarrow> cn_capture c2) \<and>
         cn_persist c2 = Some (rs_role_epoch d, the (rs_controller_fingerprint d))
     | AbortDecision a \<Rightarrow> True)"
proof (cases decision)
  case (AbortDecision a)
  then show ?thesis
    using assms(1-5)
    by (auto simp: connector_step_def connector_frame_def connector_ready_def rearm_if_allowed_def arm_capture_def
        attempt_def act_def send_def ret_def allowed_def Let_def)
next
  case (CommitDecision d)
  then show ?thesis
    using assms(1-4) assms(6) [OF CommitDecision]
    by (auto simp: connector_step_def connector_frame_def connector_ready_def rearm_if_allowed_def arm_capture_def
        attempt_def act_def send_def ret_def allowed_def Let_def)
qed

lemma applied_saves:
  assumes "cn_persist c = Some (e, fp)" "cn_epoch c = e" "cn_released c \<and> allowed c \<longrightarrow> cn_capture c" "ev_arm env = None"
  shows "SaveRole fp \<in> set (snd (connector_step p c (env, w, OnFrame (FRole (Applied e)))))"
  using assms
  by (auto simp: connector_step_def connector_frame_def connector_applied_def arm_capture_def attempt_def
      allowed_def Let_def)

text \<open>C2: A handover works across the connection. Let the sessions of two computers be connected and hold the same
  assignment, unpaused, with the dialling computer's capture backend there if it controls, and let the user of the
  dialling computer choose a controller, so that its session proposes it. The accepting session answers the proposal
  with its readiness, the dialling session answers that with its decision, and after the accepting session handled
  the decision both hold the same epoch and the same controller again, with nothing pending on either side. If the
  decision is an abort, that is the controller from before; if it is a commit, it is the chosen computer, which is
  saved by both: by the accepting session with its confirmation, and by the dialling session when it handles
  this. At no time after the decision do both computers take themselves for the controller.\<close>

theorem sessions_hand_over:
  assumes mirrored: "sp_local pr = sp_peer pc" "sp_peer pr = sp_local pc" "sp_local pc \<noteq> sp_peer pc"
      "role_switch_available pr"
    and dialling: "connector_start pc e0 state cap stored preference enabled watched w0 = (Continue c0, a0)"
      "connector_run pc c0 cis = (Continue c, ac)"
    and accepting: "session_run pr (receiver_start pr rcap rwatched now) ris = (Continue s, ar)"
    and agreed: "agree (cn_coordinator c) s" "\<not> rv_paused s" "cn_local_controller c \<longrightarrow> cn_capture c"
    and begun: "connector_step pc c (e1, w1, OnTray (SetController choice)) = (Continue c1, acts1)"
      "\<not> is_transitioning (cn_coordinator c)" "is_transitioning (cn_coordinator c1)"
    and calm: "ev_arm e3 = None" "ev_arm e4 = None" "ev_save_ok e4" "ev_arm e5 = None"
  defines "chosen \<equiv> (case choice of ChooseLocal \<Rightarrow> sp_local pc | ChoosePeer \<Rightarrow> sp_peer pc)"
  shows "\<exists>q s1 r1 ready detail c2 acts2 decision s2 r2.
    Send (FRole (Prepare q)) \<in> set acts1 \<and>
    session_step pr s (e2, Suc (Suc w2), FrameIn (FRole (Prepare q))) = (Continue s1, r1) \<and>
    Send (FRole (Ready (rs_role_epoch q) ready True detail)) \<in> set r1 \<and>
    connector_step pc c1 (e3, Suc w3, OnFrame (FRole (Ready (rs_role_epoch q) ready True detail))) =
      (Continue c2, acts2) \<and>
    Send (decision_frame decision) \<in> set acts2 \<and>
    session_step pr s1 (e4, Suc w4, FrameIn (decision_frame decision)) = (Continue s2, r2) \<and>
    agree (cn_coordinator c2) s2 \<and> \<not> is_transitioning (cn_coordinator c2) \<and> rv_prepared s2 = None \<and>
    \<not> (cn_local_controller c2 \<and> rv_local_controller s2) \<and>
    (case decision of
       CommitDecision d \<Rightarrow> rs_controller_fingerprint (rc_stable (cn_coordinator c2)) = Some chosen \<and>
         Send (FRole (Applied (rs_role_epoch d))) \<in> set r2 \<and> SaveRole chosen \<in> set r2 \<and>
         SaveRole chosen \<in> set (snd (connector_step pc c2 (e5, w5, OnFrame (FRole (Applied (rs_role_epoch d))))))
     | AbortDecision a \<Rightarrow> rs_controller_fingerprint (rc_stable (cn_coordinator c2)) =
         rs_controller_fingerprint (rc_stable (cn_coordinator c)))"
proof -
  have ok: "assignment_ok pc c"
    using run_ok(1) [OF dialling] .
  obtain q rd where q: "prepare (cn_coordinator c) chosen = (Ok q, cn_coordinator c1)" "Send (FRole (Prepare q)) \<in> set acts1"
      "cn_readiness c1 = Some rd" "chosen = sp_local pc \<and> rd_capture rd \<or> cn_capture c \<longrightarrow> cn_capture c1"
      "cn_local_controller c1 = cn_local_controller c"
    using tray_proposes [OF begun] unfolding chosen_def by blast
  have names: "rc_connector_fingerprint (cn_coordinator c) = sp_peer pr" "rc_listener_fingerprint (cn_coordinator c) = sp_local pr"
      "sp_local pr \<noteq> sp_peer pr"
    using ok mirrored by (auto simp: assignment_ok_def Let_def)
  have role: "role_agrees pr s"
    using session_run_role_agrees [OF accepting receiver_start_invariants(2) [OF names(3)]] .
  obtain s1 r1 ready detail where s1:
      "session_step pr s (e2, Suc (Suc w2), FrameIn (FRole (Prepare q))) = (Continue s1, r1)"
      "Send (FRole (Ready (rs_role_epoch q) ready True detail)) \<in> set r1"
      "rv_prepared s1 = Some q" "agree (cn_coordinator c) s1" "role_agrees pr s1"
    using receiver_answers [OF agreed(1) names(1,2) q(1) mirrored(4) agreed(2) role, of e2 w2] by blast
  let ?detail = "case detail of Some d \<Rightarrow> Some d | None \<Rightarrow> rd_detail rd"
  obtain decision k where k: "finish_ready (cn_coordinator c1) (rs_role_epoch q) (rd_capture rd) (rd_inject rd) ready True
      ?detail = (Ok decision, k)"
    using finish_ready_all [OF q(1), of ?detail] finish_ready_not_all [OF q(1), of "rd_capture rd" "rd_inject rd" ready True ?detail]
    by (cases "rd_capture rd \<and> rd_inject rd \<and> ready") auto
  obtain s2 r2 where s2:
      "session_step pr s1 (e4, Suc w4, FrameIn (decision_frame decision)) = (Continue s2, r2)"
      "agree k s2" "rc_pending k = None" "rv_prepared s2 = None"
      "rv_local_controller s2 = (rs_controller_fingerprint (rc_stable k) = Some (sp_local pr))"
      and outcome: "case decision of
         CommitDecision d \<Rightarrow> rd_capture rd \<and> rd_inject rd \<and> ready \<and> True \<and> rs_controller_fingerprint d = Some chosen \<and>
           rc_stable k = d \<and> Send (FRole (Applied (rs_role_epoch d))) \<in> set r2 \<and> SaveRole chosen \<in> set r2
       | AbortDecision a \<Rightarrow> rc_stable k = rc_stable (cn_coordinator c)"
    using receiver_applies [OF q(1) s1(3-5) calm(2,3) k, of w4] by blast
  have commit: "rd_capture rd" "rs_controller_fingerprint d = Some chosen" "rc_stable k = d"
      "Send (FRole (Applied (rs_role_epoch d))) \<in> set r2" "SaveRole chosen \<in> set r2" if "decision = CommitDecision d" for d
    using outcome unfolding that by simp_all
  have "cn_capture c1" if "decision = AbortDecision a" "cn_local_controller c1" for a
    using q(4,5) agreed(3) that(2) by simp
  moreover have "\<exists>fp. rs_controller_fingerprint d = Some fp \<and> (fp = sp_local pc \<longrightarrow> cn_capture c1)"
      if "decision = CommitDecision d" for d
    using commit(1,2) [OF that] q(4) by simp
  ultimately obtain c2 acts2 where c2: "connector_step pc c1 (e3, Suc w3, OnFrame (FRole (Ready (rs_role_epoch q) ready True detail))) =
      (Continue c2, acts2)" "Send (decision_frame decision) \<in> set acts2" "cn_coordinator c2 = k"
      and saved: "case decision of
         CommitDecision d \<Rightarrow> cn_epoch c2 = rs_role_epoch d \<and> (cn_released c2 \<and> allowed c2 \<longrightarrow> cn_capture c2) \<and>
           cn_persist c2 = Some (rs_role_epoch d, the (rs_controller_fingerprint d))
       | AbortDecision a \<Rightarrow> True"
    using ready_decides [OF q(3) begun(3) calm(1) k, of pc w3] by blast
  have "assignment_ok pc c2"
  proof -
    have run: "connector_run pc c0 (cis @ [(e1, w1, OnTray (SetController choice))]) = (Continue c1, ac @ acts1)"
      using dialling(2) begun(1) by (simp add: connector_run_def loop_run_snoc)
    have "connector_run pc c0 ((cis @ [(e1, w1, OnTray (SetController choice))]) @
        [(e3, Suc w3, OnFrame (FRole (Ready (rs_role_epoch q) ready True detail)))]) = (Continue c2, (ac @ acts1) @ acts2)"
      using run c2(1) by (simp only: connector_run_def loop_run_snoc) simp
    then show ?thesis
      using run_ok(1) [OF dialling(1)] by blast
  qed
  then have one: "\<not> (cn_local_controller c2 \<and> rv_local_controller s2)"
    using c2(3) s2(5) mirrored(1,3) by (simp add: assignment_ok_def Let_def)
  have applied: "SaveRole chosen \<in> set (snd (connector_step pc c2 (e5, w5, OnFrame (FRole (Applied (rs_role_epoch d))))))"
    if "decision = CommitDecision d" for d
    using applied_saves [of c2 "rs_role_epoch d" chosen e5 pc w5] saved calm(4) commit(2) [OF that] unfolding that by simp
  show ?thesis
  proof (intro exI conjI)
    show "Send (FRole (Prepare q)) \<in> set acts1" by (rule q(2))
    show "session_step pr s (e2, Suc (Suc w2), FrameIn (FRole (Prepare q))) = (Continue s1, r1)" by (rule s1(1))
    show "Send (FRole (Ready (rs_role_epoch q) ready True detail)) \<in> set r1" by (rule s1(2))
    show "connector_step pc c1 (e3, Suc w3, OnFrame (FRole (Ready (rs_role_epoch q) ready True detail))) = (Continue c2, acts2)"
      by (rule c2(1))
    show "Send (decision_frame decision) \<in> set acts2" by (rule c2(2))
    show "session_step pr s1 (e4, Suc w4, FrameIn (decision_frame decision)) = (Continue s2, r2)" by (rule s2(1))
    show "agree (cn_coordinator c2) s2" "\<not> is_transitioning (cn_coordinator c2)" "rv_prepared s2 = None"
      unfolding c2(3) using s2(2-4) by (simp_all add: is_transitioning_def)
    show "\<not> (cn_local_controller c2 \<and> rv_local_controller s2)" by (rule one)
    show "case decision of
       CommitDecision d \<Rightarrow> rs_controller_fingerprint (rc_stable (cn_coordinator c2)) = Some chosen \<and>
         Send (FRole (Applied (rs_role_epoch d))) \<in> set r2 \<and> SaveRole chosen \<in> set r2 \<and>
         SaveRole chosen \<in> set (snd (connector_step pc c2 (e5, w5, OnFrame (FRole (Applied (rs_role_epoch d))))))
     | AbortDecision a \<Rightarrow> rs_controller_fingerprint (rc_stable (cn_coordinator c2)) =
         rs_controller_fingerprint (rc_stable (cn_coordinator c))"
      unfolding c2(3) using commit applied outcome by (cases decision) simp_all
  qed
qed

text \<open>The dialling computer controls, and its user hands control over to the listener.\<close>

definition controlling_state :: connector where
  "controlling_state = connector_state dialed_peer
     \<lparr>rc_connector_fingerprint = ''c'', rc_listener_fingerprint = ''l'',
      rc_stable = initial_role_state dialed_peer (Some ''c'') False, rc_pending = None\<rparr> True None False 0"

lemma controlling_start:
  "\<exists>acts. connector_start dialed_peer (calm_env 0) (initial_role_state dialed_peer (Some ''c'') False) True (Some None) None
     False False 9 = (Continue controlling_state, acts)"
  by (simp add: connector_start_def coordinator_new_def dialed_peer_def initial_role_state_def controlling_state_def
      calm_env_def initial_audio_source_def send_audio_route_def offer_if_def act_if_def act_def attempt_def send_def
      ret_def connector_state_def coordinator_state_def)

lemma controlling_simps:
  "cn_coordinator controlling_state = \<lparr>rc_connector_fingerprint = ''c'', rc_listener_fingerprint = ''l'',
      rc_stable = initial_role_state dialed_peer (Some ''c'') False, rc_pending = None\<rparr>"
  "\<not> cn_paused controlling_state" "cn_capture controlling_state" "cn_local_controller controlling_state"
  "\<not> is_transitioning (cn_coordinator controlling_state)"
  by (simp_all add: controlling_state_def dialed_defs)

lemma controlling_step:
  "\<exists>c1 acts. connector_step dialed_peer controlling_state (calm_env 3, 9, OnTray (SetController ChoosePeer)) =
     (Continue c1, acts) \<and> is_transitioning (cn_coordinator c1)"
proof -
  have peer: "sp_peer dialed_peer = ''l''" "sp_local dialed_peer = ''c''"
    by (simp_all add: dialed_peer_def)
  have may: "may_switch dialed_peer ''l'' controlling_state"
    by (simp add: may_switch_def controlling_simps role_switch_available_def dialed_defs)
  have "\<exists>q c. prepare (cn_coordinator controlling_state) ''l'' = (Ok q, c) \<and> is_transitioning c"
    by (simp add: prepare_def checked_add_def controlling_simps INITIAL_ROLE_EPOCH_def dialed_defs)
  then obtain q c where "prepare (cn_coordinator controlling_state) ''l'' = (Ok q, c)" "is_transitioning c"
    by blast
  moreover have "connector_step dialed_peer controlling_state (calm_env 3, 9, OnTray (SetController ChoosePeer)) =
      begin_role_switch dialed_peer (calm_env 3) ''l'' controlling_state 9"
    using may by (simp add: connector_step_def connector_set_controller_def peer Let_def)
  ultimately show ?thesis
    by (auto simp: begin_role_switch_def release_capture_def send_lossy_def act_if_def act_def send_def ret_def peer Let_def)
qed

definition listening_peer :: session_peer where
  "listening_peer = dialed_peer\<lparr>sp_local := ''l'', sp_peer := ''c''\<rparr>"

theorem sessions_hand_over_witness:
  "\<exists>c1 q s1 acts1 (c2 :: connector) acts2 decision s2 r2.
     connector_step dialed_peer controlling_state (calm_env 3, 9, OnTray (SetController ChoosePeer)) =
       (Continue c1, acts1) \<and>
     Send (FRole (Prepare q)) \<in> set acts1 \<and> Send (decision_frame decision) \<in> set acts2 \<and>
     session_step listening_peer s1 (sample_env 5, Suc 0, FrameIn (decision_frame decision)) = (Continue s2, r2) \<and>
     agree (cn_coordinator c2) s2 \<and> \<not> (cn_local_controller c2 \<and> rv_local_controller s2)"
proof -
  obtain a0 where start: "connector_start dialed_peer (calm_env 0) (initial_role_state dialed_peer (Some ''c'') False) True
      (Some None) None False False 9 = (Continue controlling_state, a0)"
    using controlling_start by blast
  have run: "connector_run dialed_peer controlling_state [] = (Continue controlling_state, [])"
    by (simp add: connector_run_def)
  obtain c1 acts1 where begun: "connector_step dialed_peer controlling_state (calm_env 3, 9, OnTray (SetController ChoosePeer)) =
      (Continue c1, acts1)" "is_transitioning (cn_coordinator c1)"
    using controlling_step by blast
  have receiver: "session_run listening_peer (receiver_start listening_peer False False 0) [] =
      (Continue (receiver_start listening_peer False False 0), [])"
    by simp
  have mirrored: "sp_local listening_peer = sp_peer dialed_peer" "sp_peer listening_peer = sp_local dialed_peer"
      "sp_local dialed_peer \<noteq> sp_peer dialed_peer" "role_switch_available listening_peer"
    by (simp_all add: listening_peer_def dialed_peer_def role_switch_available_def)
  have agreed: "agree (cn_coordinator controlling_state) (receiver_start listening_peer False False 0)"
      "\<not> rv_paused (receiver_start listening_peer False False 0)"
      "cn_local_controller controlling_state \<longrightarrow> cn_capture controlling_state"
    by (simp_all add: agree_def receiver_start_def listening_peer_def controlling_simps dialed_defs)
  have calm: "ev_arm (calm_env 4) = None" "ev_arm (sample_env 5) = None" "ev_save_ok (sample_env 5)"
    by (simp_all add: calm_env_def sample_env_def)
  obtain q s1 c2 acts2 decision s2 r2 where "Send (FRole (Prepare q)) \<in> set acts1"
      "Send (decision_frame decision) \<in> set acts2"
      "session_step listening_peer s1 (sample_env 5, Suc 0, FrameIn (decision_frame decision)) = (Continue s2, r2)"
      "agree (cn_coordinator (c2 :: connector)) s2" "\<not> (cn_local_controller c2 \<and> rv_local_controller s2)"
    using sessions_hand_over [OF mirrored start run receiver agreed begun(1) controlling_simps(5) begun(2)
        calm(1-3) calm(1), where ?e2.0 = "sample_env 3" and ?w2.0 = 7 and ?w3.0 = 8 and ?w4.0 = 0 and ?w5.0 = 9]
    by (elim exE conjE) (rule that, assumption+)
  with begun(1) show ?thesis
    by blast
qed

end
