(* ===== verification/Node.thy ===== *)
theory Node
  imports ComputerPairing PhoneSessions SessionProgram "HOL-Library.Sublist"
begin

text \<open>
  What runs as long as the program does: \<open>acceptor.rs\<close>, which takes connections and greets peers, and the loop of
  \<open>run_node\<close> in \<open>main.rs\<close>, which dials the other computer, admits incoming ones, and runs one session with a computer
  at a time. The loop is a step function of what its \<open>select!\<close> meets; a step whose event cannot occur in the state is
  None. The set-up of an accepted or dialled connection is \<open>accept_computer\<close> and \<open>connect_computer\<close>; phones are
  the functions of \<open>PhoneSessions\<close>. What a session does until it ends is in the session theories. The log, the tray's
  display, the notification hub and the contents of the pin file are not modelled.
\<close>

section \<open>Accepting connections\<close>

text \<open>An authenticated peer that greeted, the address it came from included.\<close>

record incoming =
  in_ip :: ip_addr
  in_fingerprint :: string
  in_hello :: hello

datatype accept_event = AcceptPeer incoming | AcceptFailed string

text \<open>The Noise handshake ends with the peer's key or an error text; a read that fails in time has an error text, one
  that does not end in time has none.\<close>

datatype noise_end = NoiseKey string | NoiseError string | NoiseTimeout

datatype hello_read = ReadFrame frame | ReadError string | ReadTimeout

definition handshake :: "ip_addr \<Rightarrow> noise_end \<Rightarrow> hello_read \<Rightarrow> accept_event option \<times> frame list" where
  "handshake ip noise first =
     (case noise of
        NoiseError e \<Rightarrow> (Some (AcceptFailed (''Noise handshake failed: '' @ e)), [])
      | NoiseTimeout \<Rightarrow> (Some (AcceptFailed ''Noise handshake timed out''), [])
      | NoiseKey fp \<Rightarrow>
          (case first of
             ReadFrame (FHello h) \<Rightarrow>
               (case validate_controller_hello h fp of
                  Inl message \<Rightarrow> (Some (AcceptFailed message), [FError \<lparr>re_code = ''invalid_hello'', re_message = message\<rparr>])
                | Inr _ \<Rightarrow> (Some (AcceptPeer \<lparr>in_ip = ip, in_fingerprint = fp, in_hello = h\<rparr>), []))
           | ReadFrame _ \<Rightarrow> (None, [])
           | ReadError e \<Rightarrow> (Some (AcceptFailed (''failed to read Hello: '' @ e)), [])
           | ReadTimeout \<Rightarrow> (Some (AcceptFailed ''timed out waiting for controller hello''), [])))"

definition MAX_PENDING_PEERS :: nat where
  "MAX_PENDING_PEERS = 4"

text \<open>A connection that was accepted holds a permit until its handshake ended and the node took the event.\<close>

record acceptor =
  ac_permits :: nat
  ac_events :: "accept_event list"

definition acceptor_new :: acceptor where
  "acceptor_new = \<lparr>ac_permits = MAX_PENDING_PEERS, ac_events = []\<rparr>"

datatype acceptor_event =
    Connection \<comment> \<open>closed at once if no permit is left\<close>
  | Handshaken "accept_event option" \<comment> \<open>of a connection that holds a permit\<close>
  | EventTaken

fun acceptor_step :: "acceptor \<Rightarrow> acceptor_event \<Rightarrow> acceptor option" where
  "acceptor_step a Connection = Some (if ac_permits a = 0 then a else a\<lparr>ac_permits := ac_permits a - 1\<rparr>)"
| "acceptor_step a (Handshaken event) =
     (if ac_permits a + length (ac_events a) = MAX_PENDING_PEERS then None
      else (case event of
              None \<Rightarrow> Some (a\<lparr>ac_permits := ac_permits a + 1\<rparr>)
            | Some e \<Rightarrow> Some (a\<lparr>ac_events := ac_events a @ [e]\<rparr>)))"
| "acceptor_step a EventTaken =
     (case ac_events a of
        [] \<Rightarrow> None
      | e # rest \<Rightarrow> Some (a\<lparr>ac_events := rest, ac_permits := ac_permits a + 1\<rparr>))"

section \<open>Dialling\<close>

definition DUPLICATE_SESSION :: string where
  "DUPLICATE_SESSION = ''duplicate_session''"

definition DUPLICATE_TEXT :: string where
  "DUPLICATE_TEXT = ''both computers connected at once; keeping the other connection''"

definition DIAL_RETRY :: duration where
  "DIAL_RETRY = from_secs 2"

definition DIAL_DEFER :: duration where
  "DIAL_DEFER = from_secs 3"

definition DIAL_UNREACHABLE_RETRY :: duration where
  "DIAL_UNREACHABLE_RETRY = from_secs 30"

definition keep_own_dial :: "string \<Rightarrow> string \<Rightarrow> bool" where
  "keep_own_dial local_fp peer_fp = (local_fp < peer_fp)"

definition dial_delay :: "string \<Rightarrow> string list \<Rightarrow> duration \<Rightarrow> duration" where
  "dial_delay local_fp paired base =
     (if list_all (keep_own_dial local_fp) paired then base else base + DIAL_DEFER)"

definition paired_computer_keys :: "pin_store \<Rightarrow> string \<Rightarrow> string list" where
  "paired_computer_keys pins pinned =
     (let keys = map pp_fingerprint (bt_values (ps_peers pins))
      in if pinned \<noteq> [] \<and> pinned \<notin> set keys then keys @ [pinned] else keys)"

datatype dial_failure = DialUnreachable | DialDuplicate | DialUpgradeRequired | DialOther

definition dial_failure :: "string \<Rightarrow> dial_failure" where
  "dial_failure message =
     (if sublist UPGRADE_TEXT message then DialUpgradeRequired
      else if sublist DUPLICATE_SESSION message then DialDuplicate
      else if prefix ''failed to connect to'' message \<or> prefix ''connection to '' message then DialUnreachable
      else DialOther)"

section \<open>The state of the node\<close>

text \<open>The part of the configuration that matters here: what is announced, and the peer key of an old dialling
  configuration (empty if there is none).\<close>

record node_settings =
  ns_config :: node_config
  ns_pinned :: string

text \<open>The settings read at the start, the own key, and whether there is an address to dial.\<close>

record node_setup =
  su_settings :: node_settings
  su_local :: string
  su_endpoint :: bool

text \<open>A dial in progress keeps the keys and the armed flag of its start, and the settings it read from the disk then.\<close>

record dial =
  da_settings :: node_settings
  da_paired :: "string list"
  da_armed :: bool

datatype live_session = LiveDialled (live_name: string) (live_key: string) | LiveAccepted (live_name: string) (live_key: string)

record node =
  nd_enabled :: bool
  nd_armed :: bool
  nd_blocked :: bool
  nd_dial_at :: "instant option"
  nd_dialing :: "dial option"
  nd_replacement :: "incoming option"
  nd_pins :: pin_store
  nd_phones :: phone_sessions
  nd_live :: "live_session option"

datatype node_action =
    StartDial dial
  | CancelDial
  | ShowDialError string
  | Refuse incoming string string
  | PhoneStart start_outcome
  | PhoneAnswer phone_reply
  | SetUp "frame list"
  | BeginSession live_session
  | ReplaceSession
  | ReleaseInput
  | ReleaseKeys

datatype node_outcome = NodeRuns node | NodeQuits | NodeFails

section \<open>Events\<close>

text \<open>What the set-up of an accepted connection meets after \<open>accept_computer\<close>: whether the screen layout, if there is
  one, could be sent, and whether the audio socket could be bound.\<close>

record accept_env =
  ae_input :: accept_input
  ae_screen_sent :: bool
  ae_socket :: bool

text \<open>A dial fails before the handshake is done, or the connection is set up with the peer of a key; then what follows
  the pairing can still fail.\<close>

datatype dial_end =
    NoConnection string
  | Connection_with string connect_input "string option"

datatype node_event =
    OnTrayCommand tray_command
  | OnTrayClosed
  | OnPhoneRequest request_env phone_request atomic_path
  | OnIncoming incoming accept_env
  | OnReplacement accept_env
  | OnAcceptFailed
  | OnAcceptorStopped
  | OnDialDue "node_settings option" \<comment> \<open>the settings on the disk, if they can be read\<close>
  | OnDialDone dial_end bool \<comment> \<open>whether the pins can be saved\<close>
  | OnSessionEnd session_exit

text \<open>When the event is handled, and when the loop is entered again.\<close>

record node_env =
  ne_now :: instant
  ne_top :: instant

section \<open>The loop\<close>

definition node_keys :: "node_setup \<Rightarrow> node \<Rightarrow> string list" where
  "node_keys su n = paired_computer_keys (nd_pins n) (ns_pinned (su_settings su))"

definition loop_top :: "node_setup \<Rightarrow> instant \<Rightarrow> node \<Rightarrow> node" where
  "loop_top su now n =
     (if nd_dial_at n = None \<and> nd_dialing n = None \<and> \<not> nd_blocked n \<and> nd_enabled n \<and> su_endpoint su
      then n\<lparr>nd_dial_at := Some (now + dial_delay (su_local su) (node_keys su n) DIAL_RETRY)\<rparr>
      else n)"

definition may_dial :: "node_setup \<Rightarrow> node \<Rightarrow> bool" where
  "may_dial su n =
     (su_endpoint su \<and> nd_enabled n \<and> \<not> nd_blocked n \<and> nd_dialing n = None \<and> (nd_armed n \<or> node_keys su n \<noteq> []))"

definition node_start :: "node_setup \<Rightarrow> bool \<Rightarrow> pin_store \<Rightarrow> phone_sessions \<Rightarrow> node_env \<Rightarrow> node" where
  "node_start su armed pins phones env =
     (let keys = paired_computer_keys pins (ns_pinned (su_settings su))
      in loop_top su (ne_top env)
        \<lparr>nd_enabled = True, nd_armed = (armed \<or> su_endpoint su \<and> keys = []), nd_blocked = False,
         nd_dial_at = (if su_endpoint su then Some (ne_now env + dial_delay (su_local su) keys 0) else None),
         nd_dialing = None, nd_replacement = None, nd_pins = pins, nd_phones = phones, nd_live = None\<rparr>)"

text \<open>The arms of the loop return the state; the loop then starts again if no session is live.\<close>

definition tray_step :: "node_setup \<Rightarrow> instant \<Rightarrow> tray_command \<Rightarrow> node \<Rightarrow> node_outcome \<times> node_action list" where
  "tray_step su now command n =
     (case command of
        ArmPairing \<Rightarrow>
          (NodeRuns (n\<lparr>nd_armed := True, nd_blocked := False, nd_dial_at := (if su_endpoint su then Some now else None)\<rparr>), [])
      | TrayQuit \<Rightarrow> (NodeQuits, [ReleaseKeys])
      | Disconnect \<Rightarrow>
          (NodeRuns (n\<lparr>nd_enabled := False, nd_dialing := None, nd_dial_at := None\<rparr>),
           if nd_dialing n \<noteq> None then [CancelDial] else [])
      | Reconnect \<Rightarrow>
          (NodeRuns (n\<lparr>nd_enabled := True, nd_blocked := False, nd_dial_at := (if su_endpoint su then Some now else None)\<rparr>), [])
      | _ \<Rightarrow> (NodeRuns n, []))"

definition phone_start :: "instant \<Rightarrow> incoming \<Rightarrow> node \<Rightarrow> node_outcome \<times> node_action list" where
  "phone_start now peer n =
     (case start_phone now (in_ip peer) (hello_device_name (in_hello peer)) (in_fingerprint peer)
             (hello_extensions (in_hello peer)) (nd_pins n) (nd_phones n) of
        (outcome, phones) \<Rightarrow> (NodeRuns (n\<lparr>nd_phones := phones\<rparr>), [PhoneStart outcome]))"

definition phone_request ::
  "(pin_store \<Rightarrow> bytes option) \<Rightarrow> (ip_addr \<Rightarrow> string) \<Rightarrow> request_env \<Rightarrow> phone_request \<Rightarrow> atomic_path \<Rightarrow> node
     \<Rightarrow> node_outcome \<times> node_action list" where
  "phone_request to_toml show_ip env req file n =
     (case handle_request to_toml show_ip env req (nd_phones n, nd_pins n, file) of
        (reply, phones, pins, _) \<Rightarrow> (NodeRuns (n\<lparr>nd_phones := phones, nd_pins := pins\<rparr>), [PhoneAnswer reply]))"

text \<open>A computer that was admitted is sent the screen layout and gets an audio socket.\<close>

definition begin_accepted :: "accept_env \<Rightarrow> live_session \<Rightarrow> frame list \<Rightarrow> node \<Rightarrow> node_outcome \<times> node_action list" where
  "begin_accepted env session sent n =
     (if \<not> ae_screen_sent env then (NodeRuns n, [SetUp sent])
      else if \<not> ae_socket env then (NodeFails, [SetUp sent])
      else (NodeRuns (n\<lparr>nd_live := Some session\<rparr>), [SetUp sent, BeginSession session]))"

text \<open>What happens to the peer the loop took, after the \<open>select!\<close>.\<close>

definition admit_peer :: "node_setup \<Rightarrow> instant \<Rightarrow> incoming \<Rightarrow> accept_env \<Rightarrow> node \<Rightarrow> node_outcome \<times> node_action list" where
  "admit_peer su now peer env n =
     (if is_phone_hello (in_hello peer) then phone_start now peer n
      else if \<not> nd_enabled n
      then (NodeRuns n, [Refuse peer ''receiver_disconnected'' ''the other computer is disconnected from its tray''])
      else (case accept_computer (ns_config (su_settings su)) (su_local su) (nd_pins n) (nd_armed n) (in_hello peer)
                   (in_fingerprint peer) (ae_input env) of
              (outcome, pins, armed, sent) \<Rightarrow>
                (let n1 = n\<lparr>nd_pins := pins, nd_armed := armed\<rparr>;
                     session = LiveAccepted (hello_device_name (in_hello peer)) (in_fingerprint peer)
                 in case outcome of
                      AcceptSession \<Rightarrow> begin_accepted env session sent n1
                    | AcceptSaveFailed \<Rightarrow> (NodeFails, [SetUp sent])
                    | _ \<Rightarrow> (NodeRuns n1, [SetUp sent]))))"

definition incoming_step :: "node_setup \<Rightarrow> instant \<Rightarrow> incoming \<Rightarrow> accept_env \<Rightarrow> node \<Rightarrow> node_outcome \<times> node_action list" where
  "incoming_step su now peer env n =
     (if nd_dialing n \<noteq> None \<and> \<not> is_phone_hello (in_hello peer)
      then if keep_own_dial (su_local su) (in_fingerprint peer)
        then (NodeRuns n, [Refuse peer DUPLICATE_SESSION DUPLICATE_TEXT])
        else (case admit_peer su now peer env (n\<lparr>nd_dialing := None\<rparr>) of (out, acts) \<Rightarrow> (out, CancelDial # acts))
      else admit_peer su now peer env n)"

definition dial_due :: "node_setup \<Rightarrow> node_settings option \<Rightarrow> node \<Rightarrow> node_outcome \<times> node_action list" where
  "dial_due su fresh n =
     (let d = \<lparr>da_settings = (case fresh of Some s \<Rightarrow> s | None \<Rightarrow> su_settings su), da_paired = node_keys su n,
               da_armed = nd_armed n\<rparr>
      in (NodeRuns (n\<lparr>nd_dial_at := None, nd_dialing := Some d\<rparr>), [StartDial d]))"

text \<open>The outcome of a dial: the peer's name and key and whether the computers were paired, or an error text.\<close>

definition dial_result :: "node_setup \<Rightarrow> dial \<Rightarrow> dial_end \<Rightarrow> (string, string \<times> string \<times> bool) result" where
  "dial_result su d result =
     (case result of
        NoConnection message \<Rightarrow> Err message
      | Connection_with fp inp late \<Rightarrow>
          (case fst (connect_computer (ns_config (da_settings d)) (su_local su) (da_paired d) (ns_pinned (da_settings d))
                  (da_armed d) fp inp) of
             Inl message \<Rightarrow> Err message
           | Inr paired \<Rightarrow>
               (case (late, read_hello (ci_frames inp)) of
                  (None, Inr (h, _)) \<Rightarrow> Ok (hello_device_name h, fp, paired)
                | (Some message, _) \<Rightarrow> Err message
                | (None, Inl message) \<Rightarrow> Err message)))"

definition dial_failed :: "instant \<Rightarrow> string \<Rightarrow> node \<Rightarrow> node_outcome \<times> node_action list" where
  "dial_failed now message n =
     (case dial_failure message of
        DialUnreachable \<Rightarrow> (NodeRuns (n\<lparr>nd_dial_at := Some (now + DIAL_UNREACHABLE_RETRY)\<rparr>), [])
      | DialDuplicate \<Rightarrow> (NodeRuns (n\<lparr>nd_dial_at := None\<rparr>), [])
      | DialUpgradeRequired \<Rightarrow> (NodeRuns (n\<lparr>nd_blocked := True, nd_dial_at := None\<rparr>), [ShowDialError message])
      | DialOther \<Rightarrow> (NodeRuns (n\<lparr>nd_dial_at := None\<rparr>), [ShowDialError message]))"

definition dial_done ::
  "node_setup \<Rightarrow> instant \<Rightarrow> dial \<Rightarrow> dial_end \<Rightarrow> bool \<Rightarrow> node \<Rightarrow> node_outcome \<times> node_action list" where
  "dial_done su now d result save_ok n =
     (let n1 = n\<lparr>nd_dialing := None\<rparr>
      in case dial_result su d result of
           Inl message \<Rightarrow> dial_failed now message n1
         | Inr (name, fp, paired) \<Rightarrow>
             (let n2 = (if paired then n1\<lparr>nd_pins := pin (nd_pins n1) name fp\<rparr> else n1)
              in if paired \<and> \<not> save_ok then (NodeFails, [])
                 else (NodeRuns (n2\<lparr>nd_armed := False, nd_live := Some (LiveDialled name fp)\<rparr>),
                       [BeginSession (LiveDialled name fp)])))"

text \<open>The inner loops, while a session is live.\<close>

definition is_connected_peer :: "string \<Rightarrow> string \<Rightarrow> string \<Rightarrow> string \<Rightarrow> bool" where
  "is_connected_peer connected_name connected_fp name fp = (name = connected_name \<and> fp = connected_fp)"

definition peer_while_connected :: "string \<Rightarrow> string \<Rightarrow> incoming \<Rightarrow> node \<Rightarrow> node_outcome \<times> node_action list" where
  "peer_while_connected name fp peer n =
     (if is_connected_peer name fp (hello_device_name (in_hello peer)) (in_fingerprint peer)
      then (NodeRuns (n\<lparr>nd_replacement := Some peer\<rparr>), [ReplaceSession])
      else (NodeRuns n, [Refuse peer ''receiver_busy'' ''this receiver is already connected to another computer'']))"

definition peer_while_dialled :: "node_setup \<Rightarrow> string \<Rightarrow> incoming \<Rightarrow> node \<Rightarrow> node_outcome \<times> node_action list" where
  "peer_while_dialled su fp peer n =
     (if in_fingerprint peer = fp \<and> \<not> keep_own_dial (su_local su) fp
      then (NodeRuns (n\<lparr>nd_replacement := Some peer\<rparr>), [ReplaceSession])
      else if in_fingerprint peer = fp then (NodeRuns n, [Refuse peer DUPLICATE_SESSION DUPLICATE_TEXT])
      else (NodeRuns n, [Refuse peer ''receiver_busy'' ''this computer is already connected to another computer'']))"

definition incoming_while_live ::
  "node_setup \<Rightarrow> instant \<Rightarrow> live_session \<Rightarrow> incoming \<Rightarrow> node \<Rightarrow> node_outcome \<times> node_action list" where
  "incoming_while_live su now live peer n =
     (if is_phone_hello (in_hello peer) then phone_start now peer n
      else (case live of
              LiveDialled name fp \<Rightarrow> peer_while_dialled su fp peer n
            | LiveAccepted name fp \<Rightarrow> peer_while_connected name fp peer n))"

definition session_end :: "live_session \<Rightarrow> session_exit \<Rightarrow> node \<Rightarrow> node_outcome \<times> node_action list" where
  "session_end live exit n =
     (let n1 = n\<lparr>nd_live := None\<rparr>
      in case live of
           LiveDialled name fp \<Rightarrow>
             (case exit of
                ExitQuit \<Rightarrow> (NodeQuits, [ReleaseKeys])
              | ExitDisconnect \<Rightarrow> (NodeRuns (n1\<lparr>nd_enabled := False, nd_dial_at := None\<rparr>), [])
              | _ \<Rightarrow> (NodeRuns n1, []))
         | LiveAccepted name fp \<Rightarrow>
             (case exit of
                ExitQuit \<Rightarrow> (NodeQuits, [ReleaseKeys])
              | ExitDisconnect \<Rightarrow> (NodeRuns (n1\<lparr>nd_enabled := False, nd_replacement := None\<rparr>), [ReleaseInput, ReleaseKeys])
              | _ \<Rightarrow> (NodeRuns n1, [ReleaseInput, ReleaseKeys])))"

text \<open>One event, in the state the loop waits in: for a replacement that is to be admitted, in the outer \<open>select!\<close>, or
  in the \<open>select!\<close> of a live session.\<close>

definition node_arm ::
  "(pin_store \<Rightarrow> bytes option) \<Rightarrow> (ip_addr \<Rightarrow> string) \<Rightarrow> node_setup \<Rightarrow> node_env \<Rightarrow> node_event \<Rightarrow> node
     \<Rightarrow> (node_outcome \<times> node_action list) option" where
  "node_arm to_toml show_ip su env event n =
     (case nd_live n of
        Some live \<Rightarrow>
          (case event of
             OnSessionEnd exit \<Rightarrow> Some (session_end live exit n)
           | OnPhoneRequest renv req file \<Rightarrow> Some (phone_request to_toml show_ip renv req file n)
           | OnIncoming peer aenv \<Rightarrow> Some (incoming_while_live su (ne_now env) live peer n)
           | OnAcceptFailed \<Rightarrow> Some (NodeRuns n, [])
           | OnAcceptorStopped \<Rightarrow> Some (NodeRuns n, [])
           | _ \<Rightarrow> None)
      | None \<Rightarrow>
          (case nd_replacement n of
             Some peer \<Rightarrow>
               (case event of
                  OnReplacement aenv \<Rightarrow> Some (admit_peer su (ne_now env) peer aenv (n\<lparr>nd_replacement := None\<rparr>))
                | _ \<Rightarrow> None)
           | None \<Rightarrow>
               (case event of
                  OnTrayCommand command \<Rightarrow> Some (tray_step su (ne_now env) command n)
                | OnTrayClosed \<Rightarrow> Some (NodeRuns n, [])
                | OnPhoneRequest renv req file \<Rightarrow> Some (phone_request to_toml show_ip renv req file n)
                | OnIncoming peer aenv \<Rightarrow> Some (incoming_step su (ne_now env) peer aenv n)
                | OnAcceptFailed \<Rightarrow> Some (NodeRuns n, [])
                | OnAcceptorStopped \<Rightarrow> Some (NodeFails, [])
                | OnDialDue fresh \<Rightarrow>
                    (case nd_dial_at n of
                       Some at \<Rightarrow> if may_dial su n \<and> at \<le> ne_now env then Some (dial_due su fresh n) else None
                     | None \<Rightarrow> None)
                | OnDialDone result save_ok \<Rightarrow>
                    (case nd_dialing n of
                       Some d \<Rightarrow> Some (dial_done su (ne_now env) d result save_ok n)
                     | None \<Rightarrow> None)
                | _ \<Rightarrow> None)))"

definition node_step ::
  "(pin_store \<Rightarrow> bytes option) \<Rightarrow> (ip_addr \<Rightarrow> string) \<Rightarrow> node_setup \<Rightarrow> node \<Rightarrow> node_env \<times> node_event
     \<Rightarrow> (node_outcome \<times> node_action list) option" where
  "node_step to_toml show_ip su n i =
     (case node_arm to_toml show_ip su (fst i) (snd i) n of
        Some (NodeRuns n1, acts) \<Rightarrow> Some (NodeRuns (if nd_live n1 = None then loop_top su (ne_top (fst i)) n1 else n1), acts)
      | r \<Rightarrow> r)"

text \<open>Runs of the loop that do not end.\<close>

inductive node_run ::
  "(pin_store \<Rightarrow> bytes option) \<Rightarrow> (ip_addr \<Rightarrow> string) \<Rightarrow> node_setup \<Rightarrow> node \<Rightarrow> (node_env \<times> node_event) list
     \<Rightarrow> node_action list \<Rightarrow> node \<Rightarrow> bool" for to_toml show_ip su n where
  run_none: "node_run to_toml show_ip su n [] [] n"
| run_step: "node_run to_toml show_ip su n is acts n1 \<Longrightarrow>
    node_step to_toml show_ip su n1 i = Some (NodeRuns n2, acts1) \<Longrightarrow>
    node_run to_toml show_ip su n (is @ [i]) (acts @ acts1) n2"

end
