(* ===== verification/NodeSafety.thy ===== *)
theory NodeSafety
  imports Node
begin

text \<open>
  What the node's loop keeps: when it dials, with whom it has a session, which keys it pins, and what happens when two
  computers dial each other at once.
\<close>

section \<open>Keys\<close>

lemma pc_key_of_status: "status pins name fp = Trusted \<Longrightarrow> is_pc_key pins fp"
  by (force simp: status_Trusted is_pc_key_def bt_values_def list_ex_iff dest: bt_get_in)

lemma pc_key_of_pin: "is_pc_key (pin pins name fp) fp"
  by (force simp: pin_def is_pc_key_def bt_values_def list_ex_iff bt_get_insert
      intro: bt_get_in [of "bt_insert name \<lparr>pp_fingerprint = fp\<rparr> (ps_peers pins)" name])

lemma phone_key_of_pin [simp]: "is_phone_key (pin pins name fp) = is_phone_key pins"
  by (simp add: fun_eq_iff pin_def is_phone_key_def)

lemma pc_key_iff: "is_pc_key pins fp \<longleftrightarrow> fp \<in> pp_fingerprint ` set (bt_values (ps_peers pins))"
  by (auto simp: is_pc_key_def list_ex_iff)

lemma set_paired_computer_keys:
  "set (paired_computer_keys pins pinned) = {fp. is_pc_key pins fp} \<union> (if pinned = [] then {} else {pinned})"
  by (auto simp: paired_computer_keys_def pc_key_iff Let_def)

lemma paired_keys_cong: "ps_peers pins = ps_peers pins' \<Longrightarrow> paired_computer_keys pins = paired_computer_keys pins'"
  by (simp add: fun_eq_iff paired_computer_keys_def)

lemma pc_key_cong: "ps_peers pins = ps_peers pins' \<Longrightarrow> is_pc_key pins = is_pc_key pins'"
  by (simp add: fun_eq_iff is_pc_key_def)

lemma set_bt_remove_subset: "set (bt_remove k t) \<subseteq> set t"
  by (auto simp: bt_remove_def)

lemma phone_key_of_pin_phone:
  assumes "is_phone_key (pin_phone pins name key allowed) fp"
  shows "key = fp \<or> is_phone_key pins fp"
proof -
  obtain p where "p \<in> snd ` set (bt_insert name \<lparr>pf_fingerprint = key, pf_allowed_features = allowed\<rparr> (ps_phones pins))"
      "pf_fingerprint p = fp"
    using assms by (auto simp: is_phone_key_def pin_phone_def list_ex_iff bt_values_def)
  then show ?thesis
    using set_bt_insert_subset [of name "\<lparr>pf_fingerprint = key, pf_allowed_features = allowed\<rparr>" "ps_phones pins"]
    by (force simp: is_phone_key_def list_ex_iff bt_values_def)
qed

text \<open>A request of a phone never touches the computers' pins, and gives a computer's key to no phone.\<close>

lemma phone_request_keys:
  assumes "handle_request to_toml show_ip env req (ps, pins, fs) = (reply, ps', pins', fs')" "pins_wf pins"
  shows "ps_peers pins' = ps_peers pins" "pins_wf pins'"
    "is_pc_key pins fp \<Longrightarrow> \<not> is_phone_key pins fp \<Longrightarrow> \<not> is_phone_key pins' fp"
proof -
  have wf: "bt_wf (ps_phones pins)"
    using assms(2) by (simp add: pins_wf_def)
  have "ps_peers pins' = ps_peers pins \<and> pins_wf pins' \<and>
      (is_pc_key pins fp \<longrightarrow> \<not> is_phone_key pins fp \<longrightarrow> \<not> is_phone_key pins' fp)"
    using assms(1) wf
  proof (cases rule: request_cases)
    case (paired name key ip token w)
    have "key \<noteq> fp" if "is_pc_key pins fp"
      using paired(5) that by blast
    moreover have "is_phone_key pins fp" if "is_phone_key pins' fp" "key \<noteq> fp"
    proof -
      have "is_phone_key (pins\<lparr>ps_phones := retain_other_keys key (ps_phones pins)\<rparr>) fp"
        using phone_key_of_pin_phone [OF that(1) [unfolded paired(6)]] that(2) by blast
      then show ?thesis
        by (auto simp: is_phone_key_def list_ex_iff bt_values_def retain_other_keys_def intro: rev_bexI)
    qed
    moreover have "pins_wf pins'"
      using assms(2) by (simp add: paired(6) pin_phone_def pins_wf_def bt_wf_insert retain_wf)
    ultimately show ?thesis
      using paired(6) by (auto simp: pin_phone_def)
  next
    case (removed name)
    then show ?thesis
      using assms(2) set_bt_remove_subset [of name "ps_phones pins"]
      by (auto simp: pins_wf_def bt_wf_remove is_phone_key_def list_ex_iff bt_values_def)
  qed (use assms(2) in auto)
  then show "ps_peers pins' = ps_peers pins" "pins_wf pins'"
    "is_pc_key pins fp \<Longrightarrow> \<not> is_phone_key pins fp \<Longrightarrow> \<not> is_phone_key pins' fp"
    by blast+
qed

section \<open>Set-up\<close>

text \<open>An accepted computer is pinned, by an earlier pairing or by one that both users approved just now.\<close>

lemma accept_session:
  assumes "accept_computer cfg local_fp pins armed h fp inp = (outcome, pins', armed', sent)"
  shows "outcome = AcceptSession \<Longrightarrow> is_pc_key pins' fp \<and> \<not> is_phone_key pins' fp"
    and "pins' = pins \<or>
      (pins' = pin pins (hello_device_name h) fp \<and> ai_dialog inp \<and>
       FPairing (PairingDecision True) \<in> set (ai_frames inp) \<and> \<not> is_phone_key pins fp \<and>
       (armed \<or> status pins (hello_device_name h) fp = Unknown))"
proof -
  have decided: "FPairing (PairingDecision True) \<in> set frames"
    if "read_status frames = Ok (st, rest)" "read_decision rest = Ok True" for frames rest and st :: "bool \<times> bool"
  proof -
    have "set rest \<subseteq> set frames"
      using that(1) by (cases frames rule: read_status.cases) auto
    moreover have "FPairing (PairingDecision True) \<in> set rest"
      using that(2) by (cases rest rule: read_decision.cases) auto
    ultimately show ?thesis
      by blast
  qed
  show "outcome = AcceptSession \<Longrightarrow> is_pc_key pins' fp \<and> \<not> is_phone_key pins' fp"
    using assms pc_key_of_status [of pins "hello_device_name h" fp]
    by (auto simp: accept_computer_def Let_def pc_key_of_pin split: if_splits sum.splits prod.splits)
  show "pins' = pins \<or>
      (pins' = pin pins (hello_device_name h) fp \<and> ai_dialog inp \<and>
       FPairing (PairingDecision True) \<in> set (ai_frames inp) \<and> \<not> is_phone_key pins fp \<and>
       (armed \<or> status pins (hello_device_name h) fp = Unknown))"
    using assms decided by (auto simp: accept_computer_def Let_def split: if_splits sum.splits prod.splits)
qed

text \<open>A dialled computer is one that was paired, or one that both users approved just now.\<close>

lemma dialled_session:
  assumes "dial_result su d result = Ok (name, fp, paired)"
  obtains inp h rest where "result = Connection_with fp inp None" "read_hello (ci_frames inp) = Ok (h, rest)"
    "name = hello_device_name h"
    "if paired then da_armed d \<and> ci_dialog inp = Some True \<and> FPairing (PairingDecision True) \<in> set (ci_frames inp)
     else fp \<in> set (da_paired d) \<or> fp = ns_pinned (da_settings d)"
proof -
  have hello: "set rest \<subseteq> set frames" if "read_hello frames = Ok (h, rest)" for frames h rest
    using that by (induction frames rule: read_hello.induct) auto
  have status: "set rest \<subseteq> set frames" if "read_status frames = Ok (st, rest)" for frames rest and st :: "bool \<times> bool"
    using that by (cases frames rule: read_status.cases) auto
  have decision: "FPairing (PairingDecision True) \<in> set rest" if "read_decision rest = Ok True" for rest
    using that by (cases rest rule: read_decision.cases) auto
  obtain inp where inp: "result = Connection_with fp inp None"
    using assms by (auto simp: dial_result_def split: dial_end.splits sum.splits option.splits prod.splits)
  obtain h rest where h: "read_hello (ci_frames inp) = Ok (h, rest)" "name = hello_device_name h"
      "fst (connect_computer (ns_config (da_settings d)) (su_local su) (da_paired d) (ns_pinned (da_settings d))
        (da_armed d) fp inp) = Ok paired"
    using assms unfolding inp by (auto simp: dial_result_def split: sum.splits prod.splits)
  have "if paired then da_armed d \<and> ci_dialog inp = Some True \<and> FPairing (PairingDecision True) \<in> set (ci_frames inp)
     else fp \<in> set (da_paired d) \<or> fp = ns_pinned (da_settings d)"
    using h(1,3) hello status decision
    by (fastforce simp: connect_computer_def Let_def split: if_splits sum.splits prod.splits option.splits bool.splits)
  with inp h(1,2) show ?thesis
    by (rule that)
qed

section \<open>The invariant\<close>

text \<open>\<open>known\<close> are the keys that the settings read from the disk gave as the peer's. A dial runs only while the node may
  dial, with the keys it has; a live session is with a paired computer, which is no phone; and a peer that waits to
  replace it is the same computer.\<close>

definition known_key :: "node_setup \<Rightarrow> string set \<Rightarrow> node \<Rightarrow> string \<Rightarrow> bool" where
  "known_key su known n fp = (fp \<in> set (node_keys su n) \<or> fp \<in> known)"

fun live_ok :: "node_setup \<Rightarrow> string set \<Rightarrow> node \<Rightarrow> live_session \<Rightarrow> bool" where
  "live_ok su known n (LiveDialled name fp) = known_key su known n fp"
| "live_ok su known n (LiveAccepted name fp) = (is_pc_key (nd_pins n) fp \<and> \<not> is_phone_key (nd_pins n) fp)"

definition dial_ok :: "node_setup \<Rightarrow> string set \<Rightarrow> node \<Rightarrow> dial \<Rightarrow> bool" where
  "dial_ok su known n d =
     (su_endpoint su \<and> nd_enabled n \<and> \<not> nd_blocked n \<and> nd_live n = None \<and> nd_replacement n = None \<and>
      da_paired d = node_keys su n \<and> (da_armed d \<or> da_paired d \<noteq> []) \<and> ns_pinned (da_settings d) \<in> known)"

definition node_ok :: "node_setup \<Rightarrow> string set \<Rightarrow> node \<Rightarrow> bool" where
  "node_ok su known n =
     (pins_wf (nd_pins n) \<and>
      (\<forall>d. nd_dialing n = Some d \<longrightarrow> dial_ok su known n d) \<and>
      (\<forall>live. nd_live n = Some live \<longrightarrow> live_ok su known n live \<and> nd_dialing n = None \<and>
         (\<forall>p. nd_replacement n = Some p \<longrightarrow> in_fingerprint p = live_key live)) \<and>
      (nd_blocked n \<longrightarrow> nd_dial_at n = None))"

lemma node_keys_updates [simp]:
  "node_keys su (n\<lparr>nd_enabled := a\<rparr>) = node_keys su n" "node_keys su (n\<lparr>nd_armed := b\<rparr>) = node_keys su n"
  "node_keys su (n\<lparr>nd_blocked := c\<rparr>) = node_keys su n" "node_keys su (n\<lparr>nd_dial_at := d\<rparr>) = node_keys su n"
  "node_keys su (n\<lparr>nd_dialing := e\<rparr>) = node_keys su n" "node_keys su (n\<lparr>nd_replacement := f\<rparr>) = node_keys su n"
  "node_keys su (n\<lparr>nd_phones := g\<rparr>) = node_keys su n" "node_keys su (n\<lparr>nd_live := h\<rparr>) = node_keys su n"
  by (simp_all add: node_keys_def)

lemma known_key_updates [simp]:
  "known_key su known (n\<lparr>nd_live := h\<rparr>) = known_key su known n"
  "known_key su known (n\<lparr>nd_dialing := e\<rparr>) = known_key su known n"
  "known_key su known (n\<lparr>nd_armed := b\<rparr>) = known_key su known n"
  by (simp_all add: fun_eq_iff known_key_def)

text \<open>What a change must respect when nothing runs.\<close>

lemma node_ok_idle:
  assumes "node_ok su known n" "nd_live n1 = None" "nd_dialing n1 = None" "pins_wf (nd_pins n1)"
    "nd_blocked n1 \<longrightarrow> nd_dial_at n1 = None"
  shows "node_ok su known n1"
  using assms by (simp add: node_ok_def)

lemma node_ok_loop_top: "node_ok su known n \<Longrightarrow> node_ok su known (loop_top su now n)"
  by (cases "nd_live n"; cases "the (nd_live n)") (auto simp: node_ok_def loop_top_def dial_ok_def known_key_def)

lemma node_ok_tray:
  assumes "node_ok su known n" "nd_live n = None" "nd_replacement n = None" "tray_step su now command n = (NodeRuns n1, acts)"
  shows "node_ok su known n1"
  using assms by (cases command) (auto simp: node_ok_def dial_ok_def tray_step_def split: if_splits)

lemma node_ok_phone_start:
  assumes "node_ok su known n" "phone_start now peer n = (NodeRuns n1, acts)"
  shows "node_ok su known n1 \<and> nd_live n1 = nd_live n \<and> nd_dialing n1 = nd_dialing n"
proof -
  obtain phones where "n1 = n\<lparr>nd_phones := phones\<rparr>"
    using assms(2) by (auto simp: phone_start_def split: prod.splits)
  then show ?thesis
    using assms(1) by (cases "nd_live n"; cases "the (nd_live n)") (auto simp: node_ok_def dial_ok_def known_key_def)
qed

lemma node_ok_phone_request:
  assumes "node_ok su known n" "phone_request to_toml show_ip env req file n = (NodeRuns n1, acts)"
  shows "node_ok su known n1 \<and> nd_live n1 = nd_live n"
proof -
  obtain reply phones pins fs where req: "handle_request to_toml show_ip env req (nd_phones n, nd_pins n, file) =
      (reply, phones, pins, fs)" "n1 = n\<lparr>nd_phones := phones, nd_pins := pins\<rparr>"
    using assms(2) by (auto simp: phone_request_def split: prod.splits)
  have wf: "pins_wf (nd_pins n)"
    using assms(1) by (simp add: node_ok_def)
  note keys = phone_request_keys [OF req(1) wf]
  have "node_keys su n1 = node_keys su n" "is_pc_key pins = is_pc_key (nd_pins n)"
    using paired_keys_cong [OF keys(1)] pc_key_cong [OF keys(1)] by (simp_all add: node_keys_def req(2))
  then show ?thesis
    using assms(1) keys(2,3) unfolding req(2)
    by (cases "nd_live n"; cases "the (nd_live n)") (auto simp: node_ok_def dial_ok_def known_key_def)
qed

lemma node_ok_admit:
  assumes "node_ok su known n" "nd_live n = None" "nd_dialing n = None \<or> is_phone_hello (in_hello peer)" "nd_replacement n = None"
    and "admit_peer su now peer env n = (NodeRuns n1, acts)"
  shows "node_ok su known n1"
proof (cases "is_phone_hello (in_hello peer)")
  case True
  then show ?thesis
    using assms node_ok_phone_start [of su known n now peer n1 acts] by (simp add: admit_peer_def begin_accepted_def)
next
  case False
  obtain outcome pins armed sent where acc: "accept_computer (ns_config (su_settings su)) (su_local su) (nd_pins n)
      (nd_armed n) (in_hello peer) (in_fingerprint peer) (ae_input env) = (outcome, pins, armed, sent)"
    by (metis prod_cases4)
  have "pins_wf pins"
    using accept_session(2) [OF acc] assms(1) by (auto simp: node_ok_def pins_wf_def pin_def bt_wf_insert)
  then show ?thesis
    using assms False accept_session(1) [OF acc]
    by (auto simp: admit_peer_def begin_accepted_def acc node_ok_def Let_def split: if_splits accept_outcome.splits)
qed

lemma node_ok_incoming:
  assumes "node_ok su known n" "nd_live n = None" "nd_replacement n = None"
    and "incoming_step su now peer env n = (NodeRuns n1, acts)"
  shows "node_ok su known n1"
proof -
  have "node_ok su known (n\<lparr>nd_dialing := None\<rparr>)"
    using assms(1,2) by (simp add: node_ok_def)
  then show ?thesis
    using assms node_ok_admit [of su known "n\<lparr>nd_dialing := None\<rparr>" peer now env n1]
      node_ok_admit [of su known n peer now env n1]
    by (auto simp: incoming_step_def split: if_splits prod.splits)
qed

lemma node_ok_dial_due:
  assumes "node_ok su known n" "nd_live n = None" "nd_replacement n = None" "may_dial su n"
    and "dial_due su fresh n = (NodeRuns n1, acts)" "ns_pinned (case fresh of Some s \<Rightarrow> s | None \<Rightarrow> su_settings su) \<in> known"
  shows "node_ok su known n1"
  using assms by (auto simp: dial_due_def Let_def node_ok_def dial_ok_def may_dial_def)

lemma node_ok_dial_done:
  assumes "node_ok su known n" "nd_dialing n = Some d" "dial_done su now d result save_ok n = (NodeRuns n1, acts)"
  shows "node_ok su known n1"
proof -
  have d: "dial_ok su known n d"
    using assms(1,2) by (simp add: node_ok_def)
  show ?thesis
  proof (cases "dial_result su d result")
    case (Inl message)
    then have "dial_failed now message (n\<lparr>nd_dialing := None\<rparr>) = (NodeRuns n1, acts)"
      using assms(3) by (simp add: dial_done_def Let_def)
    then have "nd_live n1 = None" "nd_dialing n1 = None" "nd_pins n1 = nd_pins n" "nd_blocked n1 \<longrightarrow> nd_dial_at n1 = None"
      using d by (cases "dial_failure message"; force simp: dial_failed_def dial_ok_def)+
    then show ?thesis
      using assms(1) by (simp add: node_ok_def)
  next
    case (Inr r)
    obtain name fp paired where r: "dial_result su d result = Ok (name, fp, paired)"
      using Inr by (cases r) auto
    have n1: "n1 = (if paired then n\<lparr>nd_dialing := None, nd_pins := pin (nd_pins n) name fp\<rparr> else n\<lparr>nd_dialing := None\<rparr>)
        \<lparr>nd_armed := False, nd_live := Some (LiveDialled name fp)\<rparr>"
      using assms(3) by (simp add: dial_done_def r Let_def split: if_splits)
    have "known_key su known n1 fp"
    proof (cases paired)
      case True
      then show ?thesis
        using pc_key_of_pin by (simp add: n1 known_key_def node_keys_def set_paired_computer_keys)
    next
      case False
      then have "fp \<in> set (da_paired d) \<or> fp = ns_pinned (da_settings d)"
        by (auto intro: dialled_session [OF r])
      then show ?thesis
        using False d by (auto simp: n1 known_key_def dial_ok_def)
    qed
    moreover have "pins_wf (nd_pins n1)"
      using assms(1) by (simp add: n1 node_ok_def pins_wf_def pin_def bt_wf_insert)
    ultimately show ?thesis
      using d assms(1) by (simp add: n1 node_ok_def dial_ok_def)
  qed
qed

lemma node_ok_while_live:
  assumes "node_ok su known n" "nd_live n = Some live" "incoming_while_live su now live peer n = (NodeRuns n1, acts)"
  shows "node_ok su known n1"
  using assms node_ok_phone_start [of su known n now peer n1 acts]
  by (cases live)
    (auto simp: incoming_while_live_def peer_while_dialled_def peer_while_connected_def is_connected_peer_def
      node_ok_def known_key_def split: if_splits)

lemma node_ok_session_end:
  assumes "node_ok su known n" "nd_live n = Some live" "session_end live exit n = (NodeRuns n1, acts)"
  shows "node_ok su known n1"
  using assms by (cases live; cases exit) (auto simp: session_end_def Let_def node_ok_def)

fun read_keys :: "node_event \<Rightarrow> string set" where
  "read_keys (OnDialDue (Some s)) = {ns_pinned s}"
| "read_keys _ = {}"

lemma node_ok_mono: "node_ok su known n \<Longrightarrow> known \<subseteq> known' \<Longrightarrow> node_ok su known' n"
  by (cases "nd_live n"; cases "the (nd_live n)") (auto simp: node_ok_def dial_ok_def known_key_def)

lemma node_ok_step:
  assumes "node_ok su known n" "node_step to_toml show_ip su n (env, event) = Some (NodeRuns n1, acts)"
    and "ns_pinned (su_settings su) \<in> known"
  shows "node_ok su (known \<union> read_keys event) n1"
proof -
  obtain n2 where arm: "node_arm to_toml show_ip su env event n = Some (NodeRuns n2, acts)"
      "n1 = (if nd_live n2 = None then loop_top su (ne_top env) n2 else n2)"
    using assms(2) by (auto simp: node_step_def split: option.splits prod.splits node_outcome.splits)
  let ?known = "known \<union> read_keys event"
  have n: "node_ok su ?known n"
    using node_ok_mono [OF assms(1)] by blast
  have "node_ok su ?known n2"
  proof (cases "nd_live n")
    case (Some live)
    then show ?thesis
      using arm(1) n node_ok_session_end [OF n Some] conjunct1 [OF node_ok_phone_request [OF n]] node_ok_while_live [OF n Some]
      by (cases event) (simp_all add: node_arm_def)
  next
    case live: None
    show ?thesis
    proof (cases "nd_replacement n")
      case (Some peer)
      have "nd_dialing n = None" "node_ok su ?known (n\<lparr>nd_replacement := None\<rparr>)"
        using n Some live by (auto simp: node_ok_def dial_ok_def)
      then show ?thesis
        using arm(1) live Some node_ok_admit [of su ?known "n\<lparr>nd_replacement := None\<rparr>"]
        by (cases event) (simp_all add: node_arm_def)
    next
      case None
      note handlers = node_ok_tray [OF n live None] node_ok_incoming [OF n live None] node_ok_dial_due [OF n live None]
        conjunct1 [OF node_ok_phone_request [OF n]] node_ok_dial_done [OF n]
      show ?thesis
      proof (cases event)
        case (OnDialDue fresh)
        have "ns_pinned (case fresh of Some s \<Rightarrow> s | None \<Rightarrow> su_settings su) \<in> ?known"
          using assms(3) OnDialDue by (cases fresh) auto
        then show ?thesis
          using arm(1) live None OnDialDue handlers(3) by (simp add: node_arm_def split: option.splits if_splits)
      next
        case (OnDialDone result save_ok)
        then show ?thesis
          using arm(1) live None handlers(5) by (simp add: node_arm_def split: option.splits)
      qed (use arm(1) live None n handlers(1,2,4) in \<open>simp_all add: node_arm_def\<close>)
    qed
  qed
  then show ?thesis
    by (simp add: arm(2) node_ok_loop_top)
qed

section \<open>Runs\<close>

definition run_keys :: "node_setup \<Rightarrow> (node_env \<times> node_event) list \<Rightarrow> string set" where
  "run_keys su evs = insert (ns_pinned (su_settings su)) (\<Union>(read_keys ` snd ` set evs))"

lemma node_ok_start: "pins_wf pins \<Longrightarrow> node_ok su known (node_start su armed pins phones env)"
  unfolding node_start_def Let_def by (rule node_ok_loop_top) (simp add: node_ok_def)

lemma node_ok_run:
  assumes "node_run to_toml show_ip su n evs acts n'" "node_ok su (run_keys su []) n"
  shows "node_ok su (run_keys su evs) n'"
  using assms
proof (induction rule: node_run.induct)
  case (run_step evs acts n1 i n2 acts1)
  obtain env event where i: "i = (env, event)"
    by (cases i)
  have "node_ok su (run_keys su evs \<union> read_keys event) n2"
    by (rule node_ok_step [OF run_step.IH [OF run_step.prems] run_step.hyps(2) [unfolded i]]) (simp add: run_keys_def)
  moreover have "run_keys su (evs @ [i]) = run_keys su evs \<union> read_keys event"
    by (auto simp: run_keys_def i)
  ultimately show ?case
    by simp
qed simp

end
