(* ===== verification/NodeProperties.thy ===== *)
theory NodeProperties
  imports NodeSafety
begin

text \<open>The properties of the node's loop.\<close>

section \<open>Trust\<close>

text \<open>C35: A session is only ever live with a paired computer. At any time of any run of the node, if a session is live,
  then no dial is in progress; an accepted session is with a key that is pinned as a computer's and that is no
  phone's key, a dialled one is with a key that is pinned or that the settings named as the peer's; and a peer that
  waits to take the session over has the key of the session's peer.\<close>

theorem node_sessions_paired:
  assumes "pins_wf pins" "node_run to_toml show_ip su (node_start su armed pins phones env) evs acts n"
    and "nd_live n = Some live"
  shows "nd_dialing n = None \<and>
    (case live of
       LiveDialled name fp \<Rightarrow> fp \<in> set (node_keys su n) \<or> fp \<in> run_keys su evs
     | LiveAccepted name fp \<Rightarrow> is_pc_key (nd_pins n) fp \<and> \<not> is_phone_key (nd_pins n) fp) \<and>
    (case nd_replacement n of None \<Rightarrow> True | Some p \<Rightarrow> in_fingerprint p = live_key live)"
  using node_ok_run [OF assms(2) node_ok_start [OF assms(1)]] assms(3)
  by (auto simp: node_ok_def known_key_def split: live_session.splits option.splits)

text \<open>Both users' consent in what an event brought: the confirmation window of this computer was accepted, and the
  peer's acceptance was received.\<close>

definition accept_consent :: "accept_env \<Rightarrow> bool" where
  "accept_consent env = (ai_dialog (ae_input env) \<and> FPairing (PairingDecision True) \<in> set (ai_frames (ae_input env)))"

definition new_pc_key :: "node \<Rightarrow> node \<Rightarrow> string \<Rightarrow> bool" where
  "new_pc_key n n1 fp = (is_pc_key (nd_pins n1) fp \<and> \<not> is_pc_key (nd_pins n) fp)"

lemma pc_key_pinD: "is_pc_key (pin pins name key) fp \<Longrightarrow> fp = key \<or> is_pc_key pins fp"
  using set_bt_insert_subset [of name "\<lparr>pp_fingerprint = key\<rparr>" "ps_peers pins"]
  by (auto simp: pin_def is_pc_key_def list_ex_iff bt_values_def intro: rev_bexI)

lemma admit_consent:
  assumes "admit_peer su now peer env n = (NodeRuns n1, acts)" "new_pc_key n n1 fp"
  shows "in_fingerprint peer = fp \<and> accept_consent env \<and> \<not> is_phone_key (nd_pins n) fp"
proof -
  obtain outcome pins armed sent where acc: "accept_computer (ns_config (su_settings su)) (su_local su) (nd_pins n)
      (nd_armed n) (in_hello peer) (in_fingerprint peer) (ae_input env) = (outcome, pins, armed, sent)"
    by (metis prod_cases4)
  have "nd_pins n1 = nd_pins n \<or> nd_pins n1 = pins"
    using assms(1)
    by (auto simp: admit_peer_def begin_accepted_def acc Let_def phone_start_def split: if_splits accept_outcome.splits prod.splits)
  then show ?thesis
    using accept_session(2) [OF acc] assms(2) by (auto simp: new_pc_key_def accept_consent_def dest: pc_key_pinD)
qed

lemma incoming_consent:
  assumes "incoming_step su now peer env n = (NodeRuns n1, acts)" "new_pc_key n n1 fp"
  shows "in_fingerprint peer = fp \<and> accept_consent env \<and> \<not> is_phone_key (nd_pins n) fp"
proof -
  have "\<exists>m acts'. admit_peer su now peer env m = (NodeRuns n1, acts') \<and> nd_pins m = nd_pins n"
    using assms by (auto simp: incoming_step_def new_pc_key_def split: if_splits prod.splits)
  then obtain m acts' where "admit_peer su now peer env m = (NodeRuns n1, acts')" "nd_pins m = nd_pins n"
    by blast
  then show ?thesis
    using admit_consent [of su now peer env m n1 acts' fp] assms(2) by (simp add: new_pc_key_def)
qed

lemma dial_consent:
  assumes "dial_done su now d result save_ok n = (NodeRuns n1, acts)" "new_pc_key n n1 fp"
  shows "\<exists>inp. result = Connection_with fp inp None \<and> da_armed d \<and> ci_dialog inp = Some True \<and>
    FPairing (PairingDecision True) \<in> set (ci_frames inp)"
proof (cases "dial_result su d result")
  case (Inl message)
  then show ?thesis
    using assms by (auto simp: dial_done_def dial_failed_def Let_def new_pc_key_def split: dial_failure.splits)
next
  case (Inr r)
  obtain name key paired where r: "dial_result su d result = Ok (name, key, paired)"
    using Inr by (cases r) auto
  have "paired" "key = fp"
    using assms by (auto simp: dial_done_def r Let_def new_pc_key_def dest: pc_key_pinD split: if_splits)
  then show ?thesis
    using dialled_session [OF r] by auto
qed

lemma node_step_arm:
  assumes "node_step to_toml show_ip su n (env, event) = Some (NodeRuns n1, acts)"
  obtains n2 where "node_arm to_toml show_ip su env event n = Some (NodeRuns n2, acts)"
    "n1 = (if nd_live n2 = None then loop_top su (ne_top env) n2 else n2)"
  using assms by (auto simp: node_step_def split: option.splits prod.splits node_outcome.splits)

lemma keeps_pins:
  "tray_step su now command n = (NodeRuns n1, acts) \<Longrightarrow> nd_pins n1 = nd_pins n"
  "dial_due su fresh n = (NodeRuns n1, acts) \<Longrightarrow> nd_pins n1 = nd_pins n"
  "session_end live exit n = (NodeRuns n1, acts) \<Longrightarrow> nd_pins n1 = nd_pins n"
  "incoming_while_live su now live peer n = (NodeRuns n1, acts) \<Longrightarrow> nd_pins n1 = nd_pins n"
  subgoal by (cases command) (auto simp: tray_step_def)
  subgoal by (auto simp: dial_due_def Let_def)
  subgoal by (cases live; cases exit) (auto simp: session_end_def Let_def)
  subgoal by (cases live)
    (auto simp: incoming_while_live_def phone_start_def peer_while_dialled_def peer_while_connected_def
      split: if_splits prod.splits)
  done

lemma loop_top_keeps [simp]:
  "nd_pins (loop_top su t n) = nd_pins n" "nd_dialing (loop_top su t n) = nd_dialing n"
  "nd_enabled (loop_top su t n) = nd_enabled n" "nd_blocked (loop_top su t n) = nd_blocked n"
  "nd_live (loop_top su t n) = nd_live n" "nd_replacement (loop_top su t n) = nd_replacement n"
  "nd_armed (loop_top su t n) = nd_armed n" "node_keys su (loop_top su t n) = node_keys su n"
  by (simp_all add: loop_top_def)

text \<open>C5: A computer is pinned only with both users' consent. If the key of a computer that was not pinned is pinned
  after a step of the node, then the step was the set-up of a connection with exactly this key, in which this computer's
  user accepted the confirmation window and the peer's acceptance was received: an incoming connection, whose key is
  then no phone's, one that waited to take over a session, or a dialled one, for which pairing was armed when the
  dial began.\<close>

theorem node_pins_need_consent:
  assumes "pins_wf (nd_pins n)" "node_step to_toml show_ip su n (env, event) = Some (NodeRuns n1, acts)"
    and "is_pc_key (nd_pins n1) fp" "\<not> is_pc_key (nd_pins n) fp"
  shows "case event of
      OnIncoming peer aenv \<Rightarrow> in_fingerprint peer = fp \<and> accept_consent aenv \<and> \<not> is_phone_key (nd_pins n) fp
    | OnReplacement aenv \<Rightarrow> (\<exists>peer. nd_replacement n = Some peer \<and> in_fingerprint peer = fp) \<and> accept_consent aenv \<and>
        \<not> is_phone_key (nd_pins n) fp
    | OnDialDone result save_ok \<Rightarrow> (\<exists>inp d. nd_dialing n = Some d \<and> da_armed d \<and> result = Connection_with fp inp None \<and>
        ci_dialog inp = Some True \<and> FPairing (PairingDecision True) \<in> set (ci_frames inp))
    | _ \<Rightarrow> False"
proof -
  obtain n2 where arm: "node_arm to_toml show_ip su env event n = Some (NodeRuns n2, acts)" "new_pc_key n n2 fp"
    using assms(3,4) by (auto simp: new_pc_key_def intro: node_step_arm [OF assms(2)] split: if_splits)
  have request: "ps_peers (nd_pins n2) = ps_peers (nd_pins n)"
    if "phone_request to_toml show_ip renv req fs n = (NodeRuns n2, acts)" for renv req fs
    using that phone_request_keys(1) [OF _ assms(1)] by (auto simp: phone_request_def split: prod.splits)
  have changed: "nd_pins n2 \<noteq> nd_pins n" "ps_peers (nd_pins n2) \<noteq> ps_peers (nd_pins n)"
    using arm(2) pc_key_cong [of "nd_pins n2" "nd_pins n"] by (auto simp: new_pc_key_def)
  note kept = keeps_pins(1) [of _ _ _ n n2] keeps_pins(2) [of _ _ n n2] keeps_pins(3) [of _ _ n n2]
    keeps_pins(4) [of _ _ _ _ n n2]
  show ?thesis
  proof (cases event)
    case (OnIncoming peer aenv)
    then have "incoming_step su (ne_now env) peer aenv n = (NodeRuns n2, acts)"
      using arm(1) changed(1) by (auto simp: node_arm_def dest: kept(4) split: option.splits)
    then show ?thesis
      using incoming_consent [OF _ arm(2)] OnIncoming by simp
  next
    case (OnReplacement aenv)
    then obtain peer where peer: "nd_replacement n = Some peer"
        "admit_peer su (ne_now env) peer aenv (n\<lparr>nd_replacement := None\<rparr>) = (NodeRuns n2, acts)"
      using arm(1) by (auto simp: node_arm_def split: option.splits)
    then show ?thesis
      using admit_consent [OF peer(2), of fp] arm(2) OnReplacement by (simp add: new_pc_key_def)
  next
    case (OnDialDone result save_ok)
    then obtain d where "nd_dialing n = Some d" "dial_done su (ne_now env) d result save_ok n = (NodeRuns n2, acts)"
      using arm(1) by (auto simp: node_arm_def split: option.splits)
    then show ?thesis
      using dial_consent [OF _ arm(2)] OnDialDone by simp blast
  qed (use arm(1) changed in \<open>auto simp: node_arm_def dest: kept request split: option.splits if_splits\<close>)
qed

section \<open>Dialling\<close>

text \<open>The node dials only when it may. At any time of any run, if a dial is in progress then there is an address to
  dial, the user has not disconnected, no version mismatch blocks dialling, no session is live and none is about to
  be taken over; the dial trusts exactly the keys the node knows now; and it began with pairing armed or with a key to
  trust.\<close>

theorem node_dials_only_when_allowed:
  assumes "pins_wf pins" "node_run to_toml show_ip su (node_start su armed pins phones env) evs acts n"
    and "nd_dialing n = Some d"
  shows "su_endpoint su \<and> nd_enabled n \<and> \<not> nd_blocked n \<and> nd_live n = None \<and> nd_replacement n = None \<and>
    da_paired d = node_keys su n \<and> (da_armed d \<or> da_paired d \<noteq> [])"
  using node_ok_run [OF assms(2) node_ok_start [OF assms(1)]] assms(3) by (auto simp: node_ok_def dial_ok_def)

lemma dial_delay_bounds: "base \<le> dial_delay fp keys base" "dial_delay fp keys base \<le> base + DIAL_DEFER"
  by (simp_all add: dial_delay_def)

text \<open>An error frame in place of the peer's hello is the error of the dial.\<close>

lemma refused_dial:
  assumes "ci_writes inp \<ge> 1" "read_hello (ci_frames inp) = Err message"
  shows "dial_result su d (Connection_with fp inp late) = Err message"
  using assms by (simp add: dial_result_def connect_computer_def Let_def)

lemma duplicate_failure: "dial_failure (peer_error \<lparr>re_code = DUPLICATE_SESSION, re_message = DUPLICATE_TEXT\<rparr>) = DialDuplicate"
proof -
  let ?m = "peer_error \<lparr>re_code = DUPLICATE_SESSION, re_message = DUPLICATE_TEXT\<rparr>"
  have "?m = ''peer error: '' @ DUPLICATE_SESSION @ '': '' @ DUPLICATE_TEXT"
    by (simp add: peer_error_def)
  then have "sublist DUPLICATE_SESSION ?m"
    by (metis sublist_appendI)
  moreover have "\<not> sublist UPGRADE_TEXT ?m"
    by (simp add: peer_error_def UPGRADE_TEXT_def DUPLICATE_SESSION_def DUPLICATE_TEXT_def sublist_code)
  ultimately show ?thesis
    by (simp add: dial_failure_def)
qed

definition waiting :: "node \<Rightarrow> bool" where
  "waiting n = (nd_live n = None \<and> nd_replacement n = None)"

text \<open>C4: Two computers that dial each other at once keep the same connection, that of the lower key. Let each have a
  dial in progress and let each receive the other's connection. The computer with the lower key turns the other's away
  as a duplicate and goes on with its own dial, in the same state as before. The computer with the higher key drops its
  own dial and admits the other's connection as it would have without a dial of its own; if the refusal of its own
  dial comes first, it is not an error the user sees, nothing is blocked, and the next dial is due no earlier
  than the retry time.\<close>

theorem simultaneous_dials_resolve:
  assumes keys: "su_local low = in_fingerprint from_low" "su_local high = in_fingerprint from_high"
      "su_local low < su_local high"
    and computers: "\<not> is_phone_hello (in_hello from_low)" "\<not> is_phone_hello (in_hello from_high)"
    and dialling: "waiting nl" "nd_dialing nl = Some dl" "waiting nh" "nd_dialing nh = Some dh" "nd_enabled nh"
      "\<not> nd_blocked nh" "su_endpoint high"
    and refusal: "ci_writes inp \<ge> 1"
      "ci_frames inp = [FError \<lparr>re_code = DUPLICATE_SESSION, re_message = DUPLICATE_TEXT\<rparr>]"
  shows "node_step to_toml show_ip low nl (env, OnIncoming from_high aenv) =
      Some (NodeRuns nl, [Refuse from_high DUPLICATE_SESSION DUPLICATE_TEXT]) \<and>
    (\<exists>out acts. node_step to_toml show_ip high nh (env, OnIncoming from_low aenv) = Some (out, CancelDial # acts) \<and>
       node_step to_toml show_ip high (nh\<lparr>nd_dialing := None\<rparr>) (env, OnIncoming from_low aenv) = Some (out, acts)) \<and>
    (\<exists>at. node_step to_toml show_ip high nh (env, OnDialDone (Connection_with (su_local low) inp late) ok) =
       Some (NodeRuns (nh\<lparr>nd_dialing := None, nd_dial_at := Some at\<rparr>), []) \<and> at \<ge> ne_top env + DIAL_RETRY)"
proof (intro conjI)
  have low: "keep_own_dial (su_local low) (in_fingerprint from_high)" "\<not> keep_own_dial (su_local high) (in_fingerprint from_low)"
    using keys by (simp_all add: keep_own_dial_def)
  show "node_step to_toml show_ip low nl (env, OnIncoming from_high aenv) =
      Some (NodeRuns nl, [Refuse from_high DUPLICATE_SESSION DUPLICATE_TEXT])"
    using dialling(1,2) computers(2) low(1)
    by (simp add: node_step_def node_arm_def waiting_def incoming_step_def loop_top_def)
  show "\<exists>out acts. node_step to_toml show_ip high nh (env, OnIncoming from_low aenv) = Some (out, CancelDial # acts) \<and>
       node_step to_toml show_ip high (nh\<lparr>nd_dialing := None\<rparr>) (env, OnIncoming from_low aenv) = Some (out, acts)"
    using dialling(3,4) computers(1) low(2)
    by (cases "admit_peer high (ne_now env) from_low aenv (nh\<lparr>nd_dialing := None\<rparr>)")
      (simp add: node_step_def node_arm_def waiting_def incoming_step_def split: node_outcome.splits)
  have "read_hello (ci_frames inp) = Err (peer_error \<lparr>re_code = DUPLICATE_SESSION, re_message = DUPLICATE_TEXT\<rparr>)"
    by (simp add: refusal(2))
  then have "dial_done high (ne_now env) dh (Connection_with (su_local low) inp late) ok nh =
      (NodeRuns (nh\<lparr>nd_dialing := None, nd_dial_at := None\<rparr>), [])"
    using refused_dial [OF refusal(1)] by (simp add: dial_done_def dial_failed_def duplicate_failure Let_def)
  then show "\<exists>at. node_step to_toml show_ip high nh (env, OnDialDone (Connection_with (su_local low) inp late) ok) =
       Some (NodeRuns (nh\<lparr>nd_dialing := None, nd_dial_at := Some at\<rparr>), []) \<and> at \<ge> ne_top env + DIAL_RETRY"
    using dialling(3-7) dial_delay_bounds(1)
    by (intro exI [of _ "ne_top env + dial_delay (su_local high) (node_keys high nh) DIAL_RETRY"])
      (simp add: node_step_def node_arm_def waiting_def loop_top_def)
qed

section \<open>The next dial\<close>

text \<open>Time goes on: \<open>clock\<close> is when the loop was entered last.\<close>

fun times_from :: "instant \<Rightarrow> (node_env \<times> node_event) list \<Rightarrow> bool" where
  "times_from t [] = True"
| "times_from t ((env, event) # evs) = (t \<le> ne_now env \<and> ne_now env \<le> ne_top env \<and> times_from (ne_top env) evs)"

definition clock :: "instant \<Rightarrow> (node_env \<times> node_event) list \<Rightarrow> instant" where
  "clock t evs = (if evs = [] then t else ne_top (fst (last evs)))"

lemma times_snoc: "times_from t (evs @ [(env, event)]) \<longleftrightarrow>
    times_from t evs \<and> clock t evs \<le> ne_now env \<and> ne_now env \<le> ne_top env"
  by (induction evs arbitrary: t) (auto simp: clock_def)

definition due_by :: "instant \<Rightarrow> node \<Rightarrow> bool" where
  "due_by t n = (case nd_dial_at n of None \<Rightarrow> True | Some at \<Rightarrow> at \<le> t + DIAL_UNREACHABLE_RETRY)"

definition scheduled :: "node_setup \<Rightarrow> node \<Rightarrow> bool" where
  "scheduled su n =
     (su_endpoint su \<and> nd_enabled n \<and> \<not> nd_blocked n \<and> nd_live n = None \<and> nd_dialing n = None \<longrightarrow> nd_dial_at n \<noteq> None)"

lemma scheduled_loop_top: "scheduled su (loop_top su t n)"
  by (simp add: scheduled_def loop_top_def)

lemma due_by_loop_top: "due_by t n \<Longrightarrow> t \<le> t' \<Longrightarrow> due_by t' (loop_top su t' n)"
  using dial_delay_bounds(2) [of "su_local su" "node_keys su n" DIAL_RETRY]
  by (auto simp: due_by_def loop_top_def DIAL_RETRY_def DIAL_DEFER_def DIAL_UNREACHABLE_RETRY_def from_secs_def split: option.splits)

lemma due_by_mono: "due_by t n \<Longrightarrow> t \<le> t' \<Longrightarrow> due_by t' n"
  by (auto simp: due_by_def split: option.splits)

definition dial_at_ok :: "instant \<Rightarrow> node \<Rightarrow> node \<Rightarrow> bool" where
  "dial_at_ok now n n1 = (nd_dial_at n1 \<in> {nd_dial_at n, None, Some now, Some (now + DIAL_UNREACHABLE_RETRY)})"

lemma dial_at_ok_refl [simp]: "dial_at_ok now n n"
  by (simp add: dial_at_ok_def)

lemma dial_at_arms:
  "tray_step su now command n = (NodeRuns n1, acts) \<Longrightarrow> dial_at_ok now n n1"
  "phone_start now peer n = (NodeRuns n1, acts) \<Longrightarrow> dial_at_ok now n n1"
  "phone_request to_toml show_ip renv req fs n = (NodeRuns n1, acts) \<Longrightarrow> dial_at_ok now n n1"
  "admit_peer su now peer aenv n = (NodeRuns n1, acts) \<Longrightarrow> dial_at_ok now n n1"
  "dial_due su fresh n = (NodeRuns n1, acts) \<Longrightarrow> dial_at_ok now n n1"
  "dial_done su now d result ok n = (NodeRuns n1, acts) \<Longrightarrow> dial_at_ok now n n1"
  "session_end live exit n = (NodeRuns n1, acts) \<Longrightarrow> dial_at_ok now n n1"
  subgoal by (cases command) (auto simp: tray_step_def dial_at_ok_def split: if_splits)
  subgoal by (auto simp: phone_start_def dial_at_ok_def split: prod.splits)
  subgoal by (auto simp: phone_request_def dial_at_ok_def split: prod.splits)
  subgoal by (auto simp: admit_peer_def begin_accepted_def phone_start_def dial_at_ok_def Let_def split: prod.splits if_splits accept_outcome.splits)
  subgoal by (auto simp: dial_due_def dial_at_ok_def Let_def)
  subgoal by (auto simp: dial_done_def dial_failed_def dial_at_ok_def Let_def
      split: sum.splits prod.splits if_splits dial_failure.splits)
  subgoal by (cases live; cases exit) (auto simp: session_end_def dial_at_ok_def Let_def)
  done

lemma dial_at_step:
  assumes "node_arm to_toml show_ip su env event n = Some (NodeRuns n1, acts)"
  shows "dial_at_ok (ne_now env) n n1"
proof -
  have admit: "dial_at_ok (ne_now env) n n1" if "admit_peer su (ne_now env) peer aenv m = (NodeRuns n1, acts')"
      "nd_dial_at m = nd_dial_at n" for peer aenv m acts'
    using dial_at_arms(4) [OF that(1)] that(2) by (simp add: dial_at_ok_def)
  have incoming: "dial_at_ok (ne_now env) n n1" if "incoming_step su (ne_now env) peer aenv n = (NodeRuns n1, acts)"
    for peer aenv
    using that by (auto simp: incoming_step_def intro: admit split: if_splits prod.splits)
  have live: "dial_at_ok (ne_now env) n n1"
    if "incoming_while_live su (ne_now env) live peer n = (NodeRuns n1, acts)" for live peer
    using that
    by (cases live) (auto simp: incoming_while_live_def peer_while_dialled_def peer_while_connected_def dial_at_ok_def
        dest: dial_at_arms(2) split: if_splits)
  show ?thesis
    using assms
    by (cases event)
      (auto simp: node_arm_def dest: dial_at_arms(1,3,5,6,7) incoming live intro: admit split: option.splits if_splits)
qed

lemma step_keeps_schedule:
  assumes "node_step to_toml show_ip su n (env, event) = Some (NodeRuns n1, acts)"
    and "due_by t n" "scheduled su n" "t \<le> ne_now env" "ne_now env \<le> ne_top env"
  shows "due_by (ne_top env) n1 \<and> scheduled su n1"
proof -
  obtain n2 where arm: "node_arm to_toml show_ip su env event n = Some (NodeRuns n2, acts)"
    "n1 = (if nd_live n2 = None then loop_top su (ne_top env) n2 else n2)"
    by (rule node_step_arm [OF assms(1)])
  have "due_by (ne_now env) n2"
    using dial_at_step [OF arm(1)] assms(2,4) by (auto simp: dial_at_ok_def due_by_def split: option.splits)
  then have "due_by (ne_top env) n1"
    using assms(5) due_by_loop_top due_by_mono arm(2) by simp
  moreover have "scheduled su n1"
    using scheduled_loop_top arm(2) by (auto simp: scheduled_def)
  ultimately show ?thesis
    by blast
qed

lemma run_keeps_schedule:
  assumes "node_run to_toml show_ip su n evs acts n'" "times_from t evs" "due_by t n" "scheduled su n"
  shows "due_by (clock t evs) n' \<and> scheduled su n'"
  using assms
proof (induction rule: node_run.induct)
  case (run_step evs acts n1 i n2 acts1)
  obtain env event where i: "i = (env, event)"
    by (cases i)
  have "times_from t evs" "clock t evs \<le> ne_now env" "ne_now env \<le> ne_top env" "clock t (evs @ [i]) = ne_top env"
    using run_step.prems(1) by (simp_all add: i times_snoc clock_def)
  then show ?case
    using step_keeps_schedule [OF run_step.hyps(2) [unfolded i], of "clock t evs"] run_step.IH run_step.prems(2,3) by simp
qed (simp add: clock_def)

lemma start_scheduled:
  assumes "ne_now env \<le> ne_top env"
  shows "due_by (ne_top env) (node_start su armed pins phones env)" "scheduled su (node_start su armed pins phones env)"
  using due_by_loop_top [OF _ assms]
    dial_delay_bounds(2) [of "su_local su" "paired_computer_keys pins (ns_pinned (su_settings su))" 0]
  by (auto simp: node_start_def Let_def scheduled_loop_top intro!: due_by_loop_top [OF _ assms])
    (auto simp: due_by_def DIAL_DEFER_def DIAL_UNREACHABLE_RETRY_def from_secs_def)

text \<open>C36: A node with somebody to dial keeps dialling. In any run with a clock that does not go back, whenever the node
  waits without a session, is not disconnected by the user, not blocked by a version mismatch, has an address, and
  is armed or knows a paired computer's key, a dial is in progress or the next one is set for a time at most thirty
  seconds away; and when that time has come, the dial begins, whatever the settings on the disk.\<close>

theorem node_keeps_dialling:
  assumes "node_run to_toml show_ip su (node_start su armed pins phones env0) evs acts n"
    and "ne_now env0 \<le> ne_top env0" "times_from (ne_top env0) evs"
    and "waiting n" "su_endpoint su" "nd_enabled n" "\<not> nd_blocked n" "nd_armed n \<or> node_keys su n \<noteq> []"
  shows "nd_dialing n \<noteq> None \<or>
    (\<exists>at d. nd_dial_at n = Some at \<and> at \<le> clock (ne_top env0) evs + DIAL_UNREACHABLE_RETRY \<and>
       node_step to_toml show_ip su n (\<lparr>ne_now = at, ne_top = after\<rparr>, OnDialDue fresh) =
         Some (NodeRuns (n\<lparr>nd_dial_at := None, nd_dialing := Some d\<rparr>), [StartDial d]))"
proof (cases "nd_dialing n")
  case None
  have "due_by (clock (ne_top env0) evs) n" "scheduled su n"
    using run_keeps_schedule [OF assms(1,3) start_scheduled [OF assms(2)]] by simp_all
  then obtain at where "nd_dial_at n = Some at" "at \<le> clock (ne_top env0) evs + DIAL_UNREACHABLE_RETRY"
    using assms(4-7) None by (auto simp: scheduled_def due_by_def waiting_def split: option.splits)
  then show ?thesis
    using assms(4-8) None
    by (simp add: node_step_def node_arm_def waiting_def may_dial_def dial_due_def loop_top_def Let_def)
qed simp

section \<open>Incoming connections\<close>

text \<open>The peer the node is handed is the one the Noise handshake authenticated, and speaks the same version; nobody else
  got an answer but the reason of its refusal.\<close>

lemma handshake_authentic:
  assumes "handshake ip noise first = (Some (AcceptPeer p), sent)"
  shows "noise = NoiseKey (in_fingerprint p)" "hello_public_key_fingerprint (in_hello p) = in_fingerprint p"
    "hello_protocol_version (in_hello p) = PROTOCOL_VERSION" "sent = []"
  using assms
  by (auto simp: handshake_def validate_controller_hello_def Let_def split: noise_end.splits hello_read.splits frame.splits if_splits)

text \<open>Connections that are in a handshake or wait for the node hold a permit each, so there are never more than four.\<close>

definition handshaking :: "acceptor \<Rightarrow> nat" where
  "handshaking a = MAX_PENDING_PEERS - ac_permits a - length (ac_events a)"

lemma acceptor_bounded:
  assumes "acceptor_step a e = Some a'" "ac_permits a + length (ac_events a) \<le> MAX_PENDING_PEERS"
  shows "ac_permits a' + length (ac_events a') \<le> MAX_PENDING_PEERS"
    "handshaking a' + length (ac_events a') \<le> MAX_PENDING_PEERS"
  using assms by (cases e; auto simp: handshaking_def split: option.splits list.splits if_splits)+

section \<open>Errors\<close>

definition unblocks :: "node_event \<Rightarrow> bool" where
  "unblocks event = (event \<in> {OnTrayCommand ArmPairing, OnTrayCommand Reconnect})"

lemma blocked_arms:
  "tray_step su now command n = (NodeRuns n1, acts) \<Longrightarrow> nd_blocked n \<Longrightarrow> command \<noteq> ArmPairing \<Longrightarrow> command \<noteq> Reconnect \<Longrightarrow>
     nd_blocked n1 \<and> StartDial d \<notin> set acts"
  "phone_start now peer n = (NodeRuns n1, acts) \<Longrightarrow> nd_blocked n \<Longrightarrow> nd_blocked n1 \<and> StartDial d \<notin> set acts"
  "phone_request to_toml show_ip renv req fs n = (NodeRuns n1, acts) \<Longrightarrow> nd_blocked n \<Longrightarrow>
     nd_blocked n1 \<and> StartDial d \<notin> set acts"
  "admit_peer su now peer aenv n = (NodeRuns n1, acts) \<Longrightarrow> nd_blocked n \<Longrightarrow> nd_blocked n1 \<and> StartDial d \<notin> set acts"
  "dial_done su now da result ok n = (NodeRuns n1, acts) \<Longrightarrow> nd_blocked n \<Longrightarrow> nd_blocked n1 \<and> StartDial d \<notin> set acts"
  "session_end live exit n = (NodeRuns n1, acts) \<Longrightarrow> nd_blocked n \<Longrightarrow> nd_blocked n1 \<and> StartDial d \<notin> set acts"
  subgoal by (cases command) (auto simp: tray_step_def)
  subgoal by (auto simp: phone_start_def split: prod.splits)
  subgoal by (auto simp: phone_request_def split: prod.splits)
  subgoal by (auto simp: admit_peer_def begin_accepted_def phone_start_def Let_def split: prod.splits if_splits accept_outcome.splits)
  subgoal by (auto simp: dial_done_def dial_failed_def Let_def split: sum.splits prod.splits if_splits dial_failure.splits)
  subgoal by (cases live; cases exit) (auto simp: session_end_def Let_def)
  done

lemma blocked_incoming:
  "incoming_step su now peer aenv n = (NodeRuns n1, acts) \<Longrightarrow> nd_blocked n \<Longrightarrow> nd_blocked n1 \<and> StartDial d \<notin> set acts"
  "incoming_while_live su now live peer n = (NodeRuns n1, acts) \<Longrightarrow> nd_blocked n \<Longrightarrow> nd_blocked n1 \<and> StartDial d \<notin> set acts"
  subgoal
    using blocked_arms(4) [of su now peer aenv n n1 _ d] blocked_arms(4) [of su now peer aenv "n\<lparr>nd_dialing := None\<rparr>" n1 _ d]
    by (auto simp: incoming_step_def split: if_splits prod.splits)
  subgoal by (cases live) (auto simp: incoming_while_live_def peer_while_dialled_def peer_while_connected_def
      dest: blocked_arms(2) split: if_splits)
  done

lemma blocked_step:
  assumes "node_step to_toml show_ip su n (env, event) = Some (NodeRuns n1, acts)" "nd_blocked n" "\<not> unblocks event"
  shows "nd_blocked n1 \<and> StartDial d \<notin> set acts"
proof -
  obtain n2 where arm: "node_arm to_toml show_ip su env event n = Some (NodeRuns n2, acts)"
    "n1 = (if nd_live n2 = None then loop_top su (ne_top env) n2 else n2)"
    by (rule node_step_arm [OF assms(1)])
  have replaced: "nd_blocked n2 \<and> StartDial d \<notin> set acts"
    if "admit_peer su (ne_now env) peer aenv (n\<lparr>nd_replacement := None\<rparr>) = (NodeRuns n2, acts)" for peer aenv
    using blocked_arms(4) [OF that] assms(2) by simp
  have "nd_blocked n2 \<and> StartDial d \<notin> set acts"
    using arm(1) assms(2,3)
    by (cases event) (auto simp: node_arm_def may_dial_def unblocks_def
        dest: replaced blocked_incoming [where d = d] blocked_arms(1,3,5,6) [where d = d] split: option.splits if_splits)
  then show ?thesis
    by (simp add: arm(2))
qed

lemma blocked_run:
  assumes "node_run to_toml show_ip su n evs acts n'" "nd_blocked n" "\<forall>i\<in>set evs. \<not> unblocks (snd i)"
  shows "nd_blocked n' \<and> StartDial d \<notin> set acts"
  using assms
proof (induction rule: node_run.induct)
  case (run_step evs acts n1 i n2 acts1)
  then show ?case
    using blocked_step [of to_toml show_ip su n1 "fst i" "snd i" n2 acts1 d] by simp
qed simp

lemma upgrade_failure: "dial_failure (xs @ UPGRADE_TEXT @ ys) = DialUpgradeRequired"
  by (simp add: dial_failure_def)

text \<open>A version mismatch stops the dialling until the user acts. If a dial in progress ends with a peer whose hello has
  another protocol version, or with the peer's refusal that asks for an upgrade, the error is shown; and no further dial
  begins, however the node goes on, before the user chooses to reconnect or to pair.\<close>

theorem version_mismatch_blocks_dialling:
  assumes "waiting n" "nd_dialing n = Some d" "ci_writes inp \<ge> 1"
    and "(\<exists>h rest. read_hello (ci_frames inp) = Ok (h, rest) \<and> hello_protocol_version h \<noteq> PROTOCOL_VERSION) \<or>
      (\<exists>e. read_hello (ci_frames inp) = Err (peer_error e) \<and> sublist UPGRADE_TEXT (re_message e))"
    and "node_step to_toml show_ip su n (env, OnDialDone (Connection_with fp inp late) ok) = Some (NodeRuns n1, acts1)"
    and "node_run to_toml show_ip su n1 evs acts n2" "\<forall>i\<in>set evs. \<not> unblocks (snd i)"
  shows "(\<exists>message. ShowDialError message \<in> set acts1) \<and> StartDial d' \<notin> set acts \<and> nd_blocked n2"
proof -
  obtain message where message: "dial_result su d (Connection_with fp inp late) = Err message"
      "dial_failure message = DialUpgradeRequired"
  proof (rule disjE [OF assms(4)]; elim exE conjE)
    fix h rest
    assume h: "read_hello (ci_frames inp) = Ok (h, rest)" "hello_protocol_version h \<noteq> PROTOCOL_VERSION"
    let ?tail = "'': peer protocol version '' @ decimal (unat (hello_protocol_version h)) @
        '' is incompatible with '' @ decimal (unat PROTOCOL_VERSION)"
    have "dial_result su d (Connection_with fp inp late) = Err (UPGRADE_TEXT @ ?tail)"
      using h assms(3) by (simp add: dial_result_def connect_computer_def validate_controller_hello_def Let_def)
    then show thesis
      using that upgrade_failure [of "[]"] by simp
  next
    fix e
    assume e: "read_hello (ci_frames inp) = Err (peer_error e)" "sublist UPGRADE_TEXT (re_message e)"
    have "sublist UPGRADE_TEXT (peer_error e)"
      using sublist_order.order.trans [OF e(2) sublist_append_leftI [of _ "''peer error: '' @ re_code e @ '': ''"]]
      by (simp add: peer_error_def)
    then show thesis
      using that refused_dial [OF assms(3) e(1)] by (simp add: dial_failure_def)
  qed
  have "ShowDialError message \<in> set acts1 \<and> nd_blocked n1"
    using assms(1,2,5) message
    by (auto simp: node_step_def node_arm_def waiting_def dial_done_def dial_failed_def Let_def split: if_splits)
  then show ?thesis
    using blocked_run [OF assms(6) _ assms(7)] by blast
qed

text \<open>A dial whose pairing this computer's user declined leaves pairing armed, and the next dial follows within seconds.\<close>

lemma declined_pairing_redials:
  assumes "waiting n" "nd_dialing n = Some d" "nd_armed n" "da_armed d" "nd_enabled n" "\<not> nd_blocked n" "su_endpoint su"
    and "fp \<notin> set (da_paired d)" "fp \<noteq> ns_pinned (da_settings d)"
    and "inp = \<lparr>ci_writes = 3, ci_frames = [FHello (node_hello cfg fp), FPairing (PairingStatusEvent False True)],
      ci_dialog = Some False\<rparr>"
  shows "\<exists>n1 acts at. node_step to_toml show_ip su n (env, OnDialDone (Connection_with fp inp None) ok) = Some (NodeRuns n1, acts) \<and>
    may_dial su n1 \<and> nd_armed n1 \<and> nd_dial_at n1 = Some at \<and> at \<le> ne_top env + DIAL_RETRY + DIAL_DEFER"
proof -
  let ?m = "''pairing was not approved on both computers''"
  have "\<not> sublist UPGRADE_TEXT ?m" "\<not> sublist DUPLICATE_SESSION ?m"
    by (simp_all add: UPGRADE_TEXT_def DUPLICATE_SESSION_def sublist_code)
  then have "dial_failure ?m = DialOther"
    by (simp add: dial_failure_def)
  moreover have "dial_result su d (Connection_with fp inp None) = Err ?m"
    using assms(4,8,9) by (simp add: dial_result_def connect_computer_def assms(10) Let_def)
  ultimately have "dial_done su (ne_now env) d (Connection_with fp inp None) ok n =
      (NodeRuns (n\<lparr>nd_dialing := None, nd_dial_at := None\<rparr>), [ShowDialError ?m])"
    by (simp add: dial_done_def dial_failed_def Let_def)
  then show ?thesis
    using assms(1-3,5-7) dial_delay_bounds(2) [of "su_local su" "node_keys su n" DIAL_RETRY]
    by (simp add: node_step_def node_arm_def waiting_def loop_top_def may_dial_def)
qed

section \<open>Concrete runs\<close>

text \<open>A laptop with the key b2 that knows the desktop computer a1 and has its address.\<close>

definition lap_setup :: node_setup where
  "lap_setup = \<lparr>su_settings = \<lparr>ns_config = \<lparr>nc_device_name = ''lap'', nc_role = Receiver, nc_notifications = False\<rparr>,
     ns_pinned = []\<rparr>, su_local = ''b2'', su_endpoint = True\<rparr>"

definition desk_hello :: hello where
  "desk_hello = node_hello \<lparr>nc_device_name = ''desk'', nc_role = Controller, nc_notifications = False\<rparr> ''a1''"

definition desk_peer :: incoming where
  "desk_peer = \<lparr>in_ip = V4 1, in_fingerprint = ''a1'', in_hello = desk_hello\<rparr>"

definition at_time :: "instant \<Rightarrow> node_env" where
  "at_time t = \<lparr>ne_now = t, ne_top = t\<rparr>"

definition set_up :: "frame list \<Rightarrow> accept_env" where
  "set_up frames = \<lparr>ae_input = \<lparr>ai_writes = 3, ai_frames = frames, ai_dialog = True, ai_save_ok = True\<rparr>,
     ae_screen_sent = True, ae_socket = True\<rparr>"

lemma desk_simps [simp]:
  "\<not> is_phone_hello desk_hello" "supports_confirmation desk_hello" "hello_device_name desk_hello = ''desk''"
  "in_hello desk_peer = desk_hello" "in_fingerprint desk_peer = ''a1''"
  "validate_controller_hello desk_hello ''a1'' = Ok ()"
  by (simp_all add: desk_hello_def desk_peer_def is_phone_hello_def node_hello_def HYPR_PHONE_EXTENSION_def
      CLIPBOARD_IMAGE_EXTENSION_def CLIPBOARD_TEXT_CHUNKS_EXTENSION_def INPUT_TOGGLE_EXTENSION_def
      PAIRING_CONFIRMATION_EXTENSION_def AUDIO_ROUTE_EXTENSION_def supports_confirmation_def validate_controller_hello_def)

definition desk_pins :: pin_store where
  "desk_pins = pin pin_store_default ''desk'' ''a1''"

lemma desk_pins_simps [simp]:
  "pins_wf desk_pins" "status desk_pins ''desk'' ''a1'' = Trusted" "\<not> is_phone_key desk_pins ''a1''"
  "paired_computer_keys desk_pins [] = [''a1'']" "is_pc_key desk_pins ''a1''"
  by (simp_all add: desk_pins_def pins_wf_def pin_def pin_store_default_def bt_wf_insert status_def bt_get_insert
      is_phone_key_def paired_computer_keys_def bt_values_def is_pc_key_def bt_wf_def bt_get_def)

lemma lap_simps [simp]:
  "ns_pinned (su_settings lap_setup) = []" "su_endpoint lap_setup" "su_local lap_setup = ''b2''"
  "ne_now (at_time t) = t" "ne_top (at_time t) = t"
  by (simp_all add: lap_setup_def at_time_def)

definition lap_start :: node where
  "lap_start = node_start lap_setup False desk_pins sample_sessions (at_time 0)"

lemma lap_start_simps [simp]:
  "nd_live lap_start = None" "nd_replacement lap_start = None" "nd_dialing lap_start = None" "nd_enabled lap_start"
  "\<not> nd_blocked lap_start" "\<not> nd_armed lap_start" "nd_pins lap_start = desk_pins" "nd_phones lap_start = sample_sessions"
  "nd_dial_at lap_start = Some DIAL_DEFER"
  by (simp_all add: lap_start_def node_start_def loop_top_def Let_def dial_delay_def keep_own_dial_def)

lemma run_one:
  "node_step to_toml show_ip su n i = Some (NodeRuns n1, acts) \<Longrightarrow> node_run to_toml show_ip su n [i] acts n1"
  using node_run.run_step [OF node_run.run_none] by fastforce

text \<open>The desktop connects.\<close>

definition connected_state :: node where
  "connected_state = lap_start\<lparr>nd_live := Some (LiveAccepted ''desk'' ''a1'')\<rparr>"

lemma desk_connects:
  "\<exists>acts. node_step sample_toml show_ip lap_setup lap_start
     (at_time 1, OnIncoming desk_peer (set_up [FPairing (PairingStatusEvent True False)])) =
     Some (NodeRuns connected_state, acts)"
proof -
  have "\<exists>sent. accept_computer cfg ''b2'' desk_pins False desk_hello ''a1''
      \<lparr>ai_writes = 3, ai_frames = [FPairing (PairingStatusEvent True False)], ai_dialog = True, ai_save_ok = True\<rparr> =
      (AcceptSession, desk_pins, False, sent)" for cfg
    by (simp add: accept_computer_def Let_def)
  then obtain sent where "accept_computer (ns_config (su_settings lap_setup)) ''b2'' desk_pins False desk_hello ''a1''
      \<lparr>ai_writes = 3, ai_frames = [FPairing (PairingStatusEvent True False)], ai_dialog = True, ai_save_ok = True\<rparr> =
      (AcceptSession, desk_pins, False, sent)"
    by blast
  then show ?thesis
    by (simp add: node_step_def node_arm_def incoming_step_def admit_peer_def begin_accepted_def set_up_def connected_state_def Let_def)
qed

theorem node_sessions_paired_witness:
  "\<exists>acts. node_run sample_toml (\<lambda>ip. []) lap_setup lap_start
     [(at_time 1, OnIncoming desk_peer (set_up [FPairing (PairingStatusEvent True False)]))] acts connected_state \<and>
     nd_live connected_state = Some (LiveAccepted ''desk'' ''a1'') \<and> is_pc_key (nd_pins connected_state) ''a1''"
proof -
  obtain acts where run: "node_run sample_toml (\<lambda>ip. []) lap_setup lap_start
     [(at_time 1, OnIncoming desk_peer (set_up [FPairing (PairingStatusEvent True False)]))] acts connected_state"
    using desk_connects run_one by blast
  have live: "nd_live connected_state = Some (LiveAccepted ''desk'' ''a1'')"
    by (simp add: connected_state_def)
  show ?thesis
    using run live node_sessions_paired [OF desk_pins_simps(1) run [unfolded lap_start_def] live] by auto
qed

text \<open>A new computer is paired.\<close>

theorem node_pins_need_consent_witness:
  "\<exists>n1 acts. node_step sample_toml (\<lambda>ip. []) lap_setup (lap_start\<lparr>nd_pins := pin_store_default\<rparr>)
     (at_time 1, OnIncoming desk_peer (set_up [FPairing (PairingStatusEvent False True), FPairing (PairingDecision True)])) =
     Some (NodeRuns n1, acts) \<and> is_pc_key (nd_pins n1) ''a1'' \<and>
   accept_consent (set_up [FPairing (PairingStatusEvent False True), FPairing (PairingDecision True)])"
proof -
  let ?env = "set_up [FPairing (PairingStatusEvent False True), FPairing (PairingDecision True)]"
  let ?n = "lap_start\<lparr>nd_pins := pin_store_default\<rparr>"
  have new: "status pin_store_default ''desk'' ''a1'' = Unknown" "\<not> is_phone_key pin_store_default ''a1''"
      "\<not> is_pc_key pin_store_default ''a1''"
    by (simp_all add: status_def pin_store_default_def bt_get_def is_phone_key_def is_pc_key_def bt_values_def)
  have "\<exists>sent. accept_computer cfg ''b2'' pin_store_default False desk_hello ''a1'' (ae_input ?env) =
      (AcceptSession, desk_pins, False, sent)" for cfg
    using new by (simp add: accept_computer_def set_up_def desk_pins_def Let_def)
  then obtain sent where "accept_computer (ns_config (su_settings lap_setup)) ''b2'' pin_store_default False desk_hello
      ''a1'' (ae_input ?env) = (AcceptSession, desk_pins, False, sent)"
    by blast
  then obtain n1 acts where step: "node_step sample_toml (\<lambda>ip. []) lap_setup ?n (at_time 1, OnIncoming desk_peer ?env) =
      Some (NodeRuns n1, acts)" "nd_pins n1 = desk_pins"
    by (simp add: node_step_def node_arm_def incoming_step_def admit_peer_def begin_accepted_def set_up_def Let_def)
  have "accept_consent ?env"
    using node_pins_need_consent [OF _ step(1), of "''a1''"] step(2) new(3) by simp
  then show ?thesis
    using step by auto
qed

text \<open>The laptop dials when its time has come.\<close>

definition lap_dial :: dial where
  "lap_dial = \<lparr>da_settings = su_settings lap_setup, da_paired = [''a1''], da_armed = False\<rparr>"

definition dialling_state :: node where
  "dialling_state = lap_start\<lparr>nd_dial_at := None, nd_dialing := Some lap_dial\<rparr>"

lemma dialling_simps [simp]:
  "waiting dialling_state" "nd_dialing dialling_state = Some lap_dial" "nd_enabled dialling_state"
  "\<not> nd_blocked dialling_state"
  by (simp_all add: dialling_state_def waiting_def)

lemma lap_dials:
  "node_step sample_toml show_ip lap_setup lap_start (at_time DIAL_DEFER, OnDialDue None) =
     Some (NodeRuns dialling_state, [StartDial lap_dial])"
  by (simp add: node_step_def node_arm_def may_dial_def node_keys_def dial_due_def loop_top_def dialling_state_def
      lap_dial_def Let_def)

theorem node_dials_only_when_allowed_witness:
  "node_run sample_toml (\<lambda>ip. []) lap_setup lap_start [(at_time DIAL_DEFER, OnDialDue None)] [StartDial lap_dial]
     dialling_state \<and> da_paired lap_dial = node_keys lap_setup dialling_state"
  using run_one [OF lap_dials]
    node_dials_only_when_allowed [OF desk_pins_simps(1) run_one [OF lap_dials, unfolded lap_start_def] dialling_simps(2)]
  by simp

theorem node_keeps_dialling_witness:
  "\<exists>at d. nd_dial_at lap_start = Some at \<and> at \<le> DIAL_UNREACHABLE_RETRY \<and>
     node_step sample_toml (\<lambda>ip. []) lap_setup lap_start (\<lparr>ne_now = at, ne_top = at\<rparr>, OnDialDue None) =
       Some (NodeRuns (lap_start\<lparr>nd_dial_at := None, nd_dialing := Some d\<rparr>), [StartDial d])"
proof -
  have "waiting lap_start" "node_keys lap_setup lap_start \<noteq> []"
    by (simp_all add: waiting_def node_keys_def)
  then show ?thesis
    using node_keeps_dialling [OF node_run.run_none [of sample_toml "\<lambda>ip. []" lap_setup, of lap_start, unfolded lap_start_def],
        folded lap_start_def, where after = DIAL_DEFER and fresh = None]
    by (simp add: clock_def)
qed

text \<open>Both computers dial each other.\<close>

definition desk_setup :: node_setup where
  "desk_setup = lap_setup\<lparr>su_local := ''a1''\<rparr>"

definition lap_peer :: incoming where
  "lap_peer = \<lparr>in_ip = V4 2, in_fingerprint = ''b2'', in_hello = desk_hello\<rparr>"

theorem simultaneous_dials_resolve_witness:
  "node_step sample_toml (\<lambda>ip. []) desk_setup dialling_state (at_time 9, OnIncoming lap_peer (set_up [])) =
     Some (NodeRuns dialling_state, [Refuse lap_peer DUPLICATE_SESSION DUPLICATE_TEXT]) \<and>
   (\<exists>out acts. node_step sample_toml (\<lambda>ip. []) lap_setup dialling_state (at_time 9, OnIncoming desk_peer (set_up [])) =
     Some (out, CancelDial # acts))"
proof -
  have peers: "su_local desk_setup = in_fingerprint desk_peer" "su_local lap_setup = in_fingerprint lap_peer"
      "su_local desk_setup < su_local lap_setup" "\<not> is_phone_hello (in_hello desk_peer)" "\<not> is_phone_hello (in_hello lap_peer)"
    by (simp_all add: desk_setup_def lap_peer_def)
  let ?inp = "\<lparr>ci_writes = 1, ci_frames = [FError \<lparr>re_code = DUPLICATE_SESSION, re_message = DUPLICATE_TEXT\<rparr>],
    ci_dialog = None\<rparr>"
  have refusal: "1 \<le> ci_writes ?inp" "ci_frames ?inp = [FError \<lparr>re_code = DUPLICATE_SESSION, re_message = DUPLICATE_TEXT\<rparr>]"
    by simp_all
  show ?thesis
    using simultaneous_dials_resolve [OF peers dialling_simps(1,2,1,2,3,4) lap_simps(2) refusal,
        where env = "at_time 9" and aenv = "set_up []" and to_toml = sample_toml and show_ip = "\<lambda>ip. []" and late = None
          and ok = True]
    by blast
qed

text \<open>The desktop was upgraded, the laptop was not.\<close>

theorem version_mismatch_blocks_dialling_witness:
  "\<exists>n1 acts message. node_step sample_toml (\<lambda>ip. []) lap_setup dialling_state
     (at_time 9, OnDialDone (Connection_with ''a1'' \<lparr>ci_writes = 1,
        ci_frames = [FHello (desk_hello\<lparr>hello_protocol_version := 3\<rparr>)], ci_dialog = None\<rparr> None) True) =
     Some (NodeRuns n1, acts) \<and> ShowDialError message \<in> set acts \<and> nd_blocked n1"
proof -
  let ?inp = "\<lparr>ci_writes = 1, ci_frames = [FHello (desk_hello\<lparr>hello_protocol_version := 3\<rparr>)], ci_dialog = None\<rparr>"
  have mismatch: "1 \<le> ci_writes ?inp"
      "(\<exists>h rest. read_hello (ci_frames ?inp) = Ok (h, rest) \<and> hello_protocol_version h \<noteq> PROTOCOL_VERSION) \<or>
       (\<exists>e. read_hello (ci_frames ?inp) = Err (peer_error e) \<and> sublist UPGRADE_TEXT (re_message e))"
    by (simp_all add: PROTOCOL_VERSION_def)
  obtain message where "dial_result lap_setup lap_dial (Connection_with ''a1'' ?inp None) = Err message"
    by (simp add: dial_result_def connect_computer_def validate_controller_hello_def PROTOCOL_VERSION_def Let_def)
  then obtain n1 acts where step: "node_step sample_toml (\<lambda>ip. []) lap_setup dialling_state
      (at_time 9, OnDialDone (Connection_with ''a1'' ?inp None) True) = Some (NodeRuns n1, acts)"
    by (cases "dial_failure message")
      (simp_all add: dialling_state_def node_step_def node_arm_def dial_done_def dial_failed_def Let_def)
  show ?thesis
    using step version_mismatch_blocks_dialling [OF dialling_simps(1,2) mismatch step node_run.run_none] by auto
qed

end
