(* ===== verification/Injector.thy ===== *)
theory Injector
  imports Keymap SessionProgram Complex_Main
begin

text \<open>
  The injector of the Windows side, \<open>WindowsInputInjector\<close> in \<open>crates/edge-windows-input/src/injection.rs\<close>: it keeps
  what it holds down, and translates events to inputs for \<open>SendInput\<close>. An input the system does not take is an
  error; \<open>takes\<close> tells which it takes. A number of the event is an IEEE double, of which the code needs the value.
\<close>

section \<open>Numbers\<close>

text \<open>The value of a double, None for infinities and what is no number.\<close>

definition f64_value :: "f64 \<Rightarrow> real option" where
  "f64_value w =
     (let expo = unat (drop_bit 52 w) mod 2048; frac = unat w mod 2 ^ 52;
          sign = (if bit w 63 then - 1 else 1 :: real)
      in if expo = 2047 then None
         else if expo = 0 then Some (sign * of_nat frac / 2 ^ 1074)
         else Some (sign * of_nat (2 ^ 52 + frac) * 2 ^ expo / 2 ^ 1075))"

definition f64_is_zero :: "f64 \<Rightarrow> bool" where
  "f64_is_zero w = (f64_value w = Some 0)"

definition i32_min :: int where
  "i32_min = - (2 ^ 31)"

definition i32_max :: int where
  "i32_max = 2 ^ 31 - 1"

definition round_half_away :: "real \<Rightarrow> int" where
  "round_half_away r = (if r < 0 then - \<lfloor>1 / 2 - r\<rfloor> else \<lfloor>r + 1 / 2\<rfloor>)"

text \<open>\<open>NaN\<close> stays what it is under \<open>round\<close> and \<open>clamp\<close>, and is cast to zero.\<close>

definition rounded_i32 :: "f64 \<Rightarrow> int" where
  "rounded_i32 w =
     (case f64_value w of
        Some r \<Rightarrow> max i32_min (min i32_max (round_half_away r))
      | None \<Rightarrow> if unat w mod 2 ^ 52 \<noteq> 0 then 0 else if bit w 63 then i32_min else i32_max)"

text \<open>A product is the nearest double, a tie going to the even one, and None when it is too large.\<close>

definition round_half_even :: "real \<Rightarrow> int" where
  "round_half_even r =
     (let m = \<lfloor>r\<rfloor>; d = r - of_int m in if d < 1 / 2 \<or> d = 1 / 2 \<and> even m then m else m + 1)"

definition f64_nearest :: "real \<Rightarrow> real option" where
  "f64_nearest r =
     (if r = 0 then Some 0
      else let e = max (- 1074) (\<lfloor>log 2 \<bar>r\<bar>\<rfloor> - 52);
               v = of_int (round_half_even (r / 2 powr of_int e)) * 2 powr of_int e
           in if \<bar>v\<bar> \<ge> 2 ^ 1024 then None else Some v)"

definition WHEEL_DELTA :: real where
  "WHEEL_DELTA = 120"

definition wheel_data :: "f64 \<Rightarrow> u32" where
  "wheel_data w =
     word_of_int
      (case f64_value w of
         None \<Rightarrow> rounded_i32 w
       | Some r \<Rightarrow>
           (case f64_nearest (r * WHEEL_DELTA) of
              None \<Rightarrow> if r < 0 then i32_min else i32_max
            | Some v \<Rightarrow> max i32_min (min i32_max (round_half_away v))))"

section \<open>Inputs of the system\<close>

datatype os_input =
    OsMove int int
  | OsButton mouse_button bool
  | OsWheel bool u32 \<comment> \<open>whether vertical\<close>
  | OsKey windows_scan_code bool

datatype inject_error = UnmappedEvdevKey u16 | InjectionRefused

type_synonym injected = "(inject_error, unit) result \<times> os_input list"

definition send_input :: "(os_input \<Rightarrow> bool) \<Rightarrow> os_input \<Rightarrow> injected" where
  "send_input takes i = (if takes i then (Ok (), [i]) else (Err InjectionRefused, []))"

definition send_key :: "(os_input \<Rightarrow> bool) \<Rightarrow> u16 \<Rightarrow> bool \<Rightarrow> injected" where
  "send_key takes code down =
     (case evdev_to_windows_scancode code of
        None \<Rightarrow> (Err (UnmappedEvdevKey code), [])
      | Some key \<Rightarrow> send_input takes (OsKey key down))"

section \<open>The injector\<close>

record injector =
  ij_keys :: "(u16, unit) btree"
  ij_buttons :: "mouse_button \<Rightarrow> bool"

definition injector_new :: injector where
  "injector_new = \<lparr>ij_keys = [], ij_buttons = (\<lambda>b. False)\<rparr>"

definition all_buttons :: "mouse_button list" where
  "all_buttons = [ButtonLeft, ButtonRight, ButtonMiddle, ButtonBack, ButtonForward]"

text \<open>Every release is tried; the first error is the result.\<close>

fun first_error :: "injected list \<Rightarrow> injected" where
  "first_error [] = (Ok (), [])"
| "first_error ((r, sent) # rest) =
     (case first_error rest of (r', sent') \<Rightarrow> (case r of Inl e \<Rightarrow> Err e | Inr _ \<Rightarrow> r', sent @ sent'))"

definition all_keys_up :: "(os_input \<Rightarrow> bool) \<Rightarrow> injector \<Rightarrow> injected \<times> injector" where
  "all_keys_up takes j =
     (first_error (map (\<lambda>k. send_key takes k False) (bt_keys (ij_keys j)) @
        map (\<lambda>b. send_input takes (OsButton b False)) (filter (ij_buttons j) all_buttons)),
      injector_new)"

definition inject_wheel :: "(os_input \<Rightarrow> bool) \<Rightarrow> f64 \<Rightarrow> f64 \<Rightarrow> injected" where
  "inject_wheel takes x y =
     (let vertical = (if \<not> f64_is_zero y then send_input takes (OsWheel True (wheel_data y)) else (Ok (), []))
      in case vertical of
           (Inl e, sent) \<Rightarrow> (Err e, sent)
         | (Inr _, sent) \<Rightarrow>
             if \<not> f64_is_zero x
             then (case send_input takes (OsWheel False (wheel_data x)) of (r, sent') \<Rightarrow> (r, sent @ sent'))
             else (Ok (), sent))"

fun inject :: "(os_input \<Rightarrow> bool) \<Rightarrow> input_event \<Rightarrow> injector \<Rightarrow> injected \<times> injector" where
  "inject takes (PointerMotion dx dy) j = (send_input takes (OsMove (rounded_i32 dx) (rounded_i32 dy)), j)"
| "inject takes (PointerButton b down) j =
     (send_input takes (OsButton b down), j\<lparr>ij_buttons := (ij_buttons j)(b := down)\<rparr>)"
| "inject takes (PointerWheel x y) j = (inject_wheel takes x y, j)"
| "inject takes (Key code down) j =
     (send_key takes code down,
      j\<lparr>ij_keys := (if down then bt_insert code () (ij_keys j) else bt_remove code (ij_keys j))\<rparr>)"
| "inject takes AllKeysUp j = all_keys_up takes j"

section \<open>What the system holds\<close>

text \<open>The system presses and releases keys by their scan code, and buttons.\<close>

datatype os_held = OsHeldKey windows_scan_code | OsHeldButton mouse_button

fun os_press :: "os_held set \<Rightarrow> os_input \<Rightarrow> os_held set" where
  "os_press h (OsKey k down) = (if down then insert (OsHeldKey k) h else h - {OsHeldKey k})"
| "os_press h (OsButton b down) = (if down then insert (OsHeldButton b) h else h - {OsHeldButton b})"
| "os_press h _ = h"

text \<open>What the injector believes to hold down, as the system names it.\<close>

definition believed :: "injector \<Rightarrow> os_held set" where
  "believed j = {OsHeldKey k |c k. c \<in> set (bt_keys (ij_keys j)) \<and> evdev_to_windows_scancode c = Some k} \<union>
     {OsHeldButton b |b. ij_buttons j b}"

text \<open>The effects of a session on its injector. An error of an injection ends the session; the effects are then no
  longer carried out, but the injector is dropped, which releases what it holds.\<close>

fun inject_effect :: "(os_input \<Rightarrow> bool) \<Rightarrow> effect \<Rightarrow> injector \<Rightarrow> injected \<times> injector" where
  "inject_effect takes (Inject e) j = inject takes e j"
| "inject_effect takes KeysUp j = all_keys_up takes j"
| "inject_effect takes _ j = ((Ok (), []), j)"

fun inject_all :: "(os_input \<Rightarrow> bool) \<Rightarrow> effect list \<Rightarrow> injector \<Rightarrow> os_input list \<times> injector" where
  "inject_all takes [] j = ([], j)"
| "inject_all takes (e # es) j =
     (case inject_effect takes e j of ((r, sent), j1) \<Rightarrow>
        (case inject_all takes es j1 of (sent', j2) \<Rightarrow> (sent @ sent', j2)))"

definition dropped :: "(os_input \<Rightarrow> bool) \<Rightarrow> injector \<Rightarrow> os_input list" where
  "dropped takes j = snd (fst (all_keys_up takes j))"

section \<open>Properties\<close>

text \<open>A session's summary of what is held, as the system names it.\<close>

definition named :: "held_input set \<Rightarrow> os_held set" where
  "named h = {OsHeldKey k |c k. HeldKey c \<in> h \<and> evdev_to_windows_scancode c = Some k} \<union> {OsHeldButton b |b. HeldButton b \<in> h}"

definition believes :: "injector \<Rightarrow> held_input set \<Rightarrow> bool" where
  "believes j h \<longleftrightarrow> bt_wf (ij_keys j) \<and> (\<forall>c. c \<in> set (bt_keys (ij_keys j)) \<longleftrightarrow> HeldKey c \<in> h) \<and>
     (\<forall>b. ij_buttons j b \<longleftrightarrow> HeldButton b \<in> h)"

lemma keys_insert: "c \<in> set (bt_keys (bt_insert k v t)) \<longleftrightarrow> c = k \<or> c \<in> set (bt_keys t)"
  by (simp add: bt_keys_def fst_set_bt_insert)

lemma keys_remove: "c \<in> set (bt_keys (bt_remove k t)) \<longleftrightarrow> c \<noteq> k \<and> c \<in> set (bt_keys t)"
  by (auto simp: bt_keys_def bt_remove_def)

lemma believes_named: "believes j h \<Longrightarrow> believed j = named h"
  by (auto simp: believes_def believed_def named_def)

lemma scancode_inject:
  assumes "evdev_to_windows_scancode c = Some k" "evdev_to_windows_scancode d = Some k"
  shows "c = d"
proof -
  have "windows_scancode_to_evdev k = Some x" if x: "evdev_to_windows_scancode x = Some k" for x
  proof -
    obtain e where e: "evdev_scan x = Some e" "k = windows_scan_code_new (fst e) (snd e)"
      using x by (auto simp: evdev_to_windows_scancode_def)
    have "map_of scancode_table e = Some x"
      using evdev_forth table_evdev_below [OF e(1)] e(1) by (auto simp: list_all_iff)
    then show ?thesis
      by (simp add: windows_scancode_to_evdev_def e(2) windows_scan_code_new_def)
  qed
  from this [OF assms(1)] this [OF assms(2)] show ?thesis
    by simp
qed

lemma named_press_key:
  "evdev_to_windows_scancode c = Some k \<Longrightarrow>
     named (if down then insert (HeldKey c) h else h - {HeldKey c}) = os_press (named h) (OsKey k down)"
  "evdev_to_windows_scancode c = None \<Longrightarrow> named (if down then insert (HeldKey c) h else h - {HeldKey c}) = named h"
  "named (if down then insert (HeldButton b) h else h - {HeldButton b}) = os_press (named h) (OsButton b down)"
  by (auto simp: named_def dest: scancode_inject) (metis option.inject, metis option.distinct(1))

text \<open>Releasing everything, on a system that takes every input.\<close>

abbreviation takes_all :: "os_input \<Rightarrow> bool" where
  "takes_all \<equiv> \<lambda>i. True"

lemma first_error_sent: "snd (first_error xs) = concat (map snd xs)"
  by (induction xs rule: first_error.induct) (auto split: prod.splits sum.splits)

lemma os_press_releases:
  "foldl os_press h (concat (map (\<lambda>c. snd (send_key takes_all c False)) cs)) =
     h - {OsHeldKey k |c k. c \<in> set cs \<and> evdev_to_windows_scancode c = Some k}"
  "foldl os_press h (concat (map (\<lambda>b. snd (send_input takes_all (OsButton b False))) bs)) = h - OsHeldButton ` set bs"
  by (induction cs arbitrary: h; auto simp: send_key_def send_input_def split: option.splits)
    (induction bs arbitrary: h; auto simp: send_input_def)

lemma all_buttons_all: "b \<in> set all_buttons"
  by (cases b) (simp_all add: all_buttons_def)

lemma releases_believed:
  assumes "h \<subseteq> believed j"
  shows "foldl os_press h (snd (fst (all_keys_up takes_all j))) = {}"
  using assms all_buttons_all
  by (auto simp: all_keys_up_def first_error_sent comp_def os_press_releases believed_def)

lemma inject_agrees:
  assumes "inject_effect takes_all e j = ((r, sent), j1)" "believes j h" "e \<noteq> Inject AllKeysUp"
  shows "foldl os_press (named h) sent = named (press h e) \<and> believes j1 (press h e)"
proof (cases "e = KeysUp")
  case True
  then show ?thesis
    using assms releases_believed [of "named h" j] believes_named [OF assms(2)]
    by (auto simp: all_keys_up_def injector_new_def believes_def named_def bt_keys_def)
next
  case no_up: False
  show ?thesis
  proof (cases "\<exists>i. e = Inject i")
    case False
    then show ?thesis
      using assms no_up by (cases e) auto
  next
    case True
    then obtain i where i: "e = Inject i" ..
    show ?thesis
    proof (cases i)
      case (Key c down)
      then show ?thesis
        using assms(1,2) named_press_key(1) [of c _ down h] named_press_key(2) [of c down h]
        by (auto simp: i send_key_def send_input_def believes_def keys_insert keys_remove bt_wf_insert bt_wf_remove
            split: option.splits if_splits)
    next
      case (PointerButton b down)
      then show ?thesis
        using assms(1,2) named_press_key(3) [of down b h]
        by (auto simp: i send_input_def believes_def split: if_splits)
    next
      case (PointerWheel x y)
      then show ?thesis
        using assms(1,2) by (auto simp: i inject_wheel_def send_input_def Let_def split: if_splits)
    next
      case (PointerMotion x y)
      then show ?thesis
        using assms(1,2) by (auto simp: i send_input_def)
    next
      case AllKeysUp
      then show ?thesis
        using assms(3) i by simp
    qed
  qed
qed

lemma inject_all_agrees:
  assumes "inject_all takes_all es j = (sent, j1)" "believes j h" "Inject AllKeysUp \<notin> set es"
  shows "foldl os_press (named h) sent = named (held h es) \<and> believes j1 (held h es)"
  using assms
proof (induction es arbitrary: j h sent)
  case (Cons e es)
  obtain r sent1 j2 where one: "inject_effect takes_all e j = ((r, sent1), j2)"
    by (metis prod.exhaust)
  obtain sent2 where rest: "inject_all takes_all es j2 = (sent2, j1)" "sent = sent1 @ sent2"
    using Cons.prems(1) one by (auto split: prod.splits)
  have "foldl os_press (named h) sent1 = named (press h e)" "believes j2 (press h e)"
    using inject_agrees [OF one Cons.prems(2)] Cons.prems(3) by auto
  then show ?case
    using Cons.IH [OF rest(1), of "press h e"] Cons.prems(3) rest(2) by simp
qed auto

text \<open>C15: The injector presses and releases in the system what the session means it to. On a system that takes every
  input, the keys and buttons the system holds after any effects of a session are exactly those that the effects left
  held, as far as they have a scan code; and when the session is over and its injector is dropped, the system
  holds nothing any more. In particular two different keys never share a scan code, so that releasing one never releases
  the other.\<close>

theorem injector_refines_held:
  assumes "inject_all (\<lambda>i. True) es injector_new = (sent, j)" "Inject AllKeysUp \<notin> set es"
  shows "foldl os_press {} sent = named (held {} es) \<and> foldl os_press {} (sent @ dropped (\<lambda>i. True) j) = {}"
proof -
  have "believes injector_new {}" "named {} = {}"
    by (auto simp: believes_def injector_new_def named_def bt_keys_def)
  then have "foldl os_press {} sent = named (held {} es)" "believes j (held {} es)"
    using inject_all_agrees [OF assms(1) _ assms(2), of "{}"] by auto
  then show ?thesis
    using releases_believed [of "named (held {} es)" j] believes_named by (auto simp: dropped_def)
qed

theorem injector_refines_held_witness:
  "foldl os_press {} (fst (inject_all (\<lambda>i. True) [Inject (Key 30 True), Inject (PointerButton ButtonLeft True), Inject (Key 30 False)]
     injector_new)) = {OsHeldButton ButtonLeft}"
proof -
  let ?es = "[Inject (Key 30 True), Inject (PointerButton ButtonLeft True), Inject (Key 30 False)]"
  obtain sent j where run: "inject_all (\<lambda>i. True) ?es injector_new = (sent, j)"
    by (metis prod.exhaust)
  have "held {} ?es = {HeldButton ButtonLeft}"
    by auto
  then show ?thesis
    unfolding run using injector_refines_held [OF run] by (simp add: named_def del: inject_all.simps)
qed

end
