(* ===== verification/LiveClipboard.thy ===== *)
theory LiveClipboard
  imports SessionProgram Framing ClipboardTransfer
begin

text \<open>
  The clipboard of the Windows controller during a session, \<open>LiveClipboardState\<close> in
  \<open>apps/edge-controller-win/src/main.rs\<close>: it offers what is copied here, applies what the peer offers, and holds a
  paste and the input behind it back until the peer has what is to be pasted. Every operation that writes is a program
  over effects, with what to do when the connection is broken, when the clipboard fails, and otherwise. Reading the
  system's clipboard is part of the environment.
\<close>

section \<open>State\<close>

definition CLIPBOARD_PASTE_BARRIER_TIMEOUT :: duration where
  "CLIPBOARD_PASTE_BARRIER_TIMEOUT = from_secs 5"

record clipboard_config =
  cc_enabled :: bool
  cc_images_enabled :: bool
  cc_max_bytes :: nat
  cc_max_image_bytes :: nat

text \<open>What the code uses of its libraries: the serialisation of frames, SHA-256 and the image decoder.\<close>

record clipboard_library =
  cl_enc :: "frame \<Rightarrow> bytes option"
  cl_sha :: "bytes \<Rightarrow> bytes"
  cl_codec :: image_codec

text \<open>Of a step: the time, what the clipboard holds (None is an error of reading it), whether it can be written, and
  its sequence number.\<close>

record clipboard_env =
  le_now :: instant
  le_item :: "clipboard_item option option"
  le_text :: "string option option"
  le_write_ok :: bool
  le_sequence :: u32

record pending_clipboard_read =
  pr_sequence :: u32
  pr_generation :: u64

record live_clipboard =
  lc_ctrl_down :: bool
  lc_tracker :: clipboard_change_tracker
  lc_last_sequence :: u32
  lc_outgoing :: "outgoing_transfer option"
  lc_incoming :: incoming_transfer
  lc_next_transfer_id :: u64
  lc_peer :: clipboard_peer_features
  lc_apply_generation :: u64
  lc_pending_read :: "pending_clipboard_read option"
  lc_outgoing_image_id :: "clipboard_content_id option"
  lc_last_sent_image_id :: "clipboard_content_id option"
  lc_held :: "frame list"
  lc_deadline :: "instant option"

definition live_new ::
  "clipboard_library \<Rightarrow> clipboard_config \<Rightarrow> clipboard_env \<Rightarrow> clipboard_peer_features \<Rightarrow> live_clipboard" where
  "live_new lib cfg env peer =
     \<lparr>lc_ctrl_down = False,
      lc_tracker = tracker_new
        (if cc_enabled cfg
         then (case le_item env of Some item \<Rightarrow> map_option (item_id (cl_sha lib)) item | None \<Rightarrow> None) else None),
      lc_last_sequence = le_sequence env, lc_outgoing = None, lc_incoming = None, lc_next_transfer_id = 0,
      lc_peer = peer, lc_apply_generation = 0, lc_pending_read = None, lc_outgoing_image_id = None,
      lc_last_sent_image_id = None, lc_held = [], lc_deadline = None\<rparr>"

section \<open>Offers\<close>

definition replace_outgoing :: "live_clipboard \<Rightarrow> frame list" where
  "replace_outgoing c =
     (case lc_outgoing c of Some active \<Rightarrow> [FClipboard (cancel_event active Replaced)] | None \<Rightarrow> [])"

definition next_transfer :: "live_clipboard \<Rightarrow> u64" where
  "next_transfer c = max 1 (lc_next_transfer_id c + 1)"

definition push_text_offer ::
  "clipboard_library \<Rightarrow> u64 \<Rightarrow> string \<Rightarrow> clipboard_content_id option \<Rightarrow> live_clipboard \<Rightarrow> frame list \<times> live_clipboard"
where
  "push_text_offer lib sequence text content_id c =
     (let cancel = replace_outgoing c;
          c1 = c\<lparr>lc_outgoing := None, lc_outgoing_image_id := None\<rparr>;
          offer = FClipboard (TextOffer sequence text)
      in if fits_secure_frame (cl_enc lib) offer then (cancel @ [offer], c1)
         else if \<not> cpf_text_chunks (lc_peer c1) then (cancel, c1)
         else (cancel,
               c1\<lparr>lc_next_transfer_id := next_transfer c1,
                  lc_outgoing := Some (outgoing_text (cl_sha lib) (next_transfer c1) sequence text),
                  lc_outgoing_image_id := content_id\<rparr>))"

definition sends_images :: "clipboard_config \<Rightarrow> live_clipboard \<Rightarrow> bool" where
  "sends_images cfg c = (cpf_images (lc_peer c) \<and> cc_images_enabled cfg)"

definition offer_item ::
  "clipboard_library \<Rightarrow> clipboard_config \<Rightarrow> clipboard_item option \<Rightarrow> bool \<Rightarrow> live_clipboard
     \<Rightarrow> frame list \<times> live_clipboard" where
  "offer_item lib cfg current force c =
     (let current_id = map_option (item_id (cl_sha lib)) current in
      case (if force then offer_current (lc_tracker c) current_id else offer_if_changed (lc_tracker c) current_id) of
        (None, tracker) \<Rightarrow> ([], c\<lparr>lc_tracker := tracker\<rparr>)
      | (Some sequence, tracker) \<Rightarrow>
          (let c1 = c\<lparr>lc_tracker := tracker\<rparr> in
           case current of
             Some (ItemText text) \<Rightarrow> push_text_offer lib sequence text current_id c1
           | Some (ItemImage img) \<Rightarrow>
               if sends_images cfg c1
               then (replace_outgoing c1,
                     c1\<lparr>lc_next_transfer_id := next_transfer c1,
                        lc_outgoing := Some (outgoing_image (next_transfer c1) sequence img),
                        lc_outgoing_image_id := current_id\<rparr>)
               else ([], c1)
           | None \<Rightarrow> ([], c1)))"

text \<open>\<open>poll_local_change\<close> begins a read in the background, and \<open>finished_local_read\<close> with
  \<open>complete_local_read\<close> offers what it found.\<close>

definition poll_local_change :: "clipboard_config \<Rightarrow> clipboard_env \<Rightarrow> live_clipboard \<Rightarrow> live_clipboard" where
  "poll_local_change cfg env c =
     (if \<not> cc_enabled cfg \<or> lc_pending_read c \<noteq> None then c
      else if le_sequence env \<noteq> 0 \<and> le_sequence env = lc_last_sequence c then c
      else c\<lparr>lc_pending_read := Some \<lparr>pr_sequence = le_sequence env, pr_generation = lc_apply_generation c\<rparr>\<rparr>)"

definition finished_local_read :: "live_clipboard \<Rightarrow> pending_clipboard_read option \<times> live_clipboard" where
  "finished_local_read c = (lc_pending_read c, c\<lparr>lc_pending_read := None\<rparr>)"

definition complete_local_read ::
  "clipboard_library \<Rightarrow> clipboard_config \<Rightarrow> pending_clipboard_read \<Rightarrow> clipboard_item option option \<Rightarrow> live_clipboard
     \<Rightarrow> frame list \<times> live_clipboard" where
  "complete_local_read lib cfg finished result c =
     (if pr_generation finished \<noteq> lc_apply_generation c then ([], c)
      else (case result of
              None \<Rightarrow> ([], c)
            | Some item \<Rightarrow>
                (case offer_item lib cfg item False c of
                   (frames, c1) \<Rightarrow> (frames, c1\<lparr>lc_last_sequence := pr_sequence finished\<rparr>))))"

section \<open>Input\<close>

text \<open>Key codes of \<open>C\<close>, \<open>V\<close> and the two control keys.\<close>

definition is_motion :: "frame \<Rightarrow> bool" where
  "is_motion f = (case input_event_of f of Some (PointerMotion _ _) \<Rightarrow> True | _ \<Rightarrow> False)"

definition is_paste :: "frame \<Rightarrow> bool" where
  "is_paste f = (input_event_of f = Some (Key 47 True))"

definition hold_paste :: "clipboard_env \<Rightarrow> frame \<Rightarrow> live_clipboard \<Rightarrow> live_clipboard" where
  "hold_paste env f c =
     c\<lparr>lc_held := lc_held c @ [f], lc_deadline := Some (le_now env + CLIPBOARD_PASTE_BARRIER_TIMEOUT)\<rparr>"

definition prepare_paste ::
  "clipboard_library \<Rightarrow> clipboard_config \<Rightarrow> clipboard_env \<Rightarrow> frame \<Rightarrow> live_clipboard \<Rightarrow> frame list \<times> live_clipboard" where
  "prepare_paste lib cfg env f c =
     (case le_item env of
        None \<Rightarrow> ([f], c)
      | Some current \<Rightarrow>
          (let other =
             (case offer_item lib cfg current True c of
                (frames, c1) \<Rightarrow>
                  if (case lc_outgoing c1 of Some t \<Rightarrow> outgoing_is_text t | None \<Rightarrow> False)
                  then (frames, hold_paste env f c1) else (frames @ [f], c1))
           in case current of
                Some (ItemImage img) \<Rightarrow>
                  if sends_images cfg c
                  then (let image_id = ContentImage (ci_content_sha256 img) in
                        if lc_last_sent_image_id c \<noteq> Some image_id
                        then (case (if lc_outgoing_image_id c = Some image_id then ([], c)
                                    else offer_item lib cfg current True c) of
                                (prefixes, c1) \<Rightarrow> (prefixes, hold_paste env f c1))
                        else ([f], c))
                  else other
              | _ \<Rightarrow> other))"

definition prepare_input ::
  "clipboard_library \<Rightarrow> clipboard_config \<Rightarrow> clipboard_env \<Rightarrow> frame \<Rightarrow> live_clipboard \<Rightarrow> frame list \<times> live_clipboard" where
  "prepare_input lib cfg env f c =
     (if lc_deadline c \<noteq> None
      then if is_motion f then ([f], c) else ([], c\<lparr>lc_held := lc_held c @ [f]\<rparr>)
      else if \<not> cc_enabled cfg then ([f], c)
      else if is_paste f \<and> lc_ctrl_down c then prepare_paste lib cfg env f c
      else ([f], c))"

text \<open>The request, if any, is sent 200 milliseconds later.\<close>

definition after_input_sent :: "clipboard_config \<Rightarrow> frame \<Rightarrow> live_clipboard \<Rightarrow> clipboard_event option \<times> live_clipboard" where
  "after_input_sent cfg f c =
     (case input_event_of f of
        Some (Key code down) \<Rightarrow>
          if code = 29 \<or> code = 97 then (None, c\<lparr>lc_ctrl_down := down\<rparr>)
          else if code = 46 \<and> down \<and> lc_ctrl_down c \<and> cc_enabled cfg
          then (Some (if sends_images cfg c then ContentRequest else TextRequest), c)
          else (None, c)
      | Some AllKeysUp \<Rightarrow> (None, c\<lparr>lc_ctrl_down := False\<rparr>)
      | _ \<Rightarrow> (None, c))"

definition take_held_input :: "live_clipboard \<Rightarrow> frame list \<times> live_clipboard" where
  "take_held_input c = (lc_held c, c\<lparr>lc_held := [], lc_deadline := None\<rparr>)"

definition cancel_expired_paste_barrier :: "live_clipboard \<Rightarrow> frame option \<times> live_clipboard" where
  "cancel_expired_paste_barrier c =
     (map_option (\<lambda>active. FClipboard (cancel_event active TimedOut)) (lc_outgoing c),
      c\<lparr>lc_deadline := None, lc_outgoing_image_id := None, lc_outgoing := None\<rparr>)"

definition paste_barrier_expired :: "instant \<Rightarrow> live_clipboard \<Rightarrow> bool" where
  "paste_barrier_expired now c = (case lc_deadline c of Some deadline \<Rightarrow> now \<ge> deadline | None \<Rightarrow> False)"

definition needs_send_tick :: "live_clipboard \<Rightarrow> bool" where
  "needs_send_tick c = (lc_outgoing c \<noteq> None \<or> lc_deadline c \<noteq> None)"

definition next_image_frame :: "live_clipboard \<Rightarrow> (frame \<times> bool) option \<times> live_clipboard" where
  "next_image_frame c =
     (case lc_outgoing c of
        None \<Rightarrow> (None, c)
      | Some t \<Rightarrow>
          (case next_event t of
             (None, t1) \<Rightarrow> (None, c\<lparr>lc_outgoing := Some t1\<rparr>)
           | (Some event, t1) \<Rightarrow>
               (let completed = (case event of ImageEnd _ \<Rightarrow> True | TextEnd _ \<Rightarrow> True | _ \<Rightarrow> False)
                in (Some (FClipboard event, completed),
                    if completed
                    then c\<lparr>lc_outgoing := None, lc_last_sent_image_id := lc_outgoing_image_id c,
                           lc_outgoing_image_id := None\<rparr>
                    else c\<lparr>lc_outgoing := Some t1\<rparr>))))"

section \<open>Programs\<close>

text \<open>\<open>broken\<close> goes on when a write fails.\<close>

primrec send_frames :: "frame list \<Rightarrow> 's prog \<Rightarrow> 's prog \<Rightarrow> 's prog" where
  "send_frames [] broken k = k"
| "send_frames (f # fs) broken k = send_else f broken (send_frames fs broken k)"

definition delayed_request :: "clipboard_event option \<Rightarrow> 's prog \<Rightarrow> 's prog" where
  "delayed_request request k = (case request of Some r \<Rightarrow> act (DelayRequest r) k | None \<Rightarrow> k)"

text \<open>Input that is sent, one frame after the other, with what follows each.\<close>

fun send_input_frames ::
  "clipboard_config \<Rightarrow> frame list \<Rightarrow> live_clipboard \<Rightarrow> (live_clipboard \<Rightarrow> 's prog) \<Rightarrow> (live_clipboard \<Rightarrow> 's prog)
     \<Rightarrow> 's prog" where
  "send_input_frames cfg [] c broken k = k c"
| "send_input_frames cfg (f # fs) c broken k =
     send_else f (broken c)
       (case after_input_sent cfg f c of
          (request, c1) \<Rightarrow> delayed_request request (send_input_frames cfg fs c1 broken k))"

definition release_held ::
  "clipboard_config \<Rightarrow> live_clipboard \<Rightarrow> (live_clipboard \<Rightarrow> 's prog) \<Rightarrow> (live_clipboard \<Rightarrow> 's prog) \<Rightarrow> 's prog" where
  "release_held cfg c broken k =
     (case take_held_input c of (frames, c1) \<Rightarrow> send_input_frames cfg frames c1 broken k)"

definition prefer_newer_local ::
  "clipboard_library \<Rightarrow> clipboard_config \<Rightarrow> clipboard_env \<Rightarrow> clipboard_content_id \<Rightarrow> live_clipboard
     \<Rightarrow> (live_clipboard \<Rightarrow> 's prog) \<Rightarrow> (live_clipboard \<Rightarrow> 's prog) \<Rightarrow> (bool \<Rightarrow> live_clipboard \<Rightarrow> 's prog) \<Rightarrow> 's prog" where
  "prefer_newer_local lib cfg env remote_id c broken fail k =
     (case le_item env of
        None \<Rightarrow> fail c
      | Some current \<Rightarrow>
          (let current_id = map_option (item_id (cl_sha lib)) current in
           if current_id = Some remote_id then k True (c\<lparr>lc_tracker := mark_observed (lc_tracker c) current_id\<rparr>)
           else if current_id \<noteq> None \<and> \<not> is_observed (lc_tracker c) current_id
           then (case offer_item lib cfg current True c of (frames, c1) \<Rightarrow> send_frames frames (broken c1) (k True c1))
           else k False c))"

text \<open>What is written here is marked, so that it is not offered back.\<close>

definition applied :: "clipboard_env \<Rightarrow> clipboard_content_id \<Rightarrow> live_clipboard \<Rightarrow> live_clipboard" where
  "applied env remote_id c =
     c\<lparr>lc_apply_generation := lc_apply_generation c + 1, lc_tracker := mark_observed (lc_tracker c) (Some remote_id),
       lc_last_sequence := le_sequence env\<rparr>"

definition apply_remote ::
  "clipboard_library \<Rightarrow> clipboard_config \<Rightarrow> clipboard_env \<Rightarrow> clipboard_content_id \<Rightarrow> effect \<Rightarrow> live_clipboard
     \<Rightarrow> (live_clipboard \<Rightarrow> 's prog) \<Rightarrow> (live_clipboard \<Rightarrow> 's prog) \<Rightarrow> (live_clipboard \<Rightarrow> 's prog) \<Rightarrow> 's prog" where
  "apply_remote lib cfg env remote_id write c broken fail k =
     prefer_newer_local lib cfg env remote_id c broken fail
       (\<lambda>kept c1. if kept then k c1
          else act write (if le_write_ok env then k (applied env remote_id c1) else fail c1))"

definition apply_remote_text ::
  "clipboard_library \<Rightarrow> clipboard_config \<Rightarrow> clipboard_env \<Rightarrow> string \<Rightarrow> live_clipboard
     \<Rightarrow> (live_clipboard \<Rightarrow> 's prog) \<Rightarrow> (live_clipboard \<Rightarrow> 's prog) \<Rightarrow> (live_clipboard \<Rightarrow> 's prog) \<Rightarrow> 's prog" where
  "apply_remote_text lib cfg env text c broken fail k =
     apply_remote lib cfg env (item_id (cl_sha lib) (ItemText text)) (WriteText text) c broken fail k"

fun cancel_reason :: "clipboard_error \<Rightarrow> clipboard_cancel_reason" where
  "cancel_reason (EncodedTooLarge _ _) = Rejected"
| "cancel_reason (TooManyPixels _) = Rejected"
| "cancel_reason InvalidDimensions = Rejected"
| "cancel_reason _ = Invalid"

definition cancel_frame :: "u64 \<Rightarrow> clipboard_cancel_reason \<Rightarrow> frame" where
  "cancel_frame transfer_id reason = FClipboard (ImageCancel transfer_id reason)"

definition transfer_supported :: "clipboard_config \<Rightarrow> clipboard_event \<Rightarrow> live_clipboard \<Rightarrow> bool" where
  "transfer_supported cfg event c =
     (case event of
        ImageCancel _ _ \<Rightarrow> True
      | _ \<Rightarrow> if is_text_transfer event then cpf_text_chunks (lc_peer c) else sends_images cfg c)"

definition is_cancel :: "clipboard_event \<Rightarrow> bool" where
  "is_cancel event = (case event of ImageCancel _ _ \<Rightarrow> True | _ \<Rightarrow> False)"

definition handle_transfer ::
  "clipboard_library \<Rightarrow> clipboard_config \<Rightarrow> clipboard_env \<Rightarrow> clipboard_event \<Rightarrow> live_clipboard
     \<Rightarrow> (live_clipboard \<Rightarrow> 's prog) \<Rightarrow> (live_clipboard \<Rightarrow> 's prog) \<Rightarrow> (live_clipboard \<Rightarrow> 's prog) \<Rightarrow> 's prog" where
  "handle_transfer lib cfg env event c broken fail k =
     (if is_cancel event \<and> (case lc_outgoing c of Some t \<Rightarrow> Some (ot_transfer_id t) = transfer_id_of event | None \<Rightarrow> False)
      then release_held cfg (c\<lparr>lc_outgoing := None\<rparr>) broken k
      else if \<not> transfer_supported cfg event c
      then (case transfer_id_of event of
              Some transfer_id \<Rightarrow> send_else (cancel_frame transfer_id Rejected) (broken c) (k c)
            | None \<Rightarrow> k c)
      else (case handle (cl_sha lib) (cl_codec lib) (le_now env) (lc_incoming c) event
                   \<lparr>max_image_bytes = cc_max_image_bytes cfg, max_text_bytes = cc_max_bytes cfg\<rparr> of
              (Inr (Some (ItemText text)), inc) \<Rightarrow>
                apply_remote_text lib cfg env text (c\<lparr>lc_incoming := inc\<rparr>) broken fail k
            | (Inr (Some (ItemImage img)), inc) \<Rightarrow>
                apply_remote lib cfg env (ContentImage (ci_content_sha256 img)) (WriteImage img)
                  (c\<lparr>lc_incoming := inc\<rparr>) broken fail k
            | (Inr None, inc) \<Rightarrow> k (c\<lparr>lc_incoming := inc\<rparr>)
            | (Inl error, inc) \<Rightarrow>
                (let c1 = c\<lparr>lc_incoming := incoming_clear inc\<rparr> in
                 case transfer_id_of event of
                   Some transfer_id \<Rightarrow>
                     if is_cancel event then k c1
                     else send_else (cancel_frame transfer_id (cancel_reason error)) (broken c1) (k c1)
                 | None \<Rightarrow> k c1)))"

fun handle_remote_event ::
  "clipboard_library \<Rightarrow> clipboard_config \<Rightarrow> clipboard_env \<Rightarrow> clipboard_event \<Rightarrow> live_clipboard
     \<Rightarrow> (live_clipboard \<Rightarrow> 's prog) \<Rightarrow> (live_clipboard \<Rightarrow> 's prog) \<Rightarrow> (live_clipboard \<Rightarrow> 's prog) \<Rightarrow> 's prog" where
  "handle_remote_event lib cfg env event c broken fail k =
     (if \<not> cc_enabled cfg then k c
      else (case event of
              TextOffer _ text \<Rightarrow> apply_remote_text lib cfg env text c broken fail k
            | TextRequest \<Rightarrow>
                (case le_text env of
                   None \<Rightarrow> fail c
                 | Some None \<Rightarrow> k c
                 | Some (Some text) \<Rightarrow>
                     (case offer_item lib cfg (Some (ItemText text)) True c of
                        (frames, c1) \<Rightarrow> send_frames frames (broken c1) (k c1)))
            | ContentRequest \<Rightarrow>
                (case le_item env of
                   None \<Rightarrow> fail c
                 | Some current \<Rightarrow>
                     (case offer_item lib cfg current True c of
                        (frames, c1) \<Rightarrow> send_frames frames (broken c1) (k c1)))
            | _ \<Rightarrow> handle_transfer lib cfg env event c broken fail k))"

definition send_chunk ::
  "clipboard_config \<Rightarrow> live_clipboard \<Rightarrow> (live_clipboard \<Rightarrow> 's prog) \<Rightarrow> (live_clipboard \<Rightarrow> 's prog) \<Rightarrow> 's prog" where
  "send_chunk cfg c broken k =
     (case next_image_frame c of
        (None, c1) \<Rightarrow> k c1
      | (Some (f, completed), c1) \<Rightarrow>
          send_else f (broken c1) (if completed then release_held cfg c1 broken k else k c1))"

definition send_tick ::
  "clipboard_config \<Rightarrow> clipboard_env \<Rightarrow> live_clipboard \<Rightarrow> (live_clipboard \<Rightarrow> 's prog) \<Rightarrow> (live_clipboard \<Rightarrow> 's prog)
     \<Rightarrow> 's prog" where
  "send_tick cfg env c broken k =
     (if \<not> needs_send_tick c then k c
      else if paste_barrier_expired (le_now env) c
      then (case cancel_expired_paste_barrier c of
              (Some cancel, c1) \<Rightarrow> send_else cancel (broken c1) (release_held cfg c1 broken k)
            | (None, c1) \<Rightarrow> release_held cfg c1 broken k)
      else send_chunk cfg c broken k)"

section \<open>The clipboard's part of a session\<close>

text \<open>\<open>ClipExpire\<close> is the watchdog's look for a transfer that came to a halt.\<close>

datatype clip_event =
    ClipInput frame
  | ClipRemote clipboard_event
  | ClipPoll
  | ClipRead "clipboard_item option option"
  | ClipBulk
  | ClipTick
  | ClipExpire

definition read_arm ::
  "clipboard_library \<Rightarrow> clipboard_config \<Rightarrow> clipboard_item option option \<Rightarrow> live_clipboard
     \<Rightarrow> (live_clipboard \<Rightarrow> 's prog) \<Rightarrow> (live_clipboard \<Rightarrow> 's prog) \<Rightarrow> 's prog" where
  "read_arm lib cfg result c broken k =
     (case finished_local_read c of
        (None, c1) \<Rightarrow> k c1
      | (Some finished, c1) \<Rightarrow>
          (case complete_local_read lib cfg finished result c1 of
             (frames, c2) \<Rightarrow> send_frames frames (broken c2) (k c2)))"

definition expire_arm ::
  "clipboard_env \<Rightarrow> live_clipboard \<Rightarrow> (live_clipboard \<Rightarrow> 's prog) \<Rightarrow> (live_clipboard \<Rightarrow> 's prog) \<Rightarrow> 's prog" where
  "expire_arm env c broken k =
     (case expire_transfer_id (le_now env) (lc_incoming c) of
        (Some transfer_id, inc) \<Rightarrow>
          (let c1 = c\<lparr>lc_incoming := inc\<rparr> in send_else (cancel_frame transfer_id TimedOut) (broken c1) (k c1))
      | (None, inc) \<Rightarrow> k (c\<lparr>lc_incoming := inc\<rparr>))"

definition input_arm ::
  "clipboard_library \<Rightarrow> clipboard_config \<Rightarrow> clipboard_env \<Rightarrow> frame \<Rightarrow> live_clipboard
     \<Rightarrow> (live_clipboard \<Rightarrow> 's prog) \<Rightarrow> (live_clipboard \<Rightarrow> 's prog) \<Rightarrow> 's prog" where
  "input_arm lib cfg env f c broken k =
     (case prepare_input lib cfg env f c of (frames, c1) \<Rightarrow> send_input_frames cfg frames c1 broken k)"

fun clip_program ::
  "clipboard_library \<Rightarrow> clipboard_config \<Rightarrow> clipboard_env \<Rightarrow> clip_event \<Rightarrow> live_clipboard
     \<Rightarrow> (live_clipboard \<Rightarrow> 's prog) \<Rightarrow> (live_clipboard \<Rightarrow> 's prog) \<Rightarrow> (live_clipboard \<Rightarrow> 's prog) \<Rightarrow> 's prog" where
  "clip_program lib cfg env (ClipInput f) c broken fail k = input_arm lib cfg env f c broken k"
| "clip_program lib cfg env (ClipRemote event) c broken fail k =
     handle_remote_event lib cfg env event c broken fail k"
| "clip_program lib cfg env ClipPoll c broken fail k = k (poll_local_change cfg env c)"
| "clip_program lib cfg env (ClipRead result) c broken fail k = read_arm lib cfg result c broken k"
| "clip_program lib cfg env ClipBulk c broken fail k = send_chunk cfg c broken k"
| "clip_program lib cfg env ClipTick c broken fail k = send_tick cfg env c broken k"
| "clip_program lib cfg env ClipExpire c broken fail k = expire_arm env c broken k"

text \<open>A session of the clipboard alone; a broken connection ends it.\<close>

type_synonym clip_input = "clipboard_config \<times> clipboard_env \<times> nat \<times> clip_event"

definition clip_step ::
  "clipboard_library \<Rightarrow> live_clipboard \<Rightarrow> clip_input \<Rightarrow> live_clipboard session_outcome \<times> effect list" where
  "clip_step lib c i =
     (case i of (cfg, env, writes, event) \<Rightarrow>
        clip_program lib cfg env event c (\<lambda>c1. stop (ExitFault ConnectionFailed)) ret ret writes)"

definition clip_run ::
  "clipboard_library \<Rightarrow> live_clipboard \<Rightarrow> clip_input list \<Rightarrow> live_clipboard session_outcome \<times> effect list" where
  "clip_run lib = loop_run (clip_step lib)"

end
