(* ===== verification/PasteBarrier.thy ===== *)
theory PasteBarrier
  imports LiveClipboard ClipboardTransfer
begin

text \<open>
  What holds of the Windows controller's clipboard: input keeps its order behind a held paste, a held paste is let go
  within five seconds, and a paste goes out only after what it pastes.
\<close>

section \<open>Input that has passed\<close>

definition ordered :: "frame \<Rightarrow> bool" where
  "ordered f = (case f of FInput _ \<Rightarrow> \<not> is_motion f | FControl _ \<Rightarrow> True | _ \<Rightarrow> False)"

fun sent_ordered :: "effect \<Rightarrow> frame list" where
  "sent_ordered (Send f) = (if ordered f then [f] else [])"
| "sent_ordered _ = []"

definition passed :: "effect list \<Rightarrow> frame list" where
  "passed acts = concat (map sent_ordered acts)"

lemma passed_simps [simp]:
  "passed [] = []" "passed (a # acts) = sent_ordered a @ passed acts" "passed (xs @ ys) = passed xs @ passed ys"
  by (simp_all add: passed_def)

lemma ordered_simps [simp]:
  "\<not> ordered (FClipboard e)" "ordered (FControl x)" "is_motion f \<Longrightarrow> \<not> ordered f"
  by (auto simp: ordered_def is_motion_def split: frame.split)

fun accepted_frame :: "clip_event \<Rightarrow> frame list" where
  "accepted_frame (ClipInput f) = [f]"
| "accepted_frame _ = []"

definition accepted :: "clip_input list \<Rightarrow> frame list" where
  "accepted is = concat (map (\<lambda>(cfg, env, writes, event). accepted_frame event) is)"

section \<open>What the operations send and keep\<close>

text \<open>Offers are clipboard frames, and touch neither the barrier nor what it holds.\<close>

definition clip_frames :: "frame list \<Rightarrow> bool" where
  "clip_frames fs = list_all (\<lambda>f. \<exists>e. f = FClipboard e) fs"

lemma clip_frames_simps [simp]:
  "clip_frames []" "clip_frames (f # fs) \<longleftrightarrow> (\<exists>e. f = FClipboard e) \<and> clip_frames fs"
  "clip_frames (xs @ ys) \<longleftrightarrow> clip_frames xs \<and> clip_frames ys"
  by (simp_all add: clip_frames_def)

lemma clip_frames_replace [simp]: "clip_frames (replace_outgoing c)"
  by (simp add: replace_outgoing_def split: option.split)

definition barrier :: "live_clipboard \<Rightarrow> frame list \<times> instant option" where
  "barrier c = (lc_held c, lc_deadline c)"

lemma barrier_updates [simp]:
  "barrier (c\<lparr>lc_ctrl_down := b\<rparr>) = barrier c" "barrier (c\<lparr>lc_tracker := x1\<rparr>) = barrier c"
  "barrier (c\<lparr>lc_last_sequence := x2\<rparr>) = barrier c" "barrier (c\<lparr>lc_outgoing := x3\<rparr>) = barrier c"
  "barrier (c\<lparr>lc_incoming := x4\<rparr>) = barrier c" "barrier (c\<lparr>lc_next_transfer_id := x5\<rparr>) = barrier c"
  "barrier (c\<lparr>lc_apply_generation := x6\<rparr>) = barrier c" "barrier (c\<lparr>lc_pending_read := x7\<rparr>) = barrier c"
  "barrier (c\<lparr>lc_outgoing_image_id := x8\<rparr>) = barrier c" "barrier (c\<lparr>lc_last_sent_image_id := x9\<rparr>) = barrier c"
  by (simp_all add: barrier_def)

lemma offer_item_clip:
  assumes "offer_item lib cfg current force c = (frames, c1)"
  shows "clip_frames frames" "barrier c1 = barrier c" "lc_peer c1 = lc_peer c" "lc_ctrl_down c1 = lc_ctrl_down c"
    "lc_last_sent_image_id c1 = lc_last_sent_image_id c"
  using assms
  by (auto simp: offer_item_def push_text_offer_def Let_def
      split: option.splits prod.splits clipboard_item.splits if_splits)

lemma complete_local_read_clip:
  assumes "complete_local_read lib cfg finished result c = (frames, c1)"
  shows "clip_frames frames" "barrier c1 = barrier c"
  using assms offer_item_clip
  by (auto simp: complete_local_read_def split: if_splits option.splits prod.splits)

lemma next_image_frame_clip:
  assumes "next_image_frame c = (r, c1)"
  shows "barrier c1 = barrier c" "r = Some (f, b) \<Longrightarrow> \<exists>e. f = FClipboard e"
  using assms by (auto simp: next_image_frame_def Let_def split: option.splits prod.splits if_splits)

lemma after_input_sent_barrier: "barrier (snd (after_input_sent cfg f c)) = barrier c"
  by (simp add: after_input_sent_def split: option.split input_event.split)

section \<open>Weakest preconditions over what has passed\<close>

text \<open>The barrier holds input only while it has a deadline, which lies no further than the bound.\<close>

definition barrier_ok :: "instant \<Rightarrow> live_clipboard \<Rightarrow> bool" where
  "barrier_ok bound c \<longleftrightarrow> (lc_deadline c = None \<longrightarrow> lc_held c = []) \<and>
     (\<forall>d. lc_deadline c = Some d \<longrightarrow> d \<le> bound + CLIPBOARD_PASTE_BARRIER_TIMEOUT)"

lemma barrier_ok_cong: "barrier c1 = barrier c \<Longrightarrow> barrier_ok bound c1 = barrier_ok bound c"
  by (simp add: barrier_ok_def barrier_def)

definition keeps :: "instant \<Rightarrow> frame list \<Rightarrow> live_clipboard \<Rightarrow> effect list \<Rightarrow> bool" where
  "keeps bound all c acts \<longleftrightarrow> barrier_ok bound c \<and> passed acts @ filter ordered (lc_held c) = all"

lemma keeps_same: "barrier c1 = barrier c \<Longrightarrow> keeps bound all c acts \<Longrightarrow> keeps bound all c1 acts"
  by (auto simp: keeps_def barrier_def barrier_ok_def)

abbreviation broken :: "live_clipboard \<Rightarrow> live_clipboard prog" where
  "broken \<equiv> \<lambda>c. stop (ExitFault ConnectionFailed)"

lemma wp_clip_send:
  assumes "wp (keeps bound all) k"
  shows "wp (keeps bound all) (send_else (FClipboard e) (stop x) k)"
proof (rule wp_send_else)
  have "(\<lambda>s acts. keeps bound all s (Send (FClipboard e) # acts)) = keeps bound all"
    by (simp add: keeps_def fun_eq_iff)
  then show "wp (\<lambda>s acts. keeps bound all s (Send (FClipboard e) # acts)) k"
    using assms by simp
qed simp

lemma wp_send_frames:
  assumes "wp (keeps bound all) k" "clip_frames fs"
  shows "wp (keeps bound all) (send_frames fs (stop x) k)"
  using assms(2) by (induction fs) (use assms(1) wp_clip_send in auto)

lemma wp_act_keeps:
  assumes "wp (keeps bound all) k" "sent_ordered a = []"
  shows "wp (keeps bound all) (act a k)"
proof -
  have "(\<lambda>s acts. keeps bound all s (a # acts)) = keeps bound all"
    using assms(2) by (simp add: keeps_def fun_eq_iff)
  then show ?thesis
    using assms(1) by simp
qed

lemma wp_send_input_frames:
  assumes "\<And>c1. barrier c1 = barrier c \<Longrightarrow> wp (keeps bound all) (k c1)"
  shows "wp (keeps bound (filter ordered fs @ all)) (send_input_frames cfg fs c broken k)"
  using assms
proof (induction fs arbitrary: c)
  case Nil
  then show ?case by simp
next
  case (Cons f fs)
  obtain request c1 where sent: "after_input_sent cfg f c = (request, c1)"
    by fastforce
  have "barrier c1 = barrier c"
    using after_input_sent_barrier [of cfg f c] sent by simp
  then have rest: "wp (keeps bound (filter ordered fs @ all)) (send_input_frames cfg fs c1 broken k)"
    using Cons by simp
  have "wp (keeps bound (filter ordered fs @ all)) (delayed_request request (send_input_frames cfg fs c1 broken k))"
    unfolding delayed_request_def using rest wp_act_keeps [OF rest, of "DelayRequest _"]
    by (cases request) auto
  moreover have "(\<lambda>s acts. keeps bound (filter ordered (f # fs) @ all) s (Send f # acts)) = keeps bound (filter ordered fs @ all)"
    by (auto simp: keeps_def fun_eq_iff)
  ultimately show ?case
    using sent by simp
qed


lemma keeps_start [simp]: "barrier_ok bound c \<Longrightarrow> keeps bound (filter ordered (lc_held c)) c []"
  by (simp add: keeps_def)

lemma wp_release_held: "wp (keeps bound (filter ordered (lc_held c))) (release_held cfg c broken ret)"
proof -
  have "wp (keeps bound (filter ordered (lc_held c) @ []))
      (send_input_frames cfg (lc_held c) (c\<lparr>lc_held := [], lc_deadline := None\<rparr>) broken ret)"
    by (rule wp_send_input_frames) (simp add: keeps_def barrier_ok_def barrier_def)
  then show ?thesis
    by (simp add: release_held_def take_held_input_def)
qed

text \<open>From here on an operation starts from a state with what is held, and leaves one that agrees with it.\<close>

definition conserves :: "instant \<Rightarrow> live_clipboard \<Rightarrow> live_clipboard prog \<Rightarrow> bool" where
  "conserves bound c k \<longleftrightarrow> (barrier_ok bound c \<longrightarrow> wp (keeps bound (filter ordered (lc_held c))) k)"

lemma conserves_ret [simp]: "barrier c1 = barrier c \<Longrightarrow> conserves bound c (ret c1)"
  by (auto simp: conserves_def keeps_def barrier_def barrier_ok_def)

lemma conserves_send [simp]: "conserves bound c k \<Longrightarrow> conserves bound c (send_else (FClipboard e) (stop x) k)"
  by (simp add: conserves_def wp_clip_send)

lemma conserves_send_frames [simp]:
  "conserves bound c k \<Longrightarrow> clip_frames fs \<Longrightarrow> conserves bound c (send_frames fs (stop x) k)"
  by (simp add: conserves_def wp_send_frames)

lemma conserves_act [simp]: "conserves bound c k \<Longrightarrow> sent_ordered a = [] \<Longrightarrow> conserves bound c (act a k)"
  by (simp add: conserves_def wp_act_keeps del: wp_simps)

lemma conserves_release [simp]: "barrier c1 = barrier c \<Longrightarrow> conserves bound c (release_held cfg c1 broken ret)"
  using wp_release_held [of bound c1 cfg] by (simp add: conserves_def barrier_def)

lemma conserves_chunk: "conserves bound c (send_chunk cfg c broken ret)"
proof -
  obtain r c1 where next_one: "next_image_frame c = (r, c1)"
    by fastforce
  show ?thesis
  proof (cases r)
    case None
    then show ?thesis
      using next_image_frame_clip(1) [OF next_one] next_one by (simp add: send_chunk_def)
  next
    case (Some x)
    then obtain e b where "r = Some (FClipboard e, b)"
      using next_image_frame_clip(2) [OF next_one] by (cases x) auto
    then show ?thesis
      using next_image_frame_clip(1) [OF next_one] next_one by (simp add: send_chunk_def)
  qed
qed

lemma barrier_cancelled:
  assumes "cancel_expired_paste_barrier c = (r, c1)"
  shows "lc_held c1 = lc_held c" "r = Some f \<Longrightarrow> \<exists>e. f = FClipboard e"
  using assms by (auto simp: cancel_expired_paste_barrier_def)

lemma conserves_tick: "conserves bound c (send_tick cfg env c broken ret)"
proof -
  obtain r c1 where cancelled: "cancel_expired_paste_barrier c = (r, c1)"
    by fastforce
  have "conserves bound c (release_held cfg c1 broken ret)"
    using wp_release_held [of bound c1 cfg] barrier_cancelled(1) [OF cancelled] by (simp add: conserves_def)
  then show ?thesis
    using conserves_chunk barrier_cancelled(2) [OF cancelled]
    by (auto simp: send_tick_def cancelled split: option.split)
qed

lemma conserves_remote [simp]:
  assumes "barrier c1 = barrier c" "sent_ordered write = []"
  shows "conserves bound c (apply_remote lib cfg env remote_id write c1 broken ret ret)"
proof -
  have "clip_frames frames \<and> barrier c2 = barrier c" if "offer_item lib cfg current True c1 = (frames, c2)" for current frames c2
    using offer_item_clip(1,2) [OF that] assms(1) by simp
  then show ?thesis
    using assms
    by (auto simp: apply_remote_def prefer_newer_local_def applied_def Let_def split: option.split prod.split)
qed

lemma conserves_transfer: "conserves bound c (handle_transfer lib cfg env event c broken ret ret)"
  by (simp add: handle_transfer_def apply_remote_text_def cancel_frame_def Let_def
      split: option.split prod.split sum.split clipboard_item.split)

lemma conserves_remote_event: "conserves bound c (handle_remote_event lib cfg env event c broken ret ret)"
proof -
  have offers: "conserves bound c (case offer_item lib cfg current True c of
      (frames, c1) \<Rightarrow> send_frames frames (broken c1) (ret c1))" for current
    using offer_item_clip(1,2) [of lib cfg current True c] by (auto split: prod.split)
  show ?thesis
    using conserves_transfer offers
    by (cases event) (auto simp: apply_remote_text_def split: option.split)
qed

lemma conserves_read: "conserves bound c (read_arm lib cfg result c broken ret)"
  using complete_local_read_clip
  by (fastforce simp: read_arm_def finished_local_read_def split: option.split prod.split)

lemma conserves_expire: "conserves bound c (expire_arm env c broken ret)"
  by (simp add: expire_arm_def cancel_frame_def Let_def split: prod.split option.split)


section \<open>Input\<close>

text \<open>A paste goes out behind what it pastes, or is held.\<close>

lemma clip_frames_ordered [simp]: "clip_frames fs \<Longrightarrow> filter ordered fs = []"
  by (induction fs) auto

lemma prepare_paste_cases:
  assumes "prepare_paste lib cfg env f c = (frames, c1)"
  obtains (sent) pre where "frames = pre @ [f]" "clip_frames pre" "barrier c1 = barrier c"
  | (held) c2 where "clip_frames frames" "barrier c2 = barrier c" "c1 = hold_paste env f c2"
proof -
  have offer: thesis
    if "le_item env = Some current" "offer_item lib cfg current True c = (fs, c2)"
      "frames = fs @ [f] \<and> c1 = c2 \<or> frames = fs \<and> c1 = hold_paste env f c2" for current fs c2
    using that offer_item_clip(1,2) [OF that(2)] sent held by blast
  have waits: thesis if "frames = []" "c1 = hold_paste env f c"
    using that held [of c] by simp
  have at_once: thesis if "frames = [f]" "c1 = c"
    using that sent [of "[]"] by simp
  show thesis
    using assms offer waits at_once
    by (auto simp: prepare_paste_def Let_def split: option.splits clipboard_item.splits prod.splits if_splits)
qed

lemma prepare_input_keeps:
  assumes "barrier_ok bound c" "le_now env \<le> bound" "prepare_input lib cfg env f c = (frames, c1)"
  shows "filter ordered frames @ filter ordered (lc_held c1) = filter ordered (lc_held c @ [f])" "barrier_ok bound c1"
proof -
  have "filter ordered frames @ filter ordered (lc_held c1) = filter ordered (lc_held c @ [f]) \<and> barrier_ok bound c1"
  proof (cases "lc_deadline c = None \<and> cc_enabled cfg \<and> is_paste f \<and> lc_ctrl_down c")
    case True
    then have paste: "prepare_paste lib cfg env f c = (frames, c1)" and held: "lc_held c = []"
      using assms(1,3) by (auto simp: prepare_input_def barrier_ok_def)
    from paste show ?thesis
    proof (cases rule: prepare_paste_cases)
      case (sent pre)
      then show ?thesis
        using True held assms(1) barrier_ok_cong [of c1 c] by (auto simp: barrier_def)
    next
      case (held c2)
      then show ?thesis
        using \<open>lc_held c = []\<close> assms(2) by (auto simp: hold_paste_def barrier_def barrier_ok_def)
    qed
  next
    case False
    then show ?thesis
      using assms by (auto simp: prepare_input_def barrier_ok_def split: if_splits)
  qed
  then show "filter ordered frames @ filter ordered (lc_held c1) = filter ordered (lc_held c @ [f])" "barrier_ok bound c1"
    by simp_all
qed

lemma wp_input_arm:
  assumes "barrier_ok bound c" "le_now env \<le> bound"
  shows "wp (keeps bound (filter ordered (lc_held c @ [f]))) (input_arm lib cfg env f c broken ret)"
proof -
  obtain frames c1 where prepared: "prepare_input lib cfg env f c = (frames, c1)"
    by fastforce
  have "wp (keeps bound (filter ordered frames @ filter ordered (lc_held c1)))
      (send_input_frames cfg frames c1 broken ret)"
    by (rule wp_send_input_frames)
      (use prepare_input_keeps(2) [OF assms prepared] in \<open>auto simp: keeps_def barrier_def barrier_ok_def\<close>)
  then show ?thesis
    using prepare_input_keeps(1) [OF assms prepared] prepared by (simp add: input_arm_def)
qed

lemma wp_clip_program:
  assumes "barrier_ok bound c" "le_now env \<le> bound"
  shows "wp (keeps bound (filter ordered (lc_held c @ accepted_frame event)))
    (clip_program lib cfg env event c broken ret ret)"
proof (cases event)
  case (ClipInput f)
  then show ?thesis
    using wp_input_arm [OF assms] by simp
next
  case ClipPoll
  then show ?thesis
    using assms by (simp add: poll_local_change_def keeps_def barrier_ok_def)
qed (use assms conserves_remote_event conserves_read conserves_chunk conserves_tick conserves_expire
    in \<open>simp_all add: conserves_def\<close>)

section \<open>Runs\<close>

lemma clip_step_keeps:
  assumes "clip_step lib c (cfg, env, writes, event) = (Continue c1, acts)" "barrier_ok bound c" "le_now env \<le> bound"
  shows "barrier_ok bound c1 \<and>
    passed acts @ filter ordered (lc_held c1) = filter ordered (lc_held c @ accepted_frame event)"
  using wp_clip_program [OF assms(2,3), of event lib cfg] assms(1)
  by (fastforce simp: wp_def clip_step_def keeps_def split: prod.splits session_outcome.splits)

lemma clip_run_keeps:
  assumes "clip_run lib c is = (Continue c1, acts)" "barrier_ok bound c" "\<forall>i\<in>set is. le_now (fst (snd i)) \<le> bound"
  shows "barrier_ok bound c1 \<and> passed acts @ filter ordered (lc_held c1) = filter ordered (lc_held c @ accepted is)"
  using assms
proof (induction "is" arbitrary: c acts)
  case Nil
  then show ?case
    by (simp add: clip_run_def accepted_def)
next
  case (Cons i "is")
  obtain cfg env writes event where i: "i = (cfg, env, writes, event)"
    by (metis prod_cases4)
  obtain c2 acts1 acts2 where steps: "clip_step lib c i = (Continue c2, acts1)"
    "clip_run lib c2 is = (Continue c1, acts2)" "acts = acts1 @ acts2"
    using Cons.prems(1) unfolding clip_run_def by (rule loop_run_Cons)
  have one: "barrier_ok bound c2"
    "passed acts1 @ filter ordered (lc_held c2) = filter ordered (lc_held c @ accepted_frame event)"
    using clip_step_keeps [of lib c cfg env writes event c2 acts1 bound] steps(1) i Cons.prems(2,3) by auto
  then have "barrier_ok bound c1 \<and> passed acts2 @ filter ordered (lc_held c1) = filter ordered (lc_held c2 @ accepted is)"
    using Cons.IH [OF steps(2)] Cons.prems(3) by simp
  then show ?case
    using one(2) steps(3) by (simp add: i accepted_def)
qed

lemma live_new_ok [simp]: "barrier_ok bound (live_new lib cfg env peer)" "lc_held (live_new lib cfg env peer) = []"
  by (simp_all add: live_new_def barrier_ok_def)


section \<open>An example\<close>

text \<open>An image is copied, and pasted with the keys that follow.\<close>

definition demo_library :: clipboard_library where
  "demo_library = \<lparr>cl_enc = (\<lambda>f. Some []), cl_sha = (\<lambda>b. []), cl_codec = raw_codec\<rparr>"

definition demo_config :: clipboard_config where
  "demo_config = \<lparr>cc_enabled = True, cc_images_enabled = True, cc_max_bytes = 1000, cc_max_image_bytes = 1000\<rparr>"

definition demo_image :: canonical_image where
  "demo_image = \<lparr>ci_width = 1, ci_height = 1, ci_rgba = [0, 0, 0, 0], ci_png = [0, 0, 0, 0], ci_content_sha256 = [1]\<rparr>"

definition demo_env :: "instant \<Rightarrow> clipboard_item option \<Rightarrow> clipboard_env" where
  "demo_env now item = \<lparr>le_now = now, le_item = Some item, le_text = None, le_write_ok = True, le_sequence = 1\<rparr>"

definition demo_key :: "u16 \<Rightarrow> bool \<Rightarrow> frame" where
  "demo_key code down = frame_input 1 (Key code down)"

definition demo_start :: live_clipboard where
  "demo_start = live_new demo_library demo_config (demo_env 0 None) \<lparr>cpf_images = True, cpf_text_chunks = True\<rparr>"

definition demo_typing :: "clip_input list" where
  "demo_typing =
     map (\<lambda>f. (demo_config, demo_env 1 (Some (ItemImage demo_image)), 9, ClipInput f))
       [demo_key 29 True, demo_key 47 True, demo_key 47 False, demo_key 30 True]"

lemmas demo_defs = demo_library_def demo_config_def demo_image_def demo_env_def demo_key_def demo_start_def
  demo_typing_def live_new_def clip_run_def clip_step_def input_arm_def prepare_input_def prepare_paste_def
  is_motion_def is_paste_def frame_input_def offer_item_def offer_current_def sends_images_def replace_outgoing_def
  after_input_sent_def delayed_request_def hold_paste_def tracker_new_def send_else_def act_def ret_def Let_def

lemma demo_run:
  "\<exists>c acts. clip_run demo_library demo_start demo_typing = (Continue c, acts) \<and>
     lc_held c = [demo_key 47 True, demo_key 47 False, demo_key 30 True]"
  by (simp add: demo_defs)


lemma outgoing_text_is_text [simp]: "outgoing_is_text (outgoing_text sha transfer_id sequence text)"
  by (simp add: outgoing_is_text_def outgoing_text_def with_payload_def Let_def)

section \<open>Properties\<close>

text \<open>Input keeps its order across a held paste. Whatever happens to the clipboard during a session, the keys,
  buttons, wheel turns and control frames that have been sent, followed by those held back, are exactly those taken
  from the capture, in the order they were taken: none is lost, sent twice or overtaken. Only the motion of the
  pointer passes a held paste.\<close>

theorem paste_barrier_keeps_order:
  assumes "clip_run lib (live_new lib cfg env peer) is = (Continue c, acts)"
  shows "passed acts @ filter ordered (lc_held c) = filter ordered (accepted is)"
proof -
  obtain bound where "\<forall>i\<in>set is. le_now (fst (snd i)) \<le> bound"
    by (rule that [of "Max ((\<lambda>i. le_now (fst (snd i))) ` set is)"]) simp
  then show ?thesis
    using clip_run_keeps [OF assms live_new_ok(1)] by simp
qed

theorem paste_barrier_keeps_order_witness:
  "\<exists>c acts. clip_run demo_library demo_start demo_typing = (Continue c, acts) \<and>
     passed acts @ filter ordered (lc_held c) =
       [demo_key 29 True, demo_key 47 True, demo_key 47 False, demo_key 30 True]"
proof -
  obtain c acts where run: "clip_run demo_library demo_start demo_typing = (Continue c, acts)"
    using demo_run by blast
  have "filter ordered (accepted demo_typing) =
      [demo_key 29 True, demo_key 47 True, demo_key 47 False, demo_key 30 True]"
    by (simp add: demo_typing_def accepted_def ordered_def demo_key_def frame_input_def is_motion_def)
  then show ?thesis
    using paste_barrier_keeps_order [OF run [unfolded demo_start_def]] run by simp
qed

text \<open>The tick that finds the deadline passed lets everything go, given that the connection takes it.\<close>

lemma send_input_frames_takes:
  "\<exists>b acts. send_input_frames cfg fs c broken ret (length fs + w) = (Continue (c\<lparr>lc_ctrl_down := b\<rparr>), acts) \<and>
     passed acts = filter ordered fs"
proof (induction fs arbitrary: c)
  case Nil
  have "c\<lparr>lc_ctrl_down := lc_ctrl_down c\<rparr> = c"
    by simp
  then show ?case
    by (metis send_input_frames.simps(1) ret_def passed_simps(1) filter.simps(1))
next
  case (Cons f fs)
  obtain request c1 where sent: "after_input_sent cfg f c = (request, c1)"
    by fastforce
  then obtain b where "c1 = c\<lparr>lc_ctrl_down := b\<rparr>"
    by (auto simp: after_input_sent_def split: option.splits input_event.splits if_splits
        intro: that [of "lc_ctrl_down c"])
  then show ?case
    using Cons.IH [of c1] sent by (cases request) (auto simp: send_else_def act_def delayed_request_def)
qed

lemma expired_tick:
  assumes "lc_deadline c = Some d" "d \<le> le_now env"
  shows "\<exists>c1 acts. clip_step lib c (cfg, env, Suc (length (lc_held c)) + w, ClipTick) = (Continue c1, acts) \<and>
    lc_held c1 = [] \<and> lc_deadline c1 = None \<and> passed acts = filter ordered (lc_held c)"
proof -
  let ?c = "c\<lparr>lc_deadline := None, lc_outgoing_image_id := None, lc_outgoing := None\<rparr>"
  obtain b acts where sent: "send_input_frames cfg (lc_held c) (?c\<lparr>lc_held := [], lc_deadline := None\<rparr>) broken ret
      (length (lc_held c) + v) = (Continue (?c\<lparr>lc_held := [], lc_deadline := None, lc_ctrl_down := b v\<rparr>), acts v) \<and>
      passed (acts v) = filter ordered (lc_held c)" for v
    using send_input_frames_takes [of cfg "lc_held c" "?c\<lparr>lc_held := [], lc_deadline := None\<rparr>"] by metis
  show ?thesis
    using assms sent [of w] sent [of "Suc w"]
    by (cases "lc_outgoing c")
      (simp_all add: clip_step_def send_tick_def needs_send_tick_def paste_barrier_expired_def
        cancel_expired_paste_barrier_def release_held_def take_held_input_def send_else_def act_def)
qed

text \<open>C37: A held paste is let go. Whenever input is held back there is a deadline, at most five seconds after the
  last event so far, the tick that looks at it is enabled, and at the first tick after the deadline all that is held is
  sent in order and the barrier is gone, as long as the connection takes it.\<close>

theorem paste_barrier_ends:
  assumes "clip_run lib (live_new lib cfg env peer) is = (Continue c, acts)" "lc_held c \<noteq> []"
    "\<forall>i\<in>set is. le_now (fst (snd i)) \<le> bound"
  shows "\<exists>d. d \<le> bound + from_secs 5 \<and> needs_send_tick c \<and>
    (\<forall>cfg env w. d \<le> le_now env \<longrightarrow>
      (\<exists>c1 acts. clip_step lib c (cfg, env, Suc (length (lc_held c)) + w, ClipTick) = (Continue c1, acts) \<and>
         lc_held c1 = [] \<and> lc_deadline c1 = None \<and> passed acts = filter ordered (lc_held c)))"
proof -
  have "barrier_ok bound c"
    using clip_run_keeps [OF assms(1) live_new_ok(1) assms(3)] by simp
  then obtain d where "lc_deadline c = Some d" "d \<le> bound + from_secs 5"
    using assms(2) by (auto simp: barrier_ok_def CLIPBOARD_PASTE_BARRIER_TIMEOUT_def)
  then show ?thesis
    using expired_tick by (intro exI [of _ d]) (simp add: needs_send_tick_def)
qed

theorem paste_barrier_ends_witness:
  "\<exists>c acts d. clip_run demo_library demo_start demo_typing = (Continue c, acts) \<and> d \<le> 1 + from_secs 5 \<and>
     (\<exists>c1 acts1. clip_step demo_library c (demo_config, demo_env d None, Suc (length (lc_held c)) + 7, ClipTick) =
        (Continue c1, acts1) \<and> lc_held c1 = [] \<and> length (passed acts1) = length (filter ordered (lc_held c)))"
proof -
  obtain c acts where run: "clip_run demo_library demo_start demo_typing = (Continue c, acts)" and held: "lc_held c \<noteq> []"
    using demo_run by auto
  have "\<forall>i\<in>set demo_typing. le_now (fst (snd i)) \<le> 1"
    by (simp add: demo_typing_def demo_env_def)
  from paste_barrier_ends [OF run [unfolded demo_start_def] held this]
  obtain d where d: "d \<le> 1 + from_secs 5" "\<And>cfg env w. d \<le> le_now env \<Longrightarrow>
      \<exists>c1 acts. clip_step demo_library c (cfg, env, Suc (length (lc_held c)) + w, ClipTick) = (Continue c1, acts) \<and>
         lc_held c1 = [] \<and> lc_deadline c1 = None \<and> passed acts = filter ordered (lc_held c)"
    by blast
  have "d \<le> le_now (demo_env d None)"
    by (simp add: demo_env_def)
  then show ?thesis
    using run d(1) d(2) [of "demo_env d None" demo_config 7] by metis
qed


section \<open>What a paste waits for\<close>

lemma completed_event:
  assumes "next_event t = (Some e, t1)"
  shows "(case e of ImageEnd _ \<Rightarrow> True | TextEnd _ \<Rightarrow> True | _ \<Rightarrow> False) = (transfer_events t1 = [])"
proof (cases "ot_stage t")
  case StageStart
  then show ?thesis
    using assms by (auto simp: next_event_def start_event_def events_nonempty Let_def split: outgoing_payload.splits)
next
  case StageChunks
  then show ?thesis
    using assms by (auto simp: next_event_def end_event_def chunk_event_def events_nonempty events_done Let_def
        split: outgoing_payload.splits if_splits)
next
  case StageEnd
  then show ?thesis
    using assms by (auto simp: next_event_def end_event_def events_done split: outgoing_payload.splits)
next
  case StageDone
  then show ?thesis
    using assms by (simp add: next_event_def)
qed

lemma after_paste_sent [simp]: "is_paste f \<Longrightarrow> after_input_sent cfg f c = (None, c)"
  by (simp add: is_paste_def after_input_sent_def)

abbreviation tick :: "clipboard_config \<Rightarrow> nat \<Rightarrow> clipboard_env \<Rightarrow> clip_input" where
  "tick cfg w env \<equiv> (cfg, env, w, ClipTick)"

lemma idle_ticks:
  "lc_outgoing c = None \<Longrightarrow> lc_deadline c = None \<Longrightarrow> clip_run lib c (map (tick cfg w) envs) = (Continue c, [])"
  by (induction envs) (simp_all add: clip_run_def clip_step_def send_tick_def needs_send_tick_def ret_def)

text \<open>One tick before the deadline: the next event of the transfer, and behind the last one the paste.\<close>

lemma transfer_tick:
  assumes "lc_outgoing c = Some t" "lc_held c = [f]" "lc_deadline c = Some d" "le_now env < d" "is_paste f"
    and "next_event t = (Some e, t1)" "2 \<le> w"
  shows "\<exists>c1. clip_step lib c (tick cfg w env) =
      (Continue c1, if transfer_events t1 = [] then [Send (FClipboard e), Send f] else [Send (FClipboard e)]) \<and>
    (if transfer_events t1 = [] then lc_outgoing c1 = None \<and> lc_deadline c1 = None
     else lc_outgoing c1 = Some t1 \<and> lc_held c1 = [f] \<and> lc_deadline c1 = Some d)"
proof -
  obtain v where w: "w = Suc (Suc v)"
    using assms(7) by (metis Suc_le_D numeral_2_eq_2 Suc_le_mono)
  show ?thesis
    using assms(1-6) completed_event [OF assms(6)]
    by (cases "transfer_events t1 = []")
      (simp_all add: w clip_step_def send_tick_def needs_send_tick_def paste_barrier_expired_def send_chunk_def
        next_image_frame_def release_held_def take_held_input_def delayed_request_def send_else_def act_def ret_def Let_def)
qed

lemma transfer_ticks:
  assumes "lc_outgoing c = Some t" "lc_held c = [f]" "lc_deadline c = Some d" "is_paste f" "2 \<le> w"
    and "transfer_events t \<noteq> []" "\<forall>env\<in>set envs. le_now env < d"
  shows "\<exists>c1. clip_run lib c (map (tick cfg w) envs) =
    (Continue c1, map Send (if length envs < length (transfer_events t) then map FClipboard (take (length envs) (transfer_events t))
       else map FClipboard (transfer_events t) @ [f]))"
  using assms
proof (induction envs arbitrary: c t)
  case Nil
  then show ?case
    by (simp add: clip_run_def)
next
  case (Cons env envs)
  obtain e t1 where next_e: "next_event t = (Some e, t1)"
    using Cons.prems(6) by (subst (asm) transfer_events.simps) (auto split: prod.splits option.splits)
  have events: "transfer_events t = e # transfer_events t1"
    by (subst transfer_events.simps) (simp add: next_e)
  obtain c1 where step: "clip_step lib c (tick cfg w env) =
      (Continue c1, if transfer_events t1 = [] then [Send (FClipboard e), Send f] else [Send (FClipboard e)])"
    "if transfer_events t1 = [] then lc_outgoing c1 = None \<and> lc_deadline c1 = None
     else lc_outgoing c1 = Some t1 \<and> lc_held c1 = [f] \<and> lc_deadline c1 = Some d"
    using transfer_tick [OF Cons.prems(1-3) _ Cons.prems(4) next_e Cons.prems(5)] Cons.prems(7) by force
  have run: "clip_run lib c (map (tick cfg w) (env # envs)) =
      (case clip_run lib c1 (map (tick cfg w) envs) of (out, acts) \<Rightarrow>
        (out, (if transfer_events t1 = [] then [Send (FClipboard e), Send f] else [Send (FClipboard e)]) @ acts))"
    using step(1) by (simp add: clip_run_def)
  show ?case
  proof (cases "transfer_events t1 = []")
    case True
    then show ?thesis
      using step(2) run events by (simp add: idle_ticks)
  next
    case False
    then obtain c2 where "clip_run lib c1 (map (tick cfg w) envs) = (Continue c2, map Send
        (if length envs < length (transfer_events t1) then map FClipboard (take (length envs) (transfer_events t1))
         else map FClipboard (transfer_events t1) @ [f]))"
      using Cons.IH [of c1 t1] step(2) Cons.prems by auto
    then show ?thesis
      using False run events by simp
  qed
qed

text \<open>The frames that bring an item to the peer: one offer of the text, or all the events of its transfer.\<close>

fun carries :: "clipboard_library \<Rightarrow> clipboard_item \<Rightarrow> frame list \<Rightarrow> bool" where
  "carries lib (ItemText text) fs \<longleftrightarrow>
     (\<exists>seq. fs = [FClipboard (TextOffer seq text)]) \<or>
     (\<exists>n seq. fs = map FClipboard (transfer_events (outgoing_text (cl_sha lib) n seq text)))"
| "carries lib (ItemImage img) fs \<longleftrightarrow> (\<exists>n seq. fs = map FClipboard (transfer_events (outgoing_image n seq img)))"

text \<open>The peer takes the item; an image is new, that is, the session takes it neither for sent nor for being sent.\<close>

fun to_be_sent :: "clipboard_config \<Rightarrow> live_clipboard \<Rightarrow> clipboard_item \<Rightarrow> bool" where
  "to_be_sent cfg c (ItemText text) = cpf_text_chunks (lc_peer c)"
| "to_be_sent cfg c (ItemImage img) =
     (sends_images cfg c \<and> Some (ContentImage (ci_content_sha256 img)) \<notin> {lc_last_sent_image_id c, lc_outgoing_image_id c})"

lemma transfer_events_start [simp]:
  "transfer_events (outgoing_text sha n seq tx) \<noteq> []" "transfer_events (outgoing_image n seq img) \<noteq> []"
  by (simp_all add: outgoing_text_def outgoing_image_def events_start with_payload_def Let_def)

lemma paste_prepared:
  assumes "lc_deadline c = None" "lc_held c = []" "cc_enabled cfg" "is_paste f" "lc_ctrl_down c"
    "le_item env = Some (Some item)" "to_be_sent cfg c item"
  obtains (at_once) c1 seq tx where "item = ItemText tx" "lc_outgoing c1 = None" "lc_deadline c1 = None"
      "prepare_input lib cfg env f c = (replace_outgoing c @ [FClipboard (TextOffer seq tx), f], c1)"
  | (held_back) c1 t where "prepare_input lib cfg env f c = (replace_outgoing c, c1)" "lc_outgoing c1 = Some t"
      "lc_held c1 = [f]" "lc_deadline c1 = Some (le_now env + from_secs 5)" "transfer_events t \<noteq> []"
      "carries lib item (map FClipboard (transfer_events t))"
proof (cases item)
  case (ItemText tx)
  define seq where "seq = saturating_add (cct_sequence (lc_tracker c)) 1"
  show thesis
  proof (cases "fits_secure_frame (cl_enc lib) (FClipboard (TextOffer seq tx))")
    case True
    then show thesis
      using assms ItemText
      by (intro at_once) (auto simp: prepare_input_def prepare_paste_def offer_item_def offer_current_def push_text_offer_def
          seq_def replace_outgoing_def Let_def)
  next
    case False
    then show thesis
      using assms ItemText
      by (intro held_back) (auto simp: prepare_input_def prepare_paste_def offer_item_def offer_current_def push_text_offer_def
          seq_def replace_outgoing_def hold_paste_def CLIPBOARD_PASTE_BARRIER_TIMEOUT_def Let_def)
  qed
next
  case (ItemImage img)
  define seq t where "seq = saturating_add (cct_sequence (lc_tracker c)) 1" and "t = outgoing_image (next_transfer c) seq img"
  have "fst (prepare_input lib cfg env f c) = replace_outgoing c" "lc_outgoing (snd (prepare_input lib cfg env f c)) = Some t"
    "lc_held (snd (prepare_input lib cfg env f c)) = [f]"
    "lc_deadline (snd (prepare_input lib cfg env f c)) = Some (le_now env + from_secs 5)"
    using assms ItemImage
    by (auto simp: prepare_input_def prepare_paste_def offer_item_def offer_current_def sends_images_def t_def seq_def
        next_transfer_def replace_outgoing_def hold_paste_def CLIPBOARD_PASTE_BARRIER_TIMEOUT_def Let_def)
  moreover have "transfer_events t \<noteq> []" "carries lib item (map FClipboard (transfer_events t))"
    using ItemImage by (auto simp: t_def)
  ultimately show thesis
    using held_back [of "snd (prepare_input lib cfg env f c)" t] by (simp add: prod_eq_iff)
qed

lemma send_frames_run:
  assumes "\<forall>x\<in>set fs. \<exists>e. x = FClipboard e" "length fs \<le> w"
  shows "send_input_frames cfg fs c broken ret w = (Continue c, map Send fs)"
  using assms
proof (induction fs arbitrary: w)
  case (Cons x fs)
  then obtain e v where "x = FClipboard e" "w = Suc v"
    by (cases w) auto
  then show ?case
    using Cons by (simp add: after_input_sent_def delayed_request_def send_else_def act_def)
qed (simp add: ret_def)

lemma clip_frames_all: "\<forall>x\<in>set (replace_outgoing c). \<exists>e. x = FClipboard e"
  by (auto simp: replace_outgoing_def split: option.splits)

lemma send_frames_paste:
  assumes "is_paste f"
  shows "send_input_frames cfg (replace_outgoing c @ [FClipboard e, f]) c1 broken ret (Suc (Suc (length (replace_outgoing c) + v))) =
    (Continue c1, map Send (replace_outgoing c @ [FClipboard e, f]))"
  using assms by (cases "lc_outgoing c")
    (simp_all add: replace_outgoing_def after_input_sent_def [of _ "FClipboard _"] delayed_request_def send_else_def act_def ret_def)

text \<open>C17: A paste goes out only behind what it pastes. When \<open>Ctrl+V\<close> is captured and no paste is held back, and a text is
  copied that the peer takes, or an image that it takes and that the session has neither sent last nor is sending: then
  whatever number of ticks follow within five seconds, first a transfer under way is cancelled, then the frames
  that bring the very item that is copied go out, a text at once if it fits a frame, else one at each tick, and the key goes
  out directly behind the last of them, as soon as that is sent, and never before. (An image that was sent before is not
  sent again, also if something else was sent since.)\<close>

theorem paste_after_content:
  assumes "barrier c = ([], None)" "cc_enabled cfg" "is_paste f" "lc_ctrl_down c" "le_item env = Some (Some item)"
    and "to_be_sent cfg c item" "3 \<le> w" "\<forall>e\<in>set envs. le_now e < le_now env + from_secs 5"
  shows "\<exists>contents sent c1. carries lib item contents \<and>
    clip_run lib c ((cfg, env, w, ClipInput f) # map (tick cfg w) envs) = (Continue c1, map Send (replace_outgoing c @ sent)) \<and>
    (sent = contents @ [f] \<or> length envs < length contents \<and> sent = take (length envs) contents)"
proof -
  have c: "lc_deadline c = None" "lc_held c = []"
    using assms(1) by (simp_all add: barrier_def)
  show ?thesis
  proof (rule paste_prepared [OF c assms(2-6), where lib = lib])
    fix c1 seq tx
    assume p: "item = ItemText tx" "lc_outgoing c1 = None" "lc_deadline c1 = None"
      "prepare_input lib cfg env f c = (replace_outgoing c @ [FClipboard (TextOffer seq tx), f], c1)"
    obtain v where w: "w = length (replace_outgoing c) + Suc (Suc v)"
      using le_iff_add [of "length (replace_outgoing c) + 2" w] assms(7) by (cases "lc_outgoing c") (auto simp: replace_outgoing_def)
    have "clip_step lib c (cfg, env, w, ClipInput f) =
        (Continue c1, map Send (replace_outgoing c @ [FClipboard (TextOffer seq tx), f]))"
      using p(4) assms(3)
      by (simp add: clip_step_def input_arm_def send_frames_paste w)
    then have "clip_run lib c ((cfg, env, w, ClipInput f) # map (tick cfg w) envs) =
        (Continue c1, map Send (replace_outgoing c @ [FClipboard (TextOffer seq tx)] @ [f]))"
      using idle_ticks [OF p(2,3), of lib cfg w envs] by (simp add: clip_run_def)
    moreover have "carries lib item [FClipboard (TextOffer seq tx)]"
      using p(1) by simp
    ultimately show ?thesis
      by blast
  next
    fix c1 t
    assume p: "prepare_input lib cfg env f c = (replace_outgoing c, c1)" "lc_outgoing c1 = Some t"
      "lc_held c1 = [f]" "lc_deadline c1 = Some (le_now env + from_secs 5)" "transfer_events t \<noteq> []"
      "carries lib item (map FClipboard (transfer_events t))"
    have "length (replace_outgoing c) \<le> w"
      using assms(7) by (auto simp: replace_outgoing_def split: option.splits)
    then have "clip_step lib c (cfg, env, w, ClipInput f) = (Continue c1, map Send (replace_outgoing c))"
      using p(1) send_frames_run [of "replace_outgoing c" w cfg c1]
      by (simp add: clip_step_def input_arm_def clip_frames_all)
    moreover obtain c2 where "clip_run lib c1 (map (tick cfg w) envs) = (Continue c2, map Send
        (if length envs < length (transfer_events t) then map FClipboard (take (length envs) (transfer_events t))
         else map FClipboard (transfer_events t) @ [f]))"
      using transfer_ticks [OF p(2-4) assms(3) _ p(5) assms(8)] assms(7) by fastforce
    ultimately have "clip_run lib c ((cfg, env, w, ClipInput f) # map (tick cfg w) envs) = (Continue c2, map Send
        (replace_outgoing c @ (if length envs < length (map FClipboard (transfer_events t))
         then take (length envs) (map FClipboard (transfer_events t)) else map FClipboard (transfer_events t) @ [f])))"
      by (simp add: clip_run_def take_map)
    then show ?thesis
      using p(6)
      by (intro exI [of _ "map FClipboard (transfer_events t)"] exI [of _ "if length envs < length (transfer_events t)
          then take (length envs) (map FClipboard (transfer_events t)) else map FClipboard (transfer_events t) @ [f]"])
        auto
  qed
qed

theorem paste_after_content_witness:
  "\<exists>contents c1. carries demo_library (ItemImage demo_image) contents \<and>
     clip_run demo_library (demo_start\<lparr>lc_ctrl_down := True\<rparr>)
       ((demo_config, demo_env 5 (Some (ItemImage demo_image)), 3, ClipInput (demo_key 47 True)) #
        map (tick demo_config 3) (replicate 3 (demo_env 6 None))) = (Continue c1, map Send (contents @ [demo_key 47 True]))"
proof -
  let ?c = "demo_start\<lparr>lc_ctrl_down := True\<rparr>" and ?env = "demo_env 5 (Some (ItemImage demo_image))"
  have "barrier ?c = ([], None)" "cc_enabled demo_config" "is_paste (demo_key 47 True)" "lc_ctrl_down ?c"
    "le_item ?env = Some (Some (ItemImage demo_image))" "to_be_sent demo_config ?c (ItemImage demo_image)" "3 \<le> (3 :: nat)"
    "\<forall>e\<in>set (replicate 3 (demo_env 6 None)). le_now e < le_now ?env + from_secs 5"
    by (simp_all add: demo_defs barrier_def from_secs_def)
  from paste_after_content [OF this, of demo_library]
  obtain contents sent c1 where run: "carries demo_library (ItemImage demo_image) contents"
    "clip_run demo_library ?c ((demo_config, ?env, 3, ClipInput (demo_key 47 True)) #
       map (tick demo_config 3) (replicate 3 (demo_env 6 None))) = (Continue c1, map Send (replace_outgoing ?c @ sent))"
    "sent = contents @ [demo_key 47 True] \<or> length (replicate 3 (demo_env 6 None)) < length contents"
    by blast
  have "length contents = 3"
    using run(1)
    by (auto simp: outgoing_image_def with_payload_def demo_image_def events_start events_chunk events_end TRANSFER_CHUNK_BYTES_def)
  moreover have "replace_outgoing ?c = []"
    by (simp add: demo_defs)
  ultimately show ?thesis
    using run by auto
qed

text \<open>C38: A refused image holds the keyboard up. When the peer cancels the transfer of the image that is copied,
  the code forgets the transfer but not that it is sending this image. The next \<open>Ctrl+V\<close> is then held back although
  nothing is being sent, and no tick before the deadline, five seconds later, does anything.\<close>

theorem cancelled_image_stalls_paste:
  assumes "lc_outgoing c = Some t" "lc_outgoing_image_id c = Some (ContentImage (ci_content_sha256 img))"
    "lc_last_sent_image_id c \<noteq> lc_outgoing_image_id c" "lc_held c = []" "lc_ctrl_down c" "cc_enabled cfg"
    "sends_images cfg c" "is_paste f" "le_item env = Some (Some (ItemImage img))"
    "clip_step lib c (cfg, env0, w0, ClipRemote (ImageCancel (ot_transfer_id t) reason)) = (Continue c1, acts)"
    "prepare_input lib cfg env f c1 = (frames, c2)"
  shows "frames = [] \<and> lc_held c2 = [f] \<and> lc_outgoing c2 = None \<and>
    (\<forall>env1 w. le_now env1 < le_now env + from_secs 5 \<longrightarrow> clip_step lib c2 (cfg, env1, w, ClipTick) = (Continue c2, []))"
proof -
  have "c1 = c\<lparr>lc_outgoing := None, lc_held := [], lc_deadline := None\<rparr>"
    using assms(1,4,6,10)
    by (simp add: clip_step_def handle_transfer_def is_cancel_def release_held_def take_held_input_def ret_def)
  then show ?thesis
    using assms
    by (auto simp: prepare_input_def prepare_paste_def sends_images_def hold_paste_def clip_step_def send_tick_def
        needs_send_tick_def paste_barrier_expired_def send_chunk_def next_image_frame_def ret_def
        CLIPBOARD_PASTE_BARRIER_TIMEOUT_def Let_def)
qed

theorem cancelled_image_stalls_paste_witness:
  "\<exists>c1 acts c2. clip_step demo_library
       (demo_start\<lparr>lc_ctrl_down := True, lc_outgoing := Some (outgoing_image 1 1 demo_image),
          lc_outgoing_image_id := Some (ContentImage [1])\<rparr>)
       (demo_config, demo_env 4 None, 1, ClipRemote (ImageCancel 1 Rejected)) = (Continue c1, acts) \<and>
     prepare_input demo_library demo_config (demo_env 5 (Some (ItemImage demo_image))) (demo_key 47 True) c1 = ([], c2) \<and>
     lc_held c2 = [demo_key 47 True] \<and> lc_outgoing c2 = None"
proof -
  let ?c = "demo_start\<lparr>lc_ctrl_down := True, lc_outgoing := Some (outgoing_image 1 1 demo_image),
          lc_outgoing_image_id := Some (ContentImage [1])\<rparr>"
  have t: "ot_transfer_id (outgoing_image 1 1 demo_image) = 1"
    by (simp add: outgoing_image_def with_payload_def)
  obtain c1 acts where step: "clip_step demo_library ?c
      (demo_config, demo_env 4 None, 1, ClipRemote (ImageCancel (ot_transfer_id (outgoing_image 1 1 demo_image)) Rejected)) =
      (Continue c1, acts)"
    by (simp add: t demo_defs handle_transfer_def is_cancel_def release_held_def take_held_input_def)
  obtain frames c2 where prepared: "prepare_input demo_library demo_config (demo_env 5 (Some (ItemImage demo_image)))
      (demo_key 47 True) c1 = (frames, c2)"
    by fastforce
  have "lc_outgoing ?c = Some (outgoing_image 1 1 demo_image)"
    "lc_outgoing_image_id ?c = Some (ContentImage (ci_content_sha256 demo_image))"
    "lc_last_sent_image_id ?c \<noteq> lc_outgoing_image_id ?c" "lc_held ?c = []" "lc_ctrl_down ?c" "cc_enabled demo_config"
    "sends_images demo_config ?c" "is_paste (demo_key 47 True)"
    "le_item (demo_env 5 (Some (ItemImage demo_image))) = Some (Some (ItemImage demo_image))"
    by (simp_all add: demo_defs)
  from cancelled_image_stalls_paste [OF this step prepared] show ?thesis
    using step prepared t by metis
qed

end
