(* ===== verification/LinuxClipboard.thy ===== *)
theory LinuxClipboard
  imports LiveClipboard
begin

text \<open>
  The clipboard of a session of the Linux program, \<open>ReceiverClipboardState\<close> with
  \<open>BackgroundClipboardRead\<close> in \<open>apps/edge-receiver-linux/src/main.rs\<close>: the sessions with computers and with
  phones use it, as the arms of their loops do here. What a phone wrote last is recorded in \<open>PhoneOrigin\<close>, which all
  sessions of the program share; another session's record is an event of this one.
\<close>

section \<open>State\<close>

record background_read =
  br_task :: "u64 option" \<comment> \<open>the generation in which the read began\<close>
  br_rerun :: bool

record linux_clipboard =
  xc_tracker :: clipboard_change_tracker
  xc_outgoing :: "outgoing_transfer option"
  xc_incoming :: incoming_transfer
  xc_next_transfer_id :: u64
  xc_peer :: clipboard_peer_features
  xc_apply_generation :: u64
  xc_records_phone :: bool
  xc_withholds_phone :: bool
  xc_origin :: "clipboard_content_id option"
  xc_read :: background_read

definition receiver_clipboard_new :: "clipboard_library \<Rightarrow> clipboard_env \<Rightarrow> clipboard_peer_features \<Rightarrow> linux_clipboard" where
  "receiver_clipboard_new lib env peer =
     \<lparr>xc_tracker = tracker_new
        (case le_item env of Some item \<Rightarrow> map_option (item_id (cl_sha lib)) item | None \<Rightarrow> None),
      xc_outgoing = None, xc_incoming = None, xc_next_transfer_id = 0, xc_peer = peer, xc_apply_generation = 0,
      xc_records_phone = False, xc_withholds_phone = False, xc_origin = None,
      xc_read = \<lparr>br_task = None, br_rerun = False\<rparr>\<rparr>"

definition for_phone :: "linux_clipboard \<Rightarrow> linux_clipboard" where
  "for_phone c = c\<lparr>xc_records_phone := True\<rparr>"

text \<open>\<open>forward\<close> is the setting, \<open>watched\<close> whether there is a clipboard hub.\<close>

definition withholding_phone_content :: "bool \<Rightarrow> bool \<Rightarrow> linux_clipboard \<Rightarrow> linux_clipboard" where
  "withholding_phone_content forward watched c = (if \<not> forward then c\<lparr>xc_withholds_phone := watched\<rparr> else c)"

definition origin_record :: "clipboard_content_id \<Rightarrow> linux_clipboard \<Rightarrow> linux_clipboard" where
  "origin_record content_id c = c\<lparr>xc_origin := Some content_id\<rparr>"

definition is_from_phone :: "linux_clipboard \<Rightarrow> clipboard_content_id \<Rightarrow> bool" where
  "is_from_phone c content_id = (xc_origin c = Some content_id)"

section \<open>Reading in the background\<close>

definition read_request :: "u64 \<Rightarrow> background_read \<Rightarrow> background_read" where
  "read_request generation r = (if br_task r \<noteq> None then r\<lparr>br_rerun := True\<rparr> else r\<lparr>br_task := Some generation\<rparr>)"

definition read_finished :: "background_read \<Rightarrow> (u64 \<times> background_read) option" where
  "read_finished r = (case br_task r of Some generation \<Rightarrow> Some (generation, r\<lparr>br_task := None\<rparr>) | None \<Rightarrow> None)"

definition take_rerun :: "background_read \<Rightarrow> bool \<times> background_read" where
  "take_rerun r = (br_rerun r, r\<lparr>br_rerun := False\<rparr>)"

text \<open>Whether the result is still current.\<close>

definition accept_background_read :: "u64 \<Rightarrow> u64 \<Rightarrow> background_read \<Rightarrow> bool \<times> background_read" where
  "accept_background_read current_generation read_generation r =
     (let stale = (read_generation \<noteq> current_generation) in
      case take_rerun r of
        (rerun, r1) \<Rightarrow> (\<not> stale, if rerun \<or> stale then read_request current_generation r1 else r1))"

section \<open>Offers\<close>

definition next_linux_transfer :: "linux_clipboard \<Rightarrow> u64" where
  "next_linux_transfer c = max 1 (xc_next_transfer_id c + 1)"

definition cancel_outgoing ::
  "linux_clipboard \<Rightarrow> (linux_clipboard \<Rightarrow> 's prog) \<Rightarrow> (linux_clipboard \<Rightarrow> 's prog) \<Rightarrow> 's prog" where
  "cancel_outgoing c broken k =
     (case xc_outgoing c of
        None \<Rightarrow> k c
      | Some active \<Rightarrow>
          (let c1 = c\<lparr>xc_outgoing := None\<rparr>
           in send_else (FClipboard (cancel_event active Replaced)) (broken c1) (k c1)))"

definition begin_transfer :: "(u64 \<Rightarrow> outgoing_transfer) \<Rightarrow> linux_clipboard \<Rightarrow> linux_clipboard" where
  "begin_transfer transfer c =
     c\<lparr>xc_next_transfer_id := next_linux_transfer c, xc_outgoing := Some (transfer (next_linux_transfer c))\<rparr>"

text \<open>The programs go on with whether something was offered, or changed here.\<close>

definition send_text ::
  "clipboard_library \<Rightarrow> u64 \<Rightarrow> string \<Rightarrow> linux_clipboard \<Rightarrow> (linux_clipboard \<Rightarrow> 's prog)
     \<Rightarrow> (bool \<Rightarrow> linux_clipboard \<Rightarrow> 's prog) \<Rightarrow> 's prog" where
  "send_text lib sequence text c broken k =
     cancel_outgoing c broken
       (\<lambda>c1. let offer = FClipboard (TextOffer sequence text) in
          if fits_secure_frame (cl_enc lib) offer then send_else offer (broken c1) (k True c1)
          else if \<not> cpf_text_chunks (xc_peer c1) then k False c1
          else k True (begin_transfer (\<lambda>n. outgoing_text (cl_sha lib) n sequence text) c1))"

definition linux_sends_images :: "clipboard_config \<Rightarrow> linux_clipboard \<Rightarrow> bool" where
  "linux_sends_images cfg c = (cpf_images (xc_peer c) \<and> cc_images_enabled cfg)"

definition linux_offer_item ::
  "clipboard_library \<Rightarrow> clipboard_config \<Rightarrow> clipboard_item option \<Rightarrow> bool \<Rightarrow> linux_clipboard
     \<Rightarrow> (linux_clipboard \<Rightarrow> 's prog) \<Rightarrow> (bool \<Rightarrow> linux_clipboard \<Rightarrow> 's prog) \<Rightarrow> 's prog" where
  "linux_offer_item lib cfg current force c broken k =
     (let current_id = map_option (item_id (cl_sha lib)) current in
      if xc_withholds_phone c \<and> (case current_id of Some i \<Rightarrow> is_from_phone c i | None \<Rightarrow> False)
      then k False (c\<lparr>xc_tracker := mark_observed (xc_tracker c) current_id\<rparr>)
      else (case (if force then offer_current (xc_tracker c) current_id else offer_if_changed (xc_tracker c) current_id) of
              (None, tracker) \<Rightarrow> k False (c\<lparr>xc_tracker := tracker\<rparr>)
            | (Some sequence, tracker) \<Rightarrow>
                (let c1 = c\<lparr>xc_tracker := tracker\<rparr> in
                 case current of
                   Some (ItemText text) \<Rightarrow> send_text lib sequence text c1 broken k
                 | Some (ItemImage img) \<Rightarrow>
                     if linux_sends_images cfg c1
                     then cancel_outgoing c1 broken
                       (\<lambda>c2. k True (begin_transfer (\<lambda>n. outgoing_image n sequence img) c2))
                     else k False c1
                 | None \<Rightarrow> k False c1)))"

text \<open>\<open>send_local_offer\<close>, \<open>send_changed_offer\<close> and \<open>send_local_text_offer\<close>.\<close>

definition read_and_offer ::
  "clipboard_library \<Rightarrow> clipboard_config \<Rightarrow> clipboard_env \<Rightarrow> bool \<Rightarrow> linux_clipboard \<Rightarrow> (linux_clipboard \<Rightarrow> 's prog)
     \<Rightarrow> (linux_clipboard \<Rightarrow> 's prog) \<Rightarrow> (bool \<Rightarrow> linux_clipboard \<Rightarrow> 's prog) \<Rightarrow> 's prog" where
  "read_and_offer lib cfg env force c broken fail k =
     (case le_item env of None \<Rightarrow> fail c | Some current \<Rightarrow> linux_offer_item lib cfg current force c broken k)"

definition send_local_text_offer ::
  "clipboard_library \<Rightarrow> clipboard_env \<Rightarrow> linux_clipboard \<Rightarrow> (linux_clipboard \<Rightarrow> 's prog)
     \<Rightarrow> (linux_clipboard \<Rightarrow> 's prog) \<Rightarrow> (bool \<Rightarrow> linux_clipboard \<Rightarrow> 's prog) \<Rightarrow> 's prog" where
  "send_local_text_offer lib env c broken fail k =
     (case le_text env of
        None \<Rightarrow> fail c
      | Some None \<Rightarrow> k False c
      | Some (Some text) \<Rightarrow>
          (case offer_current (xc_tracker c) (Some (item_id (cl_sha lib) (ItemText text))) of
             (None, tracker) \<Rightarrow> k False (c\<lparr>xc_tracker := tracker\<rparr>)
           | (Some sequence, tracker) \<Rightarrow> send_text lib sequence text (c\<lparr>xc_tracker := tracker\<rparr>) broken k))"

section \<open>Events of the peer\<close>

text \<open>What is here and was not offered yet goes before what the peer offers.\<close>

definition take_remote ::
  "clipboard_library \<Rightarrow> clipboard_config \<Rightarrow> clipboard_env \<Rightarrow> clipboard_content_id \<Rightarrow> effect \<Rightarrow> linux_clipboard
     \<Rightarrow> (linux_clipboard \<Rightarrow> 's prog) \<Rightarrow> (linux_clipboard \<Rightarrow> 's prog) \<Rightarrow> (bool \<Rightarrow> linux_clipboard \<Rightarrow> 's prog) \<Rightarrow> 's prog" where
  "take_remote lib cfg env remote_id write c broken fail k =
     (case le_item env of
        None \<Rightarrow> fail c
      | Some current \<Rightarrow>
          (let current_id = map_option (item_id (cl_sha lib)) current in
           if current_id = Some remote_id then k False (c\<lparr>xc_tracker := mark_observed (xc_tracker c) current_id\<rparr>)
           else if current_id \<noteq> None \<and> \<not> is_observed (xc_tracker c) current_id
           then linux_offer_item lib cfg current False c broken (\<lambda>b. k False)
           else act write
             (if le_write_ok env
              then k True (c\<lparr>xc_apply_generation := xc_apply_generation c + 1,
                             xc_tracker := mark_observed (xc_tracker c) (Some remote_id)\<rparr>)
              else fail c)))"

definition handle_text_offer ::
  "clipboard_library \<Rightarrow> clipboard_config \<Rightarrow> clipboard_env \<Rightarrow> string \<Rightarrow> linux_clipboard
     \<Rightarrow> (linux_clipboard \<Rightarrow> 's prog) \<Rightarrow> (linux_clipboard \<Rightarrow> 's prog) \<Rightarrow> (linux_clipboard \<Rightarrow> 's prog) \<Rightarrow> 's prog" where
  "handle_text_offer lib cfg env text c broken fail k =
     (let remote_id = item_id (cl_sha lib) (ItemText text) in
      take_remote lib cfg env remote_id (WriteText text) c broken fail
        (\<lambda>written c1. k (if written \<and> xc_records_phone c1 then origin_record remote_id c1 else c1)))"

definition linux_transfer_supported :: "clipboard_config \<Rightarrow> clipboard_event \<Rightarrow> linux_clipboard \<Rightarrow> bool" where
  "linux_transfer_supported cfg event c =
     (if is_cancel event then True
      else if is_text_transfer event then cpf_text_chunks (xc_peer c) else linux_sends_images cfg c)"

definition handle_linux_transfer ::
  "clipboard_library \<Rightarrow> clipboard_config \<Rightarrow> clipboard_env \<Rightarrow> clipboard_event \<Rightarrow> linux_clipboard
     \<Rightarrow> (linux_clipboard \<Rightarrow> 's prog) \<Rightarrow> (linux_clipboard \<Rightarrow> 's prog) \<Rightarrow> (bool \<Rightarrow> linux_clipboard \<Rightarrow> 's prog) \<Rightarrow> 's prog" where
  "handle_linux_transfer lib cfg env event c broken fail k =
     (if is_cancel event \<and>
         (case xc_outgoing c of Some t \<Rightarrow> Some (ot_transfer_id t) = transfer_id_of event | None \<Rightarrow> False)
      then k False (c\<lparr>xc_outgoing := None\<rparr>)
      else if \<not> linux_transfer_supported cfg event c
      then (case transfer_id_of event of
              Some transfer_id \<Rightarrow> send_else (cancel_frame transfer_id Rejected) (broken c) (k False c)
            | None \<Rightarrow> k False c)
      else (case handle (cl_sha lib) (cl_codec lib) (le_now env) (xc_incoming c) event
                   \<lparr>max_image_bytes = cc_max_image_bytes cfg, max_text_bytes = cc_max_bytes cfg\<rparr> of
              (Inr (Some (ItemText text)), inc) \<Rightarrow>
                handle_text_offer lib cfg env text (c\<lparr>xc_incoming := inc\<rparr>) broken fail (k True)
            | (Inr (Some (ItemImage img)), inc) \<Rightarrow>
                take_remote lib cfg env (ContentImage (ci_content_sha256 img)) (WriteImage img)
                  (c\<lparr>xc_incoming := inc\<rparr>) broken fail k
            | (Inr None, inc) \<Rightarrow> k False (c\<lparr>xc_incoming := inc\<rparr>)
            | (Inl error, inc) \<Rightarrow>
                (let c1 = c\<lparr>xc_incoming := incoming_clear inc\<rparr> in
                 case transfer_id_of event of
                   Some transfer_id \<Rightarrow>
                     if is_cancel event then k False c1
                     else send_else (cancel_frame transfer_id (cancel_reason error)) (broken c1) (k False c1)
                 | None \<Rightarrow> k False c1)))"

fun handle_linux_event ::
  "clipboard_library \<Rightarrow> clipboard_config \<Rightarrow> clipboard_env \<Rightarrow> clipboard_event \<Rightarrow> linux_clipboard
     \<Rightarrow> (linux_clipboard \<Rightarrow> 's prog) \<Rightarrow> (linux_clipboard \<Rightarrow> 's prog) \<Rightarrow> (bool \<Rightarrow> linux_clipboard \<Rightarrow> 's prog) \<Rightarrow> 's prog" where
  "handle_linux_event lib cfg env (TextOffer _ text) c broken fail k =
     handle_text_offer lib cfg env text c broken fail (k True)"
| "handle_linux_event lib cfg env TextRequest c broken fail k = send_local_text_offer lib env c broken fail k"
| "handle_linux_event lib cfg env ContentRequest c broken fail k = read_and_offer lib cfg env True c broken fail k"
| "handle_linux_event lib cfg env event c broken fail k = handle_linux_transfer lib cfg env event c broken fail k"

definition send_next_image_frame ::
  "linux_clipboard \<Rightarrow> (linux_clipboard \<Rightarrow> 's prog) \<Rightarrow> (bool \<Rightarrow> linux_clipboard \<Rightarrow> 's prog) \<Rightarrow> 's prog" where
  "send_next_image_frame c broken k =
     (case xc_outgoing c of
        None \<Rightarrow> k False c
      | Some t \<Rightarrow>
          (case next_event t of
             (None, t1) \<Rightarrow> k False (c\<lparr>xc_outgoing := None\<rparr>)
           | (Some event, t1) \<Rightarrow>
               (let completed = (case event of ImageEnd _ \<Rightarrow> True | TextEnd _ \<Rightarrow> True | _ \<Rightarrow> False)
                in send_else (FClipboard event) (broken (c\<lparr>xc_outgoing := Some t1\<rparr>))
                     (k completed (c\<lparr>xc_outgoing := (if completed then None else Some t1)\<rparr>)))))"

section \<open>The clipboard's part of a session\<close>

text \<open>\<open>LinuxChanged\<close> and \<open>LinuxRead\<close> are of the sessions with computers, \<open>PhoneChanged\<close> of those
  with phones.\<close>

datatype linux_clip_event =
    LinuxRemote clipboard_event
  | LinuxChanged
  | LinuxRead
  | PhoneChanged
  | LinuxChunk
  | LinuxExpire
  | PhoneWrote clipboard_content_id

definition linux_read_arm ::
  "clipboard_library \<Rightarrow> clipboard_config \<Rightarrow> clipboard_env \<Rightarrow> bool \<Rightarrow> linux_clipboard
     \<Rightarrow> (linux_clipboard \<Rightarrow> 's prog) \<Rightarrow> (linux_clipboard \<Rightarrow> 's prog) \<Rightarrow> (bool \<Rightarrow> linux_clipboard \<Rightarrow> 's prog) \<Rightarrow> 's prog" where
  "linux_read_arm lib cfg env paused c broken fail k =
     (case read_finished (xc_read c) of
        None \<Rightarrow> k False c
      | Some (generation, r) \<Rightarrow>
          (case accept_background_read (xc_apply_generation c) generation r of
             (current, r1) \<Rightarrow>
               (let c1 = c\<lparr>xc_read := r1\<rparr>
                in if \<not> current \<or> paused then k False c1 else read_and_offer lib cfg env False c1 broken fail k)))"

definition linux_expire_arm ::
  "clipboard_env \<Rightarrow> linux_clipboard \<Rightarrow> (linux_clipboard \<Rightarrow> 's prog) \<Rightarrow> (bool \<Rightarrow> linux_clipboard \<Rightarrow> 's prog) \<Rightarrow> 's prog" where
  "linux_expire_arm env c broken k =
     (case expire_transfer_id (le_now env) (xc_incoming c) of
        (Some transfer_id, inc) \<Rightarrow>
          (let c1 = c\<lparr>xc_incoming := inc\<rparr> in send_else (cancel_frame transfer_id TimedOut) (broken c1) (k False c1))
      | (None, inc) \<Rightarrow> k False (c\<lparr>xc_incoming := inc\<rparr>))"

fun linux_clip_program ::
  "clipboard_library \<Rightarrow> clipboard_config \<Rightarrow> clipboard_env \<Rightarrow> linux_clip_event \<Rightarrow> linux_clipboard
     \<Rightarrow> (linux_clipboard \<Rightarrow> 's prog) \<Rightarrow> (linux_clipboard \<Rightarrow> 's prog) \<Rightarrow> (bool \<Rightarrow> linux_clipboard \<Rightarrow> 's prog) \<Rightarrow> 's prog" where
  "linux_clip_program lib cfg env (LinuxRemote event) c broken fail k =
     handle_linux_event lib cfg env event c broken fail k"
| "linux_clip_program lib cfg env LinuxChanged c broken fail k =
     k False (c\<lparr>xc_read := read_request (xc_apply_generation c) (xc_read c)\<rparr>)"
| "linux_clip_program lib cfg env LinuxRead c broken fail k = linux_read_arm lib cfg env False c broken fail k"
| "linux_clip_program lib cfg env PhoneChanged c broken fail k = read_and_offer lib cfg env False c broken fail k"
| "linux_clip_program lib cfg env LinuxChunk c broken fail k = send_next_image_frame c broken k"
| "linux_clip_program lib cfg env LinuxExpire c broken fail k = linux_expire_arm env c broken k"
| "linux_clip_program lib cfg env (PhoneWrote content_id) c broken fail k = k False (origin_record content_id c)"

type_synonym linux_clip_input = "clipboard_config \<times> clipboard_env \<times> nat \<times> linux_clip_event"

definition linux_clip_step ::
  "clipboard_library \<Rightarrow> linux_clipboard \<Rightarrow> linux_clip_input \<Rightarrow> linux_clipboard session_outcome \<times> effect list" where
  "linux_clip_step lib c i =
     (case i of (cfg, env, writes, event) \<Rightarrow>
        linux_clip_program lib cfg env event c (\<lambda>c1. stop (ExitFault ConnectionFailed)) ret (\<lambda>b. ret) writes)"

definition linux_clip_run ::
  "clipboard_library \<Rightarrow> linux_clipboard \<Rightarrow> linux_clip_input list \<Rightarrow> linux_clipboard session_outcome \<times> effect list" where
  "linux_clip_run lib = loop_run (linux_clip_step lib)"

end
