(* ===== verification/ClipboardExchange.thy ===== *)
theory ClipboardExchange
  imports PasteBarrier LinuxClipboard
begin

text \<open>
  The clipboards of both systems together: what is copied on one side arrives once on the other, and a text a
  phone copied stays on the computer it came to, but for one request.
\<close>

section \<open>Content from a phone\<close>

fun carries_content :: "frame \<Rightarrow> bool" where
  "carries_content (FClipboard (TextOffer _ _)) = True"
| "carries_content (FClipboard (TextStart _ _ _ _)) = True"
| "carries_content (FClipboard (TextChunk _ _ _)) = True"
| "carries_content (FClipboard (ImageStart _ _ _ _ _ _)) = True"
| "carries_content (FClipboard (ImageChunk _ _ _)) = True"
| "carries_content _ = False"

fun gives_away :: "effect \<Rightarrow> bool" where
  "gives_away (Send f) = carries_content f"
| "gives_away _ = False"

text \<open>A state of a session with a computer that withholds what is now on the clipboard.\<close>

definition withholding :: "clipboard_library \<Rightarrow> clipboard_item \<Rightarrow> linux_clipboard \<Rightarrow> bool" where
  "withholding lib item c \<longleftrightarrow> xc_withholds_phone c \<and> \<not> xc_records_phone c \<and>
     xc_origin c = Some (item_id (cl_sha lib) item) \<and> xc_outgoing c = None"

definition keeps_back :: "clipboard_library \<Rightarrow> clipboard_item \<Rightarrow> linux_clipboard prog \<Rightarrow> bool" where
  "keeps_back lib item k \<longleftrightarrow> wp (\<lambda>c acts. withholding lib item c) k \<and> emits (\<lambda>a. \<not> gives_away a) k"

lemma keeps_back_simps [simp]:
  "keeps_back lib item (ret c) \<longleftrightarrow> withholding lib item c"
  "keeps_back lib item (stop e)"
  by (simp_all add: keeps_back_def)

lemma keeps_back_send [simp]:
  "\<not> carries_content f \<Longrightarrow> keeps_back lib item k \<Longrightarrow> keeps_back lib item (send_else f (stop e) k)"
  unfolding keeps_back_def by (intro conjI wp_send_else emits_send_else) simp_all

lemma keeps_back_act [simp]: "\<not> gives_away a \<Longrightarrow> keeps_back lib item k \<Longrightarrow> keeps_back lib item (act a k)"
  by (simp add: keeps_back_def)

lemma keeps_back_cancel_frame [simp]: "\<not> carries_content (cancel_frame n reason)"
  by (simp add: cancel_frame_def)

lemma withholding_offer [simp]:
  "withholding lib item c \<Longrightarrow> linux_offer_item lib cfg (Some item) force c br k =
     k False (c\<lparr>xc_tracker := mark_observed (xc_tracker c) (Some (item_id (cl_sha lib) item))\<rparr>)"
  by (simp add: linux_offer_item_def withholding_def is_from_phone_def)

lemma withholding_updates [simp]:
  "withholding lib item (c\<lparr>xc_read := r\<rparr>) = withholding lib item c"
  "withholding lib item (c\<lparr>xc_incoming := x\<rparr>) = withholding lib item c"
  "withholding lib item (c\<lparr>xc_tracker := tracker\<rparr>) = withholding lib item c"
  "withholding lib item (c\<lparr>xc_apply_generation := g\<rparr>) = withholding lib item c"
  by (simp_all add: withholding_def)

lemma withholding_idle [simp]:
  "withholding lib item c \<Longrightarrow> xc_outgoing c = None" "withholding lib item c \<Longrightarrow> \<not> xc_records_phone c"
  by (simp_all add: withholding_def)

abbreviation linux_broken :: "linux_clipboard \<Rightarrow> linux_clipboard prog" where
  "linux_broken \<equiv> \<lambda>c. stop (ExitFault ConnectionFailed)"

lemma keeps_back_take_remote:
  assumes "withholding lib item c" "le_item env = Some (Some item)"
    "\<And>b c1. withholding lib item c1 \<Longrightarrow> keeps_back lib item (k b c1)" "\<not> gives_away write"
  shows "keeps_back lib item (take_remote lib cfg env remote_id write c linux_broken ret k)"
  using assms by (simp add: take_remote_def Let_def)

lemma keeps_back_transfer:
  assumes "withholding lib item c" "le_item env = Some (Some item)"
  shows "keeps_back lib item (handle_linux_transfer lib cfg env event c linux_broken ret (\<lambda>b. ret))"
  using assms
  by (auto simp: handle_linux_transfer_def handle_text_offer_def Let_def
      intro!: keeps_back_take_remote split: option.split prod.split sum.split clipboard_item.split)

lemma keeps_back_program:
  assumes "withholding lib item c" "le_item env = Some (Some item)" "event \<noteq> LinuxRemote TextRequest"
    "\<forall>content_id. event \<noteq> PhoneWrote content_id"
  shows "keeps_back lib item (linux_clip_program lib cfg env event c linux_broken ret (\<lambda>b. ret))"
proof (cases event)
  case (LinuxRemote e)
  show ?thesis
  proof (cases e)
    case (TextOffer n t)
    then show ?thesis
      using assms LinuxRemote by (auto simp: handle_text_offer_def Let_def intro!: keeps_back_take_remote)
  next
    case TextRequest
    then show ?thesis
      using assms LinuxRemote by simp
  next
    case ContentRequest
    then show ?thesis
      using assms LinuxRemote by (simp add: read_and_offer_def)
  qed (use keeps_back_transfer [OF assms(1,2)] LinuxRemote in simp_all)
next
  case LinuxRead
  then show ?thesis
    using assms by (simp add: linux_read_arm_def read_and_offer_def Let_def split: option.split prod.split)
next
  case LinuxExpire
  then show ?thesis
    using assms by (simp add: linux_expire_arm_def Let_def split: option.split prod.split)
qed (use assms in \<open>simp_all add: read_and_offer_def send_next_image_frame_def\<close>)

text \<open>The clipboard holds the item at every event, and nobody asks for text or has a phone write something else.\<close>

definition undisturbed :: "clipboard_item \<Rightarrow> linux_clip_input list \<Rightarrow> bool" where
  "undisturbed item is = list_all (\<lambda>(cfg, env, w, event). le_item env = Some (Some item) \<and>
     event \<noteq> LinuxRemote TextRequest \<and> (case event of PhoneWrote content_id \<Rightarrow> False | _ \<Rightarrow> True)) is"

lemma withholding_run:
  assumes "linux_clip_run lib c is = (out, acts)" "withholding lib item c" "undisturbed item is"
  shows "list_all (\<lambda>a. \<not> gives_away a) acts"
  using assms
proof (induction "is" arbitrary: c out acts)
  case Nil
  then show ?case
    by (simp add: linux_clip_run_def)
next
  case (Cons i "is")
  obtain cfg env w event where i: "i = (cfg, env, w, event)"
    by (cases i)
  have "keeps_back lib item (linux_clip_program lib cfg env event c linux_broken ret (\<lambda>b. ret))"
    using Cons.prems(2,3) by (intro keeps_back_program) (auto simp: undisturbed_def i)
  then have one: "case linux_clip_step lib c i of
      (Continue c1, acts1) \<Rightarrow> withholding lib item c1 \<and> list_all (\<lambda>a. \<not> gives_away a) acts1
    | (Ended e, acts1) \<Rightarrow> list_all (\<lambda>a. \<not> gives_away a) acts1"
    by (auto simp: keeps_back_def wp_def emits_def linux_clip_step_def i list_all_iff split: prod.splits session_outcome.splits)
      (metis snd_conv)+
  have rest: "undisturbed item is"
    using Cons.prems(3) by (simp add: undisturbed_def)
  obtain o1 acts1 where step: "linux_clip_step lib c i = (o1, acts1)"
    by fastforce
  show ?case
  proof (cases o1)
    case (Continue c1)
    obtain acts2 where "linux_clip_run lib c1 is = (out, acts2)" "acts = acts1 @ acts2"
      using Cons.prems(1) step Continue by (auto simp: linux_clip_run_def split: prod.splits)
    then show ?thesis
      using Cons.IH [OF _ _ rest] one step Continue by auto
  next
    case (Ended e)
    then show ?thesis
      using Cons.prems(1) step one by (auto simp: linux_clip_run_def)
  qed
qed

lemma phone_text_recorded:
  assumes "linux_clip_step lib x (cfg, env, w, LinuxRemote (TextOffer n t)) = (Continue x1, acts)" "WriteText t \<in> set acts"
    "xc_records_phone x" "le_write_ok env"
  shows "xc_origin x1 = Some (item_id (cl_sha lib) (ItemText t))"
  using assms
  by (auto simp: linux_clip_step_def handle_text_offer_def take_remote_def origin_record_def linux_offer_item_def
      send_text_def cancel_outgoing_def send_else_def act_def ret_def stop_def Let_def
      split: option.splits if_splits prod.splits nat.splits clipboard_item.splits session_outcome.splits)

text \<open>C18: A text that a phone copied is not given to a computer when the setting forbids it. Once a phone's session has
  written the text it was offered to the clipboard, no session with a computer that shares the record of what phones
  wrote, and has no transfer of its own under way, sends any content over any further events, whatever they ask for
  and however the connection breaks, as long as the clipboard holds the text and no phone writes something else; requests
  of the older form, \<open>TextRequest\<close>, are left out.\<close>

theorem phone_content_withheld:
  assumes "linux_clip_step lib x (cfg, env, w, LinuxRemote (TextOffer n t)) = (Continue x1, acts1)" "WriteText t \<in> set acts1"
    and "xc_records_phone x" "le_write_ok env" "xc_withholds_phone c" "\<not> xc_records_phone c" "xc_outgoing c = None" "xc_origin c = xc_origin x1"
    and "undisturbed (ItemText t) is" "linux_clip_run lib c is = (out, acts)"
  shows "list_all (\<lambda>a. \<not> gives_away a) acts"
proof -
  have "withholding lib (ItemText t) c"
    unfolding withholding_def assms(8) by (intro conjI assms(5-7) phone_text_recorded [OF assms(1-4)])
  from withholding_run [OF assms(10) this assms(9)] show ?thesis .
qed

definition demo_phone :: linux_clipboard where
  "demo_phone = for_phone (receiver_clipboard_new demo_library (demo_env 0 None) \<lparr>cpf_images = False, cpf_text_chunks = False\<rparr>)"

definition demo_phone_pc :: linux_clipboard where
  "demo_phone_pc =
     origin_record (item_id (cl_sha demo_library) (ItemText ''pin''))
       (withholding_phone_content False True
         (receiver_clipboard_new demo_library (demo_env 0 None) \<lparr>cpf_images = False, cpf_text_chunks = False\<rparr>))"

lemmas demo_linux_defs = demo_phone_pc_def demo_phone_def for_phone_def origin_record_def withholding_phone_content_def
  receiver_clipboard_new_def linux_clip_step_def read_and_offer_def linux_offer_item_def is_from_phone_def mark_observed_def

theorem phone_content_withheld_witness:
  "\<exists>x1 out acts. linux_clip_step demo_library demo_phone
       (demo_config, demo_env 1 None, 5, LinuxRemote (TextOffer 1 ''pin'')) = (Continue x1, [WriteText ''pin'']) \<and>
     linux_clip_run demo_library demo_phone_pc
       [(demo_config, demo_env 2 (Some (ItemText ''pin'')), 5, LinuxRemote ContentRequest),
        (demo_config, demo_env 3 (Some (ItemText ''pin'')), 5, LinuxChunk)] = (out, acts) \<and>
     list_all (\<lambda>a. \<not> gives_away a) acts"
proof -
  let ?is = "[(demo_config, demo_env 2 (Some (ItemText ''pin'')), 5, LinuxRemote ContentRequest),
        (demo_config, demo_env 3 (Some (ItemText ''pin'')), 5, LinuxChunk)]"
  obtain x1 where step: "linux_clip_step demo_library demo_phone
       (demo_config, demo_env 1 None, 5, LinuxRemote (TextOffer 1 ''pin'')) = (Continue x1, [WriteText ''pin''])"
    by (simp add: demo_linux_defs demo_defs handle_text_offer_def take_remote_def)
  obtain out acts where run: "linux_clip_run demo_library demo_phone_pc ?is = (out, acts)"
    by fastforce
  have env: "le_write_ok (demo_env 1 None)" and phone: "xc_records_phone demo_phone"
    by (simp_all add: demo_linux_defs demo_env_def)
  have "xc_withholds_phone demo_phone_pc" "\<not> xc_records_phone demo_phone_pc" "xc_outgoing demo_phone_pc = None"
    "xc_origin demo_phone_pc = xc_origin x1" "undisturbed (ItemText ''pin'') ?is"
    using phone_text_recorded [OF step _ phone env]
    by (simp_all add: demo_linux_defs demo_env_def undisturbed_def demo_library_def)
  from phone_content_withheld [OF step _ phone env this run] show ?thesis
    using step run by auto
qed

section \<open>From one clipboard to the other\<close>

lemma observed_is_quiet:
  assumes "is_observed (xc_tracker c) (Some (item_id (cl_sha lib) item))" "le_item env = Some (Some item)"
  shows "\<exists>c1. linux_clip_step lib c (cfg, env, w, LinuxRead) = (Continue c1, [])"
    "\<exists>c1. linux_clip_step lib c (cfg, env, w, PhoneChanged) = (Continue c1, [])"
  using assms
  by (simp_all add: linux_clip_step_def linux_read_arm_def read_and_offer_def linux_offer_item_def offer_if_changed_def
      ret_def Let_def split: option.split prod.split)

lemma text_is_applied:
  assumes "le_item env = Some current" "is_observed (xc_tracker c) (map_option (item_id (cl_sha lib)) current)"
    "map_option (item_id (cl_sha lib)) current \<noteq> Some (item_id (cl_sha lib) (ItemText t))" "le_write_ok env"
  shows "\<exists>c1. linux_clip_step lib c (cfg, env, w, LinuxRemote (TextOffer n t)) = (Continue c1, [WriteText t]) \<and>
    is_observed (xc_tracker c1) (Some (item_id (cl_sha lib) (ItemText t)))"
  using assms
  by (simp add: linux_clip_step_def handle_text_offer_def take_remote_def origin_record_def mark_observed_def
      is_observed_def act_def ret_def Let_def)

text \<open>C39: A copied text crosses once. When the Windows side has read a text it has not offered, and the text fits a
  frame, it sends it in an offer; a Linux side that takes this offer, with nothing new of its own, writes the text and
  sends nothing; and when either side then finds the text on its clipboard, it sends nothing: the text does not bounce.\<close>

theorem copied_text_crosses_once:
  assumes "lc_pending_read c = Some r" "pr_generation r = lc_apply_generation c"
    "\<not> is_observed (lc_tracker c) (Some (item_id (cl_sha lib) (ItemText t)))"
    "\<forall>n. fits_secure_frame (cl_enc lib) (FClipboard (TextOffer n t))"
    "clip_step lib c (cfg, env, w, ClipRead (Some (Some (ItemText t)))) = (Continue c1, acts)"
    "le_item env' = Some current" "le_write_ok env'" "is_observed (xc_tracker x) (map_option (item_id (cl_sha lib')) current)"
    "map_option (item_id (cl_sha lib')) current \<noteq> Some (item_id (cl_sha lib') (ItemText t))"
  shows "\<exists>n x1. Send (FClipboard (TextOffer n t)) \<in> set acts \<and>
    linux_clip_step lib' x (cfg', env', w', LinuxRemote (TextOffer n t)) = (Continue x1, [WriteText t]) \<and>
    (\<forall>env2 w2. le_item env2 = Some (Some (ItemText t)) \<longrightarrow>
      (\<exists>x2. linux_clip_step lib' x1 (cfg', env2, w2, LinuxRead) = (Continue x2, []))) \<and>
    (\<forall>env3 w3 r3. \<exists>c3. clip_step lib (c1\<lparr>lc_pending_read := Some r3\<rparr>)
      (cfg, env3, w3, ClipRead (Some (Some (ItemText t)))) = (Continue c3, []))"
proof -
  have "\<exists>n. Send (FClipboard (TextOffer n t)) \<in> set acts \<and>
      is_observed (lc_tracker c1) (Some (item_id (cl_sha lib) (ItemText t)))"
  proof (cases "lc_outgoing c")
    case None
    then show ?thesis
      using assms(1-5)
      by (cases w) (auto simp: clip_step_def read_arm_def finished_local_read_def complete_local_read_def offer_item_def
          offer_if_changed_def offer_current_def push_text_offer_def replace_outgoing_def is_observed_def
          send_else_def act_def ret_def stop_def Let_def)
  next
    case (Some active)
    then show ?thesis
      using assms(1-5)
      by (cases w; cases "w - 1")
        (auto simp: clip_step_def read_arm_def finished_local_read_def complete_local_read_def offer_item_def
          offer_if_changed_def offer_current_def push_text_offer_def replace_outgoing_def is_observed_def
          send_else_def act_def ret_def stop_def Let_def)
  qed
  then obtain n where sent: "Send (FClipboard (TextOffer n t)) \<in> set acts"
    "is_observed (lc_tracker c1) (Some (item_id (cl_sha lib) (ItemText t)))"
    by blast
  have "\<exists>c3. clip_step lib (c1\<lparr>lc_pending_read := Some r3\<rparr>) (cfg, env3, w3, ClipRead (Some (Some (ItemText t)))) = (Continue c3, [])"
    for env3 w3 r3
    using sent(2)
    by (simp add: clip_step_def read_arm_def finished_local_read_def complete_local_read_def offer_item_def
        offer_if_changed_def ret_def)
  moreover obtain x1 where "linux_clip_step lib' x (cfg', env', w', LinuxRemote (TextOffer n t)) = (Continue x1, [WriteText t])"
    "is_observed (xc_tracker x1) (Some (item_id (cl_sha lib') (ItemText t)))"
    using text_is_applied [OF assms(6,8,9,7)] by blast
  ultimately show ?thesis
    using sent(1) observed_is_quiet(1) by blast
qed


theorem copied_text_crosses_once_witness:
  "\<exists>c1 acts n x1. clip_step demo_library (demo_start\<lparr>lc_pending_read := Some \<lparr>pr_sequence = 2, pr_generation = 0\<rparr>\<rparr>)
       (demo_config, demo_env 1 None, 3, ClipRead (Some (Some (ItemText ''a'')))) = (Continue c1, acts) \<and>
     Send (FClipboard (TextOffer n ''a'')) \<in> set acts \<and>
     linux_clip_step demo_library (receiver_clipboard_new demo_library (demo_env 0 None) \<lparr>cpf_images = True, cpf_text_chunks = True\<rparr>)
       (demo_config, demo_env 2 None, 3, LinuxRemote (TextOffer n ''a'')) = (Continue x1, [WriteText ''a''])"
proof -
  let ?c = "demo_start\<lparr>lc_pending_read := Some \<lparr>pr_sequence = 2, pr_generation = 0\<rparr>\<rparr>"
  let ?x = "receiver_clipboard_new demo_library (demo_env 0 None) \<lparr>cpf_images = True, cpf_text_chunks = True\<rparr>"
  have fits: "\<forall>n. fits_secure_frame (cl_enc demo_library) (FClipboard (TextOffer n ''a''))"
    by (simp add: demo_library_def fits_secure_frame_def encode_frame_def MAX_SECURE_FRAME_BYTES_def)
  obtain c1 acts where step: "clip_step demo_library ?c
      (demo_config, demo_env 1 None, 3, ClipRead (Some (Some (ItemText ''a'')))) = (Continue c1, acts)"
    using fits
    by (simp add: demo_defs read_arm_def finished_local_read_def complete_local_read_def offer_if_changed_def
        is_observed_def push_text_offer_def numeral_3_eq_3)
  have start: "lc_pending_read ?c = Some \<lparr>pr_sequence = 2, pr_generation = 0\<rparr>"
    "pr_generation \<lparr>pr_sequence = 2, pr_generation = 0\<rparr> = lc_apply_generation ?c"
    "\<not> is_observed (lc_tracker ?c) (Some (item_id (cl_sha demo_library) (ItemText ''a'')))"
    by (simp_all add: demo_defs is_observed_def)
  have here: "le_item (demo_env 2 None) = Some None" "le_write_ok (demo_env 2 None)"
    "is_observed (xc_tracker ?x) (map_option (item_id (cl_sha demo_library)) None)"
    "map_option (item_id (cl_sha demo_library)) None \<noteq> Some (item_id (cl_sha demo_library) (ItemText ''a''))"
    by (simp_all add: demo_defs demo_linux_defs is_observed_def)
  from copied_text_crosses_once [OF start fits step here, of demo_config 3] show ?thesis
    using step by blast
qed

end
