(* ===== verification/WindowsSession.thy ===== *)
theory WindowsSession
  imports ConnectorSession Geometry LiveClipboard
begin

text \<open>
  The session of the Windows controller: \<open>run_connected_inner\<close> of \<open>apps/edge-controller-win/src/main.rs\<close>,
  with \<open>begin_windows_role_switch\<close>, the tray's commands and \<open>WindowsRemoteReturnWatcher\<close>. It dials, as the
  Linux connector does, and owns the \<open>RoleCoordinator\<close>; unlike it, it captures through hooks that are only allowed
  or not, keeps its own clipboard (\<open>LiveClipboard\<close>), and samples the cursor when it injects motion. Every branch of
  the loop's \<open>select!\<close> is one event. The tray's display, the log and counters are not modelled; an error of the
  tray that ends the session is.
\<close>

section \<open>The return watcher\<close>

definition RETURN_EDGE_POLL_INTERVAL :: duration where
  "RETURN_EDGE_POLL_INTERVAL = from_millis 40"

definition RETURN_EDGE_ENTRY_GRACE :: duration where
  "RETURN_EDGE_ENTRY_GRACE = from_millis 350"

definition RETURN_EDGE_MARGIN :: i32 where
  "RETURN_EDGE_MARGIN = 12"

definition RETURN_EDGE_CONFIRMATIONS :: u8 where
  "RETURN_EDGE_CONFIRMATIONS = 2"

text \<open>The last poll may lie before the time the clock began with.\<close>

record windows_watcher =
  ww_output :: "output_info option"
  ww_entry_edge :: "edge option"
  ww_entered_at :: "instant option"
  ww_last_poll :: int
  ww_confirmations :: u8

definition primary_output :: "screen_info \<Rightarrow> output_info option" where
  "primary_output info =
     (case find (\<lambda>o1. out_name o1 = si_primary_output info) (si_outputs info) of
        Some o1 \<Rightarrow> Some o1
      | None \<Rightarrow> (case si_outputs info of [] \<Rightarrow> None | o1 # _ \<Rightarrow> Some o1))"

definition poll_now :: "instant \<Rightarrow> int" where
  "poll_now now = int now - int RETURN_EDGE_POLL_INTERVAL"

definition windows_watcher_new :: "instant \<Rightarrow> screen_info \<Rightarrow> windows_watcher" where
  "windows_watcher_new now info =
     \<lparr>ww_output = primary_output info, ww_entry_edge = None, ww_entered_at = None, ww_last_poll = poll_now now,
      ww_confirmations = 0\<rparr>"

definition forget_entry :: "windows_watcher \<Rightarrow> windows_watcher" where
  "forget_entry w = w\<lparr>ww_entry_edge := None, ww_entered_at := None, ww_confirmations := 0\<rparr>"

fun windows_record_control :: "instant \<Rightarrow> control_event \<Rightarrow> windows_watcher \<Rightarrow> windows_watcher" where
  "windows_record_control now (EnterRemote e _) w =
     w\<lparr>ww_entry_edge := Some e, ww_entered_at := Some now, ww_last_poll := poll_now now, ww_confirmations := 0\<rparr>"
| "windows_record_control now (LeaveRemote _ _) w = forget_entry w"
| "windows_record_control now (ReleaseToLocal _) w = forget_entry w"
| "windows_record_control now (SetInputForwarding enabled) w = (if enabled then w else forget_entry w)"

definition last_coordinate :: "i32 \<Rightarrow> u32 \<Rightarrow> i32" where
  "last_coordinate start extent = start + saturating_pred extent"

fun return_edge_reached :: "edge \<Rightarrow> output_info \<Rightarrow> i32 \<Rightarrow> i32 \<Rightarrow> bool" where
  "return_edge_reached EdgeLeft out x y =
     (sint x \<ge> sint (last_coordinate (out_x out) (out_width out) - RETURN_EDGE_MARGIN))"
| "return_edge_reached EdgeRight out x y = (sint x \<le> sint (out_x out + RETURN_EDGE_MARGIN))"
| "return_edge_reached EdgeTop out x y =
     (sint y \<ge> sint (last_coordinate (out_y out) (out_height out) - RETURN_EDGE_MARGIN))"
| "return_edge_reached EdgeBottom out x y = (sint y \<le> sint (out_y out + RETURN_EDGE_MARGIN))"

definition output_rect :: "output_info \<Rightarrow> rect" where
  "output_rect out =
     \<lparr>rc_x = of_int (sint (out_x out)), rc_y = of_int (sint (out_y out)), rc_width = out_width out,
      rc_height = out_height out\<rparr>"

text \<open>\<open>cursor\<close> is what the system says of the cursor, None if it fails. A result is the event to send, if any.\<close>

definition release_if_at_edge ::
  "floats \<Rightarrow> instant \<Rightarrow> (i32 \<times> i32) option \<Rightarrow> windows_watcher \<Rightarrow> (unit, control_event option) result \<times> windows_watcher"
where
  "release_if_at_edge F now cursor w =
     (case (ww_entry_edge w, ww_output w) of
        (Some e, Some out) \<Rightarrow>
          if (case ww_entered_at w of Some entered \<Rightarrow> duration_since now entered < RETURN_EDGE_ENTRY_GRACE | None \<Rightarrow> False) \<or>
             int now - ww_last_poll w < int RETURN_EDGE_POLL_INTERVAL
          then (Ok None, w)
          else (let w1 = w\<lparr>ww_last_poll := int now\<rparr> in
                case cursor of
                  None \<Rightarrow> (Err (), w1)
                | Some (x, y) \<Rightarrow>
                    if \<not> return_edge_reached e out x y then (Ok None, w1\<lparr>ww_confirmations := 0\<rparr>)
                    else (let n = (if ww_confirmations w1 = - 1 then - 1 else ww_confirmations w1 + 1);
                              w2 = w1\<lparr>ww_confirmations := n\<rparr>
                          in if n < RETURN_EDGE_CONFIRMATIONS then (Ok None, w2)
                             else (Ok (Some (LeaveRemote e (normalized_perpendicular F e
                                     \<lparr>pt_x = of_int (sint x), pt_y = of_int (sint y)\<rparr> (output_rect out)))),
                                   forget_entry w2)))
      | _ \<Rightarrow> (Ok None, w))"

section \<open>State\<close>

text \<open>What does not change during a session: the peer, the libraries, and the local screen at the start.\<close>

record windows_peer =
  wp_session :: session_peer
  wp_library :: clipboard_library
  wp_floats :: floats
  wp_local_screen :: screen_info
  wp_clipboard :: clipboard_peer_features

record windows_env = session_env +
  we_active :: bool \<comment> \<open>whether input goes to the peer\<close>
  we_capture_ok :: bool
  we_tray_ok :: bool
  we_cursor :: "(i32 \<times> i32) option"
  we_udp_ok :: bool
  we_clipboard :: clipboard_env

text \<open>The audio is enabled when it has a source.\<close>

record windows_session =
  ws_liveness :: liveness_tracker
  ws_gate :: input_epoch_gate
  ws_ping :: heartbeat_ping
  ws_heartbeat_sequence :: u64
  ws_heartbeat_at :: instant
  ws_watcher :: windows_watcher
  ws_forwarding :: bool
  ws_paused :: bool
  ws_epoch :: u64
  ws_local_controller :: bool
  ws_coordinator :: role_coordinator
  ws_readiness :: "role_readiness option"
  ws_deadline :: "instant option"
  ws_persist :: "(u64 \<times> string) option"
  ws_clipboard :: live_clipboard
  ws_config :: clipboard_config
  ws_jitter_target_ms :: u16
  ws_audio_source :: "string option"
  ws_audio_sender :: bool
  ws_audio_receiver :: bool
  ws_audio_socket :: bool
  ws_audio_restarted :: bool

section \<open>Shared steps\<close>

definition windows_allowed :: "windows_session \<Rightarrow> bool" where
  "windows_allowed s = (ws_local_controller s \<and> ws_forwarding s \<and> \<not> ws_paused s)"

definition allow_capture :: "windows_session \<Rightarrow> windows_session prog \<Rightarrow> windows_session prog" where
  "allow_capture s k = act (AllowCapture (windows_allowed s)) k"

definition show_role :: "windows_env \<Rightarrow> windows_session prog \<Rightarrow> windows_session prog" where
  "show_role env k = (if we_tray_ok env then k else stop (ExitFault TrayFailed))"

definition windows_keys_up :: "windows_session \<Rightarrow> frame" where
  "windows_keys_up s = frame_input (ws_epoch s) AllKeysUp"

definition windows_input_active :: "windows_env \<Rightarrow> windows_session \<Rightarrow> bool" where
  "windows_input_active env s = (if ws_local_controller s then we_active env else gate_accepts_input (ws_gate s))"

definition drop_streams :: "windows_session \<Rightarrow> windows_session" where
  "drop_streams s = s\<lparr>ws_audio_receiver := False, ws_audio_sender := False, ws_audio_socket := False\<rparr>"

definition send_windows_audio_route :: "session_peer \<Rightarrow> windows_session \<Rightarrow> windows_session prog \<Rightarrow> windows_session prog" where
  "send_windows_audio_route p s k =
     send (FAudio (if sp_audio_route p then SetRoute (ws_audio_source s)
                   else SetEnabled (ws_audio_source s = Some (sp_peer p)))) k"

definition send_windows_audio_offer ::
  "windows_env \<Rightarrow> windows_session \<Rightarrow> (windows_session \<Rightarrow> windows_session prog) \<Rightarrow> windows_session prog" where
  "send_windows_audio_offer env s k =
     (case ev_socket env of
        None \<Rightarrow> stop (ExitFault NoSocket)
      | Some port \<Rightarrow> send (FAudio (Offer port [PcmS16Stereo48Khz])) (k (s\<lparr>ws_audio_socket := True\<rparr>)))"

definition windows_offer_if ::
  "bool \<Rightarrow> windows_env \<Rightarrow> windows_session \<Rightarrow> (windows_session \<Rightarrow> windows_session prog) \<Rightarrow> windows_session prog" where
  "windows_offer_if b env s k = (if b then send_windows_audio_offer env s k else k s)"

text \<open>What follows a change to another source, or to none.\<close>

definition change_windows_source ::
  "session_peer \<Rightarrow> windows_env \<Rightarrow> string option \<Rightarrow> bool \<Rightarrow> windows_session \<Rightarrow> windows_session prog" where
  "change_windows_source p env source offers s =
     (let s1 = drop_streams (s\<lparr>ws_audio_source := source\<rparr>)
      in attempt (SaveAudioRoute source) (ev_save_ok env) SaveFailed
           (send_windows_audio_route p s1 (windows_offer_if offers env s1 ret)))"

text \<open>A resumed session renews the audio.\<close>

definition resume_audio ::
  "session_peer \<Rightarrow> windows_env \<Rightarrow> windows_session \<Rightarrow> (windows_session \<Rightarrow> windows_session prog) \<Rightarrow> windows_session prog" where
  "resume_audio p env s k =
     (if ws_audio_source s = None then k s
      else send_windows_audio_route p s (windows_offer_if (ws_audio_source s = Some (sp_local p)) env s k))"

definition begin_windows_role_switch ::
  "session_peer \<Rightarrow> windows_env \<Rightarrow> string \<Rightarrow> windows_session \<Rightarrow> windows_session prog" where
  "begin_windows_role_switch p env requested s =
     (let role = coordinator_state (ws_coordinator s);
          propose = (\<lambda>s1. case prepare (ws_coordinator s1) requested of
              (Inl _, _) \<Rightarrow> stop (ExitFault RoleFault)
            | (Inr proposal, coordinator) \<Rightarrow>
                send (FRole (Prepare proposal))
                  (show_role env (ret (s1\<lparr>ws_coordinator := coordinator,
                    ws_readiness := Some \<lparr>rd_capture = True, rd_inject = True, rd_detail = None\<rparr>,
                    ws_deadline := Some (ev_now env + ROLE_DEADLINE)\<rparr>))))
      in if rs_controller_fingerprint role = Some (sp_local p)
         then act (AllowCapture False) (act ForceRelease
           (send_lossy (frame_input (rs_role_epoch role) AllKeysUp) (propose s)))
         else act KeysUp (propose (s\<lparr>ws_gate := gate_suspend (ws_gate s)\<rparr>)))"

definition windows_may_switch :: "session_peer \<Rightarrow> string \<Rightarrow> windows_session \<Rightarrow> bool" where
  "windows_may_switch p requested s =
     (\<not> ws_paused s \<and> role_switch_available p \<and> \<not> is_transitioning (ws_coordinator s) \<and>
      rs_controller_fingerprint (coordinator_state (ws_coordinator s)) \<noteq> Some requested)"

text \<open>The clipboard's part of an arm; a broken connection ends the session.\<close>

definition windows_clip ::
  "windows_peer \<Rightarrow> windows_env \<Rightarrow> clip_event \<Rightarrow> windows_session \<Rightarrow> (windows_session \<Rightarrow> windows_session prog)
     \<Rightarrow> windows_session prog" where
  "windows_clip p env event s k =
     clip_program (wp_library p) (ws_config s) (we_clipboard env) event (ws_clipboard s)
       (\<lambda>c. stop (ExitFault ConnectionFailed)) (\<lambda>c. k (s\<lparr>ws_clipboard := c\<rparr>)) (\<lambda>c. k (s\<lparr>ws_clipboard := c\<rparr>))"

section \<open>The start of a session\<close>

definition windows_state ::
  "windows_peer \<Rightarrow> windows_env \<Rightarrow> role_coordinator \<Rightarrow> role_state \<Rightarrow> bool \<Rightarrow> clipboard_config \<Rightarrow> string option \<Rightarrow> windows_session"
where
  "windows_state p env coordinator state forwarding cfg source =
     \<lparr>ws_liveness = the (liveness_new liveness_config_default (ev_now env)), ws_gate = gate_default,
      ws_ping = ping_default, ws_heartbeat_sequence = 0,
      ws_heartbeat_at = ev_now env + heartbeat_interval liveness_config_default False,
      ws_watcher = windows_watcher_new (ev_now env) (wp_local_screen p), ws_forwarding = forwarding,
      ws_paused = rs_paused state, ws_epoch = rs_role_epoch state,
      ws_local_controller = (rs_controller_fingerprint state = Some (sp_local (wp_session p))), ws_coordinator = coordinator,
      ws_readiness = None, ws_deadline = None, ws_persist = None,
      ws_clipboard = live_new (wp_library p) cfg (we_clipboard env) (wp_clipboard p), ws_config = cfg,
      ws_jitter_target_ms = sp_jitter_target_ms (wp_session p), ws_audio_source = source, ws_audio_sender = False,
      ws_audio_receiver = False, ws_audio_socket = False, ws_audio_restarted = False\<rparr>"

text \<open>\<open>state\<close> is the assignment already sent to the peer; \<open>stored\<close> is the stored audio route, None if the
  file cannot be read.\<close>

definition windows_start ::
  "windows_peer \<Rightarrow> windows_env \<Rightarrow> role_state \<Rightarrow> bool \<Rightarrow> clipboard_config \<Rightarrow> committed_audio_route option option
     \<Rightarrow> audio_route_preference option \<Rightarrow> bool \<Rightarrow> windows_session prog" where
  "windows_start p env state forwarding cfg stored preference enabled =
     (case coordinator_new (sp_local (wp_session p)) (sp_peer (wp_session p)) (rs_controller_fingerprint state) (rs_role_epoch state)
             (rs_listener_position state) (rs_paused state) of
        Inl _ \<Rightarrow> stop (ExitFault RoleFault)
      | Inr coordinator \<Rightarrow>
          if \<not> we_capture_ok env then stop (ExitFault CaptureFailed)
          else allow_capture (windows_state p env coordinator state forwarding cfg None)
            (show_role env
              (case stored of
                 None \<Rightarrow> stop (ExitFault LoadFailed)
               | Some found \<Rightarrow>
                   (let route = (case found of
                          Some r \<Rightarrow> if audio_route_belongs_to r (sp_local (wp_session p)) (sp_peer (wp_session p)) then Some r else None
                        | None \<Rightarrow> None);
                        source = initial_audio_source (wp_session p) route preference enabled;
                        s = windows_state p env coordinator state forwarding cfg source;
                        announce = (\<lambda>s1. if sp_input_toggle (wp_session p)
                          then send (frame_control (ws_epoch s1) (SetInputForwarding (ws_forwarding s1))) (ret s1)
                          else ret s1);
                        begin = (if ws_paused s then announce s
                          else send_windows_audio_route (wp_session p) s
                            (windows_offer_if (source = Some (sp_local (wp_session p))) env s announce))
                    in if route = None then attempt (SaveAudioRoute source) (ev_save_ok env) SaveFailed begin
                       else begin))))"


section \<open>Timers and local events\<close>

text \<open>The receiver's or the sender's failure, if it has finished. One restart is tried.\<close>

definition windows_audio_watch ::
  "session_peer \<Rightarrow> windows_env \<Rightarrow> bool \<Rightarrow> bool \<Rightarrow> windows_session \<Rightarrow> windows_session prog" where
  "windows_audio_watch p env receiver_finished sender_finished s =
     (let check_sender = (\<lambda>s1.
            if ws_audio_sender s1 \<and> sender_finished
            then (let s2 = s1\<lparr>ws_audio_sender := False\<rparr> in
                  if ws_audio_source s2 = Some (sp_local p) \<and> \<not> ws_audio_restarted s2
                  then send_windows_audio_offer env (s2\<lparr>ws_audio_restarted := True\<rparr>) ret else ret s2)
            else ret s1)
      in if ws_audio_receiver s \<and> receiver_finished
         then (let s1 = s\<lparr>ws_audio_receiver := False\<rparr> in
               if ws_audio_source s1 = Some (sp_peer p) \<and> \<not> ws_audio_restarted s1
               then (let s2 = s1\<lparr>ws_audio_restarted := True\<rparr> in send_windows_audio_route p s2 (check_sender s2))
               else send_lossy (FAudio (Stop StopTransportFailure)) (check_sender s1))
         else check_sender s)"

definition windows_poll :: "windows_env \<Rightarrow> windows_session \<Rightarrow> windows_session prog" where
  "windows_poll env s =
     (case poll (ws_liveness s) (ev_now env) (windows_input_active env s) of
        (event, liveness) \<Rightarrow>
          (let s1 = s\<lparr>ws_liveness := liveness\<rparr> in
           case event of
             Some SoftInputTimeout \<Rightarrow>
               if ws_local_controller s1 then act ForceRelease (ret s1)
               else act KeysUp (ret (s1\<lparr>ws_gate := gate_suspend (ws_gate s1)\<rparr>))
           | Some HardSessionTimeout \<Rightarrow> stop (ExitFault PeerSilent)
           | None \<Rightarrow> ret s1))"

definition windows_watchdog :: "windows_peer \<Rightarrow> windows_env \<Rightarrow> windows_session \<Rightarrow> windows_session prog" where
  "windows_watchdog q env s =
     (let rest = (\<lambda>s1. windows_clip q env ClipExpire s1 (windows_poll env));
          expired = ((case ws_deadline s of None \<Rightarrow> False | Some d \<Rightarrow> d \<le> ev_now env) \<and>
                     is_transitioning (ws_coordinator s))
      in if expired
         then (case abort (ws_coordinator s) HANDOVER_TIMEOUT of
                 (Inl _, _) \<Rightarrow> stop (ExitFault RoleFault)
               | (Inr aborted, coordinator) \<Rightarrow>
                   (let s1 = s\<lparr>ws_coordinator := coordinator, ws_deadline := None, ws_readiness := None\<rparr>
                    in send_lossy (FRole (Abort aborted)) (allow_capture s1 (show_role env (rest s1)))))
         else rest s)"

definition windows_heartbeat :: "windows_env \<Rightarrow> windows_session \<Rightarrow> windows_session prog" where
  "windows_heartbeat env s =
     (let sequence = ws_heartbeat_sequence s + 1
      in case outgoing (ws_ping s) sequence (ev_now env) of
           (heartbeat, ping) \<Rightarrow>
             send (FHeartbeat heartbeat)
               (ret (s\<lparr>ws_heartbeat_sequence := sequence, ws_ping := ping,
                  ws_heartbeat_at := ev_now env + heartbeat_interval liveness_config_default
                    (windows_input_active env s \<or> is_transitioning (ws_coordinator s))\<rparr>)))"

section \<open>The tray\<close>

datatype windows_tray_command =
    WtOpenSettings | WtPair | WtReleaseControl | WtDisconnect | WtReconnect | WtToggleInputForwarding
  | WtSetAudio audio_choice | WtSetController controller_choice | WtQuit

datatype tray_outcome =
    OutContinue | OutQuit | OutDisconnect | OutReconnect | OutPair | OutInputForwarding bool
  | OutAudio audio_choice | OutController controller_choice

text \<open>\<open>handle_pending_windows_tray_commands\<close>: it stops at the first command with an outcome, and leaves the rest in
  the queue.\<close>

fun pending_tray_commands ::
  "windows_tray_command list \<Rightarrow> bool \<Rightarrow> (tray_outcome \<Rightarrow> windows_tray_command list \<Rightarrow> 's prog) \<Rightarrow> 's prog" where
  "pending_tray_commands [] forwarding k = k OutContinue []"
| "pending_tray_commands (WtOpenSettings # cs) forwarding k = pending_tray_commands cs forwarding k"
| "pending_tray_commands (WtReleaseControl # cs) forwarding k = act TrayRelease (pending_tray_commands cs forwarding k)"
| "pending_tray_commands (WtPair # cs) forwarding k = k OutPair cs"
| "pending_tray_commands (WtDisconnect # cs) forwarding k = k OutDisconnect cs"
| "pending_tray_commands (WtReconnect # cs) forwarding k = k OutReconnect cs"
| "pending_tray_commands (WtToggleInputForwarding # cs) forwarding k = k (OutInputForwarding (\<not> forwarding)) cs"
| "pending_tray_commands (WtSetAudio choice # cs) forwarding k = k (OutAudio choice) cs"
| "pending_tray_commands (WtSetController choice # cs) forwarding k = k (OutController choice) cs"
| "pending_tray_commands (WtQuit # cs) forwarding k = k OutQuit cs"

definition stop_audio_if :: "audio_stop_reason \<Rightarrow> windows_session \<Rightarrow> windows_session prog \<Rightarrow> windows_session prog" where
  "stop_audio_if reason s k =
     (if ws_audio_source s \<noteq> None then send_lossy (FAudio (Stop reason)) k else k)"

definition windows_quit :: "windows_session \<Rightarrow> windows_session prog" where
  "windows_quit s = send_lossy (windows_keys_up s) (stop_audio_if StopShutdown s (stop ExitQuit))"

text \<open>Pausing here and by the peer: the capture is released and forbidden, and the peer's keys are let go.\<close>

definition enter_pause ::
  "role_coordinator \<Rightarrow> windows_session \<Rightarrow> (windows_session \<Rightarrow> windows_session prog) \<Rightarrow> windows_session prog" where
  "enter_pause coordinator s k =
     act (StorePause True) (act ForceRelease (act (AllowCapture False) (act KeysUp
       (k (s\<lparr>ws_coordinator := coordinator, ws_paused := True, ws_gate := gate_suspend (ws_gate s)\<rparr>)))))"

definition windows_disconnect :: "session_peer \<Rightarrow> windows_env \<Rightarrow> windows_session \<Rightarrow> windows_session prog" where
  "windows_disconnect p env s =
     (if role_switch_available p \<and> \<not> is_transitioning (ws_coordinator s)
      then (case set_paused (ws_coordinator s) True of
              (Inl _, _) \<Rightarrow> stop (ExitFault RoleFault)
            | (Inr _, coordinator) \<Rightarrow>
                enter_pause coordinator s
                  (\<lambda>s1. send (FRole (SetPaused True))
                    (stop_audio_if StopUserRequest s1 (show_role env (ret (drop_streams s1))))))
      else send_lossy (windows_keys_up s)
        (stop_audio_if StopUserRequest s (act ForceRelease (stop ExitDisconnect))))"

definition windows_reconnect :: "session_peer \<Rightarrow> windows_env \<Rightarrow> windows_session \<Rightarrow> windows_session prog" where
  "windows_reconnect p env s =
     (if \<not> role_switch_available p then ret s
      else (case set_paused (ws_coordinator s) False of
              (Inl _, _) \<Rightarrow> stop (ExitFault RoleFault)
            | (Inr _, coordinator) \<Rightarrow>
                (let s1 = s\<lparr>ws_coordinator := coordinator, ws_paused := False\<rparr>
                 in act (StorePause False) (send (FRole (SetPaused False)) (allow_capture s1
                      (resume_audio p env s1 (\<lambda>s2. show_role env (ret s2))))))))"

definition windows_toggle :: "session_peer \<Rightarrow> bool \<Rightarrow> windows_session \<Rightarrow> windows_session prog" where
  "windows_toggle p enabled s =
     (let set = (\<lambda>s1. let s2 = s1\<lparr>ws_forwarding := enabled\<rparr> in
            allow_capture s2
              (if sp_input_toggle p
               then send (frame_control (ws_epoch s2) (SetInputForwarding enabled)) (ret s2) else ret s2))
      in if enabled then set s
         else send (windows_keys_up s) (act KeysUp (set (s\<lparr>ws_gate := gate_suspend (ws_gate s)\<rparr>))))"

definition windows_set_audio ::
  "session_peer \<Rightarrow> windows_env \<Rightarrow> audio_choice \<Rightarrow> windows_session \<Rightarrow> windows_session prog" where
  "windows_set_audio p env choice s =
     (let change = (\<lambda>source. change_windows_source p env source (source = Some (sp_local p) \<and> \<not> ws_paused s)
            (s\<lparr>ws_audio_restarted := False\<rparr>))
      in case choice of
           AudioOff \<Rightarrow> change None
         | AudioLocal \<Rightarrow> if sp_audio_playback p \<and> sp_audio_route p then change (Some (sp_local p)) else ret s
         | AudioPeer \<Rightarrow> if sp_audio_capture p then change (Some (sp_peer p)) else ret s)"

fun windows_tray_outcome :: "session_peer \<Rightarrow> windows_env \<Rightarrow> tray_outcome \<Rightarrow> windows_session \<Rightarrow> windows_session prog" where
  "windows_tray_outcome p env OutContinue s = ret s"
| "windows_tray_outcome p env OutQuit s = windows_quit s"
| "windows_tray_outcome p env OutDisconnect s = windows_disconnect p env s"
| "windows_tray_outcome p env OutReconnect s = windows_reconnect p env s"
| "windows_tray_outcome p env OutPair s = send_lossy (windows_keys_up s) (act ForceRelease (stop ExitPair))"
| "windows_tray_outcome p env (OutInputForwarding enabled) s = windows_toggle p enabled s"
| "windows_tray_outcome p env (OutAudio choice) s = windows_set_audio p env choice s"
| "windows_tray_outcome p env (OutController choice) s =
     (let requested = (case choice of ChooseLocal \<Rightarrow> sp_local p | ChoosePeer \<Rightarrow> sp_peer p)
      in if windows_may_switch p requested s then begin_windows_role_switch p env requested s else ret s)"

definition windows_tray ::
  "session_peer \<Rightarrow> windows_env \<Rightarrow> windows_tray_command list \<Rightarrow> windows_session \<Rightarrow> windows_session prog" where
  "windows_tray p env commands s =
     pending_tray_commands commands (ws_forwarding s) (\<lambda>outcome rest. windows_tray_outcome p env outcome s)"

section \<open>Captured input\<close>

fun frame_with_role_epoch :: "frame \<Rightarrow> u64 \<Rightarrow> frame" where
  "frame_with_role_epoch (FInput i) epoch = FInput (i\<lparr>if_role_epoch := epoch\<rparr>)"
| "frame_with_role_epoch (FControl c) epoch = FControl (c\<lparr>cf_role_epoch := epoch\<rparr>)"
| "frame_with_role_epoch f epoch = f"

definition windows_live_input :: "windows_peer \<Rightarrow> windows_env \<Rightarrow> frame option \<Rightarrow> windows_session \<Rightarrow> windows_session prog" where
  "windows_live_input q env event s =
     (case event of
        Some f \<Rightarrow>
          if windows_allowed s
          then windows_clip q env (ClipInput (frame_with_role_epoch f (ws_epoch s))) s ret
          else ret s
      | None \<Rightarrow> ret s)"


section \<open>Frames\<close>

text \<open>An injected motion may bring the cursor back to the edge it came from.\<close>

definition windows_injected :: "windows_peer \<Rightarrow> windows_env \<Rightarrow> input_event \<Rightarrow> windows_session \<Rightarrow> windows_session prog" where
  "windows_injected q env event s =
     (case event of
        PointerMotion _ _ \<Rightarrow>
          (case release_if_at_edge (wp_floats q) (ev_now env) (we_cursor env) (ws_watcher s) of
             (Inl _, watcher) \<Rightarrow> stop (ExitFault CursorFailed)
           | (Inr None, watcher) \<Rightarrow> ret (s\<lparr>ws_watcher := watcher\<rparr>)
           | (Inr (Some control), watcher) \<Rightarrow>
               act KeysUp (send (frame_control (ws_epoch s) control)
                 (ret (s\<lparr>ws_watcher := watcher, ws_gate := gate_suspend (ws_gate s)\<rparr>))))
      | _ \<Rightarrow> ret s)"

definition windows_input :: "windows_peer \<Rightarrow> windows_env \<Rightarrow> input_frame \<Rightarrow> windows_session \<Rightarrow> windows_session prog" where
  "windows_input q env input s =
     (if if_role_epoch input \<noteq> ws_epoch s \<or> ws_local_controller s \<or> ws_paused s then ret s
      else if if_event input = AllKeysUp then attempt KeysUp (ev_keys_up_ok env) InjectorFailed (ret s)
      else if \<not> ws_forwarding s \<or> \<not> gate_accepts_input (ws_gate s) then ret s
      else attempt (Inject (if_event input)) (ev_inject_ok env) InjectorFailed
        (windows_injected q env (if_event input) s))"

definition windows_control :: "session_peer \<Rightarrow> windows_env \<Rightarrow> control_frame \<Rightarrow> windows_session \<Rightarrow> windows_session prog" where
  "windows_control p env control s =
     (if cf_role_epoch control \<noteq> ws_epoch s then ret s
      else (case cf_event control of
              ReleaseToLocal reason \<Rightarrow> if ws_local_controller s then act (PeerRelease reason) (ret s) else ret s
            | LeaveRemote _ _ \<Rightarrow> if ws_local_controller s then act (PeerRelease UserRequest) (ret s) else ret s
            | SetInputForwarding enabled \<Rightarrow>
                if sp_input_toggle p
                then (let s1 = s\<lparr>ws_forwarding := enabled,
                        ws_watcher := windows_record_control (ev_now env) (SetInputForwarding enabled) (ws_watcher s)\<rparr>
                      in allow_capture s1
                        (if enabled then ret s1
                         else act KeysUp (ret (s1\<lparr>ws_gate := gate_suspend (ws_gate s1)\<rparr>))))
                else ret s
            | EnterRemote e position \<Rightarrow>
                if \<not> ws_local_controller s
                then ret (s\<lparr>ws_gate := gate_observe_control (ws_gate s) (EnterRemote e position),
                      ws_watcher := windows_record_control (ev_now env) (EnterRemote e position) (ws_watcher s)\<rparr>)
                else ret s))"

definition windows_audio_offered ::
  "session_peer \<Rightarrow> windows_env \<Rightarrow> u16 \<Rightarrow> audio_codec list \<Rightarrow> windows_session \<Rightarrow> windows_session prog" where
  "windows_audio_offered p env udp_port codecs s =
     (if ws_audio_source s \<noteq> Some (sp_peer p) \<or> PcmS16Stereo48Khz \<notin> set codecs then ret s
      else (case ev_socket env of
              None \<Rightarrow> ret s
            | Some port \<Rightarrow>
                (case ev_secrets env of (session_id, session_salt, session_key) \<Rightarrow>
                   send (FAudio (Start port session_id session_salt session_key PcmS16Stereo48Khz FRAME_MS
                       (ws_jitter_target_ms s)))
                     (act (StartAudioReceiver udp_port)
                       (case ev_audio_error env of
                          None \<Rightarrow> ret (s\<lparr>ws_audio_receiver := True\<rparr>)
                        | Some e \<Rightarrow> send_lossy (FAudio (Stop StopPlaybackFailure)) (ret s))))))"

definition windows_audio_started :: "session_peer \<Rightarrow> windows_env \<Rightarrow> windows_session \<Rightarrow> windows_session prog" where
  "windows_audio_started p env s =
     (if ws_audio_source s \<noteq> Some (sp_local p) \<or> \<not> ws_audio_socket s then ret s
      else (let s1 = s\<lparr>ws_audio_socket := False\<rparr> in
            if \<not> we_udp_ok env then ret s1
            else (case ev_audio_error env of
                    None \<Rightarrow> send (audio_state_frame AudioStreaming None) (ret (s1\<lparr>ws_audio_sender := True\<rparr>))
                  | Some e \<Rightarrow> send_lossy (FAudio (Stop StopCaptureFailure)) (ret s1))))"

fun windows_audio :: "session_peer \<Rightarrow> windows_env \<Rightarrow> audio_control \<Rightarrow> windows_session \<Rightarrow> windows_session prog" where
  "windows_audio p env (Offer udp_port codecs) s = windows_audio_offered p env udp_port codecs s"
| "windows_audio p env (Start udp_port session_id session_salt session_key codec frame_ms jitter) s =
     windows_audio_started p env s"
| "windows_audio p env (RequestRoute source) s =
     (if valid_source p source
      then change_windows_source p env source (source = Some (sp_local p) \<and> \<not> ws_paused s) s
      else send_windows_audio_route p s (ret s))"
| "windows_audio p env (SetRoute source) s = ret s"
| "windows_audio p env (AudioState state detail) s =
     (if state = AudioError \<and> ws_audio_source s = Some (sp_local p) \<and> \<not> ws_audio_restarted s \<and> \<not> ws_paused s
      then send_windows_audio_offer env (s\<lparr>ws_audio_restarted := True, ws_audio_sender := False\<rparr>) ret
      else ret s)"
| "windows_audio p env (Stop reason) s = ret (drop_streams s)"
| "windows_audio p env (SetEnabled enabled) s =
     change_windows_source p env (if enabled then Some (sp_peer p) else None) False s"

definition windows_ready ::
  "session_peer \<Rightarrow> windows_env \<Rightarrow> u64 \<Rightarrow> bool \<Rightarrow> bool \<Rightarrow> string option \<Rightarrow> windows_session \<Rightarrow> windows_session prog" where
  "windows_ready p env epoch capture inject detail s =
     (case ws_readiness s of
        None \<Rightarrow> ret s
      | Some local \<Rightarrow>
          (case finish_ready (ws_coordinator s) epoch (rd_capture local) (rd_inject local) capture inject
                  (case detail of Some d \<Rightarrow> Some d | None \<Rightarrow> rd_detail local) of
             (Inl (UnexpectedEpoch _ _), _) \<Rightarrow> ret (s\<lparr>ws_deadline := Some (ev_now env + ROLE_DEADLINE)\<rparr>)
           | (Inl _, _) \<Rightarrow> stop (ExitFault RoleFault)
           | (Inr decision, coordinator) \<Rightarrow>
               (let s1 = s\<lparr>ws_coordinator := coordinator, ws_readiness := None, ws_deadline := None\<rparr> in
                case decision of
                  AbortDecision aborted \<Rightarrow>
                    allow_capture s1 (send (FRole (Abort aborted)) (show_role env (ret s1)))
                | CommitDecision commit \<Rightarrow>
                    (case rs_controller_fingerprint commit of
                       None \<Rightarrow> stop (ExitFault RoleFault)
                     | Some controller \<Rightarrow>
                         send (FRole (Commit commit))
                           (let s2 = s1\<lparr>ws_persist := Some (rs_role_epoch commit, controller),
                                        ws_epoch := rs_role_epoch commit,
                                        ws_local_controller := (controller = sp_local p),
                                        ws_gate := gate_suspend (ws_gate s1)\<rparr>
                            in act KeysUp (allow_capture s2 (show_role env (ret s2))))))))"

definition windows_applied :: "windows_env \<Rightarrow> u64 \<Rightarrow> windows_session \<Rightarrow> windows_session prog" where
  "windows_applied env epoch s =
     (case ws_persist s of
        None \<Rightarrow> ret s
      | Some (expected, controller) \<Rightarrow>
          if epoch \<noteq> expected \<or> epoch \<noteq> ws_epoch s then ret s
          else attempt (SaveRole controller) (ev_save_ok env) SaveFailed (ret (s\<lparr>ws_persist := None\<rparr>)))"

definition windows_set_paused :: "session_peer \<Rightarrow> windows_env \<Rightarrow> bool \<Rightarrow> windows_session \<Rightarrow> windows_session prog" where
  "windows_set_paused p env paused s =
     (if is_transitioning (ws_coordinator s) then ret s
      else (case set_paused (ws_coordinator s) paused of
              (Inl _, _) \<Rightarrow> stop (ExitFault RoleFault)
            | (Inr _, coordinator) \<Rightarrow>
                (let answer = (\<lambda>s1. send (FRole (SetPaused paused)) (show_role env (ret s1)))
                 in if paused then enter_pause coordinator s (\<lambda>s1. answer (drop_streams s1))
                    else (let s1 = s\<lparr>ws_coordinator := coordinator, ws_paused := False\<rparr>
                          in act (StorePause False) (allow_capture s1 (resume_audio p env s1 answer))))))"

fun windows_role :: "session_peer \<Rightarrow> windows_env \<Rightarrow> role_event \<Rightarrow> windows_session \<Rightarrow> windows_session prog" where
  "windows_role p env (RoleRequest fp) s =
     (if windows_may_switch p fp s \<and> (fp = sp_local p \<or> fp = sp_peer p)
      then begin_windows_role_switch p env fp s else ret s)"
| "windows_role p env (Ready epoch capture inject detail) s = windows_ready p env epoch capture inject detail s"
| "windows_role p env (Applied epoch) s = windows_applied env epoch s"
| "windows_role p env (SetPaused paused) s = windows_set_paused p env paused s"
| "windows_role p env (SessionState state) s = ret s"
| "windows_role p env (Prepare proposal) s = ret s"
| "windows_role p env (Commit commit) s = ret s"
| "windows_role p env (Abort aborted) s = ret s"

text \<open>An error of the clipboard is logged, also when it is one of the connection.\<close>

definition windows_clipboard_frame :: "windows_peer \<Rightarrow> windows_env \<Rightarrow> clipboard_event \<Rightarrow> windows_session \<Rightarrow> windows_session prog" where
  "windows_clipboard_frame q env event s =
     (if ws_paused s then ret s
      else (let k = (\<lambda>c. ret (s\<lparr>ws_clipboard := c\<rparr>))
            in handle_remote_event (wp_library q) (ws_config s) (we_clipboard env) event (ws_clipboard s) k k k))"

fun windows_handle :: "windows_peer \<Rightarrow> windows_env \<Rightarrow> frame \<Rightarrow> windows_session \<Rightarrow> windows_session prog" where
  "windows_handle q env (FHeartbeat heartbeat) s =
     (case incoming (ws_ping s) heartbeat (ev_now env) of
        (Some echo, ping) \<Rightarrow> send (FHeartbeat echo) (ret (s\<lparr>ws_ping := ping\<rparr>))
      | (None, ping) \<Rightarrow> ret (s\<lparr>ws_ping := ping\<rparr>))"
| "windows_handle q env (FInput input) s = windows_input q env input s"
| "windows_handle q env (FClipboard event) s = windows_clipboard_frame q env event s"
| "windows_handle q env (FControl control) s = windows_control (wp_session q) env control s"
| "windows_handle q env (FRole event) s = windows_role (wp_session q) env event s"
| "windows_handle q env (FError e) s = stop (ExitFault (PeerError (re_code e @ '': '' @ re_message e)))"
| "windows_handle q env (FAudio control) s = windows_audio (wp_session q) env control s"
| "windows_handle q env _ s = ret s"

definition windows_frame :: "windows_peer \<Rightarrow> windows_env \<Rightarrow> frame \<Rightarrow> windows_session \<Rightarrow> windows_session prog" where
  "windows_frame q env frame s =
     windows_handle q env frame (s\<lparr>ws_liveness := observe_authenticated_frame (ws_liveness s) (ev_now env)\<rparr>)"

section \<open>The loop\<close>

datatype windows_event =
    WQuitSignal
  | WAudioWatch bool bool
  | WConfig clipboard_config u16 \<comment> \<open>the config was read again\<close>
  | WWatchdog
  | WHeartbeat
  | WClipboardPoll
  | WClipboardRead "clipboard_item option option"
  | WTray "windows_tray_command list"
  | WInput "frame option"
  | WDelayed clipboard_event
  | WFrame frame
  | WFrameEnd
  | WClipboardBulk
  | WClipboardTick

fun windows_program :: "windows_peer \<Rightarrow> windows_env \<Rightarrow> windows_event \<Rightarrow> windows_session \<Rightarrow> windows_session prog" where
  "windows_program q env WQuitSignal s = windows_quit s"
| "windows_program q env (WAudioWatch receiver sender) s = windows_audio_watch (wp_session q) env receiver sender s"
| "windows_program q env (WConfig cfg jitter) s = ret (s\<lparr>ws_config := cfg, ws_jitter_target_ms := jitter\<rparr>)"
| "windows_program q env WWatchdog s = windows_watchdog q env s"
| "windows_program q env WHeartbeat s = windows_heartbeat env s"
| "windows_program q env WClipboardPoll s = (if ws_paused s then ret s else windows_clip q env ClipPoll s ret)"
| "windows_program q env (WClipboardRead result) s =
     (if ws_paused s then ret (s\<lparr>ws_clipboard := snd (finished_local_read (ws_clipboard s))\<rparr>)
      else windows_clip q env (ClipRead result) s ret)"
| "windows_program q env (WTray commands) s = windows_tray (wp_session q) env commands s"
| "windows_program q env (WInput event) s = windows_live_input q env event s"
| "windows_program q env (WDelayed request) s = (if ws_paused s then ret s else send (FClipboard request) (ret s))"
| "windows_program q env (WFrame frame) s = windows_frame q env frame s"
| "windows_program q env WFrameEnd s = stop (ExitFault ReaderEnded)"
| "windows_program q env WClipboardBulk s = (if ws_paused s then ret s else windows_clip q env ClipBulk s ret)"
| "windows_program q env WClipboardTick s = (if ws_paused s then ret s else windows_clip q env ClipTick s ret)"

type_synonym windows_step_input = "windows_env \<times> nat \<times> windows_event"

definition windows_step ::
  "windows_peer \<Rightarrow> windows_session \<Rightarrow> windows_step_input \<Rightarrow> windows_session session_outcome \<times> effect list" where
  "windows_step q s i = windows_program q (fst i) (snd (snd i)) s (fst (snd i))"

definition windows_run ::
  "windows_peer \<Rightarrow> windows_session \<Rightarrow> windows_step_input list \<Rightarrow> windows_session session_outcome \<times> effect list" where
  "windows_run q = loop_run (windows_step q)"

text \<open>What follows, whatever ended the loop: the injector is dropped, and \<open>run_connected\<close> releases the capture.\<close>

definition windows_cleanup :: "effect list" where
  "windows_cleanup = [KeysUp, ForceRelease]"

end
