(* ===== verification/WindowsSafety.thy ===== *)
theory WindowsSafety
  imports WindowsSession
begin

text \<open>
  What holds of the Windows controller's session: its assignment is the coordinator's, nothing the peer pressed stays
  held, and the capture is allowed only while this computer controls.
\<close>

section \<open>The clipboard inside a session\<close>

text \<open>A condition on the state and the effects that does not look at what the clipboard does is kept by it, if it is
  kept by whatever follows.\<close>

fun clip_effect :: "effect \<Rightarrow> bool" where
  "clip_effect (Send (FClipboard _)) = True"
| "clip_effect (DelayRequest _) = True"
| "clip_effect (WriteText _) = True"
| "clip_effect (WriteImage _) = True"
| "clip_effect _ = False"

locale clip_neutral =
  fixes P :: "'s \<Rightarrow> effect list \<Rightarrow> bool" and passes :: "frame \<Rightarrow> bool"
  assumes neutral: "clip_effect a \<Longrightarrow> P s (a # acts) = P s acts"
    and passing: "passes f \<Longrightarrow> P s (Send f # acts) = P s acts"
begin

lemma wp_neutral [simp]: "clip_effect a \<Longrightarrow> wp (\<lambda>s acts. P s (a # acts)) k = wp P k"
  by (simp add: neutral)

lemma wp_passing [simp]: "passes f \<Longrightarrow> wp (\<lambda>s acts. P s (Send f # acts)) k = wp P k"
  by (simp add: passing)

lemma wp_send_clip [simp]:
  assumes "wp P k" "wp P br"
  shows "wp P (send_else (FClipboard e) br k)"
  using assms by (auto intro!: wp_send_else simp: wp_neutral)

lemma wp_act_clip [simp]: "clip_effect a \<Longrightarrow> wp P k \<Longrightarrow> wp P (act a k)"
  by (simp add: wp_neutral)

definition clip_only :: "frame list \<Rightarrow> bool" where
  "clip_only fs = list_all (\<lambda>f. passes f \<or> (\<exists>e. f = FClipboard e)) fs"

lemma wp_send_any:
  assumes "wp P k" "wp P br" "passes f \<or> (\<exists>e. f = FClipboard e)"
  shows "wp P (send_else f br k)"
  using assms by (auto intro!: wp_send_else simp: wp_neutral wp_passing)

lemma wp_send_list: "wp P k \<Longrightarrow> wp P br \<Longrightarrow> clip_only fs \<Longrightarrow> wp P (send_frames fs br k)"
  by (induction fs) (simp_all add: clip_only_def wp_send_any)

lemma wp_send_inputs:
  assumes "clip_only fs" "\<And>c. wp P (br c)" "\<And>c. wp P (k c)"
  shows "wp P (send_input_frames cfg fs c br k)"
  using assms(1)
proof (induction fs arbitrary: c)
  case (Cons f fs)
  then have "wp P (delayed_request r (send_input_frames cfg fs c1 br k))" for r c1
    by (cases r) (simp_all add: delayed_request_def clip_only_def)
  then show ?case
    using Cons.prems assms(2) by (auto simp: clip_only_def intro!: wp_send_any split: prod.split)
qed (simp add: assms(3))

lemma clip_only_offer: "clip_only (fst (offer_item lib cfg current force c))"
  by (auto simp: clip_only_def offer_item_def push_text_offer_def replace_outgoing_def Let_def
      split: prod.split option.split clipboard_item.split)

lemma clip_only_offered: "offer_item lib cfg current force c = (fs, c1) \<Longrightarrow> clip_only fs"
  using clip_only_offer [of lib cfg current force c] by simp

lemma wp_apply_remote:
  assumes "clip_effect write" "\<And>c. wp P (br c)" "\<And>c. wp P (fl c)" "\<And>c. wp P (k c)"
  shows "wp P (apply_remote lib cfg env remote_id write c br fl k)"
  using assms
  by (auto simp: apply_remote_def prefer_newer_local_def Let_def intro!: wp_send_list
      dest: clip_only_offered split: option.split prod.split)

lemma wp_release:
  assumes "clip_only (lc_held c)" "\<And>c. wp P (br c)" "\<And>c. wp P (k c)"
  shows "wp P (release_held cfg c br k)"
  using assms wp_send_inputs by (simp add: release_held_def take_held_input_def)

lemma wp_transfer:
  assumes "clip_only (lc_held c)" "\<And>c. wp P (br c)" "\<And>c. wp P (fl c)" "\<And>c. wp P (k c)"
  shows "wp P (handle_transfer lib cfg env event c br fl k)"
  using assms
  by (auto simp: handle_transfer_def apply_remote_text_def cancel_frame_def Let_def
      intro!: wp_apply_remote wp_release split: option.split prod.split sum.split clipboard_item.split)

lemma wp_remote_event:
  assumes "clip_only (lc_held c)" "\<And>c. wp P (br c)" "\<And>c. wp P (fl c)" "\<And>c. wp P (k c)"
  shows "wp P (handle_remote_event lib cfg env event c br fl k)"
proof -
  have offers: "wp P (case offer_item lib cfg current True c of (frames, c1) \<Rightarrow> send_frames frames (br c1) (k c1))" for current
    using assms(2,4) by (auto intro!: wp_send_list dest: clip_only_offered split: prod.split)
  show ?thesis
    using assms offers wp_transfer [OF assms]
    by (cases event) (auto simp: apply_remote_text_def intro!: wp_apply_remote split: option.split)
qed

lemma wp_chunk:
  assumes "clip_only (lc_held c)" "\<And>c. wp P (br c)" "\<And>c. wp P (k c)"
  shows "wp P (send_chunk cfg c br k)"
proof -
  obtain r c1 where nxt: "next_image_frame c = (r, c1)"
    by fastforce
  have held: "clip_only (lc_held c1)" and clip: "\<And>f b. r = Some (f, b) \<Longrightarrow> \<exists>e. f = FClipboard e"
    using nxt assms(1) by (auto simp: next_image_frame_def Let_def split: option.splits prod.splits if_splits)
  show ?thesis
  proof (cases r)
    case None
    then show ?thesis
      using nxt assms(3) by (simp add: send_chunk_def)
  next
    case (Some x)
    then obtain e b where "r = Some (FClipboard e, b)"
      using clip by (cases x) auto
    then show ?thesis
      using nxt assms(2,3) wp_release [OF held assms(2,3)] by (simp add: send_chunk_def)
  qed
qed

lemma wp_tick:
  assumes "clip_only (lc_held c)" "\<And>c. wp P (br c)" "\<And>c. wp P (k c)"
  shows "wp P (send_tick cfg env c br k)"
  using assms wp_chunk [OF assms]
  by (auto simp: send_tick_def cancel_expired_paste_barrier_def intro!: wp_send_clip wp_release split: option.split)

lemma wp_read:
  assumes "\<And>c. wp P (br c)" "\<And>c. wp P (k c)"
  shows "wp P (read_arm lib cfg result c br k)"
  using assms
  by (auto simp: read_arm_def complete_local_read_def clip_only_def [of "[]"] intro!: wp_send_list
      dest: clip_only_offered split: prod.splits option.splits if_splits)

lemma wp_expire:
  assumes "\<And>c. wp P (br c)" "\<And>c. wp P (k c)"
  shows "wp P (expire_arm env c br k)"
  using assms by (simp add: expire_arm_def cancel_frame_def Let_def split: prod.split option.split)

lemma wp_input:
  assumes "clip_only (fst (prepare_input lib cfg env f c))" "\<And>c. wp P (br c)" "\<And>c. wp P (k c)"
  shows "wp P (input_arm lib cfg env f c br k)"
  using assms by (auto simp: input_arm_def intro!: wp_send_inputs split: prod.splits)

lemma wp_clip:
  assumes "clip_only (lc_held c)" "\<And>f. event = ClipInput f \<Longrightarrow> clip_only (fst (prepare_input lib cfg env f c))"
    "\<And>c. wp P (br c)" "\<And>c. wp P (fl c)" "\<And>c. wp P (k c)"
  shows "wp P (clip_program lib cfg env event c br fl k)"
proof (cases event)
  case (ClipInput f)
  then show ?thesis
    using assms by (simp add: wp_input)
next
  case (ClipRemote e)
  then show ?thesis
    using wp_remote_event [of c br fl k] assms by simp
qed (use assms in \<open>simp_all add: wp_read wp_chunk wp_tick wp_expire del: handle_remote_event.simps\<close>)

end


section \<open>The invariant\<close>

definition windows_assigned :: "session_peer \<Rightarrow> windows_session \<Rightarrow> bool" where
  "windows_assigned p s \<longleftrightarrow>
     (let c = ws_coordinator s in
      coordinator_wf c \<and> rc_connector_fingerprint c = sp_local p \<and> rc_listener_fingerprint c = sp_peer p \<and>
      ws_epoch s = rs_role_epoch (rc_stable c) \<and>
      ws_local_controller s = (rs_controller_fingerprint (rc_stable c) = Some (sp_local p)) \<and>
      ws_paused s = rs_paused (rc_stable c) \<and>
      (ws_readiness s \<noteq> None) = (rc_pending c \<noteq> None) \<and>
      (ws_deadline s \<noteq> None) = (rc_pending c \<noteq> None) \<and>
      (rc_pending c \<noteq> None \<longrightarrow> \<not> ws_paused s))"

lemma windows_assigned_updates [simp]:
  "windows_assigned p (s\<lparr>ws_liveness := x1\<rparr>) = windows_assigned p s"
  "windows_assigned p (s\<lparr>ws_gate := x2\<rparr>) = windows_assigned p s"
  "windows_assigned p (s\<lparr>ws_ping := x3\<rparr>) = windows_assigned p s"
  "windows_assigned p (s\<lparr>ws_heartbeat_sequence := x4\<rparr>) = windows_assigned p s"
  "windows_assigned p (s\<lparr>ws_heartbeat_at := x5\<rparr>) = windows_assigned p s"
  "windows_assigned p (s\<lparr>ws_watcher := x6\<rparr>) = windows_assigned p s"
  "windows_assigned p (s\<lparr>ws_forwarding := b1\<rparr>) = windows_assigned p s"
  "windows_assigned p (s\<lparr>ws_persist := x7\<rparr>) = windows_assigned p s"
  "windows_assigned p (s\<lparr>ws_clipboard := x8\<rparr>) = windows_assigned p s"
  "windows_assigned p (s\<lparr>ws_config := x9\<rparr>) = windows_assigned p s"
  "windows_assigned p (s\<lparr>ws_jitter_target_ms := x10\<rparr>) = windows_assigned p s"
  "windows_assigned p (s\<lparr>ws_audio_source := x11\<rparr>) = windows_assigned p s"
  "windows_assigned p (s\<lparr>ws_audio_sender := b2\<rparr>) = windows_assigned p s"
  "windows_assigned p (s\<lparr>ws_audio_receiver := b3\<rparr>) = windows_assigned p s"
  "windows_assigned p (s\<lparr>ws_audio_socket := b4\<rparr>) = windows_assigned p s"
  "windows_assigned p (s\<lparr>ws_audio_restarted := b5\<rparr>) = windows_assigned p s"
  by (simp_all add: windows_assigned_def)

lemmas windows_assigned_parts = windows_assigned_def coordinator_wf_def in_pair_def Let_def

text \<open>The calls of the coordinator, with what the handlers do to the rest of the state.\<close>

lemma windows_abort_ok:
  assumes "windows_assigned p s" "abort (ws_coordinator s) detail = (Ok a, c)"
  shows "windows_assigned p (s\<lparr>ws_coordinator := c, ws_deadline := None, ws_readiness := None\<rparr>)"
  using assms by (auto simp: windows_assigned_parts abort_def split: option.splits)

lemma windows_prepare_ok:
  assumes "windows_assigned p s" "\<not> ws_paused s" "prepare (ws_coordinator s) fp = (Ok q, c)"
  shows "windows_assigned p (s\<lparr>ws_coordinator := c, ws_readiness := Some r, ws_deadline := Some d\<rparr>)"
  using assms by (auto simp: windows_assigned_parts prepare_def split: option.splits if_splits)

lemma windows_pause_ok:
  assumes "windows_assigned p s" "set_paused (ws_coordinator s) b = (Ok q, c)"
  shows "windows_assigned p (s\<lparr>ws_coordinator := c, ws_paused := b\<rparr>)"
  using assms by (auto simp: windows_assigned_parts set_paused_def split: if_splits)

lemma windows_late_ok:
  assumes "windows_assigned p s" "ws_readiness s \<noteq> None"
  shows "windows_assigned p (s\<lparr>ws_deadline := Some d\<rparr>)"
  using assms by (auto simp: windows_assigned_def Let_def)

lemma windows_abort_decision:
  assumes "windows_assigned p s" "finish_ready (ws_coordinator s) e lc li rc ri d = (Ok (AbortDecision a), c)"
  shows "windows_assigned p (s\<lparr>ws_coordinator := c, ws_readiness := None, ws_deadline := None\<rparr>)"
  using assms by (auto simp: windows_assigned_parts finish_ready_def split: option.splits if_splits)

lemma windows_commit_decision:
  assumes "windows_assigned p s" "finish_ready (ws_coordinator s) e lc li rc ri d = (Ok (CommitDecision q), c)"
    "rs_controller_fingerprint q = Some fp"
  shows "windows_assigned p (s\<lparr>ws_coordinator := c, ws_readiness := None, ws_deadline := None,
    ws_epoch := rs_role_epoch q, ws_local_controller := (fp = sp_local p)\<rparr>)"
  using assms by (auto simp: windows_assigned_parts finish_ready_def split: option.splits if_splits)

text \<open>What the peer's keys and the capture look like from the effects: the keys it holds here, and whether the
  capture is allowed.\<close>

type_synonym windows_seen = "held_input set \<times> bool"

fun windows_see :: "windows_seen \<Rightarrow> effect \<Rightarrow> windows_seen" where
  "windows_see (h, a) (AllowCapture b) = (h, b)"
| "windows_see (h, a) e = (press h e, a)"

definition windows_closed :: "windows_session \<Rightarrow> bool" where
  "windows_closed s \<longleftrightarrow> ws_paused s \<or> ws_local_controller s \<or> \<not> ws_forwarding s \<or> ig_suspended (ws_gate s)"

definition windows_ok :: "session_peer \<Rightarrow> windows_seen \<Rightarrow> windows_session \<Rightarrow> bool" where
  "windows_ok p x s \<longleftrightarrow> windows_assigned p s \<and> (windows_closed s \<longrightarrow> fst x = {}) \<and> (snd x \<longrightarrow> windows_allowed s)"

lemma windows_see_neutral [simp]:
  "windows_see x (Send f) = x" "windows_see x ForceRelease = x" "windows_see x (PeerRelease r) = x"
  "windows_see x TrayRelease = x" "windows_see x (StorePause b) = x" "windows_see x (SaveAudioRoute q) = x"
  "windows_see x (SaveRole q') = x" "windows_see x (StartAudioReceiver n) = x"
  "windows_see x KeysUp = ({}, snd x)" "windows_see x (AllowCapture b') = (fst x, b')"
  "clip_effect e \<Longrightarrow> windows_see x e = x"
  by (cases x; simp; fail)+ (cases x; cases e; simp)

lemma windows_ok_updates [simp]:
  "windows_ok p x (s\<lparr>ws_liveness := x1\<rparr>) = windows_ok p x s"
  "windows_ok p x (s\<lparr>ws_ping := x3\<rparr>) = windows_ok p x s"
  "windows_ok p x (s\<lparr>ws_heartbeat_sequence := x4\<rparr>) = windows_ok p x s"
  "windows_ok p x (s\<lparr>ws_heartbeat_at := x5\<rparr>) = windows_ok p x s"
  "windows_ok p x (s\<lparr>ws_watcher := x6\<rparr>) = windows_ok p x s"
  "windows_ok p x (s\<lparr>ws_persist := x7\<rparr>) = windows_ok p x s"
  "windows_ok p x (s\<lparr>ws_clipboard := x8\<rparr>) = windows_ok p x s"
  "windows_ok p x (s\<lparr>ws_config := x9\<rparr>) = windows_ok p x s"
  "windows_ok p x (s\<lparr>ws_jitter_target_ms := x10\<rparr>) = windows_ok p x s"
  "windows_ok p x (s\<lparr>ws_audio_source := x11\<rparr>) = windows_ok p x s"
  "windows_ok p x (s\<lparr>ws_audio_sender := b2\<rparr>) = windows_ok p x s"
  "windows_ok p x (s\<lparr>ws_audio_receiver := b3\<rparr>) = windows_ok p x s"
  "windows_ok p x (s\<lparr>ws_audio_socket := b4\<rparr>) = windows_ok p x s"
  "windows_ok p x (s\<lparr>ws_audio_restarted := b5\<rparr>) = windows_ok p x s"
  by (simp_all add: windows_ok_def windows_closed_def windows_allowed_def)

lemma windows_ok_drop [simp]: "windows_ok p x (drop_streams s) = windows_ok p x s"
  by (simp add: drop_streams_def)

lemmas windows_ok_parts = windows_ok_def windows_closed_def windows_allowed_def gate_suspend_def

abbreviation windows_holds :: "session_peer \<Rightarrow> windows_seen \<Rightarrow> windows_session prog \<Rightarrow> bool" where
  "windows_holds p x k \<equiv> wp (\<lambda>s acts. windows_ok p (foldl windows_see x acts) s) k"

interpretation unseen: clip_neutral "\<lambda>s acts. windows_ok p (foldl windows_see x acts) s" "\<lambda>f. True" for p x
  by unfold_locales simp_all

lemma holds_clip:
  assumes "\<And>c. windows_holds p x (k (s\<lparr>ws_clipboard := c\<rparr>))"
  shows "windows_holds p x (windows_clip q env event s k)"
  unfolding windows_clip_def
  by (rule unseen.wp_clip) (simp_all add: unseen.clip_only_def list_all_iff assms)

lemma holds_allow [simp]:
  "windows_holds p x (allow_capture s k) = windows_holds p (fst x, windows_allowed s) k"
  by (simp add: allow_capture_def)

lemma holds_show [simp]: "windows_holds p x (show_role env k) = (we_tray_ok env \<longrightarrow> windows_holds p x k)"
  by (simp add: show_role_def)

lemma holds_route [simp]: "windows_holds p x k \<Longrightarrow> windows_holds p x (send_windows_audio_route p' s k)"
  by (simp add: send_windows_audio_route_def)

lemma holds_offer [simp]:
  assumes "windows_holds p x (k s)" "windows_holds p x (k (s\<lparr>ws_audio_socket := True\<rparr>))"
  shows "windows_holds p x (windows_offer_if b env s k)"
  using assms by (simp add: windows_offer_if_def send_windows_audio_offer_def split: option.split)

lemma holds_change [simp]: "windows_ok p x s \<Longrightarrow> windows_holds p x (change_windows_source p' env source offers s)"
  by (simp add: change_windows_source_def Let_def)

lemma holds_resume [simp]:
  assumes "windows_holds p x (k s)" "windows_holds p x (k (s\<lparr>ws_audio_socket := True\<rparr>))"
  shows "windows_holds p x (resume_audio p' env s k)"
  using assms by (simp add: resume_audio_def)

lemma holds_stop_audio [simp]: "windows_holds p x k \<Longrightarrow> windows_holds p x (stop_audio_if r s k)"
  by (simp add: stop_audio_if_def)


section \<open>The handlers keep it\<close>

lemma holds_audio_watch: "windows_ok p x s \<Longrightarrow> windows_holds p x (windows_audio_watch p' env r q s)"
  by (simp add: windows_audio_watch_def send_windows_audio_offer_def Let_def split: option.split)

lemma holds_poll: "windows_ok p x s \<Longrightarrow> windows_holds p x (windows_poll env s)"
  by (auto simp: windows_poll_def windows_ok_parts Let_def split: prod.split option.split liveness_event.split)

lemma holds_watchdog:
  assumes "windows_ok p x s"
  shows "windows_holds p x (windows_watchdog q env s)"
proof -
  have polled: "windows_holds p y (windows_clip q env ClipExpire s1 (windows_poll env))" if "windows_ok p y s1" for y s1
    using that by (intro holds_clip holds_poll) simp
  have "windows_ok p (fst x, windows_allowed s1) s1"
    if "abort (ws_coordinator s) d = (Ok a, c)" "s1 = s\<lparr>ws_coordinator := c, ws_deadline := None, ws_readiness := None\<rparr>"
    for d a c s1
    using assms windows_abort_ok [of p s d a c] that by (simp add: windows_ok_parts)
  then show ?thesis
    using polled assms by (auto simp: windows_watchdog_def Let_def split: prod.split sum.split)
qed

lemma holds_heartbeat: "windows_ok p x s \<Longrightarrow> windows_holds p x (windows_heartbeat env s)"
  by (simp add: windows_heartbeat_def Let_def split: prod.split)

lemma windows_ok_forbid: "windows_ok p x s \<Longrightarrow> windows_ok p (fst x, False) s"
  by (simp add: windows_ok_def)

lemma windows_ok_released: "windows_ok p x s \<Longrightarrow> windows_ok p ({}, snd x) (s\<lparr>ws_gate := g\<rparr>)"
  by (simp add: windows_ok_def windows_allowed_def)

lemma windows_ok_calls:
  "windows_ok p x s \<Longrightarrow> \<not> ws_paused s \<Longrightarrow> prepare (ws_coordinator s) fp = (Ok q, c) \<Longrightarrow>
     windows_ok p x (s\<lparr>ws_coordinator := c, ws_readiness := Some r, ws_deadline := Some d\<rparr>)"
  "windows_ok p x s \<Longrightarrow> set_paused (ws_coordinator s) False = (Ok q, c) \<Longrightarrow>
     windows_ok p x (s\<lparr>ws_coordinator := c, ws_paused := False\<rparr>)"
  "windows_ok p x s \<Longrightarrow> set_paused (ws_coordinator s) True = (Ok q, c) \<Longrightarrow>
     windows_ok p ({}, False) (s\<lparr>ws_coordinator := c, ws_paused := True\<rparr>)"
  using windows_prepare_ok [of p s fp q c d r] windows_pause_ok [of p s _ q c]
  by (auto simp: windows_ok_def windows_closed_def windows_allowed_def)

lemma holds_begin:
  assumes "windows_ok p x s" "\<not> ws_paused s"
  shows "windows_holds p x (begin_windows_role_switch p' env requested s)"
proof -
  have "windows_ok p y (s1\<lparr>ws_coordinator := c, ws_readiness := Some r, ws_deadline := Some d\<rparr>)"
    if "prepare (ws_coordinator s) requested = (Ok q, c)" "windows_ok p y s1"
      "ws_coordinator s1 = ws_coordinator s" "\<not> ws_paused s1" for y s1 q c r d
    using that by (auto intro: windows_ok_calls(1))
  then show ?thesis
    using windows_ok_forbid [OF assms(1)] windows_ok_released [OF assms(1)] assms(2)
    by (simp add: begin_windows_role_switch_def Let_def split: prod.split sum.split)
qed

lemma holds_enter_pause:
  assumes "windows_ok p x s" "set_paused (ws_coordinator s) True = (Ok q, c)"
    "\<And>s1. windows_ok p ({}, False) s1 \<Longrightarrow> windows_holds p ({}, False) (k s1)"
  shows "windows_holds p x (enter_pause c s k)"
proof -
  have "windows_ok p ({}, False) (s\<lparr>ws_coordinator := c, ws_paused := True, ws_gate := g\<rparr>)" for g
    using windows_ok_released [OF windows_ok_calls(3) [OF assms(1,2)], of g] by simp
  then show ?thesis
    using assms(3) by (simp add: enter_pause_def)
qed

lemma windows_ok_allowed: "windows_ok p x s \<Longrightarrow> windows_ok p (fst x, windows_allowed s) s"
  by (simp add: windows_ok_def)

lemma windows_ok_forward:
  "windows_ok p x s \<Longrightarrow> windows_ok p (fst x, windows_allowed (s\<lparr>ws_forwarding := True\<rparr>)) (s\<lparr>ws_forwarding := True\<rparr>)"
  "windows_ok p x s \<Longrightarrow> windows_ok p ({}, windows_allowed (s\<lparr>ws_forwarding := b\<rparr>)) (s\<lparr>ws_gate := g, ws_forwarding := b\<rparr>)"
  by (auto simp: windows_ok_def windows_closed_def windows_allowed_def)

lemma windows_allowed_gate [simp]:
  "windows_allowed (s\<lparr>ws_gate := g, ws_forwarding := b\<rparr>) = windows_allowed (s\<lparr>ws_forwarding := b\<rparr>)"
  "windows_allowed (s\<lparr>ws_forwarding := b, ws_watcher := w\<rparr>) = windows_allowed (s\<lparr>ws_forwarding := b\<rparr>)"
  by (simp_all add: windows_allowed_def)

lemma holds_tray_outcome:
  assumes "windows_ok p x s"
  shows "windows_holds p x (windows_tray_outcome p env outcome s)"
proof (cases outcome)
  case OutDisconnect
  show ?thesis
    using holds_enter_pause [OF assms]
    by (simp add: OutDisconnect windows_disconnect_def split: prod.split sum.split)
next
  case OutReconnect
  show ?thesis
    using windows_ok_allowed [OF windows_ok_calls(2) [OF assms]] assms
    by (simp add: OutReconnect windows_reconnect_def Let_def split: prod.split sum.split)
next
  case (OutInputForwarding enabled)
  show ?thesis
    using windows_ok_forward [OF assms]
    by (simp add: OutInputForwarding windows_toggle_def Let_def)
next
  case (OutController choice)
  show ?thesis
    using assms by (simp add: OutController holds_begin windows_may_switch_def Let_def)
next
  case (OutAudio choice)
  show ?thesis
    using assms by (simp add: OutAudio windows_set_audio_def Let_def split: audio_choice.split)
qed (use assms in \<open>simp_all add: windows_quit_def\<close>)

lemma holds_pending:
  assumes "\<And>outcome rest. windows_holds p x (k outcome rest)"
  shows "windows_holds p x (pending_tray_commands cs b k)"
proof (induction cs)
  case (Cons c cs)
  then show ?case
    using assms by (cases c) simp_all
qed (simp add: assms)

lemma holds_tray: "windows_ok p x s \<Longrightarrow> windows_holds p x (windows_tray p env commands s)"
  by (simp add: windows_tray_def holds_pending holds_tray_outcome del: windows_tray_outcome.simps)

lemma windows_ok_open:
  assumes "windows_ok p x s" "\<not> windows_closed s"
  shows "windows_ok p (windows_see x (Inject e)) s"
  using assms by (cases x) (simp add: windows_ok_def)

lemma windows_ok_keys_up: "windows_ok p x s \<Longrightarrow> windows_ok p ({}, snd x) s"
  by (simp add: windows_ok_def)

lemma holds_injected:
  assumes "windows_ok p x s"
  shows "windows_holds p x (windows_injected q env event s)"
  using assms windows_ok_released [of p x "s\<lparr>ws_watcher := w\<rparr>" for w]
  by (simp add: windows_injected_def split: input_event.split prod.split sum.split option.split)

lemma holds_input:
  assumes "windows_ok p x s"
  shows "windows_holds p x (windows_input q env input s)"
proof -
  have "windows_ok p (windows_see x (Inject e)) s"
    if "\<not> ws_local_controller s" "\<not> ws_paused s" "ws_forwarding s" "gate_accepts_input (ws_gate s)" for e
    using windows_ok_open [OF assms] that by (simp add: windows_closed_def gate_accepts_input_def)
  then show ?thesis
    using assms windows_ok_keys_up [OF assms] by (simp add: windows_input_def holds_injected)
qed

lemma holds_control:
  assumes "windows_ok p x s"
  shows "windows_holds p x (windows_control p' env control s)"
proof -
  have entered: "windows_ok p x (s\<lparr>ws_gate := g\<rparr>)" if "\<not> ws_local_controller s" "ig_suspended g \<longrightarrow> ig_suspended (ws_gate s)" for g
    using assms that by (auto simp: windows_ok_def windows_closed_def windows_allowed_def)
  have "windows_ok p ({}, windows_allowed (s\<lparr>ws_forwarding := b\<rparr>)) (s\<lparr>ws_forwarding := b, ws_watcher := w, ws_gate := g\<rparr>)" for b w g
    using windows_ok_forward(2) [OF assms, of b g] by (simp add: windows_ok_def windows_closed_def windows_allowed_def)
  then show ?thesis
    using assms entered windows_ok_forward [OF assms]
    by (auto simp: windows_control_def gate_observe_control_def Let_def split: control_event.split)
qed

lemma holds_audio: "windows_ok p x s \<Longrightarrow> windows_holds p x (windows_audio p' env control s)"
  by (cases control)
    (simp_all add: windows_audio_offered_def windows_audio_started_def send_windows_audio_offer_def Let_def
      split: option.split prod.split)

lemma holds_ready:
  assumes "windows_ok p x s"
  shows "windows_holds p x (windows_ready p env e rc ri detail s)"
proof (cases "ws_readiness s")
  case None
  then show ?thesis
    using assms by (simp add: windows_ready_def)
next
  case (Some local)
  define dt where "dt = (case detail of None \<Rightarrow> rd_detail local | Some d \<Rightarrow> Some d)"
  obtain r c where f: "finish_ready (ws_coordinator s) e (rd_capture local) (rd_inject local) rc ri dt = (r, c)"
    by fastforce
  have assigned: "windows_assigned p s"
    using assms by (simp add: windows_ok_def)
  show ?thesis
  proof (cases r)
    case (Inl err)
    have "windows_ok p x (s\<lparr>ws_deadline := Some d\<rparr>)" for d
      using assms windows_late_ok [OF assigned] Some by (simp add: windows_ok_def windows_closed_def windows_allowed_def)
    then show ?thesis
      using Some f Inl by (simp add: windows_ready_def dt_def split: role_state_error.split)
  next
    case (Inr decision)
    show ?thesis
    proof (cases decision)
      case (AbortDecision a)
      let ?s = "s\<lparr>ws_coordinator := c, ws_readiness := None, ws_deadline := None\<rparr>"
      have "windows_assigned p ?s"
        using windows_abort_decision [OF assigned] f Inr AbortDecision by blast
      then have "windows_ok p (fst x, windows_allowed ?s) ?s"
        using assms by (simp add: windows_ok_def windows_closed_def)
      then show ?thesis
        using Some f Inr AbortDecision by (simp add: windows_ready_def dt_def Let_def)
    next
      case (CommitDecision commit)
      have "windows_ok p ({}, windows_allowed s2) s2"
        if "rs_controller_fingerprint commit = Some fp"
          "s2 = s\<lparr>ws_coordinator := c, ws_readiness := None, ws_deadline := None,
             ws_persist := Some (rs_role_epoch commit, fp), ws_epoch := rs_role_epoch commit,
             ws_local_controller := (fp = sp_local p), ws_gate := gate_suspend (ws_gate s)\<rparr>" for fp s2
        using windows_commit_decision [OF assigned _ that(1)] f Inr CommitDecision
        by (simp add: that(2) windows_ok_def) (simp add: windows_assigned_def)
      then show ?thesis
        using Some f Inr CommitDecision by (simp add: windows_ready_def dt_def Let_def split: option.split)
    qed
  qed
qed

lemma holds_role:
  assumes "windows_ok p x s"
  shows "windows_holds p x (windows_role p env event s)"
proof (cases event)
  case (RoleRequest fp)
  then show ?thesis
    using assms by (simp add: windows_may_switch_def holds_begin)
next
  case (Ready e rc ri detail)
  then show ?thesis
    using assms by (simp add: holds_ready)
next
  case (Applied e)
  then show ?thesis
    using assms by (simp add: windows_applied_def split: option.split prod.split)
next
  case (SetPaused b)
  then show ?thesis
    using assms holds_enter_pause [OF assms] windows_ok_allowed [OF windows_ok_calls(2) [OF assms]]
    by (cases b) (simp_all add: windows_set_paused_def Let_def split: prod.split sum.split)
qed (use assms in simp_all)

lemma holds_handle:
  assumes "windows_ok (wp_session q) x s"
  shows "windows_holds (wp_session q) x (windows_handle q env frame s)"
proof (cases frame)
  case (FHeartbeat hb)
  then show ?thesis
    using assms by (simp split: prod.split option.split)
next
  case (FClipboard event)
  have "windows_holds (wp_session q) x (windows_clipboard_frame q env event s)"
    unfolding windows_clipboard_frame_def Let_def using assms
    by (auto intro!: unseen.wp_remote_event simp: unseen.clip_only_def list_all_iff simp del: handle_remote_event.simps)
  then show ?thesis
    by (simp add: FClipboard)
qed (use assms holds_input holds_control holds_role holds_audio in \<open>simp_all del: windows_role.simps windows_audio.simps\<close>)

lemma holds_program:
  assumes "windows_ok (wp_session q) x s"
  shows "windows_holds (wp_session q) x (windows_program q env event s)"
proof (cases event)
  case (WFrame frame)
  then show ?thesis
    using assms by (simp add: windows_frame_def holds_handle del: windows_handle.simps)
next
  case (WInput f)
  then show ?thesis
    using assms by (simp add: windows_live_input_def holds_clip split: option.split)
qed (use assms holds_tray holds_watchdog holds_audio_watch holds_heartbeat holds_clip
    in \<open>simp_all add: windows_quit_def\<close>)

end
