(* ===== verification/WindowsProperties.thy ===== *)
theory WindowsProperties
  imports WindowsSafety PasteBarrier
begin

text \<open>
  The properties of whole sessions of the Windows controller, from \<open>windows_start\<close> over any sequence of events,
  results of the calls it makes, and moments at which the connection breaks.
\<close>

section \<open>Runs\<close>

lemma wp_step_windows:
  assumes "wp P (windows_program q (fst i) (snd (snd i)) s)" "windows_step q s i = (Continue s', acts)"
  shows "P s' acts"
  using assms by (auto simp: wp_def windows_step_def dest: spec [of _ "fst (snd i)"])

interpretation windows_loop: session_loop "windows_step q" windows_see "windows_ok (wp_session q)" for q
  by unfold_locales (rule wp_step_windows [OF holds_program])

lemma windows_state_ok:
  assumes "coordinator_new (sp_local (wp_session q)) (sp_peer (wp_session q)) (rs_controller_fingerprint state)
      (rs_role_epoch state) (rs_listener_position state) (rs_paused state) = Ok c"
  shows "windows_assigned (wp_session q) (windows_state q env c state forwarding cfg source)"
    "windows_closed (windows_state q env c state forwarding cfg source)"
  using coordinator_new_wf [OF assms] assms
  by (auto simp: coordinator_new_def windows_assigned_def windows_state_def windows_closed_def gate_default_def Let_def
      split: if_splits)

lemma windows_state_allowed:
  "windows_allowed (windows_state q env c state forwarding cfg source) =
     (rs_controller_fingerprint state = Some (sp_local (wp_session q)) \<and> forwarding \<and> \<not> rs_paused state)"
  by (simp add: windows_allowed_def windows_state_def)

lemma windows_start_ok:
  "windows_holds (wp_session q) ({}, False) (windows_start q env state forwarding cfg stored preference enabled)"
proof (cases "coordinator_new (sp_local (wp_session q)) (sp_peer (wp_session q)) (rs_controller_fingerprint state)
      (rs_role_epoch state) (rs_listener_position state) (rs_paused state)")
  case (Inl e)
  then show ?thesis
    by (simp add: windows_start_def)
next
  case (Inr c)
  let ?x = "({}, windows_allowed (windows_state q env c state forwarding cfg None))"
  have ok: "windows_ok (wp_session q) ?x (windows_state q env c state forwarding cfg source)" for source
    using windows_state_ok [OF Inr] by (simp add: windows_ok_def windows_state_allowed)
  have announced: "windows_holds (wp_session q) ?x
      (if b1 then send (frame_control (ws_epoch s1) (SetInputForwarding (ws_forwarding s1))) (ret s1) else ret s1)"
    if "windows_ok (wp_session q) ?x s1" for s1 b1
    using that by simp
  show ?thesis
  proof (cases stored)
    case None
    then show ?thesis
      by (simp add: windows_start_def Inr)
  next
    case (Some found)
    then show ?thesis
      unfolding windows_start_def Inr using ok announced
      by (auto simp: Let_def intro!: holds_route holds_offer)
  qed
qed

lemma windows_run_ok:
  assumes "windows_start q env state forwarding cfg stored preference enabled w = (Continue s0, acts0)"
    and "windows_run q s0 is = (Continue s, acts)"
  shows "windows_ok (wp_session q) (foldl windows_see ({}, False) (acts0 @ acts)) s"
proof -
  have "windows_ok (wp_session q) (foldl windows_see ({}, False) acts0) s0"
    using windows_start_ok [of q env state forwarding cfg stored preference enabled] assms(1)
    by (auto simp: wp_def dest: spec [of _ w])
  from windows_loop.run_keeps [OF this] show ?thesis
    using assms(2) by (simp add: windows_run_def)
qed

fun see_allow :: "bool \<Rightarrow> effect \<Rightarrow> bool" where
  "see_allow a (AllowCapture b) = b"
| "see_allow a _ = a"

lemma windows_seen_held: "foldl windows_see x acts = (held (fst x) acts, foldl see_allow (snd x) acts)"
proof (induction acts arbitrary: x)
  case (Cons a acts)
  have "windows_see x a = (press (fst x) a, see_allow (snd x) a)"
    by (cases x; cases a) simp_all
  then show ?case
    using Cons.IH by simp
qed (simp add: held_def)


section \<open>Injected input\<close>

fun no_inject :: "effect \<Rightarrow> bool" where
  "no_inject (Inject _) = False"
| "no_inject _ = True"

lemma emits_clip_frames: "emits no_inject k \<Longrightarrow> emits no_inject br \<Longrightarrow> emits no_inject (send_frames fs br k)"
  by (induction fs) simp_all

lemma emits_clip_inputs:
  assumes "\<And>c. emits no_inject (br c)" "\<And>c. emits no_inject (k c)"
  shows "emits no_inject (send_input_frames cfg fs c br k)"
proof (induction fs arbitrary: c)
  case (Cons f fs)
  then show ?case
    using assms(1) by (simp add: delayed_request_def split: prod.split option.split)
qed (simp add: assms(2))

lemma emits_clip_release:
  assumes "\<And>c. emits no_inject (br c)" "\<And>c. emits no_inject (k c)"
  shows "emits no_inject (release_held cfg c br k)"
  using assms by (simp add: release_held_def take_held_input_def emits_clip_inputs)

lemma emits_clip_apply:
  assumes "no_inject write" "\<And>c. emits no_inject (br c)" "\<And>c. emits no_inject (fl c)" "\<And>c. emits no_inject (k c)"
  shows "emits no_inject (apply_remote lib cfg env remote_id write c br fl k)"
  using assms
  by (simp add: apply_remote_def prefer_newer_local_def emits_clip_frames Let_def split: option.split prod.split)

lemma emits_clip_transfer:
  assumes "\<And>c. emits no_inject (br c)" "\<And>c. emits no_inject (fl c)" "\<And>c. emits no_inject (k c)"
  shows "emits no_inject (handle_transfer lib cfg env event c br fl k)"
  using assms
  by (simp add: handle_transfer_def apply_remote_text_def emits_clip_release emits_clip_apply Let_def
      split: option.split prod.split sum.split clipboard_item.split)

lemma emits_clip_remote:
  assumes "\<And>c. emits no_inject (br c)" "\<And>c. emits no_inject (fl c)" "\<And>c. emits no_inject (k c)"
  shows "emits no_inject (handle_remote_event lib cfg env event c br fl k)"
  using assms
  by (cases event) (simp_all add: apply_remote_text_def emits_clip_transfer emits_clip_apply emits_clip_frames
      split: option.split prod.split)

lemma emits_clip_chunk:
  assumes "\<And>c. emits no_inject (br c)" "\<And>c. emits no_inject (k c)"
  shows "emits no_inject (send_chunk cfg c br k)"
  using assms by (simp add: send_chunk_def emits_clip_release split: prod.split option.split)

lemma emits_clip:
  assumes "\<And>c. emits no_inject (br c)" "\<And>c. emits no_inject (fl c)" "\<And>c. emits no_inject (k c)"
  shows "emits no_inject (clip_program lib cfg env event c br fl k)"
proof (cases event)
  case (ClipRemote e)
  then show ?thesis
    using emits_clip_remote [OF assms] by (simp del: handle_remote_event.simps)
next
  case ClipTick
  then show ?thesis
    using assms emits_clip_chunk [OF assms(1,3)]
    by (simp add: send_tick_def emits_clip_release split: prod.split option.split)
qed (use assms emits_clip_chunk [OF assms(1,3)] in \<open>simp_all add: input_arm_def read_arm_def expire_arm_def emits_clip_inputs
  emits_clip_frames Let_def split: prod.split option.split\<close>)

lemma emits_windows_clip:
  assumes "\<And>c. emits no_inject (k (s\<lparr>ws_clipboard := c\<rparr>))"
  shows "emits no_inject (windows_clip q env event s k)"
  unfolding windows_clip_def using assms by (intro emits_clip) simp_all

lemma emits_windows_audio:
  "emits no_inject k \<Longrightarrow> emits no_inject (send_windows_audio_route p s k)"
  "(\<And>s. emits no_inject (l s)) \<Longrightarrow> emits no_inject (windows_offer_if b env s l)"
  "emits no_inject (change_windows_source p env source offers s)"
  "(\<And>s. emits no_inject (l s)) \<Longrightarrow> emits no_inject (resume_audio p env s l)"
  "emits no_inject k \<Longrightarrow> emits no_inject (stop_audio_if r s k)"
  by (simp_all add: send_windows_audio_route_def windows_offer_if_def send_windows_audio_offer_def
      change_windows_source_def resume_audio_def stop_audio_if_def Let_def split: option.split)

lemma emits_windows_steps:
  "emits no_inject k \<Longrightarrow> emits no_inject (allow_capture s k)"
  "emits no_inject k \<Longrightarrow> emits no_inject (show_role env k)"
  "emits no_inject (begin_windows_role_switch p env requested s)"
  "(\<And>s. emits no_inject (l s)) \<Longrightarrow> emits no_inject (enter_pause c s l)"
  by (simp_all add: allow_capture_def show_role_def begin_windows_role_switch_def enter_pause_def Let_def
      split: prod.split sum.split)

lemma emits_windows_poll: "emits no_inject (windows_poll env s)"
  by (simp add: windows_poll_def Let_def split: prod.split option.split liveness_event.split)

lemma emits_windows_timers:
  "emits no_inject (windows_audio_watch p env r1 r2 s)" "emits no_inject (windows_watchdog q env s)"
  "emits no_inject (windows_heartbeat env s)" "emits no_inject (windows_live_input q env f s)"
  "emits no_inject (windows_quit s)"
  by (simp_all add: windows_audio_watch_def windows_watchdog_def windows_heartbeat_def windows_live_input_def
      windows_quit_def send_windows_audio_offer_def emits_windows_clip emits_windows_poll emits_windows_audio
      emits_windows_steps Let_def split: option.split prod.split sum.split)

lemma emits_windows_tray_outcome: "emits no_inject (windows_tray_outcome p env outcome s)"
  by (cases outcome)
    (simp_all add: windows_quit_def windows_disconnect_def windows_reconnect_def windows_toggle_def windows_set_audio_def
      emits_windows_audio emits_windows_steps Let_def split: prod.split sum.split audio_choice.split)

lemma emits_windows_tray: "emits no_inject (windows_tray p env commands s)"
proof -
  have "emits no_inject (pending_tray_commands cs b (\<lambda>outcome rest. windows_tray_outcome p env outcome s))" for cs b
  proof (induction cs)
    case (Cons c cs)
    then show ?case
      by (cases c) (simp_all add: emits_windows_tray_outcome del: windows_tray_outcome.simps)
  qed (simp add: emits_windows_tray_outcome del: windows_tray_outcome.simps)
  then show ?thesis
    by (simp add: windows_tray_def)
qed

lemma emits_windows_handle:
  assumes "\<And>i. frame \<noteq> FInput i"
  shows "emits no_inject (windows_handle q env frame s)"
proof (cases frame)
  case (FInput i)
  then show ?thesis
    using assms by blast
next
  case (FHeartbeat hb)
  then show ?thesis
    by (simp split: prod.split option.split)
next
  case (FClipboard event)
  then show ?thesis
    by (simp add: windows_clipboard_frame_def emits_clip_remote Let_def del: handle_remote_event.simps)
next
  case (FRole event)
  then show ?thesis
    by (cases event)
      (simp_all add: windows_ready_def windows_applied_def windows_set_paused_def emits_windows_steps
        emits_windows_audio Let_def
        split: option.split prod.split sum.split role_decision.split role_state_error.split)
next
  case (FAudio control)
  then show ?thesis
    by (cases control)
      (simp_all add: windows_audio_offered_def windows_audio_started_def send_windows_audio_offer_def
        emits_windows_audio audio_state_frame_def Let_def split: option.split prod.split)
next
  case (FControl control)
  then show ?thesis
    by (simp add: windows_control_def emits_windows_steps Let_def split: control_event.split)
qed simp_all

lemma windows_injects:
  assumes "Inject x \<in> set (snd (windows_step q s (env, w, event)))"
  shows "event = WFrame (FInput \<lparr>if_role_epoch = ws_epoch s, if_event = x\<rparr>) \<and> x \<noteq> AllKeysUp \<and>
    \<not> ws_local_controller s \<and> ws_forwarding s \<and> \<not> ws_paused s \<and> gate_accepts_input (ws_gate s)"
proof -
  have loud: "\<not> emits no_inject (windows_program q env event s)"
    using assms by (force simp: emits_def windows_step_def)
  have "\<exists>i. event = WFrame (FInput i)"
  proof (cases event)
    case (WFrame frame)
    then show ?thesis
      using loud emits_windows_handle [of frame q env] by (auto simp: windows_frame_def simp del: windows_handle.simps)
  qed (use loud in \<open>simp_all add: emits_windows_timers emits_windows_tray emits_windows_clip split: if_splits\<close>)
  then obtain i where "event = WFrame (FInput i)"
    by blast
  then show ?thesis
    using assms
    by (cases i) (auto simp: windows_step_def windows_frame_def windows_input_def windows_injected_def attempt_def
        act_def ret_def stop_def send_def split: if_splits input_event.splits prod.splits sum.splits option.splits nat.splits)
qed


section \<open>Properties\<close>

text \<open>C11: The Windows controller acts on its coordinator's committed assignment. After any events, the epoch it stamps
  its frames with, whether it takes itself for the controller and whether it is paused are those of the coordinator's
  stable state; a handover is pending exactly while a readiness and a deadline are kept for it, and never while the
  session is paused; and the hooks were last told to capture only if this computer controls, its input is forwarded and
  the session is not paused.\<close>

theorem windows_assignment_agrees:
  assumes "windows_start q env state forwarding cfg stored preference enabled w = (Continue s0, acts0)"
    and "windows_run q s0 is = (Continue s, acts)"
  shows "ws_epoch s = rs_role_epoch (coordinator_state (ws_coordinator s)) \<and>
    ws_local_controller s =
      (rs_controller_fingerprint (coordinator_state (ws_coordinator s)) = Some (sp_local (wp_session q))) \<and>
    ws_paused s = rs_paused (coordinator_state (ws_coordinator s)) \<and>
    is_transitioning (ws_coordinator s) = (ws_readiness s \<noteq> None) \<and>
    is_transitioning (ws_coordinator s) = (ws_deadline s \<noteq> None) \<and>
    (is_transitioning (ws_coordinator s) \<longrightarrow> \<not> ws_paused s) \<and>
    (foldl see_allow False (acts0 @ acts) \<longrightarrow> ws_local_controller s \<and> ws_forwarding s \<and> \<not> ws_paused s)"
  using windows_run_ok [OF assms]
  by (auto simp: windows_ok_def windows_assigned_def windows_seen_held coordinator_state_def is_transitioning_def
      windows_allowed_def Let_def)

text \<open>C12: Nothing the peer pressed stays held on the Windows side: after any events, while the session is paused, or this
  computer controls, or forwarding is off, or the input gate is closed, every key and button the peer pressed was
  released by the injector; and once the session ended, for whatever reason, everything was released.\<close>

theorem windows_no_stuck_keys:
  assumes "windows_start q env state forwarding cfg stored preference enabled w = (Continue s0, acts0)"
    and "windows_run q s0 is = (out, acts)"
  shows "case out of
      Continue s \<Rightarrow>
        ws_paused s \<or> ws_local_controller s \<or> \<not> ws_forwarding s \<or> \<not> gate_accepts_input (ws_gate s) \<longrightarrow>
        held {} (acts0 @ acts) = {}
    | Ended e \<Rightarrow> held {} (acts0 @ acts @ windows_cleanup) = {}"
proof (cases out)
  case (Continue s)
  then show ?thesis
    using windows_run_ok [OF assms(1), of "is" s acts] assms(2)
    by (auto simp: windows_ok_def windows_closed_def windows_seen_held gate_accepts_input_def)
next
  case (Ended e)
  then show ?thesis
    by (simp add: windows_cleanup_def)
qed

text \<open>C13: The Windows side injects only what the controlling peer sends: whatever a step injects is the event of an
  input frame of the committed epoch that was just received, while the peer controls, input is forwarded, the session
  is not paused and the input gate is open; and right after, if the input gate is closed, nothing is held.\<close>

theorem windows_input_confined:
  assumes "windows_start q env state forwarding cfg stored preference enabled w = (Continue s0, acts0)"
    and "windows_run q s0 is = (Continue s, acts)"
    and "windows_step q s (env', w', event) = (out, acts')"
  shows "(Inject x \<in> set acts' \<longrightarrow>
      event = WFrame (FInput \<lparr>if_role_epoch = rs_role_epoch (coordinator_state (ws_coordinator s)), if_event = x\<rparr>) \<and>
      x \<noteq> AllKeysUp \<and>
      rs_controller_fingerprint (coordinator_state (ws_coordinator s)) \<noteq> Some (sp_local (wp_session q)) \<and>
      ws_forwarding s \<and> \<not> rs_paused (coordinator_state (ws_coordinator s)) \<and> gate_accepts_input (ws_gate s)) \<and>
    (case out of
       Continue s' \<Rightarrow> gate_accepts_input (ws_gate s') \<or> held {} (acts0 @ acts @ acts') = {}
     | Ended e \<Rightarrow> True)"
proof -
  have ok: "windows_ok (wp_session q) (foldl windows_see ({}, False) (acts0 @ acts)) s"
    using windows_run_ok [OF assms(1,2)] .
  have "gate_accepts_input (ws_gate s') \<or> held {} (acts0 @ acts @ acts') = {}" if "out = Continue s'" for s'
    using wp_step_windows [OF holds_program [OF ok], of "(env', w', event)" s' acts'] assms(3) that
    by (auto simp: windows_ok_def windows_closed_def windows_seen_held gate_accepts_input_def)
  then show ?thesis
    using ok windows_injects [of x q s env' w' event] assms(3)
    by (auto simp: windows_ok_def windows_assigned_def coordinator_state_def Let_def split: session_outcome.split)
qed


section \<open>A concrete session\<close>

definition windows_demo :: windows_peer where
  "windows_demo =
     \<lparr>wp_session = \<lparr>sp_local = ''c'', sp_peer = ''l'', sp_audio_playback = True, sp_audio_capture = True,
        sp_audio_route = True, sp_input_toggle = True, sp_role_switch = True, sp_input_capture = True,
        sp_input_injection = True, sp_listener_position = EdgeRight, sp_jitter_target_ms = 60, sp_screen = None\<rparr>,
      wp_library = demo_library, wp_floats = \<lparr>fl_f64 = (\<lambda>r. 0), fl_f32 = (\<lambda>r. 0), fl_real32 = (\<lambda>w. 0)\<rparr>,
      wp_local_screen = \<lparr>si_outputs = [], si_primary_output = []\<rparr>,
      wp_clipboard = \<lparr>cpf_images = True, cpf_text_chunks = True\<rparr>\<rparr>"

definition windows_demo_env :: "instant \<Rightarrow> windows_env" where
  "windows_demo_env t =
     \<lparr>ev_now = t, ev_preflight = None, ev_arm = None, ev_release_ok = True, ev_inject_ok = True,
      ev_keys_up_ok = True, ev_save_ok = True, ev_socket = None, ev_audio_error = None, ev_secrets = ([], [], []),
      we_active = False, we_capture_ok = True, we_tray_ok = True, we_cursor = None, we_udp_ok = True,
      we_clipboard = demo_env t None\<rparr>"

definition windows_demo_role :: role_state where
  "windows_demo_role = initial_role_state (wp_session windows_demo) (Some ''l'') False"

definition windows_demo_state :: windows_session where
  "windows_demo_state = windows_state windows_demo (windows_demo_env 0)
     \<lparr>rc_connector_fingerprint = ''c'', rc_listener_fingerprint = ''l'', rc_stable = windows_demo_role, rc_pending = None\<rparr>
     windows_demo_role True demo_config None"

lemma windows_demo_start:
  "windows_start windows_demo (windows_demo_env 0) windows_demo_role True demo_config (Some None) None False 9 =
     (Continue windows_demo_state,
      [AllowCapture False, SaveAudioRoute None, Send (FAudio (SetRoute None)),
       Send (frame_control INITIAL_ROLE_EPOCH (SetInputForwarding True))])"
  by (simp add: windows_start_def windows_demo_state_def windows_demo_def windows_demo_env_def windows_demo_role_def
      initial_role_state_def coordinator_new_def windows_state_def allow_capture_def show_role_def windows_allowed_def
      initial_audio_source_def send_windows_audio_route_def windows_offer_if_def attempt_def act_def send_def ret_def
      Let_def)

definition windows_demo_entered :: "windows_step_input list" where
  "windows_demo_entered =
     [(windows_demo_env 1, 9, WFrame (frame_control INITIAL_ROLE_EPOCH (EnterRemote EdgeRight 0))),
      (windows_demo_env 2, 9, WFrame (frame_input INITIAL_ROLE_EPOCH (Key 30 True)))]"

lemmas windows_demo_defs = windows_demo_entered_def windows_demo_state_def windows_demo_def windows_demo_env_def
  windows_demo_role_def windows_state_def windows_run_def windows_step_def windows_frame_def windows_control_def
  windows_input_def windows_injected_def frame_control_def frame_input_def initial_role_state_def
  gate_observe_control_def gate_accepts_input_def gate_default_def

lemma windows_demo_run:
  "\<exists>s. windows_run windows_demo windows_demo_state windows_demo_entered = (Continue s, [Inject (Key 30 True)]) \<and>
     ws_epoch s = INITIAL_ROLE_EPOCH \<and> ws_forwarding s \<and> \<not> ws_local_controller s \<and> \<not> ws_paused s \<and>
     gate_accepts_input (ws_gate s)"
  by (simp add: windows_demo_defs attempt_def act_def ret_def Let_def)

lemma windows_demo_toggle:
  assumes "ws_forwarding s"
  shows "\<exists>s1 f1 f2. windows_step windows_demo s (windows_demo_env 3, 9, WTray [WtToggleInputForwarding]) =
    (Continue s1, [Send f1, KeysUp, AllowCapture False, Send f2]) \<and> \<not> ws_forwarding s1"
  using assms by (simp add: windows_step_def windows_tray_def windows_toggle_def allow_capture_def windows_allowed_def
      windows_demo_def act_def send_def ret_def Let_def)

theorem windows_assignment_agrees_witness:
  "\<exists>s acts. windows_run windows_demo windows_demo_state windows_demo_entered = (Continue s, acts) \<and>
     rs_controller_fingerprint (coordinator_state (ws_coordinator s)) \<noteq> Some ''c'' \<and> \<not> is_transitioning (ws_coordinator s)"
proof -
  obtain s where run: "windows_run windows_demo windows_demo_state windows_demo_entered = (Continue s, [Inject (Key 30 True)])"
    "\<not> ws_local_controller s" "ws_deadline s = None"
    by (simp add: windows_demo_defs attempt_def act_def ret_def Let_def)
  have "sp_local (wp_session windows_demo) = ''c''"
    by (simp add: windows_demo_def)
  then show ?thesis
    using windows_assignment_agrees [OF windows_demo_start run(1)] run by auto
qed

theorem windows_no_stuck_keys_witness:
  "\<exists>s acts. windows_run windows_demo windows_demo_state
       (windows_demo_entered @ [(windows_demo_env 3, 9, WTray [WtToggleInputForwarding])]) = (Continue s, acts) \<and>
     Inject (Key 30 True) \<in> set acts \<and> held {} acts = {}"
proof -
  obtain s where run: "windows_run windows_demo windows_demo_state windows_demo_entered = (Continue s, [Inject (Key 30 True)])"
    "ws_forwarding s"
    using windows_demo_run by blast
  obtain s1 f1 f2 where toggled: "windows_step windows_demo s (windows_demo_env 3, 9, WTray [WtToggleInputForwarding]) =
      (Continue s1, [Send f1, KeysUp, AllowCapture False, Send f2])" "\<not> ws_forwarding s1"
    using windows_demo_toggle [OF run(2)] by blast
  have both: "windows_run windows_demo windows_demo_state
      (windows_demo_entered @ [(windows_demo_env 3, 9, WTray [WtToggleInputForwarding])]) =
      (Continue s1, [Inject (Key 30 True), Send f1, KeysUp, AllowCapture False, Send f2])"
    using run(1) toggled(1) by (simp add: windows_run_def loop_run_snoc)
  show ?thesis
    using windows_no_stuck_keys [OF windows_demo_start both] toggled(2) both by simp
qed

theorem windows_input_confined_witness:
  "\<exists>s out acts. windows_step windows_demo s (windows_demo_env 2, 9, WFrame (frame_input INITIAL_ROLE_EPOCH (Key 30 True))) =
       (out, acts) \<and> Inject (Key 30 True) \<in> set acts \<and>
     rs_role_epoch (coordinator_state (ws_coordinator s)) = INITIAL_ROLE_EPOCH"
proof -
  obtain s where run: "windows_run windows_demo windows_demo_state [hd windows_demo_entered] = (Continue s, [])"
    "windows_step windows_demo s (windows_demo_env 2, 9, WFrame (frame_input INITIAL_ROLE_EPOCH (Key 30 True))) =
      (Continue (s\<lparr>ws_liveness := observe_authenticated_frame (ws_liveness s) 2\<rparr>), [Inject (Key 30 True)])"
    by (simp add: windows_demo_defs attempt_def act_def ret_def Let_def)
  have "rs_role_epoch (coordinator_state (ws_coordinator s)) = INITIAL_ROLE_EPOCH"
    using windows_input_confined [OF windows_demo_start run, of "Key 30 True"] by (simp add: frame_input_def)
  then show ?thesis
    by (intro exI conjI) (rule run(2), simp_all)
qed

end
