(* ===== verification/LiveInput.thy ===== *)
theory LiveInput
  imports WindowsProperties PasteBarrier Injector
begin

text \<open>
  From the hooks to the connection on the Windows side: the thread of \<open>start_live_input\<close> in
  \<open>apps/edge-controller-win/src/main.rs\<close>, which sums up the motion of the pointer (\<open>PendingMotion\<close>) and passes
  the rest on through a bounded channel, the session's loop that takes it from there, and the clipboard's barrier. The
  addition of doubles is the parameter \<open>add\<close>.
\<close>

section \<open>The remote screen\<close>

definition FALLBACK_REMOTE_SIZE :: size_px where
  "FALLBACK_REMOTE_SIZE = \<lparr>sz_width = 1920, sz_height = 1080\<rparr>"

definition remote_size :: "screen_info option \<Rightarrow> size_px \<times> bool" where
  "remote_size info =
     (case (case info of Some i \<Rightarrow> primary_output i | None \<Rightarrow> None) of
        Some out \<Rightarrow>
          if out_width out > 0 \<and> out_height out > 0
          then (\<lparr>sz_width = out_width out, sz_height = out_height out\<rparr>, False)
          else (FALLBACK_REMOTE_SIZE, True)
      | None \<Rightarrow> (FALLBACK_REMOTE_SIZE, True))"

section \<open>The pump\<close>

definition LIVE_INPUT_QUEUE_CAPACITY :: nat where
  "LIVE_INPUT_QUEUE_CAPACITY = 32"

definition LIVE_INPUT_FLUSH_INTERVAL :: duration where
  "LIVE_INPUT_FLUSH_INTERVAL = from_millis 8"

record pending_motion =
  pm_dx :: f64
  pm_dy :: f64

text \<open>\<open>pu_blocked\<close> is a frame that waits for room in the channel.\<close>

record pump =
  pu_motion :: pending_motion
  pu_last_flush :: instant
  pu_queue :: "frame list"
  pu_blocked :: "frame option"

definition pump_new :: "instant \<Rightarrow> pump" where
  "pump_new now = \<lparr>pu_motion = \<lparr>pm_dx = 0, pm_dy = 0\<rparr>, pu_last_flush = now, pu_queue = [], pu_blocked = None\<rparr>"

datatype captured_input = CapturedEvent input_event | CapturedControl control_event

fun captured_input_to_frame :: "captured_input \<Rightarrow> frame" where
  "captured_input_to_frame (CapturedEvent e) = frame_input INITIAL_ROLE_EPOCH e"
| "captured_input_to_frame (CapturedControl e) = frame_control INITIAL_ROLE_EPOCH e"

definition coalesce :: "(f64 \<Rightarrow> f64 \<Rightarrow> f64) \<Rightarrow> frame \<Rightarrow> pending_motion \<Rightarrow> bool \<times> pending_motion" where
  "coalesce add f m =
     (case input_event_of f of
        Some (PointerMotion dx dy) \<Rightarrow> (True, m\<lparr>pm_dx := add (pm_dx m) dx, pm_dy := add (pm_dy m) dy\<rparr>)
      | _ \<Rightarrow> (False, m))"

definition has_room :: "pump \<Rightarrow> bool" where
  "has_room p = (length (pu_queue p) < LIVE_INPUT_QUEUE_CAPACITY)"

definition enqueue_frame :: "frame \<Rightarrow> pump \<Rightarrow> pump" where
  "enqueue_frame f p = p\<lparr>pu_queue := pu_queue p @ [f]\<rparr>"

text \<open>A motion for which there is no room is lost.\<close>

definition flush_lossy :: "pump \<Rightarrow> pump" where
  "flush_lossy p =
     (let m = pu_motion p in
      if f64_is_zero (pm_dx m) \<and> f64_is_zero (pm_dy m) then p
      else (let p1 = p\<lparr>pu_motion := \<lparr>pm_dx = 0, pm_dy = 0\<rparr>\<rparr>;
                f = frame_input INITIAL_ROLE_EPOCH (PointerMotion (pm_dx m) (pm_dy m))
            in if has_room p1 then enqueue_frame f p1 else p1))"

text \<open>An event of the capture; one that is no motion waits until there is room.\<close>

definition pump_event :: "(f64 \<Rightarrow> f64 \<Rightarrow> f64) \<Rightarrow> instant \<Rightarrow> captured_input \<Rightarrow> pump \<Rightarrow> pump" where
  "pump_event add now event p =
     (let f = captured_input_to_frame event in
      case coalesce add f (pu_motion p) of
        (True, m) \<Rightarrow>
          (let p1 = p\<lparr>pu_motion := m\<rparr>
           in if duration_since now (pu_last_flush p1) \<ge> LIVE_INPUT_FLUSH_INTERVAL
              then (flush_lossy p1)\<lparr>pu_last_flush := now\<rparr> else p1)
      | (False, m) \<Rightarrow>
          (let p1 = flush_lossy p
           in if has_room p1 then (enqueue_frame f p1)\<lparr>pu_last_flush := now\<rparr>
              else p1\<lparr>pu_blocked := Some f\<rparr>))"

definition pump_unblock :: "instant \<Rightarrow> pump \<Rightarrow> pump" where
  "pump_unblock now p =
     (case pu_blocked p of
        Some f \<Rightarrow> (enqueue_frame f p)\<lparr>pu_blocked := None, pu_last_flush := now\<rparr>
      | None \<Rightarrow> p)"

definition pump_timeout :: "instant \<Rightarrow> pump \<Rightarrow> pump" where
  "pump_timeout now p = (flush_lossy p)\<lparr>pu_last_flush := now\<rparr>"

section \<open>The whole way\<close>

text \<open>
  The thread and the session run in any order. \<open>caps\<close> is what was captured, \<open>taken\<close> what the session's loop took
  from the channel, each with whether the session then passed it on (\<open>windows_allowed\<close>) or threw it away. What else
  happens to the session is free, but for its clipboard, which changes by its own steps only.
\<close>

inductive live_system ::
  "windows_peer \<Rightarrow> (f64 \<Rightarrow> f64 \<Rightarrow> f64) \<Rightarrow> windows_session \<Rightarrow> captured_input list \<Rightarrow> (frame \<times> bool) list \<Rightarrow> effect list
     \<Rightarrow> pump \<Rightarrow> windows_session \<Rightarrow> bool" for q add s0 where
  live_start: "live_system q add s0 [] [] [] (pump_new now) s0"
| live_capture: "live_system q add s0 caps taken acts p s \<Longrightarrow> pu_blocked p = None \<Longrightarrow>
     live_system q add s0 (caps @ [event]) taken acts (pump_event add now event p) s"
| live_timeout: "live_system q add s0 caps taken acts p s \<Longrightarrow> pu_blocked p = None \<Longrightarrow>
     live_system q add s0 caps taken acts (pump_timeout now p) s"
| live_unblock: "live_system q add s0 caps taken acts p s \<Longrightarrow> has_room p \<Longrightarrow>
     live_system q add s0 caps taken acts (pump_unblock now p) s"
| live_take: "live_system q add s0 caps taken acts p s \<Longrightarrow> pu_queue p = f # fs \<Longrightarrow>
     windows_live_input q env (Some f) s writes = (Continue s1, acts1) \<Longrightarrow>
     live_system q add s0 caps (taken @ [(f, windows_allowed s)]) (acts @ acts1) (p\<lparr>pu_queue := fs\<rparr>) s1"
| live_clip: "live_system q add s0 caps taken acts p s \<Longrightarrow> accepted_frame event = [] \<Longrightarrow>
     clip_step (wp_library q) (ws_clipboard s) (ws_config s, env, writes, event) = (Continue c1, acts1) \<Longrightarrow>
     live_system q add s0 caps taken (acts @ acts1) p (s\<lparr>ws_clipboard := c1\<rparr>)"
| live_other: "live_system q add s0 caps taken acts p s \<Longrightarrow> ws_clipboard s1 = ws_clipboard s \<Longrightarrow>
     live_system q add s0 caps taken acts p s1"

text \<open>The session's arm is that of its clipboard alone.\<close>

lemma send_input_frames_session:
  "send_input_frames cfg fs c (\<lambda>c w. (Ended e, [])) (\<lambda>c. ret (s\<lparr>ws_clipboard := c\<rparr>)) w =
     (case send_input_frames cfg fs c (\<lambda>c w. (Ended e, [])) ret w of
        (Continue c1, acts) \<Rightarrow> (Continue (s\<lparr>ws_clipboard := c1\<rparr>), acts)
      | (Ended e, acts) \<Rightarrow> (Ended e, acts))"
proof (induction fs arbitrary: c w)
  case (Cons f fs)
  obtain request c1 where after: "after_input_sent cfg f c = (request, c1)"
    by fastforce
  show ?case
    by (cases w; cases request)
      (simp_all add: Cons.IH after delayed_request_def send_else_def act_def split: prod.split session_outcome.split)
qed (simp add: ret_def)

lemma live_input_clip:
  assumes "windows_live_input q env (Some f) s writes = (Continue s1, acts)" "windows_allowed s"
  obtains c1 where "s1 = s\<lparr>ws_clipboard := c1\<rparr>"
    "clip_step (wp_library q) (ws_clipboard s)
       (ws_config s, we_clipboard env, writes, ClipInput (frame_with_role_epoch f (ws_epoch s))) = (Continue c1, acts)"
proof -
  obtain frames c where "prepare_input (wp_library q) (ws_config s) (we_clipboard env) (frame_with_role_epoch f (ws_epoch s))
      (ws_clipboard s) = (frames, c)"
    by fastforce
  then show thesis
    using assms that
      send_input_frames_session [of "ws_config s" frames c "ExitFault ConnectionFailed" s writes]
    by (auto simp: windows_live_input_def windows_clip_def clip_step_def input_arm_def stop_def
        split: prod.splits session_outcome.splits)
qed

lemma live_input_discards:
  "\<not> windows_allowed s \<Longrightarrow> windows_live_input q env (Some f) s writes = (Continue s, [])"
  by (simp add: windows_live_input_def ret_def)

text \<open>A frame without the epoch it is stamped with.\<close>

definition unstamped :: "frame \<Rightarrow> frame" where
  "unstamped f = frame_with_role_epoch f 0"

definition in_order :: "frame list \<Rightarrow> frame list" where
  "in_order fs = map unstamped (filter ordered fs)"

lemma in_order_simps [simp]:
  "in_order [] = []" "in_order (f # fs) = (if ordered f then unstamped f # in_order fs else in_order fs)"
  "in_order (xs @ ys) = in_order xs @ in_order ys" "in_order (filter ordered xs) = in_order xs"
  by (simp_all add: in_order_def)

lemma stamped [simp]:
  "ordered (frame_with_role_epoch f e) = ordered f" "unstamped (frame_with_role_epoch f e) = unstamped f"
  by (cases f; simp add: ordered_def is_motion_def unstamped_def)+

lemma in_order_passed: "in_order (passed acts) = map unstamped (passed acts)"
proof -
  have "filter ordered (passed acts) = passed acts"
  proof (induction acts)
    case (Cons a acts)
    then show ?case
      by (cases a) simp_all
  qed simp
  then show ?thesis
    by (simp add: in_order_def)
qed

definition waiting :: "pump \<Rightarrow> frame list" where
  "waiting p = pu_queue p @ (case pu_blocked p of Some f \<Rightarrow> [f] | None \<Rightarrow> [])"

lemma flush_lossy_order [simp]:
  "pu_blocked (flush_lossy p) = pu_blocked p" "in_order (pu_queue (flush_lossy p)) = in_order (pu_queue p)"
  by (simp_all add: flush_lossy_def enqueue_frame_def ordered_def is_motion_def frame_input_def Let_def)

lemma pump_order:
  "pu_blocked p = None \<Longrightarrow> in_order (waiting (pump_event add now event p)) =
     in_order (waiting p) @ in_order [captured_input_to_frame event]"
  "in_order (waiting (pump_timeout now p)) = in_order (waiting p)"
  "in_order (waiting (pump_unblock now p)) = in_order (waiting p)"
proof -
  have motion: "\<not> ordered (captured_input_to_frame event)"
    if "fst (coalesce add (captured_input_to_frame event) m)" for m
    using that by (cases event) (auto simp: coalesce_def ordered_def is_motion_def frame_input_def frame_control_def
        split: input_event.splits)
  show "in_order (waiting (pump_event add now event p)) = in_order (waiting p) @ in_order [captured_input_to_frame event]"
    if "pu_blocked p = None"
    using that motion [of "pu_motion p"]
    by (auto simp: pump_event_def waiting_def enqueue_frame_def Let_def split: prod.split bool.split)
qed (auto simp: pump_timeout_def pump_unblock_def waiting_def enqueue_frame_def split: option.split)

lemma live_system_captured:
  assumes "live_system q add s0 caps taken acts p s"
  shows "in_order (map fst taken) @ in_order (waiting p) = in_order (map captured_input_to_frame caps)"
  using assms
proof (induction rule: live_system.induct)
  case (live_start now)
  show ?case
    by (simp add: pump_new_def waiting_def)
next
  case (live_capture caps taken acts p s event now)
  then show ?case
    using pump_order(1) [of p add now event] by (simp flip: append_assoc)
next
  case (live_take caps taken acts p s f fs env writes s1 acts1)
  then show ?case
    by (auto simp: waiting_def)
qed (simp_all add: pump_order)

lemma clip_step_passes:
  assumes "clip_step lib c (cfg, env, writes, event) = (Continue c1, acts)" "barrier_ok bound c"
  shows "(\<exists>bound. barrier_ok bound c1) \<and>
    in_order (passed acts) @ in_order (lc_held c1) = in_order (lc_held c) @ in_order (accepted_frame event)"
proof -
  have "barrier_ok (max bound (le_now env)) c"
    using assms(2) by (auto simp: barrier_ok_def)
  then have one: "barrier_ok (max bound (le_now env)) c1"
    "passed acts @ filter ordered (lc_held c1) = filter ordered (lc_held c @ accepted_frame event)"
    using clip_step_keeps [OF assms(1)] by auto
  have "in_order (passed acts @ filter ordered (lc_held c1)) = in_order (filter ordered (lc_held c @ accepted_frame event))"
    using one(2) by (rule arg_cong)
  then have "in_order (passed acts) @ in_order (lc_held c1) = in_order (lc_held c) @ in_order (accepted_frame event)"
    by (simp del: filter_append)
  then show ?thesis
    using one(1) by blast
qed

lemma live_system_passes:
  assumes "live_system q add s0 caps taken acts p s" "barrier_ok 0 (ws_clipboard s0)" "lc_held (ws_clipboard s0) = []"
  shows "(\<exists>bound. barrier_ok bound (ws_clipboard s)) \<and>
    in_order (passed acts) @ in_order (lc_held (ws_clipboard s)) = in_order (map fst (filter snd taken))"
  using assms
proof (induction rule: live_system.induct)
  case (live_take caps taken acts p s f fs env writes s1 acts1)
  then obtain bound where ok: "barrier_ok bound (ws_clipboard s)"
    and past: "in_order (passed acts) @ in_order (lc_held (ws_clipboard s)) = in_order (map fst (filter snd taken))"
    by blast
  show ?case
  proof (cases "windows_allowed s")
    case True
    obtain c1 where c1: "s1 = s\<lparr>ws_clipboard := c1\<rparr>" "clip_step (wp_library q) (ws_clipboard s)
        (ws_config s, we_clipboard env, writes, ClipInput (frame_with_role_epoch f (ws_epoch s))) = (Continue c1, acts1)"
      using live_input_clip [OF live_take.hyps(3) True] .
    note one = clip_step_passes [OF c1(2) ok]
    have "in_order (passed (acts @ acts1)) @ in_order (lc_held c1) =
        in_order (passed acts) @ in_order (lc_held (ws_clipboard s)) @ in_order [f]"
      using one by simp
    also have "\<dots> = in_order (map fst (filter snd (taken @ [(f, windows_allowed s)])))"
      using past True by (simp flip: append_assoc)
    finally show ?thesis
      using one c1(1) by simp
  next
    case False
    then show ?thesis
      using live_input_discards [OF False, of q env f writes] live_take.hyps(3) ok past by auto
  qed
next
  case (live_clip caps taken acts p s event env writes c1 acts1)
  then obtain bound where "barrier_ok bound (ws_clipboard s)"
    by blast
  note one = clip_step_passes [OF live_clip.hyps(3) this]
  have "in_order (passed (acts @ acts1)) @ in_order (lc_held c1) = in_order (passed acts) @ in_order (lc_held (ws_clipboard s))"
    using one live_clip.hyps(2) by simp
  then show ?case
    using one live_clip by simp
qed auto

text \<open>C14: Captured input reaches the connection in order. However the thread that pumps it, the session and the events
  of the clipboard interleave, and whatever the channel's bound makes wait: the keys, buttons, wheel turns and control
  events that the session's loop has taken, then those in the channel and the one that waits for room, are exactly those
  the hooks captured, in the order they were captured; and those sent to the peer, then those held back behind a paste,
  are exactly the taken ones for which the session at that time was the controller, forwarding and not paused, in the
  same order. So none is sent twice or overtaken, and none is lost but what the session throws away while it may not
  pass it on. Only the pointer's motion may be summed up, pass a held paste, or be lost when the channel is full.\<close>

theorem captured_input_in_order:
  assumes "live_system q add s0 caps taken acts p s" "ws_clipboard s0 = live_new (wp_library q) cfg env peer"
  shows "in_order (map fst taken) @ in_order (waiting p) = in_order (map captured_input_to_frame caps) \<and>
    map unstamped (passed acts) @ in_order (lc_held (ws_clipboard s)) = in_order (map fst (filter snd taken))"
  using live_system_captured [OF assms(1)] live_system_passes [OF assms(1)] assms(2) by (simp add: in_order_passed)

text \<open>One key is passed on, the next is taken while the session is paused.\<close>

definition live_demo :: windows_session where
  "live_demo = windows_demo_state\<lparr>ws_local_controller := True\<rparr>"

lemma live_demo_takes:
  "\<exists>s acts. windows_live_input windows_demo (windows_demo_env 1) (Some (frame_input INITIAL_ROLE_EPOCH (Key 29 True))) live_demo 9 =
     (Continue s, acts)"
  "windows_allowed live_demo"
  by (simp_all add: live_demo_def windows_demo_defs windows_live_input_def windows_clip_def windows_allowed_def input_arm_def
      prepare_input_def is_paste_def frame_input_def live_new_def demo_defs)

theorem captured_input_in_order_witness:
  "\<exists>acts p s. live_system windows_demo (\<lambda>x y. x) live_demo [CapturedEvent (Key 29 True), CapturedEvent (Key 30 True)]
       [(frame_input INITIAL_ROLE_EPOCH (Key 29 True), True), (frame_input INITIAL_ROLE_EPOCH (Key 30 True), False)] acts p s \<and>
     map unstamped (passed acts) @ in_order (lc_held (ws_clipboard s)) = [frame_input 0 (Key 29 True)]"
proof -
  let ?add = "\<lambda>x y :: f64. x" and ?f = "\<lambda>k. frame_input INITIAL_ROLE_EPOCH (Key k True)"
  define p where "p = pump_event ?add 2 (CapturedEvent (Key 30 True)) (pump_event ?add 1 (CapturedEvent (Key 29 True)) (pump_new 0))"
  have queue: "pu_queue p = [?f 29, ?f 30]" "pu_blocked (pump_event ?add 1 (CapturedEvent (Key 29 True)) (pump_new 0)) = None"
    by (simp_all add: p_def pump_event_def coalesce_def frame_input_def pump_new_def enqueue_frame_def has_room_def
        flush_lossy_def f64_is_zero_def f64_value_def LIVE_INPUT_QUEUE_CAPACITY_def Let_def)
  have "live_system windows_demo ?add live_demo ([] @ [CapturedEvent (Key 29 True)]) [] []
      (pump_event ?add 1 (CapturedEvent (Key 29 True)) (pump_new 0)) live_demo"
    by (rule live_capture [OF live_start]) (simp add: pump_new_def)
  then have run: "live_system windows_demo ?add live_demo (([] @ [CapturedEvent (Key 29 True)]) @ [CapturedEvent (Key 30 True)]) [] [] p live_demo"
    unfolding p_def using queue(2) by (rule live_capture)
  obtain s acts where "windows_live_input windows_demo (windows_demo_env 1) (Some (?f 29)) live_demo 9 = (Continue s, acts)"
    using live_demo_takes(1) by blast
  from live_take [OF run queue(1) this]
  have "live_system windows_demo ?add live_demo [CapturedEvent (Key 29 True), CapturedEvent (Key 30 True)]
      [(?f 29, True)] acts (p\<lparr>pu_queue := [?f 30]\<rparr>) s"
    using live_demo_takes(2) by simp
  then have "live_system windows_demo ?add live_demo [CapturedEvent (Key 29 True), CapturedEvent (Key 30 True)]
      [(?f 29, True)] acts (p\<lparr>pu_queue := [?f 30]\<rparr>) (s\<lparr>ws_paused := True\<rparr>)"
    by (rule live_other) simp
  from live_take [OF this _ live_input_discards, of "?f 30" "[]"]
  have taken: "live_system windows_demo ?add live_demo [CapturedEvent (Key 29 True), CapturedEvent (Key 30 True)]
      [(?f 29, True), (?f 30, False)] acts (p\<lparr>pu_queue := []\<rparr>) (s\<lparr>ws_paused := True\<rparr>)"
    by (simp add: windows_allowed_def)
  have "ws_clipboard live_demo = live_new (wp_library windows_demo) demo_config (we_clipboard (windows_demo_env 0)) (wp_clipboard windows_demo)"
    by (simp add: live_demo_def windows_demo_state_def windows_state_def)
  from captured_input_in_order [OF taken this]
  have "map unstamped (passed acts) @ in_order (lc_held (ws_clipboard (s\<lparr>ws_paused := True\<rparr>))) = [frame_input 0 (Key 29 True)]"
    by (simp add: ordered_def is_motion_def frame_input_def unstamped_def)
  then show ?thesis
    using taken by blast
qed

end
