(* ===== verification/Civil.thy ===== *)
theory Civil
  imports Main
begin

text \<open>
  The time stamps of the log: \<open>utc_timestamp\<close> and \<open>civil_from_days\<close> in
  \<open>apps/edge-receiver-linux/src/main.rs\<close>. The days of a \<open>u64\<close> of seconds are far from the bounds of the
  integers used, and no quotient is of a negative number, so that the integers are \<open>int\<close> here.
\<close>

section \<open>Dates\<close>

definition year_of_era :: "int \<Rightarrow> int" where
  "year_of_era day_of_era =
     (day_of_era - day_of_era div 1460 + day_of_era div 36524 - day_of_era div 146096) div 365"

definition month_and_day :: "int \<Rightarrow> int \<times> int" where
  "month_and_day day_of_year =
     (let shifted_month = (5 * day_of_year + 2) div 153;
          day = day_of_year - (153 * shifted_month + 2) div 5 + 1
      in (if shifted_month < 10 then shifted_month + 3 else shifted_month - 9, day))"

definition civil_from_days :: "int \<Rightarrow> int \<times> int \<times> int" where
  "civil_from_days days =
     (let z = days + 719468;
          era = z div 146097;
          day_of_era = z mod 146097;
          yoe = year_of_era day_of_era;
          day_of_year = day_of_era - (365 * yoe + yoe div 4 - yoe div 100)
      in case month_and_day day_of_year of
           (month, day) \<Rightarrow> (yoe + era * 400 + (if month \<le> 2 then 1 else 0), month, day))"

fun decimal :: "nat \<Rightarrow> string" where
  "decimal n = (if n < 10 then [char_of (48 + n)] else decimal (n div 10) @ [char_of (48 + n mod 10)])"

declare decimal.simps [simp del]

definition padded :: "nat \<Rightarrow> int \<Rightarrow> string" where
  "padded width n =
     (let text = decimal (nat n) in replicate (width - length text) (CHR ''0'') @ text)"

definition utc_timestamp :: "nat \<Rightarrow> nat \<Rightarrow> string" where
  "utc_timestamp seconds millis =
     (let of_day = int (seconds mod 86400) in
      case civil_from_days (int (seconds div 86400)) of
        (year, month, day) \<Rightarrow>
          padded 4 year @ ''-'' @ padded 2 month @ ''-'' @ padded 2 day @ ''T'' @ padded 2 (of_day div 3600) @ '':'' @
          padded 2 (of_day mod 3600 div 60) @ '':'' @ padded 2 (of_day mod 60) @ ''.'' @ padded 3 (int millis) @ ''Z'')"

section \<open>The calendar\<close>

definition leap_year :: "int \<Rightarrow> bool" where
  "leap_year y \<longleftrightarrow> 4 dvd y \<and> (\<not> 100 dvd y \<or> 400 dvd y)"

definition days_in_month :: "int \<Rightarrow> int \<Rightarrow> int" where
  "days_in_month y m = (if m = 2 then if leap_year y then 29 else 28 else if m \<in> {4, 6, 9, 11} then 30 else 31)"

definition next_date :: "int \<times> int \<times> int \<Rightarrow> int \<times> int \<times> int" where
  "next_date date =
     (case date of (y, m, d) \<Rightarrow>
        if d < days_in_month y m then (y, m, d + 1) else if m < 12 then (y, m + 1, 1) else (y + 1, 1, 1))"

section \<open>Years that begin in March\<close>

definition year_start :: "int \<Rightarrow> int" where
  "year_start y = 365 * y + y div 4 - y div 100"

definition year_length :: "int \<Rightarrow> int" where
  "year_length y = (if leap_year (y + 1) then 366 else 365)"

text \<open>The years of an era lie one after the other, and the quotient finds the year at its first and last day.\<close>

lemma first_days:
  "list_all (\<lambda>y. year_of_era (year_start y) = y) (map int [0..<400])"
  by (simp add: upt_rec year_of_era_def year_start_def)

lemma last_days:
  "list_all (\<lambda>y. year_of_era (year_start y + 364) = y) (map int [0..<400])"
  by (simp add: upt_rec year_of_era_def year_start_def)

lemma leap_days:
  "list_all (\<lambda>y. year_of_era (year_start y + 365) = y) (map (\<lambda>n. 4 * int n + 3) [n\<leftarrow>[0..<100]. n \<notin> {24, 49, 74}])"
  by (simp add: upt_rec year_of_era_def year_start_def)

lemma in_range:
  assumes "list_all P (map int [0..<n])" "0 \<le> y" "y < int n"
  shows "P y"
proof -
  have "nat y \<in> set [0..<n]" "y = int (nat y)"
    using assms(2,3) by simp_all
  then show ?thesis
    using assms(1) unfolding list_all_iff set_map by blast
qed

lemma leap_year_mod:
  assumes "leap_year (y + 1)" "0 \<le> y" "y < 400"
  obtains n where "y = 4 * int n + 3" "n < 100" "n \<notin> {24, 49, 74}"
proof -
  have "4 dvd y + 1"
    using assms(1) by (simp add: leap_year_def)
  then have "y mod 4 = 3"
    by presburger
  then have "y = 4 * (y div 4) + 3"
    using mult_div_mod_eq [of 4 y] by simp
  moreover have "0 \<le> y div 4"
    using assms(2) by simp
  ultimately obtain n where y: "y = 4 * int n + 3"
    using nonneg_int_cases by metis
  have "\<not> leap_year 100" "\<not> leap_year 200" "\<not> leap_year 300"
    by (simp_all add: leap_year_def)
  then have "y \<noteq> 99" "y \<noteq> 199" "y \<noteq> 299"
    using assms(1) by auto
  then have "n \<noteq> 24" "n \<noteq> 49" "n \<noteq> 74"
    using y by auto
  then show thesis
    using that [OF y] assms(3) y by simp
qed

lemma year_of_last_day:
  assumes "0 \<le> y" "y < 400"
  shows "year_of_era (year_start y + year_length y - 1) = y"
proof (cases "leap_year (y + 1)")
  case True
  obtain n where n: "y = 4 * int n + 3" "n < 100" "n \<notin> {24, 49, 74}"
    using leap_year_mod [OF True assms] by blast
  then have "y \<in> set (map (\<lambda>n. 4 * int n + 3) [n\<leftarrow>[0..<100]. n \<notin> {24, 49, 74}])"
    by auto
  then have "year_of_era (year_start y + 365) = y"
    using leap_days unfolding list_all_iff by blast
  then show ?thesis
    using True by (simp add: year_length_def add.commute)
next
  case False
  then show ?thesis
    using in_range [OF last_days, of y] assms by (simp add: year_length_def add.commute)
qed

lemma minus_div_mono:
  fixes x y k :: int
  assumes "x \<le> y" "0 < k"
  shows "x - x div k \<le> y - y div k"
proof -
  have "(y - x) * 1 \<le> (y - x) * k"
    using assms by (intro mult_left_mono) simp_all
  then have "y \<le> x + (y - x) * k"
    by simp
  then have "y div k \<le> x div k + (y - x)"
    using zdiv_mono1 [of y "x + (y - x) * k" k] assms(2) by simp
  then show ?thesis
    by simp
qed

lemma year_of_era_mono:
  assumes "x \<le> y"
  shows "year_of_era x \<le> year_of_era y"
proof -
  have quarter: "d div 146096 = (d div 36524) div 4" for d :: int
    by (simp add: div_mult2_eq [symmetric] zdiv_zmult2_eq [symmetric])
  have "x div 36524 - x div 146096 \<le> y div 36524 - y div 146096"
    unfolding quarter using assms by (intro minus_div_mono zdiv_mono1) simp_all
  then show ?thesis
    unfolding year_of_era_def using minus_div_mono [OF assms, of 1460] by (intro zdiv_mono1) simp_all
qed

lemma year_found:
  assumes "0 \<le> y" "y < 400" "0 \<le> n" "n < year_length y"
  shows "year_of_era (year_start y + n) = y"
  using year_of_era_mono [of "year_start y" "year_start y + n"] in_range [OF first_days, of y]
    year_of_era_mono [of "year_start y + n" "year_start y + year_length y - 1"] year_of_last_day [of y] assms by simp

lemma div_next:
  fixes y k :: int
  assumes "0 < k"
  shows "(y + 1) div k = y div k + (if k dvd y + 1 then 1 else 0)"
proof (cases "y mod k + 1 = k")
  case True
  have "y + 1 = k * (y div k) + (y mod k + 1)"
    by simp
  then have "y + 1 = k * (y div k + 1)"
    unfolding True by (simp add: algebra_simps)
  then show ?thesis
    using assms by simp
next
  case False
  have r: "0 \<le> y mod k + 1" "y mod k + 1 < k"
    using pos_mod_bound [OF assms, of y] pos_mod_sign [OF assms, of y] False by linarith+
  have sum: "y + 1 = k * (y div k) + (y mod k + 1)"
    by simp
  have "(y + 1) mod k = y mod k + 1"
    using int_mod_pos_eq [OF sum r] .
  then have "\<not> k dvd y + 1"
    using pos_mod_sign [OF assms, of y] by (simp add: dvd_eq_mod_eq_0)
  then show ?thesis
    using int_div_pos_eq [OF sum r] by simp
qed

lemma next_year_start:
  assumes "0 \<le> y" "y < 400"
  shows "year_start y + year_length y = (if y = 399 then 146097 else year_start (y + 1))"
proof -
  have "400 dvd y + 1 \<longleftrightarrow> y = 399"
    using assms zdvd_imp_le [of 400 "y + 1"] by auto
  moreover have "100 dvd y + 1 \<Longrightarrow> 4 dvd y + 1"
    by (rule dvd_trans [of _ 100]) simp_all
  ultimately show ?thesis
    using div_next [of 4 y] div_next [of 100 y]
    by (auto simp: year_start_def year_length_def leap_year_def)
qed

section \<open>Months\<close>

text \<open>The days up to the 28th of February, in a year that begins in March.\<close>

definition month_steps :: "int \<Rightarrow> bool" where
  "month_steps n =
     (case (month_and_day n, month_and_day (n + 1)) of ((m, d), (m', d')) \<Rightarrow>
        (m = 2 \<longrightarrow> d < 28) \<and>
        (if d < (if m = 2 then 28 else if m = 4 \<or> m = 6 \<or> m = 9 \<or> m = 11 then 30 else 31)
         then m' = m \<and> d' = d + 1 else m \<noteq> 2 \<and> m' = (if m < 12 then m + 1 else 1) \<and> d' = 1))"

lemma all_month_steps: "list_all month_steps (map int [0..<364])"
  by (simp add: upt_rec month_steps_def month_and_day_def)


section \<open>The dates of an era\<close>

definition date_of :: "int \<Rightarrow> int \<Rightarrow> int \<Rightarrow> int \<times> int \<times> int" where
  "date_of era y n =
     (case month_and_day n of (m, d) \<Rightarrow> (y + era * 400 + (if m \<le> 2 then 1 else 0), m, d))"

definition in_year :: "int \<Rightarrow> int \<Rightarrow> bool" where
  "in_year y n \<longleftrightarrow> 0 \<le> y \<and> y < 400 \<and> 0 \<le> n \<and> n < year_length y"

lemma year_in_era:
  assumes "0 \<le> y" "y < 400"
  shows "0 \<le> year_start y" "year_start y + year_length y \<le> 146097"
proof -
  show "0 \<le> year_start y"
    using assms by (simp add: year_start_def)
  show "year_start y + year_length y \<le> 146097"
  proof (cases "y = 399")
    case True
    then show ?thesis
      using next_year_start [OF assms] by simp
  next
    case False
    then have "year_start (y + 1) \<le> 365 * 399 + 99"
      using assms by (simp add: year_start_def)
    then show ?thesis
      using next_year_start [OF assms] False by simp
  qed
qed

lemma civil_at:
  assumes "in_year y n"
  shows "civil_from_days (era * 146097 + (year_start y + n) - 719468) = date_of era y n"
proof -
  have doe: "0 \<le> year_start y + n" "year_start y + n < 146097"
    using assms year_in_era [of y] by (auto simp: in_year_def)
  have "(era * 146097 + (year_start y + n)) div 146097 = era" "(era * 146097 + (year_start y + n)) mod 146097 = year_start y + n"
    using doe by simp_all
  moreover have "year_of_era (year_start y + n) = y"
    using assms year_found by (simp add: in_year_def)
  ultimately show ?thesis
    by (simp add: civil_from_days_def date_of_def year_start_def Let_def)
qed

lemma leap_year_in_era: "leap_year (y + era * 400 + 1) = leap_year (y + 1)"
proof -
  have "k dvd y + era * 400 + 1 \<longleftrightarrow> k dvd y + 1" if "k dvd 400" for k :: int
    using dvd_add_left_iff [of k "era * 400" "y + 1"] that by (simp add: algebra_simps)
  then show ?thesis
    by (simp add: leap_year_def)
qed

lemma next_in_year:
  assumes "in_year y n" "n + 1 < year_length y"
  shows "date_of era y (n + 1) = next_date (date_of era y n)"
proof (cases "n < 364")
  case True
  obtain m d m' d' where md: "month_and_day n = (m, d)" "month_and_day (n + 1) = (m', d')"
    by fastforce
  have "month_steps n"
    using in_range [OF all_month_steps] assms(1) True by (simp add: in_year_def)
  then show ?thesis
    using md by (auto simp: month_steps_def date_of_def next_date_def days_in_month_def split: if_splits)
next
  case False
  then have "n = 364" "leap_year (y + 1)"
    using assms by (auto simp: in_year_def year_length_def split: if_splits)
  then have "leap_year (y + era * 400 + 1)"
    by (simp add: leap_year_in_era)
  then show ?thesis
    using \<open>n = 364\<close> by (simp add: date_of_def next_date_def month_and_day_def days_in_month_def)
qed

lemma next_after_year:
  assumes "in_year y n" "n + 1 = year_length y"
  shows "next_date (date_of era y n) = date_of (if y = 399 then era + 1 else era) (if y = 399 then 0 else y + 1) 0"
proof -
  show ?thesis
    using assms leap_year_in_era [of y era]
    by (auto simp: year_length_def date_of_def next_date_def month_and_day_def days_in_month_def split: if_splits)
qed

text \<open>C40: The dates in the log are those of the calendar. For every number of days since the first of January 1970,
  the closed formula of \<open>civil_from_days\<close> gives the date that is reached by as many steps from one day to the next
  in the Gregorian calendar, with its months, leap years and centuries.\<close>

theorem civil_from_days_counts:
  "civil_from_days (int n) = (next_date ^^ n) (1970, 1, 1)"
proof -
  have "\<exists>era y k. in_year y k \<and> int n + 719468 = era * 146097 + (year_start y + k) \<and>
      (next_date ^^ n) (1970, 1, 1) = date_of era y k"
  proof (induction n)
    case 0
    have "in_year 369 306 \<and> int 0 + 719468 = 4 * 146097 + (year_start 369 + 306) \<and>
        (next_date ^^ 0) (1970, 1, 1) = date_of 4 369 306"
      by (simp add: in_year_def year_length_def year_start_def date_of_def month_and_day_def leap_year_def)
    then show ?case
      by blast
  next
    case (Suc n)
    then obtain era y k where now: "in_year y k" "int n + 719468 = era * 146097 + (year_start y + k)"
      "(next_date ^^ n) (1970, 1, 1) = date_of era y k"
      by blast
    show ?case
    proof (cases "k + 1 < year_length y")
      case True
      then have "in_year y (k + 1)" "int (Suc n) + 719468 = era * 146097 + (year_start y + (k + 1))"
        "(next_date ^^ Suc n) (1970, 1, 1) = date_of era y (k + 1)"
        using now next_in_year [OF now(1) True] by (simp_all add: in_year_def)
      then show ?thesis
        by blast
    next
      case False
      then have last: "k + 1 = year_length y"
        using now(1) by (simp add: in_year_def)
      define era' y' where "era' = (if y = 399 then era + 1 else era)" and "y' = (if y = 399 then 0 else y + 1)"
      have "in_year y' 0"
        using now(1) by (simp add: in_year_def y'_def year_length_def)
      moreover have "year_start 0 = 0"
        by (simp add: year_start_def)
      then have "int (Suc n) + 719468 = era' * 146097 + (year_start y' + 0)"
        using now(2) next_year_start [of y] now(1) last by (auto simp: in_year_def era'_def y'_def algebra_simps)
      moreover have "(next_date ^^ Suc n) (1970, 1, 1) = date_of era' y' 0"
        using now(3) next_after_year [OF now(1) last] by (simp add: era'_def y'_def)
      ultimately show ?thesis
        by blast
    qed
  qed
  then obtain era y k where "in_year y k" "int n = era * 146097 + (year_start y + k) - 719468"
    "(next_date ^^ n) (1970, 1, 1) = date_of era y k"
    by (auto simp: algebra_simps)
  then show ?thesis
    using civil_at by simp
qed

end
