(* ===== verification/Spec2Isabelle.thy ===== *)
theory Spec2Isabelle
  imports Protocol Framing Ping Role Liveness ClipboardTransfer Crypto NotificationSync Noise Keymap Audio
    PhoneLoop CaptureSafety SupervisorSafety ComputerPairing SessionsHandover NodeProperties Injector ClipboardExchange
    WindowsProperties LiveInput Civil
begin

text \<open>
  MouseWithoutBorders lets two computers share one keyboard and mouse, a clipboard, sound and notifications, and lets
  phones join for some of it. One program runs on Linux (\<open>apps/edge-receiver-linux\<close>), one on Windows
  (\<open>apps/edge-controller-win\<close>), over the libraries in \<open>crates\<close>. This development models both programs from the
  bytes on the wire up to whole sessions.

  \<^bold>\<open>How the program works.\<close> A computer dials the other or accepts its connection. Both check each other's key,
  and, if it is unknown, ask their users to compare a code. Then one session runs. In it, one computer is the
  controller: what is typed on it at the edge of its screen goes to the other. The dialling side keeps the
  \<open>RoleCoordinator\<close>, which hands the role over in two phases; each handover starts a new epoch, and input and
  control frames carry the epoch they belong to. Either side releases what it injected when the role, the user, the
  watchdog or the end of the session asks for it.

  \<^bold>\<open>Theories and code.\<close>

  \<^item> \<open>Prelude\<close>, \<open>Machines\<close>, \<open>BTree\<close>, \<open>StateFile\<close>: machine integers, results, clocks, byte strings; the locales;
    \<open>BTreeMap\<close>; the files written by atomic replacement.
  \<^item> \<open>Protocol\<close>, \<open>Framing\<close>, \<open>Ping\<close>: \<open>crates/edge-protocol\<close>, all messages, the length-prefixed framing and the
    round-trip meter in the heartbeats.
  \<^item> \<open>Crypto\<close>, \<open>Noise\<close>: \<open>crates/edge-crypto\<close> and the secure frames of \<open>crates/edge-runtime\<close>: keys, pins, the pairing
    code, packets, the handshake, and the schedule that lets bulk data through.
  \<^item> \<open>Role\<close>, \<open>Liveness\<close>: \<open>crates/edge-runtime\<close>: the coordinator and the listener's checks, the stored role and audio
    route; the watchdog, the input gate, the decision of a pairing.
  \<^item> \<open>Clipboard\<close>, \<open>ClipboardTransfer\<close>: \<open>crates/edge-clipboard\<close>: changes, canonical images, transfers in chunks.
  \<^item> \<open>Keymap\<close>, \<open>Geometry\<close>, \<open>Audio\<close>: \<open>crates/edge-keymap\<close>, \<open>crates/edge-geometry\<close>, and the datagrams and the jitter
    buffer of \<open>crates/edge-audio\<close>.
  \<^item> \<open>Capture\<close>, \<open>CaptureSafety\<close>, \<open>SupervisorSafety\<close>, \<open>Injector\<close>: \<open>crates/edge-windows-input\<close>: the hooks that take
    the input at the edge of the screen, the supervisor that renews them, and the injector.
  \<^item> \<open>NotificationStore\<close>, \<open>NotificationHistory\<close>, \<open>NotificationLink\<close>, \<open>NotificationSync\<close>: \<open>notification_hub.rs\<close>: the
    history of one coordinator, its replicas, and the links between them.
  \<^item> \<open>PhonePairing\<close>, \<open>PhoneSessions\<close>, \<open>PhoneLoop\<close>: \<open>phone_pairing.rs\<close>, \<open>phone.rs\<close>, \<open>phone_audio.rs\<close>.
  \<^item> \<open>SessionProgram\<close>: the effects of a session, its programs over them, and the calculus for them.
  \<^item> \<open>ReceiverSession\<close>, \<open>ReceiverSafety\<close>, \<open>ReceiverHandover\<close>: \<open>handle_controller\<close>, the session of the accepting side in
    the Linux program's \<open>main.rs\<close>.
  \<^item> \<open>ConnectorSession\<close>, \<open>ConnectorSafety\<close>, \<open>ConnectorProperties\<close>: \<open>run_linux_controller_session\<close>, that of the dialling
    side. \<open>SessionsHandover\<close> runs both against each other.
  \<^item> \<open>ComputerPairing\<close>, \<open>Node\<close>, \<open>NodeSafety\<close>, \<open>NodeProperties\<close>: \<open>connect_linux_peer\<close>, \<open>run_node\<close> and \<open>acceptor.rs\<close>: the
    set-up of a connection, and the loop that dials, admits, pairs and ends sessions.
  \<^item> \<open>LiveClipboard\<close>, \<open>PasteBarrier\<close>, \<open>LinuxClipboard\<close>, \<open>ClipboardExchange\<close>: the clipboards of both programs during a
    session, \<open>LiveClipboardState\<close> and \<open>ReceiverClipboardState\<close>, and one against the other.
  \<^item> \<open>WindowsSession\<close>, \<open>WindowsSafety\<close>, \<open>WindowsProperties\<close>: \<open>run_connected_inner\<close> of the Windows program's
    \<open>main.rs\<close>, with its clipboard inside. \<open>LiveInput\<close>: the thread that feeds it, and both together from the hooks to
    the connection.
  \<^item> \<open>Civil\<close>: the dates in the log.

  \<^bold>\<open>How code becomes definitions.\<close> A struct is a record, an enum a datatype, an integer a word of its width, a clock
  reading a count of nanoseconds given to each step. A function that changes its argument returns the new one beside
  its result. An error is the left of a sum, a panic or an \<open>Option\<close> is None. Every arm of a loop's \<open>select!\<close> is an event;
  what a device, a timer, a user or the other computer does is the input of a step, and what is asked of a device is an
  effect. A state file is a name in a directory with synced or unsynced contents, and the writer the list of its file
  operations. A write of the session's frames may break off at any point: each step is given the number of writes that
  succeed, and \<open>?\<close> and \<open>.ok()\<close> are told apart. Loops without a bound are step functions over lists of events, and the
  properties hold of lists of any length; no fuel is used. The other recursive functions have termination proofs.

  \<^bold>\<open>What the lemmas show.\<close>

  \<^item> Roles: a coordinator is a committed assignment with at most one proposal (\<open>simulated_machine\<close>); an epoch
    determines its controller; the three sessions act on the committed assignment, and a handover between two of them
    ends with both on the same controller.
  \<^item> Input: no session leaves a key pressed that it may no longer hold, none injects what is not the controlling peer's
    input of the current epoch; the Windows injector holds in the system what the session means; the captured stream is
    bracketed, kept from Windows exactly while captured, and reaches the connection in order.
  \<^item> Trust: keys are pinned only with both users' consent or the one-time token of a phone; both sides of a pairing come
    to the same outcome; a phone stays within its features.
  \<^item> Data: what is sent in frames, packets, datagrams and transfers is what is received, corrupt input is refused, and
    buffers are bounded. A notification history only moves forward, and replicas converge to it.
  \<^item> Clipboard: a paste of something new goes out directly behind the frames that bring it, and no paste waits longer
    than five seconds; a text crosses once; a text that a phone copied is withheld when the setting says so.
  \<^item> Failure: state files survive failing operations and crashes whole; memory and file agree; sessions end after
    silence; the node goes on dialling.

  Some theorems state what the code does and does not mean to do: the paste that waits for nothing
  (\<open>cancelled_image_stalls_paste\<close>) and the report of the return edge that is never accepted
  (\<open>capture_cursor_tracked\<close>). Three others leave such cases out, and say so: an image that is pasted after something else
  was sent is not sent again (\<open>paste_after_content\<close>); a phone's text is given away in answer to a \<open>TextRequest\<close>, and
  images from phones are not recorded as theirs (\<open>phone_content_withheld\<close>); a dialled session may be with a key that is
  also a phone's (\<open>node_sessions_paired\<close>).

  \<^bold>\<open>The interfaces.\<close> \<open>guarded_machine\<close>, \<open>progressing_machine\<close> and \<open>simulated_machine\<close> lift what holds of one step to all
  runs, and are interpreted by the coordinator, the pin store, the watchdog, the round-trip meter, the jitter buffer,
  the incoming transfer, the notification history and links, and the phone requests; \<open>keyed_table\<close> by \<open>BTree\<close>;
  \<open>length_framing\<close> by the packets; \<open>capture_contract\<close> by three contracts of the Windows callbacks; \<open>session_loop\<close>,
  \<open>connector_invariant\<close> and \<open>clip_neutral\<close> by the sessions.

  \<^bold>\<open>Parameters.\<close> MessagePack, TOML, SHA-256, the image codec, the Noise library, the AEAD and \<open>SendInput\<close> are arguments;
  theorems that need a law of them name it (\<open>frame_codec\<close>, \<open>aead_ok\<close> and the like), and their witnesses give a function
  that has it. The arithmetic of \<open>f64\<close> is that of the reals in \<open>Geometry\<close>, with its conversions a parameter; the sum of
  two motions in \<open>LiveInput\<close> is a parameter.

  \<^bold>\<open>Not modelled.\<close> The devices: input on Linux (\<open>crates/edge-linux-input\<close>), sound (\<open>edge-linux-audio\<close>,
  \<open>edge-windows-audio\<close>, \<open>edge-audio-output\<close>, the samples in \<open>edge-audio\<close>), the desktop's clipboard and notifications: they
  are effects and inputs. The tray and the windows (\<open>tray.rs\<close>, \<open>crates/edge-ui\<close>), counters and log lines: display. The
  configuration's TOML, the control socket, and the start-up of the Windows program, which repeats the dialling side.
  Of \<open>notification_hub.rs\<close>, the phone's source of notifications, the bridge to the desktop and its socket.
\<close>

end
